(* ===== verification/Tenjin_Prelude.thy ===== *)
theory Tenjin_Prelude
  imports Main
begin

text \<open>
  Shared vocabulary of the development: the exceptions the Python code raises, the
  state-and-exception computations every effectful routine is translated to, the simp
  collections the component theories extend, and two generic interfaces (codecs and
  transition systems with an invariant) stated as locales.

  A routine of type \<open>('s, 'a) py\<close> takes the outside world (the Redis servers, the
  databases, the file system, the clock), of an unspecified type \<open>'s\<close>, and gives either
  the exception that escapes or the returned value, with the world it leaves behind.
\<close>

section \<open>Exceptions\<close>

text \<open>
  The classes the code raises, catches or tells apart. \<open>HTTPException\<close> carries the status
  code, \<open>RedisError\<close> whether its \<open>error_type\<close> is \<open>NETWORK\<close>.
\<close>

datatype exn =
    KeyError | ValueError | IndexError | TypeError | AttributeError | RuntimeError
  | OverflowError | OSError | NameError
  | HTTPException int
  | IntegrityError | OperationalError | InternalError | OtherDatabaseError
  | RedisError bool
  | RecoverableDatabaseException | UnrecoverableDatabaseException
  | CacheCoherenceException | DuplicateRequestException | ConflictingIntentException
  | InvalidSignature | InvalidToken
  | InvalidKeyError | ImmatureSignatureError | InvalidIssuedAtError | InvalidIssuerError
  | SQLAlchemyError | ValidationError | JSONDecodeError | UnicodeEncodeError
  | SMTPTimeoutError | SMTPReadTimeoutError | SMTPServerDisconnected | SMTPOtherError
  | OtherException

section \<open>Computations\<close>

type_synonym ('s, 'a) py = "'s \<Rightarrow> (exn + 'a) \<times> 's"

named_theorems py_simps \<open>evaluation of computations\<close>

definition pure :: "'a \<Rightarrow> ('s, 'a) py" where
  "pure x s = (Inr x, s)"

definition raise :: "exn \<Rightarrow> ('s, 'a) py" where
  "raise e s = (Inl e, s)"

definition bindM :: "('s, 'a) py \<Rightarrow> ('a \<Rightarrow> ('s, 'b) py) \<Rightarrow> ('s, 'b) py" where
  "bindM m f s = (case m s of (Inl e, s') \<Rightarrow> (Inl e, s') | (Inr x, s') \<Rightarrow> f x s')"

definition thenM :: "('s, 'a) py \<Rightarrow> ('s, 'b) py \<Rightarrow> ('s, 'b) py" where
  "thenM m k = bindM m (\<lambda>_. k)"

text \<open>\<open>tryM m h\<close> is \<open>try: m except ...: h\<close>, with the handler given the exception.\<close>

definition tryM :: "('s, 'a) py \<Rightarrow> (exn \<Rightarrow> ('s, 'a) py) \<Rightarrow> ('s, 'a) py" where
  "tryM m h s = (case m s of (Inl e, s') \<Rightarrow> h e s' | (Inr x, s') \<Rightarrow> (Inr x, s'))"

text \<open>
  \<open>finallyM m f\<close> is \<open>try: m finally: f\<close>: the cleanup always runs, and an exception of its
  own replaces the outcome of the body.
\<close>

definition finallyM :: "('s, 'a) py \<Rightarrow> ('s, unit) py \<Rightarrow> ('s, 'a) py" where
  "finallyM m f s =
     (case m s of (r, s') \<Rightarrow>
        (case f s' of (Inl e, s'') \<Rightarrow> (Inl e, s'') | (Inr _, s'') \<Rightarrow> (r, s'')))"

definition lift_sum :: "exn + 'a \<Rightarrow> ('s, 'a) py" where
  "lift_sum r s = (r, s)"

primrec for_each :: "('a \<Rightarrow> ('s, unit) py) \<Rightarrow> 'a list \<Rightarrow> ('s, unit) py" where
  "for_each f [] = pure ()"
| "for_each f (x # xs) = thenM (f x) (for_each f xs)"

definition runs_to :: "('s, 'a) py \<Rightarrow> 's \<Rightarrow> 'a \<Rightarrow> 's \<Rightarrow> bool" where
  "runs_to m s x s' \<longleftrightarrow> m s = (Inr x, s')"

lemma pure_app [py_simps, simp]: "pure x s = (Inr x, s)"
  by (simp add: pure_def)

lemma raise_app [py_simps, simp]: "raise e s = (Inl e, s)"
  by (simp add: raise_def)

lemma lift_sum_app [py_simps, simp]: "lift_sum r s = (r, s)"
  by (simp add: lift_sum_def)

lemma bindM_Inr [py_simps, simp]: "m s = (Inr x, s') \<Longrightarrow> bindM m f s = f x s'"
  by (simp add: bindM_def)

lemma bindM_Inl [py_simps, simp]: "m s = (Inl e, s') \<Longrightarrow> bindM m f s = (Inl e, s')"
  by (simp add: bindM_def)

lemma thenM_app [py_simps]: "thenM m k s = bindM m (\<lambda>_. k) s"
  by (simp add: thenM_def)

lemma thenM_Inr [simp]: "m s = (Inr x, s') \<Longrightarrow> thenM m k s = k s'"
  by (simp add: thenM_def)

lemma thenM_Inl [simp]: "m s = (Inl e, s') \<Longrightarrow> thenM m k s = (Inl e, s')"
  by (simp add: thenM_def)

lemma tryM_Inr [py_simps, simp]: "m s = (Inr x, s') \<Longrightarrow> tryM m h s = (Inr x, s')"
  by (simp add: tryM_def)

lemma tryM_Inl [py_simps, simp]: "m s = (Inl e, s') \<Longrightarrow> tryM m h s = h e s'"
  by (simp add: tryM_def)

lemma bindM_eq_Inr_iff:
  "bindM m f s = (Inr y, s') \<longleftrightarrow> (\<exists>x s1. m s = (Inr x, s1) \<and> f x s1 = (Inr y, s'))"
  by (auto simp: bindM_def split: prod.splits sum.splits)

lemma bindM_eq_InrE:
  assumes "bindM m f s = (Inr y, s')"
  obtains x s1 where "m s = (Inr x, s1)" and "f x s1 = (Inr y, s')"
  using assms by (auto simp: bindM_eq_Inr_iff)

lemma thenM_eq_Inr_iff:
  "thenM m k s = (Inr y, s') \<longleftrightarrow> (\<exists>x s1. m s = (Inr x, s1) \<and> k s1 = (Inr y, s'))"
  by (simp add: thenM_def bindM_eq_Inr_iff)

lemma bindM_pure_left [simp]: "bindM (pure x) f = f x"
  by (rule ext) simp

lemma bindM_pure_right [simp]: "bindM m pure = m"
  by (rule ext) (auto simp: bindM_def split: prod.splits sum.splits)

lemma bindM_assoc: "bindM (bindM m f) g = bindM m (\<lambda>x. bindM (f x) g)"
  by (rule ext) (auto simp: bindM_def split: prod.splits sum.splits)

lemma bindM_raise [simp]: "bindM (raise e) f = raise e"
  by (rule ext) simp

lemma finallyM_cleanup:
  assumes "m s = (r, s1)" and "f s1 = (Inr (), s2)"
  shows "finallyM m f s = (r, s2)"
  using assms by (simp add: finallyM_def)

section \<open>Results without state\<close>

definition bindE :: "exn + 'a \<Rightarrow> ('a \<Rightarrow> exn + 'b) \<Rightarrow> exn + 'b" where
  "bindE r f = (case r of Inl e \<Rightarrow> Inl e | Inr x \<Rightarrow> f x)"

text \<open>\<open>[f(x) for x in xs]\<close>, stopping at the first exception.\<close>

primrec traverse :: "('a \<Rightarrow> exn + 'b) \<Rightarrow> 'a list \<Rightarrow> exn + 'b list" where
  "traverse f [] = Inr []"
| "traverse f (x # xs) = bindE (f x) (\<lambda>y. bindE (traverse f xs) (\<lambda>ys. Inr (y # ys)))"

lemma bindE_simps [simp]: "bindE (Inl e) f = Inl e" "bindE (Inr x) f = f x"
  by (simp_all add: bindE_def)

lemma bindE_eq_Inr_iff: "bindE r f = Inr y \<longleftrightarrow> (\<exists>x. r = Inr x \<and> f x = Inr y)"
  by (cases r) auto

lemma bindE_is_Inl: "(\<And>x. r = Inr x \<Longrightarrow> \<exists>e. f x = Inl e) \<Longrightarrow> \<exists>e. bindE r f = Inl e"
  by (cases r) auto

lemma traverse_map_Inr: "(\<And>x. x \<in> set xs \<Longrightarrow> f (g x) = Inr (h x)) \<Longrightarrow> traverse f (map g xs) = Inr (map h xs)"
  by (induction xs) auto

lemma traverse_Inr_length: "traverse f xs = Inr ys \<Longrightarrow> length ys = length xs"
  by (induction xs arbitrary: ys) (auto simp: bindE_eq_Inr_iff)

section \<open>Invariants of computations\<close>

text \<open>
  \<open>sure I m Q\<close>: the computation keeps the invariant, whether it returns or raises, and what it
  returns satisfies \<open>Q\<close>.
\<close>

definition sure :: "('s \<Rightarrow> bool) \<Rightarrow> ('s, 'a) py \<Rightarrow> ('a \<Rightarrow> bool) \<Rightarrow> bool" where
  "sure I m Q \<longleftrightarrow> (\<forall>s. I s \<longrightarrow> I (snd (m s)) \<and> (\<forall>x. fst (m s) = Inr x \<longrightarrow> Q x))"

named_theorems sure_rules \<open>rules for invariants of computations\<close>

lemma sureI: "(\<And>s. I s \<Longrightarrow> I (snd (m s)) \<and> (\<forall>x. fst (m s) = Inr x \<longrightarrow> Q x)) \<Longrightarrow> sure I m Q"
  by (simp add: sure_def)

lemma sureD: "sure I m Q \<Longrightarrow> I s \<Longrightarrow> I (snd (m s))"
  by (simp add: sure_def)

lemma sure_never: "sure I m (\<lambda>_. False) \<Longrightarrow> I s \<Longrightarrow> \<exists>e s'. m s = (Inl e, s') \<and> I s'"
  by (cases "m s"; cases "fst (m s)") (auto simp: sure_def)

lemma sure_weaken: "sure I m Q \<Longrightarrow> (\<And>x. Q x \<Longrightarrow> R x) \<Longrightarrow> sure I m R"
  by (auto simp: sure_def)

lemma sure_pure [sure_rules]: "Q x \<Longrightarrow> sure I (pure x) Q"
  by (simp add: sure_def)

lemma sure_raise [sure_rules]: "sure I (raise e) Q"
  by (simp add: sure_def)

lemma sure_lift_sum [sure_rules]: "(\<And>x. r = Inr x \<Longrightarrow> Q x) \<Longrightarrow> sure I (lift_sum r) Q"
  by (simp add: sure_def)

lemma sure_bindM: "sure I m Q \<Longrightarrow> (\<And>x. Q x \<Longrightarrow> sure I (f x) R) \<Longrightarrow> sure I (bindM m f) R"
  by (fastforce simp: sure_def bindM_def split: prod.splits sum.splits)

lemma sure_thenM: "sure I m Q \<Longrightarrow> sure I k R \<Longrightarrow> sure I (thenM m k) R"
  unfolding thenM_def by (rule sure_bindM)

lemma sure_finallyM: "sure I m Q \<Longrightarrow> sure I f R \<Longrightarrow> sure I (finallyM m f) Q"
  by (fastforce simp: sure_def finallyM_def split: prod.splits sum.splits)

lemma sure_tryM: "sure I m Q \<Longrightarrow> (\<And>e. sure I (h e) Q) \<Longrightarrow> sure I (tryM m h) Q"
  by (fastforce simp: sure_def tryM_def split: prod.splits sum.splits)

lemma sure_bindM_any: "sure I m (\<lambda>_. True) \<Longrightarrow> (\<And>x. sure I (f x) R) \<Longrightarrow> sure I (bindM m f) R"
  by (rule sure_bindM)

section \<open>Lists and options\<close>

text \<open>Python's \<open>xs[i]\<close> for a non-negative index.\<close>

definition py_nth :: "'a list \<Rightarrow> nat \<Rightarrow> exn + 'a" where
  "py_nth xs i = (if i < length xs then Inr (xs ! i) else Inl IndexError)"

definition py_lookup :: "('k \<rightharpoonup> 'v) \<Rightarrow> 'k \<Rightarrow> exn + 'v" where
  "py_lookup m k = (case m k of None \<Rightarrow> Inl KeyError | Some v \<Rightarrow> Inr v)"

text \<open>\<open>list.remove(x)\<close>: the first occurrence goes.\<close>

lemma remove1_filter_first:
  "\<not> P x \<Longrightarrow> filter P (remove1 x xs) = filter P xs"
  by (induction xs) auto

lemma map_of_map_inj:
  "inj f \<Longrightarrow> map_of (map (\<lambda>x. (f x, g x)) xs) (f y) = (if y \<in> set xs then Some (g y) else None)"
  by (induction xs) (auto dest: injD)

section \<open>Codecs\<close>

text \<open>
  An encoding with a partial decoder that inverts it on the valid inputs: event names,
  decimal numbers, key schemas, base64 cursors.
\<close>

locale codec =
  fixes enc :: "'a \<Rightarrow> 'b"
    and dec :: "'b \<Rightarrow> 'a option"
    and valid :: "'a \<Rightarrow> bool"
  assumes dec_enc: "valid x \<Longrightarrow> dec (enc x) = Some x"
begin

lemma enc_eq_iff: "valid x \<Longrightarrow> valid y \<Longrightarrow> enc x = enc y \<longleftrightarrow> x = y"
  by (metis dec_enc option.inject)

lemma enc_inj_on: "inj_on enc {x. valid x}"
  by (auto simp: inj_on_def enc_eq_iff)

lemma dec_enc_list: "(\<forall>x \<in> set xs. valid x) \<Longrightarrow> map (dec \<circ> enc) xs = map Some xs"
  by (simp add: dec_enc)

lemma distinct_enc: "(\<forall>x \<in> set xs. valid x) \<Longrightarrow> distinct (map enc xs) \<longleftrightarrow> distinct xs"
  by (auto simp: distinct_map inj_on_def enc_eq_iff)

end

section \<open>Transition systems with an invariant\<close>

text \<open>The states a step relation can reach from a start state.\<close>

inductive reach :: "('s \<Rightarrow> 's \<Rightarrow> bool) \<Rightarrow> 's \<Rightarrow> 's \<Rightarrow> bool" for step where
  reach_refl: "reach step s s"
| reach_step: "reach step s t \<Longrightarrow> step t u \<Longrightarrow> reach step s u"

lemma reach_one: "step s t \<Longrightarrow> reach step s t"
  by (rule reach_step [OF reach_refl])

lemma reach_mono: "reach step s t \<Longrightarrow> (\<And>x y. step x y \<Longrightarrow> step' x y) \<Longrightarrow> reach step' s t"
  by (induction rule: reach.induct) (auto intro: reach.intros)

locale invariant_system =
  fixes init :: "'s \<Rightarrow> bool"
    and step :: "'s \<Rightarrow> 's \<Rightarrow> bool"
    and inv :: "'s \<Rightarrow> bool"
  assumes inv_init: "init s \<Longrightarrow> inv s"
    and inv_step: "inv s \<Longrightarrow> step s t \<Longrightarrow> inv t"
begin

lemma inv_reach:
  assumes "reach step s t" and "inv s"
  shows "inv t"
  using assms by (induction rule: reach.induct) (auto intro: inv_step)

lemma reach_inv: "init s \<Longrightarrow> reach step s t \<Longrightarrow> inv t"
  using inv_init inv_reach by blast

end

end
