(* ===== verification/Py_Text.thy ===== *)
theory Py_Text
  imports Tenjin_Prelude
begin

text \<open>
  The parts of Python's \<open>str\<close> and \<open>int\<close> the code relies on: \<open>str.join\<close>, \<open>str.split\<close>,
  \<open>str.strip\<close>, \<open>str(n)\<close> and \<open>int(s)\<close>, on strings of characters below 256.  The facts
  collected in \<open>text_simps\<close> evaluate them; the round trips are what the key schemas rest on.
\<close>

named_theorems text_simps \<open>evaluation of string operations\<close>

section \<open>Joining and splitting\<close>

fun join :: "string \<Rightarrow> string list \<Rightarrow> string" where
  "join sep [] = []"
| "join sep [x] = x"
| "join sep (x # y # ys) = x @ sep @ join sep (y # ys)"

text \<open>\<open>str.split(c)\<close> for a separator of one character.\<close>

fun split_on :: "char \<Rightarrow> string \<Rightarrow> string list" where
  "split_on c [] = [[]]"
| "split_on c (x # xs) =
     (if x = c then [] # split_on c xs
      else (case split_on c xs of [] \<Rightarrow> [[x]] | y # ys \<Rightarrow> (x # y) # ys))"

text \<open>\<open>str.split(sep)\<close> in general: an empty separator is a \<open>ValueError\<close>.\<close>

function split_from :: "string \<Rightarrow> string \<Rightarrow> string \<Rightarrow> string list" where
  "split_from sep cur [] = [rev cur]"
| "split_from sep cur (x # xs) =
     (if sep \<noteq> [] \<and> take (length sep) (x # xs) = sep
      then rev cur # split_from sep [] (drop (length sep) (x # xs))
      else split_from sep (x # cur) xs)"
  by pat_completeness auto
termination
  by (relation "measure (\<lambda>(sep, cur, rest). length rest)") (auto simp: neq_Nil_conv)

definition py_split :: "string \<Rightarrow> string \<Rightarrow> exn + string list" where
  "py_split sep s = (if sep = [] then Inl ValueError else Inr (split_from sep [] s))"

lemma split_on_nonempty [simp]: "split_on c s \<noteq> []"
  by (induction s) (auto split: list.splits)

lemma split_on_no_sep [text_simps]: "c \<notin> set s \<Longrightarrow> split_on c s = [s]"
  by (induction s) auto

lemma split_on_append_sep:
  "c \<notin> set x \<Longrightarrow> split_on c (x @ c # ys) = x # split_on c ys"
  by (induction x) auto

lemma split_on_join [text_simps]:
  "xs \<noteq> [] \<Longrightarrow> \<forall>x \<in> set xs. c \<notin> set x \<Longrightarrow> split_on c (join [c] xs) = xs"
  by (induction "[c]" xs rule: join.induct) (auto simp: split_on_no_sep split_on_append_sep)

lemma split_on_pieces: "x \<in> set (split_on c s) \<Longrightarrow> c \<notin> set x"
proof (induction s arbitrary: x)
  case Nil
  then show ?case by simp
next
  case (Cons a s)
  then show ?case by (cases "split_on c s") (auto split: if_splits)
qed

lemma join_inj:
  assumes "join [c] xs = join [c] ys" and "xs \<noteq> []" and "ys \<noteq> []"
    and "\<forall>x \<in> set xs. c \<notin> set x" and "\<forall>y \<in> set ys. c \<notin> set y"
  shows "xs = ys"
  using assms split_on_join by metis

lemma split_from_absent:
  assumes "length s < length sep"
  shows "split_from sep cur s = [rev cur @ s]"
  using assms by (induction sep cur s rule: split_from.induct) auto

section \<open>Stripping\<close>

definition is_space :: "char \<Rightarrow> bool" where
  "is_space c \<longleftrightarrow> of_char c \<in> {9, 10, 11, 12, 13, 28, 29, 30, 31, 32, 133, 160 :: nat}"

definition lstrip :: "string \<Rightarrow> string" where
  "lstrip s = dropWhile is_space s"

definition strip :: "string \<Rightarrow> string" where
  "strip s = rev (lstrip (rev (lstrip s)))"

lemma strip_no_space [text_simps]: "\<forall>c \<in> set s. \<not> is_space c \<Longrightarrow> strip s = s"
  by (cases s rule: rev_cases; cases s) (auto simp: strip_def lstrip_def dropWhile_append)

section \<open>Decimal numbers\<close>

definition digit_char :: "nat \<Rightarrow> char" where
  "digit_char d = char_of (48 + d)"

definition is_digit :: "char \<Rightarrow> bool" where
  "is_digit c \<longleftrightarrow> (let n = (of_char c :: nat) in 48 \<le> n \<and> n \<le> 57)"

definition digit_val :: "char \<Rightarrow> nat" where
  "digit_val c = of_char c - 48"

fun str_of_nat :: "nat \<Rightarrow> string" where
  "str_of_nat n = (if n < 10 then [digit_char n] else str_of_nat (n div 10) @ [digit_char (n mod 10)])"

declare str_of_nat.simps [simp del]

definition str_of_int :: "int \<Rightarrow> string" where
  "str_of_int i = (if i < 0 then CHR ''-'' # str_of_nat (nat (- i)) else str_of_nat (nat i))"

text \<open>\<open>int(s)\<close>: surrounding space, a sign, digits with single underscores between them.\<close>

fun parse_digits :: "nat \<Rightarrow> string \<Rightarrow> nat option" where
  "parse_digits acc [] = Some acc"
| "parse_digits acc (c # cs) =
     (if is_digit c then parse_digits (10 * acc + digit_val c) cs
      else if c = CHR ''_'' then
        (case cs of
           [] \<Rightarrow> None
         | d # ds \<Rightarrow> if is_digit d then parse_digits (10 * acc + digit_val d) ds else None)
      else None)"

definition parse_nat :: "string \<Rightarrow> nat option" where
  "parse_nat s =
     (case s of [] \<Rightarrow> None
      | c # cs \<Rightarrow> if is_digit c then parse_digits (digit_val c) cs else None)"

definition int_of_str :: "string \<Rightarrow> int option" where
  "int_of_str s =
     (case strip s of
        [] \<Rightarrow> None
      | c # cs \<Rightarrow>
          if c = CHR ''-'' then map_option (\<lambda>n. - int n) (parse_nat cs)
          else if c = CHR ''+'' then map_option int (parse_nat cs)
          else map_option int (parse_nat (c # cs)))"

definition py_int :: "string \<Rightarrow> exn + int" where
  "py_int s = (case int_of_str s of None \<Rightarrow> Inl ValueError | Some i \<Rightarrow> Inr i)"

lemma of_char_digit [simp]: "d < 10 \<Longrightarrow> (of_char (digit_char d) :: nat) = 48 + d"
  by (simp add: digit_char_def of_char_of)

lemma is_digit_digit_char [simp]: "d < 10 \<Longrightarrow> is_digit (digit_char d)"
  by (simp add: is_digit_def)

lemma digit_val_digit_char [simp]: "d < 10 \<Longrightarrow> digit_val (digit_char d) = d"
  by (simp add: digit_val_def)

lemma str_of_nat_digits: "c \<in> set (str_of_nat n) \<Longrightarrow> is_digit c"
proof (induction n rule: str_of_nat.induct)
  case (1 n)
  show ?case
  proof (cases "n < 10")
    case True
    with "1.prems" show ?thesis by (simp add: str_of_nat.simps [of n])
  next
    case False
    with "1.prems" "1.IH" show ?thesis by (auto simp: str_of_nat.simps [of n])
  qed
qed

lemma str_of_nat_nonempty [simp]: "str_of_nat n \<noteq> []"
  by (subst str_of_nat.simps) simp

lemma digit_not_special:
  "is_digit c \<Longrightarrow> c \<noteq> CHR '':'' \<and> c \<noteq> CHR ''-'' \<and> c \<noteq> CHR ''+'' \<and> c \<noteq> CHR ''_'' \<and> \<not> is_space c"
  by (auto simp: is_digit_def is_space_def Let_def)

lemma str_of_nat_no_sep [simp]:
  "CHR '':'' \<notin> set (str_of_nat n)" "CHR ''-'' \<notin> set (str_of_nat n)"
  using str_of_nat_digits digit_not_special by blast+

lemma str_of_int_no_colon [simp]: "CHR '':'' \<notin> set (str_of_int i)"
  by (simp add: str_of_int_def)

fun digits_value :: "nat \<Rightarrow> string \<Rightarrow> nat" where
  "digits_value acc [] = acc"
| "digits_value acc (c # cs) = digits_value (10 * acc + digit_val c) cs"

lemma digits_value_append: "digits_value acc (xs @ ys) = digits_value (digits_value acc xs) ys"
  by (induction xs arbitrary: acc) auto

lemma digits_value_shift: "digits_value acc xs = acc * 10 ^ length xs + digits_value 0 xs"
proof (induction xs arbitrary: acc)
  case Nil
  then show ?case by simp
next
  case (Cons x xs)
  from Cons [of "10 * acc + digit_val x"] Cons [of "digit_val x"] show ?case
    by (simp add: algebra_simps)
qed

lemma parse_digits_value: "\<forall>c \<in> set s. is_digit c \<Longrightarrow> parse_digits acc s = Some (digits_value acc s)"
  by (induction s arbitrary: acc) auto

lemma digits_value_str_of_nat: "digits_value 0 (str_of_nat n) = n"
proof (induction n rule: str_of_nat.induct)
  case (1 n)
  show ?case
  proof (cases "n < 10")
    case True
    then show ?thesis by (simp add: str_of_nat.simps [of n])
  next
    case False
    with "1.IH" show ?thesis by (simp add: str_of_nat.simps [of n] digits_value_append)
  qed
qed

lemma parse_nat_digits:
  "s \<noteq> [] \<Longrightarrow> \<forall>c \<in> set s. is_digit c \<Longrightarrow> parse_nat s = Some (digits_value 0 s)"
  by (cases s) (auto simp: parse_nat_def parse_digits_value)

lemma parse_nat_str_of_nat [text_simps]: "parse_nat (str_of_nat n) = Some n"
  by (simp add: parse_nat_digits str_of_nat_digits digits_value_str_of_nat)

lemma int_of_str_digits:
  assumes "s \<noteq> []" and "\<forall>c \<in> set s. is_digit c"
  shows "int_of_str s = Some (int (digits_value 0 s))"
proof -
  have "strip s = s" using assms digit_not_special by (intro strip_no_space) blast
  moreover obtain c cs where s: "s = c # cs" using assms(1) by (cases s) auto
  moreover have "c \<noteq> CHR ''-''" "c \<noteq> CHR ''+''" using assms(2) s digit_not_special by auto
  ultimately show ?thesis using parse_nat_digits [OF assms] by (simp add: int_of_str_def)
qed

lemma int_of_str_of_int [text_simps]: "int_of_str (str_of_int i) = Some i"
proof (cases "i < 0")
  case True
  have "\<forall>c \<in> set (str_of_int i). \<not> is_space c"
    using True str_of_nat_digits digit_not_special
    by (auto simp: str_of_int_def is_space_def [of "CHR ''-''"])
  then have "strip (str_of_int i) = str_of_int i" by (rule strip_no_space)
  with True show ?thesis by (simp add: int_of_str_def str_of_int_def parse_nat_str_of_nat)
next
  case False
  then show ?thesis
    by (simp add: str_of_int_def int_of_str_digits str_of_nat_digits digits_value_str_of_nat)
qed

lemma py_int_str_of_int [text_simps]: "py_int (str_of_int i) = Inr i"
  by (simp add: py_int_def int_of_str_of_int)

interpretation decimal: codec str_of_int int_of_str "\<lambda>_. True"
  by unfold_locales (simp add: int_of_str_of_int)

lemma str_of_int_inj [simp]: "str_of_int i = str_of_int j \<longleftrightarrow> i = j"
  by (rule decimal.enc_eq_iff) simp_all

end
