(* ===== verification/Tenjin_Names.thy ===== *)
theory Tenjin_Names
  imports Py_Text
begin

text \<open>
  The names shared by the servers and the workers: the enumerations of
  \<^verbatim>\<open>resource_auxillary/strings.py\<close> with the string value of each member, the cache and
  intent keys of \<^verbatim>\<open>resource_auxillary/cache.py\<close>, and the lock, batch and worker names of
  \<^verbatim>\<open>resource_database_workers/utils/strings.py\<close>.  The lemmas show which of these keys can
  be read back, and which of the readers of the source do not read back what was written.
\<close>

section \<open>Enumerations\<close>

datatype event_name =
    POST_CREATE | POST_SAVE | POST_UNSAVE | POST_REPORT | POST_VOTE | POST_UNVOTE | POST_DELETE
     | ANIME_SUB | ANIME_UNSUB | COMMENT_CREATE | COMMENT_VOTE | COMMENT_UNVOTE | COMMENT_REPORT
     | COMMENT_DELETE | FORUM_SUB | FORUM_UNSUB | FORUM_DELETE | USER_CLEANUP | MALFORMED
     | ORPHANED_POST_DELETE | ORPHANED_COMMENT_DELETE | DOWNSTREAM_USER_POST_DECREMENT
     | DOWNSTREAM_FORUM_POST_DECREMENT | DOWNSTREAM_USER_COMMENT_DECREMENT
     | DOWNSTREAM_POST_COMMENT_DECREMENT | DLQ_COUNTER | DLQ_SIDE_EFFECTS | USER_DELETION_EMAIL
     | USER_REGISTRATION_EMAIL | USER_PASSWORD_RECOVERY_EMAIL

fun event_name_value :: "event_name \<Rightarrow> string" where
  "event_name_value POST_CREATE = ''POST_CREATE''"
| "event_name_value POST_SAVE = ''POST_SAVE''"
| "event_name_value POST_UNSAVE = ''POST_UNSAVE''"
| "event_name_value POST_REPORT = ''POST_REPORT''"
| "event_name_value POST_VOTE = ''POST_VOTE''"
| "event_name_value POST_UNVOTE = ''POST_UNVOTE''"
| "event_name_value POST_DELETE = ''POST_DELETE''"
| "event_name_value ANIME_SUB = ''ANIME_SUB''"
| "event_name_value ANIME_UNSUB = ''ANIME_UNSUB''"
| "event_name_value COMMENT_CREATE = ''COMMENT_CREATE''"
| "event_name_value COMMENT_VOTE = ''COMMENT_VOTE''"
| "event_name_value COMMENT_UNVOTE = ''COMMENT_UNVOTE''"
| "event_name_value COMMENT_REPORT = ''COMMENT_REPORT''"
| "event_name_value COMMENT_DELETE = ''COMMENT_DELETE''"
| "event_name_value FORUM_SUB = ''FORUM_SUB''"
| "event_name_value FORUM_UNSUB = ''FORUM_UNSUB''"
| "event_name_value FORUM_DELETE = ''FORUM_DELETE''"
| "event_name_value USER_CLEANUP = ''USER_CLEANUP''"
| "event_name_value MALFORMED = ''MALFORMED''"
| "event_name_value ORPHANED_POST_DELETE = ''ORPHANED_POST_DELETE''"
| "event_name_value ORPHANED_COMMENT_DELETE = ''ORPHANED_COMMENT_DELETE''"
| "event_name_value DOWNSTREAM_USER_POST_DECREMENT = ''DOWNSTREAM_USER_POST_DECREMENT''"
| "event_name_value DOWNSTREAM_FORUM_POST_DECREMENT = ''DOWNSTREAM_FORUM_POST_DECREMENT''"
| "event_name_value DOWNSTREAM_USER_COMMENT_DECREMENT = ''DOWNSTREAM_USER_COMMENT_DECREMENT''"
| "event_name_value DOWNSTREAM_POST_COMMENT_DECREMENT = ''DOWNSTREAM_POST_COMMENT_DECREMENT''"
| "event_name_value DLQ_COUNTER = ''DLQ_COUNTER''"
| "event_name_value DLQ_SIDE_EFFECTS = ''DLQ_SIDE_EFFECTS''"
| "event_name_value USER_DELETION_EMAIL = ''USER_DELETION_EMAIL''"
| "event_name_value USER_REGISTRATION_EMAIL = ''USER_REGISTRATION_EMAIL''"
| "event_name_value USER_PASSWORD_RECOVERY_EMAIL = ''USER_PASSWORD_RECOVERY_EMAIL''"

definition all_event_names :: "event_name list" where
  "all_event_names =
     [POST_CREATE, POST_SAVE, POST_UNSAVE, POST_REPORT, POST_VOTE, POST_UNVOTE, POST_DELETE
      , ANIME_SUB, ANIME_UNSUB, COMMENT_CREATE, COMMENT_VOTE, COMMENT_UNVOTE, COMMENT_REPORT
      , COMMENT_DELETE, FORUM_SUB, FORUM_UNSUB, FORUM_DELETE, USER_CLEANUP, MALFORMED
      , ORPHANED_POST_DELETE, ORPHANED_COMMENT_DELETE, DOWNSTREAM_USER_POST_DECREMENT
      , DOWNSTREAM_FORUM_POST_DECREMENT, DOWNSTREAM_USER_COMMENT_DECREMENT
      , DOWNSTREAM_POST_COMMENT_DECREMENT, DLQ_COUNTER, DLQ_SIDE_EFFECTS, USER_DELETION_EMAIL
      , USER_REGISTRATION_EMAIL, USER_PASSWORD_RECOVERY_EMAIL]"

text \<open>\<open>EventName(s)\<close>: the member with this value, a \<open>ValueError\<close> if there is none.\<close>

definition event_name_of :: "string \<Rightarrow> event_name option" where
  "event_name_of s = map_of (map (\<lambda>n. (event_name_value n, n)) all_event_names) s"

definition py_event_name :: "string \<Rightarrow> exn + event_name" where
  "py_event_name s = (case event_name_of s of None \<Rightarrow> Inl ValueError | Some n \<Rightarrow> Inr n)"

datatype stream_name =
    POSTS | COMMENTS | FORUMS | ANIMES | USERS | DOWNSTREAM_DELETIONS
     | DOWNSTREAM_COUNTER_DECREMENTS | USER_EMAILS | DEAD_LETTER_QUEUE

fun stream_name_value :: "stream_name \<Rightarrow> string" where
  "stream_name_value POSTS = ''POSTS''"
| "stream_name_value COMMENTS = ''COMMENTS''"
| "stream_name_value FORUMS = ''FORUMS''"
| "stream_name_value ANIMES = ''ANIMES''"
| "stream_name_value USERS = ''USERS''"
| "stream_name_value DOWNSTREAM_DELETIONS = ''DOWNSTREAM_DELETIONS''"
| "stream_name_value DOWNSTREAM_COUNTER_DECREMENTS = ''DOWNSTREAM_COUNTER_DECREMENTS''"
| "stream_name_value USER_EMAILS = ''USER_EMAILS''"
| "stream_name_value DEAD_LETTER_QUEUE = ''DEAD_LETTER_QUEUE''"

definition all_stream_names :: "stream_name list" where
  "all_stream_names =
     [POSTS, COMMENTS, FORUMS, ANIMES, USERS, DOWNSTREAM_DELETIONS
      , DOWNSTREAM_COUNTER_DECREMENTS, USER_EMAILS, DEAD_LETTER_QUEUE]"

definition stream_name_of :: "string \<Rightarrow> stream_name option" where
  "stream_name_of s = map_of (map (\<lambda>n. (stream_name_value n, n)) all_stream_names) s"

datatype action =
    SAVE | REPORT | VOTE | UNVOTE | SUB | UNSUB | DELETE | CREATE

fun action_value :: "action \<Rightarrow> string" where
  "action_value SAVE = ''SAVE''"
| "action_value REPORT = ''REPORT''"
| "action_value VOTE = ''VOTE''"
| "action_value UNVOTE = ''UNVOTE''"
| "action_value SUB = ''SUB''"
| "action_value UNSUB = ''UNSUB''"
| "action_value DELETE = ''DELETE''"
| "action_value CREATE = ''CREATE''"

datatype intent_flag =
    RESOURCE_CREATION_PENDING_FLAG | RESOURCE_CREATION_PENDING_ALT_FLAG
  | RESOURCE_DELETION_PENDING_FLAG

fun intent_flag_value :: "intent_flag \<Rightarrow> string" where
  "intent_flag_value RESOURCE_CREATION_PENDING_FLAG = join '':'' [''FLAG'', ''C'']"
| "intent_flag_value RESOURCE_CREATION_PENDING_ALT_FLAG = join '':'' [''FLAG'', ''CA'']"
| "intent_flag_value RESOURCE_DELETION_PENDING_FLAG = join '':'' [''FLAG'', ''D'']"

definition all_intent_flags :: "intent_flag list" where
  "all_intent_flags =
     [RESOURCE_CREATION_PENDING_FLAG, RESOURCE_CREATION_PENDING_ALT_FLAG,
      RESOURCE_DELETION_PENDING_FLAG]"

definition intent_flag_of :: "string \<Rightarrow> intent_flag option" where
  "intent_flag_of s = map_of (map (\<lambda>n. (intent_flag_value n, n)) all_intent_flags) s"

lemma event_name_of_value [simp]: "event_name_of (event_name_value n) = Some n"
  by (cases n) (simp_all add: event_name_of_def all_event_names_def)

lemma stream_name_of_value [simp]: "stream_name_of (stream_name_value n) = Some n"
  by (cases n) (simp_all add: stream_name_of_def all_stream_names_def)

lemma intent_flag_of_value [simp]: "intent_flag_of (intent_flag_value n) = Some n"
  by (cases n) (simp_all add: intent_flag_of_def all_intent_flags_def)

interpretation event_names: codec event_name_value event_name_of "\<lambda>_. True"
  by unfold_locales simp

interpretation stream_names: codec stream_name_value stream_name_of "\<lambda>_. True"
  by unfold_locales simp

interpretation intent_flags: codec intent_flag_value intent_flag_of "\<lambda>_. True"
  by unfold_locales simp

lemma py_event_name_value [simp]: "py_event_name (event_name_value n) = Inr n"
  by (simp add: py_event_name_def)

lemma action_value_no_colon [simp]: "CHR '':'' \<notin> set (action_value a)"
  by (cases a) simp_all

lemma stream_name_value_no_dash [simp]: "CHR ''-'' \<notin> set (stream_name_value s)"
  by (cases s) simp_all

text \<open>
  Every intent flag itself contains the separator, so its text before the first separator is
  never a flag: what \<open>guard_action\<close> and \<open>fetch_indicators\<close> compare can never match.
\<close>

lemma intent_flag_head: "hd (split_on CHR '':'' (intent_flag_value f @ s)) = ''FLAG''"
  by (cases f) (simp_all split: list.splits)

lemma intent_flag_of_head_None: "CHR '':'' \<notin> set s \<Longrightarrow> intent_flag_of s = None"
  by (auto simp: intent_flag_of_def all_intent_flags_def split: if_splits)

section \<open>Cache and intent keys\<close>

definition NAME_SEPERATOR :: string where
  "NAME_SEPERATOR = '':''"

definition create_intent_flag :: "string \<Rightarrow> string \<Rightarrow> string \<Rightarrow> string \<Rightarrow> string" where
  "create_intent_flag entity act user_identifier resource_identifier =
     join NAME_SEPERATOR [entity, act, user_identifier, resource_identifier]"

definition derive_cache_key :: "string \<Rightarrow> string \<Rightarrow> string" where
  "derive_cache_key resource_name identifier = join NAME_SEPERATOR [resource_name, identifier]"

definition derive_hashmap_name :: "string \<Rightarrow> string \<Rightarrow> string" where
  "derive_hashmap_name resource_name field = join NAME_SEPERATOR [resource_name, field]"

definition parse_cache_key :: "string \<Rightarrow> (string \<times> int) option" where
  "parse_cache_key key =
     (case split_on CHR '':'' key of
        [r, i] \<Rightarrow> map_option (\<lambda>n. (r, n)) (int_of_str i) | _ \<Rightarrow> None)"

lemma parse_cache_key_derive:
  "CHR '':'' \<notin> set r \<Longrightarrow> parse_cache_key (derive_cache_key r (str_of_int i)) = Some (r, i)"
  using split_on_join [of "[r, str_of_int i]" "CHR '':''"]
  by (simp add: parse_cache_key_def derive_cache_key_def NAME_SEPERATOR_def int_of_str_of_int)

interpretation cache_keys:
  codec "\<lambda>(r, i). derive_cache_key r (str_of_int i)" parse_cache_key "\<lambda>(r, i). CHR '':'' \<notin> set r"
  by unfold_locales (auto simp: parse_cache_key_derive)

lemma create_intent_flag_split:
  assumes "CHR '':'' \<notin> set e" and "CHR '':'' \<notin> set a" and "CHR '':'' \<notin> set u" and "CHR '':'' \<notin> set r"
  shows "split_on CHR '':'' (create_intent_flag e a u r) = [e, a, u, r]"
  using assms split_on_join [of "[e, a, u, r]" "CHR '':''"]
  by (simp add: create_intent_flag_def NAME_SEPERATOR_def)

section \<open>Worker-side names\<close>

definition INTERNAL_NAME_SEPERATOR :: string where
  "INTERNAL_NAME_SEPERATOR = ''-''"

definition worker_lock_key :: "string \<Rightarrow> string" where
  "worker_lock_key name = join INTERNAL_NAME_SEPERATOR [''lock'', name]"

text \<open>
  \<open>_generate_batch_identifier\<close> joins the clock's seconds and random hexadecimal digits; both
  are arguments here.
\<close>

definition generate_batch_identifier :: "int \<Rightarrow> string \<Rightarrow> string" where
  "generate_batch_identifier timestamp random_hex = str_of_int timestamp @ random_hex"

text \<open>\<open>identifier or default\<close>: \<open>None\<close> and the empty string give the default.\<close>

definition or_default :: "string option \<Rightarrow> string \<Rightarrow> string" where
  "or_default x d = (case x of None \<Rightarrow> d | Some y \<Rightarrow> if y = [] then d else y)"

definition generate_retry_batch_name :: "string \<Rightarrow> int \<Rightarrow> string option \<Rightarrow> string \<Rightarrow> string" where
  "generate_retry_batch_name counter_name version identifier fresh =
     join INTERNAL_NAME_SEPERATOR [counter_name, or_default identifier fresh, str_of_int version]"

text \<open>
  As written, the separator is split by the batch name, not the other way round
  (\<open>INTERNAL_NAME_SEPERATOR.split(batch)\<close>).
\<close>

definition extract_batch_metadata :: "string \<Rightarrow> exn + (string \<times> string option \<times> int)" where
  "extract_batch_metadata batch =
     (case py_split batch INTERNAL_NAME_SEPERATOR of
        Inl e \<Rightarrow> Inl e
      | Inr split \<Rightarrow>
          if length split \<noteq> 3
          then (case py_nth split 0 of Inl e \<Rightarrow> Inl e | Inr h \<Rightarrow> Inr (h, None, 0))
          else (case py_int (split ! 2) of
                  Inl e \<Rightarrow> Inl e | Inr v \<Rightarrow> Inr (split ! 0, Some (split ! 1), v)))"

definition bump_retry_counter :: "string \<Rightarrow> exn + string" where
  "bump_retry_counter retry_batch =
     (case split_on CHR ''-'' retry_batch of
        [counter_name, identifier, version] \<Rightarrow>
          (case py_int version of
             Inl e \<Rightarrow> Inl e
           | Inr v \<Rightarrow> Inr (join INTERNAL_NAME_SEPERATOR [counter_name, identifier, str_of_int (v + 1)]))
      | _ \<Rightarrow> Inl ValueError)"

definition generate_stream_group_registry_name :: "stream_name \<Rightarrow> string \<Rightarrow> string" where
  "generate_stream_group_registry_name s consumer_group_name =
     join INTERNAL_NAME_SEPERATOR [stream_name_value s, consumer_group_name]"

definition generate_consumer_name :: "string \<Rightarrow> string \<Rightarrow> string" where
  "generate_consumer_name base_name random_hex = join INTERNAL_NAME_SEPERATOR [base_name, random_hex]"

definition generate_worker_name :: "string \<Rightarrow> int \<Rightarrow> string option \<Rightarrow> string" where
  "generate_worker_name task_name index base_name =
     (case base_name of
        Some b \<Rightarrow> if b \<noteq> [] then join INTERNAL_NAME_SEPERATOR [b, task_name, str_of_int index]
                  else join INTERNAL_NAME_SEPERATOR [task_name, str_of_int index]
      | None \<Rightarrow> join INTERNAL_NAME_SEPERATOR [task_name, str_of_int index])"

section \<open>What the batch names carry\<close>

lemma str_of_int_no_dash: "0 \<le> i \<Longrightarrow> CHR ''-'' \<notin> set (str_of_int i)"
  by (simp add: str_of_int_def)

text \<open>
  The retry counter of a batch name is bumped without touching the counter's name or
  identifier: bumping the name generated for version \<open>v\<close> gives the name generated for
  \<open>v + 1\<close>, whenever neither part contains the separator.
\<close>

theorem bump_generated_name:
  assumes "CHR ''-'' \<notin> set name" and "CHR ''-'' \<notin> set (or_default ident fresh)" and "0 \<le> v"
  shows "bump_retry_counter (generate_retry_batch_name name v ident fresh) =
         Inr (generate_retry_batch_name name (v + 1) ident fresh)"
  using assms split_on_join [of "[name, or_default ident fresh, str_of_int v]" "CHR ''-''"]
  by (simp add: bump_retry_counter_def generate_retry_batch_name_def INTERNAL_NAME_SEPERATOR_def
        str_of_int_no_dash py_int_str_of_int)

theorem bump_generated_name_witness:
  "bump_retry_counter (generate_retry_batch_name ''post_votes'' 9 None ''1700ab'') =
   Inr (generate_retry_batch_name ''post_votes'' 10 None ''1700ab'')"
  using bump_generated_name [of "''post_votes''" None "''1700ab''" 9] by (simp add: or_default_def)

lemma py_split_separator_by_name:
  assumes "batch \<noteq> []" and "batch \<noteq> ''-''"
  shows "py_split batch INTERNAL_NAME_SEPERATOR = Inr [''-'']"
  using assms by (cases batch) (auto simp: py_split_def INTERNAL_NAME_SEPERATOR_def)

text \<open>
  \<open>extract_batch_metadata\<close> never reads a batch name back: for every name of two or more
  characters, in particular for every name \<open>generate_retry_batch_name\<close> makes, it answers the
  group name \<open>-\<close>, no identifier, and version 0, so the version of a retry batch can never
  reach \<open>MAX_RETRIES\<close>.
\<close>

theorem extract_batch_metadata_constant:
  "extract_batch_metadata (generate_retry_batch_name name v ident fresh) = Inr (''-'', None, 0)"
proof -
  let ?b = "generate_retry_batch_name name v ident fresh"
  have "2 \<le> length ?b"
    by (simp add: generate_retry_batch_name_def INTERNAL_NAME_SEPERATOR_def)
  then have "?b \<noteq> []" and "?b \<noteq> ''-''" by auto
  then show ?thesis
    by (simp add: extract_batch_metadata_def py_split_separator_by_name py_nth_def)
qed

end
