(* ===== verification/Tenjin_Redis.thy ===== *)
theory Tenjin_Redis
  imports Tenjin_Names
begin

text \<open>
  The Redis client as the code sees it.  A call, a pipeline or a transaction is a list of
  commands handed to an executor, which is a parameter of every routine that talks to Redis:
  it answers one reply per command or raises.  \<open>run_cmds\<close> writes down what the Redis
  documentation promises of the commands used on strings, hashes and lists;
  \<open>documented_redis\<close> is the hypothesis that an executor keeps that promise whenever it
  answers.  Streams are left opaque, since the code never reads the replies of \<open>XADD\<close> and
  \<open>XACK\<close>.  The one script the workers evaluate, the conditional delete of
  \<^verbatim>\<open>templates/lua.py\<close>, is modelled from its source.
\<close>

section \<open>Commands and replies\<close>

datatype rcmd =
    R_GET string
  | R_SET string string bool "int option"
  | R_DEL string
  | R_TTL string
  | R_EXPIRE string int
  | R_HGET string string
  | R_HGETALL string
  | R_HSET string "(string \<times> string) list"
  | R_HINCRBY string string int
  | R_LPUSH string string
  | R_RPUSH string string
  | R_LRANGE_ALL string
  | R_EVAL_COND_DEL string string
  | R_EVAL_COND_INCR string string int
  | R_XADD string "(string \<times> string) list" "string option"
  | R_XACK string string string

datatype reply =
    RNone | RInt int | RText string | RMap "string \<rightharpoonup> string" | RTexts "string list" | RBool bool
  | RStreamReply

type_synonym 's redis = "bool \<Rightarrow> rcmd list \<Rightarrow> ('s, reply list) py"

datatype rvalue = VStr string | VHash "string \<rightharpoonup> string" | VList "string list"

text \<open>A key holds a value and, if it is volatile, the seconds it has left.\<close>

type_synonym rstore = "string \<rightharpoonup> rvalue \<times> int option"

section \<open>What the documentation promises\<close>

definition hash_at :: "rstore \<Rightarrow> string \<Rightarrow> (string \<rightharpoonup> string) option" where
  "hash_at st k = (case st k of None \<Rightarrow> Some Map.empty | Some (VHash h, _) \<Rightarrow> Some h | _ \<Rightarrow> None)"

definition list_at :: "rstore \<Rightarrow> string \<Rightarrow> string list option" where
  "list_at st k = (case st k of None \<Rightarrow> Some [] | Some (VList l, _) \<Rightarrow> Some l | _ \<Rightarrow> None)"

definition ttl_at :: "rstore \<Rightarrow> string \<Rightarrow> int option" where
  "ttl_at st k = (case st k of None \<Rightarrow> None | Some (_, t) \<Rightarrow> t)"

text \<open>
  The script: \<open>GET\<close> the key and delete it when it holds the argument.  \<open>GET\<close> of a key that is
  not a string is an error.
\<close>

definition conditional_delete :: "string \<Rightarrow> string \<Rightarrow> rstore \<Rightarrow> (reply \<times> rstore) option" where
  "conditional_delete k v st =
     (case st k of
        None \<Rightarrow> Some (RNone, st)
      | Some (VStr current, _) \<Rightarrow>
          if current = v then Some (RInt 1, st(k := None)) else Some (RNone, st)
      | Some _ \<Rightarrow> None)"

definition hash_increment :: "string \<Rightarrow> string \<Rightarrow> int \<Rightarrow> rstore \<Rightarrow> (reply \<times> rstore) option" where
  "hash_increment k f d st =
     (case hash_at st k of
        None \<Rightarrow> None
      | Some h \<Rightarrow>
          (case (case h f of None \<Rightarrow> Some 0 | Some t \<Rightarrow> int_of_str t) of
             None \<Rightarrow> None
           | Some i \<Rightarrow>
               Some (RInt (i + d), st(k \<mapsto> (VHash (h(f \<mapsto> str_of_int (i + d))), ttl_at st k)))))"

text \<open>
  The counters' script of \<^verbatim>\<open>utils/lua_commands.py\<close> tests \<open>counter_value ~= nil\<close>.  Redis hands a
  missing field to a script as the boolean \<open>false\<close>, never as \<open>nil\<close>, so that the test always
  holds and the field is incremented whether it is there or not.
\<close>

definition conditional_counter_increment ::
    "string \<Rightarrow> string \<Rightarrow> int \<Rightarrow> rstore \<Rightarrow> (reply \<times> rstore) option" where
  "conditional_counter_increment k f d st =
     (case hash_increment k f d st of None \<Rightarrow> None | Some (_, st') \<Rightarrow> Some (RInt 1, st'))"

fun run_cmd :: "rcmd \<Rightarrow> rstore \<Rightarrow> (reply \<times> rstore) option" where
  "run_cmd (R_GET k) st =
     (case st k of None \<Rightarrow> Some (RNone, st) | Some (VStr v, _) \<Rightarrow> Some (RText v, st) | _ \<Rightarrow> None)"
| "run_cmd (R_SET k v nx ex) st =
     (if nx \<and> st k \<noteq> None then Some (RNone, st)
      else (case ex of
              None \<Rightarrow> Some (RBool True, st(k \<mapsto> (VStr v, None)))
            | Some t \<Rightarrow> if t \<le> 0 then None else Some (RBool True, st(k \<mapsto> (VStr v, Some t)))))"
| "run_cmd (R_DEL k) st = Some (RInt (if st k = None then 0 else 1), st(k := None))"
| "run_cmd (R_TTL k) st =
     Some (RInt (case st k of None \<Rightarrow> -2 | Some (_, None) \<Rightarrow> -1 | Some (_, Some t) \<Rightarrow> t), st)"
| "run_cmd (R_EXPIRE k t) st =
     (case st k of
        None \<Rightarrow> Some (RBool False, st)
      | Some (v, _) \<Rightarrow> Some (RBool True, if t \<le> 0 then st(k := None) else st(k \<mapsto> (v, Some t))))"
| "run_cmd (R_HGET k f) st =
     (case hash_at st k of
        None \<Rightarrow> None | Some h \<Rightarrow> Some (case h f of None \<Rightarrow> RNone | Some v \<Rightarrow> RText v, st))"
| "run_cmd (R_HGETALL k) st = (case hash_at st k of None \<Rightarrow> None | Some h \<Rightarrow> Some (RMap h, st))"
| "run_cmd (R_HSET k fvs) st =
     (if fvs = [] then None
      else (case hash_at st k of
              None \<Rightarrow> None
            | Some h \<Rightarrow>
                Some (RInt (int (card (fst ` set fvs - dom h))),
                      st(k \<mapsto> (VHash (h ++ map_of (rev fvs)), ttl_at st k)))))"
| "run_cmd (R_HINCRBY k f d) st = hash_increment k f d st"
| "run_cmd (R_LPUSH k v) st =
     (case list_at st k of
        None \<Rightarrow> None
      | Some l \<Rightarrow> Some (RInt (int (length l) + 1), st(k \<mapsto> (VList (v # l), ttl_at st k))))"
| "run_cmd (R_RPUSH k v) st =
     (case list_at st k of
        None \<Rightarrow> None
      | Some l \<Rightarrow> Some (RInt (int (length l) + 1), st(k \<mapsto> (VList (l @ [v]), ttl_at st k))))"
| "run_cmd (R_LRANGE_ALL k) st =
     (case list_at st k of None \<Rightarrow> None | Some l \<Rightarrow> Some (RTexts l, st))"
| "run_cmd (R_EVAL_COND_DEL k v) st = conditional_delete k v st"
| "run_cmd (R_EVAL_COND_INCR k f d) st = conditional_counter_increment k f d st"
| "run_cmd (R_XADD _ _ _) st = Some (RStreamReply, st)"
| "run_cmd (R_XACK _ _ _) st = Some (RStreamReply, st)"

fun run_cmds :: "rcmd list \<Rightarrow> rstore \<Rightarrow> (reply list \<times> rstore) option" where
  "run_cmds [] st = Some ([], st)"
| "run_cmds (c # cs) st =
     (case run_cmd c st of
        None \<Rightarrow> None
      | Some (r, st') \<Rightarrow>
          (case run_cmds cs st' of None \<Rightarrow> None | Some (rs, st'') \<Rightarrow> Some (r # rs, st'')))"

definition documented_redis :: "'s redis \<Rightarrow> ('s \<Rightarrow> rstore) \<Rightarrow> bool" where
  "documented_redis exec view \<longleftrightarrow>
     (\<forall>tx cs s rs s'. exec tx cs s = (Inr rs, s') \<longrightarrow> run_cmds cs (view s) = Some (rs, view s'))"

lemma documented_redisD:
  "documented_redis exec view \<Longrightarrow> exec tx cs s = (Inr rs, s') \<Longrightarrow>
   run_cmds cs (view s) = Some (rs, view s')"
  by (simp add: documented_redis_def)

text \<open>The documented commands themselves, run on a store, are such an executor.\<close>

definition store_redis :: "rstore redis" where
  "store_redis tx cs st =
     (case run_cmds cs st of None \<Rightarrow> (Inl (RedisError False), st) | Some (rs, st') \<Rightarrow> (Inr rs, st'))"

lemma store_redis_documented [simp]: "documented_redis store_redis id"
  by (auto simp: documented_redis_def store_redis_def split: option.splits prod.splits)

lemma run_cmds_append:
  "run_cmds (cs @ ds) st =
     (case run_cmds cs st of
        None \<Rightarrow> None
      | Some (rs, st') \<Rightarrow>
          (case run_cmds ds st' of None \<Rightarrow> None | Some (qs, st'') \<Rightarrow> Some (rs @ qs, st'')))"
  by (induction cs arbitrary: st) (auto split: option.splits prod.splits)

lemma run_cmds_append_SomeE:
  assumes "run_cmds (cs @ ds) st = Some (rs, st'')"
  obtains rs1 st1 rs2 where "run_cmds cs st = Some (rs1, st1)" and "run_cmds ds st1 = Some (rs2, st'')"
  using assms by (auto simp: run_cmds_append split: option.splits prod.splits)

lemma run_cmds_length: "run_cmds cs st = Some (rs, st') \<Longrightarrow> length rs = length cs"
  by (induction cs arbitrary: st rs) (auto split: option.splits prod.splits)

section \<open>What the commands leave alone\<close>

text \<open>The keys a command can change.\<close>

fun cmd_keys :: "rcmd \<Rightarrow> string set" where
  "cmd_keys (R_SET k _ _ _) = {k}"
| "cmd_keys (R_DEL k) = {k}"
| "cmd_keys (R_EXPIRE k _) = {k}"
| "cmd_keys (R_HSET k _) = {k}"
| "cmd_keys (R_HINCRBY k _ _) = {k}"
| "cmd_keys (R_LPUSH k _) = {k}"
| "cmd_keys (R_RPUSH k _) = {k}"
| "cmd_keys (R_EVAL_COND_DEL k _) = {k}"
| "cmd_keys (R_EVAL_COND_INCR k _ _) = {k}"
| "cmd_keys _ = {}"

lemma run_cmd_frame: "run_cmd c st = Some (r, st') \<Longrightarrow> k \<notin> cmd_keys c \<Longrightarrow> st' k = st k"
  by (cases c)
    (auto simp: conditional_delete_def conditional_counter_increment_def hash_increment_def
      split: option.splits prod.splits rvalue.splits if_splits)

lemma run_cmds_frame:
  "run_cmds cs st = Some (rs, st') \<Longrightarrow> k \<notin> (\<Union>c \<in> set cs. cmd_keys c) \<Longrightarrow> st' k = st k"
proof (induction cs arbitrary: st rs)
  case Nil
  then show ?case by simp
next
  case (Cons c cs)
  then obtain r st1 rs' where "run_cmd c st = Some (r, st1)" and "run_cmds cs st1 = Some (rs', st')"
    by (auto split: option.splits prod.splits)
  with Cons show ?case using run_cmd_frame by fastforce
qed

section \<open>Counters kept in hashes\<close>

text \<open>The number a field of a hash holds, 0 when it is absent.\<close>

definition counter_value :: "rstore \<Rightarrow> string \<Rightarrow> string \<Rightarrow> int" where
  "counter_value st g f =
     (case st g of
        Some (VHash h, _) \<Rightarrow>
          (case h f of Some t \<Rightarrow> (case int_of_str t of Some i \<Rightarrow> i | None \<Rightarrow> 0) | None \<Rightarrow> 0)
      | _ \<Rightarrow> 0)"

lemma counter_value_cong: "st' g = st g \<Longrightarrow> counter_value st' g f = counter_value st g f"
  by (simp add: counter_value_def)

lemma hash_increment_counter_value:
  assumes "hash_increment k f d st = Some (r, st')"
  shows "counter_value st' g e = counter_value st g e + (if g = k \<and> e = f then d else 0)"
proof -
  from assms obtain h where h: "hash_at st k = Some h"
    by (auto simp: hash_increment_def split: option.splits)
  from assms h obtain i
    where i: "(case h f of None \<Rightarrow> Some 0 | Some t \<Rightarrow> int_of_str t) = Some i"
      and st': "st' = st(k \<mapsto> (VHash (h(f \<mapsto> str_of_int (i + d))), ttl_at st k))"
    by (simp add: hash_increment_def split: option.splits)
  have old: "counter_value st k e' = (case h e' of Some t \<Rightarrow> (case int_of_str t of Some i \<Rightarrow> i | None \<Rightarrow> 0) | None \<Rightarrow> 0)" for e'
    using h by (auto simp: counter_value_def hash_at_def split: option.splits rvalue.splits)
  show ?thesis
  proof (cases "g = k")
    case True
    have "counter_value st' k e = (if e = f then i + d else counter_value st k e)"
      unfolding old by (simp add: st' counter_value_def int_of_str_of_int)
    moreover have "counter_value st k f = i"
      using i unfolding old by (cases "h f") auto
    ultimately show ?thesis using True by simp
  next
    case False
    then show ?thesis by (simp add: st' counter_value_def)
  qed
qed

lemma hincrby_counter_value:
  "run_cmd (R_HINCRBY k f d) st = Some (r, st') \<Longrightarrow>
   counter_value st' g e = counter_value st g e + (if g = k \<and> e = f then d else 0)"
  by (simp add: hash_increment_counter_value)

lemma cond_incr_counter_value:
  "run_cmd (R_EVAL_COND_INCR k f d) st = Some (r, st') \<Longrightarrow>
   counter_value st' g e = counter_value st g e + (if g = k \<and> e = f then d else 0)"
  by (auto simp: conditional_counter_increment_def hash_increment_counter_value
      split: option.splits prod.splits)

lemma hincrbys_counter_value:
  "run_cmds (map (\<lambda>(k, f, d). R_HINCRBY k f d) us) st = Some (rs, st') \<Longrightarrow>
   counter_value st' g e =
     counter_value st g e + sum_list (map (\<lambda>(k, f, d). d) (filter (\<lambda>(k, f, d). k = g \<and> f = e) us))"
proof (induction us arbitrary: st rs)
  case Nil
  then show ?case by simp
next
  case (Cons u us)
  obtain k f d where u: "u = (k, f, d)" by (cases u)
  with Cons.prems obtain r st1 rs'
    where 1: "run_cmd (R_HINCRBY k f d) st = Some (r, st1)"
      and 2: "run_cmds (map (\<lambda>(k, f, d). R_HINCRBY k f d) us) st1 = Some (rs', st')"
    by (auto split: option.splits prod.splits simp del: run_cmd.simps)
  from Cons.IH [OF 2] hincrby_counter_value [OF 1, of g e] u show ?case by auto
qed

lemma conditional_delete_counter_value:
  "conditional_delete k v st = Some (r, st') \<Longrightarrow> counter_value st' g e = counter_value st g e"
  by (auto simp: conditional_delete_def counter_value_def split: option.splits prod.splits rvalue.splits if_splits)

lemma cond_deletes_counter_value:
  "run_cmds (map (\<lambda>(k, v). R_EVAL_COND_DEL k v) us) st = Some (rs, st') \<Longrightarrow>
   counter_value st' g e = counter_value st g e"
proof (induction us arbitrary: st rs)
  case Nil
  then show ?case by simp
next
  case (Cons u us)
  obtain k v where u: "u = (k, v)" by (cases u)
  with Cons.prems obtain r st1 rs'
    where 1: "conditional_delete k v st = Some (r, st1)"
      and 2: "run_cmds (map (\<lambda>(k, v). R_EVAL_COND_DEL k v) us) st1 = Some (rs', st')"
    by (auto split: option.splits prod.splits)
  from Cons.IH [OF 2] conditional_delete_counter_value [OF 1] show ?case by simp
qed

lemma cond_deletes_key:
  "run_cmds (map (\<lambda>(k, v). R_EVAL_COND_DEL k v) us) st = Some (rs, st') \<Longrightarrow>
   st' k = (case st k of Some (VStr v, t) \<Rightarrow> if (k, v) \<in> set us then None else st k | _ \<Rightarrow> st k)"
proof (induction us arbitrary: st rs)
  case Nil
  then show ?case by (auto split: option.splits prod.splits rvalue.splits)
next
  case (Cons u us)
  obtain k1 v1 where u: "u = (k1, v1)" by (cases u)
  with Cons.prems obtain r st1 rs'
    where 1: "conditional_delete k1 v1 st = Some (r, st1)"
      and 2: "run_cmds (map (\<lambda>(k, v). R_EVAL_COND_DEL k v) us) st1 = Some (rs', st')"
    by (auto split: option.splits prod.splits)
  from Cons.IH [OF 2] 1 u show ?case
    by (auto simp: conditional_delete_def split: option.splits prod.splits rvalue.splits if_splits)
qed

end
