(* ===== verification/Tenjin_Events.thy ===== *)
theory Tenjin_Events
  imports Tenjin_Redis
begin

text \<open>
  The events of \<^verbatim>\<open>resource_auxillary/events.py\<close>: side effects, their cache representation,
  reading an event back from a stream entry, and the integer a stream id is turned into.
  \<open>orjson\<close> is a pair of parameters, \<open>dumps\<close> and \<open>loads\<close>; pydantic's conversion to \<open>int\<close> is
  the parameter \<open>coerce_int\<close>.
\<close>

section \<open>Values\<close>

datatype pyval =
    PNone | PBool bool | PInt int | PStr string | PBytes string | PDatetime string
  | PList "pyval list" | PDict "(string \<times> pyval) list"

text \<open>\<open>d.get(k)\<close> on a dictionary in insertion order.\<close>

definition dict_get :: "(string \<times> pyval) list \<Rightarrow> string \<Rightarrow> pyval option" where
  "dict_get d k = map_of d k"

fun has_bytes :: "pyval \<Rightarrow> bool" where
  "has_bytes (PBytes s) = True"
| "has_bytes (PList xs) = list_ex has_bytes xs"
| "has_bytes (PDict d) = list_ex (\<lambda>kv. has_bytes (snd kv)) d"
| "has_bytes _ = False"

text \<open>
  What is documented of \<open>orjson.dumps\<close>: it raises nothing but its \<open>JSONEncodeError\<close>, a
  \<open>TypeError\<close>, and raises it for \<open>bytes\<close>, which are not serializable.
\<close>

definition rejects_bytes :: "(pyval \<Rightarrow> exn + string) \<Rightarrow> bool" where
  "rejects_bytes dumps \<longleftrightarrow>
     (\<forall>v. has_bytes v \<longrightarrow> dumps v = Inl TypeError) \<and> (\<forall>v e. dumps v = Inl e \<longrightarrow> e = TypeError)"

section \<open>Side effects\<close>

record counter_update =
  counter_group :: string
  counter_cache_key :: string
  field_name :: string
  delta :: int

record intent_update =
  intent_name :: string
  update_flag :: intent_flag
  intent_id :: string

datatype cache_operation = Invalidate | MarkMissing
datatype resource_kind = StringResource | MappingResource

record cache_update =
  invalidated_key :: string
  operation :: cache_operation
  resource_type :: resource_kind

record event_side_effects =
  counter_updates :: "counter_update list"
  intent_updates :: "intent_update list"
  cache_invalidations :: "cache_update list"

definition no_side_effects :: event_side_effects where
  "no_side_effects = \<lparr>counter_updates = [], intent_updates = [], cache_invalidations = []\<rparr>"

definition intent_value :: "intent_update \<Rightarrow> string" where
  "intent_value u = join NAME_SEPERATOR [intent_flag_value (update_flag u), intent_id u]"

fun operation_value :: "cache_operation \<Rightarrow> string" where
  "operation_value Invalidate = ''invalidate''"
| "operation_value MarkMissing = ''mark_missing''"

definition counter_update_repr :: "counter_update \<Rightarrow> pyval" where
  "counter_update_repr u =
     PDict [(''counter_group'', PStr (counter_group u)), (''cache_key'', PStr (counter_cache_key u)),
            (''field_name'', PStr (field_name u)), (''delta'', PInt (delta u))]"

definition intent_update_repr :: "intent_update \<Rightarrow> pyval" where
  "intent_update_repr u =
     PDict [(''intent_name'', PStr (intent_name u)),
            (''intent_flag'', PStr (intent_flag_value (update_flag u))),
            (''intent_id'', PStr (intent_id u))]"

text \<open>The resource type is not part of the representation.\<close>

definition cache_update_repr :: "cache_update \<Rightarrow> pyval" where
  "cache_update_repr u =
     PDict [(''cache_key'', PStr (invalidated_key u)),
            (''operation'', PStr (operation_value (operation u)))]"

definition side_effects_cache_repr ::
    "(pyval \<Rightarrow> exn + string) \<Rightarrow> event_side_effects \<Rightarrow> exn + pyval" where
  "side_effects_cache_repr dumps se =
     bindE (dumps (PList (map counter_update_repr (counter_updates se)))) (\<lambda>cu.
     bindE (dumps (PList (map intent_update_repr (intent_updates se)))) (\<lambda>iu.
     bindE (dumps (PList (map cache_update_repr (cache_invalidations se)))) (\<lambda>ci.
       Inr (PDict [(''counter_updates'', PBytes cu), (''intent_updates'', PBytes iu),
                   (''cache_invalidations'', PBytes ci)]))))"

section \<open>Events\<close>

record event =
  event_name :: event_name
  payload :: "(string \<times> pyval) list"
  side_effects :: event_side_effects

record streamed_event = event +
  event_id :: int

definition event_cache_repr ::
    "(pyval \<Rightarrow> exn + string) \<Rightarrow> 'a event_scheme \<Rightarrow> exn + (string \<times> string) list" where
  "event_cache_repr dumps ev =
     bindE (dumps (PDict (payload ev))) (\<lambda>p.
     bindE (side_effects_cache_repr dumps (side_effects ev)) (\<lambda>se.
     bindE (dumps se) (\<lambda>t.
       Inr [(''name'', event_name_value (event_name ev)), (''payload'', p), (''side_effects'', t)])))"

definition streamed_event_cache_repr ::
    "(pyval \<Rightarrow> exn + string) \<Rightarrow> streamed_event \<Rightarrow> exn + (string \<times> string) list" where
  "streamed_event_cache_repr dumps ev =
     bindE (event_cache_repr dumps ev) (\<lambda>d. Inr (d @ [(''event_id'', str_of_int (event_id ev))]))"

definition event_of :: "'a event_scheme \<Rightarrow> event" where
  "event_of ev =
     \<lparr>event_name = event_name ev, payload = payload ev, side_effects = side_effects ev\<rparr>"

definition to_streamed :: "event \<Rightarrow> int \<Rightarrow> streamed_event" where
  "to_streamed ev i = event.extend ev \<lparr>event_id = i\<rparr>"

section \<open>Reading an event back\<close>

text \<open>
  pydantic's validation of the four models: a string field takes a string, the enumerations
  one of their values, \<open>delta\<close> what \<open>coerce_int\<close> accepts; a missing or invalid field is a
  \<open>ValidationError\<close>, a \<open>ValueError\<close>.  \<open>Model(**x)\<close> of a value that is not a mapping is a
  \<open>TypeError\<close>.
\<close>

definition as_str :: "pyval option \<Rightarrow> exn + string" where
  "as_str v = (case v of Some (PStr s) \<Rightarrow> Inr s | _ \<Rightarrow> Inl ValueError)"

definition read_counter_update :: "(pyval \<Rightarrow> int option) \<Rightarrow> pyval \<Rightarrow> exn + counter_update" where
  "read_counter_update coerce_int v =
     (case v of
        PDict d \<Rightarrow>
          bindE (as_str (dict_get d ''counter_group'')) (\<lambda>g.
          bindE (as_str (dict_get d ''cache_key'')) (\<lambda>k.
          bindE (as_str (dict_get d ''field_name'')) (\<lambda>f.
            (case dict_get d ''delta'' of
               None \<Rightarrow> Inl ValueError
             | Some x \<Rightarrow>
                 (case coerce_int x of
                    None \<Rightarrow> Inl ValueError
                  | Some i \<Rightarrow> Inr \<lparr>counter_group = g, counter_cache_key = k, field_name = f, delta = i\<rparr>)))))
      | _ \<Rightarrow> Inl TypeError)"

definition read_intent_update :: "pyval \<Rightarrow> exn + intent_update" where
  "read_intent_update v =
     (case v of
        PDict d \<Rightarrow>
          bindE (as_str (dict_get d ''intent_name'')) (\<lambda>n.
          bindE (as_str (dict_get d ''intent_flag'')) (\<lambda>f.
          bindE (as_str (dict_get d ''intent_id'')) (\<lambda>i.
            (case intent_flag_of f of
               None \<Rightarrow> Inl ValueError
             | Some fl \<Rightarrow> Inr \<lparr>intent_name = n, update_flag = fl, intent_id = i\<rparr>))))
      | _ \<Rightarrow> Inl TypeError)"

definition read_operation :: "string \<Rightarrow> exn + cache_operation" where
  "read_operation s =
     (if s = ''invalidate'' then Inr Invalidate
      else if s = ''mark_missing'' then Inr MarkMissing else Inl ValueError)"

definition read_resource_type :: "pyval option \<Rightarrow> exn + resource_kind" where
  "read_resource_type v =
     (case v of
        None \<Rightarrow> Inr MappingResource
      | Some (PStr s) \<Rightarrow>
          if s = ''string'' then Inr StringResource
          else if s = ''mapping'' then Inr MappingResource else Inl ValueError
      | _ \<Rightarrow> Inl ValueError)"

definition read_cache_update :: "pyval \<Rightarrow> exn + cache_update" where
  "read_cache_update v =
     (case v of
        PDict d \<Rightarrow>
          bindE (as_str (dict_get d ''cache_key'')) (\<lambda>k.
          bindE (as_str (dict_get d ''operation'')) (\<lambda>s.
          bindE (read_operation s) (\<lambda>op.
          bindE (read_resource_type (dict_get d ''resource_type'')) (\<lambda>rt.
            Inr \<lparr>invalidated_key = k, operation = op, resource_type = rt\<rparr>))))
      | _ \<Rightarrow> Inl TypeError)"

text \<open>
  \<open>orjson.loads(raw.get(field, b"[]"))\<close>: text or bytes are parsed, any other value is a
  \<open>JSONDecodeError\<close>, a \<open>ValueError\<close>.
\<close>

definition loads_field ::
    "(string \<Rightarrow> exn + pyval) \<Rightarrow> (string \<times> pyval) list \<Rightarrow> string \<Rightarrow> exn + pyval" where
  "loads_field loads d field =
     (case (case dict_get d field of None \<Rightarrow> PBytes ''[]'' | Some v \<Rightarrow> v) of
        PStr s \<Rightarrow> loads s | PBytes s \<Rightarrow> loads s | _ \<Rightarrow> Inl ValueError)"

text \<open>The values a \<open>for\<close> loop over a parsed document sees.\<close>

definition iterate :: "pyval \<Rightarrow> exn + pyval list" where
  "iterate v =
     (case v of
        PList xs \<Rightarrow> Inr xs
      | PDict d \<Rightarrow> Inr (map (PStr \<circ> fst) d)
      | PStr s \<Rightarrow> Inr (map (\<lambda>c. PStr [c]) s)
      | _ \<Rightarrow> Inl TypeError)"

text \<open>\<open>EventName\<close> of the text, stripped and in upper case, as the field's validator makes it.\<close>

definition upper_char :: "char \<Rightarrow> char" where
  "upper_char c =
     (let n = (of_char c :: nat) in if 97 \<le> n \<and> n \<le> 122 then char_of (n - 32) else c)"

definition validate_event_name :: "string \<Rightarrow> exn + event_name" where
  "validate_event_name s = py_event_name (map upper_char (strip s))"

definition make_event ::
    "event_name \<Rightarrow> pyval \<Rightarrow> event_side_effects \<Rightarrow> exn + event" where
  "make_event n p se =
     bindE (validate_event_name (event_name_value n)) (\<lambda>m.
       (case p of
          PDict d \<Rightarrow> Inr \<lparr>event_name = m, payload = d, side_effects = se\<rparr>
        | _ \<Rightarrow> Inl ValueError))"

text \<open>The \<open>except\<close> clause: a \<open>KeyError\<close> or a \<open>ValueError\<close> becomes a \<open>ValueError\<close>.\<close>

definition malformed_entry :: "exn + 'a \<Rightarrow> exn + 'a" where
  "malformed_entry r =
     (case r of Inl e \<Rightarrow> Inl (if e = KeyError then ValueError else e) | Inr x \<Rightarrow> Inr x)"

definition reconstruct_from_stream ::
    "(string \<Rightarrow> exn + pyval) \<Rightarrow> (pyval \<Rightarrow> int option) \<Rightarrow> (string \<rightharpoonup> string) \<Rightarrow> exn + event" where
  "reconstruct_from_stream loads coerce_int entry =
     malformed_entry (
       bindE (py_lookup entry ''name'') (\<lambda>ns.
       bindE (py_event_name ns) (\<lambda>n.
       bindE (py_lookup entry ''payload'') (\<lambda>ps.
       bindE (loads ps) (\<lambda>p.
       bindE (py_lookup entry ''side_effects'') (\<lambda>ss.
       bindE (loads ss) (\<lambda>raw.
         (case raw of
            PDict d \<Rightarrow>
              bindE (loads_field loads d ''counter_updates'') (\<lambda>cv.
              bindE (iterate cv) (\<lambda>cl.
              bindE (traverse (read_counter_update coerce_int) cl) (\<lambda>cu.
              bindE (loads_field loads d ''intent_updates'') (\<lambda>iv.
              bindE (iterate iv) (\<lambda>il.
              bindE (traverse read_intent_update il) (\<lambda>iu.
              bindE (loads_field loads d ''cache_invalidations'') (\<lambda>kv.
              bindE (iterate kv) (\<lambda>kl.
              bindE (traverse read_cache_update kl) (\<lambda>ci.
                make_event n p
                  \<lparr>counter_updates = cu, intent_updates = iu, cache_invalidations = ci\<rparr>)))))))))
          | _ \<Rightarrow> Inl AttributeError))))))))"

text \<open>The integer made of a stream id: its dashes removed.\<close>

definition event_id_of :: "string \<Rightarrow> exn + int" where
  "event_id_of stream_id = py_int (filter (\<lambda>c. c \<noteq> CHR ''-'') stream_id)"

definition construct_from_stream_record ::
    "(string \<Rightarrow> exn + pyval) \<Rightarrow> (pyval \<Rightarrow> int option) \<Rightarrow> string \<times> (string \<rightharpoonup> string) \<Rightarrow>
     exn + streamed_event" where
  "construct_from_stream_record loads coerce_int stream =
     (case stream of (stream_id, entry) \<Rightarrow>
        bindE (event_id_of stream_id) (\<lambda>i.
        bindE (reconstruct_from_stream loads coerce_int entry) (\<lambda>base.
          Inr (to_streamed base i))))"

definition safe_construct_from_malformed_stream ::
    "string \<times> (string \<times> string) list \<Rightarrow> exn + streamed_event" where
  "safe_construct_from_malformed_stream stream =
     (case stream of (stream_id, entry) \<Rightarrow>
        bindE (event_id_of stream_id) (\<lambda>i.
          Inr (to_streamed
            \<lparr>event_name = MALFORMED, payload = map (\<lambda>(k, v). (k, PStr v)) entry,
             side_effects = no_side_effects\<rparr> i)))"

section \<open>No event has a cache representation\<close>

lemma side_effects_repr_bytes:
  "side_effects_cache_repr dumps x = Inr se \<Longrightarrow> has_bytes se"
  by (auto simp: side_effects_cache_repr_def bindE_eq_Inr_iff)

lemma bindE_TypeError:
  "(\<And>e. r = Inl e \<Longrightarrow> e = TypeError) \<Longrightarrow> (\<And>x. r = Inr x \<Longrightarrow> f x = Inl TypeError) \<Longrightarrow>
   bindE r f = Inl TypeError"
  by (cases r) auto

lemma side_effects_repr_Inl:
  "rejects_bytes dumps \<Longrightarrow> side_effects_cache_repr dumps x = Inl e \<Longrightarrow> e = TypeError"
  by (auto simp: side_effects_cache_repr_def rejects_bytes_def bindE_def split: sum.splits)

lemma rejects_bytesD:
  "rejects_bytes dumps \<Longrightarrow> has_bytes v \<Longrightarrow> dumps v = Inl TypeError"
  "rejects_bytes dumps \<Longrightarrow> dumps v = Inl e \<Longrightarrow> e = TypeError"
  by (auto simp: rejects_bytes_def)

lemma event_cache_repr_Inl: "rejects_bytes dumps \<Longrightarrow> event_cache_repr dumps ev = Inl TypeError"
  unfolding event_cache_repr_def
  by (intro bindE_TypeError)
    (auto dest: side_effects_repr_bytes side_effects_repr_Inl rejects_bytesD)

text \<open>
  The three lists of side effects are serialized to \<open>bytes\<close>, which are then values of
  the dictionary that is serialized in its turn.  Since \<open>orjson\<close> refuses \<open>bytes\<close>, the cache
  representation of every event raises a \<open>TypeError\<close>, whatever its side effects.
\<close>

theorem event_cache_repr_raises:
  assumes "rejects_bytes dumps"
  shows "event_cache_repr dumps ev = Inl TypeError"
  using assms by (rule event_cache_repr_Inl)

definition demo_event :: event where
  "demo_event =
     \<lparr>event_name = POST_VOTE, payload = [(''post_id'', PInt 7)],
      side_effects =
        \<lparr>counter_updates =
           [\<lparr>counter_group = ''POST:score'', counter_cache_key = ''POST:7'',
             field_name = ''score'', delta = 1\<rparr>],
         intent_updates =
           [\<lparr>intent_name = ''POST:VOTE:3:7'', update_flag = RESOURCE_CREATION_PENDING_FLAG,
             intent_id = ''ab12''\<rparr>],
         cache_invalidations =
           [\<lparr>invalidated_key = ''POST:7'', operation = Invalidate, resource_type = StringResource\<rparr>]\<rparr>\<rparr>"

definition demo_dumps :: "pyval \<Rightarrow> exn + string" where
  "demo_dumps v = (if has_bytes v then Inl TypeError else Inr ''null'')"

lemma demo_dumps_rejects_bytes [simp]: "rejects_bytes demo_dumps"
  by (simp add: rejects_bytes_def demo_dumps_def)

theorem event_cache_repr_raises_witness: "event_cache_repr demo_dumps demo_event = Inl TypeError"
  by (rule event_cache_repr_raises) simp

section \<open>The reader inverts the representation\<close>

text \<open>
  An entry that carries, in its three fields, documents of the representations of an event:
  what a stream holds when the bytes of the side effects are decoded to text before they are
  nested.
\<close>

definition carries ::
    "(string \<Rightarrow> exn + pyval) \<Rightarrow> (string \<rightharpoonup> string) \<Rightarrow> event \<Rightarrow> bool" where
  "carries loads entry ev \<longleftrightarrow>
     entry ''name'' = Some (event_name_value (event_name ev)) \<and>
     (\<exists>p s d cu iu ci.
        entry ''payload'' = Some p \<and> loads p = Inr (PDict (payload ev)) \<and>
        entry ''side_effects'' = Some s \<and> loads s = Inr (PDict d) \<and>
        dict_get d ''counter_updates'' = Some (PStr cu) \<and>
        loads cu = Inr (PList (map counter_update_repr (counter_updates (side_effects ev)))) \<and>
        dict_get d ''intent_updates'' = Some (PStr iu) \<and>
        loads iu = Inr (PList (map intent_update_repr (intent_updates (side_effects ev)))) \<and>
        dict_get d ''cache_invalidations'' = Some (PStr ci) \<and>
        loads ci = Inr (PList (map cache_update_repr (cache_invalidations (side_effects ev)))))"

text \<open>What the representation loses: the resource type of a cache invalidation.\<close>

definition as_mapping :: "cache_update \<Rightarrow> cache_update" where
  "as_mapping u = u\<lparr>resource_type := MappingResource\<rparr>"

definition forget_resource_types :: "event \<Rightarrow> event" where
  "forget_resource_types ev =
     ev\<lparr>side_effects := (side_effects ev)
        \<lparr>cache_invalidations := map as_mapping (cache_invalidations (side_effects ev))\<rparr>\<rparr>"

lemma read_counter_update_repr:
  "coerce_int (PInt (delta u)) = Some (delta u) \<Longrightarrow>
   read_counter_update coerce_int (counter_update_repr u) = Inr u"
  by (simp add: read_counter_update_def counter_update_repr_def dict_get_def as_str_def)

lemma read_intent_update_repr: "read_intent_update (intent_update_repr u) = Inr u"
  by (simp add: read_intent_update_def intent_update_repr_def dict_get_def as_str_def)

lemma read_operation_value: "read_operation (operation_value op) = Inr op"
  by (cases op) (simp_all add: read_operation_def)

lemma read_cache_update_repr: "read_cache_update (cache_update_repr u) = Inr (as_mapping u)"
  by (simp add: read_cache_update_def cache_update_repr_def dict_get_def as_str_def as_mapping_def
      read_operation_value read_resource_type_def)

lemma validate_event_name_value [simp]: "validate_event_name (event_name_value n) = Inr n"
proof -
  have "map upper_char (strip (event_name_value n)) = event_name_value n"
    by (cases n) (simp_all add: strip_def lstrip_def is_space_def upper_char_def)
  then show ?thesis by (simp add: validate_event_name_def)
qed

lemma reconstruct_carried:
  assumes "carries loads entry ev" and "\<And>i. coerce_int (PInt i) = Some i"
  shows "reconstruct_from_stream loads coerce_int entry = Inr (forget_resource_types ev)"
proof -
  have 1: "traverse (read_counter_update coerce_int)
      (map counter_update_repr (counter_updates (side_effects ev))) = Inr (counter_updates (side_effects ev))"
    using traverse_map_Inr [of _ "read_counter_update coerce_int" counter_update_repr id]
    by (simp add: read_counter_update_repr assms(2))
  have 2: "traverse read_intent_update
      (map intent_update_repr (intent_updates (side_effects ev))) = Inr (intent_updates (side_effects ev))"
    using traverse_map_Inr [of _ read_intent_update intent_update_repr id]
    by (simp add: read_intent_update_repr)
  have 3: "traverse read_cache_update
      (map cache_update_repr (cache_invalidations (side_effects ev))) =
      Inr (map as_mapping (cache_invalidations (side_effects ev)))"
    by (rule traverse_map_Inr) (rule read_cache_update_repr)
  from assms(1) show ?thesis
    by (auto simp: carries_def reconstruct_from_stream_def malformed_entry_def py_lookup_def
        loads_field_def iterate_def make_event_def forget_resource_types_def 1 2 3)
qed

text \<open>
  C39.  Reading back an entry that carries an event gives that event, with one loss: every
  cache invalidation comes back as an invalidation of a mapping, because the representation
  of a \<open>CacheUpdate\<close> leaves its resource type out.
\<close>

theorem reconstruct_carried_event:
  assumes "carries loads entry ev" and "\<And>i. coerce_int (PInt i) = Some i"
  shows "reconstruct_from_stream loads coerce_int entry = Inr (forget_resource_types ev)"
  using assms by (rule reconstruct_carried)

definition demo_loads :: "string \<Rightarrow> exn + pyval" where
  "demo_loads s =
     (if s = ''p'' then Inr (PDict (payload demo_event))
      else if s = ''s'' then
        Inr (PDict [(''counter_updates'', PStr ''c''), (''intent_updates'', PStr ''i''),
                    (''cache_invalidations'', PStr ''k'')])
      else if s = ''c'' then
        Inr (PList (map counter_update_repr (counter_updates (side_effects demo_event))))
      else if s = ''i'' then
        Inr (PList (map intent_update_repr (intent_updates (side_effects demo_event))))
      else if s = ''k'' then
        Inr (PList (map cache_update_repr (cache_invalidations (side_effects demo_event))))
      else Inl ValueError)"

definition demo_coerce :: "pyval \<Rightarrow> int option" where
  "demo_coerce v = (case v of PInt i \<Rightarrow> Some i | _ \<Rightarrow> None)"

definition demo_entry :: "string \<rightharpoonup> string" where
  "demo_entry = [''name'' \<mapsto> ''POST_VOTE'', ''payload'' \<mapsto> ''p'', ''side_effects'' \<mapsto> ''s'']"

lemma demo_carries: "carries demo_loads demo_entry demo_event"
  by (simp add: carries_def demo_loads_def demo_entry_def dict_get_def demo_event_def)

lemma demo_coerce_PInt [simp]: "demo_coerce (PInt i) = Some i"
  by (simp add: demo_coerce_def)

lemma reconstruct_demo:
  "reconstruct_from_stream demo_loads demo_coerce demo_entry = Inr (forget_resource_types demo_event)"
  by (rule reconstruct_carried [OF demo_carries]) simp

theorem reconstruct_carried_event_witness:
  "reconstruct_from_stream demo_loads demo_coerce demo_entry = Inr (forget_resource_types demo_event) \<and>
   forget_resource_types demo_event \<noteq> demo_event"
  using reconstruct_carried_event [OF demo_carries, of demo_coerce]
  by (simp add: forget_resource_types_def demo_event_def as_mapping_def)

section \<open>Stream ids\<close>

text \<open>An id Redis gives an entry: milliseconds and a sequence number, ordered in this order.\<close>

datatype stream_id = Stream_id (id_ms: nat) (id_seq: nat)

instantiation stream_id :: linorder
begin

definition less_eq_stream_id :: "stream_id \<Rightarrow> stream_id \<Rightarrow> bool" where
  "less_eq_stream_id a b \<longleftrightarrow> id_ms a < id_ms b \<or> id_ms a = id_ms b \<and> id_seq a \<le> id_seq b"

definition less_stream_id :: "stream_id \<Rightarrow> stream_id \<Rightarrow> bool" where
  "less_stream_id a b \<longleftrightarrow> id_ms a < id_ms b \<or> id_ms a = id_ms b \<and> id_seq a < id_seq b"

instance
  by standard (auto simp: less_eq_stream_id_def less_stream_id_def intro: stream_id.expand)

end

definition stream_id_text :: "stream_id \<Rightarrow> string" where
  "stream_id_text i = str_of_nat (id_ms i) @ ''-'' @ str_of_nat (id_seq i)"

lemma no_dash_filter: "CHR ''-'' \<notin> set s \<Longrightarrow> filter (\<lambda>c. c \<noteq> CHR ''-'') s = s"
  by (induction s) auto

lemma event_id_of_stream_id:
  "event_id_of (stream_id_text i) =
   Inr (int (id_ms i * 10 ^ length (str_of_nat (id_seq i)) + id_seq i))"
proof -
  let ?s = "str_of_nat (id_ms i) @ str_of_nat (id_seq i)"
  have "filter (\<lambda>c. c \<noteq> CHR ''-'') (stream_id_text i) = ?s"
    by (simp add: stream_id_text_def no_dash_filter)
  moreover have "int_of_str ?s = Some (int (digits_value 0 ?s))"
    using str_of_nat_digits by (intro int_of_str_digits) auto
  moreover have "digits_value 0 ?s = id_ms i * 10 ^ length (str_of_nat (id_seq i)) + id_seq i"
    by (simp add: digits_value_append digits_value_str_of_nat
        digits_value_shift [of "id_ms i" "str_of_nat (id_seq i)"])
  ultimately show ?thesis by (simp add: event_id_of_def py_int_def)
qed

lemma str_of_nat_length_bound: "n < 10 ^ length (str_of_nat n)"
proof (induction n rule: str_of_nat.induct)
  case (1 n)
  show ?case
  proof (cases "n < 10")
    case True
    then show ?thesis by (simp add: str_of_nat.simps [of n])
  next
    case False
    with "1.IH" have "n div 10 < 10 ^ length (str_of_nat (n div 10))" by simp
    then have "n < 10 * 10 ^ length (str_of_nat (n div 10))" by linarith
    with False show ?thesis by (simp add: str_of_nat.simps [of n])
  qed
qed

text \<open>
  The integers made of stream ids keep the order of the ids, hence tell them apart, as
  long as the sequence numbers have the same number of digits.
\<close>

theorem event_id_of_strict_mono:
  assumes "a < b"
    and "length (str_of_nat (id_seq a)) = length (str_of_nat (id_seq b))"
  shows "\<exists>x y. event_id_of (stream_id_text a) = Inr x \<and> event_id_of (stream_id_text b) = Inr y \<and> x < y"
proof -
  let ?k = "length (str_of_nat (id_seq b))"
  have "id_ms a * 10 ^ ?k + id_seq a < id_ms b * 10 ^ ?k + id_seq b"
  proof (cases "id_ms a < id_ms b")
    case True
    then have "(id_ms a + 1) * 10 ^ ?k \<le> id_ms b * 10 ^ ?k" by (intro mult_right_mono) auto
    moreover have "id_seq a < 10 ^ ?k" using str_of_nat_length_bound [of "id_seq a"] assms(2) by simp
    ultimately show ?thesis by (simp add: algebra_simps)
  next
    case False
    with assms(1) show ?thesis by (auto simp: less_stream_id_def)
  qed
  then show ?thesis using assms(2) by (simp add: event_id_of_stream_id del: of_nat_add of_nat_mult of_nat_power)
qed

theorem event_id_of_strict_mono_witness:
  "\<exists>x y. event_id_of (stream_id_text (Stream_id 1700 3)) = Inr x \<and>
         event_id_of (stream_id_text (Stream_id 1701 0)) = Inr y \<and> x < y"
  by (rule event_id_of_strict_mono) (simp_all add: less_stream_id_def str_of_nat.simps)

text \<open>
  They do not tell all ids apart: two entries written in different milliseconds can get
  the same integer, and a later entry a smaller one.
\<close>

theorem event_id_of_collision:
  "event_id_of (stream_id_text (Stream_id 1 10)) = event_id_of (stream_id_text (Stream_id 11 0)) \<and>
   Stream_id 1 10 < Stream_id 11 0 \<and>
   event_id_of (stream_id_text (Stream_id 2 10)) = Inr 210 \<and>
   event_id_of (stream_id_text (Stream_id 3 0)) = Inr 30 \<and> Stream_id 2 10 < Stream_id 3 0"
  by (simp add: event_id_of_stream_id less_stream_id_def str_of_nat.simps [of 10]
      str_of_nat.simps [of 0] str_of_nat.simps [of "Suc 0"])

text \<open>
  The integer sent back to Redis as an id: \<open>str(event_id)\<close>, an incomplete id, which Redis
  reads as that many milliseconds and sequence number 0.
\<close>

definition acked_id :: "int \<Rightarrow> stream_id" where
  "acked_id i = Stream_id (nat i) 0"

lemma event_id_names_other_entry:
  assumes "event_id_of (stream_id_text i) = Inr n" and "0 < id_ms i"
  shows "i < acked_id n"
proof -
  let ?k = "length (str_of_nat (id_seq i))"
  have n: "n = int (id_ms i * 10 ^ ?k + id_seq i)"
    using assms(1) by (simp add: event_id_of_stream_id)
  have "0 < ?k" by simp
  then have "10 \<le> (10::nat) ^ ?k" by (cases ?k) auto
  then have "id_ms i * 10 \<le> id_ms i * 10 ^ ?k" by (rule mult_left_mono) simp
  with assms(2) have "id_ms i < id_ms i * 10 ^ ?k + id_seq i" by linarith
  then show ?thesis by (simp add: acked_id_def less_stream_id_def n del: of_nat_add of_nat_mult of_nat_power)
qed

end
