(* ===== verification/Tenjin_Retry.thy ===== *)
theory Tenjin_Retry
  imports Tenjin_Prelude
begin

text \<open>
  Retries with exponential backoff: \<^verbatim>\<open>resource_auxillary/coordination.py\<close> and the two retry
  loops, \<open>execute_with_redis_retries\<close> of \<^verbatim>\<open>event_processing/qos.py\<close> and
  \<open>db_execute_with_retries\<close> of \<^verbatim>\<open>event_processing/db_qos.py\<close>.  What both promise is the
  locale \<open>retry_routine\<close>; its lemmas hold for either loop by interpretation.  Sleeping for a
  random time below a bound is the parameter \<open>sleep\<close>.
\<close>

section \<open>Backoff\<close>

record retry_policy =
  MAX_RETRIES :: int
  MAXIMUM_BACKOFF_INTERVAL :: int
  BASE_BACKOFF_INTERVAL :: int
  BACKOFF_EXPONENTIAL :: int

definition calculate_exponential_backoff_time :: "int \<Rightarrow> int \<Rightarrow> nat \<Rightarrow> int \<Rightarrow> int" where
  "calculate_exponential_backoff_time cap base attempt exponential =
     min cap (base * exponential ^ attempt)"

definition exponential_jittered_backoff ::
    "(int \<Rightarrow> ('s, unit) py) \<Rightarrow> int \<Rightarrow> int \<Rightarrow> nat \<Rightarrow> int \<Rightarrow> ('s, unit) py" where
  "exponential_jittered_backoff sleep cap base attempt exponential =
     sleep (calculate_exponential_backoff_time cap base attempt exponential)"

text \<open>
  The backoff time stays between 0 and the cap, never decreases from one attempt to the
  next, and doubles or better until the cap is reached.
\<close>

theorem backoff_bounded_monotone:
  assumes "0 \<le> cap" and "0 \<le> base" and "2 \<le> exponential" and "m \<le> n"
  shows "0 \<le> calculate_exponential_backoff_time cap base m exponential \<and>
         calculate_exponential_backoff_time cap base m exponential \<le> cap \<and>
         calculate_exponential_backoff_time cap base m exponential
           \<le> calculate_exponential_backoff_time cap base n exponential \<and>
         min cap (2 * calculate_exponential_backoff_time cap base m exponential)
           \<le> calculate_exponential_backoff_time cap base (Suc m) exponential"
proof -
  have "exponential ^ m \<le> exponential ^ n" using assms by (intro power_increasing) auto
  then have "base * exponential ^ m \<le> base * exponential ^ n"
    using assms(2) by (rule mult_left_mono)
  moreover have "2 * (base * exponential ^ m) \<le> exponential * (base * exponential ^ m)"
    using assms by (intro mult_right_mono) auto
  moreover have "0 \<le> base * exponential ^ m" using assms by simp
  ultimately show ?thesis
    using assms(1)
    by (simp add: calculate_exponential_backoff_time_def min_def algebra_simps)
qed

theorem backoff_bounded_monotone_witness:
  "0 \<le> calculate_exponential_backoff_time 10 1 2 2 \<and>
   calculate_exponential_backoff_time 10 1 2 2 \<le> 10 \<and>
   calculate_exponential_backoff_time 10 1 2 2 \<le> calculate_exponential_backoff_time 10 1 5 2 \<and>
   min 10 (2 * calculate_exponential_backoff_time 10 1 2 2)
     \<le> calculate_exponential_backoff_time 10 1 (Suc 2) 2"
  by (rule backoff_bounded_monotone) simp_all

section \<open>The contract of a retry loop\<close>

text \<open>
  \<open>run m ks exc\<close> makes one attempt per element of \<open>ks\<close>, \<open>exc\<close> being the exception of the
  previous attempt: a success is returned, a retryable failure is recovered from and
  attempted again, any other failure is cleaned up after and raised; when no attempt is
  left the last exception is raised, and nothing is returned if there was none.
\<close>

locale retry_routine =
  fixes run :: "('s, 'a) py \<Rightarrow> nat list \<Rightarrow> exn option \<Rightarrow> ('s, 'a option) py"
    and retryable :: "exn \<Rightarrow> bool"
    and recover :: "nat \<Rightarrow> ('s, unit) py"
    and cleanup :: "('s, unit) py"
  assumes run_nil: "run m [] exc s = ((case exc of None \<Rightarrow> Inr None | Some e \<Rightarrow> Inl e), s)"
    and run_ok: "m s = (Inr x, s1) \<Longrightarrow> run m (k # ks) exc s = (Inr (Some x), s1)"
    and run_retry: "m s = (Inl e, s1) \<Longrightarrow> retryable e \<Longrightarrow>
      run m (k # ks) exc s = thenM (recover k) (run m ks (Some e)) s1"
    and run_fail: "m s = (Inl e, s1) \<Longrightarrow> \<not> retryable e \<Longrightarrow>
      run m (k # ks) exc s = thenM cleanup (raise e) s1"
begin

text \<open>A run of \<open>n\<close> retryable failures, each recovered from, through the states \<open>st\<close>.\<close>

definition failing :: "('s, 'a) py \<Rightarrow> nat list \<Rightarrow> (nat \<Rightarrow> 's) \<Rightarrow> (nat \<Rightarrow> exn) \<Rightarrow> nat \<Rightarrow> bool" where
  "failing m ks st es n \<longleftrightarrow>
     (\<forall>i < n. \<exists>s1. m (st i) = (Inl (es i), s1) \<and> retryable (es i) \<and>
                   recover (ks ! i) s1 = (Inr (), st (Suc i)))"

lemma failing_Suc:
  assumes "failing m (k # ks) st es (Suc n)"
  shows "\<exists>s1. m (st 0) = (Inl (es 0), s1) \<and> retryable (es 0) \<and> recover k s1 = (Inr (), st 1)"
    and "failing m ks (\<lambda>i. st (Suc i)) (\<lambda>i. es (Suc i)) n"
  using assms unfolding failing_def by (force, auto)

lemma run_after_failures:
  "failing m ks st es n \<Longrightarrow> n \<le> length ks \<Longrightarrow>
   run m ks exc (st 0) = run m (drop n ks) (if n = 0 then exc else Some (es (n - 1))) (st n)"
proof (induction n arbitrary: ks st es exc)
  case 0
  then show ?case by simp
next
  case (Suc n)
  then obtain k ks' where ks: "ks = k # ks'" by (cases ks) auto
  from failing_Suc(1) [OF Suc.prems(1) [unfolded ks]] obtain s1
    where "m (st 0) = (Inl (es 0), s1)" "retryable (es 0)" "recover k s1 = (Inr (), st 1)" by blast
  then have "run m ks exc (st 0) = run m ks' (Some (es 0)) (st 1)"
    by (simp add: ks run_retry)
  also have "\<dots> = run m (drop n ks') (if n = 0 then Some (es 0) else Some (es (Suc (n - 1)))) (st (Suc n))"
    using Suc.IH [OF failing_Suc(2) [OF Suc.prems(1) [unfolded ks]], of "Some (es 0)"] Suc.prems(2) ks
    by simp
  finally show ?case by (cases n) (simp_all add: ks)
qed

lemma first_success:
  assumes "failing m ks st es n" and "n < length ks" and "m (st n) = (Inr x, s')"
  shows "run m ks exc (st 0) = (Inr (Some x), s')"
proof -
  from assms(2) obtain k ks' where "drop n ks = k # ks'"
    by (metis Cons_nth_drop_Suc)
  with run_after_failures [OF assms(1), of exc] assms show ?thesis by (simp add: run_ok)
qed

lemma all_fail:
  assumes "failing m ks st es (length ks)" and "ks \<noteq> []"
  shows "run m ks exc (st 0) = (Inl (es (length ks - 1)), st (length ks))"
  using run_after_failures [OF assms(1), of exc] assms(2) by (simp add: run_nil)

lemma permanent_failure:
  assumes "failing m ks st es n" and "n < length ks"
    and "m (st n) = (Inl e, s1)" and "\<not> retryable e" and "cleanup s1 = (Inr (), s')"
  shows "run m ks exc (st 0) = (Inl e, s')"
proof -
  from assms(2) obtain k ks' where "drop n ks = k # ks'"
    by (metis Cons_nth_drop_Suc)
  with run_after_failures [OF assms(1), of exc] assms show ?thesis by (simp add: run_fail)
qed

text \<open>
  Whatever counts the attempts, the loop makes no more than it was given: \<open>count\<close> grows by at
  most one with \<open>m\<close> and not at all with the recovery or the cleanup.
\<close>

lemma attempts_bounded:
  assumes "\<And>s r s1. m s = (r, s1) \<Longrightarrow> count s1 \<le> Suc (count s)"
    and "\<And>k s r s1. recover k s = (r, s1) \<Longrightarrow> count s1 = count s"
    and "\<And>s r s1. cleanup s = (r, s1) \<Longrightarrow> count s1 = count s"
  shows "count (snd (run m ks exc s)) \<le> count s + length ks"
proof (induction ks arbitrary: exc s)
  case Nil
  then show ?case by (simp add: run_nil)
next
  case (Cons k ks)
  obtain r s1 where m: "m s = (r, s1)" by fastforce
  then have c: "count s1 \<le> Suc (count s)" by (rule assms(1))
  show ?case
  proof (cases r)
    case (Inr x)
    then show ?thesis using m c by (simp add: run_ok)
  next
    case (Inl e)
    show ?thesis
    proof (cases "retryable e")
      case True
      obtain q s2 where q: "recover k s1 = (q, s2)" by fastforce
      then have "count s2 = count s1" by (rule assms(2))
      then show ?thesis using m c Inl True q Cons.IH [of "Some e" s2]
        by (cases q) (simp_all add: run_retry)
    next
      case False
      obtain q s2 where q: "cleanup s1 = (q, s2)" by fastforce
      then have "count s2 = count s1" by (rule assms(3))
      then show ?thesis using m c Inl False q by (cases q) (simp_all add: run_fail)
    qed
  qed
qed

end

section \<open>Retrying a Redis call\<close>

definition network_error :: "exn \<Rightarrow> bool" where
  "network_error e \<longleftrightarrow> e = RedisError True"

text \<open>\<open>attempts or retry_policy.MAX_RETRIES\<close>: no attempts given, or 0, is the policy's number.\<close>

definition effective_attempts :: "retry_policy \<Rightarrow> int option \<Rightarrow> int" where
  "effective_attempts pol attempts =
     (case attempts of None \<Rightarrow> MAX_RETRIES pol | Some n \<Rightarrow> if n = 0 then MAX_RETRIES pol else n)"

text \<open>\<open>range(1, attempts + 1)\<close>.\<close>

definition attempt_range :: "int \<Rightarrow> nat list" where
  "attempt_range n = [1 ..< Suc (nat n)]"

lemma length_attempt_range [simp]: "length (attempt_range n) = nat n"
  by (simp add: attempt_range_def)

lemma attempt_range_nth [simp]: "i < nat n \<Longrightarrow> attempt_range n ! i = Suc i"
  by (simp add: attempt_range_def del: upt_Suc)

definition backoff :: "(int \<Rightarrow> ('s, unit) py) \<Rightarrow> retry_policy \<Rightarrow> nat \<Rightarrow> ('s, unit) py" where
  "backoff sleep pol attempt =
     exponential_jittered_backoff sleep (MAXIMUM_BACKOFF_INTERVAL pol) (BASE_BACKOFF_INTERVAL pol)
       attempt (BACKOFF_EXPONENTIAL pol)"

fun redis_retry_loop ::
    "(int \<Rightarrow> ('s, unit) py) \<Rightarrow> retry_policy \<Rightarrow> ('s, 'a) py \<Rightarrow> nat list \<Rightarrow> exn option \<Rightarrow>
     ('s, 'a option) py" where
  "redis_retry_loop sleep pol m [] exc s =
     ((case exc of None \<Rightarrow> Inr None | Some e \<Rightarrow> Inl e), s)"
| "redis_retry_loop sleep pol m (k # ks) exc s =
     (case m s of
        (Inr x, s1) \<Rightarrow> (Inr (Some x), s1)
      | (Inl e, s1) \<Rightarrow>
          if network_error e
          then thenM (backoff sleep pol k) (redis_retry_loop sleep pol m ks (Some e)) s1
          else (Inl e, s1))"

definition execute_with_redis_retries ::
    "(int \<Rightarrow> ('s, unit) py) \<Rightarrow> retry_policy \<Rightarrow> ('s, 'a) py \<Rightarrow> int option \<Rightarrow> ('s, 'a option) py" where
  "execute_with_redis_retries sleep pol m attempts =
     redis_retry_loop sleep pol m (attempt_range (effective_attempts pol attempts)) None"

interpretation redis_retry:
  retry_routine "redis_retry_loop sleep pol" network_error "backoff sleep pol" "pure ()"
  for sleep pol
  by unfold_locales simp_all

section \<open>Retrying a database operation\<close>

definition potentially_transient :: "exn \<Rightarrow> bool" where
  "potentially_transient e \<longleftrightarrow> e = OperationalError \<or> e = InternalError"

fun db_retry_loop ::
    "(int \<Rightarrow> ('s, unit) py) \<Rightarrow> retry_policy \<Rightarrow> ('s, unit) py \<Rightarrow> ('s, 'a) py \<Rightarrow> nat list \<Rightarrow>
     exn option \<Rightarrow> ('s, 'a option) py" where
  "db_retry_loop sleep pol rollback m [] exc s =
     ((case exc of None \<Rightarrow> Inr None | Some e \<Rightarrow> Inl e), s)"
| "db_retry_loop sleep pol rollback m (k # ks) exc s =
     (case m s of
        (Inr x, s1) \<Rightarrow> (Inr (Some x), s1)
      | (Inl e, s1) \<Rightarrow>
          if potentially_transient e
          then thenM (thenM rollback (backoff sleep pol k))
                 (db_retry_loop sleep pol rollback m ks (Some e)) s1
          else thenM rollback (raise e) s1)"

definition db_execute_with_retries ::
    "(int \<Rightarrow> ('s, unit) py) \<Rightarrow> retry_policy \<Rightarrow> ('s, unit) py \<Rightarrow> ('s, 'a) py \<Rightarrow> int option \<Rightarrow>
     ('s, 'a option) py" where
  "db_execute_with_retries sleep pol rollback m attempts =
     db_retry_loop sleep pol rollback m (attempt_range (effective_attempts pol attempts)) None"

interpretation db_retry:
  retry_routine "db_retry_loop sleep pol rollback" potentially_transient
    "\<lambda>k. thenM rollback (backoff sleep pol k)" rollback
  for sleep pol rollback
  by unfold_locales simp_all

section \<open>What the loops guarantee\<close>

text \<open>A state that records the calls made and plays back a script of outcomes.\<close>

type_synonym script = "nat \<times> (exn + int) list"

definition scripted :: "(script, int) py" where
  "scripted s =
     (case s of
        (n, []) \<Rightarrow> (Inl OtherException, (Suc n, []))
      | (n, r # rs) \<Rightarrow> (r, (Suc n, rs)))"

definition sample_policy :: retry_policy where
  "sample_policy =
     \<lparr>MAX_RETRIES = 3, MAXIMUM_BACKOFF_INTERVAL = 10, BASE_BACKOFF_INTERVAL = 1,
      BACKOFF_EXPONENTIAL = 2\<rparr>"

text \<open>
  C36.  A Redis call that fails with network errors \<open>n\<close> times, fewer than the attempts it has,
  and then succeeds is returned, in the state of that success; the attempts are the policy's
  when none or 0 are given.
\<close>

theorem redis_retries_first_success:
  assumes "\<And>i. i < n \<Longrightarrow> \<exists>s1. m (st i) = (Inl (RedisError True), s1) \<and>
                               backoff sleep pol (Suc i) s1 = (Inr (), st (Suc i))"
    and "int n < effective_attempts pol attempts"
    and "m (st n) = (Inr x, s')"
  shows "execute_with_redis_retries sleep pol m attempts (st 0) = (Inr (Some x), s')"
proof -
  have "redis_retry.failing sleep pol m (attempt_range (effective_attempts pol attempts))
          st (\<lambda>_. RedisError True) n"
    unfolding redis_retry.failing_def using assms(1,2) by (fastforce simp: network_error_def)
  from redis_retry.first_success [OF this, of x s' None] assms(2,3) show ?thesis
    by (simp add: execute_with_redis_retries_def)
qed

theorem redis_retries_first_success_witness:
  "execute_with_redis_retries (\<lambda>_. pure ()) sample_policy scripted (Some 0)
     (0, [Inl (RedisError True), Inl (RedisError True), Inr 5]) = (Inr (Some 5), (3, []))"
proof -
  let ?e = "Inl (RedisError True)"
  let ?st = "\<lambda>i. (i, drop i [?e, ?e, Inr 5])"
  have "execute_with_redis_retries (\<lambda>_. pure ()) sample_policy scripted (Some 0) (?st 0) =
        (Inr (Some 5), (3, []))"
  proof (rule redis_retries_first_success [where n = 2])
    fix i :: nat assume "i < 2"
    then have "i = 0 \<or> i = 1" by auto
    then show "\<exists>s1. scripted (?st i) = (?e, s1) \<and>
        backoff (\<lambda>_. pure ()) sample_policy (Suc i) s1 = (Inr (), ?st (Suc i))"
      by (auto simp: scripted_def backoff_def exponential_jittered_backoff_def)
  qed (simp_all add: effective_attempts_def sample_policy_def scripted_def)
  then show ?thesis by simp
qed

lemma scripted_count: "scripted s = (r, s1) \<Longrightarrow> fst s1 = Suc (fst s)"
  by (auto simp: scripted_def split: prod.splits list.splits)

text \<open>
  No more attempts are made than were given, whatever the call does: a counter of calls
  that only the call itself advances, by one, grows by at most the number of attempts, for
  the Redis loop and for the database loop.
\<close>

theorem retries_bounded:
  assumes "\<And>s r s1. m s = (r, s1) \<Longrightarrow> count s1 = Suc (count s)"
    and "\<And>t s r s1. sleep t s = (r, s1) \<Longrightarrow> count s1 = count s"
    and "\<And>s r s1. rollback s = (r, s1) \<Longrightarrow> count s1 = count s"
  shows "count (snd (execute_with_redis_retries sleep pol m attempts s))
           \<le> count s + nat (effective_attempts pol attempts) \<and>
         count (snd (db_execute_with_retries sleep pol rollback m attempts s))
           \<le> count s + nat (effective_attempts pol attempts)"
proof
  have m: "\<And>s r s1. m s = (r, s1) \<Longrightarrow> count s1 \<le> Suc (count s)" using assms(1) by simp
  have b: "\<And>k s r s1. backoff sleep pol k s = (r, s1) \<Longrightarrow> count s1 = count s"
    unfolding backoff_def exponential_jittered_backoff_def by (rule assms(2))
  have rb: "count s1 = count s" if "thenM rollback (backoff sleep pol k) s = (r, s1)" for k s r s1
  proof -
    obtain q s2 where q: "rollback s = (q, s2)" by fastforce
    then have "count s2 = count s" by (rule assms(3))
    with q that b show ?thesis by (cases q) auto
  qed
  have "count (snd (redis_retry_loop sleep pol m ks None s)) \<le> count s + length ks" for ks
    by (rule redis_retry.attempts_bounded) (use m b in auto)
  from this [of "attempt_range (effective_attempts pol attempts)"]
  show "count (snd (execute_with_redis_retries sleep pol m attempts s))
          \<le> count s + nat (effective_attempts pol attempts)"
    by (simp add: execute_with_redis_retries_def)
  have "count (snd (db_retry_loop sleep pol rollback m ks None s)) \<le> count s + length ks" for ks
    by (rule db_retry.attempts_bounded) (use m rb assms(3) in auto)
  from this [of "attempt_range (effective_attempts pol attempts)"]
  show "count (snd (db_execute_with_retries sleep pol rollback m attempts s))
          \<le> count s + nat (effective_attempts pol attempts)"
    by (simp add: db_execute_with_retries_def)
qed

theorem retries_bounded_witness:
  "fst (snd (execute_with_redis_retries (\<lambda>_. pure ()) sample_policy scripted None
          (0, replicate 9 (Inl (RedisError True))))) \<le> 0 + nat (effective_attempts sample_policy None) \<and>
   fst (snd (db_execute_with_retries (\<lambda>_. pure ()) sample_policy (pure ()) scripted None
          (0, replicate 9 (Inl (RedisError True))))) \<le> 0 + nat (effective_attempts sample_policy None)"
proof -
  let ?s = "(0, replicate 9 (Inl (RedisError True))) :: script"
  have "fst (snd (execute_with_redis_retries (\<lambda>_. pure ()) sample_policy scripted None ?s))
          \<le> fst ?s + nat (effective_attempts sample_policy None) \<and>
        fst (snd (db_execute_with_retries (\<lambda>_. pure ()) sample_policy (pure ()) scripted None ?s))
          \<le> fst ?s + nat (effective_attempts sample_policy None)"
    by (rule retries_bounded [where count = fst and s = ?s and m = scripted]) (simp_all add: scripted_count)
  then show ?thesis unfolding fst_conv .
qed

text \<open>
  A database operation whose every attempt fails transiently is rolled back after each
  attempt and raises the last exception; a policy without attempts instead returns nothing
  and raises nothing, as if the operation had succeeded.
\<close>

theorem db_retries_exhausted:
  assumes "0 < effective_attempts pol attempts"
    and "\<And>i. int i < effective_attempts pol attempts \<Longrightarrow>
           \<exists>s1 s2. m (st i) = (Inl (es i), s1) \<and> potentially_transient (es i) \<and>
                   rollback s1 = (Inr (), s2) \<and> backoff sleep pol (Suc i) s2 = (Inr (), st (Suc i))"
  shows "db_execute_with_retries sleep pol rollback m attempts (st 0) =
           (Inl (es (nat (effective_attempts pol attempts) - 1)), st (nat (effective_attempts pol attempts))) \<and>
         db_execute_with_retries sleep (pol\<lparr>MAX_RETRIES := 0\<rparr>) rollback m (Some 0) s = (Inr None, s)"
proof
  let ?ks = "attempt_range (effective_attempts pol attempts)"
  have "db_retry.failing rollback sleep pol m ?ks st es (length ?ks)"
    unfolding db_retry.failing_def
  proof (intro allI impI)
    fix i assume i: "i < length ?ks"
    then have "int i < effective_attempts pol attempts" by (simp add: nat_less_iff)
    from assms(2) [OF this] i
    show "\<exists>s1. m (st i) = (Inl (es i), s1) \<and> potentially_transient (es i) \<and>
               thenM rollback (backoff sleep pol (?ks ! i)) s1 = (Inr (), st (Suc i))"
      by fastforce
  qed
  from db_retry.all_fail [OF this, of None] assms(1)
  show "db_execute_with_retries sleep pol rollback m attempts (st 0) =
           (Inl (es (nat (effective_attempts pol attempts) - 1)), st (nat (effective_attempts pol attempts)))"
    by (simp add: db_execute_with_retries_def) (metis length_attempt_range length_greater_0_conv zero_less_nat_eq)
  show "db_execute_with_retries sleep (pol\<lparr>MAX_RETRIES := 0\<rparr>) rollback m (Some 0) s = (Inr None, s)"
    by (simp add: db_execute_with_retries_def effective_attempts_def attempt_range_def)
qed

theorem db_retries_exhausted_witness:
  "db_execute_with_retries (\<lambda>_. pure ()) sample_policy (pure ()) scripted (Some 1)
     (0, [Inl InternalError]) = (Inl InternalError, (1, [])) \<and>
   db_execute_with_retries (\<lambda>_. pure ()) (sample_policy\<lparr>MAX_RETRIES := 0\<rparr>) (pure ()) scripted (Some 0)
     (0, []) = (Inr None, (0, []))"
  using db_retries_exhausted [of sample_policy "Some 1" scripted
      "\<lambda>i. if i = 0 then (0, [Inl InternalError]) else (1, [])" "\<lambda>_. InternalError" "pure ()"
      "\<lambda>_. pure ()" "(0, [])"]
  by (simp add: effective_attempts_def scripted_def potentially_transient_def backoff_def
      exponential_jittered_backoff_def)

end
