(* ===== verification/Tenjin_Processing.thy ===== *)
theory Tenjin_Processing
  imports Tenjin_Events Tenjin_Retry
begin

text \<open>
  What becomes of events once processed: \<^verbatim>\<open>event_processing/post_processing.py\<close>, the
  dead-letter-aware helper and the lock of \<^verbatim>\<open>qos.py\<close>, \<^verbatim>\<open>wrappers.py\<close>, and the resource
  server's \<^verbatim>\<open>event_streamer.py\<close>.  A pipeline is the list of commands queued on it; it runs
  as one transaction of the executor.
\<close>

section \<open>Pipelines\<close>

definition nf_mapping :: "(string \<times> string) list" where
  "nf_mapping = [(''__NF__'', ''NF'')]"

text \<open>\<open>str(n)\<close> of an id is what the client sends for the integer.\<close>

definition ack_command :: "stream_name \<Rightarrow> string \<Rightarrow> streamed_event \<Rightarrow> rcmd" where
  "ack_command stream grp ev = R_XACK (stream_name_value stream) grp (str_of_int (event_id ev))"

definition amortize_event ::
    "'s redis \<Rightarrow> (pyval \<Rightarrow> exn + string) \<Rightarrow> streamed_event list \<Rightarrow> stream_name \<Rightarrow> string \<Rightarrow>
     stream_name \<Rightarrow> ('s, unit) py" where
  "amortize_event exec dumps events event_stream grp dlq_stream =
     bindM (lift_sum (traverse (\<lambda>ev.
              bindE (streamed_event_cache_repr dumps ev) (\<lambda>fields.
                Inr [ack_command event_stream grp ev,
                     R_XADD (stream_name_value dlq_stream) fields (Some (str_of_int (event_id ev)))]))
              events))
       (\<lambda>cs. thenM (exec True (concat cs)) (pure ()))"

definition acknowledge_event ::
    "'s redis \<Rightarrow> streamed_event list \<Rightarrow> stream_name \<Rightarrow> string \<Rightarrow> ('s, unit) py" where
  "acknowledge_event exec events event_stream grp =
     thenM (exec True (map (ack_command event_stream grp) events)) (pure ())"

definition stream_events ::
    "'s redis \<Rightarrow> (pyval \<Rightarrow> exn + string) \<Rightarrow> event list \<Rightarrow> stream_name \<Rightarrow> ('s, unit) py" where
  "stream_events exec dumps events stream =
     bindM (lift_sum (traverse (\<lambda>ev.
              bindE (event_cache_repr dumps ev) (\<lambda>fields.
                Inr (R_XADD (stream_name_value stream) fields None))) events))
       (\<lambda>cs. thenM (exec True cs) (pure ()))"

definition emit_intent_invalidations :: "intent_update list list \<Rightarrow> rcmd list" where
  "emit_intent_invalidations uss =
     concat (map (map (\<lambda>u. R_EVAL_COND_DEL (intent_name u) (intent_value u))) uss)"

text \<open>A missing mapping is marked by a sentinel hash for a minute, a missing string by the
  serialized sentinel.\<close>

definition cache_invalidation_commands ::
    "(pyval \<Rightarrow> exn + string) \<Rightarrow> cache_update \<Rightarrow> exn + rcmd list" where
  "cache_invalidation_commands dumps u =
     (if operation u = Invalidate then Inr [R_DEL (invalidated_key u)]
      else if resource_type u = MappingResource
      then Inr [R_HSET (invalidated_key u) nf_mapping, R_EXPIRE (invalidated_key u) 60]
      else bindE (dumps (PDict (map (\<lambda>(k, v). (k, PStr v)) nf_mapping))) (\<lambda>t.
             Inr [R_SET (invalidated_key u) t False (Some 60)]))"

definition emit_cache_invalidation_side_effects ::
    "(pyval \<Rightarrow> exn + string) \<Rightarrow> cache_update list list \<Rightarrow> exn + rcmd list" where
  "emit_cache_invalidation_side_effects dumps uss =
     bindE (traverse (cache_invalidation_commands dumps) (concat uss)) (\<lambda>cs. Inr (concat cs))"

definition emit_counter_side_effects :: "counter_update list list \<Rightarrow> rcmd list" where
  "emit_counter_side_effects uss =
     concat (map (map (\<lambda>u. R_HINCRBY (counter_group u) (counter_cache_key u) (delta u))) uss)"

definition atomic_ack_and_emit_side_effects ::
    "'s redis \<Rightarrow> (pyval \<Rightarrow> exn + string) \<Rightarrow> streamed_event list \<Rightarrow> stream_name \<Rightarrow> string \<Rightarrow>
     ('s, unit) py" where
  "atomic_ack_and_emit_side_effects exec dumps events stream grp =
     bindM (lift_sum (emit_cache_invalidation_side_effects dumps
              (map (\<lambda>ev. cache_invalidations (side_effects ev)) events)))
       (\<lambda>cache_cmds.
         thenM (exec True
                  (map (ack_command stream grp) events
                   @ emit_intent_invalidations (map (\<lambda>ev. intent_updates (side_effects ev)) events)
                   @ emit_counter_side_effects (map (\<lambda>ev. counter_updates (side_effects ev)) events)
                   @ cache_cmds))
           (pure ()))"

section \<open>Dead letters and commits\<close>

definition dlq_aware_process_events ::
    "'s redis \<Rightarrow> (pyval \<Rightarrow> exn + string) \<Rightarrow> (int \<Rightarrow> ('s, unit) py) \<Rightarrow> retry_policy \<Rightarrow>
     streamed_event list \<Rightarrow> ('s, 'a) py \<Rightarrow> int \<Rightarrow> stream_name \<Rightarrow> string \<Rightarrow> stream_name \<Rightarrow>
     ('s, unit) py" where
  "dlq_aware_process_events exec dumps sleep pol events m attempts event_stream grp dlq_stream =
     tryM (thenM (execute_with_redis_retries sleep pol m (Some attempts)) (pure ()))
       (\<lambda>e. thenM
          (execute_with_redis_retries sleep pol
             (amortize_event exec dumps events event_stream grp dlq_stream)
             (Some (if network_error e then 1 else attempts)))
          (pure ()))"

text \<open>The body of the \<open>with\<close> statement, then the deletion of the lock.\<close>

definition locked_operation :: "'s redis \<Rightarrow> string \<Rightarrow> ('s, 'a) py \<Rightarrow> ('s, 'a) py" where
  "locked_operation exec lock_name body =
     finallyM body (thenM (exec False [R_DEL lock_name]) (pure ()))"

definition declare_dead_with_retries ::
    "'s redis \<Rightarrow> (pyval \<Rightarrow> exn + string) \<Rightarrow> (int \<Rightarrow> ('s, unit) py) \<Rightarrow> retry_policy \<Rightarrow>
     streamed_event list \<Rightarrow> stream_name \<Rightarrow> string \<Rightarrow> stream_name \<Rightarrow> int \<Rightarrow> ('s, unit) py" where
  "declare_dead_with_retries exec dumps sleep pol batch stream grp dlq_stream attempts =
     thenM (execute_with_redis_retries sleep pol
              (amortize_event exec dumps batch stream grp dlq_stream) (Some attempts))
       (pure ())"

definition ack_with_retries ::
    "'s redis \<Rightarrow> (pyval \<Rightarrow> exn + string) \<Rightarrow> (int \<Rightarrow> ('s, unit) py) \<Rightarrow> retry_policy \<Rightarrow>
     streamed_event list \<Rightarrow> stream_name \<Rightarrow> string \<Rightarrow> stream_name \<Rightarrow> int \<Rightarrow> ('s, unit) py" where
  "ack_with_retries exec dumps sleep pol batch stream grp dlq_stream attempts =
     dlq_aware_process_events exec dumps sleep pol batch
       (acknowledge_event exec batch stream grp) attempts stream grp dlq_stream"

definition commit_processed_events ::
    "'s redis \<Rightarrow> (pyval \<Rightarrow> exn + string) \<Rightarrow> (int \<Rightarrow> ('s, unit) py) \<Rightarrow> retry_policy \<Rightarrow>
     streamed_event list \<Rightarrow> string \<Rightarrow> stream_name \<Rightarrow> stream_name \<Rightarrow> ('s, unit) py" where
  "commit_processed_events exec dumps sleep pol events grp stream dlq_stream =
     dlq_aware_process_events exec dumps sleep pol events
       (atomic_ack_and_emit_side_effects exec dumps events stream grp)
       (MAX_RETRIES pol) stream grp dlq_stream"

section \<open>The resource server's streamer\<close>

definition emit_user_event ::
    "'s redis \<Rightarrow> (pyval \<Rightarrow> exn + string) \<Rightarrow> int \<Rightarrow> stream_name \<Rightarrow> event \<Rightarrow> ('s, unit) py" where
  "emit_user_event exec dumps ttl_strongest stream ev =
     bindM (lift_sum (event_cache_repr dumps ev)) (\<lambda>fields.
       thenM (exec True
                (map (\<lambda>u. R_HINCRBY (counter_group u) (counter_cache_key u) (delta u))
                   (counter_updates (side_effects ev))
                 @ map (\<lambda>u. R_SET (intent_name u) (intent_value u) False (Some ttl_strongest))
                   (intent_updates (side_effects ev))
                 @ [R_XADD (stream_name_value stream) fields None]))
         (pure ()))"

section \<open>What a commit does to the store\<close>

lemma ack_commands_run:
  "run_cmds (map (ack_command stream grp) evs) st = Some (map (\<lambda>_. RStreamReply) evs, st)"
  by (induction evs) (simp_all add: ack_command_def)

lemma run_cmds_acks_append:
  "run_cmds (map (ack_command stream grp) evs @ cs) st =
   (case run_cmds cs st of
      None \<Rightarrow> None | Some (rs, st') \<Rightarrow> Some (map (\<lambda>_. RStreamReply) evs @ rs, st'))"
  by (simp add: run_cmds_append ack_commands_run)

definition counter_triples :: "streamed_event list \<Rightarrow> (string \<times> string \<times> int) list" where
  "counter_triples events =
     map (\<lambda>u. (counter_group u, counter_cache_key u, delta u))
       (concat (map (\<lambda>ev. counter_updates (side_effects ev)) events))"

definition intent_pairs :: "streamed_event list \<Rightarrow> (string \<times> string) list" where
  "intent_pairs events =
     map (\<lambda>u. (intent_name u, intent_value u))
       (concat (map (\<lambda>ev. intent_updates (side_effects ev)) events))"

lemma emit_counter_triples:
  "emit_counter_side_effects (map (\<lambda>ev. counter_updates (side_effects ev)) events) =
   map (\<lambda>(k, f, d). R_HINCRBY k f d) (counter_triples events)"
  by (simp add: emit_counter_side_effects_def counter_triples_def map_concat comp_def)

lemma triples_sum:
  "sum_list (map (\<lambda>(k, e, d). d) (filter (\<lambda>(k, e, d). k = g \<and> e = f)
      (map (\<lambda>u. (counter_group u, counter_cache_key u, delta u)) us))) =
   (\<Sum>u \<leftarrow> us. if counter_group u = g \<and> counter_cache_key u = f then delta u else 0)"
  by (induction us) auto

lemma emit_intent_pairs:
  "emit_intent_invalidations (map (\<lambda>ev. intent_updates (side_effects ev)) events) =
   map (\<lambda>(k, v). R_EVAL_COND_DEL k v) (intent_pairs events)"
  by (simp add: emit_intent_invalidations_def intent_pairs_def map_concat comp_def)

lemma cache_commands_keys:
  assumes "emit_cache_invalidation_side_effects dumps uss = Inr cs" and "c \<in> set cs"
  shows "cmd_keys c \<subseteq> invalidated_key ` set (concat uss)"
proof -
  have "\<lbrakk>traverse (cache_invalidation_commands dumps) us = Inr css; c \<in> set (concat css)\<rbrakk>
        \<Longrightarrow> cmd_keys c \<subseteq> invalidated_key ` set us" for us css
    by (induction us arbitrary: css)
      (fastforce simp: bindE_eq_Inr_iff cache_invalidation_commands_def split: if_splits)+
  with assms show ?thesis
    by (fastforce simp: emit_cache_invalidation_side_effects_def bindE_eq_Inr_iff)
qed

text \<open>The four parts of a committed transaction, one after the other on the store.\<close>

lemma atomic_emit_parts:
  assumes "documented_redis exec view"
    and "atomic_ack_and_emit_side_effects exec dumps events stream grp s = (Inr (), s')"
  obtains rs1 st1 rs2 st2 rs3 cs
  where "run_cmds (map (\<lambda>(k, v). R_EVAL_COND_DEL k v) (intent_pairs events)) (view s) = Some (rs1, st1)"
    and "run_cmds (map (\<lambda>(k, f, d). R_HINCRBY k f d) (counter_triples events)) st1 = Some (rs2, st2)"
    and "run_cmds cs st2 = Some (rs3, view s')"
    and "emit_cache_invalidation_side_effects dumps
           (map (\<lambda>ev. cache_invalidations (side_effects ev)) events) = Inr cs"
proof -
  let ?cs = "\<lambda>cs. map (ack_command stream grp) events
       @ map (\<lambda>(k, v). R_EVAL_COND_DEL k v) (intent_pairs events)
       @ map (\<lambda>(k, f, d). R_HINCRBY k f d) (counter_triples events) @ cs"
  from assms(2) obtain cs rs
    where cs: "emit_cache_invalidation_side_effects dumps
           (map (\<lambda>ev. cache_invalidations (side_effects ev)) events) = Inr cs"
      and "exec True (?cs cs) s = (Inr rs, s')"
    by (auto simp: atomic_ack_and_emit_side_effects_def bindM_eq_Inr_iff thenM_eq_Inr_iff
        emit_counter_triples emit_intent_pairs)
  with assms(1) have "run_cmds (?cs cs) (view s) = Some (rs, view s')"
    by (blast intro: documented_redisD)
  then obtain qs where "run_cmds (map (\<lambda>(k, v). R_EVAL_COND_DEL k v) (intent_pairs events)
       @ map (\<lambda>(k, f, d). R_HINCRBY k f d) (counter_triples events) @ cs) (view s) = Some (qs, view s')"
    by (auto simp: run_cmds_acks_append split: option.splits)
  then show thesis
    using that cs by (elim run_cmds_append_SomeE) blast
qed

text \<open>
  C31.  Committing a batch adds to every counter exactly the sum of the deltas the batch's
  events carry for it, whatever their order and however often one counter occurs, provided
  the batch invalidates no cache entry under the name of that counter's hash.
\<close>

theorem commit_counter_sums:
  assumes "documented_redis exec view"
    and "atomic_ack_and_emit_side_effects exec dumps events stream grp s = (Inr (), s')"
    and "\<forall>ev \<in> set events. \<forall>u \<in> set (cache_invalidations (side_effects ev)). invalidated_key u \<noteq> g"
  shows "counter_value (view s') g f = counter_value (view s) g f +
           (\<Sum>u \<leftarrow> concat (map (\<lambda>ev. counter_updates (side_effects ev)) events).
              if counter_group u = g \<and> counter_cache_key u = f then delta u else 0)"
proof -
  from assms(1,2) obtain rs1 st1 rs2 st2 rs3 cs
    where 1: "run_cmds (map (\<lambda>(k, v). R_EVAL_COND_DEL k v) (intent_pairs events)) (view s) = Some (rs1, st1)"
      and 2: "run_cmds (map (\<lambda>(k, f, d). R_HINCRBY k f d) (counter_triples events)) st1 = Some (rs2, st2)"
      and 3: "run_cmds cs st2 = Some (rs3, view s')"
      and cs: "emit_cache_invalidation_side_effects dumps
           (map (\<lambda>ev. cache_invalidations (side_effects ev)) events) = Inr cs"
    by (rule atomic_emit_parts)
  have "g \<notin> (\<Union>c \<in> set cs. cmd_keys c)"
    using cache_commands_keys [OF cs] assms(3) by fastforce
  then have "counter_value (view s') g f = counter_value st2 g f"
    by (intro counter_value_cong run_cmds_frame [OF 3])
  also have "\<dots> = counter_value st1 g f +
      sum_list (map (\<lambda>(k, e, d). d) (filter (\<lambda>(k, e, d). k = g \<and> e = f) (counter_triples events)))"
    by (rule hincrbys_counter_value [OF 2])
  also have "sum_list (map (\<lambda>(k, e, d). d) (filter (\<lambda>(k, e, d). k = g \<and> e = f) (counter_triples events))) =
      (\<Sum>u \<leftarrow> concat (map (\<lambda>ev. counter_updates (side_effects ev)) events).
         if counter_group u = g \<and> counter_cache_key u = f then delta u else 0)"
    unfolding counter_triples_def by (rule triples_sum)
  also have "counter_value st1 g f = counter_value (view s) g f"
    by (rule cond_deletes_counter_value [OF 1])
  finally show ?thesis .
qed

definition demo_streamed :: streamed_event where
  "demo_streamed = to_streamed demo_event 17001"

definition demo_store :: rstore where
  "demo_store =
     [''POST:score'' \<mapsto> (VHash [''POST:7'' \<mapsto> str_of_int 4], None),
      ''POST:VOTE:3:7'' \<mapsto> (VStr ''FLAG:C:ab12'', Some 30),
      ''POST:VOTE:8:7'' \<mapsto> (VStr ''FLAG:D:ab12'', Some 30)]"

definition committed_store :: rstore where
  "committed_store =
     snd (atomic_ack_and_emit_side_effects store_redis demo_dumps [demo_streamed, demo_streamed]
            POSTS ''workers'' demo_store)"

lemma demo_streamed_simps [simp]:
  "side_effects demo_streamed = side_effects demo_event" "event_id demo_streamed = 17001"
  "event_name demo_streamed = POST_VOTE" "payload demo_streamed = [(''post_id'', PInt 7)]"
  by (simp_all add: demo_streamed_def to_streamed_def demo_event_def event.defs)

lemma demo_commit:
  "atomic_ack_and_emit_side_effects store_redis demo_dumps [demo_streamed, demo_streamed]
     POSTS ''workers'' demo_store = (Inr (), committed_store)"
proof -
  have "fst (atomic_ack_and_emit_side_effects store_redis demo_dumps [demo_streamed, demo_streamed]
     POSTS ''workers'' demo_store) = Inr ()"
    by (simp add: atomic_ack_and_emit_side_effects_def emit_cache_invalidation_side_effects_def
        cache_invalidation_commands_def demo_event_def emit_intent_invalidations_def
        emit_counter_side_effects_def ack_command_def store_redis_def conditional_delete_def
        intent_value_def NAME_SEPERATOR_def demo_store_def hash_increment_def hash_at_def int_of_str_of_int
        thenM_def bindM_def)
  then show ?thesis unfolding committed_store_def by (metis prod.collapse)
qed

theorem commit_counter_sums_witness:
  "counter_value committed_store ''POST:score'' ''POST:7'' =
   counter_value demo_store ''POST:score'' ''POST:7'' + 2"
  using commit_counter_sums [OF store_redis_documented demo_commit, of "''POST:score''" "''POST:7''"]
  by (simp add: demo_event_def)

text \<open>
  Committing a batch removes exactly the intents the batch acted on: a key that holds
  the very flag and id an event of the batch carries for it is deleted, and a key that holds
  a string which no event of the batch names, a newer intent of the same name for instance,
  keeps its value and its expiry.
\<close>

theorem commit_intents:
  assumes "documented_redis exec view"
    and "atomic_ack_and_emit_side_effects exec dumps events stream grp s = (Inr (), s')"
    and "view s k = Some (VStr v, ttl)"
    and "\<forall>ev \<in> set events. \<forall>u \<in> set (cache_invalidations (side_effects ev)). invalidated_key u \<noteq> k"
    and "\<forall>ev \<in> set events. \<forall>u \<in> set (counter_updates (side_effects ev)). counter_group u \<noteq> k"
  shows "view s' k =
           (if \<exists>ev \<in> set events. \<exists>u \<in> set (intent_updates (side_effects ev)).
                 intent_name u = k \<and> intent_value u = v
            then None else Some (VStr v, ttl))"
proof -
  from assms(1,2) obtain rs1 st1 rs2 st2 rs3 cs
    where 1: "run_cmds (map (\<lambda>(k, v). R_EVAL_COND_DEL k v) (intent_pairs events)) (view s) = Some (rs1, st1)"
      and 2: "run_cmds (map (\<lambda>(k, f, d). R_HINCRBY k f d) (counter_triples events)) st1 = Some (rs2, st2)"
      and 3: "run_cmds cs st2 = Some (rs3, view s')"
      and cs: "emit_cache_invalidation_side_effects dumps
           (map (\<lambda>ev. cache_invalidations (side_effects ev)) events) = Inr cs"
    by (rule atomic_emit_parts)
  have "k \<notin> (\<Union>c \<in> set cs. cmd_keys c)"
    using cache_commands_keys [OF cs] assms(4) by fastforce
  then have "view s' k = st2 k" by (rule run_cmds_frame [OF 3])
  also have "st2 k = st1 k"
    by (rule run_cmds_frame [OF 2]) (use assms(5) in \<open>auto simp: counter_triples_def\<close>)
  also have "st1 k = (if (k, v) \<in> set (intent_pairs events) then None else Some (VStr v, ttl))"
    using cond_deletes_key [OF 1, of k] assms(3) by simp
  finally show ?thesis by (auto simp: intent_pairs_def)
qed

theorem commit_intents_witness:
  "committed_store ''POST:VOTE:3:7'' = None \<and>
   committed_store ''POST:VOTE:8:7'' = Some (VStr ''FLAG:D:ab12'', Some 30)"
  using commit_intents [OF store_redis_documented demo_commit, of "''POST:VOTE:3:7''"]
    commit_intents [OF store_redis_documented demo_commit, of "''POST:VOTE:8:7''"]
  by (simp add: demo_event_def demo_store_def intent_value_def NAME_SEPERATOR_def)

section \<open>Nothing is emitted, nothing dies\<close>

lemma streamed_event_cache_repr_raises:
  "rejects_bytes dumps \<Longrightarrow> streamed_event_cache_repr dumps ev = Inl TypeError"
  by (simp add: streamed_event_cache_repr_def event_cache_repr_Inl)

text \<open>An event that is sent to a dead-letter queue is serialized first, and that raises.\<close>

lemma amortize_event_raises:
  assumes "rejects_bytes dumps" and "events \<noteq> []"
  shows "amortize_event exec dumps events stream grp dlq s = (Inl TypeError, s)"
proof -
  obtain ev evs where "events = ev # evs" using assms(2) by (cases events) auto
  with streamed_event_cache_repr_raises [OF assms(1), of ev] show ?thesis
    by (simp add: amortize_event_def bindM_def)
qed

text \<open>
  With the \<open>orjson\<close> the servers run on, no user event is ever emitted: the streamer
  raises before it runs its pipeline, so that neither the counters nor the intents nor the
  stream change.
\<close>

theorem emit_user_event_raises:
  assumes "rejects_bytes dumps"
  shows "emit_user_event exec dumps ttl stream ev s = (Inl TypeError, s)"
  using event_cache_repr_Inl [OF assms, of ev] by (simp add: emit_user_event_def bindM_def)

theorem emit_user_event_raises_witness:
  "emit_user_event store_redis demo_dumps 60 POSTS demo_event demo_store = (Inl TypeError, demo_store)"
  by (rule emit_user_event_raises) simp

text \<open>
  Nor does a failed batch reach the dead-letter stream: when committing it fails for good,
  the dead-letter step fails too, with the serializer's exception in place of the one that
  made the commit fail, and leaves the world as the failed commit left it: neither
  acknowledged nor kept.
\<close>

theorem commit_failure_loses_batch:
  assumes "rejects_bytes dumps" and "events \<noteq> []" and "0 < MAX_RETRIES pol"
    and "execute_with_redis_retries sleep pol
           (atomic_ack_and_emit_side_effects exec dumps events stream grp)
           (Some (MAX_RETRIES pol)) s = (Inl e, s1)"
  shows "commit_processed_events exec dumps sleep pol events grp stream dlq s = (Inl TypeError, s1)"
proof -
  have "execute_with_redis_retries sleep pol (amortize_event exec dumps events stream grp dlq)
          (Some n) s1 = (Inl TypeError, s1)" if "0 < n" for n
  proof -
    from that obtain k ks where "attempt_range n = k # ks"
      by (metis length_attempt_range length_greater_0_conv neq_Nil_conv zero_less_nat_eq)
    with that show ?thesis
      by (simp add: execute_with_redis_retries_def effective_attempts_def network_error_def
          amortize_event_raises [OF assms(1,2)])
  qed
  with assms(3,4) show ?thesis
    by (simp add: commit_processed_events_def dlq_aware_process_events_def)
qed

theorem commit_failure_loses_batch_witness:
  "commit_processed_events (\<lambda>tx cs. raise (RedisError False)) demo_dumps (\<lambda>_. pure ()) sample_policy
     [demo_streamed] ''workers'' POSTS DEAD_LETTER_QUEUE demo_store = (Inl TypeError, demo_store)"
proof (rule commit_failure_loses_batch)
  have r: "attempt_range 3 = [1, 2, 3]" by (simp add: attempt_range_def upt_rec)
  show "execute_with_redis_retries (\<lambda>_. pure ()) sample_policy
     (atomic_ack_and_emit_side_effects (\<lambda>tx cs. raise (RedisError False)) demo_dumps
       [demo_streamed] POSTS ''workers'') (Some (MAX_RETRIES sample_policy)) demo_store =
     (Inl (RedisError False), demo_store)"
    by (simp add: execute_with_redis_retries_def effective_attempts_def sample_policy_def r
        network_error_def atomic_ack_and_emit_side_effects_def demo_event_def
        emit_cache_invalidation_side_effects_def cache_invalidation_commands_def thenM_def bindM_def)
qed (simp_all add: sample_policy_def)

text \<open>
  An acknowledgement names another entry than the one that was read: the id sent is a
  later one than the id of the entry, for every entry written after the first millisecond
  of the epoch, so that the entry stays pending.
\<close>

theorem acknowledged_id_is_later:
  assumes "construct_from_stream_record loads coerce_int (stream_id_text i, entry) = Inr ev"
    and "0 < id_ms i"
  shows "ack_command stream grp ev = R_XACK (stream_name_value stream) grp (str_of_int (event_id ev)) \<and>
         str_of_int (event_id ev) \<noteq> stream_id_text i \<and> i < acked_id (event_id ev)"
proof -
  from assms(1) have n: "event_id_of (stream_id_text i) = Inr (event_id ev)"
    by (auto simp: construct_from_stream_record_def bindE_eq_Inr_iff to_streamed_def event.defs)
  then have "event_id ev = int (id_ms i * 10 ^ length (str_of_nat (id_seq i)) + id_seq i)"
    by (simp add: event_id_of_stream_id)
  then have "0 \<le> event_id ev" by (simp only: of_nat_0_le_iff)
  then have "CHR ''-'' \<notin> set (str_of_int (event_id ev))" by (rule str_of_int_no_dash)
  then have "str_of_int (event_id ev) \<noteq> stream_id_text i" by (auto simp: stream_id_text_def)
  with event_id_names_other_entry [OF n assms(2)] show ?thesis by (simp add: ack_command_def)
qed

theorem acknowledged_id_is_later_witness:
  "\<exists>ev. construct_from_stream_record demo_loads demo_coerce (stream_id_text (Stream_id 1700 1), demo_entry) = Inr ev \<and>
        Stream_id 1700 1 < acked_id (event_id ev)"
proof -
  have "reconstruct_from_stream demo_loads demo_coerce demo_entry = Inr (forget_resource_types demo_event)"
    by (rule reconstruct_demo)
  then obtain ev where "construct_from_stream_record demo_loads demo_coerce
      (stream_id_text (Stream_id 1700 1), demo_entry) = Inr ev"
    by (simp add: construct_from_stream_record_def event_id_of_stream_id)
  with acknowledged_id_is_later [OF this] show ?thesis by simp
qed

end
