(* ===== verification/Tenjin_Sql.thy ===== *)
theory Tenjin_Sql
  imports Tenjin_Events
begin

text \<open>
  The names of tables and columns of \<^verbatim>\<open>datastructures/database.py\<close>, the SQL templates of
  \<^verbatim>\<open>resource_auxillary/templates/sql.py\<close> and of the workers' \<^verbatim>\<open>utils/sql_templates.py\<close>, and
  the routines that fill them.  A template is the list of its text pieces and named holes.
  \<open>SQL.format\<close> of psycopg is the parameter \<open>fmt\<close>; \<open>documented_format\<close> says what its
  documentation does: every hole takes the argument of its name, and a hole without one is a
  \<open>KeyError\<close>.
\<close>

section \<open>Tables and columns\<close>

datatype strong_entity = GENRE | ANIME | USER | FORUM | POST | COMMENT

fun strong_entity_value :: "strong_entity \<Rightarrow> string" where
  "strong_entity_value GENRE = ''genres''"
| "strong_entity_value ANIME = ''animes''"
| "strong_entity_value USER = ''users''"
| "strong_entity_value FORUM = ''forums''"
| "strong_entity_value POST = ''posts''"
| "strong_entity_value COMMENT = ''comments''"

definition strong_entity_of :: "string \<Rightarrow> strong_entity option" where
  "strong_entity_of s =
     map_of (map (\<lambda>n. (strong_entity_value n, n)) [GENRE, ANIME, USER, FORUM, POST, COMMENT]) s"

datatype foreign_key_column = AUTHOR_ID | PARENT_FORUM | PARENT_POST | PARENT_ANIME

fun foreign_key_value :: "foreign_key_column \<Rightarrow> string" where
  "foreign_key_value AUTHOR_ID = ''author_id''"
| "foreign_key_value PARENT_FORUM = ''parent_forum''"
| "foreign_key_value PARENT_POST = ''parent_post''"
| "foreign_key_value PARENT_ANIME = ''parent_anime''"

definition foreign_key_of :: "string \<Rightarrow> foreign_key_column option" where
  "foreign_key_of s =
     map_of (map (\<lambda>n. (foreign_key_value n, n)) [AUTHOR_ID, PARENT_FORUM, PARENT_POST, PARENT_ANIME]) s"

lemma strong_entity_of_value [simp]: "strong_entity_of (strong_entity_value e) = Some e"
  by (cases e) (simp_all add: strong_entity_of_def)

lemma foreign_key_of_value [simp]: "foreign_key_of (foreign_key_value c) = Some c"
  by (cases c) (simp_all add: foreign_key_of_def)

interpretation strong_entities: codec strong_entity_value strong_entity_of "\<lambda>_. True"
  by unfold_locales simp

interpretation foreign_keys: codec foreign_key_value foreign_key_of "\<lambda>_. True"
  by unfold_locales simp

text \<open>\<open>EventLiteral\<close>, \<open>DeadLetterQueueLiteral\<close>, \<open>EventMetadataLiteral\<close> and
  \<open>DeletionColumnLiteral\<close>, as far as the templates use them.\<close>

definition EVENTS_TABLE_NAME :: string where "EVENTS_TABLE_NAME = ''stream_events''"
definition EVENT_ID_COLUMN_NAME :: string where "EVENT_ID_COLUMN_NAME = ''event_id''"
definition EVENT_TIMESTAMP_COLUMN_NAME :: string where
  "EVENT_TIMESTAMP_COLUMN_NAME = ''acknowledgement_time''"
definition DLQ_TABLE_NAME :: string where "DLQ_TABLE_NAME = ''dlq_events''"
definition COUNTERS_TABLE_NAME :: string where "COUNTERS_TABLE_NAME = ''counters_dlq''"
definition FAILED_SIDE_EFFECTS_TABLE_NAME :: string where
  "FAILED_SIDE_EFFECTS_TABLE_NAME = ''side_effects_dlq''"
definition LAST_EVENT_IDENTIFIER_COLUMN_NAME :: string where
  "LAST_EVENT_IDENTIFIER_COLUMN_NAME = ''last_event_id''"
definition DELETED_COLUMN_NAME :: string where "DELETED_COLUMN_NAME = ''deleted''"
definition DELETION_TIME_COLUMN_NAME :: string where "DELETION_TIME_COLUMN_NAME = ''deletion_time''"
definition DELETION_AUTHOR_EVENT :: string where "DELETION_AUTHOR_EVENT = ''deletion_author_event''"

text \<open>The action literal the insertion consumers are given, and the state column it selects.\<close>

datatype action_literal = Save | Vote | Subscribe

definition state_column :: "action_literal \<Rightarrow> string" where
  "state_column a =
     (if a = Save then ''is_saved'' else if a = Vote then ''vote_type'' else ''is_subscribed'')"

section \<open>Composed statements\<close>

datatype sql =
    Sql_Text string | Sql_Ident string | Sql_Lit pyval | Sql_Param string
  | Sql_Join string "sql list" | Sql_Seq "sql list"

datatype piece = Txt string | Hole string

type_synonym formatter = "piece list \<Rightarrow> (string \<times> sql) list \<Rightarrow> exn + sql"

definition holes :: "piece list \<Rightarrow> string set" where
  "holes t = {h. Hole h \<in> set t}"

lemma holes_simps [simp]:
  "holes [] = {}" "holes (Txt s # t) = holes t" "holes (Hole h # t) = insert h (holes t)"
  by (auto simp: holes_def)

definition fill :: "(string \<times> sql) list \<Rightarrow> piece \<Rightarrow> sql" where
  "fill args p =
     (case p of Txt s \<Rightarrow> Sql_Text s
      | Hole h \<Rightarrow> (case map_of args h of None \<Rightarrow> Sql_Text [] | Some x \<Rightarrow> x))"

definition documented_format :: "formatter \<Rightarrow> bool" where
  "documented_format fmt \<longleftrightarrow>
     (\<forall>t args. fmt t args =
        (if holes t \<subseteq> fst ` set args then Inr (Sql_Seq (map (fill args) t)) else Inl KeyError))"

definition format_template :: formatter where
  "format_template t args =
     (if list_all (\<lambda>p. case p of Txt _ \<Rightarrow> True | Hole h \<Rightarrow> h \<in> set (map fst args)) t
      then Inr (Sql_Seq (map (fill args) t)) else Inl KeyError)"

lemma format_template_documented [simp]: "documented_format format_template"
proof -
  have "list_all (\<lambda>p. case p of Txt _ \<Rightarrow> True | Hole h \<Rightarrow> h \<in> set (map fst args)) t
        \<longleftrightarrow> holes t \<subseteq> fst ` set args" for t and args :: "(string \<times> sql) list"
    by (auto simp: holes_def list_all_iff split: piece.splits)
  then show ?thesis by (simp add: documented_format_def format_template_def)
qed

lemma documented_format_eq:
  "documented_format fmt \<Longrightarrow>
   fmt t args = (if holes t \<subseteq> fst ` set args then Inr (Sql_Seq (map (fill args) t)) else Inl KeyError)"
  by (simp add: documented_format_def)

definition idents :: "string list \<Rightarrow> sql" where
  "idents cs = Sql_Join '', '' (map Sql_Ident cs)"

section \<open>Templates of the event pipeline\<close>

definition SINGLE_DEDUP_STATEMENT :: "piece list" where
  "SINGLE_DEDUP_STATEMENT =
     [Txt ''INSERT INTO '', Hole ''event_dedup_table'', Txt '' ('', Hole ''event_id_col'', Txt '', '',
      Hole ''ack_time_col'', Txt '') VALUES ('', Hole ''event_id'', Txt '', '',
      Hole ''acknowledgement_time'', Txt '')'']"

definition prepare_single_dedup_sql :: "formatter \<Rightarrow> int \<Rightarrow> string option \<Rightarrow> string \<Rightarrow> exn + sql" where
  "prepare_single_dedup_sql fmt ev_id acknowledgement_time now =
     fmt SINGLE_DEDUP_STATEMENT
       [(''event_dedup_table'', Sql_Ident EVENTS_TABLE_NAME),
        (''event_id_col'', Sql_Ident EVENT_ID_COLUMN_NAME),
        (''ack_time_col'', Sql_Ident EVENT_TIMESTAMP_COLUMN_NAME),
        (''event_id'', Sql_Lit (PInt ev_id)),
        (''acknowledgement_time'',
          Sql_Lit (PDatetime (case acknowledgement_time of None \<Rightarrow> now | Some t \<Rightarrow> t)))]"

definition BATCH_DEDUP_STATEMENT :: "piece list" where
  "BATCH_DEDUP_STATEMENT =
     [Txt ''WITH attempted AS (INSERT INTO '', Hole ''event_dedup_table'', Txt '' ('',
      Hole ''event_id_col'', Txt '', '', Hole ''ack_time_col'', Txt '') SELECT '', Hole ''event_id_col'',
      Txt '', '', Hole ''ack_time_col'', Txt '' FROM '', Hole ''temp_table'', Txt '' ON CONFLICT ('',
      Hole ''event_id_col'', Txt '') DO NOTHING RETURNING '', Hole ''event_id_col'', Txt '') SELECT '',
      Hole ''event_id_col'', Txt '' FROM attempted;'']"

text \<open>As written, it is the statement for one event that is formatted.\<close>

definition prepare_batch_dedup_sql :: "formatter \<Rightarrow> string \<Rightarrow> exn + sql" where
  "prepare_batch_dedup_sql fmt temp_table =
     fmt SINGLE_DEDUP_STATEMENT
       [(''event_dedup_table'', Sql_Ident EVENTS_TABLE_NAME),
        (''event_id_col'', Sql_Ident EVENT_ID_COLUMN_NAME),
        (''ack_time_col'', Sql_Ident EVENT_TIMESTAMP_COLUMN_NAME),
        (''temp_table'', Sql_Ident temp_table)]"

definition TEMP_TABLE_SQL :: "piece list" where
  "TEMP_TABLE_SQL =
     [Txt ''CREATE TEMP TABLE '', Hole ''table'', Txt '' (LIKE '', Hole ''reference'',
      Txt '' INCLUDING DEFAULTS) ON COMMIT DROP;'']"

definition prepare_temp_table_sql :: "formatter \<Rightarrow> string \<Rightarrow> string \<Rightarrow> exn + sql" where
  "prepare_temp_table_sql fmt tablename reference_table =
     fmt TEMP_TABLE_SQL
       [(''table'', Sql_Ident tablename), (''reference'', Sql_Ident reference_table)]"

definition WEAK_INSERTION_COPY_SQL :: "piece list" where
  "WEAK_INSERTION_COPY_SQL =
     [Txt ''COPY '', Hole ''table'', Txt '' ('', Hole ''columns'', Txt '') FROM STDIN;'']"

definition prepare_weak_insertion_copy_sql :: "formatter \<Rightarrow> string \<Rightarrow> string list \<Rightarrow> exn + sql" where
  "prepare_weak_insertion_copy_sql fmt table columns =
     fmt WEAK_INSERTION_COPY_SQL [(''table'', Sql_Ident table), (''columns'', idents columns)]"

definition WEAK_INSERTION_SQL :: "piece list" where
  "WEAK_INSERTION_SQL =
     [Txt ''INSERT INTO '', Hole ''table'', Txt '' AS insertion_table ('', Hole ''columns'',
      Txt '') SELECT '', Hole ''columns'', Txt '' FROM '', Hole ''temp_table'', Txt '' ON CONFLICT ('',
      Hole ''conflict_columns'', Txt '') DO UPDATE SET '', Hole ''state_column'', Txt '' = EXCLUDED.'',
      Hole ''state_column'', Txt '', '', Hole ''event_seq_column'', Txt '' = EXCLUDED.'',
      Hole ''event_seq_column'', Txt '' WHERE '', Hole ''event_seq_column'', Txt '' < EXCLUDED.'',
      Hole ''event_seq_column'', Txt '' RETURNING insertion_table.'', Hole ''event_id_column'', Txt '';'']"

definition prepare_weak_insertion_sql ::
    "formatter \<Rightarrow> string \<Rightarrow> string \<Rightarrow> string list \<Rightarrow> string list \<Rightarrow> action_literal \<Rightarrow> exn + sql" where
  "prepare_weak_insertion_sql fmt table temp_table columns conflicting_columns act =
     fmt WEAK_INSERTION_SQL
       [(''table'', Sql_Ident table), (''columns'', idents columns),
        (''temp_table'', Sql_Ident temp_table), (''state_column'', Sql_Ident (state_column act)),
        (''event_seq_column'', Sql_Ident LAST_EVENT_IDENTIFIER_COLUMN_NAME),
        (''conflict_columns'', idents conflicting_columns)]"

section \<open>Templates of the workers\<close>

definition UPDATION_SQL :: "piece list" where
  "UPDATION_SQL =
     [Txt ''UPDATE '', Hole ''table'', Txt '' t SET t.'', Hole ''column'', Txt '' = t.'', Hole ''column'',
      Txt '' + v.delta FROM (VALUES '', Hole ''values'', Txt '') AS v('', Hole ''identifier'',
      Txt '', delta) WHERE t.'', Hole ''identifier'', Txt '' = v.'', Hole ''identifier'', Txt '';'']"

definition PAIR_SQL :: "piece list" where
  "PAIR_SQL = [Txt ''('', Hole ''0'', Txt '', '', Hole ''1'', Txt '')'']"

definition prepare_updation_sql ::
    "formatter \<Rightarrow> string \<Rightarrow> string \<Rightarrow> string \<Rightarrow> (int \<times> int) list \<Rightarrow> exn + sql" where
  "prepare_updation_sql fmt table column identifier counter_data =
     bindE (traverse (\<lambda>(i, d). fmt PAIR_SQL [(''0'', Sql_Lit (PInt i)), (''1'', Sql_Lit (PInt d))])
              counter_data) (\<lambda>vals.
       fmt UPDATION_SQL
         [(''table'', Sql_Ident table), (''column'', Sql_Ident column),
          (''identifier'', Sql_Ident identifier), (''values'', Sql_Join '','' vals)])"

definition STRONG_INSERTION_SQL :: "piece list" where
  "STRONG_INSERTION_SQL =
     [Txt ''INSERT INTO '', Hole ''table'', Txt '' VALUES ('', Hole ''placeholders'', Txt '');'']"

definition format_strong_insertion_sql :: "formatter \<Rightarrow> string \<Rightarrow> string list \<Rightarrow> exn + sql" where
  "format_strong_insertion_sql fmt table columns =
     fmt STRONG_INSERTION_SQL
       [(''table'', Sql_Ident table), (''columns'', idents columns),
        (''placeholders'', Sql_Join '', '' (map Sql_Param columns))]"

definition format_dlq_insertion_sql :: "formatter \<Rightarrow> exn + sql" where
  "format_dlq_insertion_sql fmt =
     fmt STRONG_INSERTION_SQL
       [(''table'', Sql_Ident DLQ_TABLE_NAME),
        (''placeholders'', Sql_Join '', '' (replicate 2 (Sql_Param [])))]"

definition format_counters_dlq_insertion_sql :: "formatter \<Rightarrow> exn + sql" where
  "format_counters_dlq_insertion_sql fmt =
     fmt STRONG_INSERTION_SQL
       [(''table'', Sql_Ident COUNTERS_TABLE_NAME),
        (''placeholders'', Sql_Join '', '' (replicate 4 (Sql_Param [])))]"

definition format_failed_side_effects_sql :: "formatter \<Rightarrow> exn + sql" where
  "format_failed_side_effects_sql fmt =
     fmt STRONG_INSERTION_SQL
       [(''table'', Sql_Ident FAILED_SIDE_EFFECTS_TABLE_NAME),
        (''placeholder'', Sql_Join '', '' (replicate 3 (Sql_Param [])))]"

definition STRONG_DELETION_SQL :: "piece list" where
  "STRONG_DELETION_SQL =
     [Txt ''UPDATE '', Hole ''table'', Txt '' SET '', Hole ''deletion_column'', Txt '' = data.'',
      Hole ''deletion_column'', Txt '', '', Hole ''deleted_at'', Txt '' = data.'', Hole ''deleted_at'',
      Txt '' '', Hole ''deletion_author_column'', Txt '' = '', Hole ''deletion_author_id'',
      Txt '' FROM ( VALUES '', Hole ''values_collection'', Txt '') AS data('', Hole ''identifier'',
      Txt '', '', Hole ''deletion_column'', Txt '', '', Hole ''deleted_at'', Txt '') WHERE '',
      Hole ''table'', Txt ''.'', Hole ''identifier'', Txt '' = data.'', Hole ''identifier'', Txt '';'']"

definition DELETION_ROW_SQL :: "piece list" where
  "DELETION_ROW_SQL =
     [Txt ''('', Hole ''0'', Txt '', true, '', Hole ''1'', Txt '', '', Hole ''2'', Txt '')'']"

definition prepare_strong_deletion_sql ::
    "formatter \<Rightarrow> string \<Rightarrow> string \<Rightarrow> (pyval \<times> pyval \<times> int) list \<Rightarrow> exn + sql" where
  "prepare_strong_deletion_sql fmt table identifier_column deletion_data =
     bindE (traverse (\<lambda>(i, t, e). fmt DELETION_ROW_SQL
                [(''0'', Sql_Lit i), (''1'', Sql_Lit t), (''2'', Sql_Lit (PInt e))])
              deletion_data) (\<lambda>rows.
       fmt STRONG_DELETION_SQL
         [(''table'', Sql_Ident table), (''identifier'', Sql_Ident identifier_column),
          (''deletion_column'', Sql_Ident DELETED_COLUMN_NAME),
          (''deleted_at'', Sql_Ident DELETION_TIME_COLUMN_NAME),
          (''values_collection'', Sql_Join '', '' rows)])"

definition KILL_ORPHANS_SQL :: "piece list" where
  "KILL_ORPHANS_SQL =
     [Txt ''UPDATE '', Hole ''orphan_table'', Txt '' SET '', Hole ''deletion_column'', Txt '' = true; '',
      Hole ''deleted_at'', Txt '' = '', Hole ''deletion_time'', Txt '' WHERE '', Hole ''parent_fk_column'',
      Txt '' = '', Hole ''parent_fk'', Txt '';'']"

definition prepare_orphan_deletion ::
    "formatter \<Rightarrow> string \<Rightarrow> string \<Rightarrow> int \<Rightarrow> string \<Rightarrow> exn + sql" where
  "prepare_orphan_deletion fmt orphan_table parent_fk_column parent_fk deletion_time =
     fmt KILL_ORPHANS_SQL
       [(''orphan_table'', Sql_Ident orphan_table),
        (''deletion_column'', Sql_Ident DELETED_COLUMN_NAME),
        (''deleted_at'', Sql_Ident DELETION_TIME_COLUMN_NAME),
        (''deletion_time'', Sql_Lit (PDatetime deletion_time)),
        (''parent_fk_column'', Sql_Ident parent_fk_column),
        (''parent_values'', Sql_Lit (PInt parent_fk))]"

definition SELECT_DECREMENT_DELTAS_SQL :: "piece list" where
  "SELECT_DECREMENT_DELTAS_SQL =
     [Txt ''SELECT '', Hole ''idenfitier_column'', Txt '', COUNT('', Hole ''identifier_column'',
      Txt '') AS delta FROM '', Hole ''table'', Txt '' WHERE '', Hole ''deletion_author_event_id_column'',
      Txt '' = '', Hole ''deletion_author_event_id'', Txt '' LIMIT '', Hole ''limit'', Txt '' OFFSET '',
      Hole ''offset'', Txt '';'']"

definition prepare_deltas_selection ::
    "formatter \<Rightarrow> string \<Rightarrow> string \<Rightarrow> int \<Rightarrow> int \<Rightarrow> int \<Rightarrow> exn + sql" where
  "prepare_deltas_selection fmt foreign_key_column table deletion_author_event_id limit offset =
     fmt SELECT_DECREMENT_DELTAS_SQL
       [(''identifier_column'', Sql_Ident foreign_key_column), (''table'', Sql_Ident table),
        (''deletion_author_event_id_column'', Sql_Ident DELETION_AUTHOR_EVENT),
        (''deletion_author_event_id'', Sql_Lit (PInt deletion_author_event_id)),
        (''limit'', Sql_Lit (PInt limit)), (''offset'', Sql_Lit (PInt offset))]"

section \<open>Which statements can be composed\<close>

lemma traverse_always_Inr: "(\<And>x. \<exists>y. f x = Inr y) \<Longrightarrow> \<exists>ys. traverse f xs = Inr ys"
  by (induction xs) (auto, metis bindE_simps(2))

lemma updation_rows_composed:
  "documented_format fmt \<Longrightarrow>
   \<exists>vals. traverse (\<lambda>(i, d). fmt PAIR_SQL [(''0'', Sql_Lit (PInt i)), (''1'', Sql_Lit (PInt d))]) xs = Inr vals"
  by (rule traverse_always_Inr) (auto simp: documented_format_eq PAIR_SQL_def)

lemma deletion_rows_composed:
  "documented_format fmt \<Longrightarrow>
   \<exists>rows. traverse (\<lambda>(i, t, e). fmt DELETION_ROW_SQL
       [(''0'', Sql_Lit i), (''1'', Sql_Lit t), (''2'', Sql_Lit (PInt e))]) xs = Inr rows"
  by (rule traverse_always_Inr) (auto simp: documented_format_eq DELETION_ROW_SQL_def)

lemma composable_statements:
  assumes "documented_format fmt"
  shows "\<exists>q. prepare_single_dedup_sql fmt i at now = Inr q"
    and "\<exists>q. prepare_temp_table_sql fmt tmp tab = Inr q"
    and "\<exists>q. prepare_weak_insertion_copy_sql fmt tab cols = Inr q"
    and "\<exists>q. prepare_updation_sql fmt tab col idc deltas = Inr q"
    and "\<exists>q. format_strong_insertion_sql fmt tab cols = Inr q"
    and "\<exists>q. format_dlq_insertion_sql fmt = Inr q"
    and "\<exists>q. format_counters_dlq_insertion_sql fmt = Inr q"
  using updation_rows_composed [OF assms, of deltas]
  by (auto simp: documented_format_eq [OF assms] prepare_single_dedup_sql_def SINGLE_DEDUP_STATEMENT_def
      prepare_temp_table_sql_def TEMP_TABLE_SQL_def prepare_weak_insertion_copy_sql_def
      WEAK_INSERTION_COPY_SQL_def prepare_updation_sql_def UPDATION_SQL_def
      format_strong_insertion_sql_def STRONG_INSERTION_SQL_def format_dlq_insertion_sql_def
      format_counters_dlq_insertion_sql_def)

lemma batch_dedup_KeyError: "documented_format fmt \<Longrightarrow> prepare_batch_dedup_sql fmt tmp = Inl KeyError"
  by (simp add: documented_format_eq prepare_batch_dedup_sql_def SINGLE_DEDUP_STATEMENT_def)

lemma weak_insertion_KeyError:
  "documented_format fmt \<Longrightarrow> prepare_weak_insertion_sql fmt tab tmp cols pks act = Inl KeyError"
  by (simp add: documented_format_eq prepare_weak_insertion_sql_def WEAK_INSERTION_SQL_def)

lemma failed_side_effects_KeyError:
  "documented_format fmt \<Longrightarrow> format_failed_side_effects_sql fmt = Inl KeyError"
  by (simp add: documented_format_eq format_failed_side_effects_sql_def STRONG_INSERTION_SQL_def)

lemma strong_deletion_KeyError:
  assumes "documented_format fmt"
  shows "prepare_strong_deletion_sql fmt tab idc rows = Inl KeyError"
  using deletion_rows_composed [OF assms, of rows]
  by (auto simp: documented_format_eq [OF assms] prepare_strong_deletion_sql_def STRONG_DELETION_SQL_def)

lemma orphan_deletion_KeyError:
  "documented_format fmt \<Longrightarrow> prepare_orphan_deletion fmt tab fkc fk t = Inl KeyError"
  by (simp add: documented_format_eq prepare_orphan_deletion_def KILL_ORPHANS_SQL_def)

lemma deltas_selection_KeyError:
  "documented_format fmt \<Longrightarrow> prepare_deltas_selection fmt fkc tab i l k = Inl KeyError"
  by (simp add: documented_format_eq prepare_deltas_selection_def SELECT_DECREMENT_DELTAS_SQL_def)

text \<open>
  Of the statements the pipeline composes, six can never be: the batch deduplication, the
  upsert of associations, the insertion of failed side effects, the soft deletion of
  entities and of their orphans and the selection of the deltas name a hole their caller does
  not fill, and raise a \<open>KeyError\<close> for every argument; the other seven are always composed.
\<close>

theorem statements_composed:
  assumes "documented_format fmt"
  shows "prepare_batch_dedup_sql fmt tmp = Inl KeyError \<and>
         prepare_weak_insertion_sql fmt tab tmp cols pks act = Inl KeyError \<and>
         format_failed_side_effects_sql fmt = Inl KeyError \<and>
         prepare_strong_deletion_sql fmt tab idc rows = Inl KeyError \<and>
         prepare_orphan_deletion fmt tab fkc fk t = Inl KeyError \<and>
         prepare_deltas_selection fmt fkc tab i l k = Inl KeyError \<and>
         (\<exists>q. prepare_single_dedup_sql fmt i at now = Inr q) \<and>
         (\<exists>q. prepare_temp_table_sql fmt tmp tab = Inr q) \<and>
         (\<exists>q. prepare_weak_insertion_copy_sql fmt tab cols = Inr q) \<and>
         (\<exists>q. prepare_updation_sql fmt tab col idc deltas = Inr q) \<and>
         (\<exists>q. format_strong_insertion_sql fmt tab cols = Inr q) \<and>
         (\<exists>q. format_dlq_insertion_sql fmt = Inr q) \<and>
         (\<exists>q. format_counters_dlq_insertion_sql fmt = Inr q)"
  using assms
  by (simp add: composable_statements batch_dedup_KeyError weak_insertion_KeyError
      failed_side_effects_KeyError strong_deletion_KeyError orphan_deletion_KeyError
      deltas_selection_KeyError)

theorem statements_composed_witness:
  "prepare_deltas_selection format_template ''author_id'' ''posts'' 7 100 0 = Inl KeyError \<and>
   (\<exists>q. prepare_updation_sql format_template ''posts'' ''score'' ''id_'' [(1, 2), (3, -4)] = Inr q)"
  using statements_composed [OF format_template_documented, where fkc = "''author_id''" and tab = "''posts''"
      and i = 7 and l = 100 and k = 0]
    statements_composed [OF format_template_documented, where tab = "''posts''" and col = "''score''"
      and idc = "''id_''" and deltas = "[(1, 2), (3, -4)]"]
  by blast

end
