(* ===== verification/Tenjin_Batch.thy ===== *)
theory Tenjin_Batch
  imports Tenjin_Processing Tenjin_Sql
begin

text \<open>
  How a consumer gathers a batch: filling it from a queue and trimming events that were
  already seen (\<^verbatim>\<open>event_processing/pre_processing.py\<close>), and recording event ids in the
  database (\<open>dedup_insert_event\<close> and \<open>batch_dedup_insert_events\<close> of \<^verbatim>\<open>db_qos.py\<close>).  The
  database connection is a record of parameters; the queue, the clock and sleeping are
  parameters too.
\<close>

section \<open>The database connection\<close>

record 's db_connection =
  execute :: "sql \<Rightarrow> ('s, pyval list list) py"
  copy_in :: "sql \<Rightarrow> pyval list list \<Rightarrow> ('s, unit) py"
  executemany :: "sql \<Rightarrow> (string \<times> pyval) list list \<Rightarrow> ('s, unit) py"
  begin_transaction :: "('s, unit) py"
  commit_transaction :: "('s, unit) py"
  abort_transaction :: "('s, unit) py"
  rollback :: "('s, unit) py"

text \<open>\<open>async with conn.transaction(): body\<close>: an exception of the body aborts and goes on.\<close>

definition in_transaction :: "'s db_connection \<Rightarrow> ('s, 'a) py \<Rightarrow> ('s, 'a) py" where
  "in_transaction db body =
     thenM (begin_transaction db) (\<lambda>s.
       (case body s of
          (Inl e, s1) \<Rightarrow> thenM (abort_transaction db) (raise e) s1
        | (Inr x, s1) \<Rightarrow> thenM (commit_transaction db) (pure x) s1))"

section \<open>Recording event ids\<close>

definition dedup_insert_event ::
    "formatter \<Rightarrow> 's db_connection \<Rightarrow> int \<Rightarrow> string option \<Rightarrow> string \<Rightarrow> ('s, bool) py" where
  "dedup_insert_event fmt db ev_id acknowledgement_time now =
     bindM (lift_sum (prepare_single_dedup_sql fmt ev_id acknowledgement_time now)) (\<lambda>q.
       tryM (thenM (in_transaction db (execute db q)) (pure True))
         (\<lambda>e. if e = IntegrityError then thenM (rollback db) (pure False) else raise e))"

definition first_column :: "pyval list \<Rightarrow> exn + int" where
  "first_column row =
     bindE (py_nth row 0) (\<lambda>v. case v of PInt i \<Rightarrow> Inr i | _ \<Rightarrow> Inl TypeError)"

definition batch_dedup_insert_events ::
    "formatter \<Rightarrow> 's db_connection \<Rightarrow> int list \<Rightarrow> string option \<Rightarrow> string \<Rightarrow> string \<Rightarrow> ('s, int list) py" where
  "batch_dedup_insert_events fmt db ids acknowledgement_time now uuid =
     (let at = (case acknowledgement_time of None \<Rightarrow> now | Some t \<Rightarrow> t);
          tmp = ''_temp_'' @ uuid @ ''_'' @ at in
      bindM (lift_sum (prepare_temp_table_sql fmt tmp EVENTS_TABLE_NAME)) (\<lambda>q1.
      thenM (execute db q1)
      (bindM (lift_sum (prepare_weak_insertion_copy_sql fmt tmp
                          [EVENT_ID_COLUMN_NAME, EVENT_TIMESTAMP_COLUMN_NAME])) (\<lambda>q2.
       thenM (copy_in db q2 (map (\<lambda>i. [PInt i, PDatetime at]) ids))
       (bindM (lift_sum (prepare_batch_dedup_sql fmt tmp)) (\<lambda>q3.
        bindM (execute db q3) (\<lambda>rows. lift_sum (traverse first_column rows))))))))"

text \<open>Whatever the database does, the batch statement is never composed.\<close>

lemma batch_dedup_never_returns:
  "documented_format fmt \<Longrightarrow> \<exists>e s'. batch_dedup_insert_events fmt db ids at now uuid s = (Inl e, s')"
  by (auto simp: batch_dedup_insert_events_def Let_def batch_dedup_KeyError thenM_def bindM_def
      split: sum.splits prod.splits)

section \<open>Trimming a batch\<close>

text \<open>
  The loop over a copy of the batch: an event whose id is not fresh is removed from the
  batch, the first equal one, and its acknowledgement is queued.
\<close>

fun trim_loop ::
    "stream_name \<Rightarrow> string \<Rightarrow> int list \<Rightarrow> streamed_event list \<Rightarrow> streamed_event list \<Rightarrow> rcmd list \<Rightarrow>
     streamed_event list \<times> rcmd list" where
  "trim_loop stream grp fresh [] batch cmds = (batch, cmds)"
| "trim_loop stream grp fresh (ev # copy) batch cmds =
     (if event_id ev \<notin> set fresh
      then trim_loop stream grp fresh copy (remove1 ev batch) (cmds @ [ack_command stream grp ev])
      else trim_loop stream grp fresh copy batch cmds)"

text \<open>The batch is trimmed in place; the result carries it.\<close>

definition trim_duplicate_events ::
    "'s redis \<Rightarrow> streamed_event list \<Rightarrow> int list \<Rightarrow> stream_name \<Rightarrow> string \<Rightarrow>
     ('s, streamed_event list) py" where
  "trim_duplicate_events exec batch fresh stream grp =
     (case trim_loop stream grp fresh batch batch [] of
        (trimmed, cmds) \<Rightarrow> thenM (exec True cmds) (pure trimmed))"

lemma trim_loop_eq:
  "trim_loop stream grp fresh copy (filter (\<lambda>ev. event_id ev \<in> set fresh) seen @ copy) cmds =
   (filter (\<lambda>ev. event_id ev \<in> set fresh) (seen @ copy),
    cmds @ map (ack_command stream grp) (filter (\<lambda>ev. event_id ev \<notin> set fresh) copy))"
proof (induction copy arbitrary: seen cmds)
  case Nil
  then show ?case by simp
next
  case (Cons ev copy)
  let ?P = "\<lambda>ev. event_id ev \<in> set fresh"
  show ?case
  proof (cases "?P ev")
    case True
    with Cons.IH [of "seen @ [ev]" cmds] show ?thesis by simp
  next
    case False
    then have "remove1 ev (filter ?P seen @ ev # copy) = filter ?P seen @ copy"
      by (simp add: remove1_append)
    with False Cons.IH [of seen "cmds @ [ack_command stream grp ev]"] show ?thesis by simp
  qed
qed

text \<open>
  C38.  Trimming keeps exactly the events of the batch with a fresh id, in their order, and
  acknowledges exactly the others, once for each occurrence, duplicates within the batch
  included.
\<close>

theorem trim_duplicate_events_spec:
  "trim_duplicate_events exec batch fresh stream grp =
   thenM (exec True (map (ack_command stream grp) (filter (\<lambda>ev. event_id ev \<notin> set fresh) batch)))
     (pure (filter (\<lambda>ev. event_id ev \<in> set fresh) batch))"
  using trim_loop_eq [of stream grp fresh batch "[]" "[]"]
  by (simp add: trim_duplicate_events_def)

section \<open>Filling a batch\<close>

record batching_policy =
  IQ_CONSUMER_BASE_WAITING_TIME :: int
  IQ_CONSUMER_GET_TIMEOUT :: int
  IQ_CONSUMER_BATCH_SIZE_QUOTA :: int
  IQ_CONSUMER_SLEEP_INTERVAL :: int

text \<open>
  The environment of the loop: the monotonic clock, waiting for the queue, with no entries
  when the wait times out, and sleeping.
\<close>

record 's queue_env =
  clock :: "('s, int) py"
  queue_get :: "int \<Rightarrow> ('s, streamed_event list option) py"
  sleep_for :: "int \<Rightarrow> ('s, unit) py"

text \<open>
  One turn of the loop, on the reference time and the batch.  The size is tested first; the
  clock is read only when it is below the quota.  After the last test the body ends, and the
  loop starts over.
\<close>

definition waiting_over ::
    "batching_policy \<Rightarrow> 's queue_env \<Rightarrow> int \<Rightarrow> streamed_event list \<Rightarrow> ('s, bool) py" where
  "waiting_over pol env ref batch =
     (if IQ_CONSUMER_BATCH_SIZE_QUOTA pol \<le> int (length batch) then pure True
      else bindM (clock env) (\<lambda>t. pure (IQ_CONSUMER_BASE_WAITING_TIME pol < t - ref)))"

definition populate_step ::
    "batching_policy \<Rightarrow> 's queue_env \<Rightarrow> int \<times> streamed_event list \<Rightarrow> ('s, int \<times> streamed_event list) py" where
  "populate_step pol env st =
     (case st of (ref, batch) \<Rightarrow>
        bindM (waiting_over pol env ref batch) (\<lambda>over.
          if \<not> over then
            bindM (queue_get env (IQ_CONSUMER_GET_TIMEOUT pol)) (\<lambda>got.
              (case got of
                 None \<Rightarrow> thenM (sleep_for env (IQ_CONSUMER_SLEEP_INTERVAL pol)) (pure (ref, batch))
               | Some entries \<Rightarrow>
                   if batch = [] then bindM (clock env) (\<lambda>t. pure (t, batch @ entries))
                   else pure (ref, batch @ entries)))
          else if batch = [] then
            thenM (sleep_for env (IQ_CONSUMER_SLEEP_INTERVAL pol))
              (bindM (clock env) (\<lambda>t. pure (t, batch)))
          else pure (ref, batch)))"

text \<open>
  The loop has no way out but an exception: its value is the exception and the batch it
  leaves, or \<open>None\<close> when it never stops.
\<close>

partial_function (option) populate_events_batch_from_queue ::
    "batching_policy \<Rightarrow> 's queue_env \<Rightarrow> int \<times> streamed_event list \<Rightarrow> 's \<Rightarrow>
     (exn \<times> streamed_event list \<times> 's) option" where
  "populate_events_batch_from_queue pol env st s =
     (case populate_step pol env st s of
        (Inl e, s') \<Rightarrow> Some (e, snd st, s')
      | (Inr st', s') \<Rightarrow> populate_events_batch_from_queue pol env st' s')"

lemma populate_loop_no_result:
  assumes "\<And>st s. \<exists>st' s'. populate_step pol env st s = (Inr st', s')"
    and "populate_events_batch_from_queue pol env st s = Some r"
  shows False
proof -
  have "pol = pol \<longrightarrow> env = env \<longrightarrow> False"
  proof (rule populate_events_batch_from_queue.raw_induct
      [where P = "\<lambda>p e st s r. p = pol \<longrightarrow> e = env \<longrightarrow> False", OF _ assms(2)])
    fix rec p e st s r
    assume ih: "\<And>p e st s r. rec p e st s = Some r \<Longrightarrow> p = pol \<longrightarrow> e = env \<longrightarrow> False"
      and body: "(case populate_step p e st s of (Inl e, s') \<Rightarrow> Some (e, snd st, s')
                  | (Inr st', s') \<Rightarrow> rec p e st' s') = Some r"
    obtain st' s' where "populate_step pol env st s = (Inr st', s')" using assms(1) by blast
    with ih [of pol env st' s' r] body show "p = pol \<longrightarrow> e = env \<longrightarrow> False" by auto
  qed
  then show False by simp
qed

text \<open>
  Filling a batch never ends: as long as the clock, the queue and sleeping raise nothing,
  the loop runs forever, even over a full batch, so that no consumer built on it ever gets to
  process one.
\<close>

theorem populate_never_returns:
  assumes "\<And>s. \<exists>t s'. clock env s = (Inr t, s')"
    and "\<And>n s. \<exists>g s'. queue_get env n s = (Inr g, s')"
    and "\<And>n s. \<exists>s'. sleep_for env n s = (Inr (), s')"
  shows "populate_events_batch_from_queue pol env st s = None"
proof -
  have step: "\<exists>st' s'. populate_step pol env st s = (Inr st', s')" for st s
  proof -
    obtain ref batch where st: "st = (ref, batch)" by (cases st)
    obtain over s1 where 1: "waiting_over pol env ref batch s = (Inr over, s1)"
      using assms(1) [of s] by (cases "IQ_CONSUMER_BATCH_SIZE_QUOTA pol \<le> int (length batch)")
        (auto simp: waiting_over_def)
    obtain g s2 where 2: "queue_get env (IQ_CONSUMER_GET_TIMEOUT pol) s1 = (Inr g, s2)"
      using assms(2) by blast
    obtain s3 where 3: "sleep_for env (IQ_CONSUMER_SLEEP_INTERVAL pol) s1 = (Inr (), s3)"
      using assms(3) by blast
    obtain s4 where 4: "sleep_for env (IQ_CONSUMER_SLEEP_INTERVAL pol) s2 = (Inr (), s4)"
      using assms(3) by blast
    show ?thesis
      using 1 2 3 4 assms(1) [of s2] assms(1) [of s3]
      by (auto simp: populate_step_def st split: option.splits)
  qed
  show ?thesis
    using populate_loop_no_result [OF step] by (metis not_None_eq)
qed

theorem populate_never_returns_witness:
  "populate_events_batch_from_queue
     \<lparr>IQ_CONSUMER_BASE_WAITING_TIME = 5, IQ_CONSUMER_GET_TIMEOUT = 1,
      IQ_CONSUMER_BATCH_SIZE_QUOTA = 1, IQ_CONSUMER_SLEEP_INTERVAL = 1\<rparr>
     \<lparr>clock = (\<lambda>s. (Inr s, s + 1)), queue_get = (\<lambda>n s. (Inr (Some [demo_streamed]), s)),
      sleep_for = (\<lambda>n s. (Inr (), s + n))\<rparr>
     (0, []) (0::int) = None"
  by (rule populate_never_returns) auto

text \<open>A batch that meets the quota is left as it is by every further turn.\<close>

lemma populate_step_full:
  assumes "IQ_CONSUMER_BATCH_SIZE_QUOTA pol \<le> int (length batch)" and "batch \<noteq> []"
  shows "populate_step pol env (ref, batch) s = (Inr (ref, batch), s)"
  using assms by (simp add: populate_step_def waiting_over_def)

end
