(* ===== verification/Tenjin_Insertions.thy ===== *)
theory Tenjin_Insertions
  imports Tenjin_Batch
begin

text \<open>
  Writing a batch of events to the database (\<^verbatim>\<open>tasks/insertions.py\<close>): the payload types of
  \<^verbatim>\<open>datastructures/payloads\<close>, the translation tables of \<^verbatim>\<open>translation.py\<close>, the casts of
  \<^verbatim>\<open>casting.py\<close>, the two insertion routines, and the bisection that isolates the events
  the database refuses.
\<close>

section \<open>Payload types\<close>

datatype field_type = Int_Field | Str_Field | Bool_Field | Datetime_Field

text \<open>The fields of each typed dictionary, inherited ones first, as \<open>get_type_hints\<close> lists them.\<close>

datatype payload_type =
    GenericPostAssosciaation | PostReportAssosciation | PostVoteAssosciation
  | CommentReportAssosciation | CommentVoteAssosciation | ForumSubscriptionAssosciation
  | AnimeSubscriptionAssosciation | CommentCreation | CommentDeletion | PostCreation

fun payload_fields :: "payload_type \<Rightarrow> (string \<times> field_type) list" where
  "payload_fields GenericPostAssosciaation = [(''user_id'', Int_Field), (''post_id'', Int_Field)]"
| "payload_fields PostReportAssosciation =
     [(''user_id'', Int_Field), (''post_id'', Int_Field), (''report_tag'', Str_Field),
      (''report_description'', Str_Field), (''report_time'', Datetime_Field)]"
| "payload_fields PostVoteAssosciation = [(''user_id'', Int_Field), (''vote'', Bool_Field)]"
| "payload_fields CommentReportAssosciation =
     [(''user_id'', Int_Field), (''comment_id'', Int_Field), (''report_tag'', Str_Field),
      (''report_description'', Str_Field), (''report_time'', Datetime_Field)]"
| "payload_fields CommentVoteAssosciation =
     [(''user_id'', Int_Field), (''comment_id'', Int_Field), (''vote'', Bool_Field)]"
| "payload_fields ForumSubscriptionAssosciation =
     [(''user_id'', Int_Field), (''forum_id'', Int_Field), (''time_subscribed'', Datetime_Field)]"
| "payload_fields AnimeSubscriptionAssosciation =
     [(''user_id'', Int_Field), (''anime_id'', Int_Field), (''time_subscribed'', Datetime_Field)]"
| "payload_fields CommentCreation =
     [(''author_id'', Int_Field), (''parent_post'', Int_Field), (''parent_forum'', Int_Field),
      (''body'', Str_Field), (''time_created'', Datetime_Field)]"
| "payload_fields CommentDeletion = [(''comment_id'', Int_Field)]"
| "payload_fields PostCreation =
     [(''author_id'', Int_Field), (''forum_id'', Int_Field), (''title'', Str_Field),
      (''body_text'', Str_Field), (''time_posted'', Datetime_Field)]"

fun EVENT_PAYLOAD_TYPES :: "event_name \<Rightarrow> payload_type option" where
  "EVENT_PAYLOAD_TYPES POST_CREATE = Some PostCreation"
| "EVENT_PAYLOAD_TYPES POST_SAVE = Some GenericPostAssosciaation"
| "EVENT_PAYLOAD_TYPES POST_UNSAVE = Some GenericPostAssosciaation"
| "EVENT_PAYLOAD_TYPES POST_VOTE = Some PostVoteAssosciation"
| "EVENT_PAYLOAD_TYPES POST_UNVOTE = Some PostVoteAssosciation"
| "EVENT_PAYLOAD_TYPES POST_REPORT = Some PostReportAssosciation"
| "EVENT_PAYLOAD_TYPES COMMENT_VOTE = Some CommentVoteAssosciation"
| "EVENT_PAYLOAD_TYPES COMMENT_CREATE = Some CommentCreation"
| "EVENT_PAYLOAD_TYPES COMMENT_UNVOTE = Some CommentVoteAssosciation"
| "EVENT_PAYLOAD_TYPES COMMENT_REPORT = Some CommentReportAssosciation"
| "EVENT_PAYLOAD_TYPES COMMENT_DELETE = Some CommentDeletion"
| "EVENT_PAYLOAD_TYPES FORUM_SUB = Some ForumSubscriptionAssosciation"
| "EVENT_PAYLOAD_TYPES FORUM_UNSUB = Some ForumSubscriptionAssosciation"
| "EVENT_PAYLOAD_TYPES ANIME_SUB = Some AnimeSubscriptionAssosciation"
| "EVENT_PAYLOAD_TYPES ANIME_UNSUB = Some AnimeSubscriptionAssosciation"
| "EVENT_PAYLOAD_TYPES _ = None"

definition user_post_pk :: "string list" where "user_post_pk = [''user_id'', ''post_id'']"
definition user_comment_pk :: "string list" where "user_comment_pk = [''user_id'', ''comment_id'']"
definition user_anime_pk :: "string list" where "user_anime_pk = [''user_id'', ''anime_id'']"

fun ASSOCIATION_DB_METADATA :: "event_name \<Rightarrow> (string \<times> string list) option" where
  "ASSOCIATION_DB_METADATA POST_SAVE = Some (''post_saves'', user_post_pk)"
| "ASSOCIATION_DB_METADATA POST_UNSAVE = Some (''post_saves'', user_post_pk)"
| "ASSOCIATION_DB_METADATA POST_VOTE = Some (''post_votes'', user_post_pk)"
| "ASSOCIATION_DB_METADATA POST_UNVOTE = Some (''post_votes'', user_post_pk)"
| "ASSOCIATION_DB_METADATA POST_REPORT = Some (''post_reports'', user_post_pk)"
| "ASSOCIATION_DB_METADATA COMMENT_VOTE = Some (''comment_votes'', user_comment_pk)"
| "ASSOCIATION_DB_METADATA COMMENT_UNVOTE = Some (''comment_votes'', user_comment_pk)"
| "ASSOCIATION_DB_METADATA COMMENT_REPORT = Some (''comment_reportss'', user_comment_pk)"
| "ASSOCIATION_DB_METADATA FORUM_SUB = Some (''forum_subscriptions'', user_comment_pk)"
| "ASSOCIATION_DB_METADATA FORUM_UNSUB = Some (''forum_subscriptions'', user_comment_pk)"
| "ASSOCIATION_DB_METADATA ANIME_SUB = Some (''anime_subscriptions'', user_anime_pk)"
| "ASSOCIATION_DB_METADATA ANIME_UNSUB = Some (''anime_subscriptions'', user_anime_pk)"
| "ASSOCIATION_DB_METADATA _ = None"

definition resolve_entity_metadata :: "streamed_event \<Rightarrow> exn + string \<times> string list" where
  "resolve_entity_metadata ev = py_lookup ASSOCIATION_DB_METADATA (event_name ev)"

section \<open>Casting values\<close>

text \<open>
  \<open>datetime.fromisoformat\<close> and \<open>str\<close> of a list or a dictionary are the parameters
  \<open>fromiso\<close> and \<open>repr_of\<close>.
\<close>

definition cast_int :: "pyval \<Rightarrow> exn + int" where
  "cast_int v =
     (case v of PInt i \<Rightarrow> Inr i | PBool b \<Rightarrow> Inr (if b then 1 else 0) | PStr s \<Rightarrow> py_int s
      | PBytes s \<Rightarrow> py_int s | _ \<Rightarrow> Inl TypeError)"

definition serialize_bool :: "pyval \<Rightarrow> exn + pyval" where
  "serialize_bool v = bindE (cast_int v) (\<lambda>i. Inr (PBool (i \<noteq> 0)))"

definition serialize_datetime :: "(string \<Rightarrow> exn + string) \<Rightarrow> pyval \<Rightarrow> exn + pyval" where
  "serialize_datetime fromiso v =
     (case v of PStr s \<Rightarrow> bindE (fromiso s) (\<lambda>t. Inr (PDatetime t)) | _ \<Rightarrow> Inl TypeError)"

definition cast_str :: "(pyval \<Rightarrow> string) \<Rightarrow> pyval \<Rightarrow> string" where
  "cast_str repr_of v =
     (case v of PStr s \<Rightarrow> s | PInt i \<Rightarrow> str_of_int i | PBool b \<Rightarrow> (if b then ''True'' else ''False'')
      | PNone \<Rightarrow> ''None'' | _ \<Rightarrow> repr_of v)"

text \<open>An empty string is \<open>None\<close>; otherwise \<open>CAST_MAPPING\<close>, or the type itself.\<close>

definition cast_value ::
    "(string \<Rightarrow> exn + string) \<Rightarrow> (pyval \<Rightarrow> string) \<Rightarrow> field_type \<Rightarrow> pyval \<Rightarrow> exn + pyval" where
  "cast_value fromiso repr_of ty v =
     (if v = PStr [] then Inr PNone
      else case ty of
             Bool_Field \<Rightarrow> serialize_bool v
           | Datetime_Field \<Rightarrow> serialize_datetime fromiso v
           | Int_Field \<Rightarrow> bindE (cast_int v) (\<lambda>i. Inr (PInt i))
           | Str_Field \<Rightarrow> Inr (PStr (cast_str repr_of v)))"

definition cast_row ::
    "(string \<Rightarrow> exn + string) \<Rightarrow> (pyval \<Rightarrow> string) \<Rightarrow> (string \<times> field_type) list \<Rightarrow> streamed_event \<Rightarrow>
     exn + (string \<times> pyval) list" where
  "cast_row fromiso repr_of hints ev =
     traverse (\<lambda>(f, ty).
       bindE (py_lookup (dict_get (payload ev)) f) (\<lambda>v.
       bindE (cast_value fromiso repr_of ty v) (\<lambda>x. Inr (f, x)))) hints"

section \<open>The insertion routines\<close>

definition batch_insert_association_entities ::
    "formatter \<Rightarrow> (string \<Rightarrow> exn + string) \<Rightarrow> (pyval \<Rightarrow> string) \<Rightarrow> string \<Rightarrow> 's db_connection \<Rightarrow>
     streamed_event list \<Rightarrow> action_literal \<Rightarrow> ('s, int list) py" where
  "batch_insert_association_entities fmt fromiso repr_of uuid db events act =
     bindM (lift_sum (py_nth events 0)) (\<lambda>first.
       (case EVENT_PAYLOAD_TYPES (event_name first) of
          None \<Rightarrow> raise ValueError
        | Some ty \<Rightarrow>
            bindM (lift_sum (resolve_entity_metadata first)) (\<lambda>(table, pk_columns).
              let columns = map fst (payload_fields ty);
                  tmp = ''_staging_'' @ table @ ''_'' @ uuid in
              bindM (lift_sum (prepare_temp_table_sql fmt tmp table)) (\<lambda>q1.
              thenM (execute db q1)
              (bindM (lift_sum (prepare_weak_insertion_copy_sql fmt tmp columns)) (\<lambda>q2.
               bindM (lift_sum (traverse (cast_row fromiso repr_of (payload_fields ty)) events)) (\<lambda>rows.
               thenM (copy_in db q2 (map (map snd) rows))
               (bindM (lift_sum (prepare_weak_insertion_sql fmt table tmp columns pk_columns act)) (\<lambda>q3.
                bindM (execute db q3) (\<lambda>res. lift_sum (traverse first_column res)))))))))))"

definition batch_insert_strong_entities ::
    "formatter \<Rightarrow> (string \<Rightarrow> exn + string) \<Rightarrow> (pyval \<Rightarrow> string) \<Rightarrow> 's db_connection \<Rightarrow>
     streamed_event list \<Rightarrow> ('s, int list) py" where
  "batch_insert_strong_entities fmt fromiso repr_of db events =
     bindM (lift_sum (py_nth events 0)) (\<lambda>first.
       (case EVENT_PAYLOAD_TYPES (event_name first) of
          None \<Rightarrow> pure []
        | Some ty \<Rightarrow>
            bindM (lift_sum (resolve_entity_metadata first)) (\<lambda>(table, _).
            bindM (lift_sum (traverse (cast_row fromiso repr_of (payload_fields ty)) events)) (\<lambda>records.
            bindM (lift_sum (format_strong_insertion_sql fmt table (map fst (payload_fields ty)))) (\<lambda>q.
            thenM (executemany db q records) (pure []))))))"

text \<open>
  The bisection.  \<open>insert_all\<close> stands for the transaction over one of the two routines, chosen by
  whether an action was given; the ids inserted so far are extended in place.  An empty batch
  never gets to the bisection: both routines read its first event before anything else and
  raise an \<open>IndexError\<close>.
\<close>

function batch_insert_with_isolation ::
    "(streamed_event list \<Rightarrow> ('s, int list) py) \<Rightarrow> streamed_event list \<Rightarrow> int list \<Rightarrow>
     's \<Rightarrow> (exn + unit) \<times> int list \<times> 's" where
  "batch_insert_with_isolation insert_all events inserted s =
     (case insert_all events s of
        (Inr ids, s1) \<Rightarrow> (Inr (), inserted @ ids, s1)
      | (Inl e, s1) \<Rightarrow>
          if e \<noteq> IntegrityError then (Inl e, inserted, s1)
          else if length events = 1 then (Inr (), inserted, s1)
          else if events = [] then (Inl IndexError, inserted, s1)
          else
            (let half = length events div 2 in
             case batch_insert_with_isolation insert_all (take half events) inserted s1 of
               (Inl e2, ids, s2) \<Rightarrow> (Inl e2, ids, s2)
             | (Inr _, ids, s2) \<Rightarrow> batch_insert_with_isolation insert_all (drop half events) ids s2))"
  by pat_completeness auto
termination
proof (relation "measure (\<lambda>(insert_all, events, inserted, s). length events)", goal_cases)
  case (2 insert_all events inserted s x s1 e half)
  then have "1 < length events" by (cases events) auto
  then show ?case using 2 by auto
next
  case (3 insert_all events inserted s x s1 e half)
  then have "1 < length events" by (cases events) auto
  then show ?case using 3 by auto
qed simp

declare batch_insert_with_isolation.simps [simp del]

definition insertion_transaction ::
    "formatter \<Rightarrow> (string \<Rightarrow> exn + string) \<Rightarrow> (pyval \<Rightarrow> string) \<Rightarrow> string \<Rightarrow> 's db_connection \<Rightarrow>
     action_literal option \<Rightarrow> streamed_event list \<Rightarrow> ('s, int list) py" where
  "insertion_transaction fmt fromiso repr_of uuid db act events =
     in_transaction db
       (case act of
          Some a \<Rightarrow> batch_insert_association_entities fmt fromiso repr_of uuid db events a
        | None \<Rightarrow> batch_insert_strong_entities fmt fromiso repr_of db events)"

section \<open>The bisection isolates the refused events\<close>

text \<open>
  The search itself is right, for an insertion it could be used with: one that refuses a batch
  as a whole when one of its events is bad, without a trace, and otherwise inserts every event, in
  order, and reports their ids.  Neither of the two routines is one, as the next section shows.
\<close>

definition atomic_insertion ::
    "(streamed_event list \<Rightarrow> ('s, int list) py) \<Rightarrow> (streamed_event \<Rightarrow> bool) \<Rightarrow>
     (streamed_event \<Rightarrow> 's \<Rightarrow> 's) \<Rightarrow> bool" where
  "atomic_insertion insert_all bad add \<longleftrightarrow>
     (\<forall>events s. events \<noteq> [] \<longrightarrow>
        insert_all events s =
          (if list_ex bad events then (Inl IntegrityError, s)
           else (Inr (map event_id events), fold add events s)))"

lemma isolation_single:
  assumes "insert_all [ev] s = (Inl IntegrityError, s1)"
  shows "batch_insert_with_isolation insert_all [ev] inserted s = (Inr (), inserted, s1)"
  using assms by (subst batch_insert_with_isolation.simps) simp

lemma isolation_accepted:
  assumes "insert_all events s = (Inr ids, s1)"
  shows "batch_insert_with_isolation insert_all events inserted s = (Inr (), inserted @ ids, s1)"
  using assms by (subst batch_insert_with_isolation.simps) simp

lemma isolation_bisect:
  assumes "insert_all events s = (Inl IntegrityError, s1)" and "2 \<le> length events"
    and "batch_insert_with_isolation insert_all (take (length events div 2) events) inserted s1 = (Inr (), ids, s2)"
  shows "batch_insert_with_isolation insert_all events inserted s =
         batch_insert_with_isolation insert_all (drop (length events div 2) events) ids s2"
proof -
  have "events \<noteq> []" "length events \<noteq> 1" using assms(2) by auto
  then show ?thesis using assms(1,3)
    by (subst batch_insert_with_isolation.simps) (simp add: Let_def)
qed

lemma isolation_all:
  assumes "atomic_insertion insert_all bad add" and "events \<noteq> []"
  shows "batch_insert_with_isolation insert_all events inserted s =
     (Inr (), inserted @ map event_id (filter (\<lambda>ev. \<not> bad ev) events), fold add (filter (\<lambda>ev. \<not> bad ev) events) s)"
  using assms(2)
proof (induction events arbitrary: inserted s rule: length_induct)
  case (1 events)
  let ?ok = "filter (\<lambda>ev. \<not> bad ev)"
  from assms(1) 1 have ins: "insert_all events s =
      (if list_ex bad events then (Inl IntegrityError, s)
       else (Inr (map event_id events), fold add events s))"
    by (auto simp: atomic_insertion_def)
  show ?case
  proof (cases "list_ex bad events")
    case False
    then have "?ok events = events" by (auto simp: list_ex_iff filter_id_conv)
    with ins False show ?thesis by (simp add: isolation_accepted)
  next
    case bad: True
    show ?thesis
    proof (cases "length events = 1")
      case True
      then obtain ev where "events = [ev]" by (auto simp: length_Suc_conv)
      with ins bad show ?thesis by (auto simp: isolation_single)
    next
      case False
      let ?half = "length events div 2"
      let ?l = "take ?half events" and ?r = "drop ?half events"
      have two: "2 \<le> length events" using False 1(2) by (cases events; cases "tl events") auto
      then have less: "length ?l < length events" "?l \<noteq> []" "length ?r < length events" "?r \<noteq> []"
        by auto
      have l: "batch_insert_with_isolation insert_all ?l inserted s =
          (Inr (), inserted @ map event_id (?ok ?l), fold add (?ok ?l) s)"
        using 1(1) less by blast
      have r: "batch_insert_with_isolation insert_all ?r ids t =
          (Inr (), ids @ map event_id (?ok ?r), fold add (?ok ?r) t)" for ids t
        using 1(1) less by blast
      have "?ok events = ?ok ?l @ ?ok ?r" by (metis append_take_drop_id filter_append)
      then show ?thesis
        using isolation_bisect [OF _ two l] ins bad by (simp add: r)
    qed
  qed
qed

section \<open>What the routines achieve\<close>

lemma association_insertion_fails:
  assumes "documented_format fmt"
  shows "\<exists>e s'. batch_insert_association_entities fmt fromiso repr_of uuid db events act s = (Inl e, s')"
  using weak_insertion_KeyError [OF assms]
  by (auto simp: batch_insert_association_entities_def Let_def thenM_def bindM_def
      split: sum.splits prod.splits option.splits)

lemma strong_insertion_untranslated:
  assumes "event_name ev \<in> {POST_CREATE, COMMENT_CREATE, COMMENT_DELETE}"
  shows "batch_insert_strong_entities fmt fromiso repr_of db (ev # evs) s = (Inl KeyError, s)"
  using assms
  by (auto simp: batch_insert_strong_entities_def py_nth_def resolve_entity_metadata_def
      py_lookup_def bindM_def)

text \<open>
  No post and no comment is ever inserted: the events that create one have a payload type
  but no entry in the table of relations, so that a batch beginning with one raises a
  \<open>KeyError\<close> before it touches the database.  And no association is ever upserted: that
  routine raises for every batch and every action.
\<close>

theorem insertions_never_succeed:
  assumes "documented_format fmt" and "event_name ev \<in> {POST_CREATE, COMMENT_CREATE}"
  shows "batch_insert_strong_entities fmt fromiso repr_of db (ev # evs) s = (Inl KeyError, s) \<and>
         (\<exists>e s'. batch_insert_association_entities fmt fromiso repr_of uuid db events act s = (Inl e, s'))"
proof
  show "batch_insert_strong_entities fmt fromiso repr_of db (ev # evs) s = (Inl KeyError, s)"
    using assms(2) by (intro strong_insertion_untranslated) auto
  show "\<exists>e s'. batch_insert_association_entities fmt fromiso repr_of uuid db events act s = (Inl e, s')"
    by (rule association_insertion_fails [OF assms(1)])
qed

definition null_db :: "unit db_connection" where
  "null_db =
     \<lparr>execute = (\<lambda>_. pure []), copy_in = (\<lambda>_ _. pure ()), executemany = (\<lambda>_ _. pure ()),
      begin_transaction = pure (), commit_transaction = pure (), abort_transaction = pure (),
      rollback = pure ()\<rparr>"

theorem insertions_never_succeed_witness:
  "batch_insert_strong_entities format_template Inr (\<lambda>_. []) null_db
     [to_streamed (demo_event\<lparr>event_name := POST_CREATE\<rparr>) 1] () = (Inl KeyError, ()) \<and>
   (\<exists>e s'. batch_insert_association_entities format_template Inr (\<lambda>_. []) ''ab'' null_db
      [demo_streamed] Vote () = (Inl e, s'))"
  by (rule insertions_never_succeed) (simp_all add: to_streamed_def event.defs)

text \<open>The columns an upsert resolves conflicts on must be among those it writes.\<close>

definition conflict_columns_written :: "event_name \<Rightarrow> bool" where
  "conflict_columns_written n =
     (case (ASSOCIATION_DB_METADATA n, EVENT_PAYLOAD_TYPES n) of
        (Some (_, pks), Some ty) \<Rightarrow> set pks \<subseteq> fst ` set (payload_fields ty)
      | _ \<Rightarrow> False)"

text \<open>
  The translation tables disagree for the votes on posts, whose payload has no post id,
  and for the subscriptions to forums, whose key is declared to be a comment's: for the other
  eight association events every column of the primary key is a field of the payload.
\<close>

theorem conflict_columns_of_associations:
  "{n. ASSOCIATION_DB_METADATA n \<noteq> None \<and> \<not> conflict_columns_written n} =
     {POST_VOTE, POST_UNVOTE, FORUM_SUB, FORUM_UNSUB} \<and>
   {n. ASSOCIATION_DB_METADATA n \<noteq> None} \<subseteq> {n. EVENT_PAYLOAD_TYPES n \<noteq> None}"
proof
  show "{n. ASSOCIATION_DB_METADATA n \<noteq> None \<and> \<not> conflict_columns_written n} =
     {POST_VOTE, POST_UNVOTE, FORUM_SUB, FORUM_UNSUB}" (is "?L = ?R")
  proof (rule set_eqI)
    fix n show "n \<in> ?L \<longleftrightarrow> n \<in> ?R"
      by (cases n) (simp_all add: conflict_columns_written_def user_post_pk_def user_comment_pk_def user_anime_pk_def)
  qed
  show "{n. ASSOCIATION_DB_METADATA n \<noteq> None} \<subseteq> {n. EVENT_PAYLOAD_TYPES n \<noteq> None}"
  proof
    fix n show "n \<in> {n. ASSOCIATION_DB_METADATA n \<noteq> None} \<Longrightarrow> n \<in> {n. EVENT_PAYLOAD_TYPES n \<noteq> None}"
      by (cases n) simp_all
  qed
qed

text \<open>
  A bisection over either routine reports no id, and a transaction over associations never
  gets to its commit.
\<close>

lemma raising_transaction:
  assumes "\<forall>u. \<exists>e t. body u = (Inl e, t)"
  shows "in_transaction (db\<lparr>commit_transaction := c\<rparr>) body s = in_transaction db body s"
    and "in_transaction db body s = (Inr x, s') \<Longrightarrow> False"
proof -
  have "body u \<noteq> (Inr x, t)" for u x t using assms by (metis Inl_Inr_False Pair_inject)
  then show "in_transaction (db\<lparr>commit_transaction := c\<rparr>) body s = in_transaction db body s"
    and "in_transaction db body s = (Inr x, s') \<Longrightarrow> False"
    by (auto simp: in_transaction_def thenM_def bindM_def raise_def split: sum.splits prod.splits)
qed

lemma transaction_reports_nothing:
  assumes "documented_format fmt"
    and "insertion_transaction fmt fromiso repr_of uuid db act events s = (Inr ids, s')"
  shows "ids = []"
proof (cases act)
  case None
  with assms(2) show ?thesis
    by (auto simp: insertion_transaction_def in_transaction_def batch_insert_strong_entities_def Let_def
        thenM_def bindM_def pure_def raise_def split: sum.splits prod.splits option.splits if_splits)
next
  case (Some a)
  have "\<forall>u. \<exists>e t. batch_insert_association_entities fmt fromiso repr_of uuid db events a u = (Inl e, t)"
    by (rule allI, rule association_insertion_fails [OF assms(1)])
  moreover have "in_transaction db (batch_insert_association_entities fmt fromiso repr_of uuid db events a) s = (Inr ids, s')"
    using assms(2) Some by (simp add: insertion_transaction_def)
  ultimately have False by (rule raising_transaction(2))
  then show ?thesis ..
qed

lemma isolation_reports_nothing:
  assumes silent: "\<And>evs t ids t'. insert_all evs t = (Inr ids, t') \<Longrightarrow> ids = []"
  shows "fst (snd (batch_insert_with_isolation insert_all events inserted s)) = inserted"
proof (induction events arbitrary: inserted s rule: length_induct)
  case (1 events)
  obtain r s1 where run: "insert_all events s = (r, s1)" by (cases "insert_all events s")
  show ?case
  proof (cases "r = Inl IntegrityError \<and> length events \<noteq> 1 \<and> events \<noteq> []")
    case False
    then show ?thesis using run silent by (subst batch_insert_with_isolation.simps) (auto split: sum.splits)
  next
    case True
    let ?half = "length events div 2"
    from True have "1 < length events" by (cases events) auto
    then have less: "length (take ?half events) < length events" "length (drop ?half events) < length events" by auto
    obtain q ids s2 where left: "batch_insert_with_isolation insert_all (take ?half events) inserted s1 = (q, ids, s2)"
      by (metis prod_cases3)
    have "ids = inserted" using 1 less(1) left by (metis fst_conv snd_conv)
    moreover have "fst (snd (batch_insert_with_isolation insert_all (drop ?half events) ids s2)) = ids"
      using 1 less(2) by blast
    ultimately show ?thesis using run True left
      by (subst batch_insert_with_isolation.simps) (auto simp: Let_def split: sum.splits)
  qed
qed

lemma association_never_commits:
  assumes "documented_format fmt"
  shows "insertion_transaction fmt fromiso repr_of uuid (db\<lparr>commit_transaction := c\<rparr>) (Some a) =
         insertion_transaction fmt fromiso repr_of uuid db (Some a)"
proof (intro ext)
  fix events s
  let ?body = "batch_insert_association_entities fmt fromiso repr_of uuid db events a"
  have fields: "execute (db\<lparr>commit_transaction := c\<rparr>) = execute db" "copy_in (db\<lparr>commit_transaction := c\<rparr>) = copy_in db"
    by simp_all
  have same: "batch_insert_association_entities fmt fromiso repr_of uuid (db\<lparr>commit_transaction := c\<rparr>) events a = ?body"
    unfolding batch_insert_association_entities_def fields by (rule refl)
  have "in_transaction (db\<lparr>commit_transaction := c\<rparr>) ?body s = in_transaction db ?body s"
    by (rule raising_transaction(1)) (rule allI, rule association_insertion_fails [OF assms])
  then show "insertion_transaction fmt fromiso repr_of uuid (db\<lparr>commit_transaction := c\<rparr>) (Some a) events s =
      insertion_transaction fmt fromiso repr_of uuid db (Some a) events s"
    by (simp add: insertion_transaction_def same)
qed

text \<open>
  C35.  Whatever batch the workers insert, and whatever the database answers, the routine that
  isolates the events a database refuses reports no event as inserted: the insertion of posts and
  comments returns an empty list when it succeeds, and the insertion of associations (saves, votes,
  subscriptions) always raises, as its last statement cannot be composed; for associations no transaction ever
  gets to its commit, so that the outcome is the same whatever a commit would do.  (The
  formatting of psycopg is as documented.)
\<close>

theorem nothing_reported_inserted:
  assumes "documented_format fmt"
  shows "fst (snd (batch_insert_with_isolation (insertion_transaction fmt fromiso repr_of uuid db act) events inserted s)) = inserted \<and>
    batch_insert_with_isolation (insertion_transaction fmt fromiso repr_of uuid (db\<lparr>commit_transaction := c\<rparr>) (Some a)) events inserted s =
    batch_insert_with_isolation (insertion_transaction fmt fromiso repr_of uuid db (Some a)) events inserted s"
  using isolation_reports_nothing transaction_reports_nothing [OF assms] association_never_commits [OF assms]
  by metis

theorem nothing_reported_inserted_witness:
  "fst (snd (batch_insert_with_isolation (insertion_transaction format_template Inr (\<lambda>_. []) ''ab'' null_db (Some Vote))
     [demo_streamed] [7] ())) = [7] \<and>
   batch_insert_with_isolation (insertion_transaction format_template Inr (\<lambda>_. []) ''ab'' (null_db\<lparr>commit_transaction := raise RuntimeError\<rparr>) (Some Vote)) [demo_streamed] [7] () =
   batch_insert_with_isolation (insertion_transaction format_template Inr (\<lambda>_. []) ''ab'' null_db (Some Vote)) [demo_streamed] [7] ()"
  by (rule nothing_reported_inserted) simp

end
