(* ===== verification/Tenjin_Downstream.thy ===== *)
theory Tenjin_Downstream
  imports Tenjin_Insertions
begin

text \<open>
  The cascade of deletions: what a deleted entity leaves behind (\<^verbatim>\<open>datastructures/downstream.py\<close>),
  how the workers dispatch it (\<^verbatim>\<open>workers/redis/downstream_post_processing.py\<close>), how events are
  declared dead (\<^verbatim>\<open>workers/redis/declarations.py\<close>), and the soft deletions and selections of
  \<^verbatim>\<open>tasks/deletions.py\<close> and \<^verbatim>\<open>tasks/selections.py\<close>.
\<close>

section \<open>Downstream data\<close>

record anonymous_downstream_deletion =
  orphan_fk_column :: foreign_key_column
  orphan_table :: strong_entity

record downstream_deletion_data = anonymous_downstream_deletion +
  foreign_key :: int
  deleted_at :: string

record downstream_counter_decrement_data =
  hashmap_name :: string
  affected_table_name :: strong_entity
  affected_column_name :: foreign_key_column
  deletion_author_event_id :: int

text \<open>\<open>Enum(v)\<close>: a value that is not a member's, or not a string, is a \<open>ValueError\<close>.\<close>

definition enum_value :: "(string \<Rightarrow> 'e option) \<Rightarrow> pyval \<Rightarrow> exn + 'e" where
  "enum_value of_string v =
     (case v of
        PStr s \<Rightarrow> (case of_string s of None \<Rightarrow> Inl ValueError | Some e \<Rightarrow> Inr e)
      | _ \<Rightarrow> Inl ValueError)"

definition reconstruct_downstream_data_from_stream ::
    "(string \<Rightarrow> exn + string) \<Rightarrow> (string \<times> pyval) list \<Rightarrow> exn + downstream_deletion_data" where
  "reconstruct_downstream_data_from_stream fromiso p =
     bindE (py_lookup (dict_get p) ''foreign_key_column'') (\<lambda>v1.
     bindE (enum_value foreign_key_of v1) (\<lambda>fkc.
     bindE (py_lookup (dict_get p) ''orphan_table'') (\<lambda>v2.
     bindE (enum_value strong_entity_of v2) (\<lambda>tab.
     bindE (py_lookup (dict_get p) ''foreign_key'') (\<lambda>v3.
     bindE (cast_int v3) (\<lambda>fk.
     bindE (py_lookup (dict_get p) ''deleted_at'') (\<lambda>v4.
     bindE (serialize_datetime fromiso v4) (\<lambda>d.
       (case d of
          PDatetime t \<Rightarrow>
            Inr \<lparr>orphan_fk_column = fkc, orphan_table = tab, foreign_key = fk, deleted_at = t\<rparr>
        | _ \<Rightarrow> Inl TypeError)))))))))"

definition reconstruct_downstream_counter_data_from_stream ::
    "(string \<times> pyval) list \<Rightarrow> exn + downstream_counter_decrement_data" where
  "reconstruct_downstream_counter_data_from_stream p =
     bindE (py_lookup (dict_get p) ''hashmap_name'') (\<lambda>v1.
     bindE (as_str (Some v1)) (\<lambda>h.
     bindE (py_lookup (dict_get p) ''affected_table_name'') (\<lambda>v2.
     bindE (enum_value strong_entity_of v2) (\<lambda>tab.
     bindE (py_lookup (dict_get p) ''affected_column_name'') (\<lambda>v3.
     bindE (enum_value foreign_key_of v3) (\<lambda>col.
     bindE (py_lookup (dict_get p) ''deletion_author_event_id'') (\<lambda>v4.
     bindE (cast_int v4) (\<lambda>i.
       Inr \<lparr>hashmap_name = h, affected_table_name = tab, affected_column_name = col,
            deletion_author_event_id = i\<rparr>))))))))"

definition downstream_deletion_payload :: "downstream_deletion_data \<Rightarrow> (string \<times> pyval) list" where
  "downstream_deletion_payload d =
     [(''foreign_key'', PInt (foreign_key d)), (''deleted_at'', PDatetime (deleted_at d)),
      (''foreign_key_column'', PStr (foreign_key_value (orphan_fk_column d))),
      (''orphan_table'', PStr (strong_entity_value (orphan_table d)))]"

definition counter_decrement_payload :: "downstream_counter_decrement_data \<Rightarrow> (string \<times> pyval) list" where
  "counter_decrement_payload d =
     [(''deletion_author_event_id'', PInt (deletion_author_event_id d)),
      (''affected_column_name'', PStr (foreign_key_value (affected_column_name d))),
      (''hashmap_name'', PStr (hashmap_name d)),
      (''affected_table_name'', PStr (strong_entity_value (affected_table_name d)))]"

section \<open>The tables\<close>

fun DownstreamDeletionMapping :: "strong_entity \<Rightarrow> anonymous_downstream_deletion list option" where
  "DownstreamDeletionMapping FORUM =
     Some [\<lparr>orphan_fk_column = PARENT_FORUM, orphan_table = COMMENT\<rparr>,
           \<lparr>orphan_fk_column = PARENT_FORUM, orphan_table = POST\<rparr>]"
| "DownstreamDeletionMapping USER =
     Some [\<lparr>orphan_fk_column = AUTHOR_ID, orphan_table = COMMENT\<rparr>,
           \<lparr>orphan_fk_column = AUTHOR_ID, orphan_table = POST\<rparr>]"
| "DownstreamDeletionMapping POST = Some [\<lparr>orphan_fk_column = PARENT_POST, orphan_table = COMMENT\<rparr>]"
| "DownstreamDeletionMapping _ = None"

definition entity_hashmap :: "strong_entity \<Rightarrow> strong_entity \<Rightarrow> string" where
  "entity_hashmap a b = derive_hashmap_name (strong_entity_value a) (strong_entity_value b)"

fun DOWNSTREAM_DECREMENT_MAPPING ::
    "strong_entity \<Rightarrow> (event_name \<times> foreign_key_column \<times> string) list option" where
  "DOWNSTREAM_DECREMENT_MAPPING USER =
     Some [(DOWNSTREAM_USER_POST_DECREMENT, AUTHOR_ID, entity_hashmap USER POST),
           (DOWNSTREAM_USER_COMMENT_DECREMENT, AUTHOR_ID, entity_hashmap USER COMMENT)]"
| "DOWNSTREAM_DECREMENT_MAPPING POST =
     Some [(DOWNSTREAM_POST_COMMENT_DECREMENT, AUTHOR_ID, entity_hashmap USER COMMENT)]"
| "DOWNSTREAM_DECREMENT_MAPPING FORUM =
     Some [(DOWNSTREAM_FORUM_POST_DECREMENT, AUTHOR_ID, entity_hashmap USER POST)]"
| "DOWNSTREAM_DECREMENT_MAPPING _ = None"

section \<open>Declaring events dead\<close>

definition declare_standard_event_dead ::
    "'s redis \<Rightarrow> (pyval \<Rightarrow> exn + string) \<Rightarrow> (int \<Rightarrow> ('s, unit) py) \<Rightarrow> retry_policy \<Rightarrow> event list \<Rightarrow>
     stream_name \<Rightarrow> int option \<Rightarrow> ('s, unit) py" where
  "declare_standard_event_dead exec dumps sleep pol batch dlq_stream attempts =
     thenM (execute_with_redis_retries sleep pol (stream_events exec dumps batch dlq_stream) attempts)
       (pure ())"

text \<open>
  Neither \<open>declarations.py\<close> nor \<open>downstream_post_processing.py\<close> imports \<open>EventSideEffects\<close>:
  building an event with empty side effects is a \<open>NameError\<close>.
\<close>

definition new_event :: "event_name \<Rightarrow> (string \<times> pyval) list \<Rightarrow> exn + event" where
  "new_event n p = Inl NameError"

definition declare_side_effects_event_dead ::
    "'s redis \<Rightarrow> (pyval \<Rightarrow> exn + string) \<Rightarrow> (int \<Rightarrow> ('s, unit) py) \<Rightarrow> retry_policy \<Rightarrow>
     (streamed_event \<Rightarrow> (string \<times> pyval) list) \<Rightarrow> streamed_event list \<Rightarrow> stream_name \<Rightarrow> int \<Rightarrow>
     ('s, unit) py" where
  "declare_side_effects_event_dead exec dumps sleep pol to_json batch dlq_stream attempts =
     bindM (lift_sum (traverse (\<lambda>ev. new_event DLQ_SIDE_EFFECTS (to_json ev)) batch)) (\<lambda>evs.
       thenM (execute_with_redis_retries sleep pol (stream_events exec dumps evs dlq_stream)
                (Some attempts))
         (pure ()))"

section \<open>Dispatching\<close>

definition xadd_downstream ::
    "'s redis \<Rightarrow> (pyval \<Rightarrow> exn + string) \<Rightarrow> stream_name \<Rightarrow> event list \<Rightarrow> ('s, unit) py" where
  "xadd_downstream exec dumps stream events =
     bindM (lift_sum (traverse (\<lambda>ev.
              bindE (event_cache_repr dumps ev) (\<lambda>fields.
                Inr (R_XADD (stream_name_value stream) fields None))) events))
       (\<lambda>cs. thenM (exec True cs) (pure ()))"

text \<open>
  The deleted entries are generated while the events are built: the exception of an entry
  surfaces when its turn comes.
\<close>

fun build_downstream_events ::
    "anonymous_downstream_deletion list \<Rightarrow> (exn + pyval \<times> pyval) list \<Rightarrow> exn + event list" where
  "build_downstream_events bases [] = Inr []"
| "build_downstream_events bases (entry # entries) =
     bindE entry (\<lambda>(fk, t).
     bindE (traverse (\<lambda>base.
              new_event ORPHANED_COMMENT_DELETE
                [(''foreign_key'', fk), (''deleted_at'', t),
                 (''foreign_key_column'', PStr (foreign_key_value (orphan_fk_column base))),
                 (''orphan_table'', PStr (strong_entity_value (orphan_table base)))]) bases) (\<lambda>evs.
     bindE (build_downstream_events bases entries) (\<lambda>rest. Inr (evs @ rest))))"

definition dispatch_downstream_events ::
    "'s redis \<Rightarrow> (pyval \<Rightarrow> exn + string) \<Rightarrow> (int \<Rightarrow> ('s, unit) py) \<Rightarrow> retry_policy \<Rightarrow> strong_entity \<Rightarrow>
     (exn + pyval \<times> pyval) list \<Rightarrow> stream_name \<Rightarrow> ('s, unit) py" where
  "dispatch_downstream_events exec dumps sleep pol upstream deleted_data dlq_stream =
     bindM (lift_sum (py_lookup DownstreamDeletionMapping upstream)) (\<lambda>bases.
     bindM (lift_sum (build_downstream_events bases deleted_data)) (\<lambda>events.
       tryM (thenM (execute_with_redis_retries sleep pol
                      (xadd_downstream exec dumps DOWNSTREAM_DELETIONS events) None)
               (pure ()))
         (\<lambda>_. declare_standard_event_dead exec dumps sleep pol events dlq_stream None)))"

definition dispatch_downstream_counter_decrements ::
    "'s redis \<Rightarrow> (pyval \<Rightarrow> exn + string) \<Rightarrow> (int \<Rightarrow> ('s, unit) py) \<Rightarrow> retry_policy \<Rightarrow> strong_entity \<Rightarrow>
     int \<Rightarrow> stream_name \<Rightarrow> ('s, unit) py" where
  "dispatch_downstream_counter_decrements exec dumps sleep pol deleted_entity author_event_id dlq_stream =
     (case DOWNSTREAM_DECREMENT_MAPPING deleted_entity of
        None \<Rightarrow> raise ValueError
      | Some entries \<Rightarrow>
          bindM (lift_sum (traverse (\<lambda>(n, col, h).
                   new_event n (counter_decrement_payload
                     \<lparr>hashmap_name = h, affected_table_name = deleted_entity,
                      affected_column_name = col, deletion_author_event_id = author_event_id\<rparr>))
                   entries)) (\<lambda>events.
            tryM (thenM (execute_with_redis_retries sleep pol
                           (xadd_downstream exec dumps DOWNSTREAM_COUNTER_DECREMENTS events) None)
                    (pure ()))
              (\<lambda>_. declare_standard_event_dead exec dumps sleep pol events dlq_stream None)))"

definition decrement_commands :: "(string \<times> int) list \<Rightarrow> string \<Rightarrow> strong_entity \<Rightarrow> rcmd list" where
  "decrement_commands deltas hashmap prefix =
     map (\<lambda>(k, d). R_HINCRBY hashmap (derive_cache_key (strong_entity_value prefix) k) (- d)) deltas"

definition emit_downstream_counter_decrement_updates ::
    "'s redis \<Rightarrow> (string \<times> int) list \<Rightarrow> string \<Rightarrow> strong_entity \<Rightarrow> ('s, unit) py" where
  "emit_downstream_counter_decrement_updates exec deltas hashmap prefix =
     thenM (exec True (decrement_commands deltas hashmap prefix)) (pure ())"

section \<open>Soft deletions and selections\<close>

definition soft_delete_strong_entity ::
    "formatter \<Rightarrow> 's db_connection \<Rightarrow> string \<Rightarrow> string \<Rightarrow> (pyval \<times> pyval \<times> int) list \<Rightarrow> ('s, unit) py" where
  "soft_delete_strong_entity fmt db table identifier_column deletion_data =
     bindM (lift_sum (prepare_strong_deletion_sql fmt table identifier_column deletion_data)) (\<lambda>q.
       thenM (execute db q) (pure ()))"

definition downstream_soft_delete_strong_entity ::
    "formatter \<Rightarrow> 's db_connection \<Rightarrow> int \<Rightarrow> string \<Rightarrow> string \<Rightarrow> string option \<Rightarrow> string \<Rightarrow> ('s, unit) py" where
  "downstream_soft_delete_strong_entity fmt db parent_fk table fk_column deletion_time now =
     bindM (lift_sum (prepare_orphan_deletion fmt table fk_column parent_fk
              (case deletion_time of None \<Rightarrow> now | Some t \<Rightarrow> t))) (\<lambda>q.
       thenM (execute db q) (pure ()))"

definition delta_row :: "pyval list \<Rightarrow> exn + string \<times> int" where
  "delta_row row =
     (case row of [PStr k, PInt d] \<Rightarrow> Inr (k, d) | [PInt k, PInt d] \<Rightarrow> Inr (str_of_int k, d)
      | _ \<Rightarrow> Inl TypeError)"

definition select_decrement_deltas ::
    "formatter \<Rightarrow> 's db_connection \<Rightarrow> foreign_key_column \<Rightarrow> int \<Rightarrow> int \<Rightarrow> strong_entity \<Rightarrow> int \<Rightarrow>
     ('s, (string \<times> int) list) py" where
  "select_decrement_deltas fmt db fk_column limit offset table author_event_id =
     bindM (lift_sum (prepare_deltas_selection fmt (foreign_key_value fk_column)
              (strong_entity_value table) author_event_id limit offset)) (\<lambda>q.
       bindM (execute db q) (\<lambda>rows. lift_sum (traverse delta_row rows)))"

section \<open>The cascade ends\<close>

text \<open>One entity's deletion leaves orphans of another.\<close>

definition leaves_orphans :: "strong_entity \<Rightarrow> strong_entity \<Rightarrow> bool" where
  "leaves_orphans parent child \<longleftrightarrow>
     (case DownstreamDeletionMapping parent of
        None \<Rightarrow> False | Some bases \<Rightarrow> child \<in> orphan_table ` set bases)"

fun cascade_rank :: "strong_entity \<Rightarrow> nat" where
  "cascade_rank COMMENT = 0"
| "cascade_rank POST = 1"
| "cascade_rank _ = 2"

lemma leaves_orphans_rank: "leaves_orphans a b \<Longrightarrow> cascade_rank b < cascade_rank a"
  by (cases a) (auto simp: leaves_orphans_def)

text \<open>
  A cascade of deletions ends after at most two steps and never comes back to the kind of
  entity it started from; what is left at its end is a comment, and a comment, whose
  deletion leaves nothing, is the one entity an event can delete that the table of orphans
  has no entry for, so that dispatching its orphans raises a \<open>KeyError\<close>.
\<close>

theorem cascade_terminates:
  "wf {(b, a). leaves_orphans a b} \<and>
   (\<nexists>a b c d. leaves_orphans a b \<and> leaves_orphans b c \<and> leaves_orphans c d) \<and>
   {a. \<exists>b. leaves_orphans a b} = {FORUM, USER, POST} \<and>
   dispatch_downstream_events exec dumps sleep pol COMMENT entries dlq s = (Inl KeyError, s)"
proof (intro conjI)
  show "wf {(b, a). leaves_orphans a b}"
    by (rule wf_subset [OF wf_measure [of cascade_rank]]) (auto dest: leaves_orphans_rank)
  show "\<nexists>a b c d. leaves_orphans a b \<and> leaves_orphans b c \<and> leaves_orphans c d"
  proof
    assume "\<exists>a b c d. leaves_orphans a b \<and> leaves_orphans b c \<and> leaves_orphans c d"
    then obtain a b c d where "leaves_orphans a b" "leaves_orphans b c" "leaves_orphans c d" by blast
    then have "cascade_rank d < cascade_rank c" "cascade_rank c < cascade_rank b" "cascade_rank b < cascade_rank a"
      by (auto dest: leaves_orphans_rank)
    moreover have "cascade_rank a \<le> 2" by (cases a) auto
    ultimately show False by linarith
  qed
  show "{a. \<exists>b. leaves_orphans a b} = {FORUM, USER, POST}" (is "?L = ?R")
  proof (rule set_eqI)
    fix a show "a \<in> ?L \<longleftrightarrow> a \<in> ?R" by (cases a) (auto simp: leaves_orphans_def)
  qed
  show "dispatch_downstream_events exec dumps sleep pol COMMENT entries dlq s = (Inl KeyError, s)"
    by (simp add: dispatch_downstream_events_def py_lookup_def)
qed

section \<open>Payloads come back\<close>

definition iso_text :: "(string \<times> pyval) list \<Rightarrow> (string \<times> pyval) list" where
  "iso_text p = map (\<lambda>(k, v). (k, case v of PDatetime t \<Rightarrow> PStr t | _ \<Rightarrow> v)) p"

text \<open>
  The payload of a downstream event is read back to the data it was made of: the decrement
  data exactly, and the deletion data too, once the deletion time has become the ISO text that
  \<open>fromisoformat\<close> reads, which is what serializing an event makes of it.
\<close>

theorem downstream_payload_roundtrip:
  assumes "fromiso (deleted_at d) = Inr (deleted_at d)"
  shows "reconstruct_downstream_data_from_stream fromiso (iso_text (downstream_deletion_payload d)) = Inr d \<and>
         reconstruct_downstream_counter_data_from_stream (counter_decrement_payload c) = Inr c"
  using assms
  by (simp add: reconstruct_downstream_data_from_stream_def downstream_deletion_payload_def iso_text_def
      reconstruct_downstream_counter_data_from_stream_def counter_decrement_payload_def py_lookup_def
      dict_get_def enum_value_def cast_int_def as_str_def serialize_datetime_def)

theorem downstream_payload_roundtrip_witness:
  "reconstruct_downstream_data_from_stream Inr
     (iso_text (downstream_deletion_payload
        \<lparr>orphan_fk_column = PARENT_POST, orphan_table = COMMENT, foreign_key = 7,
         deleted_at = ''2025-11-19''\<rparr>)) =
   Inr \<lparr>orphan_fk_column = PARENT_POST, orphan_table = COMMENT, foreign_key = 7,
        deleted_at = ''2025-11-19''\<rparr>"
  using downstream_payload_roundtrip [of Inr "\<lparr>orphan_fk_column = PARENT_POST, orphan_table = COMMENT,
      foreign_key = 7, deleted_at = ''2025-11-19''\<rparr>"] by blast

section \<open>No cascade is dispatched\<close>

lemma build_downstream_events_nonempty:
  "bases \<noteq> [] \<Longrightarrow> \<exists>e. build_downstream_events bases (entry # entries) = Inl e"
  by (cases bases) (auto simp: new_event_def bindE_def split: sum.splits)

lemma dispatch_downstream_raises:
  "\<exists>e. dispatch_downstream_events exec dumps sleep pol tab (entry # entries) dlq s = (Inl e, s)"
proof (cases "DownstreamDeletionMapping tab")
  case None
  then show ?thesis by (simp add: dispatch_downstream_events_def py_lookup_def)
next
  case (Some bases)
  then have "bases \<noteq> []" by (cases tab) auto
  from build_downstream_events_nonempty [OF this, of entry entries] Some show ?thesis
    by (auto simp: dispatch_downstream_events_def py_lookup_def bindM_def)
qed

lemma dispatch_decrements_raises:
  "\<exists>e. dispatch_downstream_counter_decrements exec dumps sleep pol tab i dlq s = (Inl e, s)"
  by (cases tab) (simp_all add: dispatch_downstream_counter_decrements_def new_event_def bindM_def)

section \<open>Decrements\<close>

lemma derive_cache_key_eq_iff:
  "derive_cache_key (strong_entity_value p) k = derive_cache_key (strong_entity_value p) k' \<longleftrightarrow> k = k'"
  by (simp add: derive_cache_key_def)

lemma decrement_sum:
  "sum_list (map (\<lambda>(g, f, d). d) (filter (\<lambda>(g, f, d). g = hashmap \<and> f = derive_cache_key (strong_entity_value p) k)
     (map (\<lambda>(k, d). (hashmap, derive_cache_key (strong_entity_value p) k, - d)) deltas))) =
   - sum_list (map snd (filter (\<lambda>(k', d :: int). k' = k) deltas))"
  by (induction deltas) (auto simp: derive_cache_key_eq_iff)

lemma decrements_counter_value:
  assumes "run_cmds (decrement_commands deltas hashmap prefix) st = Some (rs, st')"
  shows "counter_value st' hashmap (derive_cache_key (strong_entity_value prefix) k) =
         counter_value st hashmap (derive_cache_key (strong_entity_value prefix) k)
           - sum_list (map snd (filter (\<lambda>(k', d). k' = k) deltas))"
proof -
  let ?us = "map (\<lambda>(k, d). (hashmap, derive_cache_key (strong_entity_value prefix) k, - d)) deltas"
  have "decrement_commands deltas hashmap prefix = map (\<lambda>(h, f, d). R_HINCRBY h f d) ?us"
    by (simp add: decrement_commands_def split_beta comp_def)
  with assms have "run_cmds (map (\<lambda>(h, f, d). R_HINCRBY h f d) ?us) st = Some (rs, st')" by simp
  from hincrbys_counter_value [OF this, of hashmap "derive_cache_key (strong_entity_value prefix) k"]
  show ?thesis by (simp only: decrement_sum)
qed

text \<open>
  Emitting a page of decrements takes from the counter of every entity exactly the sum of
  the deltas selected for it.
\<close>

theorem decrements_emitted:
  assumes "documented_redis exec view"
    and "emit_downstream_counter_decrement_updates exec deltas hashmap prefix s = (Inr (), s')"
  shows "counter_value (view s') hashmap (derive_cache_key (strong_entity_value prefix) k) =
         counter_value (view s) hashmap (derive_cache_key (strong_entity_value prefix) k)
           - sum_list (map snd (filter (\<lambda>(k', d). k' = k) deltas))"
proof -
  from assms(2) obtain rs where "exec True (decrement_commands deltas hashmap prefix) s = (Inr rs, s')"
    by (auto simp: emit_downstream_counter_decrement_updates_def thenM_eq_Inr_iff)
  then have "run_cmds (decrement_commands deltas hashmap prefix) (view s) = Some (rs, view s')"
    by (rule documented_redisD [OF assms(1)])
  then show ?thesis by (rule decrements_counter_value)
qed

definition decremented_store :: rstore where
  "decremented_store =
     snd (emit_downstream_counter_decrement_updates store_redis [(''3'', 2), (''4'', 5), (''3'', 1)]
            ''users:posts'' POST Map.empty)"

theorem decrements_emitted_witness:
  "counter_value decremented_store ''users:posts'' ''posts:3'' = -3"
proof -
  have "emit_downstream_counter_decrement_updates store_redis [(''3'', 2), (''4'', 5), (''3'', 1)]
            ''users:posts'' POST Map.empty = (Inr (), decremented_store)"
    unfolding decremented_store_def
    by (simp add: emit_downstream_counter_decrement_updates_def decrement_commands_def store_redis_def
        hash_increment_def hash_at_def int_of_str_of_int derive_cache_key_def NAME_SEPERATOR_def thenM_def bindM_def)
  from decrements_emitted [OF store_redis_documented this, of "''3''"] show ?thesis
    by (simp add: counter_value_def derive_cache_key_def NAME_SEPERATOR_def)
qed

end
