(* ===== verification/Tenjin_Consumers.thy ===== *)
theory Tenjin_Consumers
  imports Tenjin_Downstream
begin

text \<open>
  The queue consumers of \<^verbatim>\<open>tasks/consumer.py\<close> and the dead-letter consumer of
  \<^verbatim>\<open>tasks/dlq_workers.py\<close>.  Each is an endless loop; what is modelled is one turn of it,
  from the moment a batch or an event is at hand (filling a batch is \<open>populate\<close>, in
  \<open>Tenjin_Batch\<close>).  A turn that raises ends its worker.
\<close>

section \<open>What a consumer works with\<close>

record 's worker_env =
  wk_redis :: "'s redis"
  wk_dumps :: "pyval \<Rightarrow> exn + string"
  wk_sleep :: "int \<Rightarrow> ('s, unit) py"
  wk_policy :: retry_policy
  wk_format :: formatter
  wk_db :: "'s db_connection"
  wk_now :: string
  wk_uuid :: string
  wk_fromiso :: "string \<Rightarrow> exn + string"

definition wk_dedup :: "'s worker_env \<Rightarrow> streamed_event list \<Rightarrow> ('s, int list) py" where
  "wk_dedup env batch =
     batch_dedup_insert_events (wk_format env) (wk_db env) (map event_id batch) None (wk_now env)
       (wk_uuid env)"

definition wk_declare_dead ::
    "'s worker_env \<Rightarrow> streamed_event list \<Rightarrow> stream_name \<Rightarrow> string \<Rightarrow> stream_name \<Rightarrow> ('s, unit) py" where
  "wk_declare_dead env batch stream grp dlq =
     declare_dead_with_retries (wk_redis env) (wk_dumps env) (wk_sleep env) (wk_policy env) batch
       stream grp dlq (MAX_RETRIES (wk_policy env))"

definition wk_ack ::
    "'s worker_env \<Rightarrow> streamed_event list \<Rightarrow> stream_name \<Rightarrow> string \<Rightarrow> stream_name \<Rightarrow> ('s, unit) py" where
  "wk_ack env batch stream grp dlq =
     ack_with_retries (wk_redis env) (wk_dumps env) (wk_sleep env) (wk_policy env) batch
       stream grp dlq (MAX_RETRIES (wk_policy env))"

definition wk_commit ::
    "'s worker_env \<Rightarrow> streamed_event list \<Rightarrow> string \<Rightarrow> stream_name \<Rightarrow> stream_name \<Rightarrow> ('s, unit) py" where
  "wk_commit env batch grp stream dlq =
     commit_processed_events (wk_redis env) (wk_dumps env) (wk_sleep env) (wk_policy env) batch
       grp stream dlq"

text \<open>An entry of a batch's payload pair, read when the generator reaches it.\<close>

definition payload_pair :: "string \<Rightarrow> string \<Rightarrow> streamed_event \<Rightarrow> exn + pyval \<times> pyval" where
  "payload_pair k1 k2 ev =
     bindE (py_lookup (dict_get (payload ev)) k1) (\<lambda>a.
     bindE (py_lookup (dict_get (payload ev)) k2) (\<lambda>b. Inr (a, b)))"

section \<open>Orphans of users\<close>

text \<open>
  The dispatch is attempted under the retry loop of Redis calls, written out again in this
  consumer; the outcome is the exception left, if any.
\<close>

fun dispatch_attempts ::
    "(int \<Rightarrow> ('s, unit) py) \<Rightarrow> retry_policy \<Rightarrow> ('s, unit) py \<Rightarrow> nat list \<Rightarrow> exn option \<Rightarrow>
     ('s, exn option) py" where
  "dispatch_attempts sleep pol m [] exc s = (Inr exc, s)"
| "dispatch_attempts sleep pol m (k # ks) exc s =
     (case m s of
        (Inr _, s1) \<Rightarrow> (Inr None, s1)
      | (Inl e, s1) \<Rightarrow>
          if network_error e
          then thenM (backoff sleep pol k) (dispatch_attempts sleep pol m ks (Some e)) s1
          else (Inr (Some e), s1))"

definition user_orphan_turn ::
    "'s worker_env \<Rightarrow> stream_name \<Rightarrow> string \<Rightarrow> stream_name \<Rightarrow> streamed_event list \<Rightarrow> ('s, unit) py" where
  "user_orphan_turn env stream grp dlq batch =
     bindM (wk_dedup env batch) (\<lambda>fresh.
     bindM (trim_duplicate_events (wk_redis env) batch fresh stream grp) (\<lambda>trimmed.
     bindM (dispatch_attempts (wk_sleep env) (wk_policy env)
              (dispatch_downstream_events (wk_redis env) (wk_dumps env) (wk_sleep env) (wk_policy env)
                 USER (map (payload_pair ''user_id'' ''time_deleted'') trimmed) dlq)
              (attempt_range (MAX_RETRIES (wk_policy env))) None) (\<lambda>exc.
       case exc of
         Some _ \<Rightarrow> wk_declare_dead env trimmed stream grp dlq
       | None \<Rightarrow> wk_ack env trimmed stream grp dlq)))"

section \<open>Insertions\<close>

text \<open>
  The list of inserted ids lives beside the world while the insertion is retried: ids reported
  before a failure stay.
\<close>

definition with_inserted :: "('s, 'a) py \<Rightarrow> ('s \<times> int list, 'a) py" where
  "with_inserted m st = (case m (fst st) of (r, s') \<Rightarrow> (r, (s', snd st)))"

type_synonym 's batch_insertion =
  "streamed_event list \<Rightarrow> int list \<Rightarrow> 's \<Rightarrow> (exn + unit) \<times> int list \<times> 's"

definition insertion_callable ::
    "'s batch_insertion \<Rightarrow> streamed_event list \<Rightarrow> ('s \<times> int list, unit) py" where
  "insertion_callable batch_function batch st =
     (case batch_function batch (snd st) (fst st) of (r, ids, s') \<Rightarrow> (r, (s', ids)))"

definition run_insertion ::
    "'s worker_env \<Rightarrow> 's batch_insertion \<Rightarrow> streamed_event list \<Rightarrow> 's \<Rightarrow> (exn + unit) \<times> int list \<times> 's" where
  "run_insertion env batch_function batch s =
     (case db_execute_with_retries (\<lambda>t. with_inserted (wk_sleep env t)) (wk_policy env)
             (with_inserted (rollback (wk_db env))) (insertion_callable batch_function batch) None
             (s, []) of
        (Inl e, (s', ids)) \<Rightarrow> (Inl e, ids, s')
      | (Inr _, (s', ids)) \<Rightarrow> (Inr (), ids, s'))"

text \<open>The side effects of the whole batch are committed, the ids not inserted then declared dead.\<close>

definition after_insertion ::
    "'s worker_env \<Rightarrow> stream_name \<Rightarrow> string \<Rightarrow> stream_name \<Rightarrow> streamed_event list \<Rightarrow>
     (exn + unit) \<times> int list \<Rightarrow> ('s, unit) py" where
  "after_insertion env stream grp dlq batch outcome =
     (case outcome of
        (Inl _, _) \<Rightarrow> wk_declare_dead env batch stream grp dlq
      | (Inr _, ids) \<Rightarrow>
          thenM (wk_commit env batch grp stream dlq)
            (wk_declare_dead env (filter (\<lambda>ev. event_id ev \<notin> set ids) batch) stream grp dlq))"

definition insertion_turn ::
    "'s worker_env \<Rightarrow> 's batch_insertion \<Rightarrow> stream_name \<Rightarrow> string \<Rightarrow> stream_name \<Rightarrow>
     streamed_event list \<Rightarrow> ('s, unit) py" where
  "insertion_turn env batch_function stream grp dlq batch =
     bindM (wk_dedup env batch) (\<lambda>fresh.
     bindM (trim_duplicate_events (wk_redis env) batch fresh stream grp) (\<lambda>trimmed.
       if trimmed = [] then pure ()
       else (\<lambda>s. case run_insertion env batch_function trimmed s of
                   (r, ids, s') \<Rightarrow> after_insertion env stream grp dlq trimmed (r, ids) s')))"

section \<open>Deletions\<close>

definition deletion_row :: "string \<Rightarrow> streamed_event \<Rightarrow> exn + pyval \<times> pyval \<times> int" where
  "deletion_row identifier_column ev =
     bindE (payload_pair identifier_column ''deleted_at'' ev) (\<lambda>(i, t). Inr (i, t, event_id ev))"

definition deletion_turn ::
    "'s worker_env \<Rightarrow> strong_entity \<Rightarrow> string \<Rightarrow> stream_name \<Rightarrow> string \<Rightarrow> stream_name \<Rightarrow>
     streamed_event list \<Rightarrow> ('s, unit) py" where
  "deletion_turn env table identifier_column stream grp dlq batch =
     bindM (wk_dedup env batch) (\<lambda>fresh.
     bindM (trim_duplicate_events (wk_redis env) batch fresh stream grp) (\<lambda>trimmed.
       (\<lambda>s. case db_execute_with_retries (wk_sleep env) (wk_policy env) (rollback (wk_db env))
                   (bindM (lift_sum (traverse (deletion_row identifier_column) trimmed)) (\<lambda>rows.
                      soft_delete_strong_entity (wk_format env) (wk_db env)
                        (strong_entity_value table) identifier_column rows)) None s of
               (Inl _, s') \<Rightarrow> wk_declare_dead env trimmed stream grp dlq s'
             | (Inr _, s') \<Rightarrow>
                 thenM (wk_commit env trimmed grp stream dlq)
                   (dispatch_downstream_events (wk_redis env) (wk_dumps env) (wk_sleep env)
                      (wk_policy env) table
                      (map (payload_pair identifier_column ''deleted_at'') trimmed) dlq) s')))"

definition key_or_value_error :: "exn \<Rightarrow> bool" where
  "key_or_value_error e \<longleftrightarrow> e = KeyError \<or> e = ValueError"

definition downstream_deletion_turn ::
    "'s worker_env \<Rightarrow> stream_name \<Rightarrow> string \<Rightarrow> stream_name \<Rightarrow> streamed_event \<Rightarrow> ('s, unit) py" where
  "downstream_deletion_turn env stream grp dlq ev =
     (case reconstruct_downstream_data_from_stream (wk_fromiso env) (payload ev) of
        Inl e \<Rightarrow> if key_or_value_error e then wk_declare_dead env [ev] stream grp dlq else raise e
      | Inr d \<Rightarrow>
          bindM (dedup_insert_event (wk_format env) (wk_db env) (event_id ev) None (wk_now env)) (\<lambda>fresh.
            if \<not> fresh then thenM (wk_redis env False [ack_command stream grp ev]) (pure ())
            else
              (\<lambda>s. case db_execute_with_retries (wk_sleep env) (wk_policy env) (rollback (wk_db env))
                          (downstream_soft_delete_strong_entity (wk_format env) (wk_db env)
                             (foreign_key d) (strong_entity_value (orphan_table d))
                             (foreign_key_value (orphan_fk_column d)) (Some (deleted_at d)) (wk_now env))
                          None s of
                     (Inl _, s') \<Rightarrow> wk_declare_dead env [ev] stream grp dlq s'
                   | (Inr _, s') \<Rightarrow>
                       thenM (wk_ack env [ev] stream grp dlq)
                         (dispatch_downstream_counter_decrements (wk_redis env) (wk_dumps env)
                            (wk_sleep env) (wk_policy env) (orphan_table d) (event_id ev) dlq) s')))"

section \<open>Decrements, page by page\<close>

text \<open>
  The inner loop: select the page at the offset, advance the offset, emit the page, until a
  page is empty.  \<open>None\<close> when the fuel runs out.
\<close>

fun page_loop ::
    "nat \<Rightarrow> (nat \<Rightarrow> ('s, (string \<times> int) list) py) \<Rightarrow> ((string \<times> int) list \<Rightarrow> ('s, unit) py) \<Rightarrow> nat \<Rightarrow> nat \<Rightarrow>
     's \<Rightarrow> ((exn + unit) \<times> nat \<times> 's) option" where
  "page_loop 0 sel emit limit offset s = None"
| "page_loop (Suc n) sel emit limit offset s =
     (case sel offset s of
        (Inl e, s1) \<Rightarrow> Some (Inl e, offset, s1)
      | (Inr rows, s1) \<Rightarrow>
          (case emit rows s1 of
             (Inl e, s2) \<Rightarrow> Some (Inl e, offset + limit, s2)
           | (Inr _, s2) \<Rightarrow>
               if rows = [] then Some (Inr (), offset + limit, s2)
               else page_loop n sel emit limit (offset + limit) s2))"

text \<open>
  The attempts: a success does not leave the loop, a transient failure is rolled back and
  attempted again from the offset reached, any other failure is rolled back and ends it.  The
  outcome is the exception left, with the world, or the exception that escaped.
\<close>

fun decrement_attempts ::
    "nat \<Rightarrow> (int \<Rightarrow> ('s, unit) py) \<Rightarrow> retry_policy \<Rightarrow> ('s, unit) py \<Rightarrow>
     (nat \<Rightarrow> ('s, (string \<times> int) list) py) \<Rightarrow> ((string \<times> int) list \<Rightarrow> ('s, unit) py) \<Rightarrow> nat \<Rightarrow> nat list \<Rightarrow>
     nat \<Rightarrow> exn option \<Rightarrow> 's \<Rightarrow> ((exn + exn option) \<times> 's) option" where
  "decrement_attempts fuel sleep pol rb sel emit limit [] offset exc s = Some (Inr exc, s)"
| "decrement_attempts fuel sleep pol rb sel emit limit (k # ks) offset exc s =
     (case page_loop fuel sel emit limit offset s of
        None \<Rightarrow> None
      | Some (Inr _, offset', s1) \<Rightarrow>
          decrement_attempts fuel sleep pol rb sel emit limit ks offset' exc s1
      | Some (Inl e, offset', s1) \<Rightarrow>
          if potentially_transient e then
            (case thenM rb (backoff sleep pol k) s1 of
               (Inl e', s2) \<Rightarrow> Some (Inl e', s2)
             | (Inr _, s2) \<Rightarrow>
                 decrement_attempts fuel sleep pol rb sel emit limit ks offset' (Some e) s2)
          else
            (case rb s1 of
               (Inl e', s2) \<Rightarrow> Some (Inl e', s2) | (Inr _, s2) \<Rightarrow> Some (Inr (Some e), s2)))"

definition downstream_decrement_turn ::
    "nat \<Rightarrow> 's worker_env \<Rightarrow> nat \<Rightarrow> stream_name \<Rightarrow> string \<Rightarrow> stream_name \<Rightarrow> streamed_event \<Rightarrow>
     's \<Rightarrow> ((exn + unit) \<times> 's) option" where
  "downstream_decrement_turn fuel env limit stream grp dlq ev s =
     (case reconstruct_downstream_counter_data_from_stream (payload ev) of
        Inl e \<Rightarrow>
          Some (if key_or_value_error e then wk_declare_dead env [ev] stream grp dlq s else (Inl e, s))
      | Inr d \<Rightarrow>
          (case dedup_insert_event (wk_format env) (wk_db env) (event_id ev) None (wk_now env) s of
             (Inl e, s1) \<Rightarrow> Some (Inl e, s1)
           | (Inr fresh, s1) \<Rightarrow>
               if \<not> fresh
               then Some (thenM (wk_redis env False [ack_command stream grp ev]) (pure ()) s1)
               else
                 (case decrement_attempts fuel (wk_sleep env) (wk_policy env) (rollback (wk_db env))
                         (\<lambda>offset. select_decrement_deltas (wk_format env) (wk_db env)
                            (affected_column_name d) (int limit) (int offset) (affected_table_name d)
                            (deletion_author_event_id d))
                         (\<lambda>rows. thenM (execute_with_redis_retries (wk_sleep env) (wk_policy env)
                            (emit_downstream_counter_decrement_updates (wk_redis env) rows
                               (hashmap_name d) (affected_table_name d)) None) (pure ()))
                         limit (attempt_range (MAX_RETRIES (wk_policy env))) 0 None s1 of
                    None \<Rightarrow> None
                  | Some (Inl e, s2) \<Rightarrow> Some (Inl e, s2)
                  | Some (Inr (Some _), s2) \<Rightarrow> Some (wk_declare_dead env [ev] stream grp dlq s2)
                  | Some (Inr None, s2) \<Rightarrow> Some (wk_ack env [ev] stream grp dlq s2))))"

section \<open>Dead letters\<close>

datatype side_effect_type = CACHE_INVALIDATION | INTENT_INVALIDATION | COUNTER_UPDATE

fun side_effect_type_value :: "side_effect_type \<Rightarrow> string" where
  "side_effect_type_value CACHE_INVALIDATION = ''CACHE_INVALIDATION''"
| "side_effect_type_value INTENT_INVALIDATION = ''INTENT_INVALIDATION''"
| "side_effect_type_value COUNTER_UPDATE = ''COUNTER_UPDATE''"

text \<open>\<open>json_repr\<close> of a streamed event is the parameter \<open>to_json\<close>; the rows of failed side effects
  are tuples, one for each side effect.\<close>

definition get_dlq_insertion_parameters ::
    "((string \<times> pyval) list \<Rightarrow> exn + pyval list) \<Rightarrow> (streamed_event \<Rightarrow> pyval) \<Rightarrow> streamed_event \<Rightarrow>
     exn + pyval list" where
  "get_dlq_insertion_parameters counter_batch to_json ev =
     (if event_name ev = DLQ_COUNTER then counter_batch (payload ev)
      else if event_name ev = DLQ_SIDE_EFFECTS then
        Inr (map (\<lambda>u. PList [PInt (event_id ev), PStr (side_effect_type_value CACHE_INVALIDATION), cache_update_repr u])
               (cache_invalidations (side_effects ev)) @
             map (\<lambda>u. PList [PInt (event_id ev), PStr (side_effect_type_value COUNTER_UPDATE), counter_update_repr u])
               (counter_updates (side_effects ev)) @
             map (\<lambda>u. PList [PInt (event_id ev), PStr (side_effect_type_value INTENT_INVALIDATION), intent_update_repr u])
               (intent_updates (side_effects ev)))
      else Inr [PInt (event_id ev), to_json ev])"

text \<open>\<open>insert_record\<close> executes the composed statement with the parameters and commits.\<close>

definition acknowledge_dlq_event ::
    "'s worker_env \<Rightarrow> streamed_event \<Rightarrow> stream_name \<Rightarrow> string \<Rightarrow> ('s, unit) py" where
  "acknowledge_dlq_event env ev stream grp =
     thenM (execute_with_redis_retries (wk_sleep env) (wk_policy env)
              (acknowledge_event (wk_redis env) [ev] stream grp) None)
       (pure ())"

definition dlq_turn ::
    "'s worker_env \<Rightarrow> (pyval list \<Rightarrow> ('s, unit) py) \<Rightarrow>
     ((string \<times> pyval) list \<Rightarrow> exn + pyval list) \<Rightarrow> (streamed_event \<Rightarrow> pyval) \<Rightarrow>
     stream_name \<Rightarrow> string \<Rightarrow> streamed_event \<Rightarrow> ('s, unit) py" where
  "dlq_turn env insert_record counter_batch to_json stream grp ev =
     bindM (dedup_insert_event (wk_format env) (wk_db env) (event_id ev) None (wk_now env)) (\<lambda>fresh.
     thenM (if \<not> fresh then acknowledge_dlq_event env ev stream grp else pure ())
     (bindM (lift_sum (get_dlq_insertion_parameters counter_batch to_json ev)) (\<lambda>params.
      thenM (db_execute_with_retries (wk_sleep env) (wk_policy env) (rollback (wk_db env))
               (insert_record params) None)
      (thenM (acknowledge_dlq_event env ev stream grp)
             (acknowledge_dlq_event env ev stream grp)))))"

section \<open>The pages of a decrement\<close>

lemma page_loop_complete:
  assumes "\<And>o' s. sel o' s = (Inr (take limit (drop o' rows)), s)"
    and "\<And>xs s. emit xs s = (Inr (), fold add xs s)"
    and "0 < limit"
  shows "length rows - offset < fuel \<Longrightarrow>
         \<exists>o'. page_loop fuel sel emit limit offset s = Some (Inr (), o', fold add (drop offset rows) s) \<and>
              length rows \<le> o'"
proof (induction fuel arbitrary: offset s)
  case 0
  then show ?case by simp
next
  case (Suc n)
  let ?page = "take limit (drop offset rows)"
  show ?case
  proof (cases "?page = []")
    case True
    then have "length rows \<le> offset" using assms(3) by simp
    then show ?thesis by (simp add: assms(1,2))
  next
    case False
    then have lt: "offset < length rows" by (cases "offset < length rows") auto
    with Suc.prems assms(3) have "length rows - (offset + limit) < n" by simp
    from Suc.IH [OF this, of "fold add ?page s"] obtain o' where o':
      "page_loop n sel emit limit (offset + limit) (fold add ?page s) =
         Some (Inr (), o', fold add (drop (offset + limit) rows) (fold add ?page s))"
      "length rows \<le> o'" by blast
    have "fold add (drop (offset + limit) rows) (fold add ?page s) = fold add (drop offset rows) s"
      by (metis add.commute append_take_drop_id comp_apply drop_drop fold_append)
    moreover have "sel offset s = (Inr ?page, s)" "emit ?page s = (Inr (), fold add ?page s)"
      by (rule assms(1), rule assms(2))
    ultimately show ?thesis using o' False by simp
  qed
qed

lemma attempts_after_end:
  assumes "\<And>o' s. sel o' s = (Inr (take limit (drop o' rows)), s)"
    and "\<And>xs s. emit xs s = (Inr (), fold add xs s)"
    and "0 < limit" and "0 < fuel" and "length rows \<le> offset"
  shows "decrement_attempts fuel sleep pol rb sel emit limit ks offset exc s = Some (Inr exc, s)"
  using assms(5)
proof (induction ks arbitrary: offset)
  case Nil
  then show ?case by simp
next
  case (Cons k ks)
  then have "length rows - offset < fuel" using assms(4) by simp
  from page_loop_complete [of sel limit rows emit add, OF assms(1-3) this] Cons.prems obtain o'
    where "page_loop fuel sel emit limit offset s = Some (Inr (), o', s)" "length rows \<le> o'"
    by auto
  with Cons.IH show ?case by simp
qed

text \<open>
  The loop over the pages is right, were its selection to be composed (the template it is made of
  has a misspelt name, so that in the program the selection always raises): over a selection that
  gives the pages of some rows, whatever the page size and however many attempts the policy
  allows, every row is emitted once and in order; one more page than there are rows is fuel enough.
\<close>

lemma decrement_emits_every_row_once:
  assumes "\<And>o' s. sel o' s = (Inr (take limit (drop o' rows)), s)"
    and "\<And>xs s. emit xs s = (Inr (), fold add xs s)"
    and "0 < limit" and "length rows < fuel" and "ks \<noteq> []"
  shows "decrement_attempts fuel sleep pol rb sel emit limit ks 0 None s =
         Some (Inr None, fold add rows s)"
proof -
  obtain k ks' where ks: "ks = k # ks'" using assms(5) by (cases ks) auto
  have "length rows - 0 < fuel" using assms(4) by simp
  from page_loop_complete [of sel limit rows emit add, OF assms(1-3) this] obtain o' where
    "page_loop fuel sel emit limit 0 s = Some (Inr (), o', fold add rows s)" "length rows \<le> o'"
    by (metis drop0)
  moreover have "0 < fuel" using assms(4) by simp
  ultimately show ?thesis
    using attempts_after_end [of sel limit rows emit add, OF assms(1-3)] by (simp add: ks)
qed

lemma decrement_emits_every_row_once_example:
  "decrement_attempts 6 (\<lambda>_. pure ()) sample_policy (pure ())
     (\<lambda>o' s. (Inr (take 2 (drop o' [(''1'', 3), (''2'', 1), (''3'', 4), (''1'', 1), (''5'', 9)])), s))
     (\<lambda>xs s. (Inr (), fold (\<lambda>(k, d) t. t + d) xs s)) 2 [1, 2, 3] 0 None 0 =
   Some (Inr None, 18)"
  using decrement_emits_every_row_once [of
      "\<lambda>o' s. (Inr (take 2 (drop o' [(''1'', 3), (''2'', 1), (''3'', 4), (''1'', 1), (''5'', 9)])), s)"
      2 "[(''1'', 3), (''2'', 1), (''3'', 4), (''1'', 1), (''5'', 9)]"
      "\<lambda>xs s. (Inr (), fold (\<lambda>(k, d) t. t + d) xs s)" "\<lambda>(k, d) t. t + d" 6 "[1, 2, 3]"
      "\<lambda>_. pure ()" sample_policy "pure ()" 0]
  by simp

lemma exception_stays:
  "decrement_attempts fuel sleep pol rb sel emit limit ks offset (Some e) s = Some (Inr r, s') \<Longrightarrow>
   r \<noteq> None"
  by (induction ks arbitrary: offset e s)
    (auto split: option.splits prod.splits sum.splits if_splits)

text \<open>
  An event whose decrement meets a failure is declared dead, also when a later attempt
  succeeds: the exception of the failed attempt is never taken back.
\<close>

theorem failed_decrement_is_dead:
  assumes "page_loop fuel sel emit limit offset s = Some (Inl e, offset', s1)"
    and "decrement_attempts fuel sleep pol rb sel emit limit (k # ks) offset exc s = Some (Inr r, s')"
  shows "r \<noteq> None"
  using assms exception_stays
  by (auto split: option.splits prod.splits sum.splits if_splits)

definition flaky_select :: "nat \<Rightarrow> (nat, (string \<times> int) list) py" where
  "flaky_select offset n =
     (if n = 0 then (Inl OperationalError, 1) else (Inr (take 2 (drop offset [(''1'', 3)])), n))"

theorem failed_decrement_is_dead_witness:
  "\<exists>r. decrement_attempts 3 (\<lambda>_. pure ()) sample_policy (pure ()) flaky_select (\<lambda>_. pure ()) 2 [1, 2] 0 None 0
         = Some (Inr r, 1) \<and> r \<noteq> None"
proof -
  have 1: "page_loop 3 flaky_select (\<lambda>_. pure ()) 2 0 0 = Some (Inl OperationalError, 0, 1)"
    by (simp add: numeral_3_eq_3 flaky_select_def)
  have 2: "page_loop 3 flaky_select (\<lambda>_. pure ()) 2 0 1 = Some (Inr (), 4, 1)"
    by (simp add: numeral_3_eq_3 flaky_select_def)
  have 3: "decrement_attempts 3 (\<lambda>_. pure ()) sample_policy (pure ()) flaky_select (\<lambda>_. pure ()) 2 [1, 2] 0 None 0
        = Some (Inr (Some OperationalError), 1)"
    using 1 2 by (simp add: potentially_transient_def backoff_def exponential_jittered_backoff_def
        del: One_nat_def)
  then show ?thesis using failed_decrement_is_dead [OF 1 3] by blast
qed

section \<open>What a turn comes to\<close>

text \<open>
  C32.  No turn of the three batch consumers (insertions, soft deletions, orphans of a user) is completed: each begins with the batch
  deduplication, whose statement cannot be composed, and raises, whatever the batch, the
  database and Redis answer; the turn leaves what the deduplication alone leaves, so that nothing of the batch is
  acknowledged, committed or declared dead by it.  (The formatting of psycopg is as documented.)
\<close>

theorem batch_turns_raise:
  assumes "documented_format (wk_format env)"
  shows "\<exists>e1 e2 e3 s1.
           insertion_turn env f stream grp dlq batch s = (Inl e1, s1) \<and>
           deletion_turn env table col stream grp dlq batch s = (Inl e2, s1) \<and>
           user_orphan_turn env stream grp dlq batch s = (Inl e3, s1) \<and>
           snd (wk_dedup env batch s) = s1"
proof -
  from batch_dedup_never_returns [OF assms, of "wk_db env" "map event_id batch" None "wk_now env"
      "wk_uuid env" s] obtain e s1 where "wk_dedup env batch s = (Inl e, s1)"
    unfolding wk_dedup_def by blast
  then show ?thesis by (simp add: insertion_turn_def deletion_turn_def user_orphan_turn_def)
qed

definition null_env :: "unit worker_env" where
  "null_env =
     \<lparr>wk_redis = (\<lambda>_ _. pure []), wk_dumps = demo_dumps, wk_sleep = (\<lambda>_. pure ()),
      wk_policy = sample_policy, wk_format = format_template, wk_db = null_db, wk_now = ''now'',
      wk_uuid = ''ab'', wk_fromiso = Inr\<rparr>"

theorem batch_turns_raise_witness:
  "\<exists>e. insertion_turn null_env (\<lambda>evs ids s. (Inr (), ids, s)) POSTS ''workers'' DEAD_LETTER_QUEUE
         [demo_streamed] () = (Inl e, ())"
  using batch_turns_raise [of null_env "\<lambda>evs ids s. (Inr (), ids, s)" POSTS "''workers''"
      DEAD_LETTER_QUEUE "[demo_streamed]" "()" POST "''id_''"]
  by (auto simp: null_env_def)

text \<open>
  A dead letter seen before is written again: the duplicate is acknowledged and then goes
  the way of a new one, so that every delivery inserts its record once more.
\<close>

theorem duplicate_dead_letter_inserted:
  assumes "dedup_insert_event (wk_format env) (wk_db env) (event_id ev) None (wk_now env) s = (Inr False, s1)"
    and "acknowledge_dlq_event env ev stream grp s1 = (Inr (), s2)"
    and "get_dlq_insertion_parameters counter_batch to_json ev = Inr params"
  shows "dlq_turn env insert_record counter_batch to_json stream grp ev s =
         thenM (db_execute_with_retries (wk_sleep env) (wk_policy env) (rollback (wk_db env))
                  (insert_record params) None)
           (thenM (acknowledge_dlq_event env ev stream grp) (acknowledge_dlq_event env ev stream grp)) s2"
  using assms by (simp add: dlq_turn_def bindM_def [of "dedup_insert_event _ _ _ _ _"])

theorem duplicate_dead_letter_inserted_witness:
  "snd (dlq_turn (null_env\<lparr>wk_db := null_db\<lparr>execute := (\<lambda>_. raise IntegrityError)\<rparr>\<rparr>)
     (\<lambda>params. pure ()) (\<lambda>_. Inl KeyError) (\<lambda>_. PNone) DEAD_LETTER_QUEUE ''workers'' demo_streamed ()) = ()"
  using duplicate_dead_letter_inserted [of "null_env\<lparr>wk_db := null_db\<lparr>execute := (\<lambda>_. raise IntegrityError)\<rparr>\<rparr>"
      demo_streamed "()" "()" DEAD_LETTER_QUEUE "''workers''" "()" "\<lambda>_. Inl KeyError" "\<lambda>_. PNone"
      "[PInt 17001, PNone]" "\<lambda>params. pure ()"]
  by simp

end
