(* ===== verification/Tenjin_Counters.thy ===== *)
theory Tenjin_Counters
  imports Tenjin_Consumers
begin

text \<open>
  The counter workers of \<^verbatim>\<open>tasks/counters.py\<close>, with the helpers of \<^verbatim>\<open>workers/redis/counters.py\<close>,
  \<^verbatim>\<open>workers/redis/cache.py\<close>, \<^verbatim>\<open>workers/database/counters.py\<close>, the dead batches of
  \<^verbatim>\<open>datastructures/dead_counter_batch.py\<close> and the locks workers take on a counter group.
  Redis texts have the \<open>str\<close> type the code annotates.  The order in which the client lists the
  fields of a hash is the parameter \<open>items\<close>.
\<close>

section \<open>Dead batches\<close>

record dead_counter_batch =
  dead_table :: string
  dead_column :: string
  dead_counters :: "(int \<times> int) list"
  failure_time :: string

definition construct_from_failed_batch ::
    "string \<Rightarrow> string \<Rightarrow> (int \<times> int) list \<Rightarrow> string option \<Rightarrow> string \<Rightarrow> dead_counter_batch" where
  "construct_from_failed_batch table column counters failed_at now =
     \<lparr>dead_table = table, dead_column = column, dead_counters = counters,
      failure_time = (case failed_at of None \<Rightarrow> now | Some t \<Rightarrow> t)\<rparr>"

text \<open>The keys of a JSON object are strings, never the integers the reader asks for.\<close>

definition read_dead_counters :: "pyval \<Rightarrow> exn + (int \<times> int) list" where
  "read_dead_counters v =
     (case v of
        PDict d \<Rightarrow> if d = [] then Inr [] else Inl ValueError
      | _ \<Rightarrow> Inl AttributeError)"

definition construct_from_event_payload ::
    "(string \<Rightarrow> exn + pyval) \<Rightarrow> (string \<Rightarrow> exn + string) \<Rightarrow> (string \<times> pyval) list \<Rightarrow>
     exn + dead_counter_batch" where
  "construct_from_event_payload loads fromiso p =
     bindE (py_lookup (dict_get p) ''table'') (\<lambda>tv.
     bindE (as_str (Some tv)) (\<lambda>table.
     bindE (py_lookup (dict_get p) ''column'') (\<lambda>cv.
     bindE (as_str (Some cv)) (\<lambda>column.
     bindE (py_lookup (dict_get p) ''failure_time'') (\<lambda>fv.
     bindE (serialize_datetime fromiso fv) (\<lambda>ft.
     bindE (py_lookup (dict_get p) ''counters'') (\<lambda>_.
     bindE (loads_field loads p ''counters'') (\<lambda>raw.
     bindE (read_dead_counters raw) (\<lambda>counters.
       (case ft of
          PDatetime t \<Rightarrow>
            Inr \<lparr>dead_table = table, dead_column = column, dead_counters = counters, failure_time = t\<rparr>
        | _ \<Rightarrow> Inl TypeError))))))))))"

definition dead_batch_json_repr :: "dead_counter_batch \<Rightarrow> (string \<times> pyval) list" where
  "dead_batch_json_repr b =
     [(''table'', PStr (dead_table b)), (''column'', PStr (dead_column b)),
      (''counters'', PDict (map (\<lambda>(k, d). (str_of_int k, PInt d)) (dead_counters b))),
      (''failure_time'', PStr (failure_time b))]"

text \<open>
  \<open>cgroup.split(":")\<close> must give two parts; the event built then has empty side effects,
  a name the module does not import.
\<close>

definition declare_counters_event_dead ::
    "string \<Rightarrow> (int \<times> int) list \<Rightarrow> string \<Rightarrow> ('s, unit) py" where
  "declare_counters_event_dead cgroup batch now =
     (case split_on CHR '':'' cgroup of
        [table, column] \<Rightarrow>
          bindM (lift_sum (new_event DLQ_COUNTER
                   (dead_batch_json_repr (construct_from_failed_batch table column batch None now))))
            (\<lambda>_. pure ())
      | _ \<Rightarrow> raise ValueError)"

section \<open>Reading and writing counters\<close>

definition reflect_processed_counters ::
    "'s redis \<Rightarrow> string \<Rightarrow> (string \<times> int) list \<Rightarrow> ('s, unit) py" where
  "reflect_processed_counters exec cgroup counters =
     thenM (exec True (map (\<lambda>(k, v). R_EVAL_COND_INCR cgroup k v) counters)) (pure ())"

definition dispatch_to_retrier ::
    "'s redis \<Rightarrow> string \<Rightarrow> string \<Rightarrow> (string \<times> int) list \<Rightarrow> int \<Rightarrow> string option \<Rightarrow> string \<Rightarrow>
     ('s, unit) py" where
  "dispatch_to_retrier exec registry cgroup counter_data current_retry_count identifier fresh =
     (let batch_name = generate_retry_batch_name cgroup (current_retry_count + 1) identifier fresh in
      thenM (exec True [R_RPUSH registry batch_name,
                        R_HSET batch_name (map (\<lambda>(k, v). (k, str_of_int v)) counter_data)])
        (pure ()))"

text \<open>
  \<open>commit\<close> is the commit the code issues inside the transaction block.  \<open>LockNotAvailable\<close> is an
  \<open>OperationalError\<close>.
\<close>

definition database_error :: "exn \<Rightarrow> bool" where
  "database_error e \<longleftrightarrow> e \<in> {IntegrityError, OperationalError, InternalError, OtherDatabaseError}"

definition flush_counter_updates ::
    "formatter \<Rightarrow> 's db_connection \<Rightarrow> ('s, unit) py \<Rightarrow> string \<Rightarrow> (int \<times> int) list \<Rightarrow> ('s, unit) py" where
  "flush_counter_updates fmt db commit cgroup counters =
     (case split_on CHR '':'' cgroup of
        table # column # _ \<Rightarrow>
          bindM (lift_sum (prepare_updation_sql fmt table column ''id_'' counters)) (\<lambda>q.
            in_transaction db
              (tryM (thenM (execute db q) commit)
                 (\<lambda>e. if potentially_transient e then raise RecoverableDatabaseException
                      else if database_error e then raise UnrecoverableDatabaseException
                      else raise e)))
      | _ \<Rightarrow> raise ValueError)"

section \<open>Processing a counter group\<close>

text \<open>
  \<open>{k: int(v) for k, v in raw}\<close> over a dictionary takes its keys apart: a key must have two
  characters.
\<close>

definition cache_normalize_raw_counter_data :: "(string \<times> string) list \<Rightarrow> exn + (string \<times> int) list" where
  "cache_normalize_raw_counter_data raw_counters =
     traverse (\<lambda>key. (case key of
                 [k, v] \<Rightarrow> bindE (py_int [v]) (\<lambda>i. Inr ([k], i)) | _ \<Rightarrow> Inl ValueError))
       (map fst raw_counters)"

definition database_normalize :: "(string \<times> int) list \<Rightarrow> exn + (int \<times> int) list" where
  "database_normalize raw_counters =
     traverse (\<lambda>(k, v). bindE (py_nth (split_on CHR '':'' k) 1) (\<lambda>p.
                        bindE (py_int p) (\<lambda>i. Inr (i, v)))) raw_counters"

record counter_config =
  COUNTER_FLUSH_LOCK_TTL :: int
  COUNTER_RETRY_REGISTRY_NAME :: string
  COUNTER_REGISTRY_NAME :: string
  COUNTER_REGISTRY_REFRESH_INTERVAL :: int

text \<open>The part under the lock.\<close>

definition process_counter_group ::
    "'s worker_env \<Rightarrow> counter_config \<Rightarrow> ((string \<rightharpoonup> string) \<Rightarrow> (string \<times> string) list) \<Rightarrow>
     ('s, unit) py \<Rightarrow> string \<Rightarrow> string \<Rightarrow> ('s, (string \<times> int) list option) py" where
  "process_counter_group env cfg items commit fresh batch_name =
     bindM (wk_redis env True [R_HGETALL batch_name, R_DEL batch_name]) (\<lambda>res.
       case res of
         RMap h # _ \<Rightarrow>
           if items h = [] then pure None
           else
             bindM (lift_sum (cache_normalize_raw_counter_data (items h))) (\<lambda>counters.
             bindM (lift_sum (database_normalize counters)) (\<lambda>db_counters.
               tryM (thenM (flush_counter_updates (wk_format env) (wk_db env) commit batch_name db_counters)
                       (pure (Some counters)))
                 (\<lambda>e. if e = RecoverableDatabaseException then
                        bindM (lift_sum (extract_batch_metadata batch_name))
                          (\<lambda>(group_name, identifier, group_version).
                             thenM (if MAX_RETRIES (wk_policy env) \<le> group_version
                                    then declare_counters_event_dead batch_name db_counters (wk_now env)
                                    else dispatch_to_retrier (wk_redis env)
                                           (COUNTER_RETRY_REGISTRY_NAME cfg) group_name counters
                                           group_version identifier fresh)
                               (pure None))
                      else thenM (declare_counters_event_dead batch_name db_counters (wk_now env))
                             (pure None))))
       | _ \<Rightarrow> raise IndexError)"

definition batch_update_counter_group ::
    "'s worker_env \<Rightarrow> counter_config \<Rightarrow> ((string \<rightharpoonup> string) \<Rightarrow> (string \<times> string) list) \<Rightarrow>
     ('s, unit) py \<Rightarrow> string \<Rightarrow> string \<Rightarrow> ('s, (string \<times> int) list option) py" where
  "batch_update_counter_group env cfg items commit fresh batch_name =
     (let lock_name = worker_lock_key batch_name in
      bindM (wk_redis env False [R_SET lock_name ''1'' True (Some (COUNTER_FLUSH_LOCK_TTL cfg))]) (\<lambda>res.
        if res = [RBool True]
        then locked_operation (wk_redis env) lock_name
               (process_counter_group env cfg items commit fresh batch_name)
        else pure None))"

text \<open>
  One turn of \<open>batch_update_counters\<close> over the group at hand, after the refresh of the group
  names; \<open>server\<close> is the application's Redis.
\<close>

definition batch_update_counters_turn ::
    "'s worker_env \<Rightarrow> counter_config \<Rightarrow> ((string \<rightharpoonup> string) \<Rightarrow> (string \<times> string) list) \<Rightarrow>
     ('s, unit) py \<Rightarrow> 's redis \<Rightarrow> string \<Rightarrow> string \<Rightarrow> ('s, unit) py" where
  "batch_update_counters_turn env cfg items commit server fresh cgroup =
     bindM (batch_update_counter_group env cfg items commit fresh cgroup) (\<lambda>data.
       case data of
         None \<Rightarrow> pure ()
       | Some counters \<Rightarrow>
           if counters = [] then pure () else reflect_processed_counters server cgroup counters)"

text \<open>
  One turn of \<open>batch_update_retry_counters\<close>: \<open>BLPOP\<close> answers the pair of the key and the value,
  whose use as a name in \<open>str.join\<close> is a \<open>TypeError\<close>.
\<close>

definition batch_update_retry_counters_turn ::
    "('s, (string \<times> string) option) py \<Rightarrow> ('s, unit) py \<Rightarrow> ('s, unit) py" where
  "batch_update_retry_counters_turn blpop sleep =
     bindM blpop (\<lambda>popped. case popped of None \<Rightarrow> sleep | Some _ \<Rightarrow> raise TypeError)"

text \<open>
  \<open>batch_update_counters\<close> for a number of turns.  The names are read anew when they are old, into a
  variable the loop does not look at again: it goes round those it had at first.  What \<open>str\<close> makes of
  a member, and the clock, are parameters.
\<close>

definition retrieve_counter_group_names :: "('s, string list) py \<Rightarrow> (string \<Rightarrow> string) \<Rightarrow> ('s, string list) py" where
  "retrieve_counter_group_names smembers str_of = bindM smembers (\<lambda>ms. pure (map str_of ms))"

fun batch_update_counters_loop ::
    "nat \<Rightarrow> counter_config \<Rightarrow> (nat \<Rightarrow> string \<Rightarrow> ('s, unit) py) \<Rightarrow> ('s, string list) py \<Rightarrow> ('s, int) py \<Rightarrow>
     string list \<Rightarrow> nat \<Rightarrow> int \<Rightarrow> ('s, unit) py" where
  "batch_update_counters_loop 0 cfg turn names monotonic counter_groups i refresh_time = pure ()"
| "batch_update_counters_loop (Suc n) cfg turn names monotonic counter_groups i refresh_time =
     (if counter_groups = [] then pure ()
      else bindM monotonic (\<lambda>now.
           bindM (if COUNTER_REGISTRY_REFRESH_INTERVAL cfg \<le> now - refresh_time then thenM names monotonic else pure refresh_time)
             (\<lambda>refresh_time.
           thenM (turn i (counter_groups ! (i mod length counter_groups)))
             (batch_update_counters_loop n cfg turn names monotonic counter_groups (Suc i) refresh_time))))"

definition batch_update_counters ::
    "nat \<Rightarrow> 's worker_env \<Rightarrow> counter_config \<Rightarrow> ((string \<rightharpoonup> string) \<Rightarrow> (string \<times> string) list) \<Rightarrow>
     ('s, unit) py \<Rightarrow> 's redis \<Rightarrow> (nat \<Rightarrow> string) \<Rightarrow> ('s, string list) py \<Rightarrow> ('s, int) py \<Rightarrow> ('s, unit) py" where
  "batch_update_counters n env cfg items commit server fresh names monotonic =
     bindM names (\<lambda>counter_groups. bindM monotonic (\<lambda>refresh_time.
       batch_update_counters_loop n cfg (\<lambda>i. batch_update_counters_turn env cfg items commit server (fresh i)) names monotonic
         counter_groups 0 refresh_time))"

definition reads :: "('s, 'a) py \<Rightarrow> bool" where
  "reads m \<longleftrightarrow> (\<forall>s. \<exists>x. m s = (Inr x, s))"

lemma thenM_reads: "reads m \<Longrightarrow> thenM m k = k"
proof
  fix s
  assume "reads m"
  then obtain x where "m s = (Inr x, s)" unfolding reads_def by blast
  then show "thenM m k s = k s" by (simp add: thenM_def bindM_def)
qed

text \<open>What a later reading of the names gives has no effect: a group that is registered later is never served.\<close>

theorem refresh_without_effect:
  assumes "reads names" and "reads names'"
  shows "batch_update_counters_loop n cfg turn names monotonic groups i t = batch_update_counters_loop n cfg turn names' monotonic groups i t"
  using assms by (induction n arbitrary: i t) (simp_all add: thenM_reads cong: if_cong)

text \<open>With no group at the start the worker ends.\<close>

theorem empty_registry_ends:
  assumes "names s = (Inr [], s1)" and "monotonic s1 = (Inr t, s2)"
  shows "batch_update_counters n env cfg items commit server fresh names monotonic s = (Inr (), s2)"
  using assms by (cases n) (simp_all add: batch_update_counters_def bindM_def)

section \<open>Counters are lost\<close>

lemma normalize_long_key:
  assumes "(k, v) \<in> set raw" and "length k \<noteq> 2"
    and "\<forall>(k, v) \<in> set raw. length k \<noteq> 2 \<or> py_int [k ! 1] = Inl ValueError"
  shows "cache_normalize_raw_counter_data raw = Inl ValueError"
proof -
  obtain k1 v1 raw' where raw: "raw = (k1, v1) # raw'" using assms(1) by (cases raw) auto
  show ?thesis
  proof (cases "length k1 = 2")
    case True
    then obtain a b where "k1 = [a, b]" by (auto simp: length_Suc_conv numeral_2_eq_2)
    with assms(3) raw show ?thesis by (simp add: cache_normalize_raw_counter_data_def)
  next
    case False
    then show ?thesis
      by (auto simp: raw cache_normalize_raw_counter_data_def split: list.splits)
  qed
qed

lemma normalize_cache_keys:
  assumes "items \<noteq> []" and "\<forall>(k, v) \<in> set items. 2 < length k"
  shows "cache_normalize_raw_counter_data items = Inl ValueError"
proof -
  obtain k v where "(k, v) \<in> set items" using assms(1) by (cases items) auto
  with assms(2) show ?thesis by (intro normalize_long_key [of k v]) fastforce+
qed

text \<open>
  C34.  Processing a group of counters loses them: when the worker gets the lock and the hash
  holds counters, whose fields are cache keys and so have more than two characters, the hash
  is deleted, the turn raises a \<open>ValueError\<close>, nothing is sent to the database, and the lock is
  released.  (Redis does what it documents, and the commands that set the lock, read and delete
  the hash, and delete the lock are answered.)
\<close>

theorem counter_group_lost:
  assumes "documented_redis (wk_redis env) view"
    and "wk_redis env False [R_SET (worker_lock_key b) ''1'' True (Some (COUNTER_FLUSH_LOCK_TTL cfg))] s
           = (Inr [RBool True], s1)"
    and "wk_redis env True [R_HGETALL b, R_DEL b] s1 = (Inr res, s2)"
    and "wk_redis env False [R_DEL (worker_lock_key b)] s2 = (Inr res', s3)"
    and "hash_at (view s1) b = Some h" and "items h \<noteq> []" and "\<forall>(k, v) \<in> set (items h). 2 < length k"
  shows "batch_update_counter_group env cfg items commit fresh b s = (Inl ValueError, s3) \<and>
         view s3 b = None \<and> view s3 (worker_lock_key b) = None"
proof -
  from documented_redisD [OF assms(1,3)] assms(5)
  have res: "res = [RMap h, RInt (if view s1 b = None then 0 else 1)]" and b: "view s2 = (view s1)(b := None)"
    by (auto split: option.splits)
  from documented_redisD [OF assms(1,4)] have "view s3 = (view s2)(worker_lock_key b := None)"
    by (auto split: option.splits)
  then have "view s3 b = None" "view s3 (worker_lock_key b) = None" using b by auto
  moreover have "process_counter_group env cfg items commit fresh b s1 = (Inl ValueError, s2)"
    using assms(3,6) by (simp add: process_counter_group_def res normalize_cache_keys [OF assms(6,7)])
  ultimately show ?thesis
    using assms(2,4)
    by (simp add: batch_update_counter_group_def Let_def locked_operation_def finallyM_def)
qed

definition store_env :: "rstore worker_env" where
  "store_env =
     \<lparr>wk_redis = store_redis, wk_dumps = demo_dumps, wk_sleep = (\<lambda>_. pure ()),
      wk_policy = sample_policy, wk_format = format_template,
      wk_db = \<lparr>execute = (\<lambda>_. pure []), copy_in = (\<lambda>_ _. pure ()), executemany = (\<lambda>_ _. pure ()),
        begin_transaction = pure (), commit_transaction = pure (), abort_transaction = pure (),
        rollback = pure ()\<rparr>,
      wk_now = ''now'', wk_uuid = ''ab'', wk_fromiso = Inr\<rparr>"

definition demo_counter_config :: counter_config where
  "demo_counter_config =
     \<lparr>COUNTER_FLUSH_LOCK_TTL = 120, COUNTER_RETRY_REGISTRY_NAME = ''counters:retries'',
      COUNTER_REGISTRY_NAME = ''counters'', COUNTER_REGISTRY_REFRESH_INTERVAL = 1800\<rparr>"

definition demo_counters :: rstore where
  "demo_counters = [''posts:score'' \<mapsto> (VHash [''POST:7'' \<mapsto> ''4''], None)]"

theorem counter_group_lost_witness:
  "fst (batch_update_counter_group store_env demo_counter_config (\<lambda>h. [(''POST:7'', ''4'')]) (pure ())
     ''ab'' ''posts:score'' demo_counters) = Inl ValueError"
proof -
  let ?lock = "worker_lock_key ''posts:score''"
  let ?s1 = "demo_counters(?lock \<mapsto> (VStr ''1'', Some 120))"
  let ?s2 = "?s1(''posts:score'' := None)"
  have lock: "?lock \<noteq> ''posts:score''" by (simp add: worker_lock_key_def INTERNAL_NAME_SEPERATOR_def)
  have "batch_update_counter_group store_env demo_counter_config (\<lambda>h. [(''POST:7'', ''4'')]) (pure ())
      ''ab'' ''posts:score'' demo_counters = (Inl ValueError, ?s2(?lock := None)) \<and>
      id (?s2(?lock := None)) ''posts:score'' = None \<and> id (?s2(?lock := None)) ?lock = None"
    by (rule counter_group_lost [where view = id and ?s1.0 = ?s1 and ?s2.0 = ?s2 and h = "[''POST:7'' \<mapsto> ''4'']"])
      (use lock in \<open>auto simp: fun_eq_iff store_env_def store_redis_def demo_counter_config_def demo_counters_def
         hash_at_def worker_lock_key_def INTERNAL_NAME_SEPERATOR_def\<close>)
  then show ?thesis by simp
qed

text \<open>
  Flushing never succeeds either: psycopg forbids a commit inside a transaction block, with
  an error the routine reports as unrecoverable, so that the update it just executed is
  rolled back.
\<close>

theorem flush_never_commits:
  assumes "\<And>s. commit s = (Inl OtherDatabaseError, s)"
  shows "fst (flush_counter_updates fmt db commit cgroup counters s) \<noteq> Inr ()"
  using assms
  by (auto simp: flush_counter_updates_def in_transaction_def thenM_def bindM_def tryM_def
      database_error_def potentially_transient_def split: list.splits sum.splits prod.splits)

theorem flush_never_commits_witness:
  "fst (flush_counter_updates format_template (wk_db store_env) (raise OtherDatabaseError)
     ''posts:score'' [(7, 4)] demo_counters) \<noteq> Inr ()"
  by (rule flush_never_commits) simp

text \<open>
  Reflecting flushed counters changes the application's counters by exactly the flushed
  deltas; a field that is not there is created with its delta, for all that the script is
  called conditional.
\<close>

theorem reflect_adds_every_delta:
  assumes "documented_redis exec view"
    and "reflect_processed_counters exec grp counters s = (Inr (), s')"
  shows "counter_value (view s') grp k =
         counter_value (view s) grp k + sum_list (map snd (filter (\<lambda>(k', d). k' = k) counters))"
proof -
  have step: "run_cmds (map (\<lambda>(k, v). R_EVAL_COND_INCR grp k v) cs) st = Some (rs, st') \<Longrightarrow>
      counter_value st' grp k = counter_value st grp k + sum_list (map snd (filter (\<lambda>(k', d). k' = k) cs))"
    for cs st rs st'
  proof (induction cs arbitrary: st rs)
    case Nil
    then show ?case by simp
  next
    case (Cons c cs)
    obtain f d where c: "c = (f, d)" by (cases c)
    with Cons.prems obtain r st1 rs'
      where 1: "run_cmd (R_EVAL_COND_INCR grp f d) st = Some (r, st1)"
        and 2: "run_cmds (map (\<lambda>(k, v). R_EVAL_COND_INCR grp k v) cs) st1 = Some (rs', st')"
      by (auto split: option.splits prod.splits simp del: run_cmd.simps)
    from Cons.IH [OF 2] cond_incr_counter_value [OF 1, of grp k] c show ?case by auto
  qed
  from assms(2) obtain rs where "exec True (map (\<lambda>(k, v). R_EVAL_COND_INCR grp k v) counters) s = (Inr rs, s')"
    by (auto simp: reflect_processed_counters_def thenM_eq_Inr_iff)
  from step [OF documented_redisD [OF assms(1) this]] show ?thesis .
qed

theorem reflect_adds_every_delta_witness:
  "counter_value (snd (reflect_processed_counters store_redis ''posts:score'' [(''POST:8'', 3)] Map.empty))
     ''posts:score'' ''POST:8'' = 3"
proof -
  have "reflect_processed_counters store_redis ''posts:score'' [(''POST:8'', 3)] Map.empty =
      (Inr (), snd (reflect_processed_counters store_redis ''posts:score'' [(''POST:8'', 3)] Map.empty))"
    by (simp add: reflect_processed_counters_def store_redis_def conditional_counter_increment_def
        hash_increment_def hash_at_def thenM_def bindM_def)
  from reflect_adds_every_delta [OF store_redis_documented this, of "''POST:8''"] show ?thesis
    by (simp add: counter_value_def)
qed

section \<open>The lock of a counter group\<close>

text \<open>
  C33.  The lock of a group, over a Redis that does what it documents, when the command that
  should set it answers.  If the lock is set, by whichever worker, the group is left alone: nothing
  changes and there is no result.  If it is not, it is set for its lifetime, the group is
  processed under it, and afterwards it is deleted, also after an exception, with the result or the
  exception of the processing; only if the deletion itself fails is the lock left behind, and the
  exception is that of the deletion, also after a processing that succeeded.
\<close>

theorem counter_group_lock:
  assumes "documented_redis (wk_redis env) view" and "0 < COUNTER_FLUSH_LOCK_TTL cfg"
    and "wk_redis env False [R_SET (worker_lock_key b) ''1'' True (Some (COUNTER_FLUSH_LOCK_TTL cfg))] s = (Inr rs, s1)"
  shows "if view s (worker_lock_key b) \<noteq> None
    then batch_update_counter_group env cfg items commit fresh b s = (Inr None, s1) \<and> view s1 = view s
    else view s1 = (view s)(worker_lock_key b \<mapsto> (VStr ''1'', Some (COUNTER_FLUSH_LOCK_TTL cfg))) \<and>
      (\<forall>r s2 d s3. process_counter_group env cfg items commit fresh b s1 = (r, s2) \<longrightarrow>
         wk_redis env False [R_DEL (worker_lock_key b)] s2 = (d, s3) \<longrightarrow>
         (case d of
            Inl e \<Rightarrow> batch_update_counter_group env cfg items commit fresh b s = (Inl e, s3)
          | Inr _ \<Rightarrow> batch_update_counter_group env cfg items commit fresh b s = (r, s3) \<and>
                     view s3 = (view s2)(worker_lock_key b := None)))"
proof (cases "view s (worker_lock_key b) = None")
  case False
  with documented_redisD [OF assms(1,3)] have "rs \<noteq> [RBool True]" "view s1 = view s" by auto
  with False assms(3) show ?thesis by (simp add: batch_update_counter_group_def Let_def bindM_def)
next
  case True
  with documented_redisD [OF assms(1,3)] assms(2) have set: "rs = [RBool True]"
      "view s1 = (view s)(worker_lock_key b \<mapsto> (VStr ''1'', Some (COUNTER_FLUSH_LOCK_TTL cfg)))" by auto
  have "batch_update_counter_group env cfg items commit fresh b s =
      locked_operation (wk_redis env) (worker_lock_key b) (process_counter_group env cfg items commit fresh b) s1"
    using assms(3) by (simp add: batch_update_counter_group_def Let_def bindM_def set(1))
  moreover have "view s3 = (view s2)(worker_lock_key b := None)"
    if "wk_redis env False [R_DEL (worker_lock_key b)] s2 = (Inr d, s3)" for d s2 s3
    using documented_redisD [OF assms(1) that] by (auto split: option.splits)
  ultimately show ?thesis
    using True set(2) by (auto simp: locked_operation_def finallyM_def thenM_def bindM_def split: sum.splits prod.splits)
qed

theorem counter_group_lock_witness:
  "batch_update_counter_group store_env demo_counter_config (\<lambda>h. []) (pure ()) ''ab'' ''posts:score''
     [worker_lock_key ''posts:score'' \<mapsto> (VStr ''1'', Some 20)] =
   (Inr None, [worker_lock_key ''posts:score'' \<mapsto> (VStr ''1'', Some 20)])"
proof -
  let ?s = "[worker_lock_key ''posts:score'' \<mapsto> (VStr ''1'', Some 20)] :: rstore"
  have env: "documented_redis (wk_redis store_env) id" "0 < COUNTER_FLUSH_LOCK_TTL demo_counter_config"
    by (simp_all add: store_env_def demo_counter_config_def)
  have "wk_redis store_env False [R_SET (worker_lock_key ''posts:score'') ''1'' True (Some (COUNTER_FLUSH_LOCK_TTL demo_counter_config))] ?s =
      (Inr [RNone], ?s)"
    by (simp add: store_env_def store_redis_def)
  from counter_group_lock [OF env this, of "\<lambda>h. []" "pure ()" "''ab''"] show ?thesis by simp
qed

end
