(* ===== verification/Tenjin_Dispatch.thy ===== *)
theory Tenjin_Dispatch
  imports Tenjin_Consumers
begin

text \<open>
  From a stream to the queues: the readers and dispatchers of \<^verbatim>\<open>tasks/stream_readers.py\<close>, the
  queue registry of \<^verbatim>\<open>datastructures/queues.py\<close>, the tables of \<^verbatim>\<open>streams.py\<close>,
  \<^verbatim>\<open>processors.py\<close> and \<^verbatim>\<open>worker_inputs.py\<close>, the configuration check of
  \<^verbatim>\<open>config/worker_config.py\<close>, the spawning of workers in \<^verbatim>\<open>bootup.py\<close>, and the reclaiming of
  pending entries in \<^verbatim>\<open>utils/coordination.py\<close>.
\<close>

section \<open>Queues\<close>

datatype queue_name =
    post_insertions | comment_insertions | post_report_insertions | post_save_insertions
  | post_vote_insertions | comment_report_insertions | comment_vote_insertions
  | forum_subscription_insertions | anime_subscription_insertions | forum_deletions
  | post_deletions | comment_deletions | user_cleanup | downstream_posts | downstream_comments
  | downstream_user_posts_counters | downstream_forums_posts_counters
  | downstream_users_comments_counters | downstream_posts_comments_counters | dead_letter
  | counter_dead_letter | side_effects_dead_letter

fun event_queue_mapping :: "event_name \<Rightarrow> queue_name option" where
  "event_queue_mapping POST_CREATE = Some post_insertions"
| "event_queue_mapping POST_SAVE = Some post_save_insertions"
| "event_queue_mapping POST_UNSAVE = Some post_save_insertions"
| "event_queue_mapping POST_REPORT = Some post_report_insertions"
| "event_queue_mapping POST_VOTE = Some post_vote_insertions"
| "event_queue_mapping POST_UNVOTE = Some post_vote_insertions"
| "event_queue_mapping POST_DELETE = Some post_deletions"
| "event_queue_mapping COMMENT_CREATE = Some comment_insertions"
| "event_queue_mapping COMMENT_VOTE = Some comment_vote_insertions"
| "event_queue_mapping COMMENT_UNVOTE = Some comment_vote_insertions"
| "event_queue_mapping COMMENT_REPORT = Some comment_report_insertions"
| "event_queue_mapping COMMENT_DELETE = Some comment_deletions"
| "event_queue_mapping FORUM_SUB = Some forum_subscription_insertions"
| "event_queue_mapping FORUM_UNSUB = Some forum_subscription_insertions"
| "event_queue_mapping ANIME_SUB = Some anime_subscription_insertions"
| "event_queue_mapping ANIME_UNSUB = Some anime_subscription_insertions"
| "event_queue_mapping USER_CLEANUP = Some user_cleanup"
| "event_queue_mapping _ = None"

fun downstream_deletion_event_queue_mapping :: "event_name \<Rightarrow> queue_name option" where
  "downstream_deletion_event_queue_mapping ORPHANED_COMMENT_DELETE = Some downstream_comments"
| "downstream_deletion_event_queue_mapping ORPHANED_POST_DELETE = Some downstream_posts"
| "downstream_deletion_event_queue_mapping _ = None"

fun downstream_decrement_event_queue_mapping :: "event_name \<Rightarrow> queue_name option" where
  "downstream_decrement_event_queue_mapping DOWNSTREAM_FORUM_POST_DECREMENT = Some downstream_forums_posts_counters"
| "downstream_decrement_event_queue_mapping DOWNSTREAM_USER_POST_DECREMENT = Some downstream_user_posts_counters"
| "downstream_decrement_event_queue_mapping DOWNSTREAM_POST_COMMENT_DECREMENT = Some downstream_posts_comments_counters"
| "downstream_decrement_event_queue_mapping DOWNSTREAM_USER_COMMENT_DECREMENT = Some downstream_users_comments_counters"
| "downstream_decrement_event_queue_mapping _ = None"

fun dead_letter_queue_mapping :: "event_name \<Rightarrow> queue_name option" where
  "dead_letter_queue_mapping DLQ_COUNTER = Some counter_dead_letter"
| "dead_letter_queue_mapping DLQ_SIDE_EFFECTS = Some side_effects_dead_letter"
| "dead_letter_queue_mapping _ = None"

definition resolve_stream_reader_queue_mapping :: "stream_name \<Rightarrow> event_name \<Rightarrow> queue_name option" where
  "resolve_stream_reader_queue_mapping stream =
     (if stream = DOWNSTREAM_COUNTER_DECREMENTS then downstream_decrement_event_queue_mapping
      else if stream = DOWNSTREAM_DELETIONS then downstream_deletion_event_queue_mapping
      else event_queue_mapping)"

section \<open>Streams and their events\<close>

datatype dispatcher = Upstream_Dispatcher | Downstream_Dispatcher

fun STREAM_CONSUMER_MAPPING :: "stream_name \<Rightarrow> dispatcher option" where
  "STREAM_CONSUMER_MAPPING ANIMES = Some Upstream_Dispatcher"
| "STREAM_CONSUMER_MAPPING FORUMS = Some Upstream_Dispatcher"
| "STREAM_CONSUMER_MAPPING POSTS = Some Upstream_Dispatcher"
| "STREAM_CONSUMER_MAPPING COMMENTS = Some Upstream_Dispatcher"
| "STREAM_CONSUMER_MAPPING USERS = Some Upstream_Dispatcher"
| "STREAM_CONSUMER_MAPPING DEAD_LETTER_QUEUE = Some Upstream_Dispatcher"
| "STREAM_CONSUMER_MAPPING DOWNSTREAM_DELETIONS = Some Downstream_Dispatcher"
| "STREAM_CONSUMER_MAPPING DOWNSTREAM_COUNTER_DECREMENTS = Some Downstream_Dispatcher"
| "STREAM_CONSUMER_MAPPING _ = None"

fun STREAM_EVENT_MAPPING :: "stream_name \<Rightarrow> event_name list option" where
  "STREAM_EVENT_MAPPING POSTS =
     Some [POST_CREATE, POST_SAVE, POST_UNSAVE, POST_REPORT, POST_VOTE, POST_UNVOTE, POST_DELETE]"
| "STREAM_EVENT_MAPPING COMMENTS =
     Some [COMMENT_CREATE, COMMENT_VOTE, COMMENT_UNVOTE, COMMENT_REPORT, COMMENT_DELETE]"
| "STREAM_EVENT_MAPPING FORUMS = Some [FORUM_SUB, FORUM_UNSUB, FORUM_DELETE]"
| "STREAM_EVENT_MAPPING ANIMES = Some [ANIME_SUB, ANIME_UNSUB]"
| "STREAM_EVENT_MAPPING USERS = Some [USER_CLEANUP]"
| "STREAM_EVENT_MAPPING DOWNSTREAM_DELETIONS = Some [ORPHANED_POST_DELETE, ORPHANED_COMMENT_DELETE]"
| "STREAM_EVENT_MAPPING DOWNSTREAM_COUNTER_DECREMENTS =
     Some [DOWNSTREAM_USER_POST_DECREMENT, DOWNSTREAM_FORUM_POST_DECREMENT,
           DOWNSTREAM_USER_COMMENT_DECREMENT, DOWNSTREAM_POST_COMMENT_DECREMENT]"
| "STREAM_EVENT_MAPPING DEAD_LETTER_QUEUE = Some [DLQ_COUNTER, DLQ_SIDE_EFFECTS]"
| "STREAM_EVENT_MAPPING _ = None"

datatype processor =
    Queue_Insertion | Queue_Deletion | Queue_Downstream_Deletion | Queue_Downstream_Decrement | Dlq

text \<open>A key written twice in a dictionary keeps its last value: \<open>FORUM_DELETE\<close> is a deletion.\<close>

fun EVENT_WORKER_MAPPING :: "event_name \<Rightarrow> processor option" where
  "EVENT_WORKER_MAPPING POST_CREATE = Some Queue_Insertion"
| "EVENT_WORKER_MAPPING COMMENT_CREATE = Some Queue_Insertion"
| "EVENT_WORKER_MAPPING POST_DELETE = Some Queue_Deletion"
| "EVENT_WORKER_MAPPING COMMENT_DELETE = Some Queue_Deletion"
| "EVENT_WORKER_MAPPING FORUM_DELETE = Some Queue_Deletion"
| "EVENT_WORKER_MAPPING POST_SAVE = Some Queue_Insertion"
| "EVENT_WORKER_MAPPING POST_UNSAVE = Some Queue_Insertion"
| "EVENT_WORKER_MAPPING POST_VOTE = Some Queue_Insertion"
| "EVENT_WORKER_MAPPING POST_UNVOTE = Some Queue_Insertion"
| "EVENT_WORKER_MAPPING COMMENT_VOTE = Some Queue_Insertion"
| "EVENT_WORKER_MAPPING COMMENT_UNVOTE = Some Queue_Insertion"
| "EVENT_WORKER_MAPPING FORUM_SUB = Some Queue_Insertion"
| "EVENT_WORKER_MAPPING FORUM_UNSUB = Some Queue_Insertion"
| "EVENT_WORKER_MAPPING ANIME_SUB = Some Queue_Insertion"
| "EVENT_WORKER_MAPPING ANIME_UNSUB = Some Queue_Insertion"
| "EVENT_WORKER_MAPPING ORPHANED_POST_DELETE = Some Queue_Downstream_Deletion"
| "EVENT_WORKER_MAPPING ORPHANED_COMMENT_DELETE = Some Queue_Downstream_Deletion"
| "EVENT_WORKER_MAPPING DOWNSTREAM_USER_POST_DECREMENT = Some Queue_Downstream_Decrement"
| "EVENT_WORKER_MAPPING DOWNSTREAM_USER_COMMENT_DECREMENT = Some Queue_Downstream_Decrement"
| "EVENT_WORKER_MAPPING DOWNSTREAM_FORUM_POST_DECREMENT = Some Queue_Downstream_Decrement"
| "EVENT_WORKER_MAPPING DOWNSTREAM_POST_COMMENT_DECREMENT = Some Queue_Downstream_Decrement"
| "EVENT_WORKER_MAPPING DLQ_COUNTER = Some Dlq"
| "EVENT_WORKER_MAPPING DLQ_SIDE_EFFECTS = Some Dlq"
| "EVENT_WORKER_MAPPING _ = None"

text \<open>What distinguishes the inputs of the workers: their stream and queue, with the table of a
  deletion and the action of an insertion.\<close>

record worker_input =
  input_stream :: stream_name
  input_queue :: queue_name
  input_table :: "strong_entity option"
  input_action :: "action_literal option"

definition simple_input :: "stream_name \<Rightarrow> queue_name \<Rightarrow> worker_input" where
  "simple_input s q = \<lparr>input_stream = s, input_queue = q, input_table = None, input_action = None\<rparr>"

definition action_input :: "stream_name \<Rightarrow> queue_name \<Rightarrow> action_literal \<Rightarrow> worker_input" where
  "action_input s q a = \<lparr>input_stream = s, input_queue = q, input_table = None, input_action = Some a\<rparr>"

definition deletion_input :: "stream_name \<Rightarrow> queue_name \<Rightarrow> strong_entity \<Rightarrow> worker_input" where
  "deletion_input s q tab = \<lparr>input_stream = s, input_queue = q, input_table = Some tab, input_action = None\<rparr>"

fun WORKER_INPUT_DATA_MAPPING :: "event_name \<Rightarrow> worker_input option" where
  "WORKER_INPUT_DATA_MAPPING POST_CREATE = Some (simple_input POSTS post_insertions)"
| "WORKER_INPUT_DATA_MAPPING COMMENT_CREATE = Some (simple_input COMMENTS comment_insertions)"
| "WORKER_INPUT_DATA_MAPPING POST_DELETE = Some (deletion_input COMMENTS comment_deletions COMMENT)"
| "WORKER_INPUT_DATA_MAPPING COMMENT_DELETE = Some (deletion_input COMMENTS comment_deletions COMMENT)"
| "WORKER_INPUT_DATA_MAPPING FORUM_DELETE = Some (deletion_input FORUMS forum_deletions FORUM)"
| "WORKER_INPUT_DATA_MAPPING USER_CLEANUP = Some (simple_input USERS user_cleanup)"
| "WORKER_INPUT_DATA_MAPPING POST_SAVE = Some (action_input POSTS post_save_insertions Save)"
| "WORKER_INPUT_DATA_MAPPING POST_UNSAVE = Some (action_input POSTS post_save_insertions Save)"
| "WORKER_INPUT_DATA_MAPPING POST_VOTE = Some (action_input POSTS post_vote_insertions Vote)"
| "WORKER_INPUT_DATA_MAPPING POST_UNVOTE = Some (action_input POSTS post_vote_insertions Vote)"
| "WORKER_INPUT_DATA_MAPPING COMMENT_VOTE = Some (action_input COMMENTS comment_vote_insertions Vote)"
| "WORKER_INPUT_DATA_MAPPING COMMENT_UNVOTE = Some (action_input COMMENTS comment_vote_insertions Vote)"
| "WORKER_INPUT_DATA_MAPPING FORUM_SUB = Some (action_input FORUMS forum_subscription_insertions Subscribe)"
| "WORKER_INPUT_DATA_MAPPING FORUM_UNSUB = Some (action_input FORUMS forum_subscription_insertions Subscribe)"
| "WORKER_INPUT_DATA_MAPPING ANIME_SUB = Some (action_input ANIMES anime_subscription_insertions Subscribe)"
| "WORKER_INPUT_DATA_MAPPING ANIME_UNSUB = Some (action_input ANIMES anime_subscription_insertions Subscribe)"
| "WORKER_INPUT_DATA_MAPPING ORPHANED_POST_DELETE = Some (simple_input DOWNSTREAM_DELETIONS downstream_posts)"
| "WORKER_INPUT_DATA_MAPPING ORPHANED_COMMENT_DELETE = Some (simple_input DOWNSTREAM_DELETIONS downstream_comments)"
| "WORKER_INPUT_DATA_MAPPING DOWNSTREAM_USER_POST_DECREMENT =
     Some (simple_input DOWNSTREAM_COUNTER_DECREMENTS downstream_user_posts_counters)"
| "WORKER_INPUT_DATA_MAPPING DOWNSTREAM_USER_COMMENT_DECREMENT =
     Some (simple_input DOWNSTREAM_COUNTER_DECREMENTS downstream_users_comments_counters)"
| "WORKER_INPUT_DATA_MAPPING DOWNSTREAM_FORUM_POST_DECREMENT =
     Some (simple_input DOWNSTREAM_COUNTER_DECREMENTS downstream_forums_posts_counters)"
| "WORKER_INPUT_DATA_MAPPING DOWNSTREAM_POST_COMMENT_DECREMENT =
     Some (simple_input DOWNSTREAM_COUNTER_DECREMENTS downstream_posts_comments_counters)"
| "WORKER_INPUT_DATA_MAPPING DLQ_COUNTER = Some (simple_input DEAD_LETTER_QUEUE dead_letter)"
| "WORKER_INPUT_DATA_MAPPING DLQ_SIDE_EFFECTS = Some (simple_input DEAD_LETTER_QUEUE dead_letter)"
| "WORKER_INPUT_DATA_MAPPING _ = None"

section \<open>Reading a stream\<close>

text \<open>
  The id passed to \<open>XREADGROUP\<close>.  The dispatchers pass the flag \<open>read_history\<close> itself.
\<close>

datatype read_id = New_Entries | From_Id int | Flag bool

text \<open>
  The reply is the list of streams read, each with its entries; the loop over the entries puts
  malformed ones on the dead-letter queue.
\<close>

type_synonym stream_reply = "(string \<times> (string \<times> (string \<times> string) list) list) list"

fun read_entries ::
    "(string \<Rightarrow> exn + pyval) \<Rightarrow> (pyval \<Rightarrow> int option) \<Rightarrow> (streamed_event \<Rightarrow> ('s, unit) py) \<Rightarrow>
     (string \<times> (string \<times> string) list) list \<Rightarrow> ('s, streamed_event list) py" where
  "read_entries loads coerce_int put_dead [] = pure []"
| "read_entries loads coerce_int put_dead ((i, entry) # rest) =
     (case construct_from_stream_record loads coerce_int (i, map_of entry) of
        Inr ev \<Rightarrow> bindM (read_entries loads coerce_int put_dead rest) (\<lambda>evs. pure (ev # evs))
      | Inl e \<Rightarrow>
          if e = ValueError then
            bindM (lift_sum (safe_construct_from_malformed_stream (i, entry))) (\<lambda>bad.
              thenM (put_dead bad) (read_entries loads coerce_int put_dead rest))
          else raise e)"

definition stream_reader ::
    "(read_id \<Rightarrow> ('s, stream_reply) py) \<Rightarrow> (string \<Rightarrow> exn + pyval) \<Rightarrow> (pyval \<Rightarrow> int option) \<Rightarrow>
     (streamed_event \<Rightarrow> ('s, unit) py) \<Rightarrow> read_id \<Rightarrow> ('s, streamed_event list) py" where
  "stream_reader xreadgroup loads coerce_int put_dead requested_id =
     bindM (xreadgroup requested_id) (\<lambda>result.
     bindM (lift_sum (py_nth result 0)) (\<lambda>(_, entries).
       read_entries loads coerce_int put_dead entries))"

section \<open>Dispatching to the queues\<close>

text \<open>\<open>event_mapping[queue].append(event)\<close> on a default dictionary in insertion order.\<close>

fun append_to_group :: "'q \<Rightarrow> 'e \<Rightarrow> ('q \<times> 'e list) list \<Rightarrow> ('q \<times> 'e list) list" where
  "append_to_group q ev [] = [(q, [ev])]"
| "append_to_group q ev ((q', evs) # groups) =
     (if q' = q then (q', evs @ [ev]) # groups else (q', evs) # append_to_group q ev groups)"

fun group_by_queue ::
    "(event_name \<Rightarrow> queue_name option) \<Rightarrow> streamed_event list \<Rightarrow> (queue_name \<times> streamed_event list) list \<Rightarrow>
     exn + (queue_name \<times> streamed_event list) list" where
  "group_by_queue mapping [] groups = Inr groups"
| "group_by_queue mapping (ev # evs) groups =
     bindE (py_lookup mapping (event_name ev)) (\<lambda>q. group_by_queue mapping evs (append_to_group q ev groups))"

text \<open>A turn of either dispatcher; \<open>put\<close> puts a tuple of events on a queue of its own.\<close>

definition upstream_dispatcher_turn ::
    "(read_id \<Rightarrow> ('s, streamed_event list) py) \<Rightarrow> (event_name \<Rightarrow> queue_name option) \<Rightarrow>
     (queue_name \<Rightarrow> streamed_event list \<Rightarrow> ('s, unit) py) \<Rightarrow> bool \<Rightarrow> ('s, unit) py" where
  "upstream_dispatcher_turn reader mapping put read_history =
     bindM (reader (Flag read_history)) (\<lambda>events.
     bindM (lift_sum (group_by_queue mapping events [])) (\<lambda>groups.
       for_each (\<lambda>(q, evs). put q evs) groups))"

definition downstream_dispatcher_turn ::
    "(read_id \<Rightarrow> ('s, streamed_event list) py) \<Rightarrow> (event_name \<Rightarrow> queue_name option) \<Rightarrow>
     (queue_name \<Rightarrow> streamed_event list \<Rightarrow> ('s, unit) py) \<Rightarrow> bool \<Rightarrow> ('s, unit) py" where
  "downstream_dispatcher_turn reader mapping put read_history =
     bindM (reader (Flag read_history)) (\<lambda>events.
     bindM (lift_sum (group_by_queue mapping events [])) (\<lambda>groups.
       for_each (\<lambda>(q, evs). for_each (\<lambda>ev. put q [ev]) evs) groups))"

section \<open>Starting workers\<close>

record stream_workers_config =
  CONFIG_STREAM :: stream_name
  READER_COUNT :: nat
  EVENT_WORKER_COUNT_MAPPING :: "(event_name \<times> nat) list"

definition validate_event_mapping :: "stream_workers_config \<Rightarrow> exn + stream_workers_config" where
  "validate_event_mapping cfg =
     bindE (py_lookup STREAM_EVENT_MAPPING (CONFIG_STREAM cfg)) (\<lambda>expected.
       (let actual = map fst (EVENT_WORKER_COUNT_MAPPING cfg) in
        if \<not> set expected \<subseteq> set actual then Inl ValueError
        else if \<not> set actual \<subseteq> set expected then Inl ValueError
        else Inr cfg))"

text \<open>\<open>EventName(event)\<close> for every key of the mapping.\<close>

definition normalize_config_mapping :: "(string \<times> 'c) list \<Rightarrow> exn + (event_name \<times> 'c) list" where
  "normalize_config_mapping d =
     traverse (\<lambda>(s, n). bindE (py_event_name s) (\<lambda>e. Inr (e, n))) d"

text \<open>The workers and readers a stream configuration starts, by name.\<close>

datatype worker_task = Event_Worker processor worker_input | Reader dispatcher

definition stream_worker_wrapper :: "stream_workers_config \<Rightarrow> exn + (string \<times> worker_task) list" where
  "stream_worker_wrapper cfg =
     bindE (py_lookup STREAM_CONSUMER_MAPPING (CONFIG_STREAM cfg)) (\<lambda>reader.
     bindE (traverse (\<lambda>(ev, count).
              bindE (py_lookup EVENT_WORKER_MAPPING ev) (\<lambda>p.
              bindE (py_lookup WORKER_INPUT_DATA_MAPPING ev) (\<lambda>inp.
                Inr (map (\<lambda>i. (generate_worker_name (event_name_value ev) (int i) None, Event_Worker p inp))
                       [1 ..< Suc count]))))
            (EVENT_WORKER_COUNT_MAPPING cfg)) (\<lambda>workers.
       Inr (concat workers
            @ map (\<lambda>i. (generate_worker_name (stream_name_value (CONFIG_STREAM cfg)) (int i) (Some ''reader''),
                          Reader reader))
                [1 ..< Suc (READER_COUNT cfg)])))"

section \<open>Reclaiming pending entries\<close>

record pending_entry =
  message_id :: string
  time_since_delivered :: int
  times_delivered :: int

definition reclaim_pending_events ::
    "('s, pending_entry list) py \<Rightarrow> (string list \<Rightarrow> ('s, unit) py) \<Rightarrow> int \<Rightarrow> int \<Rightarrow> ('s, unit) py" where
  "reclaim_pending_events xpending xclaim idle_time_threshold max_deliveries =
     bindM xpending (\<lambda>pending.
       let ids = map message_id (filter (\<lambda>p. times_delivered p < max_deliveries \<and>
                                             idle_time_threshold < time_since_delivered p) pending) in
       if ids = [] then pure () else xclaim ids)"

text \<open>
  The bounds of a set of ids, in the order \<open>iter\<close> gives: \<open>elif\<close> skips the test for a new
  maximum when the id is a new minimum.
\<close>

fun xread_bounds :: "stream_id \<times> stream_id \<Rightarrow> stream_id list \<Rightarrow> stream_id \<times> stream_id" where
  "xread_bounds (mn, mx) [] = (mn, mx)"
| "xread_bounds (mn, mx) (i # rest) =
     (if id_ms i < id_ms mn \<or> (id_ms mn = id_ms i \<and> id_seq i < id_seq mn)
      then xread_bounds (i, mx) rest
      else if id_ms mx < id_ms i \<or> (id_ms i = id_ms mx \<and> id_seq mx < id_seq i)
      then xread_bounds (mn, i) rest
      else xread_bounds (mn, mx) rest)"

text \<open>
  As written, \<open>str\<close> is applied to a generator, whose text \<open>genexpr\<close> stands for both tuples, and
  the characters of that text are joined.
\<close>

definition get_min_max_from_xread :: "string \<Rightarrow> stream_id list \<Rightarrow> exn + string \<times> string" where
  "get_min_max_from_xread genexpr ids =
     (case ids of
        [] \<Rightarrow> Inl OtherException
      | i # _ \<Rightarrow>
          (case xread_bounds (i, i) ids of
             _ \<Rightarrow> Inr (join ''-'' (map (\<lambda>c. [c]) genexpr), join ''-'' (map (\<lambda>c. [c]) genexpr))))"

section \<open>Grouping\<close>

lemma append_to_group_lookup:
  "distinct (map fst groups) \<Longrightarrow>
   map_of (append_to_group q ev groups) p =
     (if p = q then Some ((case map_of groups q of None \<Rightarrow> [] | Some evs \<Rightarrow> evs) @ [ev])
      else map_of groups p)"
  by (induction q ev groups rule: append_to_group.induct) (auto split: option.splits)

lemma append_to_group_keys:
  "set (map fst (append_to_group q ev groups)) = insert q (fst ` set groups)"
  by (induction q ev groups rule: append_to_group.induct) auto

lemma append_to_group_distinct:
  "distinct (map fst groups) \<Longrightarrow> distinct (map fst (append_to_group q ev groups))"
proof (induction q ev groups rule: append_to_group.induct)
  case (2 q ev q' evs groups)
  have "set (map fst (append_to_group q ev groups)) = insert q (fst ` set groups)"
    by (rule append_to_group_keys)
  with 2 show ?case by auto
qed simp

definition queued :: "(queue_name \<times> 'e list) list \<Rightarrow> queue_name \<Rightarrow> 'e list" where
  "queued groups q = (case map_of groups q of None \<Rightarrow> [] | Some evs \<Rightarrow> evs)"

lemma group_by_queue_spec:
  "group_by_queue mapping evs groups = Inr res \<Longrightarrow> distinct (map fst groups) \<Longrightarrow>
   distinct (map fst res) \<and>
   queued res q = queued groups q @ filter (\<lambda>ev. mapping (event_name ev) = Some q) evs \<and>
   (\<forall>ev \<in> set evs. mapping (event_name ev) \<noteq> None)"
proof (induction mapping evs groups rule: group_by_queue.induct)
  case (1 mapping groups)
  then show ?case by simp
next
  case (2 mapping ev evs groups)
  from "2.prems"(1) obtain p where p: "mapping (event_name ev) = Some p"
    and rest: "group_by_queue mapping evs (append_to_group p ev groups) = Inr res"
    by (auto simp: bindE_eq_Inr_iff py_lookup_def split: option.splits)
  from "2.IH" [OF rest append_to_group_distinct [OF "2.prems"(2)]] show ?case
    by (auto simp: queued_def append_to_group_lookup [OF "2.prems"(2)] p)
qed

lemma group_by_queue_KeyError:
  "group_by_queue mapping evs groups = Inl e \<Longrightarrow>
   e = KeyError \<and> (\<exists>ev \<in> set evs. mapping (event_name ev) = None)"
  by (induction mapping evs groups rule: group_by_queue.induct)
    (auto simp: bindE_def py_lookup_def split: option.splits)

lemma append_to_group_filled:
  "list_all (\<lambda>g. snd g \<noteq> []) groups \<Longrightarrow> list_all (\<lambda>g. snd g \<noteq> []) (append_to_group q ev groups)"
  by (induction q ev groups rule: append_to_group.induct) auto

lemma group_by_queue_filled:
  "group_by_queue mapping evs groups = Inr res \<Longrightarrow> list_all (\<lambda>g. snd g \<noteq> []) groups \<Longrightarrow> list_all (\<lambda>g. snd g \<noteq> []) res"
  by (induction mapping evs groups rule: group_by_queue.induct) (auto simp: bindE_eq_Inr_iff append_to_group_filled)

text \<open>
  Queues that keep what is put on them, in order, each time with the events that are put at
  once; and what a queue has been given in all.
\<close>

type_synonym puts = "(queue_name \<times> streamed_event list) list"

definition put_event :: "queue_name \<Rightarrow> streamed_event list \<Rightarrow> (puts, unit) py" where
  "put_event q evs ps = (Inr (), ps @ [(q, evs)])"

definition given :: "puts \<Rightarrow> queue_name \<Rightarrow> streamed_event list" where
  "given ps q = concat (map snd (filter (\<lambda>p. fst p = q) ps))"

lemma given_simps [simp]:
  "given [] q = []" "given (p # ps) q = (if fst p = q then snd p @ given ps q else given ps q)"
  "given (ps @ ps') q = given ps q @ given ps' q"
  by (simp_all add: given_def)

lemma given_groups: "distinct (map fst groups) \<Longrightarrow> given groups q = queued groups q"
proof (induction groups)
  case (Cons g groups)
  have "given groups q = []" if "q \<notin> fst ` set groups"
    using that by (force simp: given_def filter_empty_conv)
  with Cons show ?case by (cases g) (auto simp: queued_def map_of_eq_None_iff)
qed (simp add: queued_def)

lemma given_singles: "given (concat (map (\<lambda>(q, evs). map (\<lambda>ev. (q, [ev])) evs) groups)) q = given groups q"
proof (induction groups)
  case (Cons g groups)
  have "given (map (\<lambda>ev. (p, [ev])) evs) q = (if p = q then evs else [])" for p evs
    by (induction evs) auto
  with Cons show ?case by (cases g) simp
qed simp

lemma put_groups: "for_each (\<lambda>(q, evs). put_event q evs) groups ps = (Inr (), ps @ groups)"
  by (induction groups arbitrary: ps) (auto simp: put_event_def thenM_def bindM_def)

lemma put_singles:
  "for_each (\<lambda>(q, evs). for_each (\<lambda>ev. put_event q [ev]) evs) groups ps =
     (Inr (), ps @ concat (map (\<lambda>(q, evs). map (\<lambda>ev. (q, [ev])) evs) groups))"
proof (induction groups arbitrary: ps)
  case (Cons g groups)
  have "for_each (\<lambda>ev. put_event q [ev]) evs ps = (Inr (), ps @ map (\<lambda>ev. (q, [ev])) evs)" for q evs ps
    by (induction evs arbitrary: ps) (auto simp: put_event_def thenM_def bindM_def)
  with Cons show ?case by (cases g) (simp add: thenM_def bindM_def)
qed simp

text \<open>
  C30.  What a turn of a dispatcher does with the events it has read.  If each of their names has
  a queue, then each queue is given exactly its events, in the order of the stream, none lost or
  doubled: the upstream dispatcher puts them all at once, once for each queue that has any; the
  downstream one puts them one by one.  If a name has none, both fail with a \<open>KeyError\<close> and put
  nothing at all, not even the events before it.
\<close>

theorem dispatch_partitions_batch:
  assumes "reader (Flag h) ps = (Inr evs, ps1)"
  shows "if \<forall>ev \<in> set evs. mapping (event_name ev) \<noteq> None
    then (\<exists>new. upstream_dispatcher_turn reader mapping put_event h ps = (Inr (), ps1 @ new) \<and>
            (\<forall>q. given new q = filter (\<lambda>ev. mapping (event_name ev) = Some q) evs) \<and>
            distinct (map fst new) \<and> list_all (\<lambda>p. snd p \<noteq> []) new) \<and>
         (\<exists>new. downstream_dispatcher_turn reader mapping put_event h ps = (Inr (), ps1 @ new) \<and>
            (\<forall>q. given new q = filter (\<lambda>ev. mapping (event_name ev) = Some q) evs) \<and>
            list_all (\<lambda>p. length (snd p) = 1) new)
    else upstream_dispatcher_turn reader mapping put_event h ps = (Inl KeyError, ps1) \<and>
         downstream_dispatcher_turn reader mapping put_event h ps = (Inl KeyError, ps1)"
proof (cases "group_by_queue mapping evs []")
  case (Inl e)
  from group_by_queue_KeyError [OF Inl] Inl assms show ?thesis
    by (auto simp: upstream_dispatcher_turn_def downstream_dispatcher_turn_def bindM_def)
next
  case (Inr groups)
  let ?singles = "concat (map (\<lambda>(q, evs). map (\<lambda>ev. (q, [ev])) evs) groups)"
  note spec = group_by_queue_spec [OF Inr]
  have groups: "distinct (map fst groups)" "\<forall>q. given groups q = filter (\<lambda>ev. mapping (event_name ev) = Some q) evs"
      "\<forall>ev \<in> set evs. mapping (event_name ev) \<noteq> None" "list_all (\<lambda>p. snd p \<noteq> []) groups"
    using spec given_groups [of groups] group_by_queue_filled [OF Inr] by (auto simp: queued_def [of "[]"])
  have "upstream_dispatcher_turn reader mapping put_event h ps = (Inr (), ps1 @ groups)"
    using assms Inr by (simp add: upstream_dispatcher_turn_def bindM_def put_groups)
  moreover have "downstream_dispatcher_turn reader mapping put_event h ps = (Inr (), ps1 @ ?singles)"
    using assms Inr by (simp add: downstream_dispatcher_turn_def bindM_def put_singles)
  moreover have "list_all (\<lambda>p. length (snd p) = 1) ?singles" by (auto simp: list_all_iff)
  ultimately show ?thesis using groups given_singles [of groups] by auto
qed

theorem dispatch_partitions_batch_witness:
  "let save = demo_streamed\<lparr>event_name := POST_SAVE\<rparr>; vote = demo_streamed\<lparr>event_name := POST_VOTE\<rparr>;
       mapping = [POST_SAVE \<mapsto> post_save_insertions, POST_VOTE \<mapsto> post_vote_insertions] in
   (\<exists>new. upstream_dispatcher_turn (\<lambda>_ ps. (Inr [save, vote, save], ps)) mapping put_event True [] = (Inr (), new) \<and>
      given new post_save_insertions = [save, save] \<and> given new post_vote_insertions = [vote]) \<and>
   downstream_dispatcher_turn (\<lambda>_ ps. (Inr [vote, demo_streamed\<lparr>event_name := FORUM_DELETE\<rparr>], ps)) mapping put_event True [] =
     (Inl KeyError, [])"
  using dispatch_partitions_batch [where reader = "\<lambda>_ ps. (Inr [demo_streamed\<lparr>event_name := POST_SAVE\<rparr>,
        demo_streamed\<lparr>event_name := POST_VOTE\<rparr>, demo_streamed\<lparr>event_name := POST_SAVE\<rparr>], ps)",
      OF refl, where h = True and ps = "[]" and mapping = "[POST_SAVE \<mapsto> post_save_insertions, POST_VOTE \<mapsto> post_vote_insertions]"]
    dispatch_partitions_batch [where reader = "\<lambda>_ ps. (Inr [demo_streamed\<lparr>event_name := POST_VOTE\<rparr>,
        demo_streamed\<lparr>event_name := FORUM_DELETE\<rparr>], ps)",
      OF refl, where h = True and ps = "[]" and mapping = "[POST_SAVE \<mapsto> post_save_insertions, POST_VOTE \<mapsto> post_vote_insertions]"]
  by (auto simp: Let_def)

section \<open>The tables\<close>

text \<open>
  Of the events the streams are declared to carry, every one has a queue except forum
  deletions and the two kinds of dead letters, whose dispatch is a \<open>KeyError\<close>; and every event
  that is put on a queue and has a worker is put on the queue its worker reads, except post
  deletions, whose worker reads the queue of comment deletions and would delete comments.
\<close>

theorem routing_tables:
  "{(s, e). (\<exists>es. STREAM_EVENT_MAPPING s = Some es \<and> e \<in> set es) \<and>
            resolve_stream_reader_queue_mapping s e = None} =
     {(FORUMS, FORUM_DELETE), (DEAD_LETTER_QUEUE, DLQ_COUNTER), (DEAD_LETTER_QUEUE, DLQ_SIDE_EFFECTS)} \<and>
   {(s, e). \<exists>es q inp. STREAM_EVENT_MAPPING s = Some es \<and> e \<in> set es \<and>
            resolve_stream_reader_queue_mapping s e = Some q \<and>
            WORKER_INPUT_DATA_MAPPING e = Some inp \<and> input_queue inp \<noteq> q} = {(POSTS, POST_DELETE)} \<and>
   map_option input_table (WORKER_INPUT_DATA_MAPPING POST_DELETE) = Some (Some COMMENT)"
proof (intro conjI)
  show "{(s, e). (\<exists>es. STREAM_EVENT_MAPPING s = Some es \<and> e \<in> set es) \<and>
            resolve_stream_reader_queue_mapping s e = None} =
     {(FORUMS, FORUM_DELETE), (DEAD_LETTER_QUEUE, DLQ_COUNTER), (DEAD_LETTER_QUEUE, DLQ_SIDE_EFFECTS)}"
    (is "?L = ?R")
  proof (rule set_eqI)
    fix p show "p \<in> ?L \<longleftrightarrow> p \<in> ?R"
      by (cases p; cases "fst p") (auto simp: resolve_stream_reader_queue_mapping_def)
  qed
  show "{(s, e). \<exists>es q inp. STREAM_EVENT_MAPPING s = Some es \<and> e \<in> set es \<and>
            resolve_stream_reader_queue_mapping s e = Some q \<and>
            WORKER_INPUT_DATA_MAPPING e = Some inp \<and> input_queue inp \<noteq> q} = {(POSTS, POST_DELETE)}"
    (is "?L = ?R")
  proof (rule set_eqI)
    fix p show "p \<in> ?L \<longleftrightarrow> p \<in> ?R"
      by (cases p; cases "fst p") (auto simp: resolve_stream_reader_queue_mapping_def
          simple_input_def action_input_def deletion_input_def)
  qed
  show "map_option input_table (WORKER_INPUT_DATA_MAPPING POST_DELETE) = Some (Some COMMENT)"
    by (simp add: deletion_input_def)
qed

lemma validate_event_mapping_iff:
  "validate_event_mapping cfg = Inr cfg' \<longleftrightarrow>
   cfg' = cfg \<and>
   (\<exists>es. STREAM_EVENT_MAPPING (CONFIG_STREAM cfg) = Some es \<and>
         set es = fst ` set (EVENT_WORKER_COUNT_MAPPING cfg))"
  by (auto simp: validate_event_mapping_def Let_def bindE_def py_lookup_def split: option.splits)

lemma traverse_Inr_iff: "(\<exists>ys. traverse f xs = Inr ys) \<longleftrightarrow> (\<forall>x \<in> set xs. \<exists>y. f x = Inr y)"
  by (induction xs) (auto simp: bindE_eq_Inr_iff)

text \<open>
  A configuration that passes its check starts workers exactly for the streams of forums,
  animes, downstream deletions, downstream decrements and dead letters; for posts, comments
  and users, whose reports and clean-ups have no worker, starting raises a \<open>KeyError\<close>.
\<close>

theorem valid_config_starts:
  assumes "validate_event_mapping cfg = Inr cfg"
  shows "(\<exists>ws. stream_worker_wrapper cfg = Inr ws) \<longleftrightarrow>
         CONFIG_STREAM cfg \<in> {FORUMS, ANIMES, DOWNSTREAM_DELETIONS, DOWNSTREAM_COUNTER_DECREMENTS,
                               DEAD_LETTER_QUEUE}"
proof -
  from assms obtain es where es: "STREAM_EVENT_MAPPING (CONFIG_STREAM cfg) = Some es"
      "set es = fst ` set (EVENT_WORKER_COUNT_MAPPING cfg)"
    by (auto simp: validate_event_mapping_iff)
  have "(\<exists>ws. stream_worker_wrapper cfg = Inr ws) \<longleftrightarrow>
      STREAM_CONSUMER_MAPPING (CONFIG_STREAM cfg) \<noteq> None \<and>
      (\<forall>e \<in> set es. EVENT_WORKER_MAPPING e \<noteq> None \<and> WORKER_INPUT_DATA_MAPPING e \<noteq> None)"
    unfolding es(2) stream_worker_wrapper_def
    using traverse_Inr_iff [of "\<lambda>(ev, count).
        bindE (py_lookup EVENT_WORKER_MAPPING ev) (\<lambda>p.
        bindE (py_lookup WORKER_INPUT_DATA_MAPPING ev) (\<lambda>inp.
          Inr (map (\<lambda>i. (generate_worker_name (event_name_value ev) (int i) None, Event_Worker p inp))
                 [1 ..< Suc count])))" "EVENT_WORKER_COUNT_MAPPING cfg"]
    by (fastforce simp: bindE_eq_Inr_iff py_lookup_def split: option.splits)
  then show ?thesis using es(1) by (cases "CONFIG_STREAM cfg") auto
qed

theorem valid_config_starts_witness:
  "(\<nexists>ws. stream_worker_wrapper
      \<lparr>CONFIG_STREAM = USERS, READER_COUNT = 1, EVENT_WORKER_COUNT_MAPPING = [(USER_CLEANUP, 2)]\<rparr> = Inr ws) \<and>
   (\<exists>ws. stream_worker_wrapper
      \<lparr>CONFIG_STREAM = ANIMES, READER_COUNT = 1,
       EVENT_WORKER_COUNT_MAPPING = [(ANIME_SUB, 1), (ANIME_UNSUB, 2)]\<rparr> = Inr ws)"
  using valid_config_starts [of "\<lparr>CONFIG_STREAM = USERS, READER_COUNT = 1,
      EVENT_WORKER_COUNT_MAPPING = [(USER_CLEANUP, 2)]\<rparr>"]
    valid_config_starts [of "\<lparr>CONFIG_STREAM = ANIMES, READER_COUNT = 1,
      EVENT_WORKER_COUNT_MAPPING = [(ANIME_SUB, 1), (ANIME_UNSUB, 2)]\<rparr>"]
  by (simp add: validate_event_mapping_def py_lookup_def Let_def)

section \<open>Bounds of a set of ids\<close>

lemma xread_bounds_spec:
  "mn \<le> mx \<Longrightarrow>
   xread_bounds (mn, mx) ids = (Min (insert mn (set ids)), Max (insert mx (set ids)))"
proof (induction "(mn, mx)" ids arbitrary: mn mx rule: xread_bounds.induct)
  case (1 mn mx)
  then show ?case by simp
next
  case (2 mn mx i rest)
  have lt: "(id_ms a < id_ms b \<or> (id_ms b = id_ms a \<and> id_seq a < id_seq b)) \<longleftrightarrow> a < b" for a b
    by (auto simp: less_stream_id_def)
  have min: "Min (insert mn (set (i # rest))) = Min (insert (min mn i) (set rest))"
    and max: "Max (insert mx (set (i # rest))) = Max (insert (max mx i) (set rest))"
    by (cases "rest = []"; simp add: min.assoc max.assoc)+
  consider "i < mn" | "\<not> i < mn" "mx < i" | "\<not> i < mn" "\<not> mx < i" by blast
  then show ?case
  proof cases
    case 1
    then have "i \<le> mx" "min mn i = i" "max mx i = mx" using "2.prems" by auto
    with 1 2 lt min max show ?thesis by (simp del: insert_iff)
  next
    case 2
    then have "mn \<le> i" "min mn i = mn" "max mx i = i" by auto
    with 2 "2.hyps" lt min max show ?thesis by (auto simp: eq_commute)
  next
    case 3
    then have "min mn i = mn" "max mx i = mx" by auto
    with 3 "2.hyps" "2.prems" lt min max show ?thesis by (auto simp: eq_commute)
  qed
qed

text \<open>
  The bounds computed for a set of pending ids are its least and its greatest id in the
  order of the stream, whichever id the iteration starts from and in whatever order it goes,
  in spite of the \<open>elif\<close>.
\<close>

theorem xread_bounds_min_max:
  "xread_bounds (i, i) (i # rest) = (Min (set (i # rest)), Max (set (i # rest)))"
  using xread_bounds_spec [of i i "i # rest"] by simp

end
