(* ===== verification/Tenjin_Admin.thy ===== *)
theory Tenjin_Admin
  imports Py_Text
begin

text \<open>
  The staff accounts of the auth server: permissions and roles
  (\<^verbatim>\<open>security/permissions.py\<close>, \<^verbatim>\<open>security/admin_roles.py\<close>), the session model
  (\<^verbatim>\<open>models/session.py\<close>), the helpers of \<^verbatim>\<open>utils/auth_auxillary.py\<close>, the request
  dependencies of \<^verbatim>\<open>utils/dependencies.py\<close> and the routes of \<^verbatim>\<open>routers/admin.py\<close>.

  The tables are lists of rows in the order of insertion; a moment in time is an integer.  The
  Redis client of the auth server is asynchronous: a call that is not awaited makes a coroutine,
  which is a true value and does nothing, so a call the code does not await has no effect here
  and its result is taken to be true.
\<close>

section \<open>Roles and permissions\<close>

datatype permission =
    READ_KEY | ROTATE_KEY | INVALIDATE_KEY | CLEAN_KEYSTORE
  | DELETE_ADMIN | LOCK_ADMIN | UNLOCK_ADMIN | CREATE_ADMIN

datatype admin_role = SUPER | STAFF

definition Permission :: "permission list" where
  "Permission = [READ_KEY, ROTATE_KEY, INVALIDATE_KEY, CLEAN_KEYSTORE,
                 DELETE_ADMIN, LOCK_ADMIN, UNLOCK_ADMIN, CREATE_ADMIN]"

fun ROLE_PERMISSIONS :: "admin_role \<Rightarrow> permission list" where
  "ROLE_PERMISSIONS SUPER = Permission"
| "ROLE_PERMISSIONS STAFF = [READ_KEY, ROTATE_KEY]"

fun admin_role_value :: "admin_role \<Rightarrow> string" where
  "admin_role_value SUPER = ''super''"
| "admin_role_value STAFF = ''staff''"

fun read_admin_role :: "string \<Rightarrow> exn + admin_role" where
  "read_admin_role s =
     (if s = ''super'' then Inr SUPER else if s = ''staff'' then Inr STAFF else Inl ValueError)"

section \<open>Tables and sessions\<close>

record admin_row =
  admin_id :: int
  username :: string
  role :: admin_role
  password_hash :: string
  time_deleted :: "int option"
  last_login :: int
  locked :: bool
  created_by :: int
  signing_key :: string
  verification_key :: string

record activity =
  suspect :: int
  time_logged :: int
  description :: string

text \<open>
  What the staff routes keep: the two tables, the server-side sessions (the hash
  \<^verbatim>\<open>admin:<id>\<close> of the synced store) and the clock.
\<close>

record admin_world =
  admins :: "admin_row list"
  activities :: "activity list"
  sessions :: "int \<rightharpoonup> (string \<times> string) list"
  clock :: int

record admin_config =
  SUSPICIOUS_LOOKBACK_TIME :: int
  MAX_ACTIVITY_LIMIT :: int
  MAX_SESSION_ITERATIONS :: int
  ADMIN_SESSION_DURATION :: int

section \<open>Reporting suspicious activity\<close>

text \<open>
  The number of reports on one account within the lookback time, the update that locks, which
  has no \<open>WHERE\<close>, and the removal of the session, which is awaited.
\<close>

definition recent_reports :: "admin_config \<Rightarrow> int \<Rightarrow> int \<Rightarrow> activity list \<Rightarrow> nat" where
  "recent_reports cfg now aid acts =
     length (filter (\<lambda>a. suspect a = aid \<and> now - SUSPICIOUS_LOOKBACK_TIME cfg \<le> time_logged a \<and>
                         time_logged a \<le> now) acts)"

definition report_suspicious_activity ::
  "admin_config \<Rightarrow> int \<Rightarrow> string \<Rightarrow> bool \<Rightarrow> ('a admin_world_scheme, unit) py" where
  "report_suspicious_activity cfg aid desc force_logout w =
     (let acts = activities w @ [\<lparr>suspect = aid, time_logged = clock w, description = desc\<rparr>];
          w1 = w\<lparr>activities := acts\<rparr> in
      if force_logout \<and> MAX_ACTIVITY_LIMIT cfg \<le> int (recent_reports cfg (clock w) aid acts)
      then (Inr (), w1\<lparr>admins := map (\<lambda>a. a\<lparr>locked := True\<rparr>) (admins w1),
                       sessions := (sessions w1)(aid := None)\<rparr>)
      else (Inr (), w1))"

lemma report_keeps [simp]:
  "clock (snd (report_suspicious_activity cfg aid desc f w)) = clock w"
  "admin_world.more (snd (report_suspicious_activity cfg aid desc f w)) = admin_world.more w"
  "fst (report_suspicious_activity cfg aid desc f w) = Inr ()"
  by (simp_all add: report_suspicious_activity_def Let_def)

lemma report_then [simp]:
  "thenM (report_suspicious_activity cfg aid desc f) k w = k (snd (report_suspicious_activity cfg aid desc f w))"
  by (simp add: report_suspicious_activity_def Let_def)

section \<open>Sessions\<close>

text \<open>A value of a session mapping, as JSON has it.\<close>

datatype claim = CInt int | CStr string

record admin_session =
  session_id :: int
  session_admin :: int
  expiry_at :: int
  session_epoch :: int
  session_role :: admin_role
  iteration :: int

definition create_admin_session ::
  "int \<Rightarrow> int \<Rightarrow> int \<Rightarrow> string \<Rightarrow> admin_role \<Rightarrow> int \<Rightarrow> int \<Rightarrow> (string \<times> claim) list" where
  "create_admin_session aid session_length fresh_id digest r session_iteration now =
     [(''admin_id'', CInt aid), (''session_id'', CInt fresh_id), (''revival_digest'', CStr digest),
      (''epoch_timestamp'', CInt now), (''expiry_timestamp'', CInt (now + session_length)),
      (''session_iteration'', CInt session_iteration), (''role'', CStr (admin_role_value r))]"

text \<open>
  \<open>AdminSession.model_validate\<close>: the fields without a default must be there, a number is at
  least its bound, and the start precedes the end.  Unknown fields are ignored.
\<close>

fun claim_int :: "int \<Rightarrow> claim option \<Rightarrow> int option \<Rightarrow> exn + int" where
  "claim_int low (Some (CInt n)) d = (if low \<le> n then Inr n else Inl ValidationError)"
| "claim_int low (Some (CStr s)) d = Inl ValidationError"
| "claim_int low None (Some n) = Inr n"
| "claim_int low None None = Inl ValidationError"

fun claim_role :: "claim option \<Rightarrow> exn + admin_role" where
  "claim_role None = Inr STAFF"
| "claim_role (Some (CInt n)) = Inl ValidationError"
| "claim_role (Some (CStr s)) = (case read_admin_role s of Inl e \<Rightarrow> Inl ValidationError | Inr r \<Rightarrow> Inr r)"

definition validate_session :: "int \<Rightarrow> (string \<times> claim) list \<Rightarrow> exn + admin_session" where
  "validate_session fresh_id m =
     bindE (claim_int 1 (map_of m ''id_'') (Some fresh_id)) (\<lambda>i.
     bindE (claim_int 1 (map_of m ''admin_id'') None) (\<lambda>a.
     bindE (claim_int 1 (map_of m ''expiry_at'') None) (\<lambda>x.
     bindE (claim_int 1 (map_of m ''epoch'') None) (\<lambda>e.
     bindE (claim_role (map_of m ''role'')) (\<lambda>r.
     bindE (case map_of m ''iteration'' of None \<Rightarrow> Inr 1 | Some (CInt n) \<Rightarrow> Inr n | Some _ \<Rightarrow> Inl ValidationError) (\<lambda>n.
     if x \<le> e then Inl ValidationError
     else Inr \<lparr>session_id = i, session_admin = a, expiry_at = x, session_epoch = e,
               session_role = r, iteration = n\<rparr>))))))"

definition validate_with_server_session :: "admin_session \<Rightarrow> int \<Rightarrow> int \<Rightarrow> int \<Rightarrow> admin_role \<Rightarrow> bool" where
  "validate_with_server_session s i expiry it r \<longleftrightarrow>
     session_admin s = i \<and> expiry_at s = expiry \<and> iteration s = it \<and> session_role s = r"

text \<open>
  \<open>get_admin_session\<close>: the token of the header, decoded and validated.  Decoding
  (\<open>base64\<close> and \<open>orjson\<close>) is a parameter.
\<close>

definition get_admin_session ::
  "(string \<Rightarrow> exn + (string \<times> claim) list) \<Rightarrow> int \<Rightarrow> string option \<Rightarrow> exn + (string \<times> admin_session)" where
  "get_admin_session decode fresh_id header =
     (case header of
        None \<Rightarrow> Inl (HTTPException 401)
      | Some token \<Rightarrow>
          if token = [] then Inl (HTTPException 401)
          else case bindE (decode token) (validate_session fresh_id) of
                 Inr s \<Rightarrow> Inr (token, s)
               | Inl e \<Rightarrow>
                   if e \<in> {UnicodeEncodeError, TypeError, JSONDecodeError, ValidationError}
                   then Inl (HTTPException 401) else Inl e)"

definition require_permissions :: "permission list \<Rightarrow> admin_session \<Rightarrow> exn + admin_session" where
  "require_permissions required s =
     (if set required - set (ROLE_PERMISSIONS (session_role s)) \<noteq> {} then Inl (HTTPException 403) else Inr s)"

text \<open>
  \<open>validate_admin_session\<close>.  The token is split at its point; the signature check of the
  \<open>ecdsa\<close> package, which the code calls with the key in the place of the signature, is a
  parameter of two texts.
\<close>

definition validate_admin_session ::
  "admin_config \<Rightarrow> (string \<Rightarrow> string \<Rightarrow> exn + bool) \<Rightarrow> string \<Rightarrow> string \<Rightarrow> admin_session \<Rightarrow>
   ('a admin_world_scheme, admin_session) py" where
  "validate_admin_session cfg verify vk token s =
     bindM (lift_sum (py_nth (split_on CHR ''.'' token) 1)) (\<lambda>signature.
     thenM (case verify vk signature of
              Inl InvalidSignature \<Rightarrow>
                thenM (report_suspicious_activity cfg (session_admin s) ''Tampered/invalid session'' True)
                  (raise (HTTPException 401))
            | Inl e \<Rightarrow> raise e
            | Inr _ \<Rightarrow> pure ())
     (\<lambda>w.
        if expiry_at s \<le> clock w
        then (Inl (HTTPException 401), w\<lparr>sessions := (sessions w)(session_admin s := None)\<rparr>)
        else case sessions w (session_admin s) of
               None \<Rightarrow>
                 thenM (report_suspicious_activity cfg (session_admin s) ''Missing server-side session'' False)
                   (raise (HTTPException 401)) w
             | Some m \<Rightarrow>
                 bindM (lift_sum (bindE (py_lookup (map_of m) ''role'') read_admin_role)) (\<lambda>_. pure s) w))"

section \<open>Routes\<close>

text \<open>\<open>scalar_one\<close> and \<open>scalar_one_or_none\<close> of a result.\<close>

fun scalar_one :: "'a list \<Rightarrow> exn + 'a" where
  "scalar_one [x] = Inr x"
| "scalar_one _ = Inl SQLAlchemyError"

fun scalar_one_or_none :: "'a list \<Rightarrow> exn + 'a option" where
  "scalar_one_or_none [] = Inr None"
| "scalar_one_or_none [x] = Inr (Some x)"
| "scalar_one_or_none _ = Inl SQLAlchemyError"

text \<open>
  \<open>get_verification_key\<close>: the key of an admin as the cache has it, an error of the cache apart, or as
  the database has it.  Reading a PEM is a parameter.
\<close>

definition get_verification_key ::
  "(string \<Rightarrow> exn + 'k) \<Rightarrow> exn + string option \<Rightarrow> int \<Rightarrow> ('a admin_world_scheme, 'k) py" where
  "get_verification_key from_pem cached aid w =
     (let from_db = (case scalar_one (map verification_key (filter (\<lambda>a. admin_id a = aid) (admins w))) of
                       Inl _ \<Rightarrow> Inl (HTTPException 500)
                     | Inr pem \<Rightarrow> from_pem pem) in
      (case cached of
         Inl (RedisError _) \<Rightarrow> from_db
       | Inl e \<Rightarrow> Inl e
       | Inr None \<Rightarrow> from_db
       | Inr (Some pem) \<Rightarrow> if pem = [] then from_db else from_pem pem, w))"

lemma verification_key_from_db:
  assumes "cached \<in> {Inr None, Inr (Some []), Inl (RedisError r)}" and "filter (\<lambda>a. admin_id a = aid) (admins w) = [x]"
  shows "get_verification_key from_pem cached aid w = (from_pem (verification_key x), w)"
  using assms by (auto simp: get_verification_key_def)

text \<open>
  \<open>admin_login\<close>, up to the session check.  The mapping of the active session is a coroutine
  that is never awaited, so the check always finds a session and the rest of the handler is
  not reached.
\<close>

definition admin_login ::
  "admin_config \<Rightarrow> (string \<Rightarrow> string \<Rightarrow> bool) \<Rightarrow> string \<Rightarrow> string \<Rightarrow> ('a admin_world_scheme, 'r) py" where
  "admin_login cfg checkpw identity password w =
     (case scalar_one_or_none (filter (\<lambda>a. username a = identity \<and> time_deleted a = None) (admins w)) of
        Inl e \<Rightarrow> (Inl OtherException, w)
      | Inr None \<Rightarrow> (Inl (HTTPException 404), w)
      | Inr (Some a) \<Rightarrow>
          if locked a
          then thenM (report_suspicious_activity cfg (admin_id a) ''Attempt to log into a locked account'' False)
                 (raise (HTTPException 403)) w
          else if \<not> checkpw password (password_hash a)
          then thenM (report_suspicious_activity cfg (admin_id a) ''Incorrect password'' False)
                 (raise (HTTPException 401)) w
          else thenM (report_suspicious_activity cfg (admin_id a) ''Session already active'' False)
                 (raise (HTTPException 409)) w)"

text \<open>
  \<open>admin_refresh\<close>: the digest of the session is a coroutine too, which is never missing, never
  the sentinel, and has no \<open>decode\<close>.
\<close>

definition admin_refresh :: "admin_config \<Rightarrow> admin_session \<Rightarrow> ('a admin_world_scheme, 'r) py" where
  "admin_refresh cfg s =
     (if MAX_SESSION_ITERATIONS cfg \<le> iteration s then raise (HTTPException 409) else raise AttributeError)"

definition admin_delete :: "int \<Rightarrow> ('a admin_world_scheme, unit) py" where
  "admin_delete target w =
     (case scalar_one_or_none (filter (\<lambda>a. admin_id a = target \<and> time_deleted a = None) (admins w)) of
        Inl e \<Rightarrow> (Inl OtherException, w)
      | Inr None \<Rightarrow> (Inl (HTTPException 404), w)
      | Inr (Some a) \<Rightarrow>
          (Inr (), w\<lparr>admins := map (\<lambda>a. if admin_id a = target then a\<lparr>time_deleted := Some (clock w)\<rparr> else a) (admins w)\<rparr>))"

definition set_locked :: "int \<Rightarrow> bool \<Rightarrow> admin_row list \<Rightarrow> admin_row list" where
  "set_locked target b rows = map (\<lambda>a. if admin_id a = target then a\<lparr>locked := b\<rparr> else a) rows"

definition admin_lock :: "int \<Rightarrow> ('a admin_world_scheme, unit) py" where
  "admin_lock target w =
     (case scalar_one_or_none (filter (\<lambda>a. admin_id a = target) (admins w)) of
        Inl e \<Rightarrow> (Inl OtherException, w)
      | Inr None \<Rightarrow> (Inl (HTTPException 404), w)
      | Inr (Some a) \<Rightarrow>
          if locked a then (Inl (HTTPException 409), w)
          else (Inr (), w\<lparr>admins := set_locked target True (admins w)\<rparr>))"

definition admin_unlock :: "int \<Rightarrow> ('a admin_world_scheme, unit) py" where
  "admin_unlock target w =
     (case scalar_one_or_none (filter (\<lambda>a. admin_id a = target) (admins w)) of
        Inl e \<Rightarrow> (Inl OtherException, w)
      | Inr None \<Rightarrow> (Inl (HTTPException 404), w)
      | Inr (Some a) \<Rightarrow>
          if \<not> locked a then (Inl (HTTPException 409), w)
          else (Inr (), w\<lparr>admins := set_locked target False (admins w)\<rparr>))"

text \<open>\<open>admin_logout\<close> does not await its deletion.\<close>

definition admin_logout :: "int \<Rightarrow> ('a admin_world_scheme, unit) py" where
  "admin_logout target = pure ()"

definition create_admin ::
  "string \<Rightarrow> string \<Rightarrow> int \<Rightarrow> string \<Rightarrow> string \<Rightarrow> int \<Rightarrow> ('a admin_world_scheme, unit) py" where
  "create_admin identity hashed creator sk vk fresh_id w =
     (case scalar_one_or_none (filter (\<lambda>a. username a = identity) (admins w)) of
        Inl e \<Rightarrow> (Inl OtherException, w)
      | Inr (Some a) \<Rightarrow> if admin_id a \<noteq> 0 then (Inl (HTTPException 409), w) else (Inl (HTTPException 500), w)
      | Inr None \<Rightarrow>
          if creator \<notin> set (map admin_id (admins w)) then (Inl (HTTPException 500), w)
          else (Inr (), w\<lparr>admins := admins w @
                 [\<lparr>admin_id = fresh_id, username = identity, role = STAFF, password_hash = hashed,
                   time_deleted = None, last_login = clock w, locked = False, created_by = creator,
                   signing_key = sk, verification_key = vk\<rparr>]\<rparr>))"

section \<open>Properties\<close>

abbreviation forced_report ::
  "admin_config \<Rightarrow> int \<Rightarrow> string \<Rightarrow> ('a admin_world_scheme, unit) py" where
  "forced_report cfg aid desc \<equiv> report_suspicious_activity cfg aid desc True"

lemma for_each_snoc: "for_each f (xs @ [x]) = thenM (for_each f xs) (f x)"
  by (induction xs) (simp_all add: thenM_def bindM_assoc)

lemma recent_reports_snoc:
  "recent_reports cfg now aid (acts @ [\<lparr>suspect = aid, time_logged = now, description = d\<rparr>]) =
     recent_reports cfg now aid acts + (if 0 \<le> SUSPICIOUS_LOOKBACK_TIME cfg then 1 else 0)"
  by (simp add: recent_reports_def)

lemma forced_reports_run:
  "\<exists>w1. for_each (forced_report cfg aid) ds w = (Inr (), w1) \<and> clock w1 = clock w \<and>
        map username (admins w1) = map username (admins w) \<and>
        (0 \<le> SUSPICIOUS_LOOKBACK_TIME cfg \<longrightarrow>
           recent_reports cfg (clock w) aid (activities w1) =
           recent_reports cfg (clock w) aid (activities w) + length ds)"
proof (induction ds arbitrary: w)
  case Nil
  then show ?case by simp
next
  case (Cons d ds)
  obtain w1 where w1: "forced_report cfg aid d w = (Inr (), w1)"
    by (metis prod.collapse report_keeps(3))
  then have "clock w1 = clock w" "map username (admins w1) = map username (admins w)"
      "activities w1 = activities w @ [\<lparr>suspect = aid, time_logged = clock w, description = d\<rparr>]"
    by (auto simp: report_suspicious_activity_def Let_def split: if_splits)
  with Cons.IH [of w1] w1 show ?case by (auto simp: recent_reports_snoc)
qed

lemma filter_username:
  "distinct (map username rows) \<Longrightarrow> a \<in> set rows \<Longrightarrow> filter (\<lambda>b. username b = username a) rows = [a]"
proof (induction rows)
  case (Cons b rows)
  then show ?case
    by (cases "b = a") (auto simp: filter_empty_conv, metis image_eqI)
qed simp

text \<open>
  C11.  The reports on one account lock every account: once an account has been reported as
  often as the limit allows, no administrator whatsoever can log in, with whatever password.
\<close>

theorem reports_lock_everyone:
  assumes "for_each (forced_report cfg aid) descs w = (Inr (), w')"
    and "descs \<noteq> []" and "MAX_ACTIVITY_LIMIT cfg \<le> int (length descs)"
    and "0 \<le> SUSPICIOUS_LOOKBACK_TIME cfg" and "distinct (map username (admins w))"
    and "a \<in> set (admins w')" and "time_deleted a = None"
  shows "fst (admin_login cfg checkpw (username a) pw w') = Inl (HTTPException 403)"
proof -
  obtain ds d where ds: "descs = ds @ [d]" using assms(2) by (metis rev_exhaust)
  obtain w1 where w1: "for_each (forced_report cfg aid) ds w = (Inr (), w1)" "clock w1 = clock w"
      "map username (admins w1) = map username (admins w)"
      "recent_reports cfg (clock w) aid (activities w1) =
         recent_reports cfg (clock w) aid (activities w) + length ds"
    using forced_reports_run [of cfg aid ds w] assms(4) by auto
  from assms(1) w1(1) have last: "forced_report cfg aid d w1 = (Inr (), w')"
    by (simp add: ds for_each_snoc)
  with w1 assms(3,4) have "admins w' = map (\<lambda>a. a\<lparr>locked := True\<rparr>) (admins w1)"
    by (auto simp: report_suspicious_activity_def Let_def recent_reports_snoc ds split: if_splits)
  then have "locked a" and "distinct (map username (admins w'))"
    using assms(5,6) w1(3) by (auto simp: comp_def)
  with filter_username [of "admins w'" a] assms(6,7)
  have "filter (\<lambda>b. username b = username a \<and> time_deleted b = None) (admins w') = [a]"
    by (simp flip: filter_filter)
  with \<open>locked a\<close> show ?thesis
    by (simp add: admin_login_def)
qed

definition demo_admin :: "int \<Rightarrow> string \<Rightarrow> admin_row" where
  "demo_admin i n = \<lparr>admin_id = i, username = n, role = STAFF, password_hash = ''h'', time_deleted = None,
     last_login = 0, locked = False, created_by = 1, signing_key = ''s'', verification_key = ''v''\<rparr>"

definition demo_admins :: admin_world where
  "demo_admins = \<lparr>admins = [demo_admin 1 ''root'', demo_admin 2 ''bob''], activities = [],
     sessions = Map.empty, clock = 100\<rparr>"

definition demo_admin_config :: admin_config where
  "demo_admin_config = \<lparr>SUSPICIOUS_LOOKBACK_TIME = 60, MAX_ACTIVITY_LIMIT = 2,
     MAX_SESSION_ITERATIONS = 3, ADMIN_SESSION_DURATION = 600\<rparr>"

theorem reports_lock_everyone_witness:
  "fst (admin_login demo_admin_config (=) ''root'' ''h''
     (snd (for_each (forced_report demo_admin_config 2) [''x'', ''y''] demo_admins))) =
   Inl (HTTPException 403)"
proof -
  let ?w = "snd (for_each (forced_report demo_admin_config 2) [''x'', ''y''] demo_admins)"
  let ?a = "(demo_admin 1 ''root'')\<lparr>locked := True\<rparr>"
  have run: "for_each (forced_report demo_admin_config 2) [''x'', ''y''] demo_admins = (Inr (), ?w)"
    using forced_reports_run [of demo_admin_config 2 "[''x'', ''y'']" demo_admins] by auto
  have mem: "?a \<in> set (admins ?w)"
    by (simp add: thenM_def bindM_def report_suspicious_activity_def Let_def recent_reports_def
        demo_admins_def demo_admin_config_def)
  have "fst (admin_login demo_admin_config (=) (username ?a) ''h'' ?w) = Inl (HTTPException 403)"
    by (rule reports_lock_everyone [OF run _ _ _ _ mem])
      (simp_all add: demo_admin_config_def demo_admins_def demo_admin_def)
  then show ?thesis by (simp add: demo_admin_def)
qed

text \<open>
  No administrator ever gets a session: a login fails for every identity and password,
  whatever the tables hold, and leaves the server-side sessions as they were; and the mapping
  the server makes for a session is refused by its own check of a session token, for the
  names of the two times differ.
\<close>

theorem no_admin_session:
  "\<exists>e. fst (admin_login cfg checkpw identity pw w) = Inl e \<and>
       sessions (snd (admin_login cfg checkpw identity pw w)) = sessions w \<and>
       get_admin_session (\<lambda>_. Inr (create_admin_session aid len sid digest r n now)) fresh token =
         Inl (HTTPException 401)"
proof -
  have "validate_session fresh (create_admin_session aid len sid digest r n now) = Inl ValidationError"
    by (cases "claim_int 1 (Some (CInt aid)) None")
      (auto simp: validate_session_def create_admin_session_def split: if_splits)
  moreover have "\<exists>e. fst (admin_login cfg checkpw identity pw w) = Inl e \<and>
       sessions (snd (admin_login cfg checkpw identity pw w)) = sessions w"
    by (auto simp: admin_login_def thenM_def bindM_def report_suspicious_activity_def Let_def
        split: sum.splits option.splits prod.splits if_splits)
  ultimately show ?thesis by (auto simp: get_admin_session_def split: option.splits)
qed

end
