(* ===== verification/Tenjin_Keys.thy ===== *)
theory Tenjin_Keys
  imports Tenjin_Admin
begin

text \<open>
  The keys of the auth server: the \<open>keydata\<close> table (\<^verbatim>\<open>models/database.py\<close>) and its repository
  (\<^verbatim>\<open>repositories/keydata.py\<close>), the keys a process holds (\<^verbatim>\<open>security/key_container.py\<close> and the
  key-state half of \<^verbatim>\<open>security/token_manager.py\<close>), and the background task that follows the
  list of valid keys in the synced store.
\<close>

section \<open>The table\<close>

record key_row =
  kid :: string
  alg :: string
  curve :: string
  epoch :: int
  rotated_out_at :: "int option"
  expired_at :: "int option"
  private_pem :: string
  public_pem :: string
  manual_rotation :: "bool option"
  rotated_by :: "int option"

abbreviation active_row :: "key_row \<Rightarrow> bool" where
  "active_row r \<equiv> rotated_out_at r = None"

abbreviation unexpired :: "key_row \<Rightarrow> bool" where
  "unexpired r \<equiv> expired_at r = None"

definition SECP256k1 :: string where
  "SECP256k1 = ''SECP256k1''"

text \<open>A key pair as \<open>generate_ecdsa_pair\<close> makes it: the id, and the two keys as their PEM text.\<close>

record ecdsa_pair =
  pair_kid :: string
  signing_pem :: string
  verifying_pem :: string

text \<open>The unique columns: the id, the epoch and the two PEM texts.\<close>

definition insert_row :: "key_row \<Rightarrow> key_row list \<Rightarrow> exn + key_row list" where
  "insert_row r rows =
     (if kid r \<in> kid ` set rows \<or> epoch r \<in> epoch ` set rows \<or>
         private_pem r \<in> private_pem ` set rows \<or> public_pem r \<in> public_pem ` set rows
      then Inl SQLAlchemyError else Inr (rows @ [r]))"

definition update_where :: "(key_row \<Rightarrow> bool) \<Rightarrow> (key_row \<Rightarrow> key_row) \<Rightarrow> key_row list \<Rightarrow> key_row list" where
  "update_where P f rows = map (\<lambda>r. if P r then f r else r) rows"

section \<open>Repository\<close>

definition get_keydata :: "string \<Rightarrow> key_row list \<Rightarrow> exn + key_row option" where
  "get_keydata key_id rows = scalar_one_or_none (filter (\<lambda>r. kid r = key_id) rows)"

definition get_relevant_keydata :: "nat option \<Rightarrow> bool \<Rightarrow> key_row list \<Rightarrow> exn + key_row list" where
  "get_relevant_keydata limit raise_on_empty rows =
     (let found = rev (sort_key epoch (filter unexpired rows));
          keydata = (case limit of None \<Rightarrow> found | Some n \<Rightarrow> take n found) in
      if keydata = [] \<and> raise_on_empty then Inl ValueError else Inr keydata)"

definition insert_keydata :: "string \<Rightarrow> ecdsa_pair \<Rightarrow> string \<Rightarrow> int \<Rightarrow> key_row list \<Rightarrow> exn + (key_row list \<times> key_row)" where
  "insert_keydata key_id pair algorithm now rows =
     (let r = \<lparr>kid = key_id, alg = algorithm, curve = SECP256k1, epoch = now, rotated_out_at = None,
               expired_at = None, private_pem = signing_pem pair, public_pem = verifying_pem pair,
               manual_rotation = None, rotated_by = None\<rparr> in
      bindE (insert_row r rows) (\<lambda>rows'. Inr (rows', r)))"

text \<open>\<open>expire_keydata\<close> also expires again what has already expired.\<close>

definition expire_keydata :: "int \<Rightarrow> int \<Rightarrow> key_row list \<Rightarrow> key_row list \<times> key_row list" where
  "expire_keydata threshold expiry_time rows =
     (let upd = (\<lambda>r. r\<lparr>expired_at := Some expiry_time\<rparr>) in
      (update_where (\<lambda>r. epoch r < threshold) upd rows,
       map upd (filter (\<lambda>r. epoch r < threshold) rows)))"

definition get_expired_keys :: "key_row list \<Rightarrow> key_row list" where
  "get_expired_keys rows = sort_key (\<lambda>r. the (expired_at r)) (filter (\<lambda>r. expired_at r \<noteq> None) rows)"

text \<open>The older way to the keys that are valid (\<^verbatim>\<open>utils/auth_auxillary.py\<close>), which nothing calls.\<close>

definition fetch_valid_keys :: "key_row list \<Rightarrow> exn + string list" where
  "fetch_valid_keys rows =
     (let found = map kid (filter unexpired rows) in if found = [] then Inl RuntimeError else Inr found)"

lemma valid_keys_agree:
  "fetch_valid_keys rows = Inr ks \<Longrightarrow> \<exists>rs. get_relevant_keydata None True rows = Inr rs \<and> set (map kid rs) = set ks"
proof -
  assume "fetch_valid_keys rows = Inr ks"
  then have ks: "ks = map kid (filter unexpired rows)" and some: "filter unexpired rows \<noteq> []"
    by (simp_all add: fetch_valid_keys_def Let_def split: if_splits)
  from some have "sort_key epoch (filter unexpired rows) \<noteq> []" by (metis length_0_conv length_sort)
  then have "get_relevant_keydata None True rows = Inr (rev (sort_key epoch (filter unexpired rows)))"
    by (simp add: get_relevant_keydata_def del: filter_empty_conv)
  then show ?thesis using ks by auto
qed

text \<open>
  The rendering of a key has the name \<open>__json_like__\<close>, while \<open>json_repr\<close> asks for \<open>__json_repr__\<close>: the route
  that shows a key has no answer for a key that is there.
\<close>

datatype key_item = K_Text string | K_Flag bool | K_Number int | K_None

definition key_json_like :: "(int \<Rightarrow> string) \<Rightarrow> key_row \<Rightarrow> (string \<times> key_item) list" where
  "key_json_like isoformat r =
     (let moment = (\<lambda>t. case t of None \<Rightarrow> K_None | Some x \<Rightarrow> K_Text (isoformat x)) in
      [(''kid'', K_Text (kid r)), (''alg'', K_Text (alg r)), (''curve'', K_Text (curve r)), (''epoch'', K_Text (isoformat (epoch r))),
       (''rotated_out_at'', moment (rotated_out_at r)), (''expired_at'', moment (expired_at r)),
       (''public_pem'', K_Text (public_pem r)),
       (''manual_rotation'', case manual_rotation r of None \<Rightarrow> K_None | Some b \<Rightarrow> K_Flag b),
       (''rotated_by'', case rotated_by r of None \<Rightarrow> K_None | Some i \<Rightarrow> K_Number i)])"

definition key_json_repr :: "key_row \<Rightarrow> exn + (string \<times> key_item) list" where
  "key_json_repr r = Inl AttributeError"

definition get_key :: "string \<Rightarrow> key_row list \<Rightarrow> exn + (string \<times> key_item) list" where
  "get_key key_id rows =
     bindE (case get_keydata key_id rows of
              Inl e \<Rightarrow> Inl (if e = SQLAlchemyError then OtherException else e)
            | Inr None \<Rightarrow> Inl (HTTPException 404)
            | Inr (Some r) \<Rightarrow> Inr r) (\<lambda>r.
     bindE (key_json_repr r) (\<lambda>m. Inr (m @ [(''private_pem'', K_Text (private_pem r))])))"

lemma get_key_never_answers: "\<exists>e. get_key key_id rows = Inl e"
  by (auto simp: get_key_def key_json_repr_def bindE_def split: sum.split option.split)

section \<open>The keys of a process\<close>

record key_metadata =
  PUBLIC_PEM :: string
  PRIVATE_PEM :: string
  ALGORITHM :: string
  EPOCH :: int
  ROTATED_AT :: "int option"

definition set_ROTATED_AT :: "int \<Rightarrow> key_metadata \<Rightarrow> exn + key_metadata" where
  "set_ROTATED_AT t m =
     (if \<not> (t \<noteq> 0 \<and> EPOCH m < t) then Inl ValueError else Inr (m\<lparr>ROTATED_AT := Some t\<rparr>))"

record key_state =
  active_key :: string
  key_mapping :: "string \<rightharpoonup> key_metadata"

definition set_key_state ::
  "string \<Rightarrow> key_metadata \<Rightarrow> (string \<rightharpoonup> key_metadata) \<Rightarrow> key_state" where
  "set_key_state active_kid active_metadata verification_keys =
     \<lparr>active_key = active_kid, key_mapping = verification_keys(active_kid \<mapsto> active_metadata)\<rparr>"

definition update_keydata :: "string \<Rightarrow> key_metadata \<Rightarrow> bool \<Rightarrow> key_state \<Rightarrow> key_state" where
  "update_keydata key_id m active k =
     (let k' = (if active then k\<lparr>active_key := key_id\<rparr> else k) in
      k'\<lparr>key_mapping := (key_mapping k')(key_id \<mapsto> m)\<rparr>)"

definition tm_invalidate_key :: "string \<Rightarrow> key_state \<Rightarrow> exn + key_state" where
  "tm_invalidate_key key_id k =
     (if active_key k = key_id then Inl RuntimeError
      else Inr (k\<lparr>key_mapping := (key_mapping k)(key_id := None)\<rparr>))"

text \<open>
  \<open>fetch_unexpired_key\<close>: the announcement of an invalid key is read but, its setting not being
  awaited, never made by this code.  The time of rotation of an active key is \<open>None\<close>, which
  has no \<open>timestamp\<close>.
\<close>

definition fetch_unexpired_key :: "bool \<Rightarrow> string \<Rightarrow> key_row list \<Rightarrow> exn + key_metadata option" where
  "fetch_unexpired_key announced key_id rows =
     (if announced then Inr None
      else bindE (get_keydata key_id rows) (\<lambda>found.
        case found of
          None \<Rightarrow> Inr None
        | Some r \<Rightarrow>
            (case rotated_out_at r of
               None \<Rightarrow> Inl AttributeError
             | Some t \<Rightarrow> Inr (Some \<lparr>PUBLIC_PEM = public_pem r, PRIVATE_PEM = private_pem r,
                                   ALGORITHM = alg r, EPOCH = epoch r, ROTATED_AT = Some t\<rparr>))))"

text \<open>
  One turn of \<open>poll_store\<close>.  The two loops go over sets, whose order is a parameter; an
  exception ends the turn and is only printed, what was done before it stays.
\<close>

fun poll_new :: "(string \<Rightarrow> bool) \<Rightarrow> key_row list \<Rightarrow> string list \<Rightarrow> key_state \<Rightarrow> bool \<times> key_state" where
  "poll_new announced rows [] k = (True, k)"
| "poll_new announced rows (n # ns) k =
     (case fetch_unexpired_key (announced n) n rows of
        Inl e \<Rightarrow> (False, k)
      | Inr None \<Rightarrow> poll_new announced rows ns k
      | Inr (Some m) \<Rightarrow> poll_new announced rows ns (update_keydata n m (ROTATED_AT m = None) k))"

fun poll_expired :: "string list \<Rightarrow> key_state \<Rightarrow> key_state" where
  "poll_expired [] k = k"
| "poll_expired (x # xs) k =
     (case tm_invalidate_key x k of Inl e \<Rightarrow> k | Inr k' \<Rightarrow> poll_expired xs k')"

definition poll_turn ::
  "(string \<Rightarrow> bool) \<Rightarrow> string list \<Rightarrow> string list \<Rightarrow> string list \<Rightarrow> key_row list \<Rightarrow> key_state \<Rightarrow> key_state" where
  "poll_turn announced valid new_valid_keys expired_local_keys rows k =
     (if valid = [] then k
      else case poll_new announced rows new_valid_keys k of
             (False, k') \<Rightarrow> k'
           | (True, k') \<Rightarrow> poll_expired expired_local_keys k')"

definition new_keys :: "string list \<Rightarrow> key_state \<Rightarrow> string set" where
  "new_keys valid k = set valid - dom (key_mapping k)"

definition expired_keys :: "string list \<Rightarrow> key_state \<Rightarrow> string set" where
  "expired_keys valid k = dom (key_mapping k) - set valid"

section \<open>The active key is always held\<close>

inductive key_state_step :: "key_row list \<Rightarrow> key_state \<Rightarrow> key_state \<Rightarrow> bool" for rows where
  ks_update: "key_state_step rows k (update_keydata key_id m active k)"
| ks_invalidate: "tm_invalidate_key key_id k = Inr k' \<Longrightarrow> key_state_step rows k k'"
| ks_poll: "set news = new_keys valid k \<Longrightarrow> set exps = expired_keys valid k \<Longrightarrow>
    key_state_step rows k (poll_turn announced valid news exps rows k)"

definition holds_active :: "key_state \<Rightarrow> bool" where
  "holds_active k \<longleftrightarrow> active_key k \<in> dom (key_mapping k)"

lemma update_holds: "holds_active k \<Longrightarrow> holds_active (update_keydata key_id m active k)"
  by (auto simp: holds_active_def update_keydata_def Let_def)

lemma tm_invalidate_holds: "holds_active k \<Longrightarrow> tm_invalidate_key key_id k = Inr k' \<Longrightarrow> holds_active k'"
  by (auto simp: holds_active_def tm_invalidate_key_def split: if_splits)

lemma poll_new_holds: "holds_active k \<Longrightarrow> holds_active (snd (poll_new announced rows ns k))"
proof (induction ns arbitrary: k)
  case (Cons n ns)
  then show ?case using update_holds by (auto split: sum.splits option.splits)
qed simp

lemma poll_expired_holds: "holds_active k \<Longrightarrow> holds_active (poll_expired xs k)"
proof (induction xs arbitrary: k)
  case (Cons x xs)
  then show ?case using tm_invalidate_holds by (auto split: sum.splits)
qed simp

lemma poll_turn_holds: "holds_active k \<Longrightarrow> holds_active (poll_turn announced valid news exps rows k)"
  using poll_new_holds [of k announced rows news] poll_expired_holds
  by (auto simp: poll_turn_def split: prod.splits bool.splits)

interpretation key_state_system: invariant_system
  "\<lambda>k. \<exists>a m vs. k = set_key_state a m vs" "key_state_step rows" holds_active
proof unfold_locales
  fix k
  assume "\<exists>a m vs. k = set_key_state a m vs"
  then show "holds_active k" by (auto simp: holds_active_def set_key_state_def)
next
  fix k k'
  assume "holds_active k" and "key_state_step rows k k'"
  from this(2,1) show "holds_active k'"
    by cases (auto intro: update_holds tm_invalidate_holds poll_turn_holds)
qed

text \<open>
  C8.  The active key of a process is always one it holds, from its bootup on and under every
  rotation, invalidation and turn of the poller, so that signing never raises a \<open>KeyError\<close>.
\<close>

theorem active_key_held:
  assumes "reach (key_state_step rows) (set_key_state a m vs) k"
  shows "active_key k \<in> dom (key_mapping k)"
  using key_state_system.reach_inv [OF _ assms] by (auto simp: holds_active_def)

definition demo_metadata :: key_metadata where
  "demo_metadata = \<lparr>PUBLIC_PEM = ''pub'', PRIVATE_PEM = ''priv'', ALGORITHM = ''ES256'', EPOCH = 5, ROTATED_AT = None\<rparr>"

theorem active_key_held_witness:
  "active_key (update_keydata ''2'' demo_metadata True (set_key_state ''1'' demo_metadata Map.empty))
     \<in> dom (key_mapping (update_keydata ''2'' demo_metadata True (set_key_state ''1'' demo_metadata Map.empty)))"
  by (rule active_key_held [where rows = "[]" and a = "''1''" and m = demo_metadata and vs = Map.empty])
    (rule reach_step, rule reach_refl, rule ks_update)

section \<open>The poller\<close>

lemma poll_expired_active: "active_key (poll_expired xs k) = active_key k"
  by (induction xs k rule: poll_expired.induct) (auto simp: tm_invalidate_key_def split: sum.splits if_splits)

lemma fetched_is_rotated: "fetch_unexpired_key a n rows = Inr (Some m) \<Longrightarrow> ROTATED_AT m \<noteq> None"
  by (cases "get_keydata n rows") (auto simp: fetch_unexpired_key_def split: if_splits option.splits)

lemma poll_new_active: "active_key (snd (poll_new announced rows ns k)) = active_key k"
proof (induction ns arbitrary: k)
  case (Cons n ns)
  then show ?case
    using fetched_is_rotated [of "announced n" n rows]
    by (auto simp: update_keydata_def Let_def split: sum.splits option.splits)
qed simp

lemma poll_new_lookup:
  assumes "fst (poll_new announced rows ns k)"
  shows "key_mapping (snd (poll_new announced rows ns k)) n =
     (if n \<in> set ns then (case fetch_unexpired_key (announced n) n rows of
                            Inr (Some m) \<Rightarrow> Some m | _ \<Rightarrow> key_mapping k n)
      else key_mapping k n)"
  using assms
proof (induction ns arbitrary: k)
  case (Cons x ns)
  then show ?case
    by (auto simp: update_keydata_def Let_def split: sum.splits option.splits if_splits)
qed simp

lemma poll_expired_lookup:
  "active_key k \<notin> set xs \<Longrightarrow>
   key_mapping (poll_expired xs k) n = (if n \<in> set xs then None else key_mapping k n)"
  by (induction xs arbitrary: k) (auto simp: tm_invalidate_key_def)

text \<open>
  A process never follows another's rotation: no turn of the poller changes the key it
  signs with, and as long as the list of valid keys names an active key the process does not
  hold, the turns raise before a single expired key is dropped, so that the process goes on
  accepting them.
\<close>

theorem poller_never_adopts:
  assumes "n \<in> new_keys valid k" and "set news = new_keys valid k"
    and "\<not> announced n" and "filter (\<lambda>r. kid r = n) rows = [r]" and "rotated_out_at r = None"
  shows "active_key (poll_turn announced valid news exps rows k) = active_key k \<and>
         dom (key_mapping k) \<subseteq> dom (key_mapping (poll_turn announced valid news exps rows k))"
proof -
  have fail: "fetch_unexpired_key (announced n) n rows = Inl AttributeError"
    using assms(3-5) by (simp add: fetch_unexpired_key_def get_keydata_def)
  have stop: "n \<in> set ns \<Longrightarrow> \<not> fst (poll_new announced rows ns k0)" for ns k0
    by (induction ns arbitrary: k0) (use fail in \<open>auto split: sum.splits option.splits\<close>)
  have grow: "dom (key_mapping k0) \<subseteq> dom (key_mapping (snd (poll_new announced rows ns k0)))" for ns k0
  proof (induction ns arbitrary: k0)
    case (Cons x ns)
    then show ?case
      by (auto simp: update_keydata_def Let_def subset_iff domIff split: sum.splits option.splits if_splits)
  qed simp
  have "poll_turn announced valid news exps rows k = (if valid = [] then k else snd (poll_new announced rows news k))"
    using stop [of news k] assms(1,2) by (auto simp: poll_turn_def split: prod.splits bool.splits)
  then show ?thesis using grow [of k news] by (auto simp: poll_new_active)
qed

definition demo_key_row :: "string \<Rightarrow> int \<Rightarrow> key_row" where
  "demo_key_row i t = \<lparr>kid = i, alg = ''ES256'', curve = SECP256k1, epoch = t, rotated_out_at = None,
     expired_at = None, private_pem = ''s'' @ i, public_pem = ''v'' @ i, manual_rotation = None, rotated_by = None\<rparr>"

theorem poller_never_adopts_witness:
  "active_key (poll_turn (\<lambda>_. False) [''2''] [''2''] [''1''] [demo_key_row ''2'' 7]
     (set_key_state ''1'' demo_metadata Map.empty)) = ''1''"
  using poller_never_adopts [of "''2''" "[''2'']" "set_key_state ''1'' demo_metadata Map.empty" "[''2'']"
      "\<lambda>_. False" "[demo_key_row ''2'' 7]" "demo_key_row ''2'' 7" "[''1'']"]
  by (simp add: new_keys_def set_key_state_def demo_key_row_def)

text \<open>
  C9.  When every new key of the list is a rotated one the process can fetch, a turn of the
  poller makes the keys it holds those of the list, provided its own active key is on it.
\<close>

theorem poller_converges:
  assumes "valid \<noteq> []" and "set news = new_keys valid k" and "set exps = expired_keys valid k"
    and "active_key k \<in> set valid"
    and "\<forall>n \<in> new_keys valid k. \<exists>m. fetch_unexpired_key (announced n) n rows = Inr (Some m)"
  shows "dom (key_mapping (poll_turn announced valid news exps rows k)) = set valid"
proof -
  have ok: "set ns \<subseteq> new_keys valid k \<Longrightarrow> fst (poll_new announced rows ns k0)" for ns k0
  proof (induction ns arbitrary: k0)
    case (Cons x ns)
    then obtain m where "fetch_unexpired_key (announced x) x rows = Inr (Some m)"
      using assms(5) by auto
    with Cons show ?case by simp
  qed simp
  obtain k' where k': "poll_new announced rows news k = (True, k')"
    using ok [of news k] assms(2) by (metis (full_types) prod.collapse subset_refl)
  have dom: "dom (key_mapping k') = dom (key_mapping k) \<union> set news"
    using poll_new_lookup [of announced rows news k] k' assms(2,5)
    by (auto simp: domIff split: if_splits sum.splits option.splits)
  have "active_key k' = active_key k" using poll_new_active [of announced rows news k] k' by simp
  then have "active_key k' \<notin> set exps" using assms(3,4) by (simp add: expired_keys_def)
  with poll_expired_lookup [of k' exps] have "dom (key_mapping (poll_expired exps k')) = dom (key_mapping k') - set exps"
    by (auto simp: domIff split: if_splits)
  then show ?thesis
    using assms(1-3) dom k' by (auto simp: poll_turn_def new_keys_def expired_keys_def)
qed

definition demo_rotated :: key_row where
  "demo_rotated = (demo_key_row ''2'' 7)\<lparr>rotated_out_at := Some 9\<rparr>"

theorem poller_converges_witness:
  "dom (key_mapping (poll_turn (\<lambda>_. False) [''1'', ''2''] [''2''] [] [demo_rotated]
     (set_key_state ''1'' demo_metadata Map.empty))) = {''1'', ''2''}"
  using poller_converges [of "[''1'', ''2'']" "[''2'']" "set_key_state ''1'' demo_metadata Map.empty" "[]"
      "\<lambda>_. False" "[demo_rotated]"]
  by (simp add: new_keys_def expired_keys_def set_key_state_def demo_rotated_def demo_key_row_def
      fetch_unexpired_key_def get_keydata_def)

end
