(* ===== verification/Tenjin_Base64.thy ===== *)
theory Tenjin_Base64
  imports Py_Text
begin

text \<open>
  The unpadded base64url numbers of \<^verbatim>\<open>auxillary/utils.py\<close>, in which the key set publishes the
  coordinates of its keys, with the parts of Python's \<open>int.to_bytes\<close>, \<open>int.from_bytes\<close> and
  \<open>base64\<close> they use.  A byte is a natural number below 256.  The decoder is the loop of
  \<open>binascii.a2b_base64\<close>, which skips characters outside the alphabet and stops at a
  complete padding.
\<close>

section \<open>Bytes of a number\<close>

fun to_bytes :: "nat \<Rightarrow> nat \<Rightarrow> nat list" where
  "to_bytes 0 n = []"
| "to_bytes (Suc k) n = to_bytes k (n div 256) @ [n mod 256]"

definition from_bytes :: "nat list \<Rightarrow> nat" where
  "from_bytes bs = foldl (\<lambda>acc b. 256 * acc + b) 0 bs"

lemma from_bytes_append1: "from_bytes (bs @ [b]) = 256 * from_bytes bs + b"
  by (simp add: from_bytes_def)

lemma from_to_bytes: "n < 256 ^ k \<Longrightarrow> from_bytes (to_bytes k n) = n"
proof (induction k arbitrary: n)
  case 0
  then show ?case by (simp add: from_bytes_def)
next
  case (Suc k)
  then have "n div 256 < 256 ^ k" by (simp add: less_mult_imp_div_less mult.commute)
  with Suc.IH show ?case by (simp add: from_bytes_append1)
qed

lemma to_bytes_bound: "b \<in> set (to_bytes k n) \<Longrightarrow> b < 256"
  by (induction k arbitrary: n) auto

section \<open>The alphabet\<close>

definition b64_char :: "nat \<Rightarrow> char" where
  "b64_char i =
     (if i < 26 then char_of (65 + i)
      else if i < 52 then char_of (71 + i)
      else if i < 62 then char_of (i - 4)
      else if i = 62 then CHR ''-'' else CHR ''_'')"

definition b64_value :: "char \<Rightarrow> nat option" where
  "b64_value c =
     (let n = (of_char c :: nat) in
      if 65 \<le> n \<and> n \<le> 90 then Some (n - 65)
      else if 97 \<le> n \<and> n \<le> 122 then Some (n - 71)
      else if 48 \<le> n \<and> n \<le> 57 then Some (n + 4)
      else if n = 45 \<or> n = 43 then Some 62
      else if n = 95 \<or> n = 47 then Some 63 else None)"

lemma of_char_small [simp]: "n < 256 \<Longrightarrow> (of_char (char_of n :: char) :: nat) = n"
  by (simp add: of_char_of)

lemma b64_value_char: "i < 64 \<Longrightarrow> b64_value (b64_char i) = Some i"
proof -
  assume "i < 64"
  then consider "i < 26" | "26 \<le> i" "i < 52" | "52 \<le> i" "i < 62" | "i = 62" | "i = 63" by linarith
  then show ?thesis by cases (auto simp: b64_value_def b64_char_def Let_def)
qed

lemma b64_char_not_pad: "i < 64 \<Longrightarrow> b64_char i \<noteq> CHR ''=''"
proof
  assume "i < 64" and "b64_char i = CHR ''=''"
  with b64_value_char [OF \<open>i < 64\<close>] show False by (simp add: b64_value_def)
qed

section \<open>Encoding and decoding\<close>

fun urlsafe_b64encode :: "nat list \<Rightarrow> string" where
  "urlsafe_b64encode [] = []"
| "urlsafe_b64encode [a] = [b64_char (a div 4), b64_char (a mod 4 * 16), CHR ''='', CHR ''='']"
| "urlsafe_b64encode [a, b] =
     [b64_char (a div 4), b64_char (a mod 4 * 16 + b div 16), b64_char (b mod 16 * 4), CHR ''='']"
| "urlsafe_b64encode (a # b # c # rest) =
     b64_char (a div 4) # b64_char (a mod 4 * 16 + b div 16) # b64_char (b mod 16 * 4 + c div 64)
     # b64_char (c mod 64) # urlsafe_b64encode rest"

text \<open>
  The state of the decoder: the position in the quadruple, the bits left over, the padding
  seen in a row, the bytes decoded.
\<close>

fun a2b_loop :: "string \<Rightarrow> nat \<Rightarrow> nat \<Rightarrow> nat \<Rightarrow> nat list \<Rightarrow> exn + nat list" where
  "a2b_loop [] quad left pads out = (if quad = 0 then Inr out else Inl ValueError)"
| "a2b_loop (c # cs) quad left pads out =
     (if c = CHR ''='' then
        (if 2 \<le> quad \<and> 4 \<le> quad + Suc pads then Inr out
         else a2b_loop cs quad left (if 2 \<le> quad then Suc pads else pads) out)
      else case b64_value c of
             None \<Rightarrow> a2b_loop cs quad left pads out
           | Some v \<Rightarrow>
               if quad = 0 then a2b_loop cs 1 v 0 out
               else if quad = 1 then a2b_loop cs 2 (v mod 16) 0 (out @ [left * 4 + v div 16])
               else if quad = 2 then a2b_loop cs 3 (v mod 4) 0 (out @ [left * 16 + v div 4])
               else a2b_loop cs 0 0 0 (out @ [left * 64 + v]))"

definition urlsafe_b64decode :: "string \<Rightarrow> exn + nat list" where
  "urlsafe_b64decode s = a2b_loop s 0 0 0 []"

definition rstrip_char :: "char \<Rightarrow> string \<Rightarrow> string" where
  "rstrip_char c s = rev (dropWhile (\<lambda>x. x = c) (rev s))"

definition to_base64url :: "int \<Rightarrow> nat \<Rightarrow> exn + string" where
  "to_base64url n len =
     (if n < 0 \<or> 256 ^ len \<le> n then Inl OverflowError
      else Inr (rstrip_char CHR ''='' (urlsafe_b64encode (to_bytes len (nat n)))))"

definition from_base64url :: "string \<Rightarrow> exn + int" where
  "from_base64url s =
     (let padding = replicate ((4 - length s mod 4) mod 4) CHR ''='' in
      case urlsafe_b64decode (s @ padding) of
        Inl e \<Rightarrow> Inl e | Inr bs \<Rightarrow> Inr (int (from_bytes bs)))"

section \<open>The round trip\<close>

lemma a2b_loop_char [simp]:
  "i < 64 \<Longrightarrow> a2b_loop (b64_char i # cs) quad left pads out =
     (if quad = 0 then a2b_loop cs 1 i 0 out
      else if quad = 1 then a2b_loop cs 2 (i mod 16) 0 (out @ [left * 4 + i div 16])
      else if quad = 2 then a2b_loop cs 3 (i mod 4) 0 (out @ [left * 16 + i div 4])
      else a2b_loop cs 0 0 0 (out @ [left * 64 + i]))"
  by (simp add: b64_char_not_pad b64_value_char)

lemma a2b_loop_pad [simp]:
  "a2b_loop (CHR ''='' # cs) quad left pads out =
     (if 2 \<le> quad \<and> 4 \<le> quad + Suc pads then Inr out
      else a2b_loop cs quad left (if 2 \<le> quad then Suc pads else pads) out)"
  by simp

declare a2b_loop.simps(2) [simp del]

lemma sextets:
  fixes a b c :: nat
  assumes "a < 256" "b < 256" "c < 256"
  shows "a div 4 < 64" "a mod 4 * 16 + b div 16 < 64" "b mod 16 * 4 + c div 64 < 64" "c mod 64 < 64"
    "a mod 4 * 16 < 64" "b mod 16 * 4 < 64"
  using assms by auto

lemma sextet_bits:
  fixes a b c :: nat
  assumes "b < 256" and "c < 256"
  shows "(a mod 4 * 16 + b div 16) div 16 = a mod 4" "(a mod 4 * 16 + b div 16) mod 16 = b div 16"
    "(b mod 16 * 4 + c div 64) div 4 = b mod 16" "(b mod 16 * 4 + c div 64) mod 4 = c div 64"
    "b div 16 mod 16 = b div 16"
  using assms by (simp_all add: div_add1_eq mod_mult_self3)

lemma decode_encode_acc:
  "\<forall>b \<in> set bs. b < 256 \<Longrightarrow> a2b_loop (urlsafe_b64encode bs) 0 0 0 out = Inr (out @ bs)"
proof (induction bs arbitrary: out rule: urlsafe_b64encode.induct)
  case 1
  then show ?case by simp
next
  case (2 a)
  then show ?case using sextets [of a 0 0] by (simp add: div_mult_mod_eq)
next
  case (3 a b)
  then show ?case
    using sextets [of a b 0] sextet_bits [of b 0] by (simp add: div_mult_mod_eq mult.commute)
next
  case (4 a b c rest)
  then show ?case
    using sextets [of a b c] sextet_bits [of b c] by (simp add: div_mult_mod_eq mult.commute)
qed

lemma decode_encode: "\<forall>b \<in> set bs. b < 256 \<Longrightarrow> urlsafe_b64decode (urlsafe_b64encode bs) = Inr bs"
  by (simp add: urlsafe_b64decode_def decode_encode_acc)

lemma rstrip_pad_append:
  assumes "rstrip_char c ys = ys" and "ys \<noteq> []"
  shows "rstrip_char c (xs @ ys) = xs @ ys"
proof -
  from assms have "hd (rev ys) \<noteq> c"
    by (metis (mono_tags) dropWhile_eq_self_iff hd_rev rev_is_Nil_conv rev_rev_ident rstrip_char_def)
  then show ?thesis using assms(2)
    by (cases "rev ys") (auto simp: rstrip_char_def)
qed

lemma rstrip_encode:
  "\<forall>b \<in> set bs. b < 256 \<Longrightarrow>
   \<exists>pad. urlsafe_b64encode bs = rstrip_char CHR ''='' (urlsafe_b64encode bs) @ pad \<and>
         pad = replicate ((4 - length (rstrip_char CHR ''='' (urlsafe_b64encode bs)) mod 4) mod 4) CHR ''=''"
proof (induction bs rule: urlsafe_b64encode.induct)
  case 1
  then show ?case by (simp add: rstrip_char_def)
next
  case (2 a)
  then show ?case using sextets [of a 0 0] by (simp add: rstrip_char_def b64_char_not_pad numeral_2_eq_2)
next
  case (3 a b)
  then show ?case using sextets [of a b 0] by (simp add: rstrip_char_def b64_char_not_pad)
next
  case (4 a b c rest)
  let ?pre = "[b64_char (a div 4), b64_char (a mod 4 * 16 + b div 16),
      b64_char (b mod 16 * 4 + c div 64), b64_char (c mod 64)]"
  have pre: "rstrip_char CHR ''='' ?pre = ?pre"
    using sextets [of a b c] 4 by (simp add: rstrip_char_def b64_char_not_pad)
  from 4 have ih: "\<exists>pad. urlsafe_b64encode rest = rstrip_char CHR ''='' (urlsafe_b64encode rest) @ pad \<and>
         pad = replicate ((4 - length (rstrip_char CHR ''='' (urlsafe_b64encode rest)) mod 4) mod 4) CHR ''=''"
    by simp
  have split: "rstrip_char CHR ''='' (?pre @ s) = ?pre @ rstrip_char CHR ''='' s" for s
    using pre by (simp add: rstrip_char_def dropWhile_append)
  have enc: "urlsafe_b64encode (a # b # c # rest) = ?pre @ urlsafe_b64encode rest" by simp
  show ?case using ih unfolding enc split by simp
qed

text \<open>
  C40.  A number that fits the given number of bytes is read back from its unpadded base64url
  text, and any other number is refused with an \<open>OverflowError\<close>.
\<close>

theorem base64url_roundtrip:
  "bindE (to_base64url n len) from_base64url =
     (if 0 \<le> n \<and> n < 256 ^ len then Inr n else Inl OverflowError)"
proof (cases "0 \<le> n \<and> n < 256 ^ len")
  case True
  let ?bs = "to_bytes len (nat n)"
  let ?s = "rstrip_char CHR ''='' (urlsafe_b64encode ?bs)"
  have b: "\<forall>b \<in> set ?bs. b < 256" using to_bytes_bound by blast
  from rstrip_encode [OF b] have "?s @ replicate ((4 - length ?s mod 4) mod 4) CHR ''='' = urlsafe_b64encode ?bs"
    by auto
  moreover have "from_bytes ?bs = nat n"
    using True by (intro from_to_bytes) (simp add: nat_less_iff)
  ultimately have "from_base64url ?s = Inr n"
    using True decode_encode [OF b] by (simp add: from_base64url_def Let_def)
  then show ?thesis using True by (simp add: to_base64url_def)
qed (auto simp: to_base64url_def)

end
