(* ===== verification/Tenjin_Keystore.thy ===== *)
theory Tenjin_Keystore
  imports Tenjin_Keys Tenjin_Base64
begin

text \<open>
  The key store of the auth server: the published key set and the PEM files
  (\<^verbatim>\<open>security/keygen.py\<close>), the rotation, invalidation and cleaning of keys
  (\<^verbatim>\<open>routers/keys.py\<close>) and the bootup of master and slave processes (\<^verbatim>\<open>utils/bootup.py\<close>).

  The table is the list of its rows in the order of insertion.  A transaction is a function of
  the rows, so that a rollback is the old rows; \<open>ok n\<close> says whether its \<open>n\<close>-th statement gets
  through to the database, \<open>io n\<close> whether the \<open>n\<close>-th file operation of a handler succeeds.
  The curve points of the \<open>ecdsa\<close> package are a parameter \<open>point_of\<close>, of which the code relies
  on the coordinates fitting 32 bytes.
\<close>

section \<open>State\<close>

record jwk =
  kty :: string
  jwk_alg :: string
  crv :: string
  jwk_use :: string
  jwk_kid :: string
  jwk_x :: string
  jwk_y :: string

text \<open>
  The table, the key set file, the public and the private PEM files by the id in their name,
  the list of valid keys in the synced store, and the keys this process holds.
\<close>

record keystore = admin_world +
  keydata :: "key_row list"
  jwks :: "jwk list"
  public_files :: "string \<rightharpoonup> string"
  private_files :: "string \<rightharpoonup> string"
  valid_keys :: "string list"
  key_state :: key_state

definition curve_points :: "(string \<Rightarrow> int \<times> int) \<Rightarrow> bool" where
  "curve_points point_of \<longleftrightarrow> (\<forall>pem. case point_of pem of (x, y) \<Rightarrow> 0 \<le> x \<and> x < 256 ^ 32 \<and> 0 \<le> y \<and> y < 256 ^ 32)"

definition stmt :: "(nat \<Rightarrow> bool) \<Rightarrow> nat \<Rightarrow> exn + 'a \<Rightarrow> exn + 'a" where
  "stmt ok n r = (if ok n then r else Inl SQLAlchemyError)"

section \<open>The key set and the PEM files\<close>

definition key_mapping_of :: "(string \<Rightarrow> int \<times> int) \<Rightarrow> string \<Rightarrow> string \<Rightarrow> string \<Rightarrow> string \<Rightarrow> exn + jwk" where
  "key_mapping_of point_of algorithm crv_name key_id pem =
     (case point_of pem of (x, y) \<Rightarrow>
        bindE (to_base64url x 32) (\<lambda>encodedX. bindE (to_base64url y 32) (\<lambda>encodedY.
        Inr \<lparr>kty = ''EC'', jwk_alg = algorithm, crv = crv_name, jwk_use = ''sig'', jwk_kid = key_id,
             jwk_x = encodedX, jwk_y = encodedY\<rparr>)))"

definition initialize_jwks :: "(string \<Rightarrow> int \<times> int) \<Rightarrow> key_row list \<Rightarrow> (keystore, unit) py" where
  "initialize_jwks point_of rows w =
     (case traverse (\<lambda>r. key_mapping_of point_of (alg r) (curve r) (kid r) (public_pem r)) rows of
        Inl e \<Rightarrow> (Inl e, w)
      | Inr ms \<Rightarrow> (Inr (), if rows = [] then w else w\<lparr>jwks := ms\<rparr>))"

definition keep_last :: "nat \<Rightarrow> 'a list \<Rightarrow> 'a list" where
  "keep_last capacity xs =
     (if capacity < length xs then (if capacity = 0 then xs else drop (length xs - capacity) xs) else xs)"

text \<open>
  \<open>written\<close> says whether the key set file can be opened and written; a file operation that fails
  has changed nothing.
\<close>

definition update_jwks ::
  "(string \<Rightarrow> int \<times> int) \<Rightarrow> bool \<Rightarrow> string \<Rightarrow> string \<Rightarrow> nat \<Rightarrow> (keystore, unit) py" where
  "update_jwks point_of written pem key_id capacity w =
     (case key_mapping_of point_of ''ECDSA'' SECP256k1 key_id pem of
        Inl e \<Rightarrow> (Inl e, w)
      | Inr m \<Rightarrow> if written then (Inr (), w\<lparr>jwks := keep_last capacity (jwks w @ [m])\<rparr>) else (Inl OSError, w))"

definition write_ecdsa_pair :: "bool \<Rightarrow> bool \<Rightarrow> string \<Rightarrow> string \<Rightarrow> string \<Rightarrow> (keystore, unit) py" where
  "write_ecdsa_pair private_ok public_ok sk vk key_id w =
     (if \<not> private_ok then (Inl OSError, w)
      else let w1 = w\<lparr>private_files := (private_files w)(key_id \<mapsto> sk)\<rparr> in
           if \<not> public_ok then (Inl OSError, w1)
           else (Inr (), w1\<lparr>public_files := (public_files w1)(key_id \<mapsto> vk)\<rparr>))"

definition initialize_active_key :: "ecdsa_pair \<Rightarrow> (keystore, key_row) py" where
  "initialize_active_key pair =
     thenM (write_ecdsa_pair True True (signing_pem pair) (verifying_pem pair) (pair_kid pair))
       (\<lambda>w. case insert_keydata (pair_kid pair) pair ''ES256'' (clock w) (keydata w) of
              Inl e \<Rightarrow> (Inl e, w) | Inr (rows, r) \<Rightarrow> (Inr r, w\<lparr>keydata := rows\<rparr>))"

section \<open>Rotation\<close>

definition new_key_row :: "ecdsa_pair \<Rightarrow> int \<Rightarrow> key_row" where
  "new_key_row pair now =
     \<lparr>kid = pair_kid pair, alg = ''ES256'', curve = SECP256k1, epoch = now, rotated_out_at = None,
      expired_at = None, private_pem = signing_pem pair, public_pem = verifying_pem pair,
      manual_rotation = None, rotated_by = None\<rparr>"

definition select_oldest :: "key_row list \<Rightarrow> exn + key_row" where
  "select_oldest rows =
     scalar_one (take 1 (sort_key (\<lambda>r. the (rotated_out_at r)) (filter (\<lambda>r. \<not> active_row r \<and> unexpired r) rows)))"

definition rotate_transaction ::
  "(nat \<Rightarrow> bool) \<Rightarrow> nat \<Rightarrow> int \<Rightarrow> int \<Rightarrow> ecdsa_pair \<Rightarrow> key_row list \<Rightarrow>
   exn + (key_row list \<times> string \<times> string option)" where
  "rotate_transaction ok max_valid now aid pair rows =
     bindE (stmt ok 0 (scalar_one (filter active_row rows))) (\<lambda>previous.
     bindE (stmt ok 1 (Inr (update_where (\<lambda>r. kid r = kid previous)
        (\<lambda>r. r\<lparr>rotated_out_at := Some now, manual_rotation := Some True, rotated_by := Some aid\<rparr>) rows))) (\<lambda>rows1.
     bindE (stmt ok 2 (insert_row (new_key_row pair now) rows1)) (\<lambda>rows2.
     bindE (stmt ok 3 (Inr (length (filter unexpired rows2)))) (\<lambda>valid_key_count.
     if max_valid < valid_key_count
     then bindE (stmt ok 4 (select_oldest rows2)) (\<lambda>oldest.
          bindE (stmt ok 5 (Inr (update_where (\<lambda>r. kid r = kid oldest) (\<lambda>r. r\<lparr>expired_at := Some now\<rparr>) rows2))) (\<lambda>rows3.
          bindE (stmt ok 6 (Inr ())) (\<lambda>_. Inr (rows3, kid previous, Some (kid oldest)))))
     else bindE (stmt ok 6 (Inr ())) (\<lambda>_. Inr (rows2, kid previous, None))))))"

text \<open>
  Removing \<^verbatim>\<open>JWKS_FILEPATH.joinpath(...)\<close>, a path below a regular file.
\<close>

definition unlink_below_jwks :: "(keystore, unit) py" where
  "unlink_below_jwks = raise OSError"

text \<open>
  \<open>rotate_keys\<close>.  The lock and the cooldown flag are coroutines, hence true: no rotation is
  refused for the lock, and every one of a staff admin for the cooldown.  The files are written
  once the transaction is committed: \<open>io 0\<close> is the write of the key set, \<open>io 1\<close> and \<open>io 2\<close>
  those of the private and the public PEM file.  After the keys of the process are updated the
  handler looks the id up in a coroutine, which is a \<open>TypeError\<close>; what follows is not reached.
\<close>

definition rotate_keys ::
  "admin_config \<Rightarrow> nat \<Rightarrow> (string \<Rightarrow> int \<times> int) \<Rightarrow> (nat \<Rightarrow> bool) \<Rightarrow> (nat \<Rightarrow> bool) \<Rightarrow> admin_role \<Rightarrow> int \<Rightarrow>
   ecdsa_pair \<Rightarrow> (keystore, unit) py" where
  "rotate_keys cfg max_valid point_of ok io r aid pair w =
     (if r = STAFF
      then thenM (report_suspicious_activity cfg aid ''Attempt to perform key rotation during cooldown'' True)
             (raise (HTTPException 409)) w
      else case rotate_transaction ok max_valid (clock w) aid pair (keydata w) of
             Inl e \<Rightarrow> (Inl (HTTPException 500), w)
           | Inr (rows, previous, oldest) \<Rightarrow>
               thenM (update_jwks point_of (io 0) (verifying_pem pair) (pair_kid pair) max_valid)
               (thenM (write_ecdsa_pair (io 1) (io 2) (signing_pem pair) (verifying_pem pair) (pair_kid pair))
               (thenM unlink_below_jwks
               (thenM (if oldest = None then pure () else unlink_below_jwks)
               (\<lambda>w. (Inl TypeError, w\<lparr>key_state := update_keydata (pair_kid pair)
                      \<lparr>PUBLIC_PEM = verifying_pem pair, PRIVATE_PEM = signing_pem pair, ALGORITHM = ''ES256'',
                       EPOCH = clock w, ROTATED_AT = None\<rparr> True (key_state w)\<rparr>)))))
               (w\<lparr>keydata := rows\<rparr>))"

section \<open>Invalidation\<close>

text \<open>
  The rollback expires the row the session has loaded, so that the text of the key is gone when
  the removed PEM file is to be written again: reading it raises (\<open>MissingGreenlet\<close>, one of
  SQLAlchemy's exceptions), after the key set has been written back.
\<close>

definition revert_invalidation ::
  "(nat \<Rightarrow> bool) \<Rightarrow> jwk list \<Rightarrow> string \<Rightarrow> key_row option \<Rightarrow> (keystore, unit) py" where
  "revert_invalidation io original key_id target w =
     (if \<not> io 2 then (Inl OSError, w)
      else let w1 = w\<lparr>jwks := original\<rparr> in
           case target of
             None \<Rightarrow> (Inl (HTTPException 500), w1)
           | Some r \<Rightarrow>
               if public_files w1 key_id = None then (Inl SQLAlchemyError, w1)
               else (Inl (HTTPException 500), w1))"

definition invalidate_key ::
  "admin_config \<Rightarrow> (nat \<Rightarrow> bool) \<Rightarrow> (nat \<Rightarrow> bool) \<Rightarrow> int \<Rightarrow> string \<Rightarrow> (keystore, unit) py" where
  "invalidate_key cfg ok io aid key_id w =
     (let original = jwks w; revert = revert_invalidation io original key_id in
      case stmt ok 0 (get_keydata key_id (keydata w)) of
        Inl e \<Rightarrow> revert None w
      | Inr None \<Rightarrow> (Inl (HTTPException 404), w)
      | Inr (Some target) \<Rightarrow>
          if active_row target
          then thenM (report_suspicious_activity cfg aid (''Invaldiation attempt on active key '' @ key_id) True)
                 (raise (HTTPException 409)) w
          else if \<not> unexpired target then (Inl (HTTPException 409), w)
          else if \<not> ok 1 \<or> \<not> io 0 then revert (Some target) w
          else let w1 = w\<lparr>jwks := filter (\<lambda>m. jwk_kid m \<noteq> key_id) original\<rparr> in
               if \<not> io 1 then revert (Some target) w1
               else let w2 = w1\<lparr>public_files := (public_files w1)(key_id := None)\<rparr> in
                    if \<not> ok 2 then revert (Some target) w2
                    else let w3 = w2\<lparr>keydata := update_where (\<lambda>r. kid r = key_id)
                                 (\<lambda>r. r\<lparr>expired_at := Some (clock w)\<rparr>) (keydata w)\<rparr> in
                         case tm_invalidate_key key_id (key_state w3) of
                           Inl e \<Rightarrow> (Inl e, w3)
                         | Inr k \<Rightarrow> (Inl TypeError, w3\<lparr>key_state := k\<rparr>))"

section \<open>Cleaning\<close>

fun unlink_all :: "(nat \<Rightarrow> bool) \<Rightarrow> nat \<Rightarrow> string list \<Rightarrow> (string \<rightharpoonup> string) \<Rightarrow> bool \<times> (string \<rightharpoonup> string)" where
  "unlink_all io n [] files = (True, files)"
| "unlink_all io n (x # xs) files =
     (if io n then unlink_all io (Suc n) xs (files(x := None)) else (False, files))"

text \<open>Regenerating the files that have gone.\<close>

definition restore_files :: "(string \<times> string) list \<Rightarrow> (string \<rightharpoonup> string) \<Rightarrow> (string \<rightharpoonup> string)" where
  "restore_files saved files = (\<lambda>k. if files k = None then map_of (rev saved) k else files k)"

definition revert_clean :: "(nat \<Rightarrow> bool) \<Rightarrow> jwk list \<Rightarrow> (string \<times> string) list \<Rightarrow> (keystore, 'r) py" where
  "revert_clean io old_jwks saved w =
     (if \<not> io 1 then (Inl OSError, w)
      else (Inl (HTTPException 500),
            w\<lparr>jwks := old_jwks, public_files := restore_files saved (public_files w)\<rparr>))"

definition clean_transaction ::
  "(string \<Rightarrow> int \<times> int) \<Rightarrow> (nat \<Rightarrow> bool) \<Rightarrow> (nat \<Rightarrow> bool) \<Rightarrow> int \<Rightarrow> key_row list \<Rightarrow>
   exn + (string list \<times> key_row list \<times> key_row \<times> jwk)" where
  "clean_transaction point_of ok io now table =
     bindE (stmt ok 0 (Inr (map kid (filter (\<lambda>r. unexpired r \<and> \<not> active_row r) table)))) (\<lambda>ids.
     bindE (stmt ok 1 (Inr (update_where (\<lambda>r. kid r \<in> set ids) (\<lambda>r. r\<lparr>expired_at := Some now\<rparr>) table))) (\<lambda>rows.
     bindE (stmt ok 2 (scalar_one (filter active_row rows))) (\<lambda>active.
     bindE (key_mapping_of point_of ''ECDSA'' SECP256k1 (kid active) (public_pem active)) (\<lambda>m.
     if io 0 then Inr (ids, rows, active, m) else Inl OSError))))"

definition clean_keystore ::
  "(string \<Rightarrow> int \<times> int) \<Rightarrow> (nat \<Rightarrow> bool) \<Rightarrow> (nat \<Rightarrow> bool) \<Rightarrow> (keystore, string list \<times> string) py" where
  "clean_keystore point_of ok io w =
     (let old_jwks = jwks w in
      if length old_jwks = 1 then (Inl (HTTPException 409), w)
      else case traverse (\<lambda>m. case public_files w (jwk_kid m) of
                                None \<Rightarrow> Inl OSError | Some pem \<Rightarrow> Inr (jwk_kid m, pem)) old_jwks of
        Inl e \<Rightarrow> (Inl e, w)
      | Inr saved \<Rightarrow>
          (case clean_transaction point_of ok io (clock w) (keydata w) of
             Inl e \<Rightarrow> revert_clean io old_jwks saved w
           | Inr (ids, rows, active, m) \<Rightarrow>
               (case unlink_all io 2 ids (public_files w) of (done_all, files) \<Rightarrow>
                  let w1 = w\<lparr>jwks := [m], public_files := files\<rparr> in
                  if \<not> done_all \<or> \<not> ok 3 then revert_clean io old_jwks saved w1
                  else (Inr (ids, kid active),
                        w1\<lparr>keydata := rows, valid_keys := [kid active]\<rparr>))))"

section \<open>Bootup\<close>

definition metadata_of :: "key_row \<Rightarrow> key_metadata" where
  "metadata_of r = \<lparr>PUBLIC_PEM = public_pem r, PRIVATE_PEM = private_pem r, ALGORITHM = ''ES256'',
                    EPOCH = epoch r, ROTATED_AT = None\<rparr>"

definition sync_rotated_key :: "key_row \<Rightarrow> (keystore, unit) py" where
  "sync_rotated_key r w =
     (Inr (), w\<lparr>public_files := (public_files w)(kid r \<mapsto> public_pem r),
                private_files := (private_files w)(kid r := None)\<rparr>)"

definition sync_file_system_key_state :: "key_row \<Rightarrow> key_row list \<Rightarrow> (keystore, unit) py" where
  "sync_file_system_key_state active rotated =
     thenM (write_ecdsa_pair True True (private_pem active) (public_pem active) (kid active))
       (for_each sync_rotated_key rotated)"

definition purge_expired_keys :: "(keystore, unit) py" where
  "purge_expired_keys w =
     (let expired = kid ` set (get_expired_keys (keydata w)) in
      (Inr (), w\<lparr>public_files := (public_files w) |` (- expired), private_files := (private_files w) |` (- expired)\<rparr>))"

text \<open>
  The keys the master starts with, newest first: the active key, made when there is none, and
  at most \<open>jwks_cap\<close> of the others.  The call that would expire the surplus is not awaited.
\<close>

definition master_keydata :: "nat \<Rightarrow> ecdsa_pair \<Rightarrow> (keystore, key_row list) py" where
  "master_keydata jwks_cap pair =
     bindM (\<lambda>w. (get_relevant_keydata None False (keydata w), w)) (\<lambda>found.
       if found = [] then bindM (initialize_active_key pair) (\<lambda>active. pure [active])
       else let kept = (if jwks_cap < length found then take jwks_cap found else found) in
            if \<forall>r \<in> set found. \<not> active_row r
            then bindM (initialize_active_key pair) (\<lambda>active. pure (active # kept))
            else pure kept)"

definition master_bootup :: "nat \<Rightarrow> (string \<Rightarrow> int \<times> int) \<Rightarrow> ecdsa_pair \<Rightarrow> (keystore, unit) py" where
  "master_bootup jwks_cap point_of pair =
     tryM (bindM (master_keydata jwks_cap pair) (\<lambda>keys.
             thenM (sync_file_system_key_state (hd keys) (tl keys))
             (thenM purge_expired_keys
             (thenM (initialize_jwks point_of keys)
             (\<lambda>w. (Inr (), w\<lparr>valid_keys := rev (map kid (tl keys) @ [kid (hd keys)]),
                            key_state := set_key_state (kid (hd keys)) (metadata_of (hd keys))
                                       (map_of (rev (map (\<lambda>r. (kid r, metadata_of r)) (tl keys))))\<rparr>))))))
       (\<lambda>e. raise RuntimeError)"

fun split_keys :: "key_row list \<Rightarrow> (string \<times> key_metadata) option \<times> (string \<rightharpoonup> key_metadata) \<Rightarrow>
    (string \<times> key_metadata) option \<times> (string \<rightharpoonup> key_metadata)" where
  "split_keys [] acc = acc"
| "split_keys (r # rs) (act, rot) =
     (let m = \<lparr>PUBLIC_PEM = public_pem r, PRIVATE_PEM = private_pem r, ALGORITHM = alg r,
               EPOCH = epoch r, ROTATED_AT = rotated_out_at r\<rparr> in
      split_keys rs (if active_row r then (Some (kid r, m), rot) else (act, rot(kid r \<mapsto> m))))"

text \<open>\<open>slave_bootup\<close>, once the master's flag is gone.\<close>

definition slave_bootup :: "nat \<Rightarrow> bool \<Rightarrow> key_row list \<Rightarrow> exn + key_state" where
  "slave_bootup jwks_cap abort rows =
     (if abort then Inl RuntimeError
      else bindE (get_relevant_keydata (Some jwks_cap) True rows) (\<lambda>keys.
             case split_keys keys (None, Map.empty) of
               (None, _) \<Rightarrow> Inl RuntimeError
             | (Some (active_kid, m), rotated) \<Rightarrow> Inr (set_key_state active_kid m rotated)))"

section \<open>Lemmas on the table\<close>

lemma key_mapping_of_ok:
  assumes "curve_points point_of"
  obtains m where "key_mapping_of point_of algorithm c key_id pem = Inr m" and "jwk_kid m = key_id"
  using assms
  by (cases "point_of pem") (auto simp: key_mapping_of_def curve_points_def to_base64url_def dest!: spec [of _ pem])

lemma update_where_map:
  "(\<And>r. g (f r) = g r) \<Longrightarrow> map g (update_where P f rows) = map g rows"
  by (simp add: update_where_def comp_def)

lemma update_where_none: "(\<And>r. r \<in> set rows \<Longrightarrow> \<not> P r) \<Longrightarrow> update_where P f rows = rows"
  by (induction rows) (auto simp: update_where_def)

lemma update_where_append: "update_where P f (xs @ ys) = update_where P f xs @ update_where P f ys"
  by (simp add: update_where_def)

lemma filter_expired:
  "filter unexpired (update_where P (\<lambda>r. r\<lparr>expired_at := Some t\<rparr>) rows) = filter (\<lambda>r. \<not> P r) (filter unexpired rows)"
  by (induction rows) (auto simp: update_where_def)

lemma filter_out_first: "distinct (map f (h # t)) \<Longrightarrow> filter (\<lambda>r. f r \<noteq> f h) (h # t) = t"
  by (simp add: filter_id_conv image_iff) metis

lemma filter_active_expire:
  "filter active_row (update_where P (\<lambda>r. r\<lparr>expired_at := t\<rparr>) rows) =
   update_where P (\<lambda>r. r\<lparr>expired_at := t\<rparr>) (filter active_row rows)"
  by (induction rows) (auto simp: update_where_def)

text \<open>
  A rotation whose transaction is committed ends in an exception all the same, whichever of its
  files can be written; the key set is the new one if it can.
\<close>

lemma rotate_keys_accepted:
  assumes "curve_points point_of" and "r = SUPER"
    and "rotate_transaction ok max_valid (clock w) aid pair (keydata w) = Inr (rows, previous, oldest)"
  obtains m privs pubs where "jwk_kid m = pair_kid pair"
    and "rotate_keys cfg max_valid point_of ok io r aid pair w =
      (Inl OSError, w\<lparr>keydata := rows, jwks := (if io 0 then keep_last max_valid (jwks w @ [m]) else jwks w),
         private_files := privs, public_files := pubs\<rparr>)"
proof -
  obtain m where m: "key_mapping_of point_of ''ECDSA'' SECP256k1 (pair_kid pair) (verifying_pem pair) = Inr m"
      "jwk_kid m = pair_kid pair"
    using key_mapping_of_ok [OF assms(1)] by blast
  let ?privs = "if io 0 \<and> io 1 then (private_files w)(pair_kid pair \<mapsto> signing_pem pair) else private_files w"
  let ?pubs = "if io 0 \<and> io 1 \<and> io 2 then (public_files w)(pair_kid pair \<mapsto> verifying_pem pair) else public_files w"
  show thesis
    by (rule that [OF m(2), where privs = ?privs and pubs = ?pubs])
      (use m assms(2,3) in \<open>simp add: rotate_keys_def thenM_def bindM_def update_jwks_def Let_def
          write_ecdsa_pair_def unlink_below_jwks_def\<close>)
qed

section \<open>Exactly one active key\<close>

definition rotated_in_order :: "key_row list \<Rightarrow> bool" where
  "rotated_in_order rows \<longleftrightarrow> sorted_wrt (<) (map (\<lambda>r. the (rotated_out_at r)) rows)"

text \<open>
  The table ends with its only active key, which is not expired; the others were rotated out
  in the order of their insertion; the ids differ; at most \<open>max_valid\<close> keys are unexpired.
\<close>

definition table_inv :: "nat \<Rightarrow> int \<Rightarrow> key_row list \<Rightarrow> bool" where
  "table_inv max_valid now rows \<longleftrightarrow>
     (\<exists>old a. rows = old @ [a] \<and> active_row a \<and> unexpired a \<and> (\<forall>r \<in> set old. \<not> active_row r) \<and>
        rotated_in_order old \<and> (\<forall>r \<in> set old. the (rotated_out_at r) \<le> now)) \<and>
     distinct (map kid rows) \<and> length (filter unexpired rows) \<le> max_valid"

text \<open>
  The table is in order and, where every write of the key set file succeeds, the key set publishes
  the unexpired keys, the active one last.
\<close>

definition store_inv :: "bool \<Rightarrow> nat \<Rightarrow> keystore \<Rightarrow> bool" where
  "store_inv written max_valid w \<longleftrightarrow>
     table_inv max_valid (clock w) (keydata w) \<and>
     (written \<longrightarrow> map jwk_kid (jwks w) = map kid (filter unexpired (keydata w)))"

abbreviation keystore_inv :: "nat \<Rightarrow> keystore \<Rightarrow> bool" where
  "keystore_inv \<equiv> store_inv True"

lemma table_invE:
  assumes "table_inv max_valid now rows"
  obtains old a where "rows = old @ [a]" "active_row a" "unexpired a" "\<forall>r \<in> set old. \<not> active_row r"
    "rotated_in_order old" "\<forall>r \<in> set old. the (rotated_out_at r) \<le> now" "distinct (map kid rows)"
    "length (filter unexpired rows) \<le> max_valid" "filter active_row rows = [a]"
proof -
  from assms obtain old a where *: "rows = old @ [a]" "active_row a" "unexpired a" "\<forall>r \<in> set old. \<not> active_row r"
    "rotated_in_order old" "\<forall>r \<in> set old. the (rotated_out_at r) \<le> now" "distinct (map kid rows)"
    "length (filter unexpired rows) \<le> max_valid"
    by (auto simp: table_inv_def)
  moreover from * have "filter active_row rows = [a]" by (simp add: filter_empty_conv)
  ultimately show thesis by (rule that)
qed


lemma insert_row_Inr: "insert_row r rows = Inr rows' \<Longrightarrow> rows' = rows @ [r] \<and> kid r \<notin> kid ` set rows"
  by (simp add: insert_row_def split: if_splits)

text \<open>What an accepted rotation does to the table, the oldest rotated key being the first unexpired one.\<close>

lemma rotate_transaction_table:
  assumes "table_inv max_valid now0 rows" and "now0 < now"
    and "rotate_transaction ok max_valid now aid pair rows = Inr (rows', previous, oldest)"
  shows "(table_inv max_valid now rows' \<and>
          map kid (filter unexpired rows') =
            keep_last max_valid (map kid (filter unexpired rows) @ [pair_kid pair])) \<and>
         oldest = (if max_valid \<le> length (filter unexpired rows)
                   then Some (hd (map kid (filter unexpired rows))) else None)"
  using assms(1)
proof (rule table_invE)
  fix old a
  assume old: "rows = old @ [a]" "active_row a" "unexpired a" "\<forall>r \<in> set old. \<not> active_row r"
    "rotated_in_order old" "\<forall>r \<in> set old. the (rotated_out_at r) \<le> now0" "distinct (map kid rows)"
    "length (filter unexpired rows) \<le> max_valid" "filter active_row rows = [a]"
  let ?n = "new_key_row pair now"
  let ?a = "a\<lparr>rotated_out_at := Some now, manual_rotation := Some True, rotated_by := Some aid\<rparr>"
  let ?u = "update_where (\<lambda>r. kid r = kid a)
     (\<lambda>r. r\<lparr>rotated_out_at := Some now, manual_rotation := Some True, rotated_by := Some aid\<rparr>) rows"
  have u: "?u = old @ [?a]"
  proof -
    have "\<not> kid r = kid a" if "r \<in> set old" for r
      using old(1,7) that by (auto dest: rev_image_eqI [of r _ "kid a" kid])
    from update_where_none [OF this] show ?thesis
      by (simp add: old(1) update_where_append) (simp add: update_where_def)
  qed
  let ?rows2 = "old @ [?a, ?n]"
  have fresh: "kid ?n \<notin> kid ` set rows" and ins: "insert_row ?n ?u = Inr ?rows2"
  proof -
    from assms(3) old(9) have "\<exists>rows2. insert_row ?n ?u = Inr rows2"
      by (auto simp: rotate_transaction_def bindE_eq_Inr_iff stmt_def split: if_splits)
    then show "insert_row ?n ?u = Inr ?rows2" using insert_row_Inr [of ?n ?u] by (auto simp: u)
    then have "kid ?n \<notin> set (map kid ?u)" using insert_row_Inr [of ?n ?u ?rows2] by simp
    moreover have "map kid ?u = map kid rows" by (rule update_where_map) simp
    ultimately show "kid ?n \<notin> kid ` set rows" by simp
  qed
  have n: "active_row ?n" "unexpired ?n" "kid ?n = pair_kid pair" by (simp_all add: new_key_row_def)
  have order: "rotated_in_order (old @ [?a])" and latest: "\<forall>r \<in> set (old @ [?a]). the (rotated_out_at r) \<le> now"
    using old(5,6) assms(2) by (auto simp: rotated_in_order_def sorted_wrt_append)
  have kids: "distinct (map kid ?rows2)" using old(1,7) fresh n(3) by auto
  have valid: "filter unexpired ?rows2 = filter unexpired old @ [?a, ?n]" using old(3) n(2) by simp
  have before: "map kid (filter unexpired rows) = map kid (filter unexpired old @ [?a])"
    using old(1,3) by simp
  show ?thesis
  proof (cases "max_valid < length (filter unexpired ?rows2)")
    case False
    with assms(3) old(9) ins have "rows' = ?rows2 \<and> oldest = None"
      by (auto simp: rotate_transaction_def bindE_eq_Inr_iff stmt_def split: if_splits)
    moreover have "table_inv max_valid now ?rows2"
      using False order latest kids n old(4) unfolding table_inv_def
      by (intro conjI exI [of _ "old @ [?a]"] exI [of _ ?n]) auto
    moreover have "length (filter unexpired rows) = length (filter unexpired ?rows2) - 1"
      using old(1,3) valid by simp
    ultimately show ?thesis using False valid before n(3) by (simp add: keep_last_def)
  next
    case True
    let ?cands = "filter (\<lambda>r. \<not> active_row r \<and> unexpired r) ?rows2"
    obtain h t where ht: "filter unexpired old @ [?a] = h # t" by (cases "filter unexpired old @ [?a]") auto
    have sub: "sorted_wrt (<) (map (\<lambda>r. the (rotated_out_at r)) (filter unexpired old @ [?a]))"
      using order old(3)
      by (auto simp: rotated_in_order_def sorted_wrt_append sorted_wrt_map sorted_wrt_filter)
    have cands: "?cands = h # t"
      using old(3,4) n(1) ht by (auto cong: filter_cong)
    have "sorted (map (\<lambda>r. the (rotated_out_at r)) (h # t))"
      using sub unfolding ht by (rule sorted_wrt_mono_rel [rotated]) simp
    then have sorted: "sort_key (\<lambda>r. the (rotated_out_at r)) (h # t) = h # t"
      by (rule sort_key_id_if_sorted)
    have oldest: "select_oldest ?rows2 = Inr h" unfolding select_oldest_def cands sorted by simp
    let ?rows3 = "update_where (\<lambda>r. kid r = kid h) (\<lambda>r. r\<lparr>expired_at := Some now\<rparr>) ?rows2"
    from assms(3) old(9) ins True have r': "rows' = ?rows3" "oldest = Some (kid h)"
      by (auto simp: rotate_transaction_def bindE_eq_Inr_iff stmt_def oldest split: if_splits)
    have h: "h \<in> set (old @ [?a])"
    proof -
      have "h \<in> set (filter unexpired old @ [?a])" unfolding ht by simp
      then show ?thesis by auto
    qed
    have "kid h \<in> kid ` set (old @ [?a])" using h by (rule imageI)
    moreover have "kid ?n \<notin> kid ` set (old @ [?a])" using kids by auto
    ultimately have hn: "kid h \<noteq> kid ?n" by metis
    have rows3: "?rows3 = update_where (\<lambda>r. kid r = kid h) (\<lambda>r. r\<lparr>expired_at := Some now\<rparr>) (old @ [?a]) @ [?n]"
      using hn by (simp add: update_where_def)
    have "filter unexpired ?rows2 = (filter unexpired old @ [?a]) @ [?n]" unfolding valid by simp
    then have parts: "filter unexpired ?rows2 = h # t @ [?n]" unfolding ht by simp
    have dist: "distinct (map kid (h # t @ [?n]))"
      unfolding parts [symmetric] using kids by (rule distinct_map_filter)
    have left: "filter unexpired ?rows3 = t @ [?n]"
    proof -
      have "filter unexpired ?rows3 = filter (\<lambda>r. kid r \<noteq> kid h) (h # t @ [?n])"
        unfolding filter_expired parts by (rule refl)
      also have "\<dots> = t @ [?n]" by (rule filter_out_first [OF dist])
      finally show ?thesis .
    qed
    have len: "length (h # t) = max_valid" using True old(8) before valid ht
      by (metis One_nat_def Suc_eq_plus1 length_append length_map list.size(3,4) append.assoc append_Cons
          append_Nil le_antisym less_Suc_eq_le)
    have "table_inv max_valid now ?rows3"
      unfolding table_inv_def rows3 [symmetric] left
    proof (intro conjI exI)
      show "?rows3 = update_where (\<lambda>r. kid r = kid h) (\<lambda>r. r\<lparr>expired_at := Some now\<rparr>) (old @ [?a]) @ [?n]"
        by (rule rows3)
      show "rotated_in_order (update_where (\<lambda>r. kid r = kid h) (\<lambda>r. r\<lparr>expired_at := Some now\<rparr>) (old @ [?a]))"
        using order by (simp add: rotated_in_order_def update_where_map del: map_append)
      show "distinct (map kid ?rows3)" using kids by (simp add: update_where_map del: map_append)
    qed (use n len latest old(4) in \<open>auto simp: update_where_def\<close>)
    moreover have "map kid (filter unexpired ?rows3) =
        keep_last max_valid (map kid (filter unexpired rows) @ [pair_kid pair])"
      using len unfolding left before ht keep_last_def by (auto simp: n(3))
    moreover have "kid h = hd (map kid (filter unexpired rows)) \<and> length (filter unexpired rows) = max_valid"
      using before len unfolding ht by (metis length_map list.sel(1) list.simps(9))
    ultimately show ?thesis by (simp only: r' le_refl if_True)
  qed
qed




lemma report_keeps_keys [simp]:
  "keydata (snd (report_suspicious_activity cfg aid d f w)) = keydata w"
  "jwks (snd (report_suspicious_activity cfg aid d f w)) = jwks w"
  "key_state (snd (report_suspicious_activity cfg aid d f w)) = key_state w"
  "public_files (snd (report_suspicious_activity cfg aid d f w)) = public_files w"
  "valid_keys (snd (report_suspicious_activity cfg aid d f w)) = valid_keys w"
  by (simp_all add: report_suspicious_activity_def Let_def)





lemma scalar_one_Inr: "scalar_one xs = Inr x \<Longrightarrow> xs = [x]"
  by (cases xs rule: scalar_one.cases) auto

lemma clean_transaction_Inr:
  assumes "clean_transaction point_of ok io now table = Inr (ids, rows, active, m)"
  shows "ids = map kid (filter (\<lambda>r. unexpired r \<and> \<not> active_row r) table)"
    "rows = update_where (\<lambda>r. kid r \<in> set ids) (\<lambda>r. r\<lparr>expired_at := Some now\<rparr>) table"
    "filter active_row rows = [active]" "jwk_kid m = kid active"
  using assms
  by (auto simp: clean_transaction_def bindE_eq_Inr_iff stmt_def key_mapping_of_def scalar_one_Inr
      split: if_splits prod.splits)



definition demo_points :: "string \<Rightarrow> int \<times> int" where
  "demo_points pem = (1, 2)"

definition demo_pair :: "string \<Rightarrow> ecdsa_pair" where
  "demo_pair i = \<lparr>pair_kid = i, signing_pem = ''s'' @ i, verifying_pem = ''v'' @ i\<rparr>"

definition demo_jwk :: "string \<Rightarrow> jwk" where
  "demo_jwk i = \<lparr>kty = ''EC'', jwk_alg = ''ES256'', crv = SECP256k1, jwk_use = ''sig'', jwk_kid = i,
     jwk_x = ''A'', jwk_y = ''B''\<rparr>"

definition demo_keystore :: keystore where
  "demo_keystore = \<lparr>admins = [], activities = [], sessions = Map.empty, clock = 10,
     keydata = [demo_key_row ''1'' 5], jwks = [demo_jwk ''1''], public_files = [''1'' \<mapsto> ''v1''],
     private_files = [''1'' \<mapsto> ''s1''], valid_keys = [''1''],
     key_state = set_key_state ''1'' demo_metadata Map.empty\<rparr>"

lemma demo_points_ok [simp]: "curve_points demo_points"
  by (simp add: curve_points_def demo_points_def)

lemma demo_keystore_inv: "0 < n \<Longrightarrow> store_inv written n demo_keystore"
  by (auto simp: store_inv_def table_inv_def demo_keystore_def demo_key_row_def demo_jwk_def
      rotated_in_order_def intro!: exI [of _ "[]"])


abbreviation demo_rotation :: "keystore \<Rightarrow> keystore" where
  "demo_rotation w \<equiv>
     snd (rotate_keys demo_admin_config 2 demo_points (\<lambda>_. True) (\<lambda>_. True) SUPER 1 (demo_pair ''2'') w)"


lemma rotation_fresh:
  assumes "rotate_transaction ok max_valid now aid pair rows = Inr (rows', previous, oldest)"
  shows "pair_kid pair \<notin> kid ` set rows"
proof
  assume "pair_kid pair \<in> kid ` set rows"
  then have "kid (new_key_row pair now) \<in> set (map kid (update_where P
      (\<lambda>r. r\<lparr>rotated_out_at := Some now, manual_rotation := Some True, rotated_by := Some aid\<rparr>) rows))" for P
    by (simp add: update_where_map new_key_row_def)
  then have "insert_row (new_key_row pair now) (update_where P
      (\<lambda>r. r\<lparr>rotated_out_at := Some now, manual_rotation := Some True, rotated_by := Some aid\<rparr>) rows) =
      Inl SQLAlchemyError" for P
    by (auto simp: insert_row_def)
  then show False
    using assms by (auto simp: rotate_transaction_def bindE_eq_Inr_iff stmt_def split: if_splits)
qed

lemma report_ends: "fst (thenM (report_suspicious_activity cfg aid d f) (raise e) w) = Inl e"
  by (simp add: report_suspicious_activity_def thenM_def bindM_def raise_def Let_def split: prod.split)

text \<open>
  C5.  An invalidation that fails and is answered with the server's error 500 leaves everything as
  it was: table, key set, PEM files and the keys of the process.  But once the public PEM file is
  gone it cannot be answered so: the text that would be written back is on a row that the
  rollback has expired, reading it raises SQLAlchemy's exception, and the file stays removed
  while the table and the key set are the old ones, with the key valid and published.
\<close>

theorem failed_invalidation_reverts:
  assumes "invalidate_key cfg ok io aid key_id w = (Inl e, w')"
  shows "(e = HTTPException 500 \<longrightarrow> w' = w) \<and>
         (e = SQLAlchemyError \<longrightarrow> w' = w\<lparr>public_files := (public_files w)(key_id := None)\<rparr>)"
proof (cases "stmt ok 0 (get_keydata key_id (keydata w))")
  case (Inl e')
  then show ?thesis using assms
    by (auto simp: invalidate_key_def revert_invalidation_def Let_def split: if_splits)
next
  case (Inr found)
  show ?thesis
  proof (cases found)
    case None
    then show ?thesis using Inr assms by (auto simp: invalidate_key_def)
  next
    case (Some r)
    with Inr have found: "stmt ok 0 (get_keydata key_id (keydata w)) = Inr (Some r)" by simp
    show ?thesis
    proof (cases "active_row r \<or> \<not> unexpired r")
      case True
      then show ?thesis using assms found report_ends
        by (auto simp: invalidate_key_def Let_def split: if_splits)
    next
      case False
      then obtain t where r: "rotated_out_at r = Some t" "unexpired r" by auto
      consider "\<not> ok 1 \<or> \<not> io 0" | "ok 1" "io 0" "\<not> io 1" | "ok 1" "io 0" "io 1" "\<not> ok 2" | "ok 1" "io 0" "io 1" "ok 2"
        by blast
      then show ?thesis
      proof cases
        case 4
        then show ?thesis using assms found r
          by (cases "active_key (key_state w) = key_id")
            (auto simp: invalidate_key_def Let_def tm_invalidate_key_def)
      qed (use assms found r in \<open>auto simp: invalidate_key_def Let_def revert_invalidation_def fun_upd_idem
             split: if_splits\<close>)
    qed
  qed
qed

theorem failed_invalidation_reverts_witness:
  "invalidate_key demo_admin_config (\<lambda>n. n < 2) (\<lambda>_. True) 1 ''2''
     (demo_keystore\<lparr>keydata := [demo_rotated, demo_key_row ''1'' 5], public_files := [''2'' \<mapsto> ''v2'']\<rparr>) =
   (Inl SQLAlchemyError, demo_keystore\<lparr>keydata := [demo_rotated, demo_key_row ''1'' 5], public_files := Map.empty\<rparr>)"
proof -
  let ?w = "demo_keystore\<lparr>keydata := [demo_rotated, demo_key_row ''1'' 5], public_files := [''2'' \<mapsto> ''v2'']\<rparr>"
  let ?r = "invalidate_key demo_admin_config (\<lambda>n. n < 2) (\<lambda>_. True) 1 ''2'' ?w"
  have "fst ?r = Inl SQLAlchemyError"
    by (simp add: demo_keystore_def demo_rotated_def demo_key_row_def invalidate_key_def stmt_def
        get_keydata_def revert_invalidation_def Let_def)
  then have "?r = (Inl SQLAlchemyError, snd ?r)" by (simp add: prod_eq_iff)
  moreover from failed_invalidation_reverts [OF this] have "snd ?r = ?w\<lparr>public_files := Map.empty\<rparr>" by simp
  ultimately show ?thesis by simp
qed

section \<open>Rotation and the process\<close>

lemma filter_kid_distinct:
  "distinct (map kid rows) \<Longrightarrow> a \<in> set rows \<Longrightarrow> filter (\<lambda>r. kid r = kid a) rows = [a]"
proof (induction rows)
  case (Cons b rows)
  then show ?case
    by (cases "b = a") (auto simp: filter_empty_conv, metis image_eqI)
qed simp

lemma filter_kid_update:
  "(\<And>r. kid (f r) = kid r) \<Longrightarrow>
   filter (\<lambda>r. kid r = k) (update_where P f rows) = update_where P f (filter (\<lambda>r. kid r = k) rows)"
  by (induction rows) (auto simp: update_where_def)

text \<open>The previous key after an accepted rotation that did not expire it.\<close>

lemma rotated_row:
  assumes "table_inv max_valid now0 rows" and "filter active_row rows = [a]"
    and "rotate_transaction ok max_valid now aid pair rows = Inr (rows', previous, oldest)"
    and "oldest \<noteq> Some (kid a)"
  shows "filter (\<lambda>r. kid r = kid a) rows' =
     [a\<lparr>rotated_out_at := Some now, manual_rotation := Some True, rotated_by := Some aid\<rparr>] \<and> previous = kid a"
proof -
  let ?f = "\<lambda>r. r\<lparr>rotated_out_at := Some now, manual_rotation := Some True, rotated_by := Some aid\<rparr>"
  let ?rows1 = "update_where (\<lambda>r. kid r = kid a) ?f rows"
  from assms(1) obtain old a' where "rows = old @ [a']" "filter active_row rows = [a']" "distinct (map kid rows)"
    by (rule table_invE)
  then have only: "filter (\<lambda>r. kid r = kid a) rows = [a]"
    using assms(2) filter_kid_distinct [of rows a] by simp
  have rows1: "filter (\<lambda>r. kid r = kid a) ?rows1 = [?f a]"
    by (simp add: filter_kid_update only) (simp add: update_where_def)
  from assms(3) obtain rows2 where rows2: "insert_row (new_key_row pair now) ?rows1 = Inr rows2"
      "previous = kid a"
      "(oldest = None \<and> rows' = rows2) \<or>
       (\<exists>h. oldest = Some h \<and> rows' = update_where (\<lambda>r. kid r = h) (\<lambda>r. r\<lparr>expired_at := Some now\<rparr>) rows2)"
    by (auto simp: rotate_transaction_def bindE_eq_Inr_iff stmt_def assms(2) split: if_splits)
  have "kid (new_key_row pair now) \<noteq> kid a"
  proof
    assume "kid (new_key_row pair now) = kid a"
    moreover have "?f a \<in> set (filter (\<lambda>r. kid r = kid a) ?rows1)" unfolding rows1 by simp
    then have "kid (?f a) \<in> kid ` set ?rows1" by (intro imageI) simp
    ultimately show False using insert_row_Inr [OF rows2(1)] by simp
  qed
  then have "filter (\<lambda>r. kid r = kid a) rows2 = [?f a]"
    using insert_row_Inr [OF rows2(1)] rows1 by simp
  note row2 = this
  from rows2(3) show ?thesis
  proof (elim disjE exE conjE)
    fix h
    assume "oldest = Some h" and r': "rows' = update_where (\<lambda>r. kid r = h) (\<lambda>r. r\<lparr>expired_at := Some now\<rparr>) rows2"
    then have "kid a \<noteq> h" using assms(4) by auto
    then show ?thesis using rows2(2) by (simp add: r' filter_kid_update row2) (simp add: update_where_def)
  qed (simp add: row2 rows2(2))
qed

text \<open>
  C4.  A process never learns of its own rotation, which ends in an exception once it has been
  committed, whichever of its file operations succeed: it goes on signing with the key it rotated out, also after that key is
  invalidated, so that it signs with a key that has expired and is not published.
\<close>

theorem expired_key_still_signs:
  assumes "keystore_inv max_valid w" and "curve_points point_of"
    and "filter active_row (keydata w) = [a]" and "active_key (key_state w) = kid a"
    and "rotate_transaction ok max_valid (clock w) aid pair (keydata w) = Inr (rows, previous, oldest)"
    and "oldest \<noteq> Some (kid a)"
    and "rotate_keys cfg max_valid point_of ok io SUPER aid pair w = (r1, w1)"
    and "invalidate_key cfg (\<lambda>_. True) (\<lambda>_. True) aid (kid a) w1 = (r2, w2)"
  shows "active_key (key_state w2) = kid a \<and> kid a \<notin> set (map jwk_kid (jwks w2)) \<and>
         (\<exists>r \<in> set (keydata w2). kid r = kid a \<and> \<not> unexpired r)"
proof -
  have table: "table_inv max_valid (clock w) (keydata w)" using assms(1) by (simp add: store_inv_def)
  then have "unexpired a"
  proof (rule table_invE)
    fix a' assume "unexpired a'" and "filter active_row (keydata w) = [a']"
    then show ?thesis using assms(3) by simp
  qed
  let ?a = "a\<lparr>rotated_out_at := Some (clock w), manual_rotation := Some True, rotated_by := Some aid\<rparr>"
  have row: "filter (\<lambda>r. kid r = kid a) rows = [?a]"
    using rotated_row [OF table assms(3,5,6)] by simp
  from assms(7) obtain js pubs privs where w1: "w1 = w\<lparr>keydata := rows, jwks := js, private_files := privs, public_files := pubs\<rparr>"
    using rotate_keys_accepted [OF assms(2) refl assms(5)] by (metis prod.inject)
  have "w2 = w1\<lparr>jwks := filter (\<lambda>m. jwk_kid m \<noteq> kid a) js, public_files := pubs(kid a := None),
      keydata := update_where (\<lambda>r. kid r = kid a) (\<lambda>r. r\<lparr>expired_at := Some (clock w)\<rparr>) rows\<rparr>"
    using assms(8) row \<open>unexpired a\<close> assms(4)
    by (simp add: invalidate_key_def Let_def stmt_def get_keydata_def tm_invalidate_key_def w1)
  moreover have "?a \<in> set (filter (\<lambda>r. kid r = kid a) rows)" unfolding row by simp
  then have "?a\<lparr>expired_at := Some (clock w)\<rparr> \<in>
      set (update_where (\<lambda>r. kid r = kid a) (\<lambda>r. r\<lparr>expired_at := Some (clock w)\<rparr>) rows)"
    by (auto simp: update_where_def intro!: image_eqI [of _ _ ?a])
  ultimately show ?thesis using assms(4) by (auto simp: w1 intro!: bexI [rotated])
qed

theorem expired_key_still_signs_witness:
  "active_key (key_state (snd (invalidate_key demo_admin_config (\<lambda>_. True) (\<lambda>_. True) 1 ''1''
     (demo_rotation demo_keystore)))) = ''1''"
proof -
  have active: "filter active_row (keydata demo_keystore) = [demo_key_row ''1'' 5]"
    by (simp add: demo_keystore_def demo_key_row_def)
  have kid1: "kid (demo_key_row ''1'' 5) = ''1''" by (simp add: demo_key_row_def)
  obtain rows where "rotate_transaction (\<lambda>_. True) 2 (clock demo_keystore) 1 (demo_pair ''2'') (keydata demo_keystore) =
      Inr (rows, ''1'', None)"
    by (simp add: demo_keystore_def demo_key_row_def rotate_transaction_def stmt_def update_where_def
        insert_row_def new_key_row_def demo_pair_def)
  from expired_key_still_signs [OF demo_keystore_inv [of 2] demo_points_ok active _ this _ prod.collapse [symmetric]
      prod.collapse [symmetric], unfolded kid1, of demo_admin_config]
  show ?thesis by (simp add: demo_keystore_def set_key_state_def)
qed

section \<open>Cleaning the key store\<close>

lemma clean_keystore_Inr:
  assumes "clean_keystore point_of ok io w = (Inr (ids, k), w')"
  obtains active m saved files where
    "clean_transaction point_of ok io (clock w) (keydata w) = Inr (ids, keydata w', active, m)"
    and "unlink_all io 2 ids (public_files w) = (True, files)"
    and "jwks w' = [m]" and "valid_keys w' = [kid active]" and "k = kid active" and "public_files w' = files"
    and "key_state w' = key_state w" and "private_files w' = private_files w"
proof -
  let ?saved = "traverse (\<lambda>m. case public_files w (jwk_kid m) of
      None \<Rightarrow> Inl OSError | Some pem \<Rightarrow> Inr (jwk_kid m, pem)) (jwks w)"
  have "length (jwks w) \<noteq> 1" using assms by (auto simp: clean_keystore_def Let_def)
  with assms obtain saved where saved: "?saved = Inr saved"
    by (cases ?saved) (simp_all add: clean_keystore_def Let_def)
  with assms \<open>length (jwks w) \<noteq> 1\<close> obtain ids' rows active m where
    trans: "clean_transaction point_of ok io (clock w) (keydata w) = Inr (ids', rows, active, m)"
    by (cases "clean_transaction point_of ok io (clock w) (keydata w)")
      (auto simp: clean_keystore_def Let_def revert_clean_def split: if_splits)
  obtain b files where unlink: "unlink_all io 2 ids' (public_files w) = (b, files)" by fastforce
  from assms \<open>length (jwks w) \<noteq> 1\<close> saved trans unlink
  have "b \<and> ok 3 \<and> ids = ids' \<and> k = kid active \<and>
      w' = w\<lparr>jwks := [m], public_files := files, keydata := rows, valid_keys := [kid active]\<rparr>"
    by (cases "b \<and> ok 3") (auto simp: clean_keystore_def Let_def revert_clean_def split: if_splits)
  with trans unlink show thesis by (intro that) simp_all
qed

text \<open>
  C6.  The handler that cleans the key store, when it succeeds on a table in order, leaves one
  valid key, the active one: it alone is unexpired, published and listed as valid; the public
  PEM files of the expired ones are gone, but their private ones stay where they are; and the
  keys the process holds are untouched, so that it accepts the expired ones until it polls.
\<close>

theorem clean_leaves_active_key:
  assumes "table_inv max_valid now (keydata w)" and "filter active_row (keydata w) = [a]"
    and "clean_keystore point_of ok io w = (Inr (ids, k), w')"
  shows "filter unexpired (keydata w') = [a] \<and> map jwk_kid (jwks w') = [kid a] \<and> valid_keys w' = [kid a] \<and>
         k = kid a \<and> set ids = {kid r | r. r \<in> set (keydata w) \<and> unexpired r \<and> r \<noteq> a} \<and>
         (\<forall>i \<in> set ids. public_files w' i = None) \<and> private_files w' = private_files w \<and>
         key_state w' = key_state w"
proof -
  from assms(3) obtain active m saved files where
    trans: "clean_transaction point_of ok io (clock w) (keydata w) = Inr (ids, keydata w', active, m)"
    and unlink: "unlink_all io 2 ids (public_files w) = (True, files)"
    and w': "jwks w' = [m]" "valid_keys w' = [kid active]" "k = kid active" "public_files w' = files"
      "key_state w' = key_state w" "private_files w' = private_files w"
    by (rule clean_keystore_Inr)
  note facts = clean_transaction_Inr [OF trans]
  from assms(1) obtain old a' where old: "keydata w = old @ [a']" "active_row a'" "unexpired a'"
      "\<forall>r \<in> set old. \<not> active_row r" "distinct (map kid (keydata w))" "filter active_row (keydata w) = [a']"
    by (rule table_invE)
  have a: "a' = a" using old(6) assms(2) by simp
  have mem: "kid r \<in> set ids \<longleftrightarrow> unexpired r \<and> \<not> active_row r" if "r \<in> set (keydata w)" for r
    using that old(5) by (auto simp: facts(1) inj_on_eq_iff [OF conjunct2 [OF distinct_map [THEN iffD1]]])
  have same: "keydata w' = update_where (\<lambda>r. unexpired r \<and> \<not> active_row r)
      (\<lambda>r. r\<lparr>expired_at := Some (clock w)\<rparr>) (keydata w)"
    unfolding facts(2) update_where_def using mem by (intro map_cong) auto
  have "filter unexpired (keydata w') = [a]"
    unfolding same filter_expired using old(1-4) a by (auto simp: filter_empty_conv)
  moreover have "active = a"
    using facts(3) old(2,3) unfolding same filter_active_expire old(6) by (simp add: update_where_def a)
  moreover have "set ids = {kid r | r. r \<in> set (keydata w) \<and> unexpired r \<and> r \<noteq> a}"
    using old(1,2,4) a by (auto simp: facts(1))
  moreover have "i \<in> set xs \<Longrightarrow> fst (unlink_all io n xs fs) \<Longrightarrow> snd (unlink_all io n xs fs) i = None" for i n xs fs
  proof (induction xs arbitrary: n fs)
    case (Cons x xs)
    have "snd (unlink_all io n ys gs) i = None" if "gs i = None" for n ys gs
      using that by (induction ys arbitrary: n gs) auto
    with Cons show ?case by (auto split: if_splits)
  qed simp
  from this [of _ ids 2 "public_files w"] have "\<forall>i \<in> set ids. public_files w' i = None"
    using unlink w'(4) by simp
  ultimately show ?thesis using w' facts(4) by auto
qed

definition rotated_keystore :: keystore where
  "rotated_keystore = demo_keystore\<lparr>keydata := [demo_rotated, demo_key_row ''1'' 9],
     jwks := [demo_jwk ''2'', demo_jwk ''1''], public_files := [''1'' \<mapsto> ''v1'', ''2'' \<mapsto> ''v2'']\<rparr>"

lemma rotated_table: "table_inv 2 10 (keydata rotated_keystore)"
  unfolding table_inv_def
  by (intro conjI exI [of _ "[demo_rotated]"] exI [of _ "demo_key_row ''1'' 9"])
    (simp_all add: rotated_keystore_def demo_keystore_def demo_rotated_def demo_key_row_def rotated_in_order_def)

lemma demo_point_key: "\<exists>m. key_mapping_of demo_points x y z p = Inr m \<and> jwk_kid m = z"
  using key_mapping_of_ok [OF demo_points_ok] by metis

theorem clean_leaves_active_key_witness:
  "\<exists>ids k w'. clean_keystore demo_points (\<lambda>_. True) (\<lambda>_. True) rotated_keystore = (Inr (ids, k), w') \<and>
     valid_keys w' = [''1''] \<and> public_files w' ''2'' = None"
proof -
  have active: "filter active_row (keydata rotated_keystore) = [demo_key_row ''1'' 9]"
    by (simp add: rotated_keystore_def demo_rotated_def demo_key_row_def)
  obtain w' where run: "clean_keystore demo_points (\<lambda>_. True) (\<lambda>_. True) rotated_keystore = (Inr ([''2''], ''1''), w')"
    using demo_point_key [of "''ECDSA''" SECP256k1 "''1''" "''v1''"]
    by (auto simp: clean_keystore_def clean_transaction_def rotated_keystore_def demo_keystore_def demo_rotated_def
        demo_key_row_def demo_jwk_def stmt_def update_where_def Let_def)
  from clean_leaves_active_key [OF rotated_table active run] run
  show ?thesis by (auto simp: demo_key_row_def)
qed

section \<open>Bootup\<close>

lemma relevant_keydata:
  "sorted (map epoch rows) \<Longrightarrow> rev (sort_key epoch (filter unexpired rows)) = rev (filter unexpired rows)"
  by (simp add: sort_key_id_if_sorted sorted_filter)

lemma sync_run:
  "\<exists>p q. sync_file_system_key_state a rs w = (Inr (), w\<lparr>public_files := p, private_files := q\<rparr>)"
proof -
  have "\<exists>p q. for_each sync_rotated_key rs v =
      (Inr (), v\<lparr>public_files := p, private_files := q\<rparr>)" for v :: keystore
  proof (induction rs arbitrary: v)
    case Nil
    show ?case by (rule exI [of _ "public_files v"], rule exI [of _ "private_files v"]) simp
  next
    case (Cons r rs)
    let ?v = "v\<lparr>public_files := (public_files v)(kid r \<mapsto> public_pem r),
      private_files := (private_files v)(kid r := None)\<rparr>"
    have "sync_rotated_key r v = (Inr (), ?v)" by (simp add: sync_rotated_key_def)
    moreover from Cons.IH [of ?v] obtain p q where
      "for_each sync_rotated_key rs ?v = (Inr (), ?v\<lparr>public_files := p, private_files := q\<rparr>)" by blast
    ultimately have "for_each sync_rotated_key (r # rs) v = (Inr (), v\<lparr>public_files := p, private_files := q\<rparr>)" by simp
    then show ?case by blast
  qed
  from this [of "snd (write_ecdsa_pair True True (private_pem a) (public_pem a) (kid a) w)"] obtain p q where
    "for_each sync_rotated_key rs (snd (write_ecdsa_pair True True (private_pem a) (public_pem a) (kid a) w)) =
     (Inr (), w\<lparr>public_files := p, private_files := q\<rparr>)"
    by (auto simp: write_ecdsa_pair_def)
  moreover have "write_ecdsa_pair True True (private_pem a) (public_pem a) (kid a) w =
     (Inr (), snd (write_ecdsa_pair True True (private_pem a) (public_pem a) (kid a) w))"
    by (simp add: write_ecdsa_pair_def)
  ultimately show ?thesis
    unfolding sync_file_system_key_state_def by (metis thenM_Inr)
qed

lemma initialize_jwks_run:
  assumes "curve_points point_of" and "rows \<noteq> []"
  shows "\<exists>ms. initialize_jwks point_of rows w = (Inr (), w\<lparr>jwks := ms\<rparr>) \<and> map jwk_kid ms = map kid rows"
proof -
  have "\<exists>ms. traverse (\<lambda>r. key_mapping_of point_of (alg r) (curve r) (kid r) (public_pem r)) rows = Inr ms \<and>
      map jwk_kid ms = map kid rows" for rows
  proof (induction rows)
    case (Cons r rows)
    then obtain ms where "traverse (\<lambda>r. key_mapping_of point_of (alg r) (curve r) (kid r) (public_pem r)) rows = Inr ms"
        "map jwk_kid ms = map kid rows" by blast
    moreover obtain m where "key_mapping_of point_of (alg r) (curve r) (kid r) (public_pem r) = Inr m" "jwk_kid m = kid r"
      by (rule key_mapping_of_ok [OF assms(1)])
    ultimately show ?case by simp
  qed simp
  from this [of rows] assms(2) show ?thesis by (auto simp: initialize_jwks_def)
qed

text \<open>A restart of the master over a table in order: the key set is written newest first.\<close>

lemma master_bootup_run:
  assumes "table_inv max_valid now (keydata w)" and "sorted (map epoch (keydata w))"
    and "length (filter unexpired (keydata w)) \<le> jwks_cap" and "curve_points point_of"
    and "filter active_row (keydata w) = [a]"
    and "master_bootup jwks_cap point_of pair w = (r, w')"
  obtains others where "filter unexpired (keydata w) = others @ [a]" and "r = Inr ()"
    and "keydata w' = keydata w" and "clock w' = clock w" and "map jwk_kid (jwks w') = rev (map kid (others @ [a]))"
    and "valid_keys w' = kid a # map kid others"
    and "key_state w' = set_key_state (kid a) (metadata_of a) (map_of (rev (map (\<lambda>r. (kid r, metadata_of r)) (rev others))))"
proof -
  from assms(1) obtain old a' where old: "keydata w = old @ [a']" "active_row a'" "unexpired a'"
      "filter active_row (keydata w) = [a']"
    by (rule table_invE)
  then have a: "a' = a" using assms(5) by simp
  let ?others = "filter unexpired old"
  have valid: "filter unexpired (keydata w) = ?others @ [a]" using old a by simp
  let ?keys = "a # rev ?others"
  have "get_relevant_keydata None False (keydata w) = Inr ?keys"
    unfolding get_relevant_keydata_def Let_def relevant_keydata [OF assms(2)] unfolding valid by simp
  then have keys: "master_keydata jwks_cap pair w = (Inr ?keys, w)"
    using assms(3) old(2) a by (auto simp: master_keydata_def bindM_def valid Let_def)
  obtain p q where sync: "sync_file_system_key_state a (rev ?others) w = (Inr (), w\<lparr>public_files := p, private_files := q\<rparr>)"
    using sync_run by blast
  obtain w2 where purge: "purge_expired_keys (w\<lparr>public_files := p, private_files := q\<rparr>) = (Inr (), w2)"
      "keydata w2 = keydata w" "clock w2 = clock w"
    by (simp add: purge_expired_keys_def Let_def)
  obtain ms where ms: "initialize_jwks point_of ?keys w2 = (Inr (), w2\<lparr>jwks := ms\<rparr>)" "map jwk_kid ms = map kid ?keys"
    using initialize_jwks_run [OF assms(4), of ?keys w2] by auto
  let ?w3 = "w2\<lparr>jwks := ms, valid_keys := kid a # map kid ?others, key_state := set_key_state (kid a) (metadata_of a)
          (map_of (rev (map (\<lambda>r. (kid r, metadata_of r)) (rev ?others))))\<rparr>"
  have "master_bootup jwks_cap point_of pair w = (Inr (), ?w3)"
    unfolding master_bootup_def by (rule tryM_Inr) (simp add: keys sync purge(1) ms(1) rev_map)
  then have "w' = ?w3 \<and> r = Inr ()" using assms(6) by simp
  then show thesis
    by (intro that [OF valid]) (simp_all add: ms(2) purge(2,3) rev_map)
qed

text \<open>
  C3.  A restart turns the key set around, for the bootup writes it newest first and a rotation
  drops its head: the first rotation after a restart at full capacity, once it has written the
  key set, has taken the key that was active until then off it, although the database keeps it valid, and keeps
  publishing the one that the rotation expired.
\<close>

theorem restart_unpublishes_valid_key:
  assumes "table_inv max_valid now (keydata w)" and "sorted (map epoch (keydata w))"
    and "length (filter unexpired (keydata w)) = max_valid" and "max_valid \<le> jwks_cap" and "2 \<le> max_valid"
    and "curve_points point_of" and "filter active_row (keydata w) = [a]" and "now < clock w"
    and "master_bootup jwks_cap point_of pair0 w = (r0, w1)"
    and "rotate_transaction ok max_valid (clock w1) aid pair (keydata w1) = Inr (rows, previous, oldest)"
    and "rotate_keys cfg max_valid point_of ok io SUPER aid pair w1 = (r1, w2)" and "pair_kid pair \<noteq> kid a"
    and "io 0"
  shows "kid a \<notin> set (map jwk_kid (jwks w2)) \<and>
         (\<exists>r \<in> set (keydata w2). kid r = kid a \<and> unexpired r) \<and>
         (\<exists>k. oldest = Some k \<and> k \<in> set (map jwk_kid (jwks w2)) \<and>
              (\<forall>r \<in> set (keydata w2). kid r = k \<longrightarrow> \<not> unexpired r))"
proof -
  obtain others where boot: "filter unexpired (keydata w) = others @ [a]" "keydata w1 = keydata w" "clock w1 = clock w"
      "map jwk_kid (jwks w1) = rev (map kid (others @ [a]))"
    using master_bootup_run [OF assms(1,2) _ assms(6,7,9)] assms(3,4) by metis
  obtain b bs where bs: "others = b # bs" using assms(3,5) boot(1) by (cases others) auto
  have table: "table_inv max_valid now (keydata w1)" using assms(1) boot(2) by simp
  have tr: "table_inv max_valid (clock w1) rows" "oldest = Some (kid b)"
      "map kid (filter unexpired rows) = tl (map kid (others @ [a])) @ [pair_kid pair]"
    using rotate_transaction_table [OF table _ assms(10)] assms(3,8) boot bs by (auto simp: keep_last_def)
  have dist: "distinct (map kid (others @ [a]))"
    using assms(1) boot(1) by (metis distinct_map_filter table_inv_def)
  then have "kid b \<noteq> kid a" using bs by auto
  obtain m privs pubs where m0: "jwk_kid m = pair_kid pair"
      "rotate_keys cfg max_valid point_of ok io SUPER aid pair w1 =
      (Inl OSError, w1\<lparr>keydata := rows, jwks := (if io 0 then keep_last max_valid (jwks w1 @ [m]) else jwks w1),
         private_files := privs, public_files := pubs\<rparr>)"
    by (rule rotate_keys_accepted [where cfg = cfg and io = io, OF assms(6) refl assms(10)])
  then have m: "jwk_kid m = pair_kid pair" "keydata w2 = rows" "jwks w2 = keep_last max_valid (jwks w1 @ [m])"
    using assms(11,13) by auto
  have len: "length (jwks w1) = max_valid" using boot(1,4) assms(3) by (metis length_map length_rev)
  have "map jwk_kid (jwks w2) = tl (map jwk_kid (jwks w1)) @ [pair_kid pair]"
    using len m assms(5) by (simp add: keep_last_def drop_Suc map_tl)
  then have published: "map jwk_kid (jwks w2) = rev (map kid others) @ [pair_kid pair]"
    by (simp add: boot(4))
  have "kid a \<in> set (map kid (filter unexpired rows))" using tr(3) bs by simp
  then have "\<exists>r \<in> set rows. kid r = kid a \<and> unexpired r" by auto
  moreover have "kid a \<notin> set (map jwk_kid (jwks w2))" using published dist assms(12) by auto
  moreover have "kid b \<in> set (map jwk_kid (jwks w2))" using published bs by simp
  moreover have "\<not> unexpired r" if "r \<in> set rows" "kid r = kid b" for r
  proof
    assume "unexpired r"
    then have "r \<in> set (filter unexpired rows)" using that(1) by simp
    then have "kid r \<in> set (map kid (filter unexpired rows))" unfolding set_map by (rule imageI)
    then have "kid b \<in> set (map kid (filter unexpired rows))" using that(2) by simp
    then have "kid b = pair_kid pair" using tr(3) dist bs by auto
    moreover have "pair_kid pair \<notin> kid ` set (keydata w1)"
      using rotation_fresh [OF assms(10)] .
    moreover have "b \<in> set (keydata w1)"
      using boot(1,2) bs by (metis filter_is_subset list.set_intros(1) append_Cons subsetD)
    ultimately show False by (metis imageI)
  qed
  ultimately show ?thesis using m(2) tr(2) by auto
qed

lemma rotated_facts:
  "table_inv 2 9 (keydata rotated_keystore)" "sorted (map epoch (keydata rotated_keystore))"
  "length (filter unexpired (keydata rotated_keystore)) = 2" "clock rotated_keystore = 10"
  "filter active_row (keydata rotated_keystore) = [demo_key_row ''1'' 9]"
proof -
  show "table_inv 2 9 (keydata rotated_keystore)"
    unfolding table_inv_def
    by (intro conjI exI [of _ "[demo_rotated]"] exI [of _ "demo_key_row ''1'' 9"])
      (simp_all add: rotated_keystore_def demo_keystore_def demo_rotated_def demo_key_row_def rotated_in_order_def)
qed (simp_all add: rotated_keystore_def demo_keystore_def demo_rotated_def demo_key_row_def)

theorem restart_unpublishes_valid_key_witness:
  "\<exists>w1 w2. master_bootup 2 demo_points (demo_pair ''9'') rotated_keystore = (Inr (), w1) \<and>
     w2 = snd (rotate_keys demo_admin_config 2 demo_points (\<lambda>_. True) (\<lambda>_. True) SUPER 1 (demo_pair ''3'') w1) \<and>
     ''1'' \<notin> set (map jwk_kid (jwks w2)) \<and> (\<exists>r \<in> set (keydata w2). kid r = ''1'' \<and> unexpired r)"
proof -
  let ?b = "master_bootup 2 demo_points (demo_pair ''9'') rotated_keystore"
  obtain w1 where boot: "?b = (Inr (), w1)" "keydata w1 = keydata rotated_keystore" "clock w1 = 10"
  proof (rule master_bootup_run [OF rotated_facts(1,2) eq_refl [OF rotated_facts(3)] demo_points_ok rotated_facts(5)
        prod.collapse [symmetric], where pair = "demo_pair ''9''"])
    assume "fst ?b = Inr ()" "keydata (snd ?b) = keydata rotated_keystore" "clock (snd ?b) = clock rotated_keystore"
    then show thesis using rotated_facts(4) by (intro that [of "snd ?b"]) (simp_all add: prod_eq_iff)
  qed
  obtain rows where rot: "rotate_transaction (\<lambda>_. True) 2 (clock w1) 1 (demo_pair ''3'') (keydata w1) =
      Inr (rows, ''1'', Some ''2'')"
    by (simp add: boot rotated_keystore_def demo_keystore_def demo_rotated_def demo_key_row_def rotate_transaction_def
        stmt_def update_where_def insert_row_def new_key_row_def demo_pair_def select_oldest_def)
  have k1: "kid (demo_key_row ''1'' 9) = ''1''" by (simp add: demo_key_row_def)
  have "9 < clock rotated_keystore" "pair_kid (demo_pair ''3'') \<noteq> kid (demo_key_row ''1'' 9)"
    by (simp_all add: rotated_facts(4) demo_pair_def k1)
  note restart = restart_unpublishes_valid_key [OF rotated_facts(1-3) order_refl order_refl demo_points_ok rotated_facts(5) this(1)
      boot(1) rot prod.collapse [symmetric] this(2), of "\<lambda>_. True" demo_admin_config, unfolded k1, OF TrueI]
  show ?thesis
    by (rule exI [of _ w1], rule exI, intro conjI, rule boot(1), rule refl) (use restart in blast)+
qed



text \<open>What a key is used for: its two PEM texts and its epoch.\<close>

definition key_material :: "key_metadata \<Rightarrow> string \<times> string \<times> int" where
  "key_material m = (PUBLIC_PEM m, PRIVATE_PEM m, EPOCH m)"

lemma split_keys_rotated:
  "\<forall>r \<in> set rs. \<not> active_row r \<Longrightarrow>
   \<exists>rot'. split_keys rs (act, rot) = (act, rot') \<and>
     (\<forall>i. map_option key_material (rot' i) =
          map_option key_material ((rot ++ map_of (rev (map (\<lambda>r. (kid r, metadata_of r)) rs))) i))"
proof (induction rs arbitrary: rot)
  case (Cons r rs)
  let ?m = "\<lparr>PUBLIC_PEM = public_pem r, PRIVATE_PEM = private_pem r, ALGORITHM = alg r,
               EPOCH = epoch r, ROTATED_AT = rotated_out_at r\<rparr>"
  let ?rest = "map_of (rev (map (\<lambda>r. (kid r, metadata_of r)) rs))"
  have not_active: "active_row r = False" using Cons.prems by simp
  have "\<forall>r \<in> set rs. \<not> active_row r" using Cons.prems by simp
  from Cons.IH [OF this, of "rot(kid r \<mapsto> ?m)"] obtain rot' where
      "split_keys rs (act, rot(kid r \<mapsto> ?m)) = (act, rot')"
      "\<forall>i. map_option key_material (rot' i) = map_option key_material ((rot(kid r \<mapsto> ?m) ++ ?rest) i)" by blast
  moreover have "split_keys (r # rs) (act, rot) = split_keys rs (act, rot(kid r \<mapsto> ?m))"
    using not_active by (simp only: split_keys.simps Let_def if_False)
  moreover have "map_option key_material ((rot(kid r \<mapsto> ?m) ++ ?rest) i) =
      map_option key_material ((rot ++ map_of (rev (map (\<lambda>r. (kid r, metadata_of r)) (r # rs)))) i)" for i
    by (simp add: map_add_def key_material_def metadata_of_def split: option.split)
  ultimately show ?case by auto
qed simp

text \<open>
  C7.  A slave process that starts after the master holds the keys the master starts with: the
  same active key, and under the same ids the same public and private texts and epochs, provided
  the master found the table in order, with the epochs in the order of insertion, and no more
  unexpired keys than \<open>jwks_cap\<close>, so that it neither made a key nor cut the list.  (The two
  take the name of the algorithm and the time of rotation from different places.)
\<close>

theorem slave_agrees_with_master:
  assumes "table_inv max_valid now (keydata w)" and "sorted (map epoch (keydata w))"
    and "length (filter unexpired (keydata w)) \<le> jwks_cap" and "curve_points point_of"
    and "master_bootup jwks_cap point_of pair w = (r, w')"
  shows "\<exists>k. slave_bootup jwks_cap False (keydata w') = Inr k \<and>
             active_key k = active_key (key_state w') \<and>
             (\<forall>i. map_option key_material (key_mapping k i) =
                  map_option key_material (key_mapping (key_state w') i))"
proof -
  obtain old a where old: "keydata w = old @ [a]" "active_row a" "unexpired a" "\<forall>r \<in> set old. \<not> active_row r"
      "filter active_row (keydata w) = [a]"
    using assms(1) by (rule table_invE)
  obtain others where boot: "filter unexpired (keydata w) = others @ [a]" "keydata w' = keydata w"
      "key_state w' = set_key_state (kid a) (metadata_of a) (map_of (rev (map (\<lambda>r. (kid r, metadata_of r)) (rev others))))"
    by (rule master_bootup_run [OF assms(1-4) old(5) assms(5)])
  have others: "others = filter unexpired old" using boot(1) old(1,3) by simp
  have keys: "get_relevant_keydata (Some jwks_cap) True (keydata w) = Inr (a # rev others)"
    unfolding get_relevant_keydata_def Let_def relevant_keydata [OF assms(2)] unfolding boot(1)
    using assms(3) boot(1) by simp
  let ?m = "\<lparr>PUBLIC_PEM = public_pem a, PRIVATE_PEM = private_pem a, ALGORITHM = alg a,
      EPOCH = epoch a, ROTATED_AT = None\<rparr>"
  have "\<forall>r \<in> set (rev others). \<not> active_row r" using old(4) others by simp
  from split_keys_rotated [OF this, of "Some (kid a, ?m)" Map.empty] obtain rot where
      rot: "split_keys (rev others) (Some (kid a, ?m), Map.empty) = (Some (kid a, ?m), rot)"
      "\<forall>i. map_option key_material (rot i) =
           map_option key_material (map_of (rev (map (\<lambda>r. (kid r, metadata_of r)) (rev others))) i)"
    by auto
  have "slave_bootup jwks_cap False (keydata w') = Inr (set_key_state (kid a) ?m rot)"
    using old(2) keys rot(1) by (simp add: slave_bootup_def boot(2) Let_def)
  moreover have "map_option key_material (key_mapping (set_key_state (kid a) ?m rot) i) =
      map_option key_material (key_mapping (key_state w') i)" for i
    using rot(2) unfolding boot(3) by (simp add: set_key_state_def key_material_def metadata_of_def)
  ultimately show ?thesis unfolding boot(3) by (simp add: set_key_state_def)
qed

theorem slave_agrees_with_master_witness:
  "\<exists>w' k. master_bootup 2 demo_points (demo_pair ''9'') rotated_keystore = (Inr (), w') \<and>
     slave_bootup 2 False (keydata w') = Inr k \<and> active_key k = ''1''"
proof -
  let ?b = "master_bootup 2 demo_points (demo_pair ''9'') rotated_keystore"
  obtain w' where boot: "?b = (Inr (), w')" "active_key (key_state w') = ''1''"
  proof (rule master_bootup_run [OF rotated_facts(1,2) eq_refl [OF rotated_facts(3)] demo_points_ok rotated_facts(5)
        prod.collapse [symmetric], where pair = "demo_pair ''9''"])
    fix others
    assume "fst ?b = Inr ()" "key_state (snd ?b) = set_key_state (kid (demo_key_row ''1'' 9)) (metadata_of (demo_key_row ''1'' 9))
       (map_of (rev (map (\<lambda>r. (kid r, metadata_of r)) (rev others))))"
    then show thesis by (intro that [of "snd ?b"]) (simp_all add: prod_eq_iff set_key_state_def demo_key_row_def)
  qed
  from slave_agrees_with_master [OF rotated_facts(1,2) eq_refl [OF rotated_facts(3)] demo_points_ok boot(1)] boot
  show ?thesis by auto
qed

end
