(* ===== verification/Tenjin_Tokens.thy ===== *)
theory Tenjin_Tokens
  imports Tenjin_Keys
begin

text \<open>
  The tokens of the auth server: decoding, issuing and reissuing
  (\<^verbatim>\<open>security/token_manager.py\<close>, \<^verbatim>\<open>security/tokens.py\<close>) and the routes that use them
  (\<^verbatim>\<open>routers/auth.py\<close>).

  The token store keeps for every family a Redis list of texts \<^verbatim>\<open><jti>:<exp>\<close>, newest first; it
  hands back bytes, and \<open>str\<close> of bytes is their literal, with the quotes.  The \<open>jwt\<close> package
  is a parameter: the key id in a token's header, the verified claims, the unverified claims,
  and the encoding.
\<close>

section \<open>State and parameters\<close>

datatype token_type = StandardAccess | StandardRefresh

record token_claims =
  c_sub :: string
  c_sid :: int
  c_fid :: string
  c_jti :: string
  c_exp :: int

record token_world =
  families :: "string \<Rightarrow> string list"
  now :: int

record 'r token_manager =
  keys :: key_state
  refresh_lifetime :: int
  access_lifetime :: int
  leeway :: int
  max_llen :: nat
  header_kid :: "string \<Rightarrow> exn + string"
  jwt_decode :: "string \<Rightarrow> string \<Rightarrow> bool \<Rightarrow> string \<Rightarrow> exn + token_claims"
  jwt_unverified :: "string \<Rightarrow> exn + token_claims"
  jwt_encode :: "(string \<times> int) list \<Rightarrow> token_claims \<Rightarrow> string \<Rightarrow> string \<Rightarrow> string \<Rightarrow> string"
  float_of_bytes :: "string \<Rightarrow> exn + int"
  hexdigest :: "string \<Rightarrow> string"
  new_uuid :: "int \<Rightarrow> string"

text \<open>\<open>str(b'...')\<close>, for the printable bytes of an id.\<close>

definition str_of_bytes :: "string \<Rightarrow> string" where
  "str_of_bytes b = CHR ''b'' # CHR 0x27 # b @ [CHR 0x27]"

definition family_entry :: "string \<Rightarrow> int \<Rightarrow> string" where
  "family_entry jti exp = jti @ CHR '':'' # str_of_int exp"

section \<open>Families\<close>

definition invalidate_family :: "string \<Rightarrow> (token_world, unit) py" where
  "invalidate_family fid w = (Inr (), w\<lparr>families := (families w)(fid := [])\<rparr>)"

text \<open>\<open>RPOP key count\<close> takes entries from the old end of the list.\<close>

definition rpop :: "nat \<Rightarrow> 'a list \<Rightarrow> 'a list" where
  "rpop n xs = take (length xs - n) xs"

definition shift_token_window :: "'r token_manager \<Rightarrow> string \<Rightarrow> (token_world, unit) py" where
  "shift_token_window tm fid w =
     (let llen = length (families w fid) in
      if llen = 0 then (Inr (), w)
      else if max_llen tm \<le> llen
      then (Inr (), w\<lparr>families := (families w)(fid := rpop (max 1 (llen - max_llen tm)) (families w fid))\<rparr>)
      else (Inr (), w))"

section \<open>Issuing\<close>

definition sign :: "'r token_manager \<Rightarrow> (string \<times> int) list \<Rightarrow> token_claims \<Rightarrow> exn + string" where
  "sign tm stamps c =
     bindE (py_lookup (key_mapping (keys tm)) (active_key (keys tm))) (\<lambda>m.
       Inr (jwt_encode tm stamps c (PRIVATE_PEM m) (ALGORITHM m) (active_key (keys tm))))"

text \<open>The check of the newest entry, and the entry of the new token.\<close>

definition check_family :: "'r token_manager \<Rightarrow> string \<Rightarrow> string option \<Rightarrow> int option \<Rightarrow> (token_world, unit) py" where
  "check_family tm family_id jti exp w =
     (if family_id \<noteq> []
      then case families w family_id of
             [] \<Rightarrow> thenM (invalidate_family family_id) (raise ValueError) w
           | entry # _ \<Rightarrow>
               (if entry = [] then thenM (invalidate_family family_id) (raise ValueError) w
                else let parts = split_on CHR '':'' entry in
                     if Some (str_of_bytes (parts ! 0)) \<noteq> jti
                     then thenM (invalidate_family family_id) (raise ValueError) w
                     else bindM (lift_sum (bindE (py_nth parts 1) (float_of_bytes tm))) (\<lambda>f.
                            if Some f \<noteq> exp then thenM (invalidate_family family_id) (raise ValueError)
                            else pure ()) w)
      else if families w family_id \<noteq> [] then invalidate_family family_id w else (Inr (), w))"

definition issue_refresh_token ::
  "'r token_manager \<Rightarrow> string \<Rightarrow> int \<Rightarrow> string \<Rightarrow> string option \<Rightarrow> int option \<Rightarrow> (token_world, string) py" where
  "issue_refresh_token tm sub sid family_id jti exp =
     thenM (check_family tm family_id jti exp) (\<lambda>w.
       let t = now w; c = \<lparr>c_sub = sub, c_sid = sid, c_fid = family_id, c_jti = new_uuid tm t,
                           c_exp = t + refresh_lifetime tm\<rparr>;
           w' = w\<lparr>families := (families w)(family_id := family_entry (c_jti c) (c_exp c) # families w family_id)\<rparr> in
       (sign tm [(''iat'', t), (''nbf'', t + access_lifetime tm - leeway tm)] c, w'))"

definition issue_access_token :: "'r token_manager \<Rightarrow> string \<Rightarrow> int \<Rightarrow> string \<Rightarrow> (token_world, string) py" where
  "issue_access_token tm sub sid family_id w =
     (sign tm [(''iat'', now w)] \<lparr>c_sub = sub, c_sid = sid, c_fid = family_id, c_jti = new_uuid tm (now w),
                                  c_exp = now w + access_lifetime tm\<rparr>, w)"

section \<open>Decoding and reissuing\<close>

definition decode_token :: "'r token_manager \<Rightarrow> string \<Rightarrow> token_type \<Rightarrow> bool \<Rightarrow> (token_world, token_claims) py" where
  "decode_token tm token kind verify_nbf w =
     (case bindE (header_kid tm token) (\<lambda>k.
             case key_mapping (keys tm) k of
               None \<Rightarrow> Inl InvalidKeyError
             | Some m \<Rightarrow> jwt_decode tm (PUBLIC_PEM m) (ALGORITHM m) verify_nbf token) of
        Inr c \<Rightarrow> (Inr c, w)
      | Inl e \<Rightarrow>
          if e \<in> {ImmatureSignatureError, InvalidIssuedAtError, InvalidIssuerError}
          then (if kind = StandardRefresh
                then bindM (lift_sum (jwt_unverified tm token)) (\<lambda>c.
                       thenM (invalidate_family (c_fid c)) (raise ValueError)) w
                else (Inl ValueError, w))
          else if e = KeyError then (Inl InvalidToken, w) else (Inl e, w))"

definition reissue_token_pair :: "'r token_manager \<Rightarrow> string \<Rightarrow> (token_world, string \<times> string) py" where
  "reissue_token_pair tm refresh_token =
     bindM (decode_token tm refresh_token StandardRefresh True) (\<lambda>c.
     bindM (issue_refresh_token tm (c_sub c) (c_sid c) (c_fid c) (Some (c_jti c)) (Some (c_exp c))) (\<lambda>refresh.
     thenM (shift_token_window tm (c_fid c))
     (bindM (issue_access_token tm (c_sub c) (c_sid c) (c_fid c)) (\<lambda>access.
     pure (refresh, access)))))"

section \<open>Routes\<close>

text \<open>
  What the resource server answers to a login or a registration: the status, and the subject
  with its id.
\<close>

datatype 'a auth_response = Refused int | Tokens 'a 'a





definition reissue :: "'r token_manager \<Rightarrow> string option \<Rightarrow> (token_world, string auth_response) py" where
  "reissue tm cookie =
     (case cookie of
        None \<Rightarrow> raise KeyError
      | Some t \<Rightarrow> if t = [] then raise KeyError
                  else bindM (reissue_token_pair tm t) (\<lambda>(refresh, access). pure (Tokens access refresh)))"

definition purge_family :: "'r token_manager \<Rightarrow> string option \<Rightarrow> (token_world, unit) py" where
  "purge_family tm cookie =
     (case cookie of
        None \<Rightarrow> raise (HTTPException 400)
      | Some t \<Rightarrow> if t = [] then raise (HTTPException 400)
                  else tryM (bindM (decode_token tm t StandardRefresh False) (\<lambda>c. invalidate_family (c_fid c)))
                         (\<lambda>_. raise (HTTPException 401)))"

section \<open>Properties\<close>






definition demo_claims :: token_claims where
  "demo_claims = \<lparr>c_sub = ''ann'', c_sid = 7, c_fid = ''fam'', c_jti = ''abc'', c_exp = 50\<rparr>"

definition demo_manager :: "unit token_manager" where
  "demo_manager = \<lparr>keys = set_key_state ''1'' demo_metadata Map.empty, refresh_lifetime = 60, access_lifetime = 30,
     leeway = 5, max_llen = 3, header_kid = (\<lambda>_. Inr ''1''), jwt_decode = (\<lambda>_ _ _ _. Inr demo_claims),
     jwt_unverified = (\<lambda>_. Inr demo_claims), jwt_encode = (\<lambda>_ c _ _ k. c_jti c @ k),
     float_of_bytes = (\<lambda>_. Inr 50), hexdigest = (\<lambda>x. ''f'' @ x), new_uuid = (\<lambda>t. str_of_int t)\<rparr>"

definition demo_tokens :: token_world where
  "demo_tokens = \<lparr>families = (\<lambda>f. if f = ''fam'' then [''abc:50''] else []), now = 10\<rparr>"



text \<open>
  Shifting the window of a family keeps its newest tokens, in order, and never more than
  the window; a full window loses its oldest token, so that a family at rest holds one less
  than the window, unless the window is empty.
\<close>

theorem shift_keeps_newest:
  "families (snd (shift_token_window tm fid w)) =
     (families w)(fid := take (if length (families w fid) < max_llen tm then length (families w fid)
                               else if length (families w fid) = max_llen tm then max_llen tm - 1
                               else min (length (families w fid) - 1) (max_llen tm)) (families w fid))"
  by (auto simp: shift_token_window_def Let_def rpop_def intro!: ext)

text \<open>
  A refresh token that is presented too early costs its holder the family: the check of
  the time it becomes valid fails, and the decoder empties the family its unverified claims
  name before it refuses the token.  A logout with a token that decodes empties its family and
  no other.
\<close>

theorem early_refresh_revokes:
  assumes "header_kid tm token = Inr k" and "key_mapping (keys tm) k = Some m" and "token \<noteq> []"
    and "jwt_decode tm (PUBLIC_PEM m) (ALGORITHM m) True token = Inl ImmatureSignatureError"
    and "jwt_decode tm (PUBLIC_PEM m) (ALGORITHM m) False token = Inr c" and "jwt_unverified tm token = Inr c"
  shows "reissue tm (Some token) w = (Inl ValueError, w\<lparr>families := (families w)(c_fid c := [])\<rparr>) \<and>
         purge_family tm (Some token) w = (Inr (), w\<lparr>families := (families w)(c_fid c := [])\<rparr>)"
proof -
  have "decode_token tm token StandardRefresh True w = (Inl ValueError, w\<lparr>families := (families w)(c_fid c := [])\<rparr>)"
    using assms by (simp add: decode_token_def invalidate_family_def)
  moreover have "decode_token tm token StandardRefresh False w = (Inr c, w)"
    using assms by (simp add: decode_token_def)
  ultimately show ?thesis
    using assms(3) by (simp add: reissue_def reissue_token_pair_def purge_family_def invalidate_family_def tryM_def)
qed

theorem early_refresh_revokes_witness:
  "families (snd (purge_family (demo_manager\<lparr>jwt_decode := \<lambda>_ _ b _. if b then Inl ImmatureSignatureError
      else Inr demo_claims\<rparr>) (Some ''tok'') demo_tokens)) ''fam'' = []"
proof -
  let ?tm = "demo_manager\<lparr>jwt_decode := \<lambda>_ _ b _. if b then Inl ImmatureSignatureError else Inr demo_claims\<rparr>"
  have "purge_family ?tm (Some ''tok'') demo_tokens =
      (Inr (), demo_tokens\<lparr>families := (families demo_tokens)(c_fid demo_claims := [])\<rparr>)"
    by (rule conjunct2 [OF early_refresh_revokes [where k = "''1''" and m = demo_metadata]])
      (simp_all add: demo_manager_def set_key_state_def)
  then show ?thesis by (simp add: demo_claims_def)
qed

end
