(* ===== verification/Tenjin_Cache.thy ===== *)
theory Tenjin_Cache
  imports Tenjin_Redis
begin

text \<open>
  The cache of the resource server (\<^verbatim>\<open>cache_manager.py\<close>) and the result objects it keeps
  (\<^verbatim>\<open>repositories/result_protocol.py\<close>).

  The manager is a record of its Redis client, whether that client decodes its replies to
  text, and its configuration.  The client \<^verbatim>\<open>dependencies.py\<close> makes does not, so that the keys
  of a hash it reads are bytes, which no text equals; \<open>cm_decode\<close> keeps both cases.  The
  entries are hashes (the default \<open>dtype\<close>); the expiry of the lock, given in milliseconds, is
  kept as the number the code gives.
\<close>

section \<open>Result objects\<close>

datatype field_value = FInt int | FStr string | FBool bool | FTime string | FNone

datatype field_type = T_NONE | T_BOOL | T_DATETIME | T_LIST | T_DICT | T_OTHER

text \<open>The declared fields of a result class, in order; an object is the fields that are set.\<close>

type_synonym result_class = "(string \<times> field_type) list"
type_synonym dto = "string \<rightharpoonup> field_value"

definition strip_underscores :: "string \<Rightarrow> string" where
  "strip_underscores s =
     rev (dropWhile (\<lambda>c. c = CHR ''_'') (rev (dropWhile (\<lambda>c. c = CHR ''_'') s)))"

definition construct_from_orm :: "result_class \<Rightarrow> (string \<times> field_value) list \<Rightarrow> dto" where
  "construct_from_orm cls columns =
     map_of (rev (filter (\<lambda>(k, v). k \<in> fst ` set cls) (map (\<lambda>(k, v). (strip_underscores k, v)) columns)))"

definition construct_from_cache :: "result_class \<Rightarrow> bool \<Rightarrow> (string \<rightharpoonup> string) \<Rightarrow> dto" where
  "construct_from_cache cls decoded h =
     (\<lambda>f. if decoded \<and> f \<in> fst ` set cls then map_option FStr (h f) else None)"

fun cast_field :: "field_type \<Rightarrow> field_value \<Rightarrow> exn + field_value" where
  "cast_field T_NONE v = Inr (FStr '''')"
| "cast_field T_BOOL (FBool b) = Inr (FInt (if b then 1 else 0))"
| "cast_field T_BOOL (FInt n) = Inr (FInt n)"
| "cast_field T_BOOL v = Inl TypeError"
| "cast_field T_DATETIME (FTime t) = Inr (FStr t)"
| "cast_field T_DATETIME v = Inl AttributeError"
| "cast_field _ v = Inr v"

text \<open>What the client sends for a value: it refuses \<open>None\<close> and booleans.\<close>

fun encode_value :: "field_value \<Rightarrow> exn + string" where
  "encode_value (FInt n) = Inr (str_of_int n)"
| "encode_value (FStr s) = Inr s"
| "encode_value _ = Inl (RedisError False)"

definition repr_field :: "dto \<Rightarrow> string \<times> field_type \<Rightarrow> exn + (string \<times> string)" where
  "repr_field d ft =
     (case ft of (n, t) \<Rightarrow>
        (case d n of
           None \<Rightarrow> Inl AttributeError
         | Some v \<Rightarrow> bindE (bindE (cast_field t v) encode_value) (\<lambda>s. Inr (strip_underscores n, s))))"

definition public_fields :: "result_class \<Rightarrow> result_class" where
  "public_fields cls = filter (\<lambda>(n, t). \<not> (n \<noteq> [] \<and> hd n = CHR ''_'')) cls"

definition result_cache_repr :: "result_class \<Rightarrow> dto \<Rightarrow> exn + (string \<times> string) list" where
  "result_cache_repr cls d = traverse (repr_field d) (public_fields cls)"

section \<open>The manager\<close>

record 's cache_manager =
  cm_redis :: "'s redis"
  cm_decode :: bool
  cm_sleep :: "nat \<Rightarrow> ('s, unit) py"
  cm_now :: string
  TTL_CAP :: int
  TTL_PROMOTION :: int
  TTL_STRONGEST :: int
  TTL_STRONG :: int
  TTL_WEAK :: int
  TTL_EPHEMERAL :: int
  TTL_FETCH_LOCK :: int
  FETCH_WAITING_MAX_INTERVALS :: nat
  FETCH_MAX_RETRIES :: nat
  NF_SENTINEL_KEY :: string
  NF_SENTINEL_VALUE :: string

definition cm_NF_MAPPING :: "'s cache_manager \<Rightarrow> (string \<times> string) list" where
  "cm_NF_MAPPING cm = [(NF_SENTINEL_KEY cm, NF_SENTINEL_VALUE cm)]"

definition derive_lock_key :: "string list \<Rightarrow> string" where
  "derive_lock_key args = join NAME_SEPERATOR (''lock'' # args)"

definition cm_exec :: "'s cache_manager \<Rightarrow> bool \<Rightarrow> rcmd list \<Rightarrow> ('s, unit) py" where
  "cm_exec cm tx cs = thenM (cm_redis cm tx cs) (pure ())"

definition hset_with_ttl :: "'s cache_manager \<Rightarrow> string \<Rightarrow> (string \<times> string) list \<Rightarrow> int \<Rightarrow> ('s, unit) py" where
  "hset_with_ttl cm name mapping ttl = cm_exec cm False [R_HSET name mapping, R_EXPIRE name ttl]"

definition batch_hset_with_ttl ::
  "'s cache_manager \<Rightarrow> string list \<Rightarrow> (string \<times> string) list list \<Rightarrow> int \<Rightarrow> ('s, unit) py" where
  "batch_hset_with_ttl cm names mappings ttl =
     (if length names \<noteq> length mappings then raise ValueError
      else cm_exec cm True (concat (map (\<lambda>(n, m). [R_HSET n m, R_EXPIRE n ttl]) (zip names mappings))))"

definition set_negative_mapping :: "'s cache_manager \<Rightarrow> string \<Rightarrow> int option \<Rightarrow> ('s, unit) py" where
  "set_negative_mapping cm key ttl =
     hset_with_ttl cm key (cm_NF_MAPPING cm)
       (case ttl of Some t \<Rightarrow> if t \<noteq> 0 then t else TTL_EPHEMERAL cm | None \<Rightarrow> TTL_EPHEMERAL cm)"

definition set_negative_string :: "'s cache_manager \<Rightarrow> string \<Rightarrow> int option \<Rightarrow> ('s, unit) py" where
  "set_negative_string cm key ttl =
     cm_exec cm False [R_SET key (NF_SENTINEL_KEY cm) False
       (Some (case ttl of Some t \<Rightarrow> if t \<noteq> 0 then t else TTL_EPHEMERAL cm | None \<Rightarrow> TTL_EPHEMERAL cm))]"

text \<open>Counters of several hashes for several members, a list per hash in the members' order.\<close>

fun read_count :: "reply \<Rightarrow> exn + int option" where
  "read_count (RText t) = (case int_of_str t of None \<Rightarrow> Inl ValueError | Some i \<Rightarrow> Inr (Some i))"
| "read_count _ = Inr None"

definition fetch_global_counters ::
  "'s cache_manager \<Rightarrow> string list \<Rightarrow> string list \<Rightarrow> ('s, string \<rightharpoonup> int option list) py" where
  "fetch_global_counters cm hashmaps identifiers =
     bindM (cm_redis cm False (concat (map (\<lambda>h. map (R_HGET h) identifiers) hashmaps))) (\<lambda>rs.
     bindM (lift_sum (traverse read_count rs)) (\<lambda>counters.
       let step = length identifiers in
       pure (map_of (rev (map (\<lambda>(idx, h). (h, take step (drop (step * idx) counters))) (enumerate 0 hashmaps))))))"

section \<open>Reading one entry\<close>

definition holds_sentinel :: "'s cache_manager \<Rightarrow> (string \<rightharpoonup> string) \<Rightarrow> bool" where
  "holds_sentinel cm h \<longleftrightarrow> cm_decode cm \<and> h (NF_SENTINEL_KEY cm) \<noteq> None"

text \<open>
  Adding a counter to a field of the entry, which is text: a missing field is a \<open>KeyError\<close>, a
  field that is there a \<open>TypeError\<close>.
\<close>

definition primitive_get_from_cache ::
  "'s cache_manager \<Rightarrow> string \<Rightarrow> (string \<times> string) list \<Rightarrow> ('s, ((string \<rightharpoonup> string) \<times> int) option) py" where
  "primitive_get_from_cache cm key counter_fields =
     bindM (cm_redis cm False ([R_HGETALL key, R_TTL key] @ map (\<lambda>(_, m). R_HGET m key) counter_fields)) (\<lambda>rs.
       case rs of
         RMap h # RInt ttl # counters \<Rightarrow>
           if h = Map.empty then pure None
           else (case counter_fields of
                   [] \<Rightarrow> pure (Some (h, ttl))
                 | (f, _) # _ \<Rightarrow> if cm_decode cm \<and> h f \<noteq> None then raise TypeError else raise KeyError)
       | _ \<Rightarrow> raise OtherException)"

definition check_negative_entry :: "'s cache_manager \<Rightarrow> string \<Rightarrow> (string \<rightharpoonup> string) \<Rightarrow> ('s, bool) py" where
  "check_negative_entry cm key h =
     (if holds_sentinel cm h
      then thenM (cm_exec cm True [R_HSET key (cm_NF_MAPPING cm), R_EXPIRE key (TTL_EPHEMERAL cm)]) (pure True)
      else pure False)"

datatype cached = Miss | Negative | Hit "string \<rightharpoonup> string"

definition fetch_from_cache :: "'s cache_manager \<Rightarrow> string \<Rightarrow> (string \<times> string) list \<Rightarrow> ('s, cached) py" where
  "fetch_from_cache cm key counter_fields =
     bindM (primitive_get_from_cache cm key counter_fields) (\<lambda>res.
       case res of
         None \<Rightarrow> pure Miss
       | Some (h, ttl) \<Rightarrow>
           bindM (check_negative_entry cm key h) (\<lambda>negative.
             if negative then pure Negative
             else thenM (cm_exec cm False [R_EXPIRE key (min (TTL_CAP cm) (TTL_PROMOTION cm + ttl))]) (pure (Hit h))))"

section \<open>Loading through a leader\<close>

text \<open>
  A waiter looks for the sentinel in the pair of entry and expiry time, where it never is, so
  that it takes a negative entry for a resource.  \<open>None\<close> means that the waiting is over
  without a result.
\<close>

fun wait_for_leader ::
  "nat \<Rightarrow> 's cache_manager \<Rightarrow> string \<Rightarrow> (string \<times> string) list \<Rightarrow> ((string \<rightharpoonup> string) \<Rightarrow> exn + 'd) \<Rightarrow>
   ('s, 'd option) py" where
  "wait_for_leader 0 cm key counter_fields construct = pure None"
| "wait_for_leader (Suc i) cm key counter_fields construct =
     bindM (cm_redis cm False [R_GET (derive_lock_key [key])]) (\<lambda>rs.
       if rs \<noteq> [RNone]
       then thenM (cm_sleep cm i) (wait_for_leader i cm key counter_fields construct)
       else bindM (primitive_get_from_cache cm key counter_fields) (\<lambda>res.
              case res of
                None \<Rightarrow> pure None
              | Some (h, _) \<Rightarrow> bindM (lift_sum (construct h)) (\<lambda>d. pure (Some d))))"

definition lead ::
  "'s cache_manager \<Rightarrow> string \<Rightarrow> ('s, 'd option) py \<Rightarrow> ('d \<Rightarrow> exn + (string \<times> string) list) \<Rightarrow> ('s, 'd option) py" where
  "lead cm key fallback repr =
     finallyM
       (bindM fallback (\<lambda>result. case result of
          None \<Rightarrow> thenM (set_negative_mapping cm key None) (pure None)
        | Some d \<Rightarrow> bindM (lift_sum (repr d)) (\<lambda>m. thenM (hset_with_ttl cm key m (TTL_STRONG cm)) (pure (Some d)))))
       (cm_exec cm False [R_DEL (derive_lock_key [key])])"

fun elect_leader ::
  "nat \<Rightarrow> 's cache_manager \<Rightarrow> string \<Rightarrow> (string \<times> string) list \<Rightarrow> ('s, 'd option) py \<Rightarrow>
   ('d \<Rightarrow> exn + (string \<times> string) list) \<Rightarrow> ((string \<rightharpoonup> string) \<Rightarrow> exn + 'd) \<Rightarrow> ('s, 'd option) py" where
  "elect_leader 0 cm key counter_fields fallback repr construct = raise CacheCoherenceException"
| "elect_leader (Suc n) cm key counter_fields fallback repr construct =
     bindM (cm_redis cm False [R_SET (derive_lock_key [key]) (cm_now cm) True (Some (TTL_FETCH_LOCK cm))]) (\<lambda>rs.
       if rs = [RBool True] then lead cm key fallback repr
       else bindM (wait_for_leader (FETCH_WAITING_MAX_INTERVALS cm) cm key counter_fields construct) (\<lambda>r.
              case r of
                Some d \<Rightarrow> pure (Some d)
              | None \<Rightarrow> elect_leader n cm key counter_fields fallback repr construct))"

definition distributed_get_or_load ::
  "'s cache_manager \<Rightarrow> string \<Rightarrow> (string \<times> string) list \<Rightarrow> ('s, 'd option) py \<Rightarrow>
   ('d \<Rightarrow> exn + (string \<times> string) list) \<Rightarrow> ((string \<rightharpoonup> string) \<Rightarrow> exn + 'd) \<Rightarrow> ('s, 'd option) py" where
  "distributed_get_or_load cm key counter_fields fallback repr construct =
     bindM (fetch_from_cache cm key counter_fields) (\<lambda>c.
       case c of
         Negative \<Rightarrow> pure None
       | Hit h \<Rightarrow> bindM (lift_sum (construct h)) (\<lambda>d. pure (Some d))
       | Miss \<Rightarrow> elect_leader (FETCH_MAX_RETRIES cm) cm key counter_fields fallback repr construct)"

section \<open>Intents and guards\<close>

definition set_intent ::
  "'s cache_manager \<Rightarrow> string \<Rightarrow> string \<Rightarrow> string \<Rightarrow> string \<Rightarrow> action \<Rightarrow> intent_flag \<Rightarrow> int option \<Rightarrow> ('s, unit) py" where
  "set_intent cm intent_id user resource name act flag ttl =
     cm_exec cm False [R_SET (create_intent_flag name (action_value act) user resource)
       (join NAME_SEPERATOR [intent_flag_value flag, intent_id]) False
       (Some (case ttl of Some t \<Rightarrow> if t \<noteq> 0 then t else TTL_STRONGEST cm | None \<Rightarrow> TTL_STRONGEST cm))]"

fun read_intent_flag :: "string \<Rightarrow> intent_flag option" where
  "read_intent_flag s = find (\<lambda>f. intent_flag_value f = s)
     [RESOURCE_CREATION_PENDING_FLAG, RESOURCE_CREATION_PENDING_ALT_FLAG, RESOURCE_DELETION_PENDING_FLAG]"

text \<open>\<open>fetch_indicators\<close>: splitting an intent that is not there is an \<open>AttributeError\<close>.\<close>

definition fetch_indicators ::
  "'s cache_manager \<Rightarrow> string \<Rightarrow> string \<Rightarrow> string \<Rightarrow> action \<Rightarrow> ('s, reply \<times> intent_flag option) py" where
  "fetch_indicators cm user resource name act =
     bindM (cm_redis cm True [R_GET (derive_lock_key [name, action_value act, user, resource]),
                              R_GET (create_intent_flag name (action_value act) user resource)]) (\<lambda>rs.
       case rs of
         [lock, RText v] \<Rightarrow>
           if \<not> cm_decode cm then raise TypeError
           else (let w = hd (split_on (hd NAME_SEPERATOR) v) in
                 if w = [] then pure (lock, None)
                 else case read_intent_flag w of None \<Rightarrow> raise ValueError | Some f \<Rightarrow> pure (lock, Some f))
       | [lock, RNone] \<Rightarrow> raise AttributeError
       | _ \<Rightarrow> raise OtherException)"

text \<open>
  \<open>guard_action\<close> around the body of its \<open>async with\<close>.  Without an intent it yields \<open>None\<close> and,
  when the body is done, goes on to split the missing intent.  The lock is deleted in every
  case.
\<close>

definition guard_action ::
  "'s cache_manager \<Rightarrow> string \<Rightarrow> string \<Rightarrow> string \<Rightarrow> action \<Rightarrow> intent_flag option \<Rightarrow>
   (string option \<Rightarrow> ('s, unit) py) \<Rightarrow> ('s, unit) py" where
  "guard_action cm user resource name act conflicting body =
     (let lock = derive_lock_key [name, action_value act, user, resource] in
      finallyM
        (bindM (cm_redis cm True [R_SET lock ''1'' True (Some (TTL_FETCH_LOCK cm)),
                                  R_GET (create_intent_flag name (action_value act) user resource)]) (\<lambda>rs.
           case rs of
             [lock_set, intent] \<Rightarrow>
               if lock_set \<noteq> RBool True then raise DuplicateRequestException
               else (case intent of
                       RText v \<Rightarrow>
                         if v = [] then thenM (body None) (raise (if cm_decode cm then RuntimeError else TypeError))
                         else if \<not> cm_decode cm then raise TypeError
                         else (let w = hd (split_on (hd NAME_SEPERATOR) v) in
                               if map_option intent_flag_value conflicting = Some w
                               then raise ConflictingIntentException else body (Some w))
                     | _ \<Rightarrow> thenM (body None) (raise AttributeError))
           | _ \<Rightarrow> raise OtherException))
        (cm_exec cm False [R_DEL lock]))"

section \<open>Pages\<close>

definition PAGINATION_VERSION_MAP :: string where
  "PAGINATION_VERSION_MAP = ''pagination_versions''"

definition CURSOR_UNDERIVABLE_SENTINEL :: string where
  "CURSOR_UNDERIVABLE_SENTINEL = ''X''"

definition derive_pagination_key :: "'s cache_manager \<Rightarrow> string \<Rightarrow> int \<Rightarrow> string list \<Rightarrow> ('s, string) py" where
  "derive_pagination_key cm name cursor args =
     bindM (cm_redis cm False [R_HGET PAGINATION_VERSION_MAP name]) (\<lambda>rs.
       case rs of
         [RText v] \<Rightarrow> if v \<noteq> [] \<and> \<not> cm_decode cm then raise TypeError
                      else pure (join NAME_SEPERATOR ((if v = [] then ''0'' else v) # name # str_of_int cursor # args))
       | _ \<Rightarrow> pure (join NAME_SEPERATOR (''0'' # name # str_of_int cursor # args)))"

definition derive_resource_from_pagination_key :: "string \<Rightarrow> string" where
  "derive_resource_from_pagination_key key = split_on (hd NAME_SEPERATOR) key ! 0"

definition derive_cursor_from_pagination_key :: "string \<Rightarrow> exn + string" where
  "derive_cursor_from_pagination_key key = py_nth (split_on (hd NAME_SEPERATOR) key) 2"

text \<open>
  The members of a page: a missing or negative one is reported as such; one that is there is
  added once for every counter of its class, so not at all without counters, and with one the
  sum of text and number is a \<open>TypeError\<close>.
\<close>

fun collect_members ::
  "'s cache_manager \<Rightarrow> (string \<times> string) list \<Rightarrow> reply list \<Rightarrow> exn + ((string \<rightharpoonup> string) option \<times> int) list" where
  "collect_members cm counter_fields (RMap h # RInt ttl # rest) =
     (if (cm_decode cm \<and> h = map_of (cm_NF_MAPPING cm)) \<or> ttl = - 2
      then bindE (collect_members cm counter_fields (drop (length counter_fields) rest)) (\<lambda>ms. Inr ((None, ttl) # ms))
      else case counter_fields of
             [] \<Rightarrow> collect_members cm counter_fields rest
           | (f, _) # _ \<Rightarrow> Inl (if cm_decode cm \<and> h f \<noteq> None then TypeError else KeyError))"
| "collect_members cm counter_fields _ = Inr []"

definition primitive_pagination_get ::
  "'s cache_manager \<Rightarrow> string \<Rightarrow> (string \<times> string) list \<Rightarrow>
   ('s, int \<times> string list \<times> ((string \<rightharpoonup> string) option \<times> int) list \<times> string) py" where
  "primitive_pagination_get cm page_key counter_fields =
     bindM (cm_redis cm False [R_LRANGE_ALL page_key]) (\<lambda>rs.
       case rs of
         [RTexts ks] \<Rightarrow>
           if ks = [] then raise IndexError
           else bindM (cm_redis cm False (R_TTL page_key #
                         concat (map (\<lambda>k. [R_HGETALL k, R_TTL k] @ map (\<lambda>(_, m). R_HGET m k) counter_fields) (butlast ks)))) (\<lambda>qs.
                  case qs of
                    RInt page_ttl # members \<Rightarrow>
                      bindM (lift_sum (collect_members cm counter_fields members)) (\<lambda>ms.
                        pure (page_ttl, butlast ks, ms, last ks))
                  | _ \<Rightarrow> raise OtherException)
       | _ \<Rightarrow> raise OtherException)"

definition promote_paginated_result ::
  "'s cache_manager \<Rightarrow> string \<Rightarrow> int \<Rightarrow> string list \<Rightarrow> int list \<Rightarrow> ('s, unit) py" where
  "promote_paginated_result cm page_key page_ttl member_keys member_ttls =
     bindM (lift_sum (traverse (\<lambda>i. bindE (py_nth member_ttls i) (\<lambda>t.
              Inr (R_EXPIRE (member_keys ! i) (min (TTL_CAP cm) (t + TTL_PROMOTION cm))))) [0..<length member_keys])) (\<lambda>cs.
       cm_exec cm True (R_EXPIRE page_key (min (TTL_CAP cm) (page_ttl + TTL_PROMOTION cm)) # cs))"

definition update_cache_version :: "'s cache_manager \<Rightarrow> string \<Rightarrow> ('s, unit) py" where
  "update_cache_version cm name = cm_exec cm False [R_HINCRBY PAGINATION_VERSION_MAP name 1]"

definition construct_member ::
  "((string \<rightharpoonup> string) \<Rightarrow> exn + 'd) \<Rightarrow> (string \<rightharpoonup> string) option \<times> int \<Rightarrow> exn + 'd option" where
  "construct_member construct e =
     (case fst e of
        None \<Rightarrow> Inr None
      | Some h \<Rightarrow> if h = Map.empty then Inr None else bindE (construct h) (\<lambda>d. Inr (Some d)))"

definition fetch_paginated_resources ::
  "'s cache_manager \<Rightarrow> string \<Rightarrow> (string \<times> string) list \<Rightarrow> ((string \<rightharpoonup> string) \<Rightarrow> exn + 'd) \<Rightarrow>
   ('s, 'd option list \<times> string) py" where
  "fetch_paginated_resources cm page_key counter_fields construct =
     bindM (primitive_pagination_get cm page_key counter_fields) (\<lambda>(page_ttl, ks, entries, cursor).
     thenM (if \<forall>e \<in> set entries. fst e \<noteq> None \<and> fst e \<noteq> Some Map.empty
            then promote_paginated_result cm page_key page_ttl ks (map snd entries)
            else update_cache_version cm (derive_resource_from_pagination_key page_key))
     (bindM (lift_sum (traverse (construct_member construct) entries)) (\<lambda>ds.
      pure (ds, cursor))))"

definition cache_grouped_resource ::
  "'s cache_manager \<Rightarrow> string \<Rightarrow> (string \<times> (string \<times> string) list) list \<Rightarrow> string \<Rightarrow> ('s, unit) py" where
  "cache_grouped_resource cm page_key resources cursor =
     cm_exec cm True
       (R_EXPIRE page_key (TTL_WEAK cm)
        # concat (map (\<lambda>(k, m). [R_RPUSH page_key k, R_HSET k m, R_EXPIRE k (TTL_STRONG cm)]) resources)
        @ [R_RPUSH page_key cursor])"

text \<open>
  Loading a page: the members the database has, each with the key it is cached under.  The
  followers wait as above, on the page's own lock.
\<close>

fun wait_for_page ::
  "nat \<Rightarrow> 's cache_manager \<Rightarrow> string \<Rightarrow> (string \<times> string) list \<Rightarrow> ((string \<rightharpoonup> string) \<Rightarrow> exn + 'd) \<Rightarrow>
   ('s, 'd option list option) py" where
  "wait_for_page 0 cm page_key counter_fields construct = pure None"
| "wait_for_page (Suc i) cm page_key counter_fields construct =
     bindM (cm_redis cm False [R_GET (derive_lock_key [page_key])]) (\<lambda>rs.
       if rs \<noteq> [RNone]
       then thenM (cm_sleep cm i) (wait_for_page i cm page_key counter_fields construct)
       else bindM (primitive_pagination_get cm page_key counter_fields) (\<lambda>(_, _, entries, _).
              if entries = [] then pure None
              else bindM (lift_sum (traverse (construct_member construct) entries)) (\<lambda>ds. pure (Some ds))))"

definition lead_page ::
  "'s cache_manager \<Rightarrow> string \<Rightarrow> ('s, (string \<times> 'd) list) py \<Rightarrow> ('d \<Rightarrow> exn + (string \<times> string) list) \<Rightarrow>
   ('s, 'd option list \<times> string) py" where
  "lead_page cm page_key fallback repr =
     finallyM
       (bindM fallback (\<lambda>results.
        bindM (lift_sum (derive_cursor_from_pagination_key page_key)) (\<lambda>cursor.
        bindM (lift_sum (traverse (\<lambda>(k, d). bindE (repr d) (\<lambda>m. Inr (k, m))) results)) (\<lambda>ms.
        thenM (cache_grouped_resource cm page_key ms cursor)
        (pure (map (Some \<circ> snd) results, CURSOR_UNDERIVABLE_SENTINEL))))))
       (cm_exec cm False [R_DEL (derive_lock_key [page_key])])"

fun elect_page_leader ::
  "nat \<Rightarrow> 's cache_manager \<Rightarrow> string \<Rightarrow> (string \<times> string) list \<Rightarrow> string \<Rightarrow> ('s, (string \<times> 'd) list) py \<Rightarrow>
   ('d \<Rightarrow> exn + (string \<times> string) list) \<Rightarrow> ((string \<rightharpoonup> string) \<Rightarrow> exn + 'd) \<Rightarrow> ('s, 'd option list \<times> string) py" where
  "elect_page_leader 0 cm page_key counter_fields next_cursor fallback repr construct = raise CacheCoherenceException"
| "elect_page_leader (Suc n) cm page_key counter_fields next_cursor fallback repr construct =
     bindM (cm_redis cm False [R_SET (derive_lock_key [page_key]) (cm_now cm) True (Some (TTL_FETCH_LOCK cm))]) (\<lambda>rs.
       if rs = [RBool True] then lead_page cm page_key fallback repr
       else bindM (wait_for_page (FETCH_WAITING_MAX_INTERVALS cm) cm page_key counter_fields construct) (\<lambda>r.
              case r of
                Some ds \<Rightarrow> pure (ds, next_cursor)
              | None \<Rightarrow> elect_page_leader n cm page_key counter_fields next_cursor fallback repr construct))"

definition distributed_pagination_get_or_load ::
  "'s cache_manager \<Rightarrow> string \<Rightarrow> (string \<times> string) list \<Rightarrow> ('s, (string \<times> 'd) list) py \<Rightarrow>
   ('d \<Rightarrow> exn + (string \<times> string) list) \<Rightarrow> ((string \<rightharpoonup> string) \<Rightarrow> exn + 'd) \<Rightarrow> ('s, 'd option list \<times> string) py" where
  "distributed_pagination_get_or_load cm page_key counter_fields fallback repr construct =
     bindM (fetch_paginated_resources cm page_key counter_fields construct) (\<lambda>(cached, next_cursor).
       if cached \<noteq> [] \<and> None \<notin> set cached then pure (cached, next_cursor)
       else elect_page_leader (FETCH_MAX_RETRIES cm) cm page_key counter_fields next_cursor fallback repr construct)"

section \<open>Properties of result objects\<close>

lemma traverse_Inl:
  "x \<in> set xs \<Longrightarrow> f x = Inl e \<Longrightarrow> \<exists>e'. traverse f xs = Inl e'"
  by (induction xs) (auto simp: bindE_def split: sum.splits)

lemma repr_field_InrE:
  assumes "repr_field d (n, t) = Inr p"
  obtains v s where "d n = Some v" and "bindE (cast_field t v) encode_value = Inr s" and "p = (strip_underscores n, s)"
  using assms by (auto simp: repr_field_def bindE_eq_Inr_iff split: option.splits)

lemma strip_last: "strip_underscores s \<noteq> [] \<Longrightarrow> last (strip_underscores s) \<noteq> CHR ''_''"
  by (metis (mono_tags, lifting) strip_underscores_def hd_dropWhile last_rev rev_is_Nil_conv rev_rev_ident)

lemma unset_field:
  assumes "n \<noteq> []" and "last n = CHR ''_''"
  shows "construct_from_orm cls columns n = None"
proof -
  have "strip_underscores k \<noteq> n" for k using strip_last [of k] assms by metis
  then have "n \<notin> fst ` set (map (\<lambda>(k, v). (strip_underscores k, v)) columns)" by force
  then have "n \<notin> fst ` set (filter (\<lambda>(k, v). k \<in> fst ` set cls) (map (\<lambda>(k, v). (strip_underscores k, v)) columns))"
    using set_filter by (metis (no_types, lifting) filter_is_subset image_mono subsetD)
  then show ?thesis
    unfolding construct_from_orm_def map_of_eq_None_iff set_rev .
qed

text \<open>
  C29.  An object whose class has a field ending in an underscore is never cached: making it
  from the database leaves the field unset, since the column's name is stripped of underscores
  and the field's is not, and making its cache entry then raises.  For the other classes the
  entry holds the text of every field, under its name, and a client that decodes its replies
  reads it back; one that does not gets an object without any field.
\<close>

theorem result_objects_in_cache:
  assumes "\<forall>(n, t) \<in> set cls. n \<noteq> [] \<and> hd n \<noteq> CHR ''_''" and "distinct (map fst cls)"
  shows "((\<exists>(n, t) \<in> set cls. last n = CHR ''_'') \<longrightarrow>
            (\<exists>e. result_cache_repr cls (construct_from_orm cls columns) = Inl e)) \<and>
         ((\<forall>(n, t) \<in> set cls. last n \<noteq> CHR ''_'') \<longrightarrow> result_cache_repr cls d = Inr m \<longrightarrow>
            (\<forall>(n, t) \<in> set cls. \<exists>v s. d n = Some v \<and> bindE (cast_field t v) encode_value = Inr s \<and>
               construct_from_cache cls True (map_of m) n = Some (FStr s)) \<and>
            construct_from_cache cls False (map_of m) = Map.empty)"
proof (intro conjI impI)
  have all: "public_fields cls = cls" using assms(1) by (auto simp: public_fields_def filter_id_conv)
  {
    assume "\<exists>(n, t) \<in> set cls. last n = CHR ''_''"
    then obtain n t where n: "(n, t) \<in> set cls" "last n = CHR ''_''" by auto
    then have "construct_from_orm cls columns n = None" using assms(1) by (intro unset_field) auto
    then have "repr_field (construct_from_orm cls columns) (n, t) = Inl AttributeError"
      by (simp add: repr_field_def)
    from traverse_Inl [where f = "repr_field (construct_from_orm cls columns)", OF n(1) this]
    show "\<exists>e. result_cache_repr cls (construct_from_orm cls columns) = Inl e"
      by (simp add: result_cache_repr_def all)
  }
  show "construct_from_cache cls False (map_of m) = Map.empty"
    by (simp add: construct_from_cache_def)
  assume plain: "\<forall>(n, t) \<in> set cls. last n \<noteq> CHR ''_''" and repr: "result_cache_repr cls d = Inr m"
  have strip: "strip_underscores n = n" if "n \<noteq> []" "hd n \<noteq> CHR ''_''" "last n \<noteq> CHR ''_''" for n
  proof -
    have "dropWhile (\<lambda>c. c = CHR ''_'') n = n" using that by (cases n) auto
    moreover have "dropWhile (\<lambda>c. c = CHR ''_'') (rev n) = rev n"
      using that by (cases "rev n") (auto simp: hd_rev [symmetric])
    ultimately show ?thesis by (simp add: strip_underscores_def)
  qed
  have "\<forall>(n, t) \<in> set cls'. \<exists>v s. d n = Some v \<and> bindE (cast_field t v) encode_value = Inr s \<and> map_of m' n = Some s"
    if "traverse (repr_field d) cls' = Inr m'" "set cls' \<subseteq> set cls" "distinct (map fst cls')" for cls' m'
    using that
  proof (induction cls' arbitrary: m')
    case (Cons f cls')
    obtain n t where f: "f = (n, t)" by (cases f)
    with Cons.prems(1) obtain p m1 where p: "repr_field d (n, t) = Inr p"
      and m1: "traverse (repr_field d) cls' = Inr m1" "m' = p # m1"
      by (auto simp: bindE_eq_Inr_iff)
    from p obtain v s where v: "d n = Some v" "bindE (cast_field t v) encode_value = Inr s"
      and ps: "p = (strip_underscores n, s)" by (rule repr_field_InrE)
    have "strip_underscores n = n" using Cons.prems(2) assms(1) plain f by (intro strip) auto
    with v m1 ps Cons.IH [OF m1(1)] Cons.prems(2,3) f show ?case by (fastforce simp: image_iff)
  qed simp
  from this [of cls m] repr assms(2)
  have kept: "\<forall>(n, t) \<in> set cls. \<exists>v s. d n = Some v \<and> bindE (cast_field t v) encode_value = Inr s \<and> map_of m n = Some s"
    by (simp add: result_cache_repr_def all)
  show "\<forall>(n, t) \<in> set cls. \<exists>v s. d n = Some v \<and> bindE (cast_field t v) encode_value = Inr s \<and>
      construct_from_cache cls True (map_of m) n = Some (FStr s)"
  proof clarify
    fix n t
    assume n: "(n, t) \<in> set cls"
    with kept obtain v s where "d n = Some v" "bindE (cast_field t v) encode_value = Inr s" "map_of m n = Some s" by blast
    with n show "\<exists>v s. d n = Some v \<and> bindE (cast_field t v) encode_value = Inr s \<and>
        construct_from_cache cls True (map_of m) n = Some (FStr s)"
      by (force simp: construct_from_cache_def)
  qed
qed

theorem result_objects_in_cache_witness:
  "\<exists>e. result_cache_repr [(''id_'', T_OTHER), (''title'', T_OTHER)]
         (construct_from_orm [(''id_'', T_OTHER), (''title'', T_OTHER)] [(''id_'', FInt 3), (''title'', FStr ''x'')]) = Inl e"
proof -
  have "\<forall>(n, t) \<in> set [(''id_'', T_OTHER), (''title'', T_OTHER)]. n \<noteq> [] \<and> hd n \<noteq> CHR ''_''"
    and "distinct (map fst [(''id_'', T_OTHER), (''title'', T_OTHER)])" by simp_all
  from conjunct1 [OF result_objects_in_cache [OF this]] show ?thesis by simp
qed

section \<open>Properties of the manager\<close>

lemma lock_not_key [simp]: "derive_lock_key [key] \<noteq> key" "key \<noteq> derive_lock_key [key]"
proof -
  have "length (derive_lock_key [key]) > length key" by (simp add: derive_lock_key_def)
  then show "derive_lock_key [key] \<noteq> key" "key \<noteq> derive_lock_key [key]" by auto
qed

lemma cm_exec_store:
  "cm_redis cm = store_redis \<Longrightarrow>
   cm_exec cm tx cs st = (case run_cmds cs st of None \<Rightarrow> (Inl (RedisError False), st) | Some (_, st') \<Rightarrow> (Inr (), st'))"
  by (auto simp: cm_exec_def thenM_def bindM_def store_redis_def split: option.splits prod.splits)

text \<open>
  What the cache says of a key, forgetting how it is kept: expiry times, locks and the fields of
  a negative entry.
\<close>

definition cache_view :: "'s cache_manager \<Rightarrow> rstore \<Rightarrow> string \<Rightarrow> cached" where
  "cache_view cm st k =
     (case st k of
        Some (VHash h, _) \<Rightarrow>
          if h = Map.empty then Miss else if h (NF_SENTINEL_KEY cm) \<noteq> None then Negative else Hit h
      | _ \<Rightarrow> Miss)"

fun view_get_or_load ::
  "(string \<Rightarrow> cached) \<Rightarrow> string \<Rightarrow> 'd option \<Rightarrow> ('d \<Rightarrow> exn + (string \<times> string) list) \<Rightarrow>
   ((string \<rightharpoonup> string) \<Rightarrow> exn + 'd) \<Rightarrow> (exn + 'd option) \<times> (string \<Rightarrow> cached)" where
  "view_get_or_load view key found repr construct =
     (case view key of
        Negative \<Rightarrow> (Inr None, view)
      | Hit h \<Rightarrow> (bindE (construct h) (\<lambda>d. Inr (Some d)), view)
      | Miss \<Rightarrow>
          (case found of
             None \<Rightarrow> (Inr None, view(key := Negative))
           | Some d \<Rightarrow>
               (case repr d of
                  Inl e \<Rightarrow> (Inl e, view)
                | Inr m \<Rightarrow> (Inr (Some d), view(key := Hit (map_of (rev m)))))))"

text \<open>A key that holds a hash, not empty and not expired, or nothing.\<close>

definition sound_entry :: "rstore \<Rightarrow> string \<Rightarrow> bool" where
  "sound_entry st k \<longleftrightarrow>
     (case st k of
        None \<Rightarrow> True
      | Some (VHash h, t) \<Rightarrow> h \<noteq> Map.empty \<and> (case t of None \<Rightarrow> True | Some s \<Rightarrow> 0 < s)
      | _ \<Rightarrow> False)"

definition positive_ttls :: "'s cache_manager \<Rightarrow> bool" where
  "positive_ttls cm \<longleftrightarrow> 0 < TTL_EPHEMERAL cm \<and> 1 < TTL_PROMOTION cm \<and> 0 < TTL_STRONG cm \<and> 0 < TTL_CAP cm \<and>
     0 < TTL_FETCH_LOCK cm"

definition entry_view :: "'s cache_manager \<Rightarrow> (rvalue \<times> int option) option \<Rightarrow> cached" where
  "entry_view cm v =
     (case v of
        Some (VHash h, _) \<Rightarrow>
          if h = Map.empty then Miss else if h (NF_SENTINEL_KEY cm) \<noteq> None then Negative else Hit h
      | _ \<Rightarrow> Miss)"

lemma cache_view_entry: "cache_view cm st k = entry_view cm (st k)"
  by (simp add: cache_view_def entry_view_def)

lemma entry_view_None [simp]: "entry_view cm None = Miss"
  by (simp add: entry_view_def)

lemma sound_entryE:
  assumes "sound_entry st k" and "st k = Some e"
  obtains h t where "st k = Some (VHash h, t)" and "h \<noteq> Map.empty" and "case t of None \<Rightarrow> True | Some s \<Rightarrow> 0 < s"
proof (cases e)
  case (Pair v t)
  with assms that show ?thesis by (cases v) (simp_all add: sound_entry_def)
qed

lemma view_unlocked:
  "entry_view cm (st l) = Miss \<Longrightarrow> cache_view cm (st(l := None)) = cache_view cm st"
  by (rule ext) (simp add: cache_view_entry)

lemma view_written:
  "entry_view cm (st l) = Miss \<Longrightarrow> l \<noteq> key \<Longrightarrow>
   cache_view cm (st(key := v, l := None)) = (cache_view cm st)(key := entry_view cm v)"
  by (rule ext) (simp add: cache_view_entry)

lemma lead_view:
  assumes redis: "cm_redis cm = store_redis" and pos: "positive_ttls cm"
    and key: "st key = None" and lock: "cache_view cm st (derive_lock_key [key]) = Miss"
    and repr: "\<forall>d m. found = Some d \<longrightarrow> repr d = Inr m \<longrightarrow> m \<noteq> [] \<and> NF_SENTINEL_KEY cm \<notin> fst ` set m"
  shows "\<exists>st'. lead cm key (pure found) repr st = (fst (view_get_or_load (cache_view cm st) key found repr construct), st') \<and>
           cache_view cm st' = snd (view_get_or_load (cache_view cm st) key found repr construct) \<and>
           st' (derive_lock_key [key]) = None \<and> sound_entry st' key \<and>
           (\<forall>k. k \<noteq> key \<longrightarrow> k \<noteq> derive_lock_key [key] \<longrightarrow> st' k = st k)"
proof -
  have miss: "cache_view cm st key = Miss" using key by (simp add: cache_view_def)
  show ?thesis
  proof (cases found)
    case None
    have "lead cm key (pure found) repr st =
        (Inr None, (st(key \<mapsto> (VHash [NF_SENTINEL_KEY cm \<mapsto> NF_SENTINEL_VALUE cm], Some (TTL_EPHEMERAL cm))))
                     (derive_lock_key [key] := None))"
      using pos key redis
      by (simp add: lead_def finallyM_def None thenM_def bindM_def set_negative_mapping_def hset_with_ttl_def
          cm_exec_store hash_at_def ttl_at_def cm_NF_MAPPING_def positive_ttls_def)
    then show ?thesis using pos lock miss
      by (simp add: None view_written cache_view_entry) (simp add: entry_view_def sound_entry_def positive_ttls_def)
  next
    case (Some d)
    show ?thesis
    proof (cases "repr d")
      case (Inl e)
      have "lead cm key (pure found) repr st = (Inl e, st(derive_lock_key [key] := None))"
        using redis by (simp add: lead_def finallyM_def Some Inl thenM_def bindM_def cm_exec_store)
      then show ?thesis using miss lock key
        by (simp add: Some Inl view_unlocked cache_view_entry sound_entry_def)
    next
      case (Inr m)
      with repr Some have m: "m \<noteq> []" "NF_SENTINEL_KEY cm \<notin> fst ` set m" by auto
      have "lead cm key (pure found) repr st =
          (Inr (Some d), (st(key \<mapsto> (VHash (map_of (rev m)), Some (TTL_STRONG cm))))(derive_lock_key [key] := None))"
        using pos key redis m
        by (simp add: lead_def finallyM_def Some Inr thenM_def bindM_def hset_with_ttl_def
            cm_exec_store hash_at_def ttl_at_def positive_ttls_def)
      moreover have "map_of (rev m) \<noteq> Map.empty" using m(1) by (cases m rule: rev_cases) auto
      moreover have "map_of (rev m) (NF_SENTINEL_KEY cm) = None" using m(2) by (simp add: map_of_eq_None_iff)
      ultimately show ?thesis using pos miss lock
        by (simp add: Some Inr view_written cache_view_entry) (simp add: entry_view_def sound_entry_def positive_ttls_def)
    qed
  qed
qed

text \<open>
  C26.  \<open>distributed_get_or_load\<close> refines the obvious cache: over a Redis that answers as
  documented and decodes to text, with the lock free, the result and the new contents of the
  cache are those of a map from keys to "absent", "known not to exist" and an entry, whatever
  the expiry times are.  A miss loads from the database exactly what it answers, the lock is
  gone afterwards, also when the loaded object has no cache entry, the key is left sound and
  no other key changes.
\<close>

theorem get_or_load_refines:
  assumes redis: "cm_redis cm = store_redis" and decode: "cm_decode cm" and pos: "positive_ttls cm"
    and retries: "0 < FETCH_MAX_RETRIES cm" and sound: "sound_entry st key" and free: "st (derive_lock_key [key]) = None"
    and repr: "\<forall>d m. found = Some d \<longrightarrow> repr d = Inr m \<longrightarrow> m \<noteq> [] \<and> NF_SENTINEL_KEY cm \<notin> fst ` set m"
  shows "\<exists>st'. distributed_get_or_load cm key [] (pure found) repr construct st =
            (fst (view_get_or_load (cache_view cm st) key found repr construct), st') \<and>
          cache_view cm st' = snd (view_get_or_load (cache_view cm st) key found repr construct) \<and>
          st' (derive_lock_key [key]) = None \<and> sound_entry st' key \<and>
          (\<forall>k. k \<noteq> key \<longrightarrow> k \<noteq> derive_lock_key [key] \<longrightarrow> st' k = st k)"
proof (cases "st key")
  case None
  obtain n where n: "FETCH_MAX_RETRIES cm = Suc n" using retries by (cases "FETCH_MAX_RETRIES cm") auto
  let ?st1 = "st(derive_lock_key [key] \<mapsto> (VStr (cm_now cm), Some (TTL_FETCH_LOCK cm)))"
  have "distributed_get_or_load cm key [] (pure found) repr construct st = lead cm key (pure found) repr ?st1"
    using None free pos redis
    by (simp add: distributed_get_or_load_def fetch_from_cache_def primitive_get_from_cache_def bindM_def n
        store_redis_def hash_at_def positive_ttls_def)
  moreover have "cache_view cm ?st1 = cache_view cm st"
    using free by (intro ext) (simp add: cache_view_def)
  moreover have "?st1 key = None" "cache_view cm ?st1 (derive_lock_key [key]) = Miss"
    using None by (simp_all add: cache_view_def)
  ultimately show ?thesis
    using lead_view [OF redis pos, of ?st1 key found repr construct] repr by simp
next
  case (Some e)
  from sound Some obtain h t where e: "st key = Some (VHash h, t)" "h \<noteq> Map.empty" "case t of None \<Rightarrow> True | Some s \<Rightarrow> 0 < s"
    by (rule sound_entryE)
  let ?t = "case t of None \<Rightarrow> - 1 | Some s \<Rightarrow> s"
  have get: "primitive_get_from_cache cm key [] st = (Inr (Some (h, ?t)), st)"
    using e redis by (auto simp: primitive_get_from_cache_def bindM_def store_redis_def hash_at_def split: option.splits)
  show ?thesis
  proof (cases "h (NF_SENTINEL_KEY cm)")
    case None
    have "0 < min (TTL_CAP cm) (TTL_PROMOTION cm + ?t)" using pos e(3) by (auto simp: positive_ttls_def split: option.splits)
    then have "distributed_get_or_load cm key [] (pure found) repr construct st =
        (bindE (construct h) (\<lambda>d. Inr (Some d)), st(key \<mapsto> (VHash h, Some (min (TTL_CAP cm) (TTL_PROMOTION cm + ?t)))))"
      using e redis None
      by (auto simp: distributed_get_or_load_def fetch_from_cache_def bindM_def get check_negative_entry_def holds_sentinel_def
          thenM_def cm_exec_store bindE_def lift_sum_def split: sum.splits)
    moreover have "cache_view cm (st(key \<mapsto> (VHash h, Some (min (TTL_CAP cm) (TTL_PROMOTION cm + ?t))))) = cache_view cm st"
      using e by (intro ext) (simp add: cache_view_def)
    moreover have "cache_view cm st key = Hit h" using e None by (simp add: cache_view_def)
    ultimately show ?thesis using free e(2) \<open>0 < min _ _\<close> by (simp add: sound_entry_def)
  next
    case (Some v)
    let ?h = "h ++ map_of (cm_NF_MAPPING cm)"
    have run: "distributed_get_or_load cm key [] (pure found) repr construct st =
        (Inr None, st(key \<mapsto> (VHash ?h, Some (TTL_EPHEMERAL cm))))"
      using e redis Some pos decode
      by (simp add: distributed_get_or_load_def fetch_from_cache_def bindM_def get check_negative_entry_def holds_sentinel_def
          thenM_def cm_exec_store hash_at_def ttl_at_def cm_NF_MAPPING_def positive_ttls_def)
    have ne: "?h (NF_SENTINEL_KEY cm) = Some (NF_SENTINEL_VALUE cm)" by (simp add: cm_NF_MAPPING_def)
    then have "?h \<noteq> Map.empty" by force
    then have "cache_view cm (st(key \<mapsto> (VHash ?h, Some (TTL_EPHEMERAL cm)))) = cache_view cm st"
      using e Some ne by (intro ext) (simp add: cache_view_def)
    moreover have "cache_view cm st key = Negative" using e Some by (simp add: cache_view_def)
    ultimately show ?thesis using free run \<open>?h \<noteq> Map.empty\<close> pos by (simp add: sound_entry_def positive_ttls_def)
  qed
qed

definition example_manager :: "rstore cache_manager" where
  "example_manager =
     \<lparr>cm_redis = store_redis, cm_decode = True, cm_sleep = (\<lambda>_. pure ()), cm_now = ''1'', TTL_CAP = 600, TTL_PROMOTION = 30,
      TTL_STRONGEST = 500, TTL_STRONG = 300, TTL_WEAK = 60, TTL_EPHEMERAL = 40, TTL_FETCH_LOCK = 500,
      FETCH_WAITING_MAX_INTERVALS = 3, FETCH_MAX_RETRIES = 2, NF_SENTINEL_KEY = ''__NF__'', NF_SENTINEL_VALUE = ''1''\<rparr>"

theorem get_or_load_refines_witness:
  "\<exists>st'. distributed_get_or_load example_manager ''forums:1'' [] (pure (Some ''x'')) (\<lambda>d. Inr [(''name'', d)])
       (\<lambda>h. Inr (the (h ''name''))) Map.empty = (Inr (Some ''x''), st') \<and>
     cache_view example_manager st' ''forums:1'' = Hit [''name'' \<mapsto> ''x'']"
proof -
  have ok: "cm_redis example_manager = store_redis" "cm_decode example_manager" "positive_ttls example_manager"
      "0 < FETCH_MAX_RETRIES example_manager"
    by (simp_all add: example_manager_def positive_ttls_def)
  have "\<forall>d m. Some ''x'' = Some d \<longrightarrow> Inr [(''name'', d)] = (Inr m :: exn + (string \<times> string) list) \<longrightarrow>
      m \<noteq> [] \<and> NF_SENTINEL_KEY example_manager \<notin> fst ` set m"
    by (auto simp: example_manager_def)
  from get_or_load_refines [OF ok _ _ this, of Map.empty "''forums:1''" "\<lambda>h. Inr (the (h ''name''))"]
  show ?thesis by (auto simp: sound_entry_def cache_view_entry [of _ Map.empty])
qed

definition lock_stays :: "rstore \<Rightarrow> string \<Rightarrow> bool" where
  "lock_stays st key \<longleftrightarrow> (\<exists>v t. st (derive_lock_key [key]) = Some (VStr v, t))"

lemma wait_lock_stays:
  assumes redis: "cm_redis cm = store_redis"
    and sleep: "\<And>i st. lock_stays st key \<Longrightarrow> \<exists>st'. cm_sleep cm i st = (Inr (), st') \<and> lock_stays st' key"
  shows "lock_stays st key \<Longrightarrow> \<exists>st'. wait_for_leader n cm key cf construct st = (Inr None, st') \<and> lock_stays st' key"
proof (induction n arbitrary: st)
  case (Suc n)
  from sleep [OF Suc.prems, of n] obtain st1 where 1: "cm_sleep cm n st = (Inr (), st1)" "lock_stays st1 key" by blast
  from Suc.IH [OF 1(2)] 1 Suc.prems show ?case
    by (auto simp: lock_stays_def bindM_def thenM_def redis store_redis_def)
qed simp

lemma elect_lock_stays:
  assumes redis: "cm_redis cm = store_redis"
    and sleep: "\<And>i st. lock_stays st key \<Longrightarrow> \<exists>st'. cm_sleep cm i st = (Inr (), st') \<and> lock_stays st' key"
  shows "lock_stays st key \<Longrightarrow>
    \<exists>st'. (\<forall>fallback. elect_leader n cm key cf fallback repr construct st = (Inl CacheCoherenceException, st')) \<and> lock_stays st' key"
proof (induction n arbitrary: st)
  case (Suc n)
  from wait_lock_stays [OF assms Suc.prems] obtain st1
    where 1: "wait_for_leader (FETCH_WAITING_MAX_INTERVALS cm) cm key cf construct st = (Inr None, st1)" "lock_stays st1 key"
    by blast
  from Suc.IH [OF 1(2)] 1 Suc.prems show ?case
    by (auto simp: lock_stays_def bindM_def redis store_redis_def)
qed auto

text \<open>
  While another request holds the lock of a missing key, a follower never touches the
  database: it waits, tries again as often as it is configured to and gives up with a
  \<open>CacheCoherenceException\<close>, whatever the fallback is and whatever the others do to the rest of
  the store while it sleeps.
\<close>

theorem follower_never_loads:
  assumes "cm_redis cm = store_redis" and "st key = None" and "lock_stays st key"
    and "\<And>i st. lock_stays st key \<Longrightarrow> \<exists>st'. cm_sleep cm i st = (Inr (), st') \<and> lock_stays st' key"
  shows "\<exists>st'. \<forall>fallback. distributed_get_or_load cm key [] fallback repr construct st = (Inl CacheCoherenceException, st')"
proof -
  have "distributed_get_or_load cm key [] fallback repr construct st =
      elect_leader (FETCH_MAX_RETRIES cm) cm key [] fallback repr construct st" for fallback
    using assms(1,2)
    by (simp add: distributed_get_or_load_def fetch_from_cache_def primitive_get_from_cache_def bindM_def
        store_redis_def hash_at_def)
  then show ?thesis
    using elect_lock_stays [OF assms(1,4,3), of "FETCH_MAX_RETRIES cm" "[]" repr construct] by auto
qed

theorem follower_never_loads_witness:
  "\<exists>st'. \<forall>fallback. distributed_get_or_load example_manager ''forums:1'' [] fallback (\<lambda>d. Inr [(''name'', d)])
       (\<lambda>h. Inr (the (h ''name''))) [''lock:forums:1'' \<mapsto> (VStr ''1'', Some 400)] = (Inl CacheCoherenceException, st')"
  by (rule follower_never_loads)
    (auto simp: example_manager_def lock_stays_def derive_lock_key_def NAME_SEPERATOR_def)

text \<open>
  A follower that waited for a leader which found nothing takes the negative entry for a
  resource: the leader has stored the sentinel, the next reader is told that there is nothing,
  and the follower returns whatever object the sentinel's fields make.
\<close>

theorem follower_takes_negative_entry:
  assumes redis: "cm_redis cm = store_redis" and decode: "cm_decode cm" and miss: "st key = None" and held: "lock_stays st key"
    and counts: "FETCH_MAX_RETRIES cm = Suc n" "FETCH_WAITING_MAX_INTERVALS cm = Suc (Suc k)"
    and leader: "\<exists>st0. lead cm key (pure (None :: 'd option)) repr st0 = (Inr None, st1) \<and> st0 key = None"
    and woken: "cm_sleep cm (Suc k) st = (Inr (), st1)" and ttl: "0 < TTL_EPHEMERAL cm"
    and obj: "construct [NF_SENTINEL_KEY cm \<mapsto> NF_SENTINEL_VALUE cm] = Inr (d :: 'd)"
  shows "distributed_get_or_load cm key [] fallback repr construct st = (Inr (Some d), st1) \<and>
         fst (distributed_get_or_load cm key [] fallback repr construct st1) = Inr None"
proof -
  from leader obtain st0 where st0: "lead cm key (pure (None :: 'd option)) repr st0 = (Inr None, st1)" "st0 key = None" by blast
  from st0 have st1: "st1 = st0(key \<mapsto> (VHash [NF_SENTINEL_KEY cm \<mapsto> NF_SENTINEL_VALUE cm], Some (TTL_EPHEMERAL cm)),
                                derive_lock_key [key] := None)"
    using redis ttl
    by (simp add: lead_def finallyM_def thenM_def bindM_def set_negative_mapping_def hset_with_ttl_def
          cm_exec_store hash_at_def ttl_at_def cm_NF_MAPPING_def)
  have "distributed_get_or_load cm key [] fallback repr construct st = (Inr (Some d), st1)"
    using miss held woken obj redis counts
    by (auto simp: distributed_get_or_load_def fetch_from_cache_def primitive_get_from_cache_def bindM_def thenM_def
        store_redis_def hash_at_def lock_stays_def st1)
  moreover have "fst (distributed_get_or_load cm key [] fallback repr construct st1) = Inr None"
    using redis decode ttl
    by (simp add: distributed_get_or_load_def fetch_from_cache_def primitive_get_from_cache_def bindM_def thenM_def
        store_redis_def hash_at_def check_negative_entry_def holds_sentinel_def cm_exec_store cm_NF_MAPPING_def st1)
  ultimately show ?thesis ..
qed

definition leader_found_nothing :: rstore where
  "leader_found_nothing = [''forums:1'' \<mapsto> (VHash [''__NF__'' \<mapsto> ''1''], Some 40)]"

theorem follower_takes_negative_entry_witness:
  "distributed_get_or_load (example_manager\<lparr>cm_sleep := \<lambda>_ _. (Inr (), leader_found_nothing)\<rparr>) ''forums:1'' []
     (pure None) (\<lambda>d. Inr []) (\<lambda>h. Inr (length (the (h ''__NF__'')))) [''lock:forums:1'' \<mapsto> (VStr ''1'', Some 400)] =
   (Inr (Some 1), leader_found_nothing)"
proof -
  let ?cm = "example_manager\<lparr>cm_sleep := \<lambda>_ _. (Inr (), leader_found_nothing)\<rparr>"
  have "lead ?cm ''forums:1'' (pure (None :: nat option)) (\<lambda>d. Inr []) Map.empty = (Inr None, leader_found_nothing)"
    by (simp add: lead_def finallyM_def thenM_def bindM_def set_negative_mapping_def hset_with_ttl_def
        cm_exec_store hash_at_def ttl_at_def cm_NF_MAPPING_def example_manager_def leader_found_nothing_def
        derive_lock_key_def NAME_SEPERATOR_def fun_eq_iff)
  then have "\<exists>st0. lead ?cm ''forums:1'' (pure (None :: nat option)) (\<lambda>d. Inr []) st0 = (Inr None, leader_found_nothing) \<and>
      st0 ''forums:1'' = None"
    by blast
  from follower_takes_negative_entry [of ?cm "[''lock:forums:1'' \<mapsto> (VStr ''1'', Some 400)]" "''forums:1''" 1 1 "\<lambda>d. Inr []",
      OF _ _ _ _ _ _ this, of "\<lambda>h. Inr (length (the (h ''__NF__'')))" 1 "pure None"]
  show ?thesis
    by (simp add: example_manager_def lock_stays_def derive_lock_key_def NAME_SEPERATOR_def)
qed

lemma guard_lock_not_intent [simp]:
  "derive_lock_key [n, a, u, r] \<noteq> create_intent_flag n a u r" "create_intent_flag n a u r \<noteq> derive_lock_key [n, a, u, r]"
proof -
  have "length (derive_lock_key [n, a, u, r]) > length (create_intent_flag n a u r)"
    by (simp add: derive_lock_key_def create_intent_flag_def)
  then show "derive_lock_key [n, a, u, r] \<noteq> create_intent_flag n a u r"
    "create_intent_flag n a u r \<noteq> derive_lock_key [n, a, u, r]" by auto
qed

lemma flag_never_head: "map_option intent_flag_value conflicting \<noteq> Some (hd (split_on (hd NAME_SEPERATOR) v))"
proof
  assume "map_option intent_flag_value conflicting = Some (hd (split_on (hd NAME_SEPERATOR) v))"
  then obtain f where f: "intent_flag_value f = hd (split_on (hd NAME_SEPERATOR) v)" by auto
  have "CHR '':'' \<notin> set (hd (split_on CHR '':'' v))" by (intro split_on_pieces [of _ _ v] hd_in_set) simp
  moreover have "CHR '':'' \<in> set (intent_flag_value f)" by (cases f) simp_all
  ultimately show False using f by (simp add: NAME_SEPERATOR_def)
qed

text \<open>
  C28.  The guard around an action.  A second request for the same action is a duplicate, and
  its refusal deletes the lock of the first.  Without an intent the body runs and, if it ends
  well, the request then fails with an \<open>AttributeError\<close>.  With an intent it depends on the client:
  if that decodes what it reads, the body runs and its outcome is the guard's, whatever intent was
  declared to be in conflict, for the values of the flags contain the separator the text is
  split at, so that the conflict is never seen; with the client as it is configured, which
  answers bytes, the guard fails with a \<open>TypeError\<close> before the body.  The lock is gone in each case.
\<close>

theorem guard_outcomes:
  fixes cm user resource name act
  defines "lock \<equiv> derive_lock_key [name, action_value act, user, resource]"
    and "intent \<equiv> create_intent_flag name (action_value act) user resource"
  assumes redis: "cm_redis cm = store_redis" and ttl: "0 < TTL_FETCH_LOCK cm"
  shows "(st lock \<noteq> None \<longrightarrow> (st intent = None \<or> (\<exists>v t. st intent = Some (VStr v, t))) \<longrightarrow>
            guard_action cm user resource name act conflicting body st = (Inl DuplicateRequestException, st(lock := None))) \<and>
         (st lock = None \<longrightarrow> st intent = None \<longrightarrow>
            body None (st(lock \<mapsto> (VStr ''1'', Some (TTL_FETCH_LOCK cm)))) = (Inr (), s1) \<longrightarrow>
            guard_action cm user resource name act conflicting body st = (Inl AttributeError, s1(lock := None))) \<and>
         (st lock = None \<longrightarrow> st intent = Some (VStr v, t) \<longrightarrow> v \<noteq> [] \<longrightarrow>
            body (Some (hd (split_on CHR '':'' v))) (st(lock \<mapsto> (VStr ''1'', Some (TTL_FETCH_LOCK cm)))) = (r, s1) \<longrightarrow>
            guard_action cm user resource name act conflicting body st =
              (if cm_decode cm then (r, s1(lock := None)) else (Inl TypeError, st)))"
proof (intro conjI impI)
  note ev = guard_action_def Let_def finallyM_def bindM_def cm_exec_store redis store_redis_def
    lock_def [symmetric] intent_def [symmetric]
  have ne: "lock \<noteq> intent" "intent \<noteq> lock" by (simp_all add: lock_def intent_def)
  {
    assume "st lock \<noteq> None" and "st intent = None \<or> (\<exists>v t. st intent = Some (VStr v, t))"
    then show "guard_action cm user resource name act conflicting body st = (Inl DuplicateRequestException, st(lock := None))"
      by (auto simp: ev)
  next
    assume "st lock = None" and "st intent = None"
      and "body None (st(lock \<mapsto> (VStr ''1'', Some (TTL_FETCH_LOCK cm)))) = (Inr (), s1)"
    then show "guard_action cm user resource name act conflicting body st = (Inl AttributeError, s1(lock := None))"
      using ttl ne by (simp add: ev thenM_def)
  next
    assume "st lock = None" and "st intent = Some (VStr v, t)" and "v \<noteq> []"
      and "body (Some (hd (split_on CHR '':'' v))) (st(lock \<mapsto> (VStr ''1'', Some (TTL_FETCH_LOCK cm)))) = (r, s1)"
    then show "guard_action cm user resource name act conflicting body st =
        (if cm_decode cm then (r, s1(lock := None)) else (Inl TypeError, st))"
      using ttl ne flag_never_head [of conflicting v] by (auto simp: ev thenM_def NAME_SEPERATOR_def)
  }
qed

theorem guard_outcomes_witness:
  "guard_action example_manager ''7'' ''3'' ''posts'' SAVE (Some RESOURCE_CREATION_PENDING_FLAG) (\<lambda>_. pure ())
     [''posts:SAVE:7:3'' \<mapsto> (VStr ''FLAG:C:uuid'', None)] = (Inr (), [''posts:SAVE:7:3'' \<mapsto> (VStr ''FLAG:C:uuid'', None)])"
proof -
  let ?st = "[''posts:SAVE:7:3'' \<mapsto> (VStr ''FLAG:C:uuid'', None)] :: rstore"
  have decode: "cm_decode example_manager" by (simp add: example_manager_def)
  have "cm_redis example_manager = store_redis" "0 < TTL_FETCH_LOCK example_manager"
    by (simp_all add: example_manager_def)
  from guard_outcomes [OF this, of ?st "''posts''" SAVE "''7''" "''3''" "Some RESOURCE_CREATION_PENDING_FLAG" "\<lambda>_. pure ()"
      "?st(''lock:posts:SAVE:7:3'' \<mapsto> (VStr ''1'', Some (TTL_FETCH_LOCK example_manager)))" "''FLAG:C:uuid''" None "Inr ()"]
  show ?thesis by (simp add: derive_lock_key_def create_intent_flag_def NAME_SEPERATOR_def decode)
qed

lemma present_members:
  "cm_redis cm = store_redis \<Longrightarrow> \<forall>k \<in> set ks. \<exists>h t. st k = Some (VHash h, t) \<and> h \<noteq> map_of (cm_NF_MAPPING cm) \<and> t \<noteq> Some (- 2) \<Longrightarrow>
   \<exists>rs. run_cmds (concat (map (\<lambda>k. [R_HGETALL k, R_TTL k]) ks)) st = Some (rs, st) \<and> collect_members cm [] rs = Inr []"
proof (induction ks)
  case (Cons k ks)
  then obtain rs h t where "run_cmds (concat (map (\<lambda>k. [R_HGETALL k, R_TTL k]) ks)) st = Some (rs, st)"
      "collect_members cm [] rs = Inr []" "st k = Some (VHash h, t)" "h \<noteq> map_of (cm_NF_MAPPING cm)" "t \<noteq> Some (- 2)"
    by auto
  then show ?case by (auto simp: hash_at_def split: option.splits)
qed simp

text \<open>
  Pages of a class without counters, which all classes are, never come from the cache and
  never reach the database.  A page that is not cached ends in an \<open>IndexError\<close>, and so does one
  whose members are all there, since the members are collected inside the loop over the
  counters; the store stays as it is.
\<close>

theorem pages_never_served:
  assumes redis: "cm_redis cm = store_redis"
    and page: "st page_key = None \<or>
      (\<exists>k ks c t. st page_key = Some (VList (k # ks @ [c]), t) \<and>
         (\<forall>k' \<in> set (k # ks). \<exists>h t'. st k' = Some (VHash h, t') \<and> h \<noteq> map_of (cm_NF_MAPPING cm) \<and> t' \<noteq> Some (- 2)))"
  shows "\<forall>fallback. distributed_pagination_get_or_load cm page_key [] fallback repr construct st = (Inl IndexError, st)"
proof -
  have "fetch_paginated_resources cm page_key [] construct st = (Inl IndexError, st)"
  proof (cases "st page_key")
    case None
    then show ?thesis
      by (simp add: fetch_paginated_resources_def primitive_pagination_get_def bindM_def redis store_redis_def list_at_def)
  next
    case (Some e)
    with page obtain k ks c t where p: "st page_key = Some (VList (k # ks @ [c]), t)"
      and m: "\<forall>k' \<in> set (k # ks). \<exists>h t'. st k' = Some (VHash h, t') \<and> h \<noteq> map_of (cm_NF_MAPPING cm) \<and> t' \<noteq> Some (- 2)"
      by auto
    from present_members [OF redis m] obtain rs
      where rs: "run_cmds (concat (map (\<lambda>k. [R_HGETALL k, R_TTL k]) (k # ks))) st = Some (rs, st)" "collect_members cm [] rs = Inr []"
      by blast
    have "primitive_pagination_get cm page_key [] st = (Inr (case t of None \<Rightarrow> - 1 | Some s \<Rightarrow> s, k # ks, [], c), st)"
      using p rs by (auto simp: primitive_pagination_get_def bindM_def redis store_redis_def list_at_def split: option.splits)
    then show ?thesis
      by (simp add: fetch_paginated_resources_def thenM_def promote_paginated_result_def bindM_def py_nth_def upt_rec)
  qed
  then show ?thesis by (simp add: distributed_pagination_get_or_load_def)
qed

theorem pages_never_served_witness:
  "distributed_pagination_get_or_load example_manager ''0:posts:0'' [] (pure [(''posts:1'', ())]) (\<lambda>_. Inr []) (\<lambda>_. Inr ())
     Map.empty = (Inl IndexError, Map.empty)"
proof -
  have "cm_redis example_manager = store_redis" by (simp add: example_manager_def)
  from pages_never_served [OF this, of Map.empty "''0:posts:0''"] show ?thesis by auto
qed

lemma members_cached:
  assumes "\<forall>(k, m) \<in> set resources. k \<noteq> page \<and> m \<noteq> []" and "distinct (map fst resources)"
    and "\<forall>(k, m) \<in> set resources. st k = None" and "st page = None \<and> l = [] \<or> st page = Some (VList l, None)" and "0 < ttl"
  shows "\<exists>rs st'. run_cmds (concat (map (\<lambda>(k, m). [R_RPUSH page k, R_HSET k m, R_EXPIRE k ttl]) resources)) st = Some (rs, st') \<and>
     (if resources = [] then st' page = st page else st' page = Some (VList (l @ map fst resources), None)) \<and>
     (\<forall>(k, m) \<in> set resources. st' k = Some (VHash (map_of (rev m)), Some ttl)) \<and>
     (\<forall>k. k \<noteq> page \<longrightarrow> k \<notin> fst ` set resources \<longrightarrow> st' k = st k)"
  using assms
proof (induction resources arbitrary: st l)
  case (Cons r resources)
  obtain k m where r: "r = (k, m)" by (cases r)
  let ?st1 = "st(page \<mapsto> (VList (l @ [k]), None), k \<mapsto> (VHash (map_of (rev m)), Some ttl))"
  have free: "k \<noteq> page" "m \<noteq> []" "st k = None" using Cons.prems r by auto
  have tail: "\<forall>(k, m) \<in> set resources. k \<noteq> page \<and> m \<noteq> []" "distinct (map fst resources)" "k \<notin> fst ` set resources"
    and "?st1 page = None \<and> l @ [k] = [] \<or> ?st1 page = Some (VList (l @ [k]), None)"
    using Cons.prems(1,2) r free by auto
  moreover have "\<forall>(k', m') \<in> set resources. ?st1 k' = None"
  proof clarify
    fix k' m'
    assume k': "(k', m') \<in> set resources"
    then have "k' \<noteq> k" using tail(3) by (metis fst_conv image_eqI)
    moreover have "k' \<noteq> page" "st k' = None" using k' tail(1) Cons.prems(3) by auto
    ultimately show "?st1 k' = None" by simp
  qed
  ultimately have "\<forall>(k, m) \<in> set resources. k \<noteq> page \<and> m \<noteq> []" "distinct (map fst resources)"
      "\<forall>(k', m') \<in> set resources. ?st1 k' = None" "?st1 page = None \<and> l @ [k] = [] \<or> ?st1 page = Some (VList (l @ [k]), None)"
    by blast+
  from Cons.IH [OF this Cons.prems(5)] obtain rs st'
    where ih: "run_cmds (concat (map (\<lambda>(k, m). [R_RPUSH page k, R_HSET k m, R_EXPIRE k ttl]) resources)) ?st1 = Some (rs, st')"
      "if resources = [] then st' page = ?st1 page else st' page = Some (VList ((l @ [k]) @ map fst resources), None)"
      "\<forall>(k, m) \<in> set resources. st' k = Some (VHash (map_of (rev m)), Some ttl)"
      "\<forall>k'. k' \<noteq> page \<longrightarrow> k' \<notin> fst ` set resources \<longrightarrow> st' k' = ?st1 k'"
    by blast
  have head: "list_at st page = Some l" "ttl_at st page = None"
    using Cons.prems(4) by (auto simp: list_at_def ttl_at_def)
  have "k \<notin> fst ` set resources" using Cons.prems(2) r by simp
  with ih(4) free have "st' k = Some (VHash (map_of (rev m)), Some ttl)" by simp
  moreover have "\<exists>qs. run_cmds (concat (map (\<lambda>(k, m). [R_RPUSH page k, R_HSET k m, R_EXPIRE k ttl]) (r # resources))) st = Some (qs, st')"
    using ih(1) head free r Cons.prems(5)
    by (auto simp: hash_at_def ttl_at_def fun_upd_twist)
  ultimately show ?case using ih r free by (auto split: if_splits)
qed auto

text \<open>
  A page the leader caches, on a key that was free, never expires: the expiry time is set
  before there is a list, which Redis ignores.  Its members do expire.
\<close>

theorem cached_page_never_expires:
  assumes redis: "cm_redis cm = store_redis" and page: "st page_key = None"
    and ttl: "0 < TTL_WEAK cm" "0 < TTL_STRONG cm"
    and "\<forall>(k, m) \<in> set resources. k \<noteq> page_key \<and> m \<noteq> []" and "distinct (map fst resources)"
    and "\<forall>(k, m) \<in> set resources. st k = None"
  shows "\<exists>st'. cache_grouped_resource cm page_key resources cursor st = (Inr (), st') \<and>
     st' page_key = Some (VList (map fst resources @ [cursor]), None) \<and>
     (\<forall>(k, m) \<in> set resources. st' k = Some (VHash (map_of (rev m)), Some (TTL_STRONG cm)))"
proof -
  from members_cached [OF assms(5-7), of "[]" "TTL_STRONG cm"] page ttl obtain rs st1
    where m: "run_cmds (concat (map (\<lambda>(k, m). [R_RPUSH page_key k, R_HSET k m, R_EXPIRE k (TTL_STRONG cm)]) resources)) st = Some (rs, st1)"
      "if resources = [] then st1 page_key = st page_key else st1 page_key = Some (VList (map fst resources), None)"
      "\<forall>(k, m) \<in> set resources. st1 k = Some (VHash (map_of (rev m)), Some (TTL_STRONG cm))"
    by auto
  then have "list_at st1 page_key = Some (map fst resources)" "ttl_at st1 page_key = None"
    using page by (auto simp: list_at_def ttl_at_def split: if_splits)
  then have "cache_grouped_resource cm page_key resources cursor st =
      (Inr (), st1(page_key \<mapsto> (VList (map fst resources @ [cursor]), None)))"
    using m(1) page by (simp add: cache_grouped_resource_def cm_exec_store [OF redis] run_cmds_append)
  moreover have "\<forall>(k, m) \<in> set resources. (st1(page_key \<mapsto> (VList (map fst resources @ [cursor]), None))) k =
      Some (VHash (map_of (rev m)), Some (TTL_STRONG cm))"
    using m(3) assms(5) by auto
  ultimately show ?thesis by (intro exI conjI) (assumption, simp_all)
qed

theorem cached_page_never_expires_witness:
  "\<exists>st'. cache_grouped_resource example_manager ''0:posts:0'' [(''posts:1'', [(''title'', ''x'')])] ''0'' Map.empty = (Inr (), st') \<and>
     st' ''0:posts:0'' = Some (VList [''posts:1'', ''0''], None)"
  using cached_page_never_expires [of example_manager Map.empty "''0:posts:0''" "[(''posts:1'', [(''title'', ''x'')])]" "''0''"]
  by (auto simp: example_manager_def)

section \<open>What a request may rely on\<close>

text \<open>
  The contract under which a handler reads through the cache: an invariant of the world that
  the commands the manager sends keep, and what it says of an entry that is read.
\<close>

locale trusted_cache =
  fixes cm :: "'s cache_manager" and inv :: "'s \<Rightarrow> bool" and safe :: "rcmd \<Rightarrow> bool"
    and readable :: "string \<Rightarrow> (string \<rightharpoonup> string) \<Rightarrow> bool"
  assumes exec: "inv s \<Longrightarrow> \<forall>c \<in> set cs. safe c \<Longrightarrow> inv (snd (cm_redis cm tx cs s))"
    and sleeps: "inv s \<Longrightarrow> inv (snd (cm_sleep cm i s))"
    and reads: "inv s \<Longrightarrow> fst (cm_redis cm tx (R_HGETALL k # cs) s) = Inr (RMap h # rs) \<Longrightarrow> readable k h"
    and safe_reads: "safe (R_GET k)" "safe (R_HGETALL k)" "safe (R_HGET k f)" "safe (R_TTL k)"
    and safe_expire: "safe (R_EXPIRE k t)"
    and safe_lock: "safe (R_SET (derive_lock_key xs) v nx ex)" "safe (R_DEL (derive_lock_key xs))"
    and safe_intent: "safe (R_SET (create_intent_flag name a user resource) v nx ex)"
    and safe_negative: "safe (R_HSET k (cm_NF_MAPPING cm))"
begin

lemmas safe_cmds = safe_reads safe_expire safe_lock safe_intent safe_negative

lemma sure_redis: "\<forall>c \<in> set cs. safe c \<Longrightarrow> sure inv (cm_redis cm tx cs) (\<lambda>_. True)"
  by (simp add: sure_def exec)

lemma sure_exec: "\<forall>c \<in> set cs. safe c \<Longrightarrow> sure inv (cm_exec cm tx cs) (\<lambda>_. True)"
  unfolding cm_exec_def by (rule sure_thenM [OF sure_redis]) (auto intro: sure_rules)

lemma sure_primitive_get:
  "sure inv (primitive_get_from_cache cm key []) (\<lambda>r. case r of None \<Rightarrow> True | Some (h, _) \<Rightarrow> readable key h)"
proof -
  have "sure inv (cm_redis cm False ([R_HGETALL key, R_TTL key] @ map (\<lambda>(_, m). R_HGET m key) []))
      (\<lambda>rs. \<forall>h qs. rs = RMap h # qs \<longrightarrow> readable key h)"
    using exec reads by (fastforce simp: sure_def safe_cmds)
  then show ?thesis
    unfolding primitive_get_from_cache_def
    by (rule sure_bindM) (auto intro!: sure_rules split: list.split reply.split)
qed

lemma sure_fetch:
  "sure inv (fetch_from_cache cm key []) (\<lambda>c. \<forall>h. c = Hit h \<longrightarrow> readable key h)"
  unfolding fetch_from_cache_def
proof (rule sure_bindM [OF sure_primitive_get])
  fix res :: "((string \<rightharpoonup> string) \<times> int) option"
  assume res: "case res of None \<Rightarrow> True | Some (h, _) \<Rightarrow> readable key h"
  have neg: "sure inv (check_negative_entry cm key h) (\<lambda>_. True)" for h
    unfolding check_negative_entry_def by (auto intro!: sure_thenM [OF sure_exec] sure_rules simp: safe_cmds)
  show "sure inv (case res of None \<Rightarrow> pure Miss
       | Some (h, ttl) \<Rightarrow> bindM (check_negative_entry cm key h) (\<lambda>negative. if negative then pure Negative
           else thenM (cm_exec cm False [R_EXPIRE key (min (TTL_CAP cm) (TTL_PROMOTION cm + ttl))]) (pure (Hit h))))
     (\<lambda>c. \<forall>h. c = Hit h \<longrightarrow> readable key h)"
    using res
    by (auto intro!: sure_rules sure_bindM_any [OF neg] sure_thenM [OF sure_exec] simp: safe_cmds split: option.split)
qed

lemma sure_wait:
  assumes "\<And>h d. readable key h \<Longrightarrow> construct h = Inr d \<Longrightarrow> Q d"
  shows "sure inv (wait_for_leader i cm key [] construct) (\<lambda>r. \<forall>d. r = Some d \<longrightarrow> Q d)"
proof (induction i)
  case 0
  show ?case unfolding wait_for_leader.simps by (rule sure_pure) simp
next
  case (Suc i)
  have sl: "sure inv (cm_sleep cm i) (\<lambda>_. True)" by (simp add: sure_def sleeps)
  have read: "sure inv (bindM (primitive_get_from_cache cm key []) (\<lambda>res. case res of None \<Rightarrow> pure None
      | Some (h, _) \<Rightarrow> bindM (lift_sum (construct h)) (\<lambda>d. pure (Some d)))) (\<lambda>r. \<forall>d. r = Some d \<longrightarrow> Q d)"
    by (rule sure_bindM [OF sure_primitive_get])
      (auto intro!: sure_rules sure_bindM [where Q = Q] assms split: option.split)
  show ?case unfolding wait_for_leader.simps
    by (rule sure_bindM_any [OF sure_redis]) (auto simp: safe_cmds intro!: sure_thenM [OF sl Suc.IH] read)
qed

lemma sure_lead:
  assumes "sure inv fallback (\<lambda>r. \<forall>d. r = Some d \<longrightarrow> (\<forall>m. repr d = Inr m \<longrightarrow> Q d \<and> safe (R_HSET key m)))"
  shows "sure inv (lead cm key fallback repr) (\<lambda>r. \<forall>d. r = Some d \<longrightarrow> Q d)"
  unfolding lead_def
proof (rule sure_finallyM [OF _ sure_exec], rule sure_bindM [OF assms])
  fix r
  assume r: "\<forall>d. r = Some d \<longrightarrow> (\<forall>m. repr d = Inr m \<longrightarrow> Q d \<and> safe (R_HSET key m))"
  show "sure inv (case r of None \<Rightarrow> thenM (set_negative_mapping cm key None) (pure None)
      | Some d \<Rightarrow> bindM (lift_sum (repr d)) (\<lambda>m. thenM (hset_with_ttl cm key m (TTL_STRONG cm)) (pure (Some d))))
    (\<lambda>r. \<forall>d. r = Some d \<longrightarrow> Q d)"
  proof (cases r)
    case None
    then show ?thesis
      by (auto intro!: sure_thenM [OF sure_exec] sure_rules simp: set_negative_mapping_def hset_with_ttl_def safe_cmds)
  next
    case (Some d)
    with r show ?thesis
      by (auto intro!: sure_bindM [where Q = "\<lambda>m. repr d = Inr m"] sure_thenM [OF sure_exec] sure_rules
          simp: hset_with_ttl_def safe_cmds)
  qed
qed (simp add: safe_cmds)

lemma sure_elect:
  assumes "sure inv fallback (\<lambda>r. \<forall>d. r = Some d \<longrightarrow> (\<forall>m. repr d = Inr m \<longrightarrow> Q d \<and> safe (R_HSET key m)))"
    and "\<And>h d. readable key h \<Longrightarrow> construct h = Inr d \<Longrightarrow> Q d"
  shows "sure inv (elect_leader n cm key [] fallback repr construct) (\<lambda>r. \<forall>d. r = Some d \<longrightarrow> Q d)"
proof (induction n)
  case 0
  show ?case unfolding elect_leader.simps by (rule sure_raise)
next
  case (Suc n)
  show ?case unfolding elect_leader.simps
    by (rule sure_bindM_any [OF sure_redis])
      (auto simp: safe_cmds intro!: sure_lead [OF assms(1)] sure_bindM [OF sure_wait [OF assms(2)]] sure_rules Suc.IH
        split: option.split)
qed

lemma sure_get_or_load:
  assumes "sure inv fallback (\<lambda>r. \<forall>d. r = Some d \<longrightarrow> (\<forall>m. repr d = Inr m \<longrightarrow> Q d \<and> safe (R_HSET key m)))"
    and "\<And>h d. readable key h \<Longrightarrow> construct h = Inr d \<Longrightarrow> Q d"
  shows "sure inv (distributed_get_or_load cm key [] fallback repr construct) (\<lambda>r. \<forall>d. r = Some d \<longrightarrow> Q d)"
  unfolding distributed_get_or_load_def
  by (rule sure_bindM [OF sure_fetch])
    (auto intro!: sure_elect assms(1) sure_bindM [where Q = Q] sure_rules intro: assms(2) split: cached.split)

text \<open>A guard whose body never returns does not return either.\<close>

lemma sure_guard:
  assumes "\<And>i. sure inv (body i) (\<lambda>_. False)"
  shows "sure inv (guard_action cm user resource name act conflicting body) (\<lambda>_. False)"
  unfolding guard_action_def Let_def
proof (rule sure_finallyM [OF _ sure_exec])
  have any: "sure inv (thenM (body i) k) (\<lambda>_. False)" for i and k :: "('s, unit) py"
    unfolding thenM_def by (rule sure_bindM [OF assms]) simp
  show "sure inv (bindM (cm_redis cm True [R_SET (derive_lock_key [name, action_value act, user, resource]) ''1'' True
        (Some (TTL_FETCH_LOCK cm)), R_GET (create_intent_flag name (action_value act) user resource)]) (\<lambda>rs.
       case rs of
         [lock_set, intent] \<Rightarrow>
           if lock_set \<noteq> RBool True then raise DuplicateRequestException
           else (case intent of
                   RText v \<Rightarrow>
                     if v = [] then thenM (body None) (raise (if cm_decode cm then RuntimeError else TypeError))
                     else if \<not> cm_decode cm then raise TypeError
                     else if map_option intent_flag_value conflicting = Some (hd (split_on (hd NAME_SEPERATOR) v))
                          then raise ConflictingIntentException else body (Some (hd (split_on (hd NAME_SEPERATOR) v)))
                 | _ \<Rightarrow> thenM (body None) (raise AttributeError))
       | _ \<Rightarrow> raise OtherException)) (\<lambda>_. False)"
    by (rule sure_bindM_any [OF sure_redis])
      (auto simp: safe_cmds Let_def intro: sure_rules any assms split: list.split reply.split)
qed (simp add: safe_cmds)

lemma sure_derive_page_key: "sure inv (derive_pagination_key cm name cursor args) (\<lambda>_. True)"
  unfolding derive_pagination_key_def
  by (rule sure_bindM_any [OF sure_redis]) (auto simp: safe_cmds intro: sure_rules split: list.split reply.split)

lemma sure_set_intent: "sure inv (set_intent cm intent_id user resource name act flag ttl) (\<lambda>_. True)"
  unfolding set_intent_def by (rule sure_exec) (simp add: safe_cmds)

lemma sure_fetch_indicators: "sure inv (fetch_indicators cm user resource name act) (\<lambda>_. True)"
  unfolding fetch_indicators_def
  by (rule sure_bindM_any [OF sure_redis])
    (auto simp: safe_cmds Let_def intro!: sure_rules split: list.split reply.split option.split)

end

text \<open>A cache that keeps no lists has no pages.\<close>

locale pageless_cache = trusted_cache +
  assumes no_lists: "inv s \<Longrightarrow> fst (cm_redis cm tx [R_LRANGE_ALL k] s) = Inr [RTexts ks] \<Longrightarrow> ks = []"
    and safe_range: "safe (R_LRANGE_ALL k)"
begin

lemma sure_range: "sure inv (cm_redis cm tx [R_LRANGE_ALL k]) (\<lambda>rs. \<forall>ks. rs = [RTexts ks] \<longrightarrow> ks = [])"
  using exec no_lists by (fastforce simp: sure_def safe_range)

lemma sure_page_get: "sure inv (primitive_pagination_get cm page_key counter_fields) (\<lambda>_. False)"
  unfolding primitive_pagination_get_def
  by (rule sure_bindM [OF sure_range]) (auto intro: sure_rules split: list.split reply.split)

lemma sure_page_get_or_load:
  "sure inv (distributed_pagination_get_or_load cm page_key counter_fields fallback repr construct) (\<lambda>_. False)"
  unfolding distributed_pagination_get_or_load_def fetch_paginated_resources_def
  by (rule sure_bindM [OF sure_bindM [OF sure_page_get]]) simp_all

end

end
