(* ===== verification/Tenjin_Server.thy ===== *)
theory Tenjin_Server
  imports Tenjin_Cache Tenjin_Processing Tenjin_Base64
begin

text \<open>
  The world the routes of the resource server run in: its database, a table being the list of
  its rows and a row the values of its columns by name, its Redis, and the parts it is given;
  the result objects the repositories make of rows, and the responses.

  Sessions answer: a statement the database would refuse is an error of the model, a
  connection that is lost is not part of it.
\<close>

section \<open>Rows\<close>

type_synonym orm_row = "(string \<times> field_value) list"

record rs_db =
  forums :: "orm_row list"
  forum_admins :: "orm_row list"
  forum_subscriptions :: "orm_row list"
  users :: "orm_row list"
  recovery_tokens :: "orm_row list"
  db_posts :: "orm_row list"
  post_votes :: "orm_row list"
  post_saves :: "orm_row list"
  post_reports :: "orm_row list"
  db_comments :: "orm_row list"
  comment_votes :: "orm_row list"
  comment_reports :: "orm_row list"
  db_animes :: "orm_row list"
  db_genres :: "orm_row list"
  anime_genres :: "orm_row list"
  stream_links :: "orm_row list"
  anime_subscriptions :: "orm_row list"

text \<open>\<open>w_genres\<close>: whether the cached coroutine of \<open>get_genres\<close> has been awaited.\<close>

record world =
  w_store :: rstore
  w_db :: rs_db
  w_genres :: bool

definition col :: "orm_row \<Rightarrow> string \<Rightarrow> field_value" where
  "col r c = (case map_of r c of None \<Rightarrow> FNone | Some v \<Rightarrow> v)"

text \<open>
  Equality of SQL: \<open>NULL\<close> equals nothing, and a text that is compared with an integer column is
  read as a number.
\<close>

fun sql_eq :: "field_value \<Rightarrow> field_value \<Rightarrow> bool" where
  "sql_eq (FInt n) (FInt m) \<longleftrightarrow> n = m"
| "sql_eq (FInt n) (FStr s) \<longleftrightarrow> int_of_str s = Some n"
| "sql_eq (FStr s) (FStr t) \<longleftrightarrow> s = t"
| "sql_eq (FBool a) (FBool b) \<longleftrightarrow> a = b"
| "sql_eq (FTime s) (FTime t) \<longleftrightarrow> s = t"
| "sql_eq _ _ \<longleftrightarrow> False"

fun one_or_none :: "'a list \<Rightarrow> exn + 'a option" where
  "one_or_none [] = Inr None"
| "one_or_none [r] = Inr (Some r)"
| "one_or_none _ = Inl SQLAlchemyError"

fun exactly_one :: "'a list \<Rightarrow> exn + 'a" where
  "exactly_one [r] = Inr r"
| "exactly_one _ = Inl SQLAlchemyError"

definition on_db :: "(rs_db \<Rightarrow> exn + 'a) \<Rightarrow> (world, 'a) py" where
  "on_db f w = (f (w_db w), w)"

definition commit_db :: "(rs_db \<Rightarrow> exn + rs_db) \<Rightarrow> (world, unit) py" where
  "commit_db f w = (case f (w_db w) of Inl e \<Rightarrow> (Inl e, w) | Inr db \<Rightarrow> (Inr (), w\<lparr>w_db := db\<rparr>))"

text \<open>\<open>values(...)\<close> refuses names that no attribute of the mapped class has.\<close>

definition check_values :: "string list \<Rightarrow> (string \<times> field_value) list \<Rightarrow> exn + unit" where
  "check_values attributes kw = (if set (map fst kw) \<subseteq> set attributes then Inr () else Inl SQLAlchemyError)"

definition set_columns :: "(string \<times> field_value) list \<Rightarrow> orm_row \<Rightarrow> orm_row" where
  "set_columns kw r = map (\<lambda>(c, v). (c, case map_of kw c of None \<Rightarrow> v | Some v' \<Rightarrow> v')) r"

definition update_rows :: "(orm_row \<Rightarrow> bool) \<Rightarrow> (string \<times> field_value) list \<Rightarrow> orm_row list \<Rightarrow> orm_row list" where
  "update_rows p kw rows = map (\<lambda>r. if p r then set_columns kw r else r) rows"

section \<open>Classes of results\<close>

definition ForumResult :: result_class where
  "ForumResult = [(''id_'', T_OTHER), (''name_'', T_OTHER), (''anime'', T_OTHER), (''description'', T_OTHER),
     (''subscribers'', T_OTHER), (''posts'', T_OTHER), (''created_at'', T_DATETIME), (''admin_count'', T_OTHER)]"

definition UserResult :: result_class where
  "UserResult = [(''id_'', T_OTHER), (''username'', T_OTHER), (''aura'', T_OTHER), (''total_posts'', T_OTHER),
     (''total_comments'', T_OTHER), (''time_joined'', T_DATETIME), (''last_login'', T_DATETIME)]"

definition PostResult :: result_class where
  "PostResult = [(''id_'', T_OTHER), (''author_id'', T_OTHER), (''forum_id'', T_OTHER), (''author_username'', T_OTHER),
     (''score'', T_OTHER), (''total_comments'', T_OTHER), (''saves'', T_OTHER), (''reports'', T_OTHER),
     (''title'', T_OTHER), (''body_text'', T_OTHER), (''flair'', T_OTHER), (''closed'', T_BOOL),
     (''time_posted'', T_DATETIME)]"

definition CommentResult :: result_class where
  "CommentResult = [(''id_'', T_OTHER), (''author_id'', T_OTHER), (''author_username'', T_OTHER),
     (''parent_forum'', T_OTHER), (''parent_post'', T_OTHER), (''time_created'', T_DATETIME), (''body'', T_OTHER),
     (''score'', T_OTHER), (''reports'', T_OTHER)]"

text \<open>\<open>__json_repr__\<close>, and the rendering of a response, which refuses datetimes.\<close>

definition result_json_repr :: "result_class \<Rightarrow> dto \<Rightarrow> exn + (string \<times> field_value) list" where
  "result_json_repr cls d =
     traverse (\<lambda>(n, t). case d n of None \<Rightarrow> Inl AttributeError | Some v \<Rightarrow> Inr (strip_underscores n, v)) (public_fields cls)"

datatype jval =
    JText string | JVal field_value | JObj "(string \<times> field_value) list"
  | JObjs "(string \<times> field_value) list list"

fun is_time :: "field_value \<Rightarrow> bool" where
  "is_time (FTime _) = True"
| "is_time _ = False"

fun renders :: "jval \<Rightarrow> bool" where
  "renders (JText s) = True"
| "renders (JVal v) \<longleftrightarrow> \<not> is_time v"
| "renders (JObj kvs) \<longleftrightarrow> \<not> list_ex (is_time \<circ> snd) kvs"
| "renders (JObjs os) \<longleftrightarrow> \<not> list_ex (list_ex (is_time \<circ> snd)) os"

type_synonym response = "int \<times> (string \<times> jval) list"

definition JSONResponse :: "(string \<times> jval) list \<Rightarrow> int \<Rightarrow> ('s, response) py" where
  "JSONResponse body status =
     (if list_all (renders \<circ> snd) body then pure (status, body) else raise TypeError)"

section \<open>The server\<close>

text \<open>
  What the routes are given: the cache manager, the streamer's Redis and serializer, whether
  \<open>super()\<close> without arguments works in a dataclass with slots (from Python 3.14 on), the answer
  of the statement of \<open>get_forum_owner\<close>, which joins the users twice without an alias, the
  password hash, and the configuration of pages.
\<close>

record server =
  sv_cache :: "world cache_manager"
  sv_redis :: "world redis"
  sv_dumps :: "pyval \<Rightarrow> exn + string"
  sv_loads :: "string \<Rightarrow> exn + pyval"
  sv_super :: bool
  sv_forum_owner :: "int \<Rightarrow> rs_db \<Rightarrow> exn + dto"
  sv_hashpw :: "string \<Rightarrow> string"
  sv_checkpw :: "string \<Rightarrow> string \<Rightarrow> bool"
  PAGINATION_SIZE :: nat
  PAGINATION_CURSOR_LENGTH :: nat

record claims =
  sid :: int
  sub_claim :: string

definition attr :: "dto \<Rightarrow> string \<Rightarrow> ('s, field_value) py" where
  "attr d n = lift_sum (case d n of None \<Rightarrow> Inl AttributeError | Some v \<Rightarrow> Inr v)"

fun str_of_value :: "field_value \<Rightarrow> string" where
  "str_of_value (FInt n) = str_of_int n"
| "str_of_value (FStr s) = s"
| "str_of_value (FBool b) = (if b then ''True'' else ''False'')"
| "str_of_value (FTime t) = t"
| "str_of_value FNone = ''None''"

fun pyval_of :: "field_value \<Rightarrow> pyval" where
  "pyval_of (FInt n) = PInt n"
| "pyval_of (FStr s) = PStr s"
| "pyval_of (FBool b) = PBool b"
| "pyval_of (FTime t) = PDatetime t"
| "pyval_of FNone = PNone"

fun truthy :: "field_value \<Rightarrow> bool" where
  "truthy (FInt n) \<longleftrightarrow> n \<noteq> 0"
| "truthy (FStr s) \<longleftrightarrow> s \<noteq> []"
| "truthy (FBool b) \<longleftrightarrow> b"
| "truthy (FTime t) \<longleftrightarrow> True"
| "truthy FNone \<longleftrightarrow> False"

text \<open>The counter fields of every class are declared under a name the manager does not read.\<close>

definition load ::
  "server \<Rightarrow> string \<Rightarrow> (world, dto option) py \<Rightarrow> result_class \<Rightarrow> ((string \<rightharpoonup> string) \<Rightarrow> exn + dto) \<Rightarrow>
   (world, dto option) py" where
  "load sv key fallback cls construct =
     distributed_get_or_load (sv_cache sv) key [] fallback (result_cache_repr cls) construct"

definition from_cache :: "server \<Rightarrow> result_class \<Rightarrow> (string \<rightharpoonup> string) \<Rightarrow> exn + dto" where
  "from_cache sv cls h = Inr (construct_from_cache cls (cm_decode (sv_cache sv)) h)"

text \<open>\<open>mapping[k]\<close> of an entry: a client that does not decode has bytes for keys.\<close>

definition entry_item :: "server \<Rightarrow> (string \<rightharpoonup> string) \<Rightarrow> string \<Rightarrow> exn + string" where
  "entry_item sv h k =
     (case (if cm_decode (sv_cache sv) then h k else None) of None \<Rightarrow> Inl KeyError | Some s \<Rightarrow> Inr s)"

definition super_call :: "server \<Rightarrow> 'a \<Rightarrow> exn + 'a" where
  "super_call sv x = (if sv_super sv then Inr x else Inl TypeError)"

definition emit :: "server \<Rightarrow> stream_name \<Rightarrow> event \<Rightarrow> (world, unit) py" where
  "emit sv = emit_user_event (sv_redis sv) (sv_dumps sv) (TTL_STRONGEST (sv_cache sv))"

definition page ::
  "server \<Rightarrow> string \<Rightarrow> (world, (string \<times> dto) list) py \<Rightarrow> result_class \<Rightarrow> ((string \<rightharpoonup> string) \<Rightarrow> exn + dto) \<Rightarrow>
   (world, dto option list \<times> string) py" where
  "page sv key fallback cls construct =
     distributed_pagination_get_or_load (sv_cache sv) key [] fallback (result_cache_repr cls) construct"

section \<open>Parts of the routes\<close>

definition require :: "int \<Rightarrow> 'a option \<Rightarrow> ('s, 'a) py" where
  "require status r = (case r of None \<Rightarrow> raise (HTTPException status) | Some x \<Rightarrow> pure x)"

definition refuse_if :: "bool \<Rightarrow> int \<Rightarrow> ('s, unit) py" where
  "refuse_if b status = (if b then raise (HTTPException status) else pure ())"

definition given :: "string option \<Rightarrow> bool" where
  "given x \<longleftrightarrow> x \<noteq> None \<and> x \<noteq> Some []"

definition no_intent :: "string option \<Rightarrow> bool" where
  "no_intent latest \<longleftrightarrow> latest = None \<or> latest = Some []"

definition counter :: "string \<Rightarrow> string \<Rightarrow> string \<Rightarrow> int \<Rightarrow> counter_update" where
  "counter g k f d = \<lparr>counter_group = g, counter_cache_key = k, field_name = f, delta = d\<rparr>"

definition user_event :: "event_name \<Rightarrow> (string \<times> pyval) list \<Rightarrow> counter_update list \<Rightarrow> intent_update list \<Rightarrow> event" where
  "user_event name pl cs is =
     \<lparr>event_name = name, payload = pl,
      side_effects = \<lparr>counter_updates = cs, intent_updates = is, cache_invalidations = []\<rparr>\<rparr>"

definition id_after :: "int \<Rightarrow> orm_row \<Rightarrow> bool" where
  "id_after cursor r = (case col r ''id_'' of FInt n \<Rightarrow> cursor < n | _ \<Rightarrow> False)"

text \<open>The members of a page under their identifiers, the cursor of the next page, the response.\<close>

definition keyed_members :: "dto list \<Rightarrow> exn + (string \<times> dto) list" where
  "keyed_members ds = traverse (\<lambda>d. case d ''id_'' of None \<Rightarrow> Inl AttributeError | Some v \<Rightarrow> Inr (str_of_value v, d)) ds"

definition next_page_cursor :: "server \<Rightarrow> dto option list \<Rightarrow> string \<Rightarrow> (world, string) py" where
  "next_page_cursor sv ds cursor =
     (if cursor \<noteq> CURSOR_UNDERIVABLE_SENTINEL then pure cursor
      else if ds = [] then raise IndexError
      else case last ds of
             None \<Rightarrow> raise AttributeError
           | Some d \<Rightarrow> bindM (attr d ''id_'') (\<lambda>v. case v of
               FInt n \<Rightarrow> lift_sum (to_base64url n (PAGINATION_CURSOR_LENGTH sv))
             | _ \<Rightarrow> raise AttributeError))"

text \<open>Members from the cache are of class \<open>cached\<close>, those just loaded of class \<open>cls\<close>.\<close>

definition page_response ::
  "server \<Rightarrow> string \<Rightarrow> string \<Rightarrow> (rs_db \<Rightarrow> exn + dto list) \<Rightarrow> result_class \<Rightarrow> result_class \<Rightarrow>
   ((string \<rightharpoonup> string) \<Rightarrow> exn + dto) \<Rightarrow> (world, response) py" where
  "page_response sv name key rows cls cached construct =
     bindM (page sv key (on_db (\<lambda>db. bindE (rows db) keyed_members)) cls construct) (\<lambda>(ds, cursor).
     bindM (next_page_cursor sv ds cursor) (\<lambda>next_cursor.
     bindM (lift_sum (traverse (\<lambda>d. case d of
                None \<Rightarrow> Inl AttributeError
              | Some x \<Rightarrow> result_json_repr (if cursor = CURSOR_UNDERIVABLE_SENTINEL then cls else cached) x) ds)) (\<lambda>js.
       JSONResponse [(name, JObjs js), (''cursor'', JText next_cursor)] 200)))"

definition world_redis :: "world redis" where
  "world_redis tx cs w = (case store_redis tx cs (w_store w) of (r, st) \<Rightarrow> (r, w\<lparr>w_store := st\<rparr>))"

lemma world_redis_documented [simp]: "documented_redis world_redis w_store"
  by (auto simp: documented_redis_def world_redis_def store_redis_def split: option.splits prod.splits)

lemma world_redis_db [simp]: "w_db (snd (world_redis tx cs w)) = w_db w"
  by (simp add: world_redis_def split: prod.split)

lemma on_db_app [simp]: "on_db f w = (f (w_db w), w)"
  by (simp add: on_db_def)

lemma sure_on_db: "(\<And>w x. I w \<Longrightarrow> f (w_db w) = Inr x \<Longrightarrow> Q x) \<Longrightarrow> sure I (on_db f) Q"
  by (simp add: sure_def)

lemma sure_commit_db: "(\<And>w db. I w \<Longrightarrow> f (w_db w) = Inr db \<Longrightarrow> I (w\<lparr>w_db := db\<rparr>)) \<Longrightarrow> sure I (commit_db f) (\<lambda>_. True)"
  by (auto simp: sure_def commit_db_def split: sum.splits)

lemma sure_JSONResponse: "sure I (JSONResponse body status) (\<lambda>_. True)"
  by (auto simp: JSONResponse_def intro: sure_rules)

lemma sure_attr: "sure I (attr d n) (\<lambda>_. True)"
  by (simp add: attr_def sure_lift_sum)

lemma sure_refuse: "(\<not> b \<Longrightarrow> sure I k R) \<Longrightarrow> sure I (thenM (refuse_if b status) k) R"
  by (cases b) (auto simp: refuse_if_def thenM_def intro: sure_rules)

lemma sure_require: "(\<And>x. r = Some x \<Longrightarrow> Q x) \<Longrightarrow> sure I (require status r) Q"
  by (auto simp: require_def intro: sure_rules split: option.split)

section \<open>Loading through the cache, in the world\<close>

text \<open>
  A manager on the documented Redis of the world, with the sentinel of
  \<^verbatim>\<open>resource_auxillary/cache.py\<close>, which sleeps without anything happening; and the same
  manager over the store alone.
\<close>

definition on_world_redis :: "world cache_manager \<Rightarrow> world cache_manager" where
  "on_world_redis cm = cm\<lparr>cm_redis := world_redis, cm_sleep := (\<lambda>_. pure ()), NF_SENTINEL_KEY := ''__NF__''\<rparr>"

definition store_cache :: "world cache_manager \<Rightarrow> rstore cache_manager" where
  "store_cache cm =
     \<lparr>cm_redis = store_redis, cm_decode = cm_decode cm, cm_sleep = (\<lambda>_. pure ()), cm_now = cm_now cm,
      TTL_CAP = TTL_CAP cm, TTL_PROMOTION = TTL_PROMOTION cm, TTL_STRONGEST = TTL_STRONGEST cm,
      TTL_STRONG = TTL_STRONG cm, TTL_WEAK = TTL_WEAK cm, TTL_EPHEMERAL = TTL_EPHEMERAL cm,
      TTL_FETCH_LOCK = TTL_FETCH_LOCK cm, FETCH_WAITING_MAX_INTERVALS = FETCH_WAITING_MAX_INTERVALS cm,
      FETCH_MAX_RETRIES = FETCH_MAX_RETRIES cm, NF_SENTINEL_KEY = ''__NF__'', NF_SENTINEL_VALUE = NF_SENTINEL_VALUE cm\<rparr>"

text \<open>\<open>agrees db m n\<close>: with that database, \<open>m\<close> does to the world what \<open>n\<close> does to its store.\<close>

definition agrees :: "rs_db \<Rightarrow> (world, 'a) py \<Rightarrow> (rstore, 'a) py \<Rightarrow> bool" where
  "agrees db m n \<longleftrightarrow> (\<forall>w. w_db w = db \<longrightarrow> m w = (fst (n (w_store w)), w\<lparr>w_store := snd (n (w_store w))\<rparr>))"

named_theorems agrees_rules \<open>the world and its store\<close>

lemma agrees_pure [agrees_rules]: "agrees db (pure x) (pure x)"
  by (simp add: agrees_def)

lemma agrees_raise [agrees_rules]: "agrees db (raise e) (raise e)"
  by (simp add: agrees_def)

lemma agrees_lift_sum [agrees_rules]: "agrees db (lift_sum r) (lift_sum r)"
  by (simp add: agrees_def)

lemma agrees_bindM [agrees_rules]:
  assumes "agrees db m n" and "\<And>x. agrees db (f x) (g x)"
  shows "agrees db (bindM m f) (bindM n g)"
  unfolding agrees_def
proof (intro allI impI)
  fix w :: world
  assume w: "w_db w = db"
  obtain r st where n: "n (w_store w) = (r, st)" by fastforce
  with assms(1) w have m: "m w = (r, w\<lparr>w_store := st\<rparr>)" by (simp add: agrees_def)
  show "bindM m f w = (fst (bindM n g (w_store w)), w\<lparr>w_store := snd (bindM n g (w_store w))\<rparr>)"
    using assms(2) w by (cases r) (simp_all add: bindM_def n m agrees_def)
qed

lemma agrees_thenM [agrees_rules]: "agrees db m n \<Longrightarrow> agrees db k l \<Longrightarrow> agrees db (thenM m k) (thenM n l)"
  unfolding thenM_def by (rule agrees_bindM)

lemma agrees_finallyM [agrees_rules]:
  assumes "agrees db m n" and "agrees db f g"
  shows "agrees db (finallyM m f) (finallyM n g)"
  unfolding agrees_def
proof (intro allI impI)
  fix w :: world
  assume w: "w_db w = db"
  obtain r st where n: "n (w_store w) = (r, st)" by fastforce
  obtain q st' where g: "g st = (q, st')" by fastforce
  from assms w n g have "m w = (r, w\<lparr>w_store := st\<rparr>)" "f (w\<lparr>w_store := st\<rparr>) = (q, w\<lparr>w_store := st'\<rparr>)"
    by (simp_all add: agrees_def)
  then show "finallyM m f w = (fst (finallyM n g (w_store w)), w\<lparr>w_store := snd (finallyM n g (w_store w))\<rparr>)"
    by (cases q) (simp_all add: finallyM_def n g)
qed

lemma agrees_if [agrees_rules]:
  "(b \<Longrightarrow> agrees db m n) \<Longrightarrow> (\<not> b \<Longrightarrow> agrees db k l) \<Longrightarrow> agrees db (if b then m else k) (if b then n else l)"
  by simp

lemma agrees_option [agrees_rules]:
  "agrees db m n \<Longrightarrow> (\<And>x. agrees db (f x) (g x)) \<Longrightarrow>
   agrees db (case r of None \<Rightarrow> m | Some x \<Rightarrow> f x) (case r of None \<Rightarrow> n | Some x \<Rightarrow> g x)"
  by (cases r) simp_all

lemma agrees_world_redis [agrees_rules]: "agrees db (world_redis tx cs) (store_redis tx cs)"
  by (simp add: agrees_def world_redis_def split: prod.split)

lemma agrees_redis [agrees_rules]: "agrees db (cm_redis (on_world_redis cm) tx cs) (cm_redis (store_cache cm) tx cs)"
  by (simp add: agrees_def on_world_redis_def store_cache_def world_redis_def split: prod.split)

lemma agrees_exec [agrees_rules]: "agrees db (cm_exec (on_world_redis cm) tx cs) (cm_exec (store_cache cm) tx cs)"
  unfolding cm_exec_def by (intro agrees_rules)

lemma store_cache_sel [simp]:
  "cm_decode (on_world_redis cm) = cm_decode cm" "cm_decode (store_cache cm) = cm_decode cm"
  "cm_now (on_world_redis cm) = cm_now cm" "cm_now (store_cache cm) = cm_now cm"
  "TTL_CAP (on_world_redis cm) = TTL_CAP cm" "TTL_CAP (store_cache cm) = TTL_CAP cm"
  "TTL_PROMOTION (on_world_redis cm) = TTL_PROMOTION cm" "TTL_PROMOTION (store_cache cm) = TTL_PROMOTION cm"
  "TTL_STRONG (on_world_redis cm) = TTL_STRONG cm" "TTL_STRONG (store_cache cm) = TTL_STRONG cm"
  "TTL_STRONGEST (on_world_redis cm) = TTL_STRONGEST cm" "TTL_STRONGEST (store_cache cm) = TTL_STRONGEST cm"
  "TTL_WEAK (on_world_redis cm) = TTL_WEAK cm" "TTL_WEAK (store_cache cm) = TTL_WEAK cm"
  "TTL_EPHEMERAL (on_world_redis cm) = TTL_EPHEMERAL cm" "TTL_EPHEMERAL (store_cache cm) = TTL_EPHEMERAL cm"
  "TTL_FETCH_LOCK (on_world_redis cm) = TTL_FETCH_LOCK cm" "TTL_FETCH_LOCK (store_cache cm) = TTL_FETCH_LOCK cm"
  "FETCH_MAX_RETRIES (on_world_redis cm) = FETCH_MAX_RETRIES cm" "FETCH_MAX_RETRIES (store_cache cm) = FETCH_MAX_RETRIES cm"
  "FETCH_WAITING_MAX_INTERVALS (on_world_redis cm) = FETCH_WAITING_MAX_INTERVALS cm"
  "FETCH_WAITING_MAX_INTERVALS (store_cache cm) = FETCH_WAITING_MAX_INTERVALS cm"
  "NF_SENTINEL_KEY (on_world_redis cm) = ''__NF__''" "NF_SENTINEL_KEY (store_cache cm) = ''__NF__''"
  "NF_SENTINEL_VALUE (on_world_redis cm) = NF_SENTINEL_VALUE cm" "NF_SENTINEL_VALUE (store_cache cm) = NF_SENTINEL_VALUE cm"
  "cm_redis (store_cache cm) = store_redis" "cm_redis (on_world_redis cm) = world_redis"
  by (simp_all add: on_world_redis_def store_cache_def)

lemma agrees_sleep [agrees_rules]: "agrees db (cm_sleep (on_world_redis cm) i) (cm_sleep (store_cache cm) i)"
  by (simp add: agrees_def on_world_redis_def store_cache_def)

lemma agrees_primitive_get [agrees_rules]:
  "agrees db (primitive_get_from_cache (on_world_redis cm) key []) (primitive_get_from_cache (store_cache cm) key [])"
  unfolding primitive_get_from_cache_def
  by (intro agrees_bindM agrees_redis) (auto intro!: agrees_rules split: list.split reply.split)

lemma agrees_check_negative [agrees_rules]:
  "agrees db (check_negative_entry (on_world_redis cm) key h) (check_negative_entry (store_cache cm) key h)"
  unfolding check_negative_entry_def holds_sentinel_def cm_NF_MAPPING_def store_cache_sel
  by (intro agrees_rules)

lemma agrees_wait [agrees_rules]:
  "agrees db (wait_for_leader i (on_world_redis cm) key [] construct) (wait_for_leader i (store_cache cm) key [] construct)"
proof (induction i)
  case 0
  show ?case unfolding wait_for_leader.simps by (rule agrees_pure)
next
  case (Suc i)
  then show ?case
    unfolding wait_for_leader.simps
    by (intro agrees_rules) (auto intro!: agrees_rules split: option.split)
qed

lemma agrees_lead:
  "agrees db fallback found \<Longrightarrow> agrees db (lead (on_world_redis cm) key fallback repr) (lead (store_cache cm) key found repr)"
  unfolding lead_def set_negative_mapping_def hset_with_ttl_def
  by (simp add: cm_NF_MAPPING_def) (intro agrees_rules)

lemma agrees_elect:
  assumes "agrees db fallback found"
  shows "agrees db (elect_leader n (on_world_redis cm) key [] fallback repr construct)
                   (elect_leader n (store_cache cm) key [] found repr construct)"
proof (induction n)
  case 0
  show ?case unfolding elect_leader.simps by (rule agrees_raise)
next
  case (Suc n)
  then show ?case
    unfolding elect_leader.simps store_cache_sel
    by (intro agrees_bindM agrees_world_redis agrees_if agrees_lead assms agrees_wait agrees_option agrees_pure)
qed

lemma agrees_get_or_load:
  assumes "agrees db fallback found"
  shows "agrees db (distributed_get_or_load (on_world_redis cm) key [] fallback repr construct)
                   (distributed_get_or_load (store_cache cm) key [] found repr construct)"
  unfolding distributed_get_or_load_def fetch_from_cache_def store_cache_sel
  by (intro agrees_bindM agrees_primitive_get)
    (auto split: option.split cached.split intro!: agrees_rules agrees_elect assms)

text \<open>
  Keys with nothing but sound entries and with their locks free; and what loading one of them
  does to the world: the abstract cache decides, the database stays.
\<close>

definition quiet :: "string set \<Rightarrow> rstore \<Rightarrow> bool" where
  "quiet ks st \<longleftrightarrow> (\<forall>k \<in> ks. sound_entry st k \<and> st (derive_lock_key [k]) = None \<and> derive_lock_key [k] \<notin> ks)"

definition good_manager :: "world cache_manager \<Rightarrow> bool" where
  "good_manager cm \<longleftrightarrow> cm_decode cm \<and> positive_ttls (store_cache cm) \<and> 0 < FETCH_MAX_RETRIES cm"

abbreviation world_view :: "world cache_manager \<Rightarrow> world \<Rightarrow> string \<Rightarrow> cached" where
  "world_view cm w \<equiv> cache_view (store_cache cm) (w_store w)"

definition has_entry :: "'d option \<Rightarrow> ('d \<Rightarrow> exn + (string \<times> string) list) \<Rightarrow> bool" where
  "has_entry found repr \<longleftrightarrow> (\<forall>d m. found = Some d \<longrightarrow> repr d = Inr m \<longrightarrow> m \<noteq> [] \<and> ''__NF__'' \<notin> fst ` set m)"

lemma derive_lock_key_inj [simp]: "derive_lock_key [k] = derive_lock_key [k'] \<longleftrightarrow> k = k'"
  by (simp add: derive_lock_key_def NAME_SEPERATOR_def)

lemma load_spec:
  assumes cm: "good_manager cm" and quiet: "quiet ks (w_store w)" "key \<in> ks"
    and db: "f (w_db w) = Inr found" and entry: "has_entry found repr"
  shows "\<exists>w'. distributed_get_or_load (on_world_redis cm) key [] (on_db f) repr construct w =
            (fst (view_get_or_load (world_view cm w) key found repr construct), w') \<and>
          w_db w' = w_db w \<and> world_view cm w' = snd (view_get_or_load (world_view cm w) key found repr construct) \<and>
          quiet ks (w_store w') \<and> (\<forall>k. k \<noteq> key \<longrightarrow> k \<noteq> derive_lock_key [key] \<longrightarrow> w_store w' k = w_store w k)"
proof -
  let ?cm = "store_cache cm"
  have "agrees (w_db w) (on_db f) (pure found)" using db by (simp add: agrees_def)
  from agrees_get_or_load [OF this, of cm key repr construct]
  have run: "distributed_get_or_load (on_world_redis cm) key [] (on_db f) repr construct w =
      (case distributed_get_or_load ?cm key [] (pure found) repr construct (w_store w) of (r, st) \<Rightarrow> (r, w\<lparr>w_store := st\<rparr>))"
    by (simp add: agrees_def split: prod.split)
  from quiet have q: "sound_entry (w_store w) key" "w_store w (derive_lock_key [key]) = None" by (auto simp: quiet_def)
  from cm have "cm_decode ?cm" "positive_ttls ?cm" "0 < FETCH_MAX_RETRIES ?cm" by (simp_all add: good_manager_def)
  from get_or_load_refines [OF _ this q, of found repr construct] entry obtain st'
    where st': "distributed_get_or_load ?cm key [] (pure found) repr construct (w_store w) =
        (fst (view_get_or_load (world_view cm w) key found repr construct), st')"
      "cache_view ?cm st' = snd (view_get_or_load (world_view cm w) key found repr construct)"
      "st' (derive_lock_key [key]) = None" "sound_entry st' key"
      "\<forall>k. k \<noteq> key \<longrightarrow> k \<noteq> derive_lock_key [key] \<longrightarrow> st' k = w_store w k"
    by (auto simp: has_entry_def)
  have "quiet ks st'"
    unfolding quiet_def
  proof
    fix k assume k: "k \<in> ks"
    with quiet have "k \<noteq> derive_lock_key [key]" "derive_lock_key [k] \<noteq> key" by (auto simp: quiet_def)
    with k st'(3-5) quiet show "sound_entry st' k \<and> st' (derive_lock_key [k]) = None \<and> derive_lock_key [k] \<notin> ks"
      by (cases "k = key") (auto simp: quiet_def sound_entry_def)
  qed
  with run st' show ?thesis by simp
qed

section \<open>An example\<close>

definition demo_cache :: "world cache_manager" where
  "demo_cache =
     \<lparr>cm_redis = world_redis, cm_decode = True, cm_sleep = (\<lambda>_. pure ()), cm_now = ''1'', TTL_CAP = 600, TTL_PROMOTION = 30,
      TTL_STRONGEST = 500, TTL_STRONG = 300, TTL_WEAK = 60, TTL_EPHEMERAL = 40, TTL_FETCH_LOCK = 500,
      FETCH_WAITING_MAX_INTERVALS = 3, FETCH_MAX_RETRIES = 2, NF_SENTINEL_KEY = ''__NF__'', NF_SENTINEL_VALUE = ''NF''\<rparr>"

definition demo_server :: server where
  "demo_server =
     \<lparr>sv_cache = on_world_redis demo_cache, sv_redis = world_redis, sv_dumps = (\<lambda>v. if has_bytes v then Inl TypeError else Inr ''{}''),
      sv_loads = (\<lambda>_. Inl JSONDecodeError), sv_super = True,
      sv_forum_owner = (\<lambda>_ _. Inl SQLAlchemyError), sv_hashpw = rev, sv_checkpw = (\<lambda>p h. h = rev p),
      PAGINATION_SIZE = 10, PAGINATION_CURSOR_LENGTH = 32\<rparr>"

definition empty_db :: rs_db where
  "empty_db =
     \<lparr>forums = [], forum_admins = [], forum_subscriptions = [], users = [], recovery_tokens = [], db_posts = [],
      post_votes = [], post_saves = [], post_reports = [], db_comments = [], comment_votes = [], comment_reports = [],
      db_animes = [], db_genres = [], anime_genres = [], stream_links = [], anime_subscriptions = []\<rparr>"

lemma demo_server_cache [simp]: "sv_cache demo_server = on_world_redis demo_cache"
  by (simp add: demo_server_def)

lemma demo_cache_good [simp]: "good_manager demo_cache"
  by (simp add: good_manager_def positive_ttls_def demo_cache_def)

end
