(* ===== verification/Tenjin_Access.thy ===== *)
theory Tenjin_Access
  imports Tenjin_Server
begin

text \<open>
  What stands before the routes of the resource server: the keys of the auth server it holds
  (\<^verbatim>\<open>key_manager.py\<close>), the validation of access tokens and the readers of query parameters
  (\<^verbatim>\<open>request_dependencies.py\<close>), its start (\<^verbatim>\<open>utils/bootup.py\<close>) and the tickets of users
  (\<^verbatim>\<open>routers/misc.py\<close>).

  PyJWT, the ecdsa curve and the request to the auth server are parameters.
\<close>

section \<open>Keys of the auth server\<close>

text \<open>The store of the application's Redis, and the keys the process holds, in order.\<close>

record key_world =
  kw_store :: rstore
  kw_mapping :: "(string \<times> string) list"

text \<open>
  \<open>km_fetch\<close> is the answer to the request for the key set, its status and the entries of the
  body; \<open>km_items\<close> lists the fields of a hash in the order of the reply; \<open>km_pem\<close> makes a key of the coordinates of a point, or refuses them.
\<close>

record key_entry =
  ke_kid :: string
  ke_x :: string
  ke_y :: string

record key_manager =
  km_decode :: bool
  km_fetch :: "exn + int \<times> key_entry list option"
  km_items :: "(string \<rightharpoonup> string) \<Rightarrow> (string \<times> string) list"
  km_pem :: "int \<Rightarrow> int \<Rightarrow> exn + string"
  km_wait :: "(key_world, unit) py"
  UPDATION_LOCK_LIFESPAN :: int
  JWKS_POLL_INTERVAL :: int
  MAX_GLOBAL_MAPPING_POLLS :: nat

definition key_redis :: "key_world redis" where
  "key_redis tx cs w = (case store_redis tx cs (kw_store w) of (r, st) \<Rightarrow> (r, w\<lparr>kw_store := st\<rparr>))"

definition get_mapping :: "(key_world, (string \<times> string) list) py" where
  "get_mapping w = (Inr (kw_mapping w), w)"

definition set_mapping :: "(string \<times> string) list \<Rightarrow> (key_world, unit) py" where
  "set_mapping m w = (Inr (), w\<lparr>kw_mapping := m\<rparr>)"

text \<open>\<open>dict.pop(k)\<close>, \<open>dict.setdefault(k, v)\<close> and \<open>d[k] = v\<close>.\<close>

definition pop_key :: "string \<Rightarrow> (key_world, unit) py" where
  "pop_key k = bindM get_mapping (\<lambda>m. if map_of m k = None then raise KeyError else set_mapping (filter (\<lambda>(k', _). k' \<noteq> k) m))"

definition set_default :: "string \<Rightarrow> string \<Rightarrow> (key_world, unit) py" where
  "set_default k v = bindM get_mapping (\<lambda>m. if map_of m k = None then set_mapping (m @ [(k, v)]) else pure ())"

text \<open>A message of the channel is what the client's \<open>listen\<close> gives: a dictionary, not its data.\<close>

definition parse_keyset :: "pyval \<Rightarrow> char \<Rightarrow> char \<Rightarrow> exn + (string \<times> string) list" where
  "parse_keyset raw_keyset entry_delimitor pair_delimitor =
     (case raw_keyset of
        PStr s \<Rightarrow> traverse (\<lambda>entry. bindE (py_nth (split_on pair_delimitor entry) 0) (\<lambda>k.
                    bindE (py_nth (split_on pair_delimitor entry) 1) (\<lambda>v. Inr (k, v)))) (split_on entry_delimitor s)
      | _ \<Rightarrow> Inl AttributeError)"

definition sync_jwks_turn :: "pyval \<Rightarrow> (key_world, unit) py" where
  "sync_jwks_turn message =
     bindM (lift_sum (parse_keyset message CHR '':'' CHR ''='')) (\<lambda>kvs.
     bindM get_mapping (\<lambda>m.
     let keys = map_of (rev kvs);
         names = remdups (map fst kvs);
         expired_keys = filter (\<lambda>k. map_of m k = None) names in
     thenM (for_each pop_key expired_keys)
       (for_each (\<lambda>k. set_default k (the (keys k))) (filter (\<lambda>k. k \<notin> set expired_keys) names))))"

definition sync_jwks :: "pyval list \<Rightarrow> (key_world, unit) py" where
  "sync_jwks messages = for_each sync_jwks_turn messages"

text \<open>A client that does not decode has bytes, which cannot be encoded.\<close>

definition get_global_key_mapping :: "key_manager \<Rightarrow> (key_world, (string \<rightharpoonup> string)) py" where
  "get_global_key_mapping km =
     bindM (key_redis False [R_HGETALL ''JWKS_MAPPING'']) (\<lambda>rs.
       case rs of
         [RMap h] \<Rightarrow> if h \<noteq> Map.empty \<and> \<not> km_decode km then raise AttributeError else pure h
       | _ \<Rightarrow> raise OtherException)"

definition get_jwks :: "key_manager \<Rightarrow> (key_world, key_entry list option) py" where
  "get_jwks km =
     bindM (lift_sum (km_fetch km)) (\<lambda>(status, ks). if status \<noteq> 200 then pure None else pure ks)"

text \<open>The mapping that replaces the held one.\<close>

definition adopt_mapping :: "key_manager \<Rightarrow> (string \<rightharpoonup> string) \<Rightarrow> (key_world, unit) py" where
  "adopt_mapping km h = set_mapping (km_items km h)"

fun poll_mapping :: "nat \<Rightarrow> key_manager \<Rightarrow> (key_world, unit) py" where
  "poll_mapping 0 km = raise RuntimeError"
| "poll_mapping (Suc n) km =
     bindM (get_global_key_mapping km) (\<lambda>h. if h \<noteq> Map.empty then adopt_mapping km h else poll_mapping n km)"

text \<open>The loop that waits for the other worker ends after its first turn.\<close>

definition await_other_worker :: "key_manager \<Rightarrow> (key_world, unit) py" where
  "await_other_worker km =
     (if MAX_GLOBAL_MAPPING_POLLS km = 0 then pure ()
      else bindM (key_redis False [R_GET ''JWKS_POLL_LOCK'']) (\<lambda>rs.
             if rs \<noteq> [RNone] \<and> rs \<noteq> [RText []] then km_wait km else pure ()))"

definition load_key :: "key_manager \<Rightarrow> key_entry \<Rightarrow> (key_world, unit) py" where
  "load_key km e =
     bindM get_mapping (\<lambda>m.
       if map_of m (ke_kid e) \<noteq> None then pure ()
       else bindM (lift_sum (bindE (from_base64url (ke_x e)) (\<lambda>x. bindE (from_base64url (ke_y e)) (km_pem km x)))) (\<lambda>pem.
              set_mapping (m @ [(ke_kid e, pem)])))"

definition refresh_mapping :: "key_manager \<Rightarrow> (key_world, unit) py" where
  "refresh_mapping km =
     bindM (get_jwks km) (\<lambda>r.
       case r of
         None \<Rightarrow> pure ()
       | Some new_mapping \<Rightarrow>
           if new_mapping = [] then pure ()
           else bindM get_mapping (\<lambda>m.
             thenM (for_each pop_key (filter (\<lambda>k. k \<notin> ke_kid ` set new_mapping) (map fst m)))
             (thenM (for_each (load_key km) new_mapping)
             (bindM get_mapping (\<lambda>m'.
                thenM (key_redis True [R_DEL ''JWKS_MAPPING'', R_HSET ''JWKS_MAPPING'' m']) (pure ()))))))"

text \<open>Every exception of the update is printed and forgotten.\<close>

definition update_keys :: "key_manager \<Rightarrow> (key_world, unit) py" where
  "update_keys km =
     bindM (key_redis False [R_SET ''JWKS_POLL_LOCK'' ''1'' True (Some (UPDATION_LOCK_LIFESPAN km))]) (\<lambda>rs.
       if rs \<noteq> [RBool True]
       then thenM (await_other_worker km) (poll_mapping (MAX_GLOBAL_MAPPING_POLLS km) km)
       else finallyM (tryM (refresh_mapping km) (\<lambda>e. pure ()))
              (thenM (key_redis True [R_DEL ''JWKS_POLL_LOCK'',
                        R_SET ''JWKS_POLL_COOLDOWN'' ''1'' False (Some (JWKS_POLL_INTERVAL km))]) (pure ())))"

text \<open>The start of the server, up to the monitoring task.\<close>

definition lifespan_start :: "key_manager \<Rightarrow> (key_world, unit) py" where
  "lifespan_start km =
     bindM (get_global_key_mapping km) (\<lambda>h.
     thenM (adopt_mapping km h)
     (bindM get_mapping (\<lambda>m. if m = [] then update_keys km else pure ())))"

section \<open>Access tokens\<close>

text \<open>
  \<open>jwt_header\<close> reads the header of a token without checking it, \<open>jwt_decode_with\<close> checks the
  token with a key and, if they are given, the algorithms that are allowed.
\<close>

record jwt_package =
  jwt_header :: "string \<Rightarrow> exn + string option \<times> string option"
  jwt_decode_with :: "string \<Rightarrow> string \<Rightarrow> string list option \<Rightarrow> exn + claims"

definition pyjwt_error :: "exn \<Rightarrow> bool" where
  "pyjwt_error e \<longleftrightarrow>
     e \<in> {InvalidSignature, InvalidToken, InvalidKeyError, ImmatureSignatureError, InvalidIssuedAtError, InvalidIssuerError}"

text \<open>PyJWT documents that a token is not decoded without a list of algorithms.\<close>

definition requires_algorithms :: "jwt_package \<Rightarrow> bool" where
  "requires_algorithms jwt \<longleftrightarrow> (\<forall>token key. jwt_decode_with jwt token key None = Inl InvalidToken)"

definition words_of :: "string \<Rightarrow> string list" where
  "words_of s = filter (\<lambda>w. w \<noteq> []) (split_on CHR '' '' (map (\<lambda>c. if is_space c then CHR '' '' else c) s))"

text \<open>A key that is not held is looked up among those the workers share.\<close>

definition decode_with_global :: "jwt_package \<Rightarrow> key_manager \<Rightarrow> string \<Rightarrow> string \<Rightarrow> (key_world, claims) py" where
  "decode_with_global jwt km key_id token =
     bindM (get_global_key_mapping km) (\<lambda>h.
     thenM (adopt_mapping km h)
     (if h key_id = None \<or> h key_id = Some [] then raise (HTTPException 401)
      else lift_sum (jwt_decode_with jwt token (the (h key_id)) None)))"

definition validate_access_token ::
  "jwt_package \<Rightarrow> key_manager \<Rightarrow> string list \<Rightarrow> string option \<Rightarrow> (key_world, claims) py" where
  "validate_access_token jwt km allowed authorization =
     (case authorization of
        None \<Rightarrow> raise (HTTPException 401)
      | Some a \<Rightarrow>
          bindM (lift_sum (py_nth (words_of a) 1)) (\<lambda>token.
          bindM (lift_sum (jwt_header jwt token)) (\<lambda>(key_id, alg).
          if key_id = None \<or> key_id = Some [] then raise (HTTPException 401)
          else if alg \<notin> Some ` set allowed then raise (HTTPException 401)
          else tryM
            (bindM get_mapping (\<lambda>m.
             case map_of m (the key_id) of
               Some key \<Rightarrow>
                 if key \<noteq> [] then lift_sum (jwt_decode_with jwt token key None)
                 else decode_with_global jwt km (the key_id) token
             | None \<Rightarrow> decode_with_global jwt km (the key_id) token))
            (\<lambda>e. if pyjwt_error e then raise (HTTPException 401) else raise e))))"

section \<open>Query parameters\<close>

definition cursor_preprocessor :: "string option \<Rightarrow> exn + int" where
  "cursor_preprocessor raw_cursor = (if given raw_cursor then from_base64url (the raw_cursor) else Inr 0)"

definition search_param_preprocessor :: "string option \<Rightarrow> string option" where
  "search_param_preprocessor raw = (if given raw then Some (strip (the raw)) else None)"

datatype sort_option = ASCENDING | DESCENDING

fun sort_option_value :: "sort_option \<Rightarrow> string" where
  "sort_option_value ASCENDING = ''asc''"
| "sort_option_value DESCENDING = ''desc''"

definition lower_char :: "char \<Rightarrow> char" where
  "lower_char c = (let n = of_char c in if 65 \<le> n \<and> n \<le> (90 :: nat) then char_of (n + 32) else c)"

definition preprocess_sort_option :: "string option \<Rightarrow> sort_option" where
  "preprocess_sort_option raw =
     (if given raw \<and> strip (map lower_char (the raw)) = sort_option_value ASCENDING then ASCENDING else DESCENDING)"

text \<open>The option shares its query parameter with the cursor.\<close>

definition page_parameters :: "string option \<Rightarrow> exn + int \<times> sort_option" where
  "page_parameters raw = bindE (cursor_preprocessor raw) (\<lambda>c. Inr (c, preprocess_sort_option raw))"

datatype timeframe_option = LAST_HOUR | LAST_DAY | LAST_WEEK | LAST_MONTH | LAST_YEAR | ALL_TIME

definition timeframe_values :: "(string \<times> timeframe_option) list" where
  "timeframe_values =
     [(''last_hour'', LAST_HOUR), (''last_day'', LAST_DAY), (''last_week'', LAST_WEEK), (''last_month'', LAST_MONTH),
      (''last_year'', LAST_YEAR), (''all_time'', ALL_TIME)]"

text \<open>A time is a number of seconds, 0 being the least datetime.\<close>

fun TIMEFRAMES :: "timeframe_option \<Rightarrow> int \<Rightarrow> int" where
  "TIMEFRAMES LAST_HOUR dt = dt - 3600"
| "TIMEFRAMES LAST_DAY dt = dt - 86400"
| "TIMEFRAMES LAST_WEEK dt = dt - 7 * 86400"
| "TIMEFRAMES LAST_MONTH dt = dt - 30 * 86400"
| "TIMEFRAMES LAST_YEAR dt = dt - 364 * 86400"
| "TIMEFRAMES ALL_TIME dt = 0"

definition preprocess_timeframe :: "string option \<Rightarrow> int \<Rightarrow> timeframe_option \<times> int" where
  "preprocess_timeframe raw now =
     (if \<not> given raw then (ALL_TIME, TIMEFRAMES ALL_TIME now)
      else let opt = (case map_of timeframe_values (map lower_char (strip (the raw))) of None \<Rightarrow> ALL_TIME | Some f \<Rightarrow> f) in
           (opt, TIMEFRAMES opt now))"

section \<open>Tickets\<close>

text \<open>\<open>StreamName.NAME\<close>; the stream of the tickets is not a member.\<close>

definition stream_member :: "string \<Rightarrow> exn + stream_name" where
  "stream_member s = (case stream_name_of s of None \<Rightarrow> Inl AttributeError | Some n \<Rightarrow> Inr n)"

definition issue_ticket :: "server \<Rightarrow> string \<Rightarrow> string \<Rightarrow> string \<Rightarrow> (world, response) py" where
  "issue_ticket sv email description time_raised =
     bindM (lift_sum (stream_member ''INSERTIONS'')) (\<lambda>stream.
     thenM (sv_redis sv False [R_XADD (stream_name_value stream)
              [(''email'', email), (''time_raised'', time_raised), (''description'', description), (''table'', ''user_tickets'')] None])
     (JSONResponse [(''message'', JText ''Your report has been recorded''), (''email'', JText email),
                    (''time'', JText time_raised)] 202))"

section \<open>Properties of the keys\<close>

lemma mapping_app [simp]: "get_mapping w = (Inr (kw_mapping w), w)" "set_mapping m w = (Inr (), w\<lparr>kw_mapping := m\<rparr>)"
  by (simp_all add: get_mapping_def set_mapping_def)

lemma for_each_Cons_Inr: "f x s = (Inr (), s') \<Longrightarrow> for_each f (x # xs) s = for_each f xs s'"
  by simp

lemma pop_keys:
  "distinct ks \<Longrightarrow> set ks \<subseteq> fst ` set (kw_mapping w) \<Longrightarrow>
   for_each pop_key ks w = (Inr (), w\<lparr>kw_mapping := filter (\<lambda>(k, _). k \<notin> set ks) (kw_mapping w)\<rparr>)"
proof (induction ks arbitrary: w)
  case Nil
  then show ?case by (simp add: case_prod_unfold)
next
  case (Cons k ks)
  let ?w = "w\<lparr>kw_mapping := filter (\<lambda>(k', _). k' \<noteq> k) (kw_mapping w)\<rparr>"
  from Cons.prems(2) have "map_of (kw_mapping w) k \<noteq> None" by (auto simp: map_of_eq_None_iff)
  then have "pop_key k w = (Inr (), ?w)" by (auto simp: pop_key_def)
  moreover have "for_each pop_key ks ?w = (Inr (), ?w\<lparr>kw_mapping := filter (\<lambda>(k, _). k \<notin> set ks) (kw_mapping ?w)\<rparr>)"
  proof (rule Cons.IH)
    have "fst ` set (kw_mapping ?w) = fst ` set (kw_mapping w) - {k}" by force
    with Cons.prems show "set ks \<subseteq> fst ` set (kw_mapping ?w)" by auto
  qed (use Cons.prems in simp)
  ultimately show ?case
    by (simp add: case_prod_unfold conj_commute)
qed

lemma load_keys:
  assumes "\<forall>e \<in> set es. \<exists>x y pem. from_base64url (ke_x e) = Inr x \<and> from_base64url (ke_y e) = Inr y \<and> km_pem km x y = Inr pem"
  shows "\<exists>added. for_each (load_key km) es w = (Inr (), w\<lparr>kw_mapping := kw_mapping w @ added\<rparr>) \<and>
    fst ` set added = ke_kid ` set es - fst ` set (kw_mapping w) \<and>
    (\<forall>k. map_of (kw_mapping w) k \<noteq> None \<longrightarrow> map_of added k = None) \<and> distinct (map fst added)"
  using assms
proof (induction es arbitrary: w)
  case Nil
  then show ?case by (intro exI [where x = "[]"]) simp
next
  case (Cons e es)
  show ?case
  proof (cases "map_of (kw_mapping w) (ke_kid e)")
    case None
    from Cons.prems obtain x y pem where pem: "from_base64url (ke_x e) = Inr x" "from_base64url (ke_y e) = Inr y" "km_pem km x y = Inr pem"
      by auto
    let ?w = "w\<lparr>kw_mapping := kw_mapping w @ [(ke_kid e, pem)]\<rparr>"
    from None pem have "load_key km e w = (Inr (), ?w)" by (simp add: load_key_def)
    moreover from Cons.IH [of ?w] Cons.prems obtain added where added:
        "for_each (load_key km) es ?w = (Inr (), ?w\<lparr>kw_mapping := kw_mapping ?w @ added\<rparr>)"
        "fst ` set added = ke_kid ` set es - fst ` set (kw_mapping ?w)"
        "\<forall>k. map_of (kw_mapping ?w) k \<noteq> None \<longrightarrow> map_of added k = None" "distinct (map fst added)"
      by auto
    moreover have "ke_kid e \<notin> fst ` set added" using added(2) by auto
    ultimately show ?thesis
      using None by (intro exI [where x = "(ke_kid e, pem) # added"])
        (auto simp: map_of_eq_None_iff map_add_def split: option.splits)
  next
    case (Some v)
    then have "load_key km e w = (Inr (), w)" by (simp add: load_key_def)
    moreover from Some have "ke_kid e \<in> fst ` set (kw_mapping w)" by (auto dest: map_of_SomeD intro: rev_image_eqI)
    ultimately show ?thesis using Cons.IH [of w] Cons.prems by (auto simp: insert_Diff_if)
  qed
qed

text \<open>The answer of an auth server whose keys can all be read.\<close>

definition readable_keys :: "key_manager \<Rightarrow> key_entry list \<Rightarrow> bool" where
  "readable_keys km es \<longleftrightarrow> km_fetch km = Inr (200, Some es) \<and> es \<noteq> [] \<and>
     (\<forall>e \<in> set es. \<exists>x y pem. from_base64url (ke_x e) = Inr x \<and> from_base64url (ke_y e) = Inr y \<and> km_pem km x y = Inr pem)"

lemma map_of_rev_distinct: "distinct (map fst m) \<Longrightarrow> map_of (rev m) = map_of m"
  by (subst map_of_inject_set) (simp_all add: rev_map [symmetric])

lemma refresh_runs:
  assumes keys: "readable_keys km es" and dict: "distinct (map fst (kw_mapping w))"
  shows "\<exists>m. refresh_mapping km w =
      (Inr (), w\<lparr>kw_store := (kw_store w)(''JWKS_MAPPING'' \<mapsto> (VHash (map_of m), None)), kw_mapping := m\<rparr>) \<and>
    dom (map_of m) = ke_kid ` set es \<and>
    (\<forall>k v. map_of (kw_mapping w) k = Some v \<longrightarrow> k \<in> ke_kid ` set es \<longrightarrow> map_of m k = Some v)"
proof -
  let ?kids = "ke_kid ` set es"
  define old where "old = filter (\<lambda>k. k \<notin> ?kids) (map fst (kw_mapping w))"
  define kept where "kept = filter (\<lambda>(k, _). k \<notin> set old) (kw_mapping w)"
  have pops: "for_each pop_key old w = (Inr (), w\<lparr>kw_mapping := kept\<rparr>)"
    unfolding kept_def using dict by (intro pop_keys) (auto simp: distinct_filter old_def)
  have names: "fst ` set kept = fst ` set (kw_mapping w) \<inter> ?kids" by (force simp: image_iff kept_def old_def)
  from load_keys [of es km "w\<lparr>kw_mapping := kept\<rparr>"] keys obtain added where
      loads: "for_each (load_key km) es (w\<lparr>kw_mapping := kept\<rparr>) = (Inr (), w\<lparr>kw_mapping := kept @ added\<rparr>)"
      and added: "fst ` set added = ?kids - fst ` set kept" "distinct (map fst added)"
    by (auto simp: readable_keys_def)
  let ?m = "kept @ added"
  have dist: "distinct (map fst ?m)"
    using dict added by (auto simp: distinct_map_filter kept_def)
  have doms: "dom (map_of ?m) = ?kids"
    using added(1) names by (auto simp: dom_map_of_conv_image_fst)
  then have "?m \<noteq> []" using keys by (auto simp: readable_keys_def)
  then have "refresh_mapping km w =
      (Inr (), w\<lparr>kw_store := (kw_store w)(''JWKS_MAPPING'' \<mapsto> (VHash (map_of (rev ?m)), None)), kw_mapping := ?m\<rparr>)"
    using keys unfolding refresh_mapping_def get_jwks_def
    by (simp add: readable_keys_def old_def [symmetric] pops loads key_redis_def store_redis_def hash_at_def ttl_at_def)
  then have "refresh_mapping km w =
      (Inr (), w\<lparr>kw_store := (kw_store w)(''JWKS_MAPPING'' \<mapsto> (VHash (map_of ?m), None)), kw_mapping := ?m\<rparr>)"
    by (simp only: map_of_rev_distinct [OF dist])
  moreover have "map_of ?m k = Some v" if "map_of (kw_mapping w) k = Some v" "k \<in> ?kids" for k v
  proof -
    from that have "(k, v) \<in> set kept" by (auto dest: map_of_SomeD simp: kept_def old_def)
    with dist show ?thesis by (intro map_of_is_SomeI) auto
  qed
  ultimately show ?thesis using doms by blast
qed

lemma update_runs:
  assumes keys: "readable_keys km es" and dict: "distinct (map fst (kw_mapping w))"
    and lock: "kw_store w ''JWKS_POLL_LOCK'' = None" and ttl: "0 < UPDATION_LOCK_LIFESPAN km" "0 < JWKS_POLL_INTERVAL km"
  shows "\<exists>w'. update_keys km w = (Inr (), w') \<and> dom (map_of (kw_mapping w')) = ke_kid ` set es \<and>
    (\<forall>k v. map_of (kw_mapping w) k = Some v \<longrightarrow> k \<in> ke_kid ` set es \<longrightarrow> map_of (kw_mapping w') k = Some v) \<and>
    kw_store w' ''JWKS_MAPPING'' = Some (VHash (map_of (kw_mapping w')), None) \<and>
    kw_store w' ''JWKS_POLL_LOCK'' = None \<and> kw_store w' ''JWKS_POLL_COOLDOWN'' \<noteq> None"
proof -
  let ?w = "w\<lparr>kw_store := (kw_store w)(''JWKS_POLL_LOCK'' \<mapsto> (VStr ''1'', Some (UPDATION_LOCK_LIFESPAN km)))\<rparr>"
  from refresh_runs [OF keys, of ?w] dict obtain m where m:
      "refresh_mapping km ?w =
        (Inr (), ?w\<lparr>kw_store := (kw_store ?w)(''JWKS_MAPPING'' \<mapsto> (VHash (map_of m), None)), kw_mapping := m\<rparr>)"
      "dom (map_of m) = ke_kid ` set es"
      "\<forall>k v. map_of (kw_mapping w) k = Some v \<longrightarrow> k \<in> ke_kid ` set es \<longrightarrow> map_of m k = Some v"
    by auto
  show ?thesis
    using lock ttl m(2,3)
    by (simp add: update_keys_def finallyM_def key_redis_def store_redis_def m(1) bindM_def thenM_def tryM_def)
qed

text \<open>
  C25.  A server that finds the update lock free and is answered a readable, nonempty key set (every
  point decodes and is a key of the curve) holds exactly the keys of that set afterwards: those it had
  keep their material, the others of the set are added, the rest is dropped; the hash the workers
  share holds the same keys, the lock is gone and the cooldown stands.  (Every command of Redis
  succeeds as documented, and the two lifetimes are positive.)
\<close>

theorem update_publishes_key_set:
  assumes keys: "readable_keys km es" and dict: "distinct (map fst (kw_mapping w))"
    and lock: "kw_store w ''JWKS_POLL_LOCK'' = None" and ttl: "0 < UPDATION_LOCK_LIFESPAN km" "0 < JWKS_POLL_INTERVAL km"
  shows "\<exists>w'. update_keys km w = (Inr (), w') \<and> dom (map_of (kw_mapping w')) = ke_kid ` set es \<and>
    (\<forall>k v. map_of (kw_mapping w) k = Some v \<longrightarrow> k \<in> ke_kid ` set es \<longrightarrow> map_of (kw_mapping w') k = Some v) \<and>
    kw_store w' ''JWKS_MAPPING'' = Some (VHash (map_of (kw_mapping w')), None) \<and>
    kw_store w' ''JWKS_POLL_LOCK'' = None \<and> kw_store w' ''JWKS_POLL_COOLDOWN'' \<noteq> None"
  by (rule update_runs [OF assms])

lemma global_mapping_undecoded:
  assumes "\<not> km_decode km" and "kw_store w ''JWKS_MAPPING'' = Some (VHash h, t)" and "h \<noteq> Map.empty"
  shows "get_global_key_mapping km w = (Inl AttributeError, w)"
  using assms by (simp add: get_global_key_mapping_def key_redis_def store_redis_def hash_at_def bindM_def)

text \<open>
  Over the client the server is given, which does not decode, only the first worker starts.
  It finds no shared hash, fetches the key set and publishes it; every worker that starts on
  that hash fails with an \<open>AttributeError\<close>, encoding what is bytes already.
\<close>

theorem only_first_worker_starts:
  assumes keys: "readable_keys km es" and raw: "\<not> km_decode km" "km_items km Map.empty = []"
    and free: "kw_store w ''JWKS_POLL_LOCK'' = None" "kw_store w ''JWKS_MAPPING'' = None"
    and ttl: "0 < UPDATION_LOCK_LIFESPAN km" "0 < JWKS_POLL_INTERVAL km"
  shows "\<exists>w1. lifespan_start km w = (Inr (), w1) \<and> dom (map_of (kw_mapping w1)) = ke_kid ` set es \<and>
    (\<forall>w2. kw_store w2 = kw_store w1 \<longrightarrow> lifespan_start km w2 = (Inl AttributeError, w2))"
proof -
  let ?w = "w\<lparr>kw_mapping := []\<rparr>"
  have "get_global_key_mapping km w = (Inr Map.empty, w)"
    using free(2) by (simp add: get_global_key_mapping_def key_redis_def store_redis_def hash_at_def bindM_def)
  then have start: "lifespan_start km w = update_keys km ?w"
    using raw(2) by (simp add: lifespan_start_def adopt_mapping_def)
  from update_runs [OF keys _ _ ttl, of ?w] free(1) obtain w1 where
      w1: "update_keys km ?w = (Inr (), w1)" "dom (map_of (kw_mapping w1)) = ke_kid ` set es"
        "kw_store w1 ''JWKS_MAPPING'' = Some (VHash (map_of (kw_mapping w1)), None)"
    by auto
  have "map_of (kw_mapping w1) \<noteq> Map.empty" using w1(2) keys by (auto simp: readable_keys_def)
  then have "lifespan_start km w2 = (Inl AttributeError, w2)" if "kw_store w2 = kw_store w1" for w2
    using global_mapping_undecoded [OF raw(1), of w2] w1(3) that by (simp add: lifespan_start_def)
  with start w1 show ?thesis by auto
qed

lemma default_known: "\<forall>k \<in> set ks. map_of (kw_mapping w) k \<noteq> None \<Longrightarrow> for_each (\<lambda>k. set_default k (f k)) ks w = (Inr (), w)"
  by (induction ks) (auto simp: set_default_def)

lemma sync_turn:
  "sync_jwks_turn message w =
     (case parse_keyset message CHR '':'' CHR ''='' of
        Inl e \<Rightarrow> (Inl e, w)
      | Inr kvs \<Rightarrow> (if \<forall>(k, _) \<in> set kvs. map_of (kw_mapping w) k \<noteq> None then Inr () else Inl KeyError, w))"
proof (cases "parse_keyset message CHR '':'' CHR ''=''")
  case (Inr kvs)
  let ?unknown = "filter (\<lambda>k. map_of (kw_mapping w) k = None) (remdups (map fst kvs))"
  show ?thesis
  proof (cases "?unknown")
    case Nil
    then have "\<forall>k \<in> fst ` set kvs. map_of (kw_mapping w) k \<noteq> None" by (auto simp: filter_empty_conv)
    then show ?thesis
      by (auto simp: sync_jwks_turn_def Inr Nil Let_def default_known)
  next
    case (Cons k ks)
    then have "k \<in> set ?unknown" by simp
    then have k: "k \<in> fst ` set kvs" "map_of (kw_mapping w) k = None" by auto
    then have "pop_key k w = (Inl KeyError, w)" by (simp add: pop_key_def)
    then show ?thesis using k by (force simp: sync_jwks_turn_def Inr Cons Let_def)
  qed
qed (simp add: sync_jwks_turn_def)

text \<open>
  The monitoring task never changes what the server holds.  The messages the client gives it
  are dictionaries, the first of them the confirmation of its own subscription, and end it
  with an \<open>AttributeError\<close>; were they texts, a text that names a key the server does not hold
  would end it with a \<open>KeyError\<close>, and every other text would change nothing.
\<close>

theorem monitor_learns_nothing:
  "snd (sync_jwks messages w) = w \<and>
   sync_jwks (PDict d # rest) w = (Inl AttributeError, w) \<and>
   (parse_keyset (PStr s) CHR '':'' CHR ''='' = Inr kvs \<longrightarrow> (\<exists>(k, _) \<in> set kvs. map_of (kw_mapping w) k = None) \<longrightarrow>
      sync_jwks (PStr s # rest) w = (Inl KeyError, w))"
proof (intro conjI impI)
  show "snd (sync_jwks messages w) = w"
  proof (induction messages)
    case (Cons m ms)
    have "sync_jwks_turn m w = (fst (sync_jwks_turn m w), w)" by (simp add: sync_turn split: sum.split)
    then show ?case using Cons by (cases "fst (sync_jwks_turn m w)") (auto simp: sync_jwks_def)
  qed (simp add: sync_jwks_def)
  show "sync_jwks (PDict d # rest) w = (Inl AttributeError, w)"
    by (simp add: sync_jwks_def sync_turn parse_keyset_def)
next
  assume kvs: "parse_keyset (PStr s) CHR '':'' CHR ''='' = Inr kvs" and unknown: "\<exists>(k, _) \<in> set kvs. map_of (kw_mapping w) k = None"
  then have "sync_jwks_turn (PStr s) w = (Inl KeyError, w)" unfolding sync_turn kvs by force
  then show "sync_jwks (PStr s # rest) w = (Inl KeyError, w)" by (simp add: sync_jwks_def)
qed

theorem monitor_learns_nothing_witness:
  "sync_jwks [PStr ''k1=pem''] \<lparr>kw_store = Map.empty, kw_mapping = []\<rparr> = (Inl KeyError, \<lparr>kw_store = Map.empty, kw_mapping = []\<rparr>)"
proof -
  have "parse_keyset (PStr ''k1=pem'') CHR '':'' CHR ''='' = Inr [(''k1'', ''pem'')]"
    by (simp add: parse_keyset_def py_nth_def)
  with monitor_learns_nothing [of "[]" "\<lparr>kw_store = Map.empty, kw_mapping = []\<rparr>" "[]" "[]" "''k1=pem''"] show ?thesis by simp
qed

section \<open>Properties of access tokens\<close>

text \<open>
  No access token is ever accepted.  Tokens are decoded without a list of algorithms, which
  PyJWT refuses: with a key the server holds the answer is 401 whatever the token is, and in no
  state does the validation return claims.
\<close>

theorem no_token_accepted:
  assumes jwt: "requires_algorithms jwt"
  shows "(\<exists>e w'. validate_access_token jwt km allowed authorization w = (Inl e, w')) \<and>
    (jwt_header jwt token = Inr (Some kid, Some alg) \<longrightarrow> kid \<noteq> [] \<longrightarrow> alg \<in> set allowed \<longrightarrow>
       map_of (kw_mapping w) kid = Some key \<longrightarrow> key \<noteq> [] \<longrightarrow> words_of a = [scheme, token] \<longrightarrow>
       validate_access_token jwt km allowed (Some a) w = (Inl (HTTPException 401), w))"
proof (intro conjI impI)
  have none: "sure (\<lambda>_. True) (lift_sum (jwt_decode_with jwt t k None)) (\<lambda>_. False)" for t k
    using jwt by (simp add: requires_algorithms_def sure_def)
  have never: "sure (\<lambda>_. True) (decode_with_global jwt km kid t) (\<lambda>_. False)" for kid t
    unfolding decode_with_global_def
    using jwt by (intro sure_bindM_any sure_thenM) (auto simp: sure_def requires_algorithms_def split: if_splits)
  have "sure (\<lambda>_. True) (validate_access_token jwt km allowed authorization) (\<lambda>_. False)"
    unfolding validate_access_token_def
    by (auto intro!: sure_rules sure_bindM_any sure_tryM none never simp: split_def split: option.split)
      (auto simp: sure_def)
  then show "\<exists>e w'. validate_access_token jwt km allowed authorization w = (Inl e, w')"
    using sure_never by fastforce
next
  assume h: "jwt_header jwt token = Inr (Some kid, Some alg)" "kid \<noteq> []" "alg \<in> set allowed"
    "map_of (kw_mapping w) kid = Some key" "key \<noteq> []" "words_of a = [scheme, token]"
  then show "validate_access_token jwt km allowed (Some a) w = (Inl (HTTPException 401), w)"
    using jwt by (simp add: validate_access_token_def py_nth_def requires_algorithms_def tryM_def pyjwt_error_def)
qed

section \<open>An example\<close>

definition demo_keys :: key_manager where
  "demo_keys =
     \<lparr>km_decode = False, km_fetch = Inr (200, Some [\<lparr>ke_kid = ''k1'', ke_x = ''AQ'', ke_y = ''Ag''\<rparr>]), km_items = (\<lambda>_. []),
      km_pem = (\<lambda>_ _. Inr ''pem''), km_wait = pure (), UPDATION_LOCK_LIFESPAN = 300, JWKS_POLL_INTERVAL = 1800,
      MAX_GLOBAL_MAPPING_POLLS = 10\<rparr>"

definition demo_jwt :: jwt_package where
  "demo_jwt =
     \<lparr>jwt_header = (\<lambda>_. Inr (Some ''k1'', Some ''ES256'')),
      jwt_decode_with = (\<lambda>_ _ algs. case algs of None \<Rightarrow> Inl InvalidToken | Some _ \<Rightarrow> Inr \<lparr>sid = 3, sub_claim = ''ann''\<rparr>)\<rparr>"

lemma demo_keys_readable: "readable_keys demo_keys [\<lparr>ke_kid = ''k1'', ke_x = ''AQ'', ke_y = ''Ag''\<rparr>]"
proof -
  have "from_base64url ''AQ'' = Inr 1" "from_base64url ''Ag'' = Inr 2" by code_simp+
  then show ?thesis by (simp add: readable_keys_def demo_keys_def)
qed

theorem update_publishes_key_set_witness:
  "\<exists>w'. update_keys demo_keys \<lparr>kw_store = Map.empty, kw_mapping = [(''k0'', ''old'')]\<rparr> = (Inr (), w') \<and>
     dom (map_of (kw_mapping w')) = {''k1''}"
proof -
  have "0 < UPDATION_LOCK_LIFESPAN demo_keys" "0 < JWKS_POLL_INTERVAL demo_keys" by (simp_all add: demo_keys_def)
  from update_publishes_key_set [OF demo_keys_readable _ _ this, of "\<lparr>kw_store = Map.empty, kw_mapping = [(''k0'', ''old'')]\<rparr>"]
  show ?thesis by auto
qed

theorem only_first_worker_starts_witness:
  "\<exists>w1. lifespan_start demo_keys \<lparr>kw_store = Map.empty, kw_mapping = []\<rparr> = (Inr (), w1) \<and>
     lifespan_start demo_keys (w1\<lparr>kw_mapping := []\<rparr>) = (Inl AttributeError, w1\<lparr>kw_mapping := []\<rparr>)"
proof -
  have "\<not> km_decode demo_keys" "km_items demo_keys Map.empty = []" "0 < UPDATION_LOCK_LIFESPAN demo_keys" "0 < JWKS_POLL_INTERVAL demo_keys"
    by (simp_all add: demo_keys_def)
  from only_first_worker_starts [OF demo_keys_readable this(1,2) _ _ this(3,4), of "\<lparr>kw_store = Map.empty, kw_mapping = []\<rparr>"]
  show ?thesis by fastforce
qed

theorem no_token_accepted_witness:
  "validate_access_token demo_jwt demo_keys [''ES256''] (Some ''Bearer t'') \<lparr>kw_store = Map.empty, kw_mapping = [(''k1'', ''pem'')]\<rparr> =
     (Inl (HTTPException 401), \<lparr>kw_store = Map.empty, kw_mapping = [(''k1'', ''pem'')]\<rparr>)"
proof -
  have "requires_algorithms demo_jwt" by (simp add: requires_algorithms_def demo_jwt_def)
  moreover have "words_of ''Bearer t'' = [''Bearer'', ''t'']" by code_simp
  ultimately show ?thesis
    using no_token_accepted [of demo_jwt demo_keys "[''ES256'']" None _ "''t''" "''k1''" "''ES256''" "''pem''" "''Bearer t''" "''Bearer''"]
    by (simp add: demo_jwt_def)
qed

end
