(* ===== verification/Tenjin_Anime.thy ===== *)
theory Tenjin_Anime
  imports Tenjin_Access
begin

text \<open>
  Animes: their result objects and repository (\<^verbatim>\<open>repositories/anime.py\<close>), the routes
  (\<^verbatim>\<open>routers/animes.py\<close>), the genres (\<^verbatim>\<open>dependencies.py\<close>,
  \<^verbatim>\<open>request_dependencies.py\<close>, \<^verbatim>\<open>routers/misc.py\<close>), and the branches of the cache manager
  for entries kept as strings, which only animes and the lists of admins use.
\<close>

section \<open>Entries kept as strings\<close>

text \<open>
  Such an entry is read with \<open>GET\<close> and parsed, and no class declares counters under the name
  the manager reads.  The leader writes it as a hash all the same.
\<close>

fun py_truthy :: "pyval \<Rightarrow> bool" where
  "py_truthy PNone \<longleftrightarrow> False"
| "py_truthy (PBool b) \<longleftrightarrow> b"
| "py_truthy (PInt n) \<longleftrightarrow> n \<noteq> 0"
| "py_truthy (PStr s) \<longleftrightarrow> s \<noteq> []"
| "py_truthy (PBytes s) \<longleftrightarrow> s \<noteq> []"
| "py_truthy (PDatetime t) \<longleftrightarrow> True"
| "py_truthy (PList xs) \<longleftrightarrow> xs \<noteq> []"
| "py_truthy (PDict kvs) \<longleftrightarrow> kvs \<noteq> []"

fun occurs_in :: "string \<Rightarrow> string \<Rightarrow> bool" where
  "occurs_in s [] \<longleftrightarrow> s = []"
| "occurs_in s (c # cs) \<longleftrightarrow> take (length s) (c # cs) = s \<or> occurs_in s cs"

text \<open>\<open>k in v\<close>.\<close>

fun py_contains :: "string \<Rightarrow> pyval \<Rightarrow> exn + bool" where
  "py_contains k (PDict kvs) = Inr (dict_get kvs k \<noteq> None)"
| "py_contains k (PList xs) = Inr (PStr k \<in> set xs)"
| "py_contains k (PStr s) = Inr (occurs_in k s)"
| "py_contains k _ = Inl TypeError"

definition primitive_get_string ::
  "'s cache_manager \<Rightarrow> (string \<Rightarrow> exn + pyval) \<Rightarrow> string \<Rightarrow> ('s, (pyval \<times> int) option) py" where
  "primitive_get_string cm loads key =
     bindM (cm_redis cm False [R_GET key, R_TTL key]) (\<lambda>rs.
       case rs of
         [RText v, RInt ttl] \<Rightarrow> if v = [] then pure None else bindM (lift_sum (loads v)) (\<lambda>e. pure (Some (e, ttl)))
       | [RNone, RInt ttl] \<Rightarrow> pure None
       | _ \<Rightarrow> raise OtherException)"

definition fetch_string_from_cache ::
  "'s cache_manager \<Rightarrow> (string \<Rightarrow> exn + pyval) \<Rightarrow> string \<Rightarrow> ('s, pyval option) py" where
  "fetch_string_from_cache cm loads key =
     bindM (primitive_get_string cm loads key) (\<lambda>res.
       case res of
         None \<Rightarrow> pure None
       | Some (e, ttl) \<Rightarrow>
           if e = PStr (NF_SENTINEL_KEY cm)
           then thenM (cm_exec cm False [R_SET key (NF_SENTINEL_KEY cm) False (Some (TTL_EPHEMERAL cm))])
                  (pure (Some (PDict (map (\<lambda>(k, v). (k, PStr v)) (cm_NF_MAPPING cm)))))
           else thenM (cm_exec cm False [R_EXPIRE key (min (TTL_CAP cm) (TTL_PROMOTION cm + ttl))]) (pure (Some e)))"

text \<open>\<open>None\<close>: the waiting is over without a result; \<open>Some None\<close>: a negative entry.\<close>

fun wait_for_string ::
  "nat \<Rightarrow> 's cache_manager \<Rightarrow> (string \<Rightarrow> exn + pyval) \<Rightarrow> string \<Rightarrow> (pyval \<Rightarrow> exn + 'd) \<Rightarrow> ('s, 'd option option) py" where
  "wait_for_string 0 cm loads key construct = pure None"
| "wait_for_string (Suc i) cm loads key construct =
     bindM (cm_redis cm False [R_GET (derive_lock_key [key])]) (\<lambda>rs.
       if rs \<noteq> [RNone]
       then thenM (cm_sleep cm i) (wait_for_string i cm loads key construct)
       else bindM (primitive_get_string cm loads key) (\<lambda>res.
              case res of
                None \<Rightarrow> pure None
              | Some (e, _) \<Rightarrow>
                  if e = PStr (NF_SENTINEL_KEY cm) then pure (Some None)
                  else bindM (case e of
                                PDict kvs \<Rightarrow> pure e
                              | PStr s \<Rightarrow> lift_sum (loads s)
                              | _ \<Rightarrow> raise JSONDecodeError) (\<lambda>m.
                       bindM (lift_sum (construct m)) (\<lambda>d. pure (Some (Some d))))))"

definition lead_string ::
  "'s cache_manager \<Rightarrow> string \<Rightarrow> ('s, 'd option) py \<Rightarrow> ('d \<Rightarrow> exn + (string \<times> string) list) \<Rightarrow> ('s, 'd option) py" where
  "lead_string cm key fallback repr =
     finallyM
       (bindM fallback (\<lambda>result. case result of
          None \<Rightarrow> thenM (set_negative_string cm key None) (pure None)
        | Some d \<Rightarrow> bindM (lift_sum (repr d)) (\<lambda>m. thenM (hset_with_ttl cm key m (TTL_STRONG cm)) (pure (Some d)))))
       (cm_exec cm False [R_DEL (derive_lock_key [key])])"

fun elect_string_leader ::
  "nat \<Rightarrow> 's cache_manager \<Rightarrow> (string \<Rightarrow> exn + pyval) \<Rightarrow> string \<Rightarrow> ('s, 'd option) py \<Rightarrow>
   ('d \<Rightarrow> exn + (string \<times> string) list) \<Rightarrow> (pyval \<Rightarrow> exn + 'd) \<Rightarrow> ('s, 'd option) py" where
  "elect_string_leader 0 cm loads key fallback repr construct = raise CacheCoherenceException"
| "elect_string_leader (Suc n) cm loads key fallback repr construct =
     bindM (cm_redis cm False [R_SET (derive_lock_key [key]) (cm_now cm) True (Some (TTL_FETCH_LOCK cm))]) (\<lambda>rs.
       if rs = [RBool True] then lead_string cm key fallback repr
       else bindM (wait_for_string (FETCH_WAITING_MAX_INTERVALS cm) cm loads key construct) (\<lambda>r.
              case r of
                Some d \<Rightarrow> pure d
              | None \<Rightarrow> elect_string_leader n cm loads key fallback repr construct))"

definition get_or_load_string ::
  "'s cache_manager \<Rightarrow> (string \<Rightarrow> exn + pyval) \<Rightarrow> string \<Rightarrow> ('s, 'd option) py \<Rightarrow>
   ('d \<Rightarrow> exn + (string \<times> string) list) \<Rightarrow> (pyval \<Rightarrow> exn + 'd) \<Rightarrow> ('s, 'd option) py" where
  "get_or_load_string cm loads key fallback repr construct =
     bindM (fetch_string_from_cache cm loads key) (\<lambda>r.
       case r of
         Some e \<Rightarrow>
           if py_truthy e
           then bindM (lift_sum (py_contains (NF_SENTINEL_KEY cm) e)) (\<lambda>negative.
                  if negative then pure None else bindM (lift_sum (construct e)) (\<lambda>d. pure (Some d)))
           else elect_string_leader (FETCH_MAX_RETRIES cm) cm loads key fallback repr construct
       | None \<Rightarrow> elect_string_leader (FETCH_MAX_RETRIES cm) cm loads key fallback repr construct)"

text \<open>Pages whose members are kept as strings: what is parsed is added once for every counter.\<close>

fun string_members :: "(string \<Rightarrow> exn + pyval) \<Rightarrow> reply list \<Rightarrow> exn + (pyval option \<times> int) list" where
  "string_members loads (r # RInt ttl # rest) =
     (if ttl = - 2 then bindE (string_members loads rest) (\<lambda>ms. Inr ((None, ttl) # ms))
      else bindE (case r of RText v \<Rightarrow> loads v | _ \<Rightarrow> Inl JSONDecodeError) (\<lambda>_. string_members loads rest))"
| "string_members loads _ = Inr []"

definition primitive_string_page ::
  "'s cache_manager \<Rightarrow> (string \<Rightarrow> exn + pyval) \<Rightarrow> string \<Rightarrow>
   ('s, int \<times> string list \<times> (pyval option \<times> int) list \<times> string) py" where
  "primitive_string_page cm loads page_key =
     bindM (cm_redis cm False [R_LRANGE_ALL page_key]) (\<lambda>rs.
       case rs of
         [RTexts ks] \<Rightarrow>
           if ks = [] then raise IndexError
           else bindM (cm_redis cm False (R_TTL page_key # concat (map (\<lambda>k. [R_GET k, R_TTL k]) (butlast ks)))) (\<lambda>qs.
                  case qs of
                    RInt page_ttl # members \<Rightarrow>
                      bindM (lift_sum (string_members loads members)) (\<lambda>ms. pure (page_ttl, butlast ks, ms, last ks))
                  | _ \<Rightarrow> raise OtherException)
       | _ \<Rightarrow> raise OtherException)"

definition construct_string_member ::
  "(pyval \<Rightarrow> exn + 'd) \<Rightarrow> pyval option \<times> int \<Rightarrow> exn + 'd option" where
  "construct_string_member construct m =
     (case fst m of
        None \<Rightarrow> Inr None
      | Some e \<Rightarrow> if py_truthy e then bindE (construct e) (\<lambda>d. Inr (Some d)) else Inr None)"

fun wait_for_string_page ::
  "nat \<Rightarrow> 's cache_manager \<Rightarrow> (string \<Rightarrow> exn + pyval) \<Rightarrow> string \<Rightarrow> (pyval \<Rightarrow> exn + 'd) \<Rightarrow> ('s, 'd option list option) py" where
  "wait_for_string_page 0 cm loads page_key construct = pure None"
| "wait_for_string_page (Suc i) cm loads page_key construct =
     bindM (cm_redis cm False [R_GET (derive_lock_key [page_key])]) (\<lambda>rs.
       if rs \<noteq> [RNone]
       then thenM (cm_sleep cm i) (wait_for_string_page i cm loads page_key construct)
       else bindM (primitive_string_page cm loads page_key) (\<lambda>(_, _, entries, _).
              if entries = [] then pure None
              else bindM (lift_sum (traverse (construct_string_member construct) entries)) (\<lambda>ds. pure (Some ds))))"

fun elect_string_page_leader ::
  "nat \<Rightarrow> 's cache_manager \<Rightarrow> (string \<Rightarrow> exn + pyval) \<Rightarrow> string \<Rightarrow> string \<Rightarrow> ('s, (string \<times> 'd) list) py \<Rightarrow>
   ('d \<Rightarrow> exn + (string \<times> string) list) \<Rightarrow> (pyval \<Rightarrow> exn + 'd) \<Rightarrow> ('s, 'd option list \<times> string) py" where
  "elect_string_page_leader 0 cm loads page_key next_cursor fallback repr construct = raise CacheCoherenceException"
| "elect_string_page_leader (Suc n) cm loads page_key next_cursor fallback repr construct =
     bindM (cm_redis cm False [R_SET (derive_lock_key [page_key]) (cm_now cm) True (Some (TTL_FETCH_LOCK cm))]) (\<lambda>rs.
       if rs = [RBool True] then lead_page cm page_key fallback repr
       else bindM (wait_for_string_page (FETCH_WAITING_MAX_INTERVALS cm) cm loads page_key construct) (\<lambda>r.
              case r of
                Some ds \<Rightarrow> pure (ds, next_cursor)
              | None \<Rightarrow> elect_string_page_leader n cm loads page_key next_cursor fallback repr construct))"

definition string_page ::
  "'s cache_manager \<Rightarrow> (string \<Rightarrow> exn + pyval) \<Rightarrow> string \<Rightarrow> ('s, (string \<times> 'd) list) py \<Rightarrow>
   ('d \<Rightarrow> exn + (string \<times> string) list) \<Rightarrow> (pyval \<Rightarrow> exn + 'd) \<Rightarrow> ('s, 'd option list \<times> string) py" where
  "string_page cm loads page_key fallback repr construct =
     bindM (primitive_string_page cm loads page_key) (\<lambda>(page_ttl, ks, entries, cursor).
     thenM (if \<forall>e \<in> set entries. \<exists>v. fst e = Some v \<and> py_truthy v
            then promote_paginated_result cm page_key page_ttl ks (map snd entries)
            else update_cache_version cm (derive_resource_from_pagination_key page_key))
     (bindM (lift_sum (traverse (construct_string_member construct) entries)) (\<lambda>cached.
      if cached \<noteq> [] \<and> None \<notin> set cached then pure (cached, cursor)
      else elect_string_page_leader (FETCH_MAX_RETRIES cm) cm loads page_key cursor fallback repr construct)))"

section \<open>Animes and their repository\<close>

text \<open>The fields of an anime that are set, its genres and its links, by website.\<close>

record anime_result =
  an_fields :: "string \<rightharpoonup> pyval"
  an_genres :: pyval
  an_links :: pyval

definition AnimeResult :: result_class where
  "AnimeResult = [(''id_'', T_OTHER), (''title'', T_OTHER), (''members'', T_OTHER), (''synopsis'', T_OTHER),
     (''genres'', T_OTHER), (''stream_links'', T_OTHER)]"

text \<open>A dictionary of pairs: the last value of a key stays, at the place of its first.\<close>

definition py_dict :: "(string \<times> 'v) list \<Rightarrow> (string \<times> 'v) list" where
  "py_dict kvs =
     fold (\<lambda>(k, v) d. if k \<in> fst ` set d then map (\<lambda>(k', v'). (k', if k' = k then v else v')) d else d @ [(k, v)]) kvs []"

definition anime_from_orm :: "server \<Rightarrow> orm_row \<Rightarrow> orm_row list \<Rightarrow> orm_row list \<Rightarrow> exn + anime_result" where
  "anime_from_orm sv row genres links =
     bindE (super_call sv (construct_from_orm AnimeResult row)) (\<lambda>d.
       Inr \<lparr>an_fields = map_option pyval_of \<circ> d, an_genres = PList (map (\<lambda>g. pyval_of (col g ''name_'')) genres),
            an_links = PDict (py_dict (map (\<lambda>l. (str_of_value (col l ''website''), pyval_of (col l ''url''))) links))\<rparr>)"

definition loads_item :: "server \<Rightarrow> (string \<times> pyval) list \<Rightarrow> string \<Rightarrow> exn + pyval" where
  "loads_item sv kvs k =
     (case dict_get kvs k of
        None \<Rightarrow> Inl KeyError
      | Some (PStr s) \<Rightarrow> sv_loads sv s
      | Some (PBytes s) \<Rightarrow> sv_loads sv s
      | Some _ \<Rightarrow> Inl JSONDecodeError)"

text \<open>\<open>construct_from_cache\<close>, of a parsed entry and of a hash.\<close>

definition anime_from_json :: "server \<Rightarrow> pyval \<Rightarrow> exn + anime_result" where
  "anime_from_json sv e =
     bindE (super_call sv ()) (\<lambda>_.
     case e of
       PDict kvs \<Rightarrow>
         bindE (loads_item sv kvs ''genres'') (\<lambda>g.
         bindE (loads_item sv kvs ''stream_links'') (\<lambda>l.
           Inr \<lparr>an_fields = (\<lambda>k. if k \<in> fst ` set AnimeResult then dict_get kvs k else None), an_genres = g, an_links = l\<rparr>))
     | _ \<Rightarrow> Inl AttributeError)"

definition anime_from_hash :: "server \<Rightarrow> (string \<rightharpoonup> string) \<Rightarrow> exn + anime_result" where
  "anime_from_hash sv h =
     bindE (super_call sv (construct_from_cache AnimeResult (cm_decode (sv_cache sv)) h)) (\<lambda>d.
     bindE (bindE (entry_item sv h ''genres'') (sv_loads sv)) (\<lambda>g.
     bindE (bindE (entry_item sv h ''stream_links'') (sv_loads sv)) (\<lambda>l.
       Inr \<lparr>an_fields = map_option pyval_of \<circ> d, an_genres = g, an_links = l\<rparr>)))"

text \<open>\<open>__json_repr__\<close> and \<open>__cache_repr__\<close> leave out the genres and the links.\<close>

definition anime_json_repr :: "anime_result \<Rightarrow> exn + (string \<times> pyval) list" where
  "anime_json_repr a =
     traverse (\<lambda>(k, n). case an_fields a n of None \<Rightarrow> Inl AttributeError | Some v \<Rightarrow> Inr (k, v))
       [(''id'', ''id_''), (''title'', ''title''), (''members'', ''members''), (''synopsis'', ''synopsis'')]"

fun encode_pyval :: "pyval \<Rightarrow> exn + string" where
  "encode_pyval (PInt n) = Inr (str_of_int n)"
| "encode_pyval (PStr s) = Inr s"
| "encode_pyval (PBytes s) = Inr s"
| "encode_pyval _ = Inl (RedisError False)"

definition anime_cache_repr :: "anime_result \<Rightarrow> exn + (string \<times> string) list" where
  "anime_cache_repr a = bindE (anime_json_repr a) (traverse (\<lambda>(k, v). bindE (encode_pyval v) (\<lambda>s. Inr (k, s))))"

definition genres_of :: "field_value \<Rightarrow> rs_db \<Rightarrow> orm_row list" where
  "genres_of anime_id db =
     concat (map (\<lambda>ag. filter (\<lambda>g. sql_eq (col g ''id_'') (col ag ''genre_id'')) (db_genres db))
       (filter (\<lambda>ag. sql_eq (col ag ''anime_id'') anime_id) (anime_genres db)))"

definition links_of :: "field_value \<Rightarrow> rs_db \<Rightarrow> orm_row list" where
  "links_of anime_id db = filter (\<lambda>l. sql_eq (col l ''anime_id'') anime_id) (stream_links db)"

definition get_anime :: "server \<Rightarrow> int \<Rightarrow> rs_db \<Rightarrow> exn + anime_result option" where
  "get_anime sv anime_id db =
     bindE (one_or_none (filter (\<lambda>r. sql_eq (col r ''id_'') (FInt anime_id)) (db_animes db))) (\<lambda>r.
       case r of
         None \<Rightarrow> Inr None
       | Some a \<Rightarrow> bindE (anime_from_orm sv a (genres_of (FInt anime_id) db) (links_of (FInt anime_id) db)) (\<lambda>x. Inr (Some x)))"

definition check_anime_subscription :: "int \<Rightarrow> int \<Rightarrow> rs_db \<Rightarrow> exn + bool" where
  "check_anime_subscription anime_id user_id db =
     bindE (one_or_none (filter (\<lambda>r. sql_eq (col r ''user_id'') (FInt user_id) \<and> sql_eq (col r ''anime_id'') (FInt anime_id))
              (anime_subscriptions db))) (\<lambda>r. Inr (r \<noteq> None))"

text \<open>\<open>d[anime.id_]\<close> of the rows grouped by anime: an anime without any is missing.\<close>

definition group_item :: "orm_row list \<Rightarrow> exn + orm_row list" where
  "group_item rows = (if rows = [] then Inl KeyError else Inr rows)"

definition anime_with_details :: "server \<Rightarrow> rs_db \<Rightarrow> orm_row \<Rightarrow> exn + anime_result" where
  "anime_with_details sv db a =
     bindE (group_item (genres_of (col a ''id_'') db)) (\<lambda>gs.
     bindE (group_item (links_of (col a ''id_'') db)) (\<lambda>ls. anime_from_orm sv a gs ls))"

text \<open>The genres that are asked for are taken for the genres of every anime.\<close>

definition get_animes ::
  "(string \<Rightarrow> field_value \<Rightarrow> bool) \<Rightarrow> server \<Rightarrow> int \<Rightarrow> string option \<Rightarrow> orm_row list \<Rightarrow> rs_db \<Rightarrow> exn + anime_result list" where
  "get_animes ilike sv cursor search genres db =
     (let rows = filter (\<lambda>a. id_after cursor a \<and> (given search \<longrightarrow> ilike (the search) (col a ''title''))) (db_animes db) in
      if genres \<noteq> []
      then traverse (\<lambda>a. bindE (group_item (links_of (col a ''id_'') db)) (anime_from_orm sv a genres)) rows
      else traverse (anime_with_details sv db) rows)"

definition get_user_animes ::
  "(orm_row list \<Rightarrow> exn + orm_row list) \<Rightarrow> server \<Rightarrow> field_value \<Rightarrow> nat \<Rightarrow> int \<Rightarrow> rs_db \<Rightarrow> exn + anime_result list" where
  "get_user_animes ordered sv user_id limit cursor db =
     bindE (ordered (filter (\<lambda>s. sql_eq (col s ''user_id'') user_id \<and>
              (case col s ''anime_id'' of FInt n \<Rightarrow> cursor < n | _ \<Rightarrow> False)) (anime_subscriptions db))) (\<lambda>subs.
     traverse (anime_with_details sv db) (take limit (concat (map (\<lambda>s.
       filter (\<lambda>a. sql_eq (col a ''id_'') (col s ''anime_id'')) (db_animes db)) subs))))"

section \<open>Genres\<close>

text \<open>
  The coroutine of \<open>get_genres\<close> is cached: whoever awaits it second awaits one that is done.
\<close>

definition get_genres :: "(world, orm_row list) py" where
  "get_genres w = (if w_genres w then (Inl RuntimeError, w) else (Inr (db_genres (w_db w)), w\<lparr>w_genres := True\<rparr>))"

definition anime_genres_preprocessor :: "string list \<Rightarrow> (world, orm_row list option) py" where
  "anime_genres_preprocessor raw_genres =
     (if raw_genres = [] then pure None
      else bindM get_genres (\<lambda>genres.
        let lowered = map (map lower_char) raw_genres;
            genre_of = map_of (rev (map (\<lambda>g. (map lower_char (str_of_value (col g ''name_'')), g)) genres)) in
        if list_ex (\<lambda>r. genre_of r = None) lowered then raise ValueError
        else pure (Some (map (\<lambda>r. the (genre_of r)) lowered))))"

definition anime_genres_route :: "(world, response) py" where
  "anime_genres_route =
     bindM get_genres (\<lambda>genres.
       JSONResponse (map (\<lambda>(k, v). (k, JVal v)) (py_dict (map (\<lambda>g. (str_of_value (col g ''name_''), col g ''id_'')) genres))) 200)"

section \<open>Routes\<close>

abbreviation anime_key :: "int \<Rightarrow> string" where
  "anime_key anime_id \<equiv> derive_cache_key ''animes'' (str_of_int anime_id)"

definition load_anime :: "server \<Rightarrow> int \<Rightarrow> (world, anime_result option) py" where
  "load_anime sv anime_id =
     get_or_load_string (sv_cache sv) (sv_loads sv) (anime_key anime_id) (on_db (get_anime sv anime_id)) anime_cache_repr
       (anime_from_json sv)"

definition load_parent_anime :: "server \<Rightarrow> int \<Rightarrow> (world, anime_result option) py" where
  "load_parent_anime sv anime_id =
     distributed_get_or_load (sv_cache sv) (anime_key anime_id) [] (on_db (get_anime sv anime_id)) anime_cache_repr
       (anime_from_hash sv)"

definition anime_attr :: "anime_result \<Rightarrow> string \<Rightarrow> ('s, pyval) py" where
  "anime_attr a n = lift_sum (case an_fields a n of None \<Rightarrow> Inl AttributeError | Some v \<Rightarrow> Inr v)"

text \<open>The response is made of the result object itself, which is not a value of JSON.\<close>

definition get_anime_route :: "server \<Rightarrow> int \<Rightarrow> (world, response) py" where
  "get_anime_route sv anime_id =
     bindM (load_anime sv anime_id) (\<lambda>r.
     bindM (require 404 r) (\<lambda>anime. raise TypeError))"

definition anime_subscription_event :: "event_name \<Rightarrow> intent_flag \<Rightarrow> int \<Rightarrow> int \<Rightarrow> int \<Rightarrow> string \<Rightarrow> string \<Rightarrow> event" where
  "anime_subscription_event name flag d anime_id user_id uuid now =
     user_event name
       [(''anime_id'', PInt anime_id), (''user_id'', PInt user_id), (''time_subscribed'', PDatetime now)]
       [counter (derive_hashmap_name ''animes'' ''subscriptions'') (anime_key anime_id) ''subscribers'' d]
       [\<lparr>intent_name = create_intent_flag ''animes'' (action_value SUB) (str_of_int user_id) (str_of_int anime_id),
         update_flag = flag, intent_id = uuid\<rparr>]"

definition sub_anime :: "server \<Rightarrow> int \<Rightarrow> claims \<Rightarrow> string \<Rightarrow> string \<Rightarrow> (world, response) py" where
  "sub_anime sv anime_id token uuid now =
     bindM (load_anime sv anime_id) (\<lambda>r.
     bindM (require 404 r) (\<lambda>anime.
     bindM (anime_attr anime ''title'') (\<lambda>_.
     thenM (guard_action (sv_cache sv) (str_of_int (sid token)) (str_of_int anime_id) ''animes'' SUB
              (Some RESOURCE_CREATION_PENDING_FLAG) (\<lambda>latest_intent.
        thenM (if no_intent latest_intent
               then bindM (on_db (check_anime_subscription anime_id (sid token))) (\<lambda>subscription.
                      if subscription
                      then thenM (set_intent (sv_cache sv) uuid (str_of_int (sid token)) (str_of_int anime_id)
                                    ''anime_subscriptions'' SUB RESOURCE_CREATION_PENDING_FLAG None) (raise (HTTPException 409))
                      else pure ())
               else pure ())
        (emit sv ANIMES (anime_subscription_event ANIME_SUB RESOURCE_CREATION_PENDING_FLAG 1 anime_id (sid token) uuid now))))
     (JSONResponse [(''message'', JText ''subscribed!'')] 202))))"

text \<open>Unsubscribing refuses those who are subscribed.\<close>

definition unsub_anime :: "server \<Rightarrow> int \<Rightarrow> claims \<Rightarrow> string \<Rightarrow> string \<Rightarrow> (world, response) py" where
  "unsub_anime sv anime_id token uuid now =
     bindM (load_anime sv anime_id) (\<lambda>r.
     bindM (require 404 r) (\<lambda>anime.
     bindM (anime_attr anime ''title'') (\<lambda>_.
     thenM (guard_action (sv_cache sv) (str_of_int (sid token)) (str_of_int anime_id) ''animes'' SUB
              (Some RESOURCE_DELETION_PENDING_FLAG) (\<lambda>latest_intent.
        thenM (if no_intent latest_intent
               then bindM (on_db (check_anime_subscription anime_id (sid token))) (\<lambda>subscription.
                      if subscription
                      then thenM (set_intent (sv_cache sv) uuid (str_of_int (sid token)) (str_of_int anime_id)
                                    ''anime_subscriptions'' UNSUB RESOURCE_DELETION_PENDING_FLAG None) (raise (HTTPException 409))
                      else pure ())
               else pure ())
        (emit sv ANIMES (anime_subscription_event ANIME_UNSUB RESOURCE_DELETION_PENDING_FLAG (- 1) anime_id (sid token) uuid now))))
     (JSONResponse [(''message'', JText ''unsubscribed!'')] 202))))"

text \<open>A page of animes; without a genre, the genres the key is made of are \<open>None\<close>.\<close>

definition keyed_animes :: "anime_result list \<Rightarrow> exn + (string \<times> anime_result) list" where
  "keyed_animes as = traverse (\<lambda>a. case an_fields a ''id_'' of None \<Rightarrow> Inl AttributeError | Some v \<Rightarrow>
     bindE (encode_pyval v) (\<lambda>k. Inr (k, a))) as"

fun json_value :: "pyval \<Rightarrow> exn + field_value" where
  "json_value PNone = Inr FNone"
| "json_value (PBool b) = Inr (FBool b)"
| "json_value (PInt n) = Inr (FInt n)"
| "json_value (PStr s) = Inr (FStr s)"
| "json_value _ = Inl TypeError"

definition anime_json :: "anime_result option \<Rightarrow> exn + (string \<times> field_value) list" where
  "anime_json x =
     (case x of
        None \<Rightarrow> Inl AttributeError
      | Some a \<Rightarrow> bindE (anime_json_repr a) (traverse (\<lambda>(k, v). bindE (json_value v) (\<lambda>s. Inr (k, s)))))"

text \<open>The cursor of the next page and the response of a page of animes.\<close>

definition animes_response :: "server \<Rightarrow> anime_result option list \<Rightarrow> string \<Rightarrow> (world, response) py" where
  "animes_response sv as next =
     bindM (if next \<noteq> CURSOR_UNDERIVABLE_SENTINEL then pure next
            else if as = [] then raise IndexError
            else case last as of
                   None \<Rightarrow> raise AttributeError
                 | Some a \<Rightarrow> bindM (anime_attr a ''id_'') (\<lambda>v. case v of
                     PInt n \<Rightarrow> lift_sum (to_base64url n (PAGINATION_CURSOR_LENGTH sv))
                   | _ \<Rightarrow> raise AttributeError)) (\<lambda>next_cursor.
     bindM (lift_sum (traverse anime_json as)) (\<lambda>js.
       JSONResponse [(''animes'', JObjs js), (''cursor'', JText next_cursor)] 200))"

definition get_animes_route ::
  "(string \<Rightarrow> field_value \<Rightarrow> bool) \<Rightarrow> server \<Rightarrow> int \<Rightarrow> string list \<Rightarrow> string option \<Rightarrow> (world, response) py" where
  "get_animes_route ilike sv cursor raw_genres search =
     bindM (anime_genres_preprocessor raw_genres) (\<lambda>g.
     bindM (case g of None \<Rightarrow> raise TypeError | Some genres \<Rightarrow> pure genres) (\<lambda>genres.
     bindM (derive_pagination_key (sv_cache sv) ''animes'' cursor
              [join ''-'' (map (\<lambda>r. str_of_value (col r ''id_'')) genres), case search of None \<Rightarrow> [] | Some s \<Rightarrow> s]) (\<lambda>key.
     bindM (string_page (sv_cache sv) (sv_loads sv) key
              (on_db (\<lambda>db. bindE (get_animes ilike sv cursor search genres db) keyed_animes)) anime_cache_repr
              (anime_from_json sv)) (\<lambda>(as, next). animes_response sv as next))))"

definition anime_links_route :: "server \<Rightarrow> int \<Rightarrow> (world, response) py" where
  "anime_links_route sv anime_id =
     bindM (load_anime sv anime_id) (\<lambda>r.
     bindM (require 404 r) (\<lambda>anime.
     bindM (lift_sum (case an_links anime of
         PDict kvs \<Rightarrow> bindE (traverse (\<lambda>(k, v). bindE (json_value v) (\<lambda>s. Inr (k, s))) kvs) (\<lambda>j. Inr (JObj j))
       | v \<Rightarrow> bindE (json_value v) (\<lambda>j. Inr (JVal j)))) (\<lambda>links.
       JSONResponse [(''stream_links'', links)] 200)))"

section \<open>Properties of entries kept as strings\<close>

lemma set_lock_string:
  assumes redis: "cm_redis cm = store_redis" and pos: "positive_ttls cm" "0 < FETCH_MAX_RETRIES cm"
    and free: "st key = None" "st (derive_lock_key [key]) = None"
  shows "get_or_load_string cm loads key fallback repr construct st =
    lead_string cm key fallback repr (st(derive_lock_key [key] \<mapsto> (VStr (cm_now cm), Some (TTL_FETCH_LOCK cm))))"
proof -
  obtain n where n: "FETCH_MAX_RETRIES cm = Suc n" using pos(2) by (cases "FETCH_MAX_RETRIES cm") auto
  have "primitive_get_string cm loads key st = (Inr None, st)"
    using free(1) redis by (simp add: primitive_get_string_def store_redis_def bindM_def)
  then show ?thesis
    using free pos(1) redis
    by (simp add: get_or_load_string_def fetch_string_from_cache_def n store_redis_def positive_ttls_def)
qed

text \<open>
  What is loaded as a string is served once.  A missing anime is kept as the sentinel, which
  does not parse: until it expires, every further request ends in a \<open>JSONDecodeError\<close>.  One
  that is there would be kept as a hash, which \<open>GET\<close> refuses: every further request ends in
  the error of Redis.
\<close>

theorem string_entries_unreadable:
  assumes redis: "cm_redis cm = store_redis" and pos: "positive_ttls cm" "0 < FETCH_MAX_RETRIES cm"
    and free: "st key = None" "st (derive_lock_key [key]) = None"
    and json: "loads (NF_SENTINEL_KEY cm) = Inl JSONDecodeError" and sentinel: "NF_SENTINEL_KEY cm \<noteq> []"
  shows "(\<exists>st1. get_or_load_string cm loads key (pure None) repr construct st = (Inr None, st1) \<and>
      (\<forall>again. get_or_load_string cm loads key again repr construct st1 = (Inl JSONDecodeError, st1))) \<and>
    (repr d = Inr m \<longrightarrow> m \<noteq> [] \<longrightarrow>
      (\<exists>st1. get_or_load_string cm loads key (pure (Some d)) repr construct st = (Inr (Some d), st1) \<and>
        (\<forall>again. get_or_load_string cm loads key again repr construct st1 = (Inl (RedisError False), st1))))"
proof (intro conjI impI)
  let ?st = "st(derive_lock_key [key] \<mapsto> (VStr (cm_now cm), Some (TTL_FETCH_LOCK cm)))"
  let ?neg = "(?st(key \<mapsto> (VStr (NF_SENTINEL_KEY cm), Some (TTL_EPHEMERAL cm))))(derive_lock_key [key] := None)"
  note start = set_lock_string [OF redis pos free]
  have "lead_string cm key (pure None) repr ?st = (Inr None, ?neg)"
    using redis pos(1) free
    by (simp add: lead_string_def finallyM_def thenM_def bindM_def set_negative_string_def cm_exec_store positive_ttls_def)
  moreover have "get_or_load_string cm loads key again repr construct ?neg = (Inl JSONDecodeError, ?neg)" for again
    using redis json sentinel
    by (simp add: get_or_load_string_def fetch_string_from_cache_def primitive_get_string_def store_redis_def)
  ultimately show "\<exists>st1. get_or_load_string cm loads key (pure None) repr construct st = (Inr None, st1) \<and>
      (\<forall>again. get_or_load_string cm loads key again repr construct st1 = (Inl JSONDecodeError, st1))"
    by (auto simp: start)
  assume m: "repr d = Inr m" "m \<noteq> []"
  let ?hit = "(?st(key \<mapsto> (VHash (map_of (rev m)), Some (TTL_STRONG cm))))(derive_lock_key [key] := None)"
  have "lead_string cm key (pure (Some d)) repr ?st = (Inr (Some d), ?hit)"
    using redis pos(1) free m
    by (simp add: lead_string_def finallyM_def thenM_def bindM_def hset_with_ttl_def cm_exec_store hash_at_def ttl_at_def
        positive_ttls_def)
  moreover have "get_or_load_string cm loads key again repr construct ?hit = (Inl (RedisError False), ?hit)" for again
    using redis
    by (simp add: get_or_load_string_def fetch_string_from_cache_def primitive_get_string_def store_redis_def)
  ultimately show "\<exists>st1. get_or_load_string cm loads key (pure (Some d)) repr construct st = (Inr (Some d), st1) \<and>
      (\<forall>again. get_or_load_string cm loads key again repr construct st1 = (Inl (RedisError False), st1))"
    by (auto simp: start)
qed

theorem string_entries_unreadable_witness:
  "\<exists>st1. get_or_load_string example_manager (\<lambda>_. Inl JSONDecodeError) ''animes:1'' (pure None) (\<lambda>_. Inr [(''title'', ''x'')])
       (\<lambda>_. Inr ()) Map.empty = (Inr None, st1) \<and>
     (\<forall>again. get_or_load_string example_manager (\<lambda>_. Inl JSONDecodeError) ''animes:1'' again (\<lambda>_. Inr [(''title'', ''x'')])
       (\<lambda>_. Inr ()) st1 = (Inl JSONDecodeError, st1))"
proof -
  have "cm_redis example_manager = store_redis" "positive_ttls example_manager" "0 < FETCH_MAX_RETRIES example_manager"
      "NF_SENTINEL_KEY example_manager \<noteq> []"
    by (simp_all add: example_manager_def positive_ttls_def)
  from string_entries_unreadable [OF this(1-3) _ _ _ this(4), of Map.empty "''animes:1''" "\<lambda>_. Inl JSONDecodeError"
      "\<lambda>_. Inr [(''title'', ''x'')]" "\<lambda>_. Inr ()"]
  show ?thesis by blast
qed

section \<open>What a cache of strings gives\<close>

text \<open>\<open>parsed\<close>: what the reader may find under a key, once it is parsed.\<close>

locale trusted_strings = pageless_cache +
  fixes loads :: "string \<Rightarrow> exn + pyval" and parsed :: "string \<Rightarrow> pyval \<Rightarrow> bool"
  assumes reads_text: "inv s \<Longrightarrow> fst (cm_redis cm tx (R_GET k # cs) s) = Inr (RText v # rs) \<Longrightarrow> v \<noteq> [] \<Longrightarrow> loads v = Inr e \<Longrightarrow> parsed k e"
    and safe_negative_string: "safe (R_SET k (NF_SENTINEL_KEY cm) nx ex)"
begin

lemma sure_get_string:
  "sure inv (primitive_get_string cm loads key) (\<lambda>r. case r of None \<Rightarrow> True | Some (e, _) \<Rightarrow> parsed key e)"
proof -
  have "sure inv (cm_redis cm False [R_GET key, R_TTL key])
      (\<lambda>rs. \<forall>v qs e. rs = RText v # qs \<longrightarrow> v \<noteq> [] \<longrightarrow> loads v = Inr e \<longrightarrow> parsed key e)"
    using exec reads_text by (fastforce simp: sure_def safe_cmds)
  then show ?thesis
    unfolding primitive_get_string_def
    by (rule sure_bindM)
      (auto intro!: sure_rules sure_bindM [where Q = "\<lambda>e. parsed key e"] split: list.split reply.split)
qed

lemma sure_lead_string:
  assumes "sure inv fallback (\<lambda>r. \<forall>d. r = Some d \<longrightarrow> (\<forall>m. repr d \<noteq> Inr m))"
  shows "sure inv (lead_string cm key fallback repr) (\<lambda>r. r = None)"
  unfolding lead_string_def
proof (rule sure_finallyM [OF _ sure_exec], rule sure_bindM [OF assms])
  fix r
  assume "\<forall>d. r = Some d \<longrightarrow> (\<forall>m. repr d \<noteq> Inr m)"
  then show "sure inv (case r of None \<Rightarrow> thenM (set_negative_string cm key None) (pure None)
      | Some d \<Rightarrow> bindM (lift_sum (repr d)) (\<lambda>m. thenM (hset_with_ttl cm key m (TTL_STRONG cm)) (pure (Some d)))) (\<lambda>r. r = None)"
    by (auto intro!: sure_thenM [OF sure_exec] sure_rules sure_bindM [where Q = "\<lambda>_. False"]
        simp: set_negative_string_def safe_negative_string split: option.split)
qed (simp add: safe_cmds)

lemma sure_get_no_string:
  assumes "\<And>e. \<not> parsed key e"
  shows "sure inv (primitive_get_string cm loads key) (\<lambda>r. r = None)"
  by (rule sure_weaken [OF sure_get_string]) (use assms in \<open>auto split: option.splits prod.splits\<close>)

lemma sure_wait_string:
  assumes "\<And>e. \<not> parsed key e"
  shows "sure inv (wait_for_string i cm loads key construct) (\<lambda>r. r = None)"
proof (induction i)
  case 0
  show ?case unfolding wait_for_string.simps by (rule sure_pure) simp
next
  case (Suc i)
  have sl: "sure inv (cm_sleep cm i) (\<lambda>_. True)" by (simp add: sure_def sleeps)
  have "sure inv (bindM (primitive_get_string cm loads key) (\<lambda>res. case res of None \<Rightarrow> pure None | Some x \<Rightarrow> k x)) (\<lambda>r. r = None)"
    for k :: "pyval \<times> int \<Rightarrow> ('a, 'd option option) py"
    by (rule sure_bindM [OF sure_get_no_string [OF assms]]) (simp add: sure_pure)
  then show ?case unfolding wait_for_string.simps
    by (intro sure_bindM_any [OF sure_redis]) (auto simp: safe_cmds case_prod_unfold intro!: sure_thenM [OF sl Suc.IH])
qed

lemma sure_elect_string:
  assumes "sure inv fallback (\<lambda>r. \<forall>d. r = Some d \<longrightarrow> (\<forall>m. repr d \<noteq> Inr m))" and "\<And>e. \<not> parsed key e"
  shows "sure inv (elect_string_leader n cm loads key fallback repr construct) (\<lambda>r. r = None)"
proof (induction n)
  case 0
  show ?case unfolding elect_string_leader.simps by (rule sure_raise)
next
  case (Suc n)
  show ?case unfolding elect_string_leader.simps
    by (rule sure_bindM_any [OF sure_redis])
      (auto simp: safe_cmds intro!: sure_lead_string [OF assms(1)] sure_bindM [OF sure_wait_string [OF assms(2)]] Suc.IH)
qed

lemma sure_get_or_load_string:
  assumes "sure inv fallback (\<lambda>r. \<forall>d. r = Some d \<longrightarrow> (\<forall>m. repr d \<noteq> Inr m))" and "\<And>e. \<not> parsed key e"
  shows "sure inv (get_or_load_string cm loads key fallback repr construct) (\<lambda>r. r = None)"
proof -
  have "sure inv (fetch_string_from_cache cm loads key) (\<lambda>r. r = None)"
    unfolding fetch_string_from_cache_def
    by (rule sure_bindM [OF sure_get_no_string [OF assms(2)]]) (simp add: sure_pure)
  then show ?thesis
    unfolding get_or_load_string_def
    by (rule sure_bindM) (simp add: sure_elect_string [OF assms])
qed

lemma sure_string_page: "sure inv (string_page cm loads page_key fallback repr construct) (\<lambda>_. False)"
proof -
  have "sure inv (primitive_string_page cm loads page_key) (\<lambda>_. False)"
    unfolding primitive_string_page_def
    by (rule sure_bindM [OF sure_range]) (auto intro: sure_rules split: list.split reply.split)
  then show ?thesis unfolding string_page_def by (rule sure_bindM) simp
qed

end

end
