(* ===== verification/Tenjin_Forum.thy ===== *)
theory Tenjin_Forum
  imports Tenjin_Anime
begin

text \<open>
  Forums: the roles of their admins (\<^verbatim>\<open>models/admin_permissions.py\<close>,
  \<^verbatim>\<open>models/database_enums.py\<close>), the repository (\<^verbatim>\<open>repositories/forum.py\<close>) and the routes
  (\<^verbatim>\<open>routers/forums.py\<close>).  The request's validated body and the claims of its access token
  are arguments; \<open>uuid\<close> is the identifier the route generates and \<open>now\<close> the time.
\<close>

section \<open>Roles and permissions\<close>

datatype forum_role = ADMIN | SUPER | OWNER

fun forum_role_value :: "forum_role \<Rightarrow> string" where
  "forum_role_value ADMIN = ''ADMIN''"
| "forum_role_value SUPER = ''SUPER''"
| "forum_role_value OWNER = ''OWNER''"

definition read_forum_role :: "string \<Rightarrow> exn + forum_role" where
  "read_forum_role s =
     (if s = ''ADMIN'' then Inr ADMIN else if s = ''SUPER'' then Inr SUPER
      else if s = ''OWNER'' then Inr OWNER else Inl ValueError)"

datatype forum_permission =
    ADD_RULE | ADD_ADMIN | ADD_SUPER | EDIT_FORUM | DEMOTE_TO_ADMIN | PROMOTE_TO_SUPER
  | REMOVE_ADMIN | REMOVE_SUPER | DELETE_COMMENT | DELETE_POST | DELETE_RULE | DELETE_FORUM

definition AdminPermissions :: "forum_permission list" where
  "AdminPermissions =
     [ADD_RULE, ADD_ADMIN, ADD_SUPER, EDIT_FORUM, DEMOTE_TO_ADMIN, PROMOTE_TO_SUPER,
      REMOVE_ADMIN, REMOVE_SUPER, DELETE_COMMENT, DELETE_POST, DELETE_RULE, DELETE_FORUM]"

definition OWNER_EXCLUSIVE_PERMISSIONS :: "forum_permission list" where
  "OWNER_EXCLUSIVE_PERMISSIONS = [ADD_SUPER, REMOVE_SUPER, DELETE_FORUM]"

fun ADMIN_PERMISSIONS_MAPPING :: "forum_role \<Rightarrow> forum_permission list" where
  "ADMIN_PERMISSIONS_MAPPING OWNER = AdminPermissions"
| "ADMIN_PERMISSIONS_MAPPING SUPER = filter (\<lambda>p. p \<notin> set OWNER_EXCLUSIVE_PERMISSIONS) AdminPermissions"
| "ADMIN_PERMISSIONS_MAPPING ADMIN = [DELETE_POST, DELETE_COMMENT]"

definition check_permission :: "forum_role \<Rightarrow> forum_permission \<Rightarrow> bool" where
  "check_permission role p \<longleftrightarrow> p \<in> set (ADMIN_PERMISSIONS_MAPPING role)"

section \<open>The repository\<close>

record forum_admin =
  fa_forum_id :: field_value
  fa_user_id :: field_value
  fa_role :: forum_role

definition forum_admin_from_cache :: "server \<Rightarrow> (string \<rightharpoonup> string) \<Rightarrow> exn + forum_admin" where
  "forum_admin_from_cache sv h =
     bindE (entry_item sv h ''user_id'') (\<lambda>u.
     bindE (entry_item sv h ''forum_id'') (\<lambda>f.
     bindE (bindE (entry_item sv h ''role'') read_forum_role) (\<lambda>r.
       Inr \<lparr>fa_forum_id = FStr f, fa_user_id = FStr u, fa_role = r\<rparr>)))"

definition forum_admin_from_orm :: "orm_row \<Rightarrow> exn + forum_admin" where
  "forum_admin_from_orm r =
     (case col r ''role'' of
        FStr s \<Rightarrow> bindE (read_forum_role s) (\<lambda>role.
          Inr \<lparr>fa_forum_id = col r ''forum_id'', fa_user_id = col r ''user_id'', fa_role = role\<rparr>)
      | _ \<Rightarrow> Inl ValueError)"

definition forum_admin_repr :: "forum_admin \<Rightarrow> exn + (string \<times> string) list" where
  "forum_admin_repr fa =
     traverse (\<lambda>(n, v). bindE (encode_value v) (\<lambda>s. Inr (n, s)))
       [(''forum_id'', fa_forum_id fa), (''user_id'', fa_user_id fa), (''role'', FStr (forum_role_value (fa_role fa)))]"

definition get_forum :: "int \<Rightarrow> rs_db \<Rightarrow> exn + dto option" where
  "get_forum forum_id db =
     bindE (one_or_none (filter (\<lambda>r. sql_eq (col r ''id_'') (FInt forum_id)) (forums db))) (\<lambda>r.
       Inr (map_option (construct_from_orm ForumResult) r))"

definition get_forum_by_name :: "string \<Rightarrow> rs_db \<Rightarrow> exn + dto option" where
  "get_forum_by_name name db =
     bindE (one_or_none (filter (\<lambda>r. sql_eq (col r ''name_'') (FStr name)) (forums db))) (\<lambda>r.
       Inr (map_option (construct_from_orm ForumResult) r))"

definition is_admin_row :: "int \<Rightarrow> field_value \<Rightarrow> orm_row \<Rightarrow> bool" where
  "is_admin_row forum_id user_id r \<longleftrightarrow> sql_eq (col r ''forum_id'') (FInt forum_id) \<and> sql_eq (col r ''user_id'') user_id"

definition get_forum_admin :: "int \<Rightarrow> int \<Rightarrow> rs_db \<Rightarrow> exn + forum_admin option" where
  "get_forum_admin forum_id user_id db =
     bindE (one_or_none (filter (is_admin_row forum_id (FInt user_id)) (forum_admins db))) (\<lambda>r.
       case r of None \<Rightarrow> Inr None | Some row \<Rightarrow> bindE (forum_admin_from_orm row) (\<lambda>fa. Inr (Some fa)))"

definition has_id :: "int \<Rightarrow> orm_row list \<Rightarrow> bool" where
  "has_id i rows \<longleftrightarrow> list_ex (\<lambda>r. col r ''id_'' = FInt i) rows"

definition add_forum_admin :: "int \<Rightarrow> int \<Rightarrow> forum_role \<Rightarrow> (world, unit) py" where
  "add_forum_admin forum_id user_id role =
     commit_db (\<lambda>db.
       if list_ex (is_admin_row forum_id (FInt user_id)) (forum_admins db)
          \<or> \<not> has_id forum_id (forums db) \<or> \<not> has_id user_id (users db)
       then Inl IntegrityError
       else Inr (db\<lparr>forum_admins := forum_admins db @
              [[(''forum_id'', FInt forum_id), (''user_id'', FInt user_id), (''role'', FStr (forum_role_value role))]]\<rparr>))"

text \<open>
  The id of an admin that was read from the cache is a text.  Whether a text can stand for a
  number in a statement is up to the driver: psycopg, the one the packages depend on, sends it
  with a cast to \<^verbatim>\<open>BIGINT\<close>, others refuse it; \<open>coerces\<close> keeps both cases.
\<close>

definition text_for_number :: "bool \<Rightarrow> field_value \<Rightarrow> bool" where
  "text_for_number coerces v \<longleftrightarrow> (case v of FStr s \<Rightarrow> coerces \<and> int_of_str s \<noteq> None | _ \<Rightarrow> True)"

definition remove_forum_admin :: "bool \<Rightarrow> int \<Rightarrow> field_value \<Rightarrow> (world, unit) py" where
  "remove_forum_admin coerces forum_id admin_id =
     (if \<not> text_for_number coerces admin_id then raise OtherDatabaseError else
     commit_db (\<lambda>db. Inr (db\<lparr>forum_admins := filter (\<lambda>r. \<not> is_admin_row forum_id admin_id r) (forum_admins db)\<rparr>)))"

definition update_admin_role :: "int \<Rightarrow> int \<Rightarrow> forum_role \<Rightarrow> (world, unit) py" where
  "update_admin_role forum_id admin_id role =
     commit_db (\<lambda>db. Inr (db\<lparr>forum_admins :=
       update_rows (is_admin_row forum_id (FInt admin_id)) [(''role'', FStr (forum_role_value role))] (forum_admins db)\<rparr>))"

text \<open>
  The attributes of the mapped class; creating a forum names one it does not have, and so does
  changing its title.
\<close>

definition Forum_attributes :: "string list" where
  "Forum_attributes =
     [''id_'', ''name_'', ''anime'', ''description'', ''subscribers'', ''posts'', ''created_at'', ''admin_count'',
      ''deleted'', ''time_deleted'', ''deletion_author_event'']"

definition repo_create_forum :: "string \<Rightarrow> string \<Rightarrow> int \<Rightarrow> int \<Rightarrow> field_value \<Rightarrow> int \<Rightarrow> (world, dto) py" where
  "repo_create_forum name description parent_anime_id creator_id creation_time new_id =
     bindM (lift_sum (check_values Forum_attributes
              [(''name_'', FStr name), (''desscription'', FStr description), (''anime'', FInt parent_anime_id),
               (''created_at'', creation_time)])) (\<lambda>_.
       let row = [(''id_'', FInt new_id), (''name_'', FStr name), (''parent_anime'', FInt parent_anime_id),
                  (''description'', FStr description), (''subscribers'', FInt 0), (''posts'', FInt 0),
                  (''created_at'', creation_time), (''admin_count'', FInt 1)] in
       thenM (commit_db (\<lambda>db.
                if creation_time = FNone \<or> has_id new_id (forums db) \<or> \<not> has_id creator_id (users db)
                   \<or> list_ex (\<lambda>r. col r ''name_'' = FStr name) (forums db)
                then Inl IntegrityError
                else Inr (db\<lparr>forums := forums db @ [row],
                       forum_admins := forum_admins db @
                         [[(''forum_id'', FInt new_id), (''user_id'', FInt creator_id), (''role'', FStr ''OWNER'')]]\<rparr>)))
         (pure (construct_from_orm ForumResult row)))"

definition forum_update_clauses :: "string option \<Rightarrow> string option \<Rightarrow> (string \<times> field_value) list" where
  "forum_update_clauses title description =
     (case title of Some t \<Rightarrow> if t \<noteq> [] then [(''title'', FStr t)] else [] | None \<Rightarrow> [])
     @ (case description of Some d \<Rightarrow> if d \<noteq> [] then [(''description'', FStr d)] else [] | None \<Rightarrow> [])"

definition update_forum :: "int \<Rightarrow> string option \<Rightarrow> string option \<Rightarrow> (world, dto) py" where
  "update_forum forum_id title description =
     (let kw = forum_update_clauses title description in
      if kw = [] then raise ValueError
      else bindM (lift_sum (check_values Forum_attributes kw)) (\<lambda>_.
           bindM (on_db (\<lambda>db. exactly_one (filter (\<lambda>r. sql_eq (col r ''id_'') (FInt forum_id)) (forums db)))) (\<lambda>row.
           thenM (commit_db (\<lambda>db. Inr (db\<lparr>forums :=
                    update_rows (\<lambda>r. sql_eq (col r ''id_'') (FInt forum_id)) kw (forums db)\<rparr>)))
             (pure (construct_from_orm ForumResult (set_columns kw row))))))"

definition check_subscription :: "int \<Rightarrow> int \<Rightarrow> rs_db \<Rightarrow> exn + bool" where
  "check_subscription forum_id user_id db =
     bindE (one_or_none (filter (\<lambda>r. sql_eq (col r ''user_id'') (FInt user_id) \<and> sql_eq (col r ''forum_id'') (FInt forum_id))
              (forum_subscriptions db))) (\<lambda>r. Inr (r \<noteq> None))"

definition get_user :: "int \<Rightarrow> rs_db \<Rightarrow> exn + dto option" where
  "get_user user_id db =
     bindE (one_or_none (filter (\<lambda>r. sql_eq (col r ''id_'') (FInt user_id) \<and> col r ''deleted'' = FBool False) (users db))) (\<lambda>r.
       Inr (map_option (construct_from_orm UserResult) r))"

section \<open>Routes\<close>

definition load_forum :: "server \<Rightarrow> int \<Rightarrow> (world, dto option) py" where
  "load_forum sv forum_id =
     load sv (derive_cache_key ''forums'' (str_of_int forum_id)) (on_db (get_forum forum_id)) ForumResult
       (from_cache sv ForumResult)"

definition admin_cache_key :: "string \<Rightarrow> string \<Rightarrow> string" where
  "admin_cache_key forum_id user_id = derive_cache_key ''forum_admins'' (join NAME_SEPERATOR [forum_id, user_id])"

definition load_forum_admin :: "server \<Rightarrow> int \<Rightarrow> int \<Rightarrow> (world, forum_admin option) py" where
  "load_forum_admin sv forum_id user_id =
     distributed_get_or_load (sv_cache sv) (admin_cache_key (str_of_int forum_id) (str_of_int user_id)) []
       (on_db (get_forum_admin forum_id user_id)) forum_admin_repr (forum_admin_from_cache sv)"

text \<open>
  The refusals read the forum's name for their message, and so raise an \<open>AttributeError\<close> when
  it is unset.
\<close>

definition get_forum_route :: "server \<Rightarrow> int \<Rightarrow> (world, response) py" where
  "get_forum_route sv forum_id =
     bindM (load_forum sv forum_id) (\<lambda>r.
     bindM (require 404 r) (\<lambda>forum.
     bindM (lift_sum (result_json_repr ForumResult forum)) (\<lambda>json.
       JSONResponse [(''forum'', JObj json)] 200)))"

definition require_forum_admin :: "server \<Rightarrow> int \<Rightarrow> dto \<Rightarrow> claims \<Rightarrow> (world, forum_admin) py" where
  "require_forum_admin sv forum_id forum token =
     bindM (load_forum_admin sv forum_id (sid token)) (\<lambda>r.
       case r of
         None \<Rightarrow> thenM (attr forum ''name_'') (raise (HTTPException 403))
       | Some fa \<Rightarrow> pure fa)"

text \<open>The user to be added is looked up under the key of the forum.\<close>

definition add_admin :: "server \<Rightarrow> int \<Rightarrow> claims \<Rightarrow> int \<Rightarrow> forum_role \<Rightarrow> string \<Rightarrow> (world, response) py" where
  "add_admin sv forum_id token user_id role now =
     bindM (load_forum sv forum_id) (\<lambda>r.
     bindM (require 404 r) (\<lambda>forum.
     bindM (require_forum_admin sv forum_id forum token) (\<lambda>forum_admin.
     thenM (refuse_if (\<not> check_permission (fa_role forum_admin) (if role = ADMIN then ADD_ADMIN else ADD_SUPER)) 403)
     (bindM (load_forum_admin sv forum_id user_id) (\<lambda>existing_admin.
      thenM (refuse_if (existing_admin \<noteq> None) 409)
      (bindM (load sv (derive_cache_key ''forums'' (str_of_int forum_id)) (on_db (get_user user_id)) UserResult
                (from_cache sv UserResult)) (\<lambda>user.
       thenM (refuse_if (user = None) 404)
       (thenM (add_forum_admin forum_id user_id role)
        (JSONResponse [(''message'', JText ''Admin added''), (''role'', JText (forum_role_value role)),
                       (''time_added'', JText now)] 201)))))))))"

definition remove_admin :: "bool \<Rightarrow> server \<Rightarrow> int \<Rightarrow> claims \<Rightarrow> int \<Rightarrow> string \<Rightarrow> (world, response) py" where
  "remove_admin coerces sv forum_id token user_id now =
     bindM (load_forum sv forum_id) (\<lambda>r.
     bindM (require 404 r) (\<lambda>forum.
     bindM (require_forum_admin sv forum_id forum token) (\<lambda>forum_admin.
     bindM (load_forum_admin sv forum_id user_id) (\<lambda>e.
     bindM (require 404 e) (\<lambda>existing_admin.
     thenM (refuse_if (fa_role existing_admin = OWNER) 403)
     (thenM (refuse_if (\<not> check_permission (fa_role forum_admin)
               (if fa_role existing_admin = ADMIN then REMOVE_ADMIN else REMOVE_SUPER)) 403)
      (thenM (remove_forum_admin coerces forum_id (fa_user_id existing_admin))
       (JSONResponse [(''message'', JText ''Admin removed''), (''role'', JText (forum_role_value (fa_role existing_admin))),
                      (''time_removed'', JText now)] 200))))))))"

definition edit_admin_permissions :: "server \<Rightarrow> int \<Rightarrow> claims \<Rightarrow> int \<Rightarrow> forum_role \<Rightarrow> (world, response) py" where
  "edit_admin_permissions sv forum_id token user_id role =
     bindM (load_forum sv forum_id) (\<lambda>r.
     bindM (require 404 r) (\<lambda>forum.
     bindM (require_forum_admin sv forum_id forum token) (\<lambda>forum_admin.
     bindM (load_forum_admin sv forum_id user_id) (\<lambda>e.
     bindM (require 404 e) (\<lambda>existing_admin.
     thenM (refuse_if (fa_role existing_admin = OWNER) 403)
     (thenM (refuse_if (role = fa_role existing_admin) 409)
      (thenM (refuse_if (fa_role existing_admin = fa_role forum_admin) 403)
       (thenM (refuse_if (\<not> check_permission (fa_role forum_admin)
                 (if role = ADMIN then DEMOTE_TO_ADMIN else PROMOTE_TO_SUPER)) 403)
        (thenM (update_admin_role forum_id user_id role)
         (JSONResponse [(''message'', JText ''Updated role''),
                        (''previous_role'', JText (forum_role_value (fa_role existing_admin))),
                        (''new_role'', JText (forum_role_value role))] 200))))))))))"

text \<open>The role \<open>staff\<close> the route refuses is not a role, so that every admin may edit.\<close>

definition edit_forum :: "server \<Rightarrow> int \<Rightarrow> claims \<Rightarrow> string option \<Rightarrow> string option \<Rightarrow> (world, response) py" where
  "edit_forum sv forum_id token title description =
     bindM (load_forum sv forum_id) (\<lambda>r.
     bindM (require 404 r) (\<lambda>forum.
     bindM (load_forum_admin sv forum_id (sid token)) (\<lambda>a.
     bindM (require 403 a) (\<lambda>admin_role.
     thenM (refuse_if (forum_role_value (fa_role admin_role) = ''staff'') 403)
     (bindM (update_forum forum_id title description) (\<lambda>updated_forum.
      bindM (lift_sum (result_json_repr ForumResult updated_forum)) (\<lambda>json.
        JSONResponse [(''message'', JText ''Forum edited succesfully''), (''forum'', JObj json)] 200)))))))"

text \<open>The time of a new forum is not given.\<close>

definition create_forum :: "server \<Rightarrow> claims \<Rightarrow> string \<Rightarrow> string \<Rightarrow> int \<Rightarrow> int \<Rightarrow> (world, response) py" where
  "create_forum sv token title description parent_anime_id new_id =
     bindM (load_parent_anime sv parent_anime_id) (\<lambda>a.
     bindM (require 404 a) (\<lambda>anime.
     bindM (on_db (get_forum_by_name title)) (\<lambda>existing_forum.
     case existing_forum of
       Some f \<Rightarrow> bindM (lift_sum (result_json_repr ForumResult f)) (\<lambda>_. raise (HTTPException 409))
     | None \<Rightarrow>
         bindM (repo_create_forum title description parent_anime_id (sid token) FNone new_id) (\<lambda>created_forum.
         bindM (attr created_forum ''id_'') (\<lambda>fid.
         bindM (attr created_forum ''anime'') (\<lambda>aid.
         bindM (lift_sum (result_cache_repr ForumResult created_forum)) (\<lambda>fm.
         bindM (lift_sum (anime_cache_repr anime)) (\<lambda>am.
         thenM (batch_hset_with_ttl (sv_cache sv)
                  [derive_cache_key ''forums'' (str_of_value fid), derive_cache_key ''animes'' (str_of_value aid)]
                  [fm, am] (TTL_STRONG (sv_cache sv)))
         (bindM (lift_sum (result_json_repr ForumResult created_forum)) (\<lambda>json.
            JSONResponse [(''message'', JText ''Forum created''), (''forum'', JObj json)] 201)))))))))) "

definition delete_forum :: "server \<Rightarrow> int \<Rightarrow> claims \<Rightarrow> string \<Rightarrow> (world, response) py" where
  "delete_forum sv forum_id token request_time =
     bindM (load_forum sv forum_id) (\<lambda>r.
     bindM (require 404 r) (\<lambda>forum.
     bindM (on_db (sv_forum_owner sv forum_id)) (\<lambda>forum_owner.
     bindM (attr forum_owner ''id_'') (\<lambda>owner_id.
     thenM (refuse_if (owner_id \<noteq> FInt (sid token)) 403)
     (thenM (guard_action (sv_cache sv) (str_of_int (sid token)) (str_of_int forum_id) ''forums'' DELETE
               (Some RESOURCE_DELETION_PENDING_FLAG)
               (\<lambda>_. emit sv FORUMS (user_event FORUM_DELETE [(''forum_id'', PInt forum_id)] [] [])))
      (bindM (attr forum ''name_'') (\<lambda>_.
       bindM (lift_sum (result_json_repr ForumResult forum)) (\<lambda>json.
         JSONResponse [(''request_time'', JText request_time), (''forum'', JObj json)] 202))))))))"

definition load_forum_owner :: "server \<Rightarrow> int \<Rightarrow> (world, dto option) py" where
  "load_forum_owner sv forum_id =
     load sv (derive_cache_key (join NAME_SEPERATOR [''forums'', ''owner'']) (str_of_int forum_id))
       (on_db (\<lambda>db. bindE (sv_forum_owner sv forum_id db) (\<lambda>u. Inr (Some u)))) UserResult (from_cache sv UserResult)"

definition subscription_event ::
  "event_name \<Rightarrow> action \<Rightarrow> intent_flag \<Rightarrow> int \<Rightarrow> int \<Rightarrow> int \<Rightarrow> string \<Rightarrow> string \<Rightarrow> string \<Rightarrow> event" where
  "subscription_event name act flag d forum_id user_id owner_id uuid now =
     user_event name
       [(''user_id'', PInt user_id), (''forum_id'', PInt forum_id), (''time_subscribed'', PDatetime now)]
       [counter (derive_hashmap_name ''forums'' ''subscriptions'') (derive_cache_key ''forums'' (str_of_int forum_id))
          ''subscribers'' d,
        counter (derive_hashmap_name ''users'' ''aura'') (derive_cache_key ''users'' owner_id) ''aura'' d]
       [\<lparr>intent_name = create_intent_flag ''forums'' (action_value act) (str_of_int user_id) (str_of_int forum_id),
         update_flag = flag, intent_id = uuid\<rparr>]"

definition subscribe_forum :: "server \<Rightarrow> int \<Rightarrow> claims \<Rightarrow> string \<Rightarrow> string \<Rightarrow> (world, response) py" where
  "subscribe_forum sv forum_id token uuid now =
     bindM (load_forum sv forum_id) (\<lambda>r.
     bindM (require 404 r) (\<lambda>forum.
     bindM (attr forum ''name_'') (\<lambda>_.
     thenM (guard_action (sv_cache sv) (str_of_int (sid token)) (str_of_int forum_id) ''forums'' SUB
              (Some RESOURCE_CREATION_PENDING_FLAG) (\<lambda>latest_intent.
        thenM (if no_intent latest_intent
               then bindM (on_db (check_subscription forum_id (sid token))) (\<lambda>subscribed.
                      if subscribed
                      then thenM (set_intent (sv_cache sv) uuid (str_of_int (sid token)) (str_of_int forum_id) ''forums''
                                    SUB RESOURCE_CREATION_PENDING_FLAG None) (raise (HTTPException 409))
                      else pure ())
               else pure ())
        (bindM (load_forum_owner sv forum_id) (\<lambda>ow.
         bindM (require 500 ow) (\<lambda>forum_owner.
         bindM (attr forum_owner ''id_'') (\<lambda>owner_id.
           emit sv FORUMS (subscription_event FORUM_SUB SUB RESOURCE_CREATION_PENDING_FLAG 1 forum_id (sid token)
             (str_of_value owner_id) uuid now)))))))
     (JSONResponse [(''message'', JText ''Forum subscribed!'')] 202))))"

definition unsubscribe_forum :: "server \<Rightarrow> int \<Rightarrow> claims \<Rightarrow> string \<Rightarrow> string \<Rightarrow> (world, response) py" where
  "unsubscribe_forum sv forum_id token uuid now =
     bindM (load_forum sv forum_id) (\<lambda>r.
     bindM (require 404 r) (\<lambda>forum.
     bindM (attr forum ''name_'') (\<lambda>_.
     thenM (guard_action (sv_cache sv) (str_of_int (sid token)) (str_of_int forum_id) ''forums'' SUB
              (Some RESOURCE_DELETION_PENDING_FLAG) (\<lambda>latest_intent.
        thenM (if no_intent latest_intent
               then bindM (on_db (check_subscription forum_id (sid token))) (\<lambda>subscribed.
                      if \<not> subscribed
                      then thenM (set_intent (sv_cache sv) uuid (str_of_int (sid token)) (str_of_int forum_id) ''forums''
                                    UNSUB RESOURCE_DELETION_PENDING_FLAG None) (raise (HTTPException 409))
                      else pure ())
               else pure ())
        (bindM (load_forum_owner sv forum_id) (\<lambda>ow.
         bindM (require 500 ow) (\<lambda>forum_owner.
         bindM (attr forum_owner ''id_'') (\<lambda>owner_id.
           emit sv FORUMS (subscription_event FORUM_UNSUB UNSUB RESOURCE_DELETION_PENDING_FLAG (- 1) forum_id (sid token)
             (str_of_value owner_id) uuid now)))))))
     (JSONResponse [(''message'', JText ''Forum unsubscribed!'')] 202))))"

section \<open>The admins of a forum\<close>

text \<open>
  A page of admins: those just loaded are users with a role, those from the cache are read as
  plain admins, from entries kept as JSON.  The cursor is of the attribute only these have.
\<close>

record forum_admin_user =
  au_fields :: dto
  au_role :: forum_role

definition forum_admin_user_from_orm :: "server \<Rightarrow> orm_row \<Rightarrow> field_value \<Rightarrow> exn + forum_admin_user" where
  "forum_admin_user_from_orm sv user role =
     bindE (super_call sv (construct_from_orm UserResult user)) (\<lambda>d.
     bindE (case role of FStr s \<Rightarrow> read_forum_role s | _ \<Rightarrow> Inl ValueError) (\<lambda>r. Inr \<lparr>au_fields = d, au_role = r\<rparr>))"

definition forum_admin_user_from_cache :: "server \<Rightarrow> (string \<rightharpoonup> string) \<Rightarrow> exn + forum_admin_user" where
  "forum_admin_user_from_cache sv h =
     bindE (super_call sv (construct_from_cache UserResult (cm_decode (sv_cache sv)) h)) (\<lambda>d.
     bindE (bindE (entry_item sv h ''role'') read_forum_role) (\<lambda>r. Inr \<lparr>au_fields = d, au_role = r\<rparr>))"

definition forum_admin_user_repr :: "forum_admin_user \<Rightarrow> exn + (string \<times> string) list" where
  "forum_admin_user_repr a =
     bindE (result_cache_repr UserResult (au_fields a)) (\<lambda>h. Inr (h @ [(''role'', forum_role_value (au_role a))]))"

definition get_forum_admin_users :: "server \<Rightarrow> int \<Rightarrow> int \<Rightarrow> nat option \<Rightarrow> rs_db \<Rightarrow> exn + forum_admin_user list" where
  "get_forum_admin_users sv forum_id cursor limit db =
     (let rows = concat (map (\<lambda>r. map (\<lambda>u. (u, r)) (filter (\<lambda>u. sql_eq (col r ''user_id'') (col u ''id_'') \<and> id_after cursor u) (users db)))
                   (filter (\<lambda>r. sql_eq (col r ''forum_id'') (FInt forum_id)) (forum_admins db))) in
      traverse (\<lambda>(u, r). forum_admin_user_from_orm sv u (col r ''role''))
        (case limit of None \<Rightarrow> rows | Some n \<Rightarrow> take n rows))"

definition keyed_admins :: "forum_admin_user list \<Rightarrow> exn + (string \<times> forum_admin_user) list" where
  "keyed_admins as =
     traverse (\<lambda>a. case au_fields a ''id_'' of None \<Rightarrow> Inl AttributeError | Some v \<Rightarrow> Inr (str_of_value v, a)) as"

record cached_admin =
  ca_forum_id :: pyval
  ca_user_id :: pyval
  ca_role :: forum_role

definition cached_admin_from_json :: "pyval \<Rightarrow> exn + cached_admin" where
  "cached_admin_from_json e =
     (case e of
        PDict kvs \<Rightarrow>
          bindE (py_lookup (dict_get kvs) ''user_id'') (\<lambda>u.
          bindE (py_lookup (dict_get kvs) ''forum_id'') (\<lambda>f.
          bindE (py_lookup (dict_get kvs) ''role'') (\<lambda>v.
          bindE (case v of PStr s \<Rightarrow> read_forum_role s | _ \<Rightarrow> Inl ValueError) (\<lambda>r.
            Inr \<lparr>ca_forum_id = f, ca_user_id = u, ca_role = r\<rparr>))))
      | _ \<Rightarrow> Inl TypeError)"

definition admin_member_json :: "(forum_admin_user + cached_admin) option \<Rightarrow> exn + (string \<times> field_value) list" where
  "admin_member_json x =
     (case x of
        None \<Rightarrow> Inl AttributeError
      | Some (Inl a) \<Rightarrow>
          bindE (result_json_repr UserResult (au_fields a)) (\<lambda>j. Inr (j @ [(''role'', FStr (forum_role_value (au_role a)))]))
      | Some (Inr a) \<Rightarrow>
          bindE (json_value (ca_forum_id a)) (\<lambda>f. bindE (json_value (ca_user_id a)) (\<lambda>u.
            Inr [(''forum_id'', f), (''user_id'', u), (''role'', FStr (forum_role_value (ca_role a)))])))"

definition admins_cursor :: "server \<Rightarrow> (forum_admin_user + cached_admin) option \<Rightarrow> exn + string" where
  "admins_cursor sv x =
     (case x of
        Some (Inr a) \<Rightarrow> (case ca_user_id a of PInt n \<Rightarrow> to_base64url n (PAGINATION_CURSOR_LENGTH sv) | _ \<Rightarrow> Inl AttributeError)
      | _ \<Rightarrow> Inl AttributeError)"

definition forum_admins_route :: "server \<Rightarrow> int \<Rightarrow> (world, response) py" where
  "forum_admins_route sv forum_id =
     bindM (derive_pagination_key (sv_cache sv) (join '':'' [''forum_admins'', str_of_int forum_id]) 0 []) (\<lambda>key.
     bindM (string_page (sv_cache sv) (sv_loads sv) key
              (on_db (\<lambda>db. bindE (get_forum_admin_users sv forum_id 0 None db) (\<lambda>as.
                 bindE (keyed_admins as) (\<lambda>ks. Inr (map (\<lambda>(k, a). (k, Inl a)) ks)))))
              (case_sum forum_admin_user_repr (\<lambda>_. Inl AttributeError))
              (\<lambda>e. bindE (cached_admin_from_json e) (\<lambda>a. Inr (Inr a)))) (\<lambda>(xs, next).
     bindM (if next \<noteq> CURSOR_UNDERIVABLE_SENTINEL then pure next
            else if xs = [] then raise IndexError
            else lift_sum (admins_cursor sv (last xs))) (\<lambda>next_cursor.
     bindM (lift_sum (traverse admin_member_json xs)) (\<lambda>js.
       JSONResponse [(''admins'', JObjs js), (''cursor'', JText next_cursor)] 200))))"

section \<open>Who owns a forum\<close>

definition owners :: "rs_db \<Rightarrow> (int \<times> int) set" where
  "owners db = {(f, u). \<exists>r \<in> set (forum_admins db).
     col r ''forum_id'' = FInt f \<and> col r ''user_id'' = FInt u \<and> col r ''role'' = FStr ''OWNER''}"

text \<open>
  What a cached entry may say of an admin: the user it is kept for, and of an owner nothing but
  that.  The first version of the role stays in the cache when it is changed, but since nobody
  becomes an owner, an owner is never taken for less.
\<close>

definition admin_entry_ok :: "(int \<times> int) set \<Rightarrow> string \<Rightarrow> (string \<rightharpoonup> string) \<Rightarrow> bool" where
  "admin_entry_ok os k h \<longleftrightarrow>
     (\<forall>f u. k = admin_cache_key (str_of_int f) (str_of_int u) \<longrightarrow>
        h ''user_id'' \<in> {None, Some (str_of_int u)} \<and> ((f, u) \<in> os \<longrightarrow> h ''role'' \<in> {None, Some ''OWNER''}))"

definition owner_inv :: "(int \<times> int) set \<Rightarrow> world \<Rightarrow> bool" where
  "owner_inv os w \<longleftrightarrow> owners (w_db w) = os \<and>
     (\<forall>k h t. w_store w k = Some (VHash h, t) \<longrightarrow> admin_entry_ok os k h)"

fun owner_safe :: "(int \<times> int) set \<Rightarrow> rcmd \<Rightarrow> bool" where
  "owner_safe os (R_HSET k m) \<longleftrightarrow> admin_entry_ok os k (map_of (rev m))"
| "owner_safe os (R_GET k) \<longleftrightarrow> True"
| "owner_safe os (R_SET k v nx ex) \<longleftrightarrow> True"
| "owner_safe os (R_DEL k) \<longleftrightarrow> True"
| "owner_safe os (R_TTL k) \<longleftrightarrow> True"
| "owner_safe os (R_EXPIRE k t) \<longleftrightarrow> True"
| "owner_safe os (R_HGET k f) \<longleftrightarrow> True"
| "owner_safe os (R_HGETALL k) \<longleftrightarrow> True"
| "owner_safe os _ \<longleftrightarrow> False"

definition entries_ok :: "(int \<times> int) set \<Rightarrow> rstore \<Rightarrow> bool" where
  "entries_ok os st \<longleftrightarrow> (\<forall>k h t. st k = Some (VHash h, t) \<longrightarrow> admin_entry_ok os k h)"

lemma admin_entry_merge:
  "admin_entry_ok os k h \<Longrightarrow> admin_entry_ok os k g \<Longrightarrow> admin_entry_ok os k (h ++ g)"
  by (auto simp: admin_entry_ok_def map_add_def split: option.splits)

lemma admin_entry_empty [simp]: "admin_entry_ok os k Map.empty"
  by (simp add: admin_entry_ok_def)

lemma entries_ok_update:
  "entries_ok os st \<Longrightarrow> (\<forall>h t. v = Some (VHash h, t) \<longrightarrow> admin_entry_ok os k h) \<Longrightarrow> entries_ok os (st(k := v))"
  by (auto simp: entries_ok_def)

lemma entries_ok_hash_at: "entries_ok os st \<Longrightarrow> hash_at st k = Some h \<Longrightarrow> admin_entry_ok os k h"
  by (auto simp: entries_ok_def hash_at_def split: option.splits prod.splits rvalue.splits)

lemma entries_ok_run_cmd:
  assumes "entries_ok os st" and "owner_safe os c" and "run_cmd c st = Some (r, st')"
  shows "entries_ok os st'"
proof (cases c)
  case (R_HSET k m)
  with assms(3) obtain h where "hash_at st k = Some h" "st' = st(k \<mapsto> (VHash (h ++ map_of (rev m)), ttl_at st k))"
    by (auto split: if_splits option.splits)
  moreover have "admin_entry_ok os k (h ++ map_of (rev m))" if "hash_at st k = Some h" for h
    using admin_entry_merge [OF entries_ok_hash_at [OF assms(1) that]] assms(2) R_HSET by simp
  ultimately show ?thesis using assms(1) by (auto intro!: entries_ok_update)
next
  case (R_EXPIRE k t)
  with assms show ?thesis
    by (auto split: option.splits if_splits intro!: entries_ok_update simp: entries_ok_def)
next
  case (R_SET k v nx ex)
  with assms show ?thesis
    by (auto split: if_splits option.splits intro!: entries_ok_update)
qed (use assms in \<open>auto split: option.splits rvalue.splits prod.splits intro!: entries_ok_update\<close>)

lemma entries_ok_run_cmds:
  "entries_ok os st \<Longrightarrow> \<forall>c \<in> set cs. owner_safe os c \<Longrightarrow> run_cmds cs st = Some (rs, st') \<Longrightarrow> entries_ok os st'"
  by (induction cs arbitrary: st rs) (auto split: option.splits prod.splits intro: entries_ok_run_cmd)

lemma owner_inv_exec:
  "owner_inv os w \<Longrightarrow> \<forall>c \<in> set cs. owner_safe os c \<Longrightarrow> owner_inv os (snd (world_redis tx cs w))"
  using entries_ok_run_cmds [of os "w_store w" cs]
  by (auto simp: owner_inv_def world_redis_def store_redis_def entries_ok_def split: option.splits)

lemma owner_inv_reads:
  "owner_inv os w \<Longrightarrow> fst (world_redis tx (R_HGETALL k # cs) w) = Inr (RMap h # rs) \<Longrightarrow> admin_entry_ok os k h"
  using entries_ok_hash_at [of os "w_store w" k]
  by (auto simp: owner_inv_def world_redis_def store_redis_def entries_ok_def split: option.splits prod.splits)

interpretation owner_cache: trusted_cache "on_world_redis cm" "owner_inv os" "owner_safe os" "admin_entry_ok os"
  for cm os
proof unfold_locales
  show "owner_safe os (R_HSET k (cm_NF_MAPPING (on_world_redis cm)))" for k
    by (simp add: cm_NF_MAPPING_def on_world_redis_def admin_entry_ok_def)
qed (auto simp: on_world_redis_def owner_inv_exec intro: owner_inv_reads)

lemma admin_cache_key_neq [simp]: "derive_cache_key ''forums'' x \<noteq> admin_cache_key f u"
  by (simp add: admin_cache_key_def derive_cache_key_def NAME_SEPERATOR_def)

lemma admin_cache_key_inj:
  "admin_cache_key (str_of_int f) (str_of_int u) = admin_cache_key (str_of_int f') (str_of_int u') \<longleftrightarrow> f = f' \<and> u = u'"
proof -
  have "admin_cache_key (str_of_int f) (str_of_int u) = join [CHR '':''] [''forum_admins'', str_of_int f, str_of_int u]" for f u
    by (simp add: admin_cache_key_def derive_cache_key_def NAME_SEPERATOR_def)
  then show ?thesis
    using join_inj [of "CHR '':''" "[''forum_admins'', str_of_int f, str_of_int u]" "[''forum_admins'', str_of_int f', str_of_int u']"]
    by (auto simp: str_of_int_inj)
qed

lemma sure_load_forum:
  assumes "sv_cache sv = on_world_redis cm"
  shows "sure (owner_inv os) (load_forum sv forum_id) (\<lambda>_. True)"
  unfolding load_forum_def load_def assms
  by (rule sure_weaken [OF owner_cache.sure_get_or_load [where Q = "\<lambda>_. True"]])
    (auto intro!: sure_on_db simp: admin_entry_ok_def)

definition knows_owner :: "(int \<times> int) set \<Rightarrow> int \<Rightarrow> int \<Rightarrow> forum_admin \<Rightarrow> bool" where
  "knows_owner os f u fa \<longleftrightarrow> ((f, u) \<in> os \<longrightarrow> fa_role fa = OWNER) \<and> fa_user_id fa \<in> {FInt u, FStr (str_of_int u)}"

lemma sql_eq_FInt [simp]: "sql_eq v (FInt n) \<longleftrightarrow> v = FInt n"
  by (cases v) auto

lemma read_forum_role_value [simp]: "read_forum_role (forum_role_value r) = Inr r"
  by (cases r) (simp_all add: read_forum_role_def)

lemma get_forum_admin_knows:
  assumes "get_forum_admin f u db = Inr (Some fa)"
  shows "knows_owner (owners db) f u fa"
proof -
  from assms obtain r where one: "one_or_none (filter (is_admin_row f (FInt u)) (forum_admins db)) = Inr (Some r)"
    and fa: "forum_admin_from_orm r = Inr fa"
    by (auto simp: get_forum_admin_def bindE_eq_Inr_iff split: option.splits)
  from one have rows: "filter (is_admin_row f (FInt u)) (forum_admins db) = [r]"
    by (cases "filter (is_admin_row f (FInt u)) (forum_admins db)" rule: one_or_none.cases) auto
  have r: "is_admin_row f (FInt u) r"
    using rows by (metis filter_eq_Cons_iff)
  have "fa_role fa = OWNER" if o: "(f, u) \<in> owners db"
  proof -
    from o obtain r' where r': "r' \<in> set (forum_admins db)" "col r' ''forum_id'' = FInt f" "col r' ''user_id'' = FInt u"
        "col r' ''role'' = FStr ''OWNER''"
      by (auto simp: owners_def)
    then have "r' \<in> set (filter (is_admin_row f (FInt u)) (forum_admins db))" by (simp add: is_admin_row_def)
    with rows have "r' = r" by simp
    with r' fa show ?thesis by (auto simp: forum_admin_from_orm_def bindE_eq_Inr_iff read_forum_role_def)
  qed
  moreover have "fa_user_id fa = FInt u"
    using fa r by (auto simp: forum_admin_from_orm_def bindE_eq_Inr_iff is_admin_row_def split: field_value.splits)
  ultimately show ?thesis by (simp add: knows_owner_def)
qed

lemma entry_knows:
  assumes "admin_entry_ok os (admin_cache_key (str_of_int f) (str_of_int u)) h" and "forum_admin_from_cache sv h = Inr fa"
  shows "knows_owner os f u fa"
  using assms
  by (auto simp: admin_entry_ok_def forum_admin_from_cache_def entry_item_def knows_owner_def bindE_eq_Inr_iff
      read_forum_role_def split: option.splits if_splits)

lemma repr_ok:
  assumes "knows_owner os f u fa" and "forum_admin_repr fa = Inr m"
  shows "admin_entry_ok os (admin_cache_key (str_of_int f) (str_of_int u)) (map_of (rev m))"
  using assms
  by (auto simp: admin_entry_ok_def admin_cache_key_inj forum_admin_repr_def knows_owner_def bindE_eq_Inr_iff)

lemma sure_load_forum_admin:
  assumes "sv_cache sv = on_world_redis cm"
  shows "sure (owner_inv os) (load_forum_admin sv f u) (\<lambda>r. \<forall>fa. r = Some fa \<longrightarrow> knows_owner os f u fa)"
  unfolding load_forum_admin_def assms
proof (rule owner_cache.sure_get_or_load)
  show "sure (owner_inv os) (on_db (get_forum_admin f u))
     (\<lambda>r. \<forall>d. r = Some d \<longrightarrow> (\<forall>m. forum_admin_repr d = Inr m \<longrightarrow> knows_owner os f u d \<and>
           owner_safe os (R_HSET (admin_cache_key (str_of_int f) (str_of_int u)) m)))"
    by (rule sure_on_db) (auto simp: owner_inv_def dest: get_forum_admin_knows intro: repr_ok)
qed (rule entry_knows)

lemma sure_require_forum_admin:
  "sv_cache sv = on_world_redis cm \<Longrightarrow> sure (owner_inv os) (require_forum_admin sv f forum token) (\<lambda>_. True)"
  unfolding require_forum_admin_def
  by (rule sure_bindM [OF sure_load_forum_admin])
    (auto intro!: sure_rules sure_thenM [OF sure_attr] split: option.split)

lemma owner_inv_db: "owner_inv os w \<Longrightarrow> owners db = os \<Longrightarrow> owner_inv os (w\<lparr>w_db := db\<rparr>)"
  by (simp add: owner_inv_def)

lemma sure_add_forum_admin:
  "role \<noteq> OWNER \<Longrightarrow> sure (owner_inv os) (add_forum_admin f u role) (\<lambda>_. True)"
  unfolding add_forum_admin_def
proof (rule sure_commit_db)
  fix w db
  assume "role \<noteq> OWNER" and "owner_inv os w"
    and "(if list_ex (is_admin_row f (FInt u)) (forum_admins (w_db w)) \<or> \<not> has_id f (forums (w_db w)) \<or> \<not> has_id u (users (w_db w))
          then Inl IntegrityError
          else Inr ((w_db w)\<lparr>forum_admins := forum_admins (w_db w) @
              [[(''forum_id'', FInt f), (''user_id'', FInt u), (''role'', FStr (forum_role_value role))]]\<rparr>)) = Inr db"
  then show "owner_inv os (w\<lparr>w_db := db\<rparr>)"
    by (cases role) (auto simp: owner_inv_def owners_def col_def split: if_splits)
qed

lemma sure_remove_forum_admin:
  assumes "(f, u) \<notin> os" and "v \<in> {FInt u, FStr (str_of_int u)}"
  shows "sure (owner_inv os) (remove_forum_admin coerces f v) (\<lambda>_. True)"
proof -
  have "is_admin_row f v r \<longleftrightarrow> is_admin_row f (FInt u) r" if "col r ''user_id'' = FInt u'" for r u'
    using assms(2) that by (auto simp: is_admin_row_def int_of_str_of_int)
  then have "owners (db\<lparr>forum_admins := filter (\<lambda>r. \<not> is_admin_row f v r) (forum_admins db)\<rparr>) = owners db - {(f, u)}" for db
    by (auto simp: owners_def is_admin_row_def) blast+
  with assms(1) show ?thesis
    unfolding remove_forum_admin_def
    by (auto intro!: sure_rules sure_commit_db simp: owner_inv_def)
qed

lemma col_set_columns: "map_of kw c = Some v \<Longrightarrow> map_of r c \<noteq> None \<Longrightarrow> col (set_columns kw r) c = v"
  by (induction r) (auto simp: col_def set_columns_def split: option.splits if_splits)

lemma col_set_columns_other: "map_of kw c = None \<Longrightarrow> col (set_columns kw r) c = col r c"
  by (induction r) (auto simp: col_def set_columns_def split: option.splits if_splits)

lemma col_set_role: "col (set_columns [(''role'', v)] r) ''role'' = v \<or> col (set_columns [(''role'', v)] r) ''role'' = FNone"
  by (cases "map_of r ''role''") (simp_all add: col_set_columns, induction r, auto simp: col_def set_columns_def)

lemma sure_update_admin_role:
  assumes "(f, u) \<notin> os" and "role \<noteq> OWNER"
  shows "sure (owner_inv os) (update_admin_role f u role) (\<lambda>_. True)"
proof -
  have "owners (db\<lparr>forum_admins := update_rows (is_admin_row f (FInt u))
      [(''role'', FStr (forum_role_value role))] (forum_admins db)\<rparr>) = owners db" if "(f, u) \<notin> owners db" for db
  proof -
    let ?set = "set_columns [(''role'', FStr (forum_role_value role))]"
    have role: "col (?set r) ''role'' \<noteq> FStr ''OWNER''" for r
      using col_set_role [of "FStr (forum_role_value role)" r] assms(2) by (cases role) auto
    have "is_admin_row f (FInt u) r \<Longrightarrow> r \<in> set (forum_admins db) \<Longrightarrow> col r ''role'' \<noteq> FStr ''OWNER''" for r
      using that by (auto simp: owners_def is_admin_row_def)
    with role show ?thesis
      by (auto simp: owners_def update_rows_def image_iff split: if_splits)
  qed
  with assms(1) show ?thesis
    unfolding update_admin_role_def by (intro sure_commit_db) (auto simp: owner_inv_def)
qed

lemma sure_target:
  assumes "sv_cache sv = on_world_redis cm" and "\<And>fa. knows_owner os f u fa \<Longrightarrow> sure (owner_inv os) (g fa) R"
  shows "sure (owner_inv os) (bindM (load_forum_admin sv f u) (\<lambda>e. bindM (require status e) g)) R"
  by (rule sure_bindM [OF sure_load_forum_admin [OF assms(1)]],
      rule sure_bindM [OF sure_require [where Q = "knows_owner os f u"]]) (auto intro: assms(2))

text \<open>
  C24.  No request for the admins of a forum changes who owns one, whatever the requester is,
  whatever the outcome and however stale the cached roles are, as long as no entry of the cache
  denies an owner, which every such request maintains.
\<close>

theorem owners_never_change:
  assumes "sv_cache sv = on_world_redis cm" and "owner_inv os w" and "role \<noteq> OWNER"
  shows "owner_inv os (snd (add_admin sv f token u role now w)) \<and>
         owner_inv os (snd (remove_admin coerces sv f token u now w)) \<and>
         owner_inv os (snd (edit_admin_permissions sv f token u role w))"
proof -
  let ?any = "\<lambda>_. True"
  have user: "sure (owner_inv os) (load sv (derive_cache_key ''forums'' (str_of_int f)) (on_db (get_user u)) UserResult
      (from_cache sv UserResult)) ?any"
    unfolding load_def assms(1)
    by (rule sure_weaken [OF owner_cache.sure_get_or_load [where Q = ?any]])
      (auto intro!: sure_on_db simp: admin_entry_ok_def)
  note steps = sure_bindM_any [OF sure_load_forum [OF assms(1)]] sure_bindM_any [OF sure_require_forum_admin [OF assms(1)]]
    sure_bindM_any [OF sure_require [OF TrueI]] sure_refuse sure_JSONResponse
  have "sure (owner_inv os) (add_admin sv f token u role now) ?any"
    unfolding add_admin_def
    by (intro steps sure_bindM [OF sure_load_forum_admin [OF assms(1)]] sure_bindM_any [OF user]
        sure_thenM [OF sure_add_forum_admin [OF assms(3)]])
  moreover have "sure (owner_inv os) (remove_admin coerces sv f token u now) ?any"
    unfolding remove_admin_def
    by (intro steps(1,3) steps(2) sure_target [OF assms(1)] sure_refuse sure_JSONResponse sure_thenM [OF sure_remove_forum_admin])
      (auto simp: knows_owner_def)
  moreover have "sure (owner_inv os) (edit_admin_permissions sv f token u role) ?any"
    unfolding edit_admin_permissions_def
    by (intro steps(1,3) steps(2) sure_target [OF assms(1)] sure_refuse sure_JSONResponse sure_thenM [OF sure_update_admin_role])
      (auto simp: knows_owner_def assms(3))
  ultimately show ?thesis using assms(2) by (auto dest: sureD)
qed

section \<open>Roles and the cache\<close>

text \<open>Primary keys are unique and roles are roles, so that the repository's reads answer.\<close>

definition readable_db :: "rs_db \<Rightarrow> bool" where
  "readable_db db \<longleftrightarrow> (\<forall>f. \<exists>r. get_forum f db = Inr r) \<and> (\<forall>f u. \<exists>r. get_forum_admin f u db = Inr r) \<and>
     (\<forall>u. \<exists>r. get_user u db = Inr r)"

abbreviation forum_key :: "int \<Rightarrow> string" where
  "forum_key f \<equiv> derive_cache_key ''forums'' (str_of_int f)"

abbreviation admin_key :: "int \<Rightarrow> int \<Rightarrow> string" where
  "admin_key f u \<equiv> admin_cache_key (str_of_int f) (str_of_int u)"

lemma traverse_keys:
  "traverse g xs = Inr ys \<Longrightarrow> (\<And>x y. x \<in> set xs \<Longrightarrow> g x = Inr y \<Longrightarrow> fst y = k x) \<Longrightarrow> map fst ys = map k xs"
  by (induction xs arbitrary: ys) (fastforce simp: bindE_eq_Inr_iff)+

lemma result_cache_repr_keys:
  "result_cache_repr cls d = Inr m \<Longrightarrow> map fst m = map (strip_underscores \<circ> fst) (public_fields cls)"
  unfolding result_cache_repr_def
  by (erule traverse_keys) (auto elim: repr_field_InrE)

lemma has_entry_result:
  assumes "public_fields cls \<noteq> []" and "''__NF__'' \<notin> (strip_underscores \<circ> fst) ` set (public_fields cls)"
  shows "has_entry found (result_cache_repr cls)"
  unfolding has_entry_def
proof (intro allI impI)
  fix d m assume "result_cache_repr cls d = Inr m"
  from result_cache_repr_keys [OF this] assms show "m \<noteq> [] \<and> ''__NF__'' \<notin> fst ` set m"
    by (metis list.map_disc_iff list.set_map)
qed

lemma has_entry_forum [simp]: "has_entry found (result_cache_repr ForumResult)"
  by (rule has_entry_result) (auto simp: ForumResult_def public_fields_def strip_underscores_def)

lemma has_entry_user [simp]: "has_entry found (result_cache_repr UserResult)"
  by (rule has_entry_result) (auto simp: UserResult_def public_fields_def strip_underscores_def)

lemma forum_admin_repr_Inr:
  assumes "forum_admin_repr fa = Inr m"
  shows "\<exists>f u. m = [(''forum_id'', f), (''user_id'', u), (''role'', forum_role_value (fa_role fa))]"
  using assms by (auto simp: forum_admin_repr_def bindE_eq_Inr_iff)

lemma has_entry_forum_admin [simp]: "has_entry found forum_admin_repr"
  using forum_admin_repr_Inr by (fastforce simp: has_entry_def)

lemma forum_admin_round_trip:
  assumes "forum_admin_repr fa = Inr m" and "cm_decode (sv_cache sv)"
  shows "\<exists>fa'. forum_admin_from_cache sv (map_of (rev m)) = Inr fa' \<and> fa_role fa' = fa_role fa"
  using forum_admin_repr_Inr [OF assms(1)] assms(2) by (auto simp: forum_admin_from_cache_def entry_item_def)

text \<open>What the cache believes of an admin after a load, and what the next load makes of it.\<close>

definition believes :: "server \<Rightarrow> world cache_manager \<Rightarrow> world \<Rightarrow> int \<Rightarrow> int \<Rightarrow> forum_role option \<Rightarrow> bool" where
  "believes sv cm w f u role \<longleftrightarrow>
     (case role of
        None \<Rightarrow> world_view cm w (admin_key f u) = Negative
      | Some r \<Rightarrow> \<exists>h fa. world_view cm w (admin_key f u) = Hit h \<and> forum_admin_from_cache sv h = Inr fa \<and> fa_role fa = r)"

lemma load_forum_admin_believes:
  assumes sv: "sv_cache sv = on_world_redis cm" "good_manager cm" and db: "readable_db (w_db w)"
    and quiet: "quiet ks (w_store w)" "admin_key f u \<in> ks" and run: "load_forum_admin sv f u w = (Inr r, w')"
  shows "quiet ks (w_store w') \<and> w_db w' = w_db w \<and> believes sv cm w' f u (map_option fa_role r) \<and>
    (\<forall>k. k \<noteq> admin_key f u \<longrightarrow> k \<in> ks \<longrightarrow> w_store w' k = w_store w k)"
proof -
  have dec: "cm_decode (sv_cache sv)" using sv by (simp add: good_manager_def)
  obtain found where found: "get_forum_admin f u (w_db w) = Inr found" using db unfolding readable_db_def by blast
  from load_spec [OF sv(2) quiet, of "get_forum_admin f u", OF found, of forum_admin_repr "forum_admin_from_cache sv"] run sv(1)
  have r: "fst (view_get_or_load (world_view cm w) (admin_key f u) found forum_admin_repr (forum_admin_from_cache sv)) = Inr r"
    and w': "w_db w' = w_db w" "quiet ks (w_store w')"
      "world_view cm w' = snd (view_get_or_load (world_view cm w) (admin_key f u) found forum_admin_repr (forum_admin_from_cache sv))"
      "\<forall>k. k \<noteq> admin_key f u \<longrightarrow> k \<noteq> derive_lock_key [admin_key f u] \<longrightarrow> w_store w' k = w_store w k"
    by (auto simp: load_forum_admin_def)
  have "believes sv cm w' f u (map_option fa_role r)"
    using r forum_admin_round_trip [OF _ dec]
    by (auto simp: believes_def w'(3) bindE_eq_Inr_iff split: cached.splits option.splits sum.splits)
  moreover have "derive_lock_key [admin_key f u] \<notin> ks" using quiet by (auto simp: quiet_def)
  ultimately show ?thesis using w' by auto
qed

lemma believed_load:
  assumes sv: "sv_cache sv = on_world_redis cm" "good_manager cm" and db: "readable_db (w_db w)"
    and quiet: "quiet ks (w_store w)" "admin_key f u \<in> ks" and "believes sv cm w f u role"
  shows "\<exists>r w'. load_forum_admin sv f u w = (Inr r, w') \<and> map_option fa_role r = role"
proof -
  obtain found where found: "get_forum_admin f u (w_db w) = Inr found" using db unfolding readable_db_def by blast
  from load_spec [OF sv(2) quiet, of "get_forum_admin f u", OF found, of forum_admin_repr "forum_admin_from_cache sv"] assms(6)
  show ?thesis by (auto simp: load_forum_admin_def sv(1) believes_def split: option.splits)
qed

lemma load_forum_kept:
  assumes sv: "sv_cache sv = on_world_redis cm" "good_manager cm" and db: "readable_db (w_db w)"
    and quiet: "quiet ks (w_store w)" "forum_key f \<in> ks" and run: "load_forum sv f w = (res, w')"
  shows "quiet ks (w_store w') \<and> w_db w' = w_db w \<and> (\<forall>k \<in> ks. k \<noteq> forum_key f \<longrightarrow> w_store w' k = w_store w k)"
proof -
  obtain found where found: "get_forum f (w_db w) = Inr found" using db unfolding readable_db_def by blast
  from quiet have "derive_lock_key [forum_key f] \<notin> ks" by (auto simp: quiet_def)
  with load_spec [OF sv(2) quiet, of "get_forum f", OF found, of "result_cache_repr ForumResult" "from_cache sv ForumResult"] run
  show ?thesis by (auto simp: load_forum_def load_def sv(1))
qed

lemma load_new_user_kept:
  assumes sv: "sv_cache sv = on_world_redis cm" "good_manager cm" and db: "readable_db (w_db w)"
    and quiet: "quiet ks (w_store w)" "forum_key f \<in> ks"
    and run: "load sv (forum_key f) (on_db (get_user u)) UserResult (from_cache sv UserResult) w = (res, w')"
  shows "quiet ks (w_store w') \<and> w_db w' = w_db w \<and> (\<forall>k \<in> ks. k \<noteq> forum_key f \<longrightarrow> w_store w' k = w_store w k)"
proof -
  obtain found where found: "get_user u (w_db w) = Inr found" using db unfolding readable_db_def by blast
  from quiet have "derive_lock_key [forum_key f] \<notin> ks" by (auto simp: quiet_def)
  with load_spec [OF sv(2) quiet, of "get_user u", OF found, of "result_cache_repr UserResult" "from_cache sv UserResult"] run
  show ?thesis by (auto simp: load_def sv(1))
qed

lemma believes_cong:
  "w_store w' (admin_key f u) = w_store w (admin_key f u) \<Longrightarrow> believes sv cm w' f u role = believes sv cm w f u role"
  by (simp only: believes_def cache_view_def)

lemma require_forum_admin_InrD:
  "require_forum_admin sv f forum token w = (Inr fa, w') \<Longrightarrow> load_forum_admin sv f (sid token) w = (Inr (Some fa), w')"
  by (auto simp: require_forum_admin_def bindM_eq_Inr_iff thenM_eq_Inr_iff split: option.splits)

lemma require_simps [simp]: "require status (Some x) = pure x" "require status None = raise (HTTPException status)"
  by (simp_all add: require_def)

lemma refuse_if_simps [simp]:
  "thenM (refuse_if False status) k = k" "thenM (refuse_if True status) k = raise (HTTPException status)"
  by (simp_all add: refuse_if_def thenM_def)

lemma require_Inr [simp]: "require status r w = (Inr x, w') \<longleftrightarrow> r = Some x \<and> w' = w"
  by (auto simp: require_def split: option.splits)

lemma refuse_if_Inr [simp]: "refuse_if b status w = (Inr x, w') \<longleftrightarrow> \<not> b \<and> w' = w"
  by (auto simp: refuse_if_def)

lemma JSONResponse_Inr: "JSONResponse body status w = (Inr x, w') \<Longrightarrow> w' = w"
  by (auto simp: JSONResponse_def split: if_splits)

lemma commit_db_Inr: "commit_db g w = (Inr x, w') \<longleftrightarrow> (\<exists>db. g (w_db w) = Inr db \<and> w' = w\<lparr>w_db := db\<rparr>)"
  by (auto simp: commit_db_def split: sum.splits)

definition role_keys :: "int \<Rightarrow> claims \<Rightarrow> int \<Rightarrow> string set" where
  "role_keys f token u = {forum_key f, admin_key f (sid token), admin_key f u}"

text \<open>The three loads before a role is changed: the cache then believes what the third one said.\<close>

lemma three_loads:
  assumes sv: "sv_cache sv = on_world_redis cm" "good_manager cm" and db: "readable_db (w_db w)"
    and quiet: "quiet (role_keys f token u) (w_store w)"
    and runs: "load_forum sv f w = (Inr r, w1)" "require_forum_admin sv f forum token w1 = (Inr fa, w2)"
      "load_forum_admin sv f u w2 = (Inr e, w3)"
  shows "quiet (role_keys f token u) (w_store w3) \<and> w_db w3 = w_db w \<and> believes sv cm w3 f u (map_option fa_role e)"
proof -
  from load_forum_kept [OF sv db quiet _ runs(1)]
  have 1: "quiet (role_keys f token u) (w_store w1)" "w_db w1 = w_db w" by (simp_all add: role_keys_def)
  from load_forum_admin_believes [OF sv _ 1(1) _ require_forum_admin_InrD [OF runs(2)]] db 1(2)
  have 2: "quiet (role_keys f token u) (w_store w2)" "w_db w2 = w_db w" by (simp_all add: role_keys_def)
  from load_forum_admin_believes [OF sv _ 2(1) _ runs(3)] db 2(2)
  show ?thesis by (simp add: role_keys_def)
qed

text \<open>
  C27.  Changing roles does not reach the cache.  Take a request that answers, over a cache whose
  lifetimes are positive, that tries at least once, whose client decodes what it reads (the client
  as it is configured does not) and on whose entries for the forum and the two admins no other
  request holds a lock; over a database in which primary keys are unique and roles are roles; and
  with no cached entry that denies an owner.  After an admin has been added, the entry in the
  cache says that there is none; after one has been removed, there is an entry that is read as
  an admin with a role, although the table has no such admin any more; and after a role was
  changed the entry is read with another than the new one.
\<close>

theorem roles_do_not_reach_cache:
  assumes sv: "sv_cache sv = on_world_redis cm" "good_manager cm" and db: "readable_db (w_db w)"
    and quiet: "quiet (role_keys f token u) (w_store w)" and inv: "owner_inv os w"
  shows "(add_admin sv f token u role now w = (Inr resp, w') \<longrightarrow> believes sv cm w' f u None) \<and>
    (remove_admin coerces sv f token u now w = (Inr resp, w') \<longrightarrow>
       (\<exists>r. believes sv cm w' f u (Some r)) \<and> \<not> list_ex (is_admin_row f (FInt u)) (forum_admins (w_db w'))) \<and>
    (edit_admin_permissions sv f token u role w = (Inr resp, w') \<longrightarrow> (\<exists>r. r \<noteq> role \<and> believes sv cm w' f u (Some r)))"
proof (intro conjI impI)
  assume "add_admin sv f token u role now w = (Inr resp, w')"
  then obtain r w1 forum fa w2 w3 us w4 w5
    where runs: "load_forum sv f w = (Inr r, w1)" "require_forum_admin sv f forum token w1 = (Inr fa, w2)"
      "load_forum_admin sv f u w2 = (Inr None, w3)"
      and user: "load sv (forum_key f) (on_db (get_user u)) UserResult (from_cache sv UserResult) w3 = (Inr us, w4)"
      and add: "add_forum_admin f u role w4 = (Inr (), w5)" and w': "w' = w5"
    by (auto simp: add_admin_def bindM_eq_Inr_iff thenM_eq_Inr_iff dest: JSONResponse_Inr)
  from three_loads [OF sv db quiet runs] have q: "quiet (role_keys f token u) (w_store w3)" "w_db w3 = w_db w"
      "believes sv cm w3 f u None" by auto
  from load_new_user_kept [OF sv _ q(1) _ user] db q(2)
  have "w_store w4 (admin_key f u) = w_store w3 (admin_key f u)"
    by (simp add: role_keys_def) (metis admin_cache_key_neq)
  moreover have "w_store w5 = w_store w4" using add by (auto simp: add_forum_admin_def commit_db_Inr)
  ultimately show "believes sv cm w' f u None" using q(3) w' by (metis believes_cong)
next
  assume "remove_admin coerces sv f token u now w = (Inr resp, w')"
  then obtain r w1 forum fa w2 ea w3
    where runs: "load_forum sv f w = (Inr r, w1)" "require_forum_admin sv f forum token w1 = (Inr fa, w2)"
      "load_forum_admin sv f u w2 = (Inr (Some ea), w3)"
      and rm: "remove_forum_admin coerces f (fa_user_id ea) w3 = (Inr (), w')"
    by (auto simp: remove_admin_def bindM_eq_Inr_iff thenM_eq_Inr_iff dest: JSONResponse_Inr)
  from three_loads [OF sv db quiet runs] have bel: "believes sv cm w3 f u (Some (fa_role ea))" by simp
  have w': "w' = w3\<lparr>w_db := (w_db w3)\<lparr>forum_admins := filter (\<lambda>r. \<not> is_admin_row f (fa_user_id ea) r) (forum_admins (w_db w3))\<rparr>\<rparr>"
    using rm by (auto simp: remove_forum_admin_def commit_db_Inr split: if_splits)
  with bel show "\<exists>r. believes sv cm w' f u (Some r)" by (auto simp: believes_def)
  have "owner_inv os w2"
    using inv runs(1,2) sureD [OF sure_load_forum [OF sv(1)]] sureD [OF sure_require_forum_admin [OF sv(1)]]
    by (metis snd_conv)
  with sure_load_forum_admin [OF sv(1), of os f u] runs(3) have "knows_owner os f u ea"
    by (simp add: sure_def)
  then have "fa_user_id ea \<in> {FInt u, FStr (str_of_int u)}" by (simp add: knows_owner_def)
  then have "is_admin_row f (FInt u) r \<Longrightarrow> is_admin_row f (fa_user_id ea) r" for r
    by (auto simp: is_admin_row_def int_of_str_of_int)
  then show "\<not> list_ex (is_admin_row f (FInt u)) (forum_admins (w_db w'))"
    by (auto simp: w' list_ex_iff)
next
  assume "edit_admin_permissions sv f token u role w = (Inr resp, w')"
  then obtain r w1 forum fa w2 ea w3
    where runs: "load_forum sv f w = (Inr r, w1)" "require_forum_admin sv f forum token w1 = (Inr fa, w2)"
      "load_forum_admin sv f u w2 = (Inr (Some ea), w3)"
      and ne: "role \<noteq> fa_role ea" and up: "update_admin_role f u role w3 = (Inr (), w')"
    by (auto simp: edit_admin_permissions_def bindM_eq_Inr_iff thenM_eq_Inr_iff dest: JSONResponse_Inr)
  from three_loads [OF sv db quiet runs] have "believes sv cm w3 f u (Some (fa_role ea))" by simp
  moreover have "w_store w' = w_store w3" using up by (auto simp: update_admin_role_def commit_db_Inr)
  ultimately show "\<exists>r. r \<noteq> role \<and> believes sv cm w' f u (Some r)" using ne by (metis believes_cong)
qed

text \<open>With the forum cached, the loads answer what is believed and change no belief.\<close>

lemma load_forum_hit:
  assumes sv: "sv_cache sv = on_world_redis cm" "good_manager cm" and db: "readable_db (w_db w)"
    and quiet: "quiet (role_keys f token u) (w_store w)" and hit: "world_view cm w (forum_key f) = Hit h"
  obtains forum w1 where "load_forum sv f w = (Inr (Some forum), w1)" and "w_db w1 = w_db w"
    and "quiet (role_keys f token u) (w_store w1)" and "world_view cm w1 (forum_key f) = Hit h"
    and "\<And>v r. admin_key f v \<in> role_keys f token u \<Longrightarrow> believes sv cm w1 f v r = believes sv cm w f v r"
proof -
  have k: "forum_key f \<in> role_keys f token u" by (simp add: role_keys_def)
  obtain found where found: "get_forum f (w_db w) = Inr found" using db unfolding readable_db_def by blast
  from load_spec [OF sv(2) quiet k, of "get_forum f", OF found, of "result_cache_repr ForumResult" "from_cache sv ForumResult"] hit
  obtain w1 where w1: "load_forum sv f w = (Inr (Some (construct_from_cache ForumResult (cm_decode (sv_cache sv)) h)), w1)"
      "w_db w1 = w_db w" "world_view cm w1 = world_view cm w" "quiet (role_keys f token u) (w_store w1)"
    by (auto simp: load_forum_def load_def sv(1) from_cache_def)
  show ?thesis
    by (rule that [OF w1(1,2,4)]) (simp_all only: w1(3) hit believes_def)
qed

lemma load_believed:
  assumes sv: "sv_cache sv = on_world_redis cm" "good_manager cm" and db: "readable_db (w_db w)"
    and quiet: "quiet (role_keys f token u) (w_store w)" and k: "admin_key f v \<in> role_keys f token u"
    and bel: "believes sv cm w f v role" and hit: "world_view cm w (forum_key f) = Hit h"
  shows "\<exists>r w1. load_forum_admin sv f v w = (Inr r, w1) \<and> map_option fa_role r = role \<and> w_db w1 = w_db w \<and>
    quiet (role_keys f token u) (w_store w1) \<and> world_view cm w1 (forum_key f) = Hit h \<and>
    (\<forall>v' r'. believes sv cm w1 f v' r' = believes sv cm w f v' r')"
proof -
  obtain found where found: "get_forum_admin f v (w_db w) = Inr found" using db unfolding readable_db_def by blast
  from load_spec [OF sv(2) quiet k, of "get_forum_admin f v", OF found, of forum_admin_repr "forum_admin_from_cache sv"] bel
  obtain r w1 where w1: "load_forum_admin sv f v w = (Inr r, w1)" "map_option fa_role r = role" "w_db w1 = w_db w"
      "world_view cm w1 = world_view cm w" "quiet (role_keys f token u) (w_store w1)"
    by (auto simp: load_forum_admin_def sv(1) believes_def split: option.splits)
  have "\<forall>v' r'. believes sv cm w1 f v' r' = believes sv cm w f v' r'" by (simp only: w1(4) believes_def) simp
  with w1 hit show ?thesis by auto
qed

lemmas load_believed_Some = load_believed [where role = "Some r" for r, unfolded map_option_eq_Some]
lemmas load_believed_None = load_believed [where role = None, unfolded map_option_is_None]

lemma load_user_hit:
  assumes sv: "sv_cache sv = on_world_redis cm" "good_manager cm" and db: "readable_db (w_db w)"
    and quiet: "quiet (role_keys f token u) (w_store w)" and hit: "world_view cm w (forum_key f) = Hit h"
  obtains us w1 where "load sv (forum_key f) (on_db (get_user u)) UserResult (from_cache sv UserResult) w = (Inr (Some us), w1)"
    and "w_db w1 = w_db w"
proof -
  have k: "forum_key f \<in> role_keys f token u" by (simp add: role_keys_def)
  obtain found where found: "get_user u (w_db w) = Inr found" using db unfolding readable_db_def by blast
  from load_spec [OF sv(2) quiet k, of "get_user u", OF found, of "result_cache_repr UserResult" "from_cache sv UserResult"] hit that
  show ?thesis by (auto simp: load_def sv(1) from_cache_def)
qed

text \<open>
  The check that a new admin exists is void: the user is looked up under the key of the
  forum that has just been loaded, so that what is found is the forum.  Where the requester may
  add the role and the target is not known as an admin, the outcome never depends on the user:
  a deleted one becomes an admin, and one that does not exist ends in the database's
  \<open>IntegrityError\<close> in place of a 404.
\<close>

theorem new_admin_unchecked:
  assumes sv: "sv_cache sv = on_world_redis cm" "good_manager cm" and db: "readable_db (w_db w)"
    and quiet: "quiet (role_keys f token u) (w_store w)" and hit: "world_view cm w (forum_key f) = Hit h"
    and requester: "believes sv cm w f (sid token) (Some rr)" "check_permission rr (if role = ADMIN then ADD_ADMIN else ADD_SUPER)"
    and target: "believes sv cm w f u None"
  shows "fst (add_admin sv f token u role now w) =
    (if list_ex (is_admin_row f (FInt u)) (forum_admins (w_db w)) \<or> \<not> has_id f (forums (w_db w)) \<or> \<not> has_id u (users (w_db w))
     then Inl IntegrityError
     else Inr (201, [(''message'', JText ''Admin added''), (''role'', JText (forum_role_value role)), (''time_added'', JText now)]))"
proof -
  have k: "admin_key f (sid token) \<in> role_keys f token u" "admin_key f u \<in> role_keys f token u"
    by (simp_all add: role_keys_def)
  from load_forum_hit [OF sv db quiet hit] obtain forum w1
    where 1: "load_forum sv f w = (Inr (Some forum), w1)" "w_db w1 = w_db w" "quiet (role_keys f token u) (w_store w1)"
      "world_view cm w1 (forum_key f) = Hit h"
      "believes sv cm w1 f (sid token) (Some rr)" "believes sv cm w1 f u None"
    using k requester(1) target by metis
  have db1: "readable_db (w_db w1)" using db 1(2) by simp
  from load_believed_Some [OF sv db1 1(3) k(1) 1(5,4)] obtain fa w2
    where 2: "load_forum_admin sv f (sid token) w1 = (Inr (Some fa), w2)" "fa_role fa = rr" "w_db w2 = w_db w1"
      "quiet (role_keys f token u) (w_store w2)" "world_view cm w2 (forum_key f) = Hit h"
      "\<forall>v' r'. believes sv cm w2 f v' r' = believes sv cm w1 f v' r'"
    by blast
  have db2: "readable_db (w_db w2)" "believes sv cm w2 f u None" using db1 2(3,6) 1(6) by simp_all
  from load_believed_None [OF sv db2(1) 2(4) k(2) db2(2) 2(5)] obtain w3
    where 3: "load_forum_admin sv f u w2 = (Inr None, w3)" "w_db w3 = w_db w2" "quiet (role_keys f token u) (w_store w3)"
      "world_view cm w3 (forum_key f) = Hit h"
    by blast
  have db3: "readable_db (w_db w3)" "w_db w3 = w_db w" using db 1(2) 2(3) 3(2) by simp_all
  from load_user_hit [OF sv db3(1) 3(3,4)] obtain us w4
    where 4: "load sv (forum_key f) (on_db (get_user u)) UserResult (from_cache sv UserResult) w3 = (Inr (Some us), w4)"
      "w_db w4 = w_db w"
    using db3(2) by metis
  from 2(1,2) have "require_forum_admin sv f forum token w1 = (Inr fa, w2)" by (simp add: require_forum_admin_def)
  then have "add_admin sv f token u role now w = thenM (add_forum_admin f u role)
      (JSONResponse [(''message'', JText ''Admin added''), (''role'', JText (forum_role_value role)),
                     (''time_added'', JText now)] 201) w4"
    using requester(2) by (simp add: add_admin_def 1(1) 2(2) 3(1) 4(1))
  then show ?thesis
    by (simp add: thenM_def bindM_def add_forum_admin_def commit_db_def 4(2) JSONResponse_def)
qed

lemma promotion_runs:
  assumes sv: "sv_cache sv = on_world_redis cm" "good_manager cm" and db: "readable_db (w_db w)"
    and quiet: "quiet (role_keys f token u) (w_store w)" and hit: "world_view cm w (forum_key f) = Hit h"
    and requester: "believes sv cm w f (sid token) (Some SUPER)" and target: "believes sv cm w f u (Some ADMIN)"
  shows "fst (add_admin sv f token u SUPER now w) = Inl (HTTPException 403) \<and>
    (\<exists>body w'. edit_admin_permissions sv f token u SUPER w = (Inr (200, body), w') \<and>
       forum_admins (w_db w') = update_rows (is_admin_row f (FInt u)) [(''role'', FStr ''SUPER'')] (forum_admins (w_db w)))"
proof -
  have k: "admin_key f (sid token) \<in> role_keys f token u" "admin_key f u \<in> role_keys f token u"
    by (simp_all add: role_keys_def)
  from load_forum_hit [OF sv db quiet hit] obtain forum w1
    where 1: "load_forum sv f w = (Inr (Some forum), w1)" "w_db w1 = w_db w" "quiet (role_keys f token u) (w_store w1)"
      "world_view cm w1 (forum_key f) = Hit h"
      "believes sv cm w1 f (sid token) (Some SUPER)" "believes sv cm w1 f u (Some ADMIN)"
    using k requester target by metis
  have db1: "readable_db (w_db w1)" using db 1(2) by simp
  from load_believed_Some [OF sv db1 1(3) k(1) 1(5,4)] obtain fa w2
    where 2: "load_forum_admin sv f (sid token) w1 = (Inr (Some fa), w2)" "fa_role fa = SUPER" "w_db w2 = w_db w1"
      "quiet (role_keys f token u) (w_store w2)" "world_view cm w2 (forum_key f) = Hit h"
      "\<forall>v' r'. believes sv cm w2 f v' r' = believes sv cm w1 f v' r'"
    by blast
  have db2: "readable_db (w_db w2)" "believes sv cm w2 f u (Some ADMIN)" using db1 2(3,6) 1(6) by simp_all
  from load_believed_Some [OF sv db2(1) 2(4) k(2) db2(2) 2(5)] obtain ea w3
    where 3: "load_forum_admin sv f u w2 = (Inr (Some ea), w3)" "fa_role ea = ADMIN" "w_db w3 = w_db w2"
    by blast
  from 2(1) have req: "require_forum_admin sv f forum token w1 = (Inr fa, w2)" by (simp add: require_forum_admin_def)
  have may: "\<not> check_permission SUPER ADD_SUPER" "check_permission SUPER PROMOTE_TO_SUPER"
    by (simp_all add: check_permission_def OWNER_EXCLUSIVE_PERMISSIONS_def AdminPermissions_def)
  have "fst (add_admin sv f token u SUPER now w) = Inl (HTTPException 403)"
    by (simp add: add_admin_def 1(1) req 2(2) may)
  moreover have "edit_admin_permissions sv f token u SUPER w = thenM (update_admin_role f u SUPER)
      (JSONResponse [(''message'', JText ''Updated role''), (''previous_role'', JText (forum_role_value ADMIN)),
         (''new_role'', JText (forum_role_value SUPER))] 200) w3"
    by (simp add: edit_admin_permissions_def 1(1) req 2(2) 3(1,2) may)
  ultimately show ?thesis
    by (simp add: thenM_def bindM_def update_admin_role_def commit_db_def 1(2) 2(3) 3(3) JSONResponse_def)
qed

text \<open>
  What the mapping of permissions reserves for the owner, making somebody a super admin,
  every super admin can do in two requests: adding one is refused, promoting an admin is not.
\<close>

theorem super_admin_promotes:
  assumes sv: "sv_cache sv = on_world_redis cm" "good_manager cm" and db: "readable_db (w_db w)"
    and quiet: "quiet (role_keys f token u) (w_store w)" and hit: "world_view cm w (forum_key f) = Hit h"
    and requester: "believes sv cm w f (sid token) (Some SUPER)" and target: "believes sv cm w f u (Some ADMIN)"
  shows "fst (add_admin sv f token u SUPER now w) = Inl (HTTPException 403) \<and>
    (\<exists>body w'. edit_admin_permissions sv f token u SUPER w = (Inr (200, body), w') \<and>
       forum_admins (w_db w') = update_rows (is_admin_row f (FInt u)) [(''role'', FStr ''SUPER'')] (forum_admins (w_db w)))"
  by (rule promotion_runs [OF assms])

section \<open>A forum\<close>

definition demo_forum :: world where
  "demo_forum =
     \<lparr>w_store =
        [''forums:5'' \<mapsto> (VHash [''name_'' \<mapsto> ''Fans''], None),
         ''forum_admins:5:3'' \<mapsto> (VHash [''user_id'' \<mapsto> ''3'', ''forum_id'' \<mapsto> ''5'', ''role'' \<mapsto> ''SUPER''], Some 90),
         ''forum_admins:5:4'' \<mapsto> (VHash [''user_id'' \<mapsto> ''4'', ''forum_id'' \<mapsto> ''5'', ''role'' \<mapsto> ''ADMIN''], Some 90),
         ''forum_admins:5:2'' \<mapsto> (VHash [''__NF__'' \<mapsto> ''NF''], Some 20)],
      w_db = empty_db\<lparr>
        forums := [[(''id_'', FInt 5), (''name_'', FStr ''Fans'')]],
        users := [[(''id_'', FInt 2), (''deleted'', FBool True)]],
        forum_admins :=
          [[(''forum_id'', FInt 5), (''user_id'', FInt 1), (''role'', FStr ''OWNER'')],
           [(''forum_id'', FInt 5), (''user_id'', FInt 3), (''role'', FStr ''SUPER'')],
           [(''forum_id'', FInt 5), (''user_id'', FInt 4), (''role'', FStr ''ADMIN'')]]\<rparr>,
      w_genres = False\<rparr>"

lemma demo_digits [simp]: "str_of_int 1 = ''1''" "str_of_int 2 = ''2''" "str_of_int 3 = ''3''" "str_of_int 4 = ''4''" "str_of_int 5 = ''5''"
  by code_simp+

lemma demo_keys [simp]:
  "derive_cache_key ''forums'' ''5'' = ''forums:5''" "admin_cache_key ''5'' ''2'' = ''forum_admins:5:2''"
  "admin_cache_key ''5'' ''3'' = ''forum_admins:5:3''" "admin_cache_key ''5'' ''4'' = ''forum_admins:5:4''"
  by (simp_all add: derive_cache_key_def admin_cache_key_def NAME_SEPERATOR_def)

lemma demo_forum_readable: "readable_db (w_db demo_forum)"
  unfolding readable_db_def
  by (auto simp: demo_forum_def empty_db_def get_forum_def get_forum_admin_def get_user_def is_admin_row_def col_def
      forum_admin_from_orm_def read_forum_role_def)

lemma demo_forum_quiet:
  "quiet (role_keys 5 \<lparr>sid = 3, sub_claim = ''c''\<rparr> 2) (w_store demo_forum)"
  "quiet (role_keys 5 \<lparr>sid = 3, sub_claim = ''c''\<rparr> 4) (w_store demo_forum)"
  by (auto simp: quiet_def role_keys_def demo_forum_def sound_entry_def derive_lock_key_def NAME_SEPERATOR_def fun_eq_iff)

lemma demo_forum_view: "world_view demo_cache demo_forum ''forums:5'' = Hit [''name_'' \<mapsto> ''Fans'']"
  by (simp add: cache_view_def demo_forum_def)

lemma demo_forum_believes:
  "believes demo_server demo_cache demo_forum 5 3 (Some SUPER)" "believes demo_server demo_cache demo_forum 5 4 (Some ADMIN)"
  "believes demo_server demo_cache demo_forum 5 2 None"
  by (simp_all add: believes_def cache_view_def demo_forum_def forum_admin_from_cache_def entry_item_def read_forum_role_def
      demo_cache_def)

lemma demo_key_eq:
  "''forum_admins:5:2'' = admin_cache_key (str_of_int f) (str_of_int u) \<longleftrightarrow> f = 5 \<and> u = 2"
  "''forum_admins:5:3'' = admin_cache_key (str_of_int f) (str_of_int u) \<longleftrightarrow> f = 5 \<and> u = 3"
  "''forum_admins:5:4'' = admin_cache_key (str_of_int f) (str_of_int u) \<longleftrightarrow> f = 5 \<and> u = 4"
  using admin_cache_key_inj [of 5 2 f u] admin_cache_key_inj [of 5 3 f u] admin_cache_key_inj [of 5 4 f u] by auto

lemma demo_forum_inv: "owner_inv {(5, 1)} demo_forum"
proof -
  have "owners (w_db demo_forum) = {(5, 1)}" by (auto simp: owners_def demo_forum_def empty_db_def col_def)
  moreover have "admin_entry_ok {(5, 1)} k h" if "w_store demo_forum k = Some (VHash h, t)" for k h t
    using that admin_cache_key_neq [of "''5''", symmetric]
    by (auto simp: demo_forum_def admin_entry_ok_def demo_key_eq split: if_splits)
  ultimately show ?thesis by (simp add: owner_inv_def)
qed

theorem owners_never_change_witness:
  "owner_inv {(5, 1)} (snd (edit_admin_permissions demo_server 5 \<lparr>sid = 3, sub_claim = ''c''\<rparr> 1 ADMIN demo_forum))"
  using owners_never_change [OF demo_server_cache demo_forum_inv, of ADMIN 5 "\<lparr>sid = 3, sub_claim = ''c''\<rparr>" 1 "''now''"] by simp

theorem new_admin_unchecked_witness:
  "fst (add_admin demo_server 5 \<lparr>sid = 3, sub_claim = ''c''\<rparr> 2 ADMIN ''now'' demo_forum) =
   Inr (201, [(''message'', JText ''Admin added''), (''role'', JText ''ADMIN''), (''time_added'', JText ''now'')])"
proof -
  have "check_permission SUPER (if ADMIN = ADMIN then ADD_ADMIN else ADD_SUPER)"
    by (simp add: check_permission_def OWNER_EXCLUSIVE_PERMISSIONS_def AdminPermissions_def)
  from new_admin_unchecked [OF demo_server_cache demo_cache_good demo_forum_readable demo_forum_quiet(1) _ _ this, of _ "''now''"]
  show ?thesis
    using demo_forum_view demo_forum_believes
    by (simp add: demo_forum_def empty_db_def is_admin_row_def col_def has_id_def)
qed

theorem super_admin_promotes_witness:
  "\<exists>body w'. edit_admin_permissions demo_server 5 \<lparr>sid = 3, sub_claim = ''c''\<rparr> 4 SUPER demo_forum = (Inr (200, body), w')"
  using super_admin_promotes [OF demo_server_cache demo_cache_good demo_forum_readable demo_forum_quiet(2), of _ "''now''"]
    demo_forum_view demo_forum_believes
  by auto

theorem roles_do_not_reach_cache_witness:
  "\<exists>body w'. edit_admin_permissions demo_server 5 \<lparr>sid = 3, sub_claim = ''c''\<rparr> 4 SUPER demo_forum = (Inr (200, body), w') \<and>
     (\<exists>r. r \<noteq> SUPER \<and> believes demo_server demo_cache w' 5 4 (Some r))"
proof -
  have "\<exists>body w'. edit_admin_permissions demo_server 5 \<lparr>sid = 3, sub_claim = ''c''\<rparr> 4 SUPER demo_forum = (Inr (200, body), w')"
    using promotion_runs [OF demo_server_cache demo_cache_good demo_forum_readable demo_forum_quiet(2), of _ "''now''"]
      demo_forum_view demo_forum_believes
    by auto
  with roles_do_not_reach_cache [OF demo_server_cache demo_cache_good demo_forum_readable demo_forum_quiet(2) demo_forum_inv]
  show ?thesis by blast
qed

end
