(* ===== verification/Tenjin_Posts.thy ===== *)
theory Tenjin_Posts
  imports Tenjin_Forum
begin

text \<open>
  Posts: the repository (\<^verbatim>\<open>repositories/posts.py\<close>), the check of an amendment
  (\<^verbatim>\<open>utils/validation.py\<close>) and the routes (\<^verbatim>\<open>routers/posts.py\<close>).
\<close>

section \<open>The repository\<close>

definition post_from_cache :: "server \<Rightarrow> (string \<rightharpoonup> string) \<Rightarrow> exn + dto" where
  "post_from_cache sv h =
     bindE (super_call sv (construct_from_cache PostResult (cm_decode (sv_cache sv)) h)) (\<lambda>d.
     bindE (entry_item sv h ''author_username'') (\<lambda>u. Inr (d(''author_username'' \<mapsto> FStr u))))"

definition post_from_orm :: "server \<Rightarrow> orm_row \<Rightarrow> field_value \<Rightarrow> exn + dto" where
  "post_from_orm sv row author_username =
     bindE (super_call sv (construct_from_orm PostResult row)) (\<lambda>d. Inr (d(''author_username'' \<mapsto> author_username)))"

text \<open>The join of a table with the users on its author.\<close>

definition with_author :: "orm_row list \<Rightarrow> orm_row list \<Rightarrow> (orm_row \<times> orm_row) list" where
  "with_author rows us = concat (map (\<lambda>r. map (\<lambda>u. (r, u)) (filter (\<lambda>u. sql_eq (col u ''id_'') (col r ''author_id'')) us)) rows)"

definition get_post :: "server \<Rightarrow> int \<Rightarrow> rs_db \<Rightarrow> exn + dto option" where
  "get_post sv post_id db =
     (case with_author (filter (\<lambda>r. sql_eq (col r ''id_'') (FInt post_id) \<and> col r ''deleted'' = FBool False) (db_posts db)) (users db) of
        [] \<Rightarrow> Inr None
      | (p, u) # _ \<Rightarrow> bindE (post_from_orm sv p (col u ''username'')) (\<lambda>d. Inr (Some d)))"

definition Post_attributes :: "string list" where
  "Post_attributes =
     [''id_'', ''author_id'', ''forum_id'', ''score'', ''total_comments'', ''title'', ''body_text'', ''flair'', ''closed'',
      ''time_posted'', ''saves'', ''reports'', ''deleted'', ''time_deleted'', ''deletion_author_event'']"

text \<open>The new body goes to an attribute that posts do not have.\<close>

definition update_post :: "int \<Rightarrow> string option \<Rightarrow> string option \<Rightarrow> bool \<Rightarrow> (world, unit) py" where
  "update_post post_id title body closed =
     (let kw = (if given title then [(''title'', FStr (the title))] else [])
             @ (if given body then [(''body'', FStr (the body))] else [])
             @ (if closed then [(''closed'', FBool True)] else []) in
      if kw = [] then raise ValueError
      else bindM (lift_sum (check_values Post_attributes kw)) (\<lambda>_.
           commit_db (\<lambda>db. Inr (db\<lparr>db_posts :=
             update_rows (\<lambda>r. sql_eq (col r ''id_'') (FInt post_id)) kw (db_posts db)\<rparr>))))"

definition post_row_of :: "int \<Rightarrow> int \<Rightarrow> orm_row \<Rightarrow> bool" where
  "post_row_of post_id user_id r \<longleftrightarrow> sql_eq (col r ''user_id'') (FInt user_id) \<and> sql_eq (col r ''post_id'') (FInt post_id)"

definition check_saved :: "int \<Rightarrow> int \<Rightarrow> rs_db \<Rightarrow> exn + bool" where
  "check_saved post_id user_id db =
     bindE (one_or_none (filter (post_row_of post_id user_id) (post_saves db))) (\<lambda>r. Inr (r \<noteq> None))"

fun vote_type :: "orm_row option \<Rightarrow> bool option" where
  "vote_type None = None"
| "vote_type (Some r) = (case col r ''vote_type'' of FBool b \<Rightarrow> Some b | _ \<Rightarrow> None)"

definition get_vote :: "int \<Rightarrow> int \<Rightarrow> rs_db \<Rightarrow> exn + bool option" where
  "get_vote post_id user_id db =
     bindE (one_or_none (filter (post_row_of post_id user_id) (post_votes db))) (\<lambda>r. Inr (vote_type r))"

definition check_reported :: "int \<Rightarrow> int \<Rightarrow> string \<Rightarrow> rs_db \<Rightarrow> exn + bool" where
  "check_reported post_id user_id report_tag db =
     bindE (one_or_none (filter (\<lambda>r. post_row_of post_id user_id r \<and> sql_eq (col r ''report_tag'') (FStr report_tag))
              (post_reports db))) (\<lambda>r. Inr (r \<noteq> None))"

section \<open>Routes\<close>

abbreviation post_key :: "int \<Rightarrow> string" where
  "post_key post_id \<equiv> derive_cache_key ''posts'' (str_of_int post_id)"

definition load_post :: "server \<Rightarrow> int \<Rightarrow> (world, dto option) py" where
  "load_post sv post_id = load sv (post_key post_id) (on_db (get_post sv post_id)) PostResult (post_from_cache sv)"

record post_model =
  pm_forum_id :: int
  pm_title :: string
  pm_body :: string
  pm_client_tag :: "string option"

record post_amendment =
  pa_closed :: "bool option"
  pa_title :: "string option"
  pa_body :: "string option"

definition create_post :: "server \<Rightarrow> post_model \<Rightarrow> claims \<Rightarrow> string \<Rightarrow> string \<Rightarrow> (world, response) py" where
  "create_post sv model token uuid now =
     bindM (load_forum sv (pm_forum_id model)) (\<lambda>r.
     bindM (require 404 r) (\<lambda>forum.
     let tag = (if given (pm_client_tag model) then the (pm_client_tag model) else uuid) in
     thenM (guard_action (sv_cache sv) (str_of_int (sid token)) tag ''posts'' CREATE (Some RESOURCE_CREATION_PENDING_FLAG)
              (\<lambda>_. bindM (attr forum ''id_'') (\<lambda>fid.
                 emit sv POSTS (user_event POST_CREATE
                   [(''author_id'', PInt (sid token)), (''forum_id'', pyval_of fid), (''title'', PStr (pm_title model)),
                    (''body_text'', PStr (pm_body model)), (''time_posted'', PStr now)]
                   [counter (derive_hashmap_name ''forums'' ''posts'') (forum_key (pm_forum_id model)) ''posts'' 1,
                    counter (derive_hashmap_name ''users'' ''total_posts'') (derive_cache_key ''users'' (sub_claim token))
                      ''total_posts'' 1] []))))
     (JSONResponse [(''message'', JText ''post created'')] 202)))"

definition get_post_route :: "server \<Rightarrow> int \<Rightarrow> (world, response) py" where
  "get_post_route sv post_id =
     bindM (load_post sv post_id) (\<lambda>r.
     bindM (require 404 r) (\<lambda>post.
     bindM (lift_sum (result_json_repr PostResult post)) (\<lambda>json. JSONResponse [(''post'', JObj json)] 200)))"

text \<open>The three checks of an amendment; the attributes are read in the order of the code.\<close>

definition validate_duplicate_amendment_contents :: "post_amendment \<Rightarrow> dto \<Rightarrow> ('s, string list) py" where
  "validate_duplicate_amendment_contents model post =
     bindM (attr post ''closed'') (\<lambda>closed.
     bindM (attr post ''title'') (\<lambda>title.
     bindM (if \<not> given (pa_title model) \<and> pa_closed model = None
            then bindM (attr post ''body_text'') (\<lambda>b. pure (b = (case pa_body model of None \<Rightarrow> FNone | Some s \<Rightarrow> FStr s)))
            else pure False) (\<lambda>same_body.
       pure ((if truthy closed \<and> pa_closed model = Some True then [''closed''] else [])
           @ (if title = (case pa_title model of None \<Rightarrow> FNone | Some s \<Rightarrow> FStr s) then [''title''] else [])
           @ (if same_body then [''description''] else [])))))"

definition set_given :: "string \<Rightarrow> string option \<Rightarrow> dto \<Rightarrow> ('s, dto) py" where
  "set_given n x d = (if given x then pure (d(n \<mapsto> FStr (the x))) else bindM (attr d n) (\<lambda>v. pure (d(n \<mapsto> v))))"

definition edit_post :: "server \<Rightarrow> int \<Rightarrow> claims \<Rightarrow> post_amendment \<Rightarrow> (world, response) py" where
  "edit_post sv post_id token model =
     bindM (load_post sv post_id) (\<lambda>r.
     bindM (require 404 r) (\<lambda>post.
     bindM (attr post ''author_id'') (\<lambda>author.
     thenM (refuse_if (author \<noteq> FInt (sid token)) 403)
     (bindM (validate_duplicate_amendment_contents model post) (\<lambda>errors.
      thenM (refuse_if (errors \<noteq> []) 409)
      (thenM (update_post post_id (pa_title model) (pa_body model) (pa_closed model = Some True))
       (bindM (set_given ''body_text'' (pa_body model) post) (\<lambda>p1.
        bindM (set_given ''title'' (pa_title model) p1) (\<lambda>p2.
        let p3 = (case pa_closed model of None \<Rightarrow> p2 | Some b \<Rightarrow> p2(''closed'' \<mapsto> FBool b)) in
        bindM (lift_sum (result_cache_repr PostResult p3)) (\<lambda>m.
        thenM (hset_with_ttl (sv_cache sv) (post_key post_id) m (TTL_STRONG (sv_cache sv)))
        (bindM (lift_sum (result_json_repr PostResult p3)) (\<lambda>json.
           JSONResponse [(''message'', JText ''Post edited.''), (''post'', JObj json)] 200))))))))))))"

text \<open>The forum admin of a post's forum, for those who are not its author.\<close>

definition admin_may :: "server \<Rightarrow> field_value \<Rightarrow> claims \<Rightarrow> forum_permission \<Rightarrow> (world, unit) py" where
  "admin_may sv forum_id token permission =
     bindM (distributed_get_or_load (sv_cache sv) (admin_cache_key (str_of_value forum_id) (str_of_int (sid token))) []
              (on_db (\<lambda>db. case forum_id of
                 FInt f \<Rightarrow> get_forum_admin f (sid token) db
               | FStr s \<Rightarrow> (case int_of_str s of None \<Rightarrow> Inl SQLAlchemyError | Some f \<Rightarrow> get_forum_admin f (sid token) db)
               | _ \<Rightarrow> Inr None))
              forum_admin_repr (forum_admin_from_cache sv)) (\<lambda>a.
     bindM (require 403 a) (\<lambda>forum_admin.
       refuse_if (\<not> check_permission (fa_role forum_admin) permission) 403))"

definition delete_post :: "server \<Rightarrow> int \<Rightarrow> claims \<Rightarrow> string \<Rightarrow> (world, response) py" where
  "delete_post sv post_id token uuid =
     bindM (load_post sv post_id) (\<lambda>r.
     bindM (require 404 r) (\<lambda>post.
     thenM (guard_action (sv_cache sv) (str_of_int (sid token)) (str_of_int post_id) ''posts'' DELETE
              (Some RESOURCE_DELETION_PENDING_FLAG) (\<lambda>_.
        bindM (attr post ''author_id'') (\<lambda>author.
        thenM (if FInt (sid token) \<noteq> author
               then bindM (attr post ''forum_id'') (\<lambda>fid. admin_may sv fid token DELETE_POST)
               else pure ())
        (bindM (attr post ''forum_id'') (\<lambda>fid.
           emit sv POSTS (user_event POST_DELETE [(''post_id'', PInt post_id)]
             [counter (derive_hashmap_name ''forums'' ''posts'') (derive_cache_key ''forums'' (str_of_value fid)) ''posts'' (- 1)]
             [\<lparr>intent_name = create_intent_flag ''forums'' (action_value DELETE) (str_of_int (sid token)) (str_of_int post_id),
               update_flag = RESOURCE_DELETION_PENDING_FLAG, intent_id = uuid\<rparr>]))))))
     (JSONResponse [(''message'', JText ''post queued for deletion'')] 202)))"

text \<open>
  Votes, saves and reports.  The vote before the request is what the database has, \<open>None\<close>,
  \<open>Some True\<close> for an upvote and \<open>Some False\<close> for a downvote.
\<close>

definition vote_flag :: "int \<Rightarrow> intent_flag" where
  "vote_flag vote = (if vote = 1 then RESOURCE_CREATION_PENDING_FLAG else RESOURCE_CREATION_PENDING_ALT_FLAG)"

definition same_vote :: "bool option \<Rightarrow> int \<Rightarrow> bool" where
  "same_vote existing vote \<longleftrightarrow> existing = Some True \<and> vote = 1 \<or> existing = Some False \<and> vote = - 1"

definition vote_delta :: "bool option \<Rightarrow> int \<Rightarrow> int" where
  "vote_delta existing vote = (if existing = Some True then vote * 2 else vote)"

definition post_counters :: "int \<Rightarrow> field_value \<Rightarrow> string \<Rightarrow> int \<Rightarrow> counter_update list" where
  "post_counters post_id author field d =
     [counter (derive_hashmap_name ''posts'' field) (post_key post_id) field d,
      counter (derive_hashmap_name ''users'' ''aura'') (derive_cache_key ''users'' (str_of_value author)) ''aura'' d]"

definition post_event ::
  "event_name \<Rightarrow> action \<Rightarrow> intent_flag \<Rightarrow> int \<Rightarrow> int \<Rightarrow> string \<Rightarrow> (string \<times> pyval) list \<Rightarrow> counter_update list \<Rightarrow> event" where
  "post_event name act flag user_id post_id uuid extra cs =
     user_event name ([(''user_id'', PInt user_id), (''post_id'', PInt post_id)] @ extra) cs
       [\<lparr>intent_name = create_intent_flag ''posts'' (action_value act) (str_of_int user_id) (str_of_int post_id),
         update_flag = flag, intent_id = uuid\<rparr>]"

definition vote_post :: "server \<Rightarrow> int \<Rightarrow> claims \<Rightarrow> int \<Rightarrow> string \<Rightarrow> (world, response) py" where
  "vote_post sv post_id token vote uuid =
     bindM (load_post sv post_id) (\<lambda>r.
     bindM (require 404 r) (\<lambda>post.
     thenM (guard_action (sv_cache sv) (str_of_int (sid token)) (str_of_int post_id) ''posts'' VOTE (Some (vote_flag vote))
              (\<lambda>latest_intent.
        bindM (if no_intent latest_intent
               then bindM (on_db (get_vote post_id (sid token))) (\<lambda>existing_vote.
                      if same_vote existing_vote vote
                      then thenM (set_intent (sv_cache sv) uuid (str_of_int (sid token)) (str_of_int post_id) ''post_votes''
                                    VOTE (vote_flag vote) None) (raise (HTTPException 409))
                      else pure (vote_delta existing_vote vote))
               else pure vote) (\<lambda>d.
        bindM (attr post ''author_id'') (\<lambda>author.
          emit sv POSTS (post_event POST_VOTE VOTE (vote_flag vote) (sid token) post_id uuid [(''vote'', PInt d)]
            (post_counters post_id author ''score'' d))))))
     (JSONResponse [(''message'', JText ''Voted'')] 202)))"

text \<open>The delta of taking a vote back is the value of the vote, not its opposite.\<close>

definition unvote_delta :: "bool option \<Rightarrow> int" where
  "unvote_delta existing = (if existing = Some False then - 1 else 1)"

definition unvote_post :: "server \<Rightarrow> int \<Rightarrow> claims \<Rightarrow> string \<Rightarrow> (world, response) py" where
  "unvote_post sv post_id token uuid =
     bindM (load_post sv post_id) (\<lambda>r.
     bindM (require 404 r) (\<lambda>post.
     thenM (guard_action (sv_cache sv) (str_of_int (sid token)) (str_of_int post_id) ''posts'' VOTE
              (Some RESOURCE_DELETION_PENDING_FLAG) (\<lambda>latest_intent.
        bindM (if latest_intent = Some (intent_flag_value RESOURCE_CREATION_PENDING_ALT_FLAG) then pure (- 1)
               else if no_intent latest_intent
               then bindM (on_db (get_vote post_id (sid token))) (\<lambda>existing_vote.
                      if existing_vote = None
                      then thenM (set_intent (sv_cache sv) uuid (str_of_int (sid token)) (str_of_int post_id) ''post_votes''
                                    VOTE RESOURCE_DELETION_PENDING_FLAG None) (raise (HTTPException 409))
                      else pure (unvote_delta existing_vote))
               else pure 1) (\<lambda>d.
        bindM (attr post ''author_id'') (\<lambda>author.
          emit sv POSTS (post_event POST_UNVOTE VOTE RESOURCE_DELETION_PENDING_FLAG (sid token) post_id uuid
            [(''vote'', PInt d)] (post_counters post_id author ''score'' d))))))
     (JSONResponse [(''message'', JText ''Unvoted'')] 202)))"

definition save_post :: "server \<Rightarrow> int \<Rightarrow> claims \<Rightarrow> string \<Rightarrow> (world, response) py" where
  "save_post sv post_id token uuid =
     bindM (load_post sv post_id) (\<lambda>r.
     bindM (require 404 r) (\<lambda>post.
     thenM (guard_action (sv_cache sv) (str_of_int (sid token)) (str_of_int post_id) ''posts'' SAVE
              (Some RESOURCE_CREATION_PENDING_FLAG) (\<lambda>latest_intent.
        thenM (if no_intent latest_intent
               then bindM (on_db (check_saved post_id (sid token))) (\<lambda>saved.
                      if saved
                      then thenM (set_intent (sv_cache sv) uuid (str_of_int (sid token)) (str_of_int post_id) ''posts''
                                    SAVE RESOURCE_CREATION_PENDING_FLAG None) (raise (HTTPException 409))
                      else pure ())
               else pure ())
        (bindM (attr post ''author_id'') (\<lambda>author.
          emit sv POSTS (post_event POST_SAVE SAVE RESOURCE_CREATION_PENDING_FLAG (sid token) post_id uuid []
            (post_counters post_id author ''saves'' 1))))))
     (JSONResponse [(''message'', JText ''post saved'')] 202)))"

definition unsave_post :: "server \<Rightarrow> int \<Rightarrow> claims \<Rightarrow> string \<Rightarrow> (world, response) py" where
  "unsave_post sv post_id token uuid =
     bindM (load_post sv post_id) (\<lambda>r.
     bindM (require 404 r) (\<lambda>post.
     thenM (guard_action (sv_cache sv) (str_of_int (sid token)) (str_of_int post_id) ''posts'' SAVE
              (Some RESOURCE_DELETION_PENDING_FLAG) (\<lambda>latest_intent.
        thenM (if no_intent latest_intent
               then bindM (on_db (check_saved post_id (sid token))) (\<lambda>saved.
                      if \<not> saved
                      then thenM (set_intent (sv_cache sv) uuid (str_of_int (sid token)) (str_of_int post_id) ''posts''
                                    SAVE RESOURCE_DELETION_PENDING_FLAG None) (raise (HTTPException 409))
                      else pure ())
               else pure ())
        (bindM (attr post ''author_id'') (\<lambda>author.
          emit sv POSTS (post_event POST_UNSAVE SAVE RESOURCE_DELETION_PENDING_FLAG (sid token) post_id uuid []
            (post_counters post_id author ''saves'' (- 1)))))))
     (JSONResponse [(''message'', JText ''post unsaved'')] 202)))"

text \<open>
  A report looks for the indicators of a save, keeps the intent of a report, and is emitted
  under the name of an unsave.
\<close>

definition report_post :: "server \<Rightarrow> int \<Rightarrow> claims \<Rightarrow> string \<Rightarrow> string \<Rightarrow> string \<Rightarrow> string \<Rightarrow> (world, response) py" where
  "report_post sv post_id token tag description uuid now =
     bindM (load_post sv post_id) (\<lambda>r.
     bindM (require 404 r) (\<lambda>post.
     let resource_name = join NAME_SEPERATOR [''posts'', tag];
         user = str_of_int (sid token) in
     bindM (fetch_indicators (sv_cache sv) user (str_of_int post_id) resource_name SAVE) (\<lambda>(lock, latest_intent).
     thenM (refuse_if (lock \<noteq> RNone \<and> lock \<noteq> RText []) 409)
     (thenM (refuse_if (latest_intent \<noteq> None) 409)
     (bindM (on_db (check_reported post_id (sid token) tag)) (\<lambda>reported.
      thenM (if reported
             then thenM (set_intent (sv_cache sv) uuid user (str_of_int post_id) resource_name REPORT
                           RESOURCE_CREATION_PENDING_FLAG None) (raise (HTTPException 409))
             else pure ())
      (thenM (emit sv POSTS (user_event POST_UNSAVE
                [(''post_id'', PInt post_id), (''user_id'', PInt (sid token)), (''report_tag'', PStr tag),
                 (''report_description'', PStr description), (''report_time'', PDatetime now)]
                [counter (derive_hashmap_name ''posts'' ''reports'') (post_key post_id) ''reports'' 1]
                [\<lparr>intent_name = create_intent_flag resource_name (action_value REPORT) user (str_of_int post_id),
                  update_flag = RESOURCE_CREATION_PENDING_FLAG, intent_id = uuid\<rparr>]))
       (JSONResponse [(''message'', JText ''post reported'')] 202))))))))"

section \<open>Pages\<close>

text \<open>
  The rows of a page.  The order of the posts is given as the method itself, without a call:
  what the query makes of that is \<open>ordered\<close>, and \<open>recent\<close> tells the times after the bound.
\<close>

definition posts_from_rows :: "server \<Rightarrow> nat \<Rightarrow> (orm_row \<times> orm_row) list \<Rightarrow> exn + dto list" where
  "posts_from_rows sv limit rows = traverse (\<lambda>(p, u). post_from_orm sv p (col u ''username'')) (take limit rows)"

definition get_forum_posts ::
  "(orm_row list \<Rightarrow> exn + orm_row list) \<Rightarrow> (field_value \<Rightarrow> bool) \<Rightarrow> server \<Rightarrow> int \<Rightarrow> nat \<Rightarrow> int \<Rightarrow> rs_db \<Rightarrow> exn + dto list" where
  "get_forum_posts ordered recent sv forum_id limit cursor db =
     bindE (ordered (filter (\<lambda>r. id_after cursor r \<and> sql_eq (col r ''parent_forum'') (FInt forum_id) \<and> recent (col r ''time_posted''))
              (db_posts db))) (\<lambda>rows. posts_from_rows sv limit (with_author rows (users db)))"

definition get_user_posts ::
  "(orm_row list \<Rightarrow> exn + orm_row list) \<Rightarrow> server \<Rightarrow> field_value \<Rightarrow> nat \<Rightarrow> int \<Rightarrow> rs_db \<Rightarrow> exn + dto list" where
  "get_user_posts ordered sv user_id limit cursor db =
     bindE (ordered (filter (\<lambda>r. id_after cursor r \<and> sql_eq (col r ''author_id'') user_id) (db_posts db))) (\<lambda>rows.
       posts_from_rows sv limit (with_author rows (users db)))"

definition forum_posts_route ::
  "(orm_row list \<Rightarrow> exn + orm_row list) \<Rightarrow> (field_value \<Rightarrow> bool) \<Rightarrow> server \<Rightarrow> int \<Rightarrow> int \<Rightarrow> string \<Rightarrow> string \<Rightarrow>
   (world, response) py" where
  "forum_posts_route ordered recent sv forum_id cursor sort_option timeframe =
     bindM (load_forum sv forum_id) (\<lambda>r.
     bindM (require 404 r) (\<lambda>forum.
     bindM (derive_pagination_key (sv_cache sv) ''posts'' cursor [''forums'', str_of_int forum_id, sort_option, timeframe]) (\<lambda>key.
       page_response sv ''posts'' key (get_forum_posts ordered recent sv forum_id (PAGINATION_SIZE sv) cursor) PostResult PostResult
         (post_from_cache sv))))"

end
