(* ===== verification/Tenjin_Comments.thy ===== *)
theory Tenjin_Comments
  imports Tenjin_Posts
begin

text \<open>
  Comments: the repository (\<^verbatim>\<open>repositories/comment.py\<close>), the routes
  (\<^verbatim>\<open>routers/comments.py\<close>) and the comments of a post (\<^verbatim>\<open>routers/posts.py\<close>).
\<close>

section \<open>The repository\<close>

definition comment_from_orm :: "server \<Rightarrow> orm_row \<Rightarrow> field_value \<Rightarrow> field_value \<Rightarrow> exn + dto" where
  "comment_from_orm sv row author_id author_username =
     bindE (super_call sv (construct_from_orm CommentResult row)) (\<lambda>d.
       Inr (d(''author_id'' \<mapsto> author_id, ''author_username'' \<mapsto> author_username)))"

definition get_comment :: "server \<Rightarrow> int \<Rightarrow> rs_db \<Rightarrow> exn + dto option" where
  "get_comment sv comment_id db =
     (case with_author (filter (\<lambda>r. sql_eq (col r ''id_'') (FInt comment_id)) (db_comments db)) (users db) of
        [] \<Rightarrow> Inr None
      | (c, u) # _ \<Rightarrow> bindE (comment_from_orm sv c (col u ''id_'') (col u ''username'')) (\<lambda>d. Inr (Some d)))"

text \<open>The limit of a page of comments is not used.\<close>

definition get_post_comments :: "server \<Rightarrow> int \<Rightarrow> nat \<Rightarrow> int \<Rightarrow> rs_db \<Rightarrow> exn + dto list" where
  "get_post_comments sv post_id limit cursor db =
     traverse (\<lambda>(c, u). comment_from_orm sv c (col u ''id_'') (col u ''username''))
       (with_author (filter (\<lambda>r. id_after cursor r \<and> sql_eq (col r ''parent_post'') (FInt post_id)) (db_comments db)) (users db))"

definition comment_row_of :: "int \<Rightarrow> int \<Rightarrow> orm_row \<Rightarrow> bool" where
  "comment_row_of comment_id user_id r \<longleftrightarrow>
     sql_eq (col r ''user_id'') (FInt user_id) \<and> sql_eq (col r ''comment_id'') (FInt comment_id)"

definition get_comment_vote :: "int \<Rightarrow> int \<Rightarrow> rs_db \<Rightarrow> exn + bool option" where
  "get_comment_vote comment_id user_id db =
     bindE (one_or_none (filter (comment_row_of comment_id user_id) (comment_votes db))) (\<lambda>r. Inr (vote_type r))"

definition check_comment_reported :: "int \<Rightarrow> int \<Rightarrow> string \<Rightarrow> rs_db \<Rightarrow> exn + bool" where
  "check_comment_reported comment_id user_id report_tag db =
     bindE (one_or_none (filter (\<lambda>r. comment_row_of comment_id user_id r \<and> sql_eq (col r ''report_tag'') (FStr report_tag))
              (comment_reports db))) (\<lambda>r. Inr (r \<noteq> None))"

section \<open>Routes\<close>

abbreviation comment_key :: "int \<Rightarrow> string" where
  "comment_key comment_id \<equiv> derive_cache_key ''comments'' (str_of_int comment_id)"

definition load_comment :: "server \<Rightarrow> int \<Rightarrow> (world, dto option) py" where
  "load_comment sv comment_id =
     load sv (comment_key comment_id) (on_db (get_comment sv comment_id)) CommentResult (from_cache sv CommentResult)"

text \<open>
  Commenting looks for the indicators of the comment under its own identifier, which is new
  unless the client names it.
\<close>

definition comment_on_post ::
  "server \<Rightarrow> int \<Rightarrow> claims \<Rightarrow> string \<Rightarrow> string option \<Rightarrow> string \<Rightarrow> string \<Rightarrow> (world, response) py" where
  "comment_on_post sv post_id token body client_tag uuid now =
     bindM (load_post sv post_id) (\<lambda>r.
     bindM (require 404 r) (\<lambda>post.
     bindM (attr post ''closed'') (\<lambda>closed.
     thenM (refuse_if (truthy closed) 409)
     (bindM (fetch_indicators (sv_cache sv) (str_of_int (sid token)) (if given client_tag then the client_tag else uuid)
               ''comments'' CREATE) (\<lambda>(lock, latest_intent).
      thenM (refuse_if (lock \<noteq> RNone \<and> lock \<noteq> RText [] \<or> latest_intent \<noteq> None) 409)
      (bindM (attr post ''forum_id'') (\<lambda>fid.
       bindM (attr post ''id_'') (\<lambda>pid.
       thenM (emit sv COMMENTS (user_event COMMENT_CREATE
                [(''author_id'', PInt (sid token)), (''parent_forum'', pyval_of fid), (''parent_post'', pyval_of pid),
                 (''body'', PStr body), (''time_created'', PDatetime now)]
                [counter (derive_hashmap_name ''posts'' ''total_comments'') (post_key post_id) ''total_comments'' 1,
                 counter (derive_hashmap_name ''users'' ''total_comments'')
                   (derive_cache_key ''users'' (str_of_int (sid token))) ''total_comments'' 1] []))
        (JSONResponse [(''message'', JText ''Comment created'')] 202)))))))))"

text \<open>Deleting a comment takes it from the counter of who deletes it, not of its author.\<close>

definition delete_comment :: "server \<Rightarrow> int \<Rightarrow> int \<Rightarrow> claims \<Rightarrow> string \<Rightarrow> (world, response) py" where
  "delete_comment sv post_id comment_id token uuid =
     bindM (load_comment sv comment_id) (\<lambda>r.
     bindM (require 404 r) (\<lambda>comment.
     bindM (attr comment ''author_id'') (\<lambda>author.
     thenM (if author \<noteq> FInt (sid token)
            then bindM (attr comment ''parent_forum'') (\<lambda>fid. admin_may sv fid token DELETE_COMMENT)
            else pure ())
     (thenM (guard_action (sv_cache sv) (str_of_int (sid token)) (str_of_int comment_id) ''comments'' DELETE
               (Some RESOURCE_DELETION_PENDING_FLAG) (\<lambda>_.
         emit sv COMMENTS (user_event COMMENT_DELETE [(''comment_id'', PInt comment_id)]
           [counter (derive_hashmap_name ''posts'' ''total_comments'') (post_key post_id) ''total_comments'' (- 1),
            counter (derive_hashmap_name ''users'' ''total_comments'')
              (derive_cache_key ''users'' (str_of_int (sid token))) ''total_comments'' (- 1)]
           [\<lparr>intent_name = create_intent_flag ''comments'' (action_value DELETE) (str_of_int (sid token)) (str_of_int comment_id),
             update_flag = RESOURCE_DELETION_PENDING_FLAG, intent_id = uuid\<rparr>])))
      (JSONResponse [(''message'', JText ''Comment queued for deletion'')] 202)))))"

definition comment_event ::
  "event_name \<Rightarrow> action \<Rightarrow> intent_flag \<Rightarrow> int \<Rightarrow> int \<Rightarrow> string \<Rightarrow> pyval \<Rightarrow> field_value \<Rightarrow> int \<Rightarrow> event" where
  "comment_event name act flag user_id comment_id uuid vote author d =
     user_event name [(''user_id'', PInt user_id), (''comment_id'', PInt comment_id), (''vote'', vote)]
       [counter (derive_hashmap_name ''comments'' ''score'') (comment_key comment_id) ''score'' d,
        counter (derive_hashmap_name ''users'' ''aura'') (derive_cache_key ''users'' (str_of_value author)) ''aura'' d]
       [\<lparr>intent_name = create_intent_flag ''comments'' (action_value act) (str_of_int user_id) (str_of_int comment_id),
         update_flag = flag, intent_id = uuid\<rparr>]"

text \<open>
  The vote on a comment is looked up under the identifier of its post; the payload has the
  truth of \<open>1\<close> or \<open>-1\<close>.
\<close>

definition vote_comment :: "server \<Rightarrow> int \<Rightarrow> int \<Rightarrow> claims \<Rightarrow> int \<Rightarrow> string \<Rightarrow> (world, response) py" where
  "vote_comment sv post_id comment_id token vote uuid =
     bindM (load_comment sv comment_id) (\<lambda>r.
     bindM (require 404 r) (\<lambda>comment.
     thenM (guard_action (sv_cache sv) (str_of_int (sid token)) (str_of_int comment_id) ''comments'' VOTE
              (Some (vote_flag vote)) (\<lambda>latest_intent.
        bindM (if no_intent latest_intent
               then bindM (on_db (get_comment_vote post_id (sid token))) (\<lambda>existing_vote.
                      if same_vote existing_vote vote
                      then thenM (set_intent (sv_cache sv) uuid (str_of_int (sid token)) (str_of_int comment_id)
                                    ''comment_votes'' VOTE (vote_flag vote) None) (raise (HTTPException 409))
                      else pure (vote_delta existing_vote vote))
               else pure vote) (\<lambda>d.
        bindM (attr comment ''author_id'') (\<lambda>author.
          emit sv COMMENTS (comment_event COMMENT_VOTE VOTE (vote_flag vote) (sid token) comment_id uuid
            (PBool (vote \<noteq> 0)) author d)))))
     (JSONResponse [(''message'', JText ''Voted'')] 202)))"

definition unvote_comment :: "server \<Rightarrow> int \<Rightarrow> int \<Rightarrow> claims \<Rightarrow> string \<Rightarrow> (world, response) py" where
  "unvote_comment sv post_id comment_id token uuid =
     bindM (load_comment sv comment_id) (\<lambda>r.
     bindM (require 404 r) (\<lambda>comment.
     thenM (guard_action (sv_cache sv) (str_of_int (sid token)) (str_of_int comment_id) ''comments'' VOTE
              (Some RESOURCE_DELETION_PENDING_FLAG) (\<lambda>latest_intent.
        bindM (if latest_intent = Some (intent_flag_value RESOURCE_CREATION_PENDING_ALT_FLAG) then pure (- 1)
               else if no_intent latest_intent
               then bindM (on_db (get_comment_vote post_id (sid token))) (\<lambda>existing_vote.
                      if existing_vote \<noteq> Some True
                      then thenM (set_intent (sv_cache sv) uuid (str_of_int (sid token)) (str_of_int comment_id)
                                    ''comment_votes'' VOTE RESOURCE_DELETION_PENDING_FLAG None) (raise (HTTPException 409))
                      else pure (- 1))
               else pure (- 1)) (\<lambda>d.
        bindM (attr comment ''author_id'') (\<lambda>author.
          emit sv COMMENTS (comment_event COMMENT_UNVOTE UNVOTE RESOURCE_DELETION_PENDING_FLAG (sid token) comment_id uuid
            (PInt d) author d)))))
     (JSONResponse [(''message'', JText ''Removed vote'')] 202)))"

text \<open>Declared on the route of \<open>unvote_comment\<close>, which comes first, and so never called.\<close>

definition report_comment ::
  "server \<Rightarrow> int \<Rightarrow> claims \<Rightarrow> string \<Rightarrow> string \<Rightarrow> string \<Rightarrow> string \<Rightarrow> (world, response) py" where
  "report_comment sv comment_id token tag description uuid now =
     bindM (load_comment sv comment_id) (\<lambda>r.
     bindM (require 404 r) (\<lambda>comment.
     let resource_name = join NAME_SEPERATOR [''comments'', tag];
         user = str_of_int (sid token) in
     thenM (guard_action (sv_cache sv) user (str_of_int comment_id) resource_name REPORT
              (Some RESOURCE_CREATION_PENDING_FLAG) (\<lambda>latest_intent.
        thenM (if no_intent latest_intent
               then bindM (on_db (check_comment_reported comment_id (sid token) tag)) (\<lambda>reported.
                      if reported
                      then thenM (set_intent (sv_cache sv) uuid user (str_of_int comment_id) resource_name REPORT
                                    RESOURCE_CREATION_PENDING_FLAG None) (raise (HTTPException 409))
                      else pure ())
               else pure ())
        (emit sv COMMENTS (user_event POST_UNSAVE
           [(''comment_id'', PInt comment_id), (''user_id'', PInt (sid token)), (''report_tag'', PStr tag),
            (''report_description'', PStr description), (''report_time'', PDatetime now)]
           [counter (derive_hashmap_name ''comments'' ''reports'') (comment_key comment_id) ''reports'' 1]
           [\<lparr>intent_name = create_intent_flag resource_name (action_value REPORT) user (str_of_int comment_id),
             update_flag = RESOURCE_CREATION_PENDING_FLAG, intent_id = uuid\<rparr>]))))
     (JSONResponse [(''message'', JText ''post reported'')] 202)))"

definition post_comments_route :: "server \<Rightarrow> int \<Rightarrow> int \<Rightarrow> (world, response) py" where
  "post_comments_route sv post_id cursor =
     bindM (load_post sv post_id) (\<lambda>r.
     bindM (require 404 r) (\<lambda>post.
     bindM (derive_pagination_key (sv_cache sv) ''comments'' cursor []) (\<lambda>key.
       page_response sv ''comments'' key (get_post_comments sv post_id (PAGINATION_SIZE sv) cursor) CommentResult CommentResult
         (from_cache sv CommentResult))))"

end
