(* ===== verification/Tenjin_Users.thy ===== *)
theory Tenjin_Users
  imports Tenjin_Posts
begin

text \<open>
  Accounts: the repository (\<^verbatim>\<open>repositories/user.py\<close>) and the routes
  (\<^verbatim>\<open>routers/users.py\<close>).  Hashing and checking a password are \<open>sv_hashpw\<close> and
  \<open>sv_checkpw\<close> of the server; \<open>later\<close> tells the times after now.
\<close>

section \<open>The repository\<close>

definition is_user :: "field_value \<Rightarrow> orm_row \<Rightarrow> bool" where
  "is_user user_id r \<longleftrightarrow> sql_eq (col r ''id_'') user_id"

definition live_users :: "(orm_row \<Rightarrow> bool) \<Rightarrow> rs_db \<Rightarrow> exn + dto option" where
  "live_users p db =
     bindE (one_or_none (filter (\<lambda>r. p r \<and> col r ''deleted'' = FBool False) (users db))) (\<lambda>r.
       Inr (map_option (construct_from_orm UserResult) r))"

definition get_user_by_username :: "string \<Rightarrow> rs_db \<Rightarrow> exn + dto option" where
  "get_user_by_username username = live_users (\<lambda>r. sql_eq (col r ''username'') (FStr username))"

definition get_user_by_email :: "string \<Rightarrow> rs_db \<Rightarrow> exn + dto option" where
  "get_user_by_email email = live_users (\<lambda>r. sql_eq (col r ''email'') (FStr email))"

definition get_user_by_identity :: "string \<Rightarrow> string \<Rightarrow> rs_db \<Rightarrow> exn + dto list" where
  "get_user_by_identity username email db =
     Inr (map (construct_from_orm UserResult)
       (filter (\<lambda>r. sql_eq (col r ''username'') (FStr username) \<or> sql_eq (col r ''email'') (FStr email)) (users db)))"

text \<open>
  An \<open>INSERT\<close> without \<open>RETURNING\<close> gives no rows: asking for one raises, before the commit.
\<close>

definition add_user :: "string \<Rightarrow> string \<Rightarrow> string \<Rightarrow> (world, dto) py" where
  "add_user username email password =
     bindM (on_db (\<lambda>db.
       if list_ex (\<lambda>r. col r ''username'' = FStr username \<or> col r ''email'' = FStr email) (users db)
       then Inl IntegrityError
       else (exactly_one [] :: exn + orm_row))) (\<lambda>row.
     thenM (commit_db (\<lambda>db. Inr (db\<lparr>users := users db @ [row]\<rparr>))) (pure (construct_from_orm UserResult row)))"

definition set_password_recovery_token :: "field_value \<Rightarrow> string \<Rightarrow> string \<Rightarrow> (world, unit) py" where
  "set_password_recovery_token user_id url_hash expiry =
     commit_db (\<lambda>db.
       let others = filter (\<lambda>r. \<not> sql_eq (col r ''user_id'') user_id) (recovery_tokens db) in
       if \<not> list_ex (is_user user_id) (users db) \<or> list_ex (\<lambda>r. col r ''url_hash'' = FStr url_hash) others
       then Inl IntegrityError
       else Inr (db\<lparr>recovery_tokens :=
              others @ [[(''user_id'', user_id), (''expiry'', FTime expiry), (''url_hash'', FStr url_hash)]]\<rparr>))"

definition get_user_password_recovery_token :: "int \<Rightarrow> rs_db \<Rightarrow> exn + dto option \<times> field_value \<times> field_value" where
  "get_user_password_recovery_token user_id db =
     (case filter (is_user (FInt user_id)) (users db) of
        [] \<Rightarrow> Inr (None, FNone, FNone)
      | u # _ \<Rightarrow>
          (case filter (\<lambda>t. sql_eq (col t ''user_id'') (col u ''id_'')) (recovery_tokens db) of
             [] \<Rightarrow> Inr (Some (construct_from_orm UserResult u), FNone, FNone)
           | t # _ \<Rightarrow> Inr (Some (construct_from_orm UserResult u), col t ''url_hash'', col t ''expiry'')))"

text \<open>The tokens are deleted where the user has the identifier, whosever they are.\<close>

definition update_password_row :: "int \<Rightarrow> string \<Rightarrow> (world, unit) py" where
  "update_password_row user_id password_hash =
     commit_db (\<lambda>db. Inr (db\<lparr>
       users := update_rows (is_user (FInt user_id)) [(''pw_hash'', FStr password_hash)] (users db),
       recovery_tokens := (if list_ex (is_user (FInt user_id)) (users db) then [] else recovery_tokens db)\<rparr>))"

definition get_user_password :: "field_value \<Rightarrow> rs_db \<Rightarrow> exn + string" where
  "get_user_password user_id db =
     bindE (exactly_one (filter (is_user user_id) (users db))) (\<lambda>r.
       case col r ''pw_hash'' of FStr s \<Rightarrow> Inr s | _ \<Rightarrow> Inl TypeError)"

definition delete_user_row :: "field_value \<Rightarrow> string \<Rightarrow> (world, unit) py" where
  "delete_user_row user_id deletion_time =
     commit_db (\<lambda>db. Inr (db\<lparr>users :=
       update_rows (is_user user_id) [(''deleted'', FBool True), (''deletion_time'', FTime deletion_time)] (users db)\<rparr>))"

definition recover_user :: "int \<Rightarrow> (world, unit) py" where
  "recover_user user_id =
     commit_db (\<lambda>db. Inr (db\<lparr>users :=
       update_rows (is_user (FInt user_id)) [(''deleted'', FBool False), (''deletion_time'', FNone)] (users db)\<rparr>))"

text \<open>
  The profile with what is private, which no route asks for: its mapping for the cache is an error
  either way.
\<close>

record private_user =
  pu_fields :: dto
  pu_pw_hash :: field_value
  pu_deleted :: field_value
  pu_time_deleted :: field_value

definition private_user_from_orm :: "server \<Rightarrow> orm_row \<Rightarrow> exn + private_user" where
  "private_user_from_orm sv r =
     bindE (super_call sv (construct_from_orm UserResult r)) (\<lambda>d.
       Inr \<lparr>pu_fields = d, pu_pw_hash = col r ''pw_hash'', pu_deleted = col r ''deleted'', pu_time_deleted = col r ''deletion_time''\<rparr>)"

definition private_user_from_cache :: "(string \<rightharpoonup> string) \<Rightarrow> exn + private_user" where
  "private_user_from_cache h = Inl RuntimeError"

definition private_user_cache_repr :: "private_user \<Rightarrow> exn + (string \<times> string) list" where
  "private_user_cache_repr u = Inl RuntimeError"

definition get_full_user_profile :: "server \<Rightarrow> string \<Rightarrow> bool \<Rightarrow> rs_db \<Rightarrow> exn + private_user option" where
  "get_full_user_profile sv username skip_deleted db =
     bindE (one_or_none (filter (\<lambda>r. sql_eq (col r ''username'') (FStr username) \<and>
              (skip_deleted \<longrightarrow> col r ''deleted'' = FBool False)) (users db))) (\<lambda>r.
       case r of None \<Rightarrow> Inr None | Some row \<Rightarrow> bindE (private_user_from_orm sv row) (\<lambda>u. Inr (Some u)))"

section \<open>Routes\<close>

abbreviation user_key :: "string \<Rightarrow> string" where
  "user_key username \<equiv> derive_cache_key ''users'' username"

definition load_user :: "server \<Rightarrow> string \<Rightarrow> (world, dto option) py" where
  "load_user sv username =
     load sv (user_key username) (on_db (get_user_by_username username)) UserResult (from_cache sv UserResult)"

text \<open>\<open>__json_repr__\<close> as the mapping of a hash: text and numbers only.\<close>

definition hash_of_json :: "(string \<times> field_value) list \<Rightarrow> exn + (string \<times> string) list" where
  "hash_of_json kvs = traverse (\<lambda>(k, v). bindE (encode_value v) (\<lambda>s. Inr (k, s))) kvs"

definition cache_user_json :: "server \<Rightarrow> string \<Rightarrow> dto \<Rightarrow> (world, unit) py" where
  "cache_user_json sv key user =
     bindM (lift_sum (result_json_repr UserResult user)) (\<lambda>json.
     bindM (lift_sum (hash_of_json json)) (\<lambda>m. hset_with_ttl (sv_cache sv) key m (TTL_WEAK (sv_cache sv))))"

definition register_user :: "server \<Rightarrow> string \<Rightarrow> string \<Rightarrow> string \<Rightarrow> (world, response) py" where
  "register_user sv username email password =
     bindM (on_db (get_user_by_identity username email)) (\<lambda>existing_users.
     thenM (if existing_users = [] then pure ()
            else if length existing_users = 2 then raise (HTTPException 409)
            else bindM (attr (hd existing_users) ''username'') (\<lambda>_. raise (HTTPException 409)))
     (bindM (add_user username email (sv_hashpw sv password)) (\<lambda>user.
      bindM (attr user ''id_'') (\<lambda>uid.
      thenM (cache_user_json sv (user_key (str_of_value uid)) user)
      (bindM (lift_sum (result_json_repr UserResult user)) (\<lambda>json.
         JSONResponse [(''message'', JText ''account created''), (''user'', JObj json)] 201))))))"

definition delete_user :: "server \<Rightarrow> string \<Rightarrow> string \<Rightarrow> string \<Rightarrow> (world, response) py" where
  "delete_user sv username password deletion_time =
     bindM (load_user sv username) (\<lambda>r.
     bindM (require 404 r) (\<lambda>user.
     bindM (attr user ''id_'') (\<lambda>uid.
     bindM (on_db (get_user_password uid)) (\<lambda>password_hash.
     thenM (refuse_if (\<not> sv_checkpw sv password password_hash) 403)
     (bindM (fetch_indicators (sv_cache sv) username username ''users'' DELETE) (\<lambda>(lock, latest_intent).
      thenM (refuse_if (lock \<noteq> RNone \<and> lock \<noteq> RText []) 409)
      (thenM (refuse_if (latest_intent = Some RESOURCE_DELETION_PENDING_FLAG) 409)
      (thenM (set_negative_mapping (sv_cache sv) (user_key username) None)
      (thenM (delete_user_row uid deletion_time)
      (thenM (emit sv USERS (user_event USER_CLEANUP
                [(''user_id'', pyval_of uid), (''time_deleted'', PDatetime deletion_time)] [] []))
       (JSONResponse [(''message'', JText ''Account marked for deletion''),
                      (''details'', JObj [(''info'', FStr ''Your contributions will soon be deleted'')])] 202)))))))))))"

text \<open>
  \<open>generate_url_token\<close>: the digest of a fresh text is read as UTF-8, which \<open>sha256_utf8\<close> does or
  refuses.
\<close>

definition generate_url_token :: "(string \<Rightarrow> exn + string) \<Rightarrow> string \<Rightarrow> string \<Rightarrow> exn + string" where
  "generate_url_token sha256_utf8 uuid stamp = sha256_utf8 (uuid @ stamp)"

definition email_identity :: "string \<Rightarrow> bool" where
  "email_identity identity \<longleftrightarrow> CHR ''@'' \<in> set identity"

definition recover_password ::
  "server \<Rightarrow> (string \<Rightarrow> exn + string) \<Rightarrow> string \<Rightarrow> string \<Rightarrow> string \<Rightarrow> string \<Rightarrow> (world, response) py" where
  "recover_password sv sha256_utf8 identity uuid stamp expiry =
     bindM (on_db (if email_identity identity then get_user_by_email identity else get_user_by_username identity)) (\<lambda>r.
     bindM (require 404 r) (\<lambda>user.
     bindM (lift_sum (generate_url_token sha256_utf8 uuid stamp)) (\<lambda>url_token.
     bindM (attr user ''id_'') (\<lambda>uid.
     thenM (set_password_recovery_token uid url_token expiry)
     (JSONResponse [(''message'', JText ''An email has been sent to account'')] 202)))))"

text \<open>The comparison with now refuses the tokens that have not expired.\<close>

definition update_password ::
  "server \<Rightarrow> (field_value \<Rightarrow> bool) \<Rightarrow> int \<Rightarrow> string \<Rightarrow> string \<Rightarrow> (world, response) py" where
  "update_password sv later user_id temp_url password =
     bindM (on_db (get_user_password_recovery_token user_id)) (\<lambda>(r, url, expiry).
     bindM (require 404 r) (\<lambda>user.
     thenM (refuse_if (\<not> truthy url) 404)
     (thenM (refuse_if (url \<noteq> FStr temp_url) 403)
     (thenM (if expiry = FNone then raise TypeError else refuse_if (later expiry) 403)
     (thenM (update_password_row user_id (sv_hashpw sv password))
     (thenM (cache_user_json sv (user_key (str_of_int user_id)) user)
      (JSONResponse [(''message'', JText ''password reset'')] 200)))))))"

definition get_user_route :: "server \<Rightarrow> string \<Rightarrow> (world, response) py" where
  "get_user_route sv username =
     bindM (load_user sv username) (\<lambda>r.
     bindM (require 404 r) (\<lambda>user.
     bindM (lift_sum (result_json_repr UserResult user)) (\<lambda>json. JSONResponse [(''user'', JObj json)] 200)))"

definition user_posts_route ::
  "(orm_row list \<Rightarrow> exn + orm_row list) \<Rightarrow> server \<Rightarrow> string \<Rightarrow> int \<Rightarrow> string \<Rightarrow> (world, response) py" where
  "user_posts_route ordered sv username cursor sort_option =
     bindM (load_user sv username) (\<lambda>r.
     bindM (require 404 r) (\<lambda>user.
     bindM (derive_pagination_key (sv_cache sv) ''posts'' cursor [sort_option]) (\<lambda>key.
     bindM (attr user ''id_'') (\<lambda>uid.
       page_response sv ''posts'' key (get_user_posts ordered sv uid (PAGINATION_SIZE sv) cursor) PostResult PostResult
         (post_from_cache sv)))))"

text \<open>
  The subscribed forums are asked for with the class of posts; the subscription rows come in
  the order \<open>ordered\<close> makes of the uncalled method.
\<close>

definition get_user_forums ::
  "(orm_row list \<Rightarrow> exn + orm_row list) \<Rightarrow> field_value \<Rightarrow> nat \<Rightarrow> int \<Rightarrow> rs_db \<Rightarrow> exn + dto list" where
  "get_user_forums ordered user_id limit cursor db =
     bindE (ordered (filter (\<lambda>s. sql_eq (col s ''user_id'') user_id \<and>
              (case col s ''forum_id'' of FInt n \<Rightarrow> cursor < n | _ \<Rightarrow> False)) (forum_subscriptions db))) (\<lambda>subs.
       Inr (map (construct_from_orm ForumResult) (take limit (concat (map (\<lambda>s.
         filter (\<lambda>f. sql_eq (col f ''id_'') (col s ''forum_id'')) (forums db)) subs)))))"

definition user_forums_route ::
  "(orm_row list \<Rightarrow> exn + orm_row list) \<Rightarrow> server \<Rightarrow> string \<Rightarrow> int \<Rightarrow> string \<Rightarrow> (world, response) py" where
  "user_forums_route ordered sv username cursor sort_option =
     bindM (load_user sv username) (\<lambda>r.
     bindM (require 404 r) (\<lambda>user.
     bindM (derive_pagination_key (sv_cache sv) ''forums'' cursor [sort_option]) (\<lambda>key.
     bindM (attr user ''id_'') (\<lambda>uid.
       page_response sv ''forums'' key (get_user_forums ordered uid (PAGINATION_SIZE sv) cursor) ForumResult PostResult
         (post_from_cache sv)))))"

text \<open>
  The subscribed animes too: those just loaded are animes, those from the cache posts.
\<close>

definition user_anime_cursor :: "server \<Rightarrow> (anime_result + dto) option \<Rightarrow> exn + string" where
  "user_anime_cursor sv x =
     (case map_option (case_sum (\<lambda>a. an_fields a ''id_'') (\<lambda>d. map_option pyval_of (d ''id_''))) x of
        Some (Some (PInt n)) \<Rightarrow> to_base64url n (PAGINATION_CURSOR_LENGTH sv)
      | _ \<Rightarrow> Inl AttributeError)"

definition user_anime_json :: "(anime_result + dto) option \<Rightarrow> exn + (string \<times> field_value) list" where
  "user_anime_json x =
     (case x of
        None \<Rightarrow> Inl AttributeError
      | Some (Inl a) \<Rightarrow> anime_json (Some a)
      | Some (Inr d) \<Rightarrow> result_json_repr PostResult d)"

definition user_animes_route ::
  "(orm_row list \<Rightarrow> exn + orm_row list) \<Rightarrow> server \<Rightarrow> string \<Rightarrow> int \<Rightarrow> string \<Rightarrow> (world, response) py" where
  "user_animes_route ordered sv username cursor sort_option =
     bindM (load_user sv username) (\<lambda>r.
     bindM (require 404 r) (\<lambda>user.
     bindM (derive_pagination_key (sv_cache sv) ''animes'' cursor [sort_option]) (\<lambda>key.
     bindM (attr user ''id_'') (\<lambda>uid.
     bindM (distributed_pagination_get_or_load (sv_cache sv) key []
              (on_db (\<lambda>db. bindE (get_user_animes ordered sv uid (PAGINATION_SIZE sv) cursor db) (\<lambda>as.
                 bindE (keyed_animes as) (\<lambda>ks. Inr (map (\<lambda>(k, a). (k, Inl a)) ks)))))
              (case_sum anime_cache_repr (result_cache_repr PostResult))
              (\<lambda>h. bindE (post_from_cache sv h) (\<lambda>d. Inr (Inr d)))) (\<lambda>(xs, next).
     bindM (if next \<noteq> CURSOR_UNDERIVABLE_SENTINEL then pure next
            else if xs = [] then raise IndexError
            else lift_sum (user_anime_cursor sv (last xs))) (\<lambda>next_cursor.
     bindM (lift_sum (traverse user_anime_json xs)) (\<lambda>js.
       JSONResponse [(''animes'', JObjs js), (''cursor'', JText next_cursor)] 200)))))))"

text \<open>The forums of an anime (\<^verbatim>\<open>repositories/forum.py\<close>, \<^verbatim>\<open>routers/animes.py\<close>).\<close>

definition get_forums ::
  "(string \<Rightarrow> field_value \<Rightarrow> bool) \<Rightarrow> int \<Rightarrow> string option \<Rightarrow> int option \<Rightarrow> rs_db \<Rightarrow> exn + dto list" where
  "get_forums ilike cursor search parent_anime_id db =
     Inr (map (construct_from_orm ForumResult)
       (filter (\<lambda>f. id_after cursor f \<and> (given search \<longrightarrow> ilike (the search) (col f ''name_'')) \<and>
           (case parent_anime_id of None \<Rightarrow> True | Some a \<Rightarrow> a = 0 \<or> sql_eq (col f ''parent_anime'') (FInt a))) (forums db)))"

definition anime_forums_route ::
  "(string \<Rightarrow> field_value \<Rightarrow> bool) \<Rightarrow> server \<Rightarrow> int \<Rightarrow> int \<Rightarrow> string option \<Rightarrow> (world, response) py" where
  "anime_forums_route ilike sv anime_id cursor search =
     bindM (load_anime sv anime_id) (\<lambda>r.
     bindM (require 404 r) (\<lambda>anime.
     bindM (derive_pagination_key (sv_cache sv) ''forums'' cursor [case search of None \<Rightarrow> [] | Some s \<Rightarrow> s]) (\<lambda>key.
       page_response sv ''forums'' key (get_forums ilike cursor search (Some anime_id)) ForumResult ForumResult
         (from_cache sv ForumResult))))"

definition user_login :: "server \<Rightarrow> string \<Rightarrow> string \<Rightarrow> string \<Rightarrow> (world, response) py" where
  "user_login sv identity password login_time =
     bindM (if email_identity identity then on_db (get_user_by_email identity) else load_user sv identity) (\<lambda>r.
     bindM (require 404 r) (\<lambda>user.
     bindM (attr user ''id_'') (\<lambda>uid.
     bindM (on_db (get_user_password uid)) (\<lambda>password_hash.
     thenM (refuse_if (\<not> sv_checkpw sv password password_hash) 403)
     (bindM (attr user ''username'') (\<lambda>name.
      JSONResponse [(''message'', JText ''authentication successful''), (''username'', JVal name), (''id'', JVal uid),
                    (''login_time'', JText login_time)] 200))))))"

section \<open>Resetting a password\<close>

lemma user_without_json: "d ''id_'' = None \<Longrightarrow> result_json_repr UserResult d = Inl AttributeError"
  by (simp add: result_json_repr_def public_fields_def UserResult_def bindE_def)

text \<open>
  C23.  The test of the expiry of a recovery token is inverted: with the right token, the password is
  refused with 403 as long as the token is valid.  Once the token has expired, the password of
  the user is changed and every recovery token of every user is deleted; then the request fails
  with an \<open>AttributeError\<close>, before it answers.
\<close>

theorem reset_inverted:
  assumes user: "filter (is_user (FInt j)) (users (w_db w)) = [u]"
    and token: "filter (\<lambda>t. sql_eq (col t ''user_id'') (col u ''id_'')) (recovery_tokens (w_db w)) = [t]"
    and url: "col t ''url_hash'' = FStr url" "url \<noteq> []" and expiry: "col t ''expiry'' = FTime e"
  shows "update_password sv later j url p w =
    (if later (FTime e) then (Inl (HTTPException 403), w)
     else (Inl AttributeError, w\<lparr>w_db := (w_db w)\<lparr>
       users := update_rows (is_user (FInt j)) [(''pw_hash'', FStr (sv_hashpw sv p))] (users (w_db w)), recovery_tokens := []\<rparr>\<rparr>))"
proof -
  have "list_ex (is_user (FInt j)) (users (w_db w))"
  proof -
    have "u \<in> set (filter (is_user (FInt j)) (users (w_db w)))" unfolding user by simp
    then show ?thesis by (auto simp: list_ex_iff)
  qed
  moreover have "construct_from_orm UserResult u ''id_'' = None" by (rule unset_field) simp_all
  ultimately show ?thesis
    using assms
    by (simp add: update_password_def on_db_def get_user_password_recovery_token_def require_def bindM_def thenM_def refuse_if_def
        update_password_row_def commit_db_def cache_user_json_def user_without_json lift_sum_def)
qed

definition demo_reset :: world where
  "demo_reset =
     \<lparr>w_store = Map.empty,
      w_db = empty_db\<lparr>users := [[(''id_'', FInt 3), (''pw_hash'', FStr ''old'')], [(''id_'', FInt 4), (''pw_hash'', FStr ''other'')]],
        recovery_tokens := [[(''user_id'', FInt 4), (''url_hash'', FStr ''v''), (''expiry'', FTime ''t4'')],
                            [(''user_id'', FInt 3), (''url_hash'', FStr ''u''), (''expiry'', FTime ''t3'')]]\<rparr>,
      w_genres = False\<rparr>"

theorem reset_inverted_witness:
  "update_password demo_server (\<lambda>v. v = FTime ''t3'') 3 ''u'' ''new'' demo_reset = (Inl (HTTPException 403), demo_reset) \<and>
   fst (update_password demo_server (\<lambda>_. False) 3 ''u'' ''new'' demo_reset) = Inl AttributeError \<and>
   recovery_tokens (w_db (snd (update_password demo_server (\<lambda>_. False) 3 ''u'' ''new'' demo_reset))) = []"
proof -
  let ?u = "[(''id_'', FInt 3), (''pw_hash'', FStr ''old'')]"
  let ?t = "[(''user_id'', FInt 3), (''url_hash'', FStr ''u''), (''expiry'', FTime ''t3'')]"
  have "filter (is_user (FInt 3)) (users (w_db demo_reset)) = [?u]"
    by (simp add: demo_reset_def empty_db_def is_user_def col_def)
  moreover have "filter (\<lambda>t. sql_eq (col t ''user_id'') (col ?u ''id_'')) (recovery_tokens (w_db demo_reset)) = [?t]"
    by (simp add: demo_reset_def empty_db_def col_def)
  moreover have "col ?t ''url_hash'' = FStr ''u''" "col ?t ''expiry'' = FTime ''t3''" by (simp_all add: col_def)
  ultimately show ?thesis
    using reset_inverted [of 3 demo_reset ?u ?t "''u''" "''t3''" demo_server] by simp
qed

end
