(* ===== verification/Tenjin_Service.thy ===== *)
theory Tenjin_Service
  imports Tenjin_Comments Tenjin_Users
begin

text \<open>
  The resource server as a whole: its requests, the worlds a sequence of them can reach, and
  what every one of them answers.
\<close>

section \<open>Requests\<close>

text \<open>
  What the queries and the clock are given, and one constructor per route, with the request's
  parameters, the claims of its token, and the identifiers and times the route makes up.  The
  routes that change a forum or its admins are the subject of the forum theory.
\<close>

record queries =
  q_ordered :: "orm_row list \<Rightarrow> exn + orm_row list"
  q_recent :: "field_value \<Rightarrow> bool"
  q_ilike :: "string \<Rightarrow> field_value \<Rightarrow> bool"
  q_later :: "field_value \<Rightarrow> bool"
  q_sha256 :: "string \<Rightarrow> exn + string"

datatype request =
    GetForum int | ForumPosts int int string string | CreateForum claims string string int int
  | DeleteForum int claims string | SubscribeForum int claims string string | UnsubscribeForum int claims string string
  | CreatePost post_model claims string string | GetPost int | EditPost int claims post_amendment
  | DeletePost int claims string | VotePost int claims int string | UnvotePost int claims string
  | SavePost int claims string | UnsavePost int claims string | ReportPost int claims string string string string
  | PostComments int int
  | CommentOnPost int claims string "string option" string string | DeleteComment int int claims string
  | VoteComment int int claims int string | UnvoteComment int int claims string
  | ReportComment int claims string string string string
  | RegisterUser string string string | DeleteUser string string string | RecoverPassword string string string string
  | UpdatePassword int string string | GetUser string | UserPosts string int string | UserForums string int string
  | UserAnimes string int string | LoginUser string string string
  | GetAnime int | SubAnime int claims string string | UnsubAnime int claims string string
  | GetAnimes int "string list" "string option" | AnimeLinks int | AnimeForums int int "string option"
  | IssueTicket string string string | ForumAdmins int | ListGenres

fun handle :: "server \<Rightarrow> queries \<Rightarrow> request \<Rightarrow> (world, response) py" where
  "handle sv q (GetForum f) = get_forum_route sv f"
| "handle sv q (ForumPosts f c s t) = forum_posts_route (q_ordered q) (q_recent q) sv f c s t"
| "handle sv q (CreateForum tok t d a i) = create_forum sv tok t d a i"
| "handle sv q (DeleteForum f tok now) = delete_forum sv f tok now"
| "handle sv q (SubscribeForum f tok u now) = subscribe_forum sv f tok u now"
| "handle sv q (UnsubscribeForum f tok u now) = unsubscribe_forum sv f tok u now"
| "handle sv q (CreatePost m tok u now) = create_post sv m tok u now"
| "handle sv q (GetPost p) = get_post_route sv p"
| "handle sv q (EditPost p tok m) = edit_post sv p tok m"
| "handle sv q (DeletePost p tok u) = delete_post sv p tok u"
| "handle sv q (VotePost p tok v u) = vote_post sv p tok v u"
| "handle sv q (UnvotePost p tok u) = unvote_post sv p tok u"
| "handle sv q (SavePost p tok u) = save_post sv p tok u"
| "handle sv q (UnsavePost p tok u) = unsave_post sv p tok u"
| "handle sv q (ReportPost p tok t d u now) = report_post sv p tok t d u now"
| "handle sv q (PostComments p c) = post_comments_route sv p c"
| "handle sv q (CommentOnPost p tok b t u now) = comment_on_post sv p tok b t u now"
| "handle sv q (DeleteComment p c tok u) = delete_comment sv p c tok u"
| "handle sv q (VoteComment p c tok v u) = vote_comment sv p c tok v u"
| "handle sv q (UnvoteComment p c tok u) = unvote_comment sv p c tok u"
| "handle sv q (ReportComment c tok t d u now) = report_comment sv c tok t d u now"
| "handle sv q (RegisterUser n e p) = register_user sv n e p"
| "handle sv q (DeleteUser n p now) = delete_user sv n p now"
| "handle sv q (RecoverPassword i u s x) = recover_password sv (q_sha256 q) i u s x"
| "handle sv q (UpdatePassword i u p) = update_password sv (q_later q) i u p"
| "handle sv q (GetUser n) = get_user_route sv n"
| "handle sv q (UserPosts n c s) = user_posts_route (q_ordered q) sv n c s"
| "handle sv q (UserForums n c s) = user_forums_route (q_ordered q) sv n c s"
| "handle sv q (UserAnimes n c s) = user_animes_route (q_ordered q) sv n c s"
| "handle sv q (LoginUser i p now) = user_login sv i p now"
| "handle sv q (GetAnime a) = get_anime_route sv a"
| "handle sv q (SubAnime a tok u now) = sub_anime sv a tok u now"
| "handle sv q (UnsubAnime a tok u now) = unsub_anime sv a tok u now"
| "handle sv q (GetAnimes c gs s) = get_animes_route (q_ilike q) sv c gs s"
| "handle sv q (AnimeLinks a) = anime_links_route sv a"
| "handle sv q (AnimeForums a c s) = anime_forums_route (q_ilike q) sv a c s"
| "handle sv q (IssueTicket e d now) = issue_ticket sv e d now"
| "handle sv q (ForumAdmins f) = forum_admins_route sv f"
| "handle sv q ListGenres = anime_genres_route"

text \<open>One request after the other; what a request does stays, also when it fails.\<close>

definition serves :: "server \<Rightarrow> queries \<Rightarrow> world \<Rightarrow> world \<Rightarrow> bool" where
  "serves sv q w w' \<longleftrightarrow> (\<exists>rq. w' = snd (handle sv q rq w))"

section \<open>A cache without results\<close>

text \<open>What the requests leave alone of the database: everything but passwords and their tokens.\<close>

definition content :: "rs_db \<Rightarrow> rs_db" where
  "content db = db\<lparr>recovery_tokens := [], users := map (filter (\<lambda>(c, _). c \<noteq> ''pw_hash'')) (users db)\<rparr>"

definition result_key :: "string \<Rightarrow> bool" where
  "result_key k \<longleftrightarrow> (\<exists>name \<in> {''forums'', ''posts'', ''comments'', ''users'', ''animes''}. \<exists>x. k = derive_cache_key name x)"

text \<open>Under the key of a result, nothing but the mark of a missing one; no pages.\<close>

definition only_marks :: "string \<Rightarrow> (string \<rightharpoonup> string) \<Rightarrow> bool" where
  "only_marks k h \<longleftrightarrow> (result_key k \<longrightarrow> dom h \<subseteq> {''__NF__''})"

definition idle_store :: "rstore \<Rightarrow> bool" where
  "idle_store st \<longleftrightarrow>
     (\<forall>k h t. st k = Some (VHash h, t) \<longrightarrow> only_marks k h) \<and> (\<forall>k l t. st k \<noteq> Some (VList l, t)) \<and>
     (\<forall>n v t. st (anime_key n) = Some (VStr v, t) \<longrightarrow> v = ''__NF__'')"

definition idle :: "rs_db \<Rightarrow> world \<Rightarrow> bool" where
  "idle c w \<longleftrightarrow> idle_store (w_store w) \<and> content (w_db w) = c"

fun idle_cmd :: "rcmd \<Rightarrow> bool" where
  "idle_cmd (R_HSET k m) \<longleftrightarrow> (result_key k \<longrightarrow> fst ` set m \<subseteq> {''__NF__''})"
| "idle_cmd (R_SET k v nx ex) \<longleftrightarrow> (\<forall>n. k = anime_key n \<longrightarrow> v = ''__NF__'')"
| "idle_cmd (R_GET k) \<longleftrightarrow> True"
| "idle_cmd (R_DEL k) \<longleftrightarrow> True"
| "idle_cmd (R_TTL k) \<longleftrightarrow> True"
| "idle_cmd (R_EXPIRE k t) \<longleftrightarrow> True"
| "idle_cmd (R_HGET k f) \<longleftrightarrow> True"
| "idle_cmd (R_HGETALL k) \<longleftrightarrow> True"
| "idle_cmd (R_LRANGE_ALL k) \<longleftrightarrow> True"
| "idle_cmd _ \<longleftrightarrow> False"

lemma idle_hash_at: "idle_store st \<Longrightarrow> hash_at st k = Some h \<Longrightarrow> only_marks k h"
  by (auto simp: idle_store_def hash_at_def only_marks_def split: option.splits prod.splits rvalue.splits)

lemma idle_text: "idle_store st \<Longrightarrow> st (anime_key n) = Some (VStr v, t) \<Longrightarrow> v = ''__NF__''"
  unfolding idle_store_def by blast

lemma idle_update:
  assumes "idle_store st" and "\<And>h t. v = Some (VHash h, t) \<Longrightarrow> only_marks k h" and "\<And>l t. v \<noteq> Some (VList l, t)"
    and "\<And>n s t. v = Some (VStr s, t) \<Longrightarrow> k = anime_key n \<Longrightarrow> s = ''__NF__''"
  shows "idle_store (st(k := v))"
  using assms by (auto simp: idle_store_def)

lemma idle_run_cmd:
  assumes st: "idle_store st" and c: "idle_cmd c" and run: "run_cmd c st = Some (r, st')"
  shows "idle_store st'"
proof (cases c)
  case (R_HSET k m)
  with run obtain h where h: "hash_at st k = Some h" "st' = st(k \<mapsto> (VHash (h ++ map_of (rev m)), ttl_at st k))"
    by (auto split: if_splits option.splits)
  have "only_marks k (h ++ map_of (rev m))"
    using idle_hash_at [OF st h(1)] c R_HSET by (auto simp: only_marks_def dom_map_of_conv_image_fst)
  with h(2) st show ?thesis by (auto intro!: idle_update)
next
  case (R_EXPIRE k t)
  show ?thesis
  proof (cases "st k")
    case (Some e)
    obtain v t' where e: "e = (v, t')" by fastforce
    have "idle_store (st(k \<mapsto> (v, Some t)))" 
      using st Some e by (intro idle_update) (unfold idle_store_def, blast+)
    with run R_EXPIRE Some e st show ?thesis by (auto split: if_splits intro!: idle_update)
  qed (use run R_EXPIRE st in simp)
next
  case (R_SET k v nx ex)
  with run c st show ?thesis by (auto split: if_splits option.splits intro!: idle_update)
qed (use assms in \<open>auto split: option.splits rvalue.splits prod.splits intro!: idle_update\<close>)

lemma idle_run_cmds:
  "idle_store st \<Longrightarrow> \<forall>c \<in> set cs. idle_cmd c \<Longrightarrow> run_cmds cs st = Some (rs, st') \<Longrightarrow> idle_store st'"
  by (induction cs arbitrary: st rs) (auto split: option.splits prod.splits intro: idle_run_cmd)

lemma idle_exec: "idle c w \<Longrightarrow> \<forall>c \<in> set cs. idle_cmd c \<Longrightarrow> idle c (snd (world_redis tx cs w))"
  using idle_run_cmds [of "w_store w" cs]
  by (auto simp: idle_def world_redis_def store_redis_def split: option.splits)

lemma idle_reads: "idle c w \<Longrightarrow> fst (world_redis tx (R_HGETALL k # cs) w) = Inr (RMap h # rs) \<Longrightarrow> only_marks k h"
  using idle_hash_at [of "w_store w" k]
  by (auto simp: idle_def world_redis_def store_redis_def split: option.splits prod.splits)

lemma idle_reads_text:
  assumes "idle c w" and "fst (world_redis tx (R_GET (anime_key n) # cs) w) = Inr (RText v # rs)"
  shows "v = ''__NF__''"
  using assms idle_text [of "w_store w" n]
  by (auto simp: idle_def world_redis_def store_redis_def split: option.splits prod.splits rvalue.splits)

lemma idle_no_lists:
  assumes "idle c w" and "fst (world_redis tx [R_LRANGE_ALL k] w) = Inr [RTexts ks]"
  shows "ks = []"
  using assms
  by (auto simp: idle_def idle_store_def world_redis_def store_redis_def list_at_def split: option.splits prod.splits rvalue.splits)

lemma colons_of_anime_key: "length (filter (\<lambda>c. c = CHR '':'') (anime_key n)) = 1"
proof -
  have "filter (\<lambda>c. c = CHR '':'') (str_of_int n) = []"
    using str_of_int_no_colon [of n] by (auto simp: filter_empty_conv simp del: str_of_int_no_colon)
  then show ?thesis by (simp add: derive_cache_key_def NAME_SEPERATOR_def)
qed

lemma intent_not_anime [simp]: "create_intent_flag name a user resource \<noteq> anime_key n"
proof
  assume "create_intent_flag name a user resource = anime_key n"
  then have "length (filter (\<lambda>c. c = CHR '':'') (create_intent_flag name a user resource)) = 1"
    by (simp add: colons_of_anime_key)
  then show False by (simp add: create_intent_flag_def NAME_SEPERATOR_def)
qed

lemma lock_not_anime [simp]: "derive_lock_key xs \<noteq> anime_key n"
  by (cases xs) (auto simp: derive_lock_key_def derive_cache_key_def NAME_SEPERATOR_def)

interpretation idle_cache: trusted_strings "on_world_redis cm" "idle c" idle_cmd only_marks loads
    "\<lambda>k e. (\<exists>n. k = anime_key n) \<longrightarrow> loads ''__NF__'' = Inr e"
  for cm c loads
proof unfold_locales
  show "idle_cmd (R_HSET k (cm_NF_MAPPING (on_world_redis cm)))" for k by (simp add: cm_NF_MAPPING_def)
  show "fst (cm_redis (on_world_redis cm) tx (R_GET k # cs) s) = Inr (RText v # rs) \<Longrightarrow> v \<noteq> [] \<Longrightarrow> loads v = Inr e \<Longrightarrow>
      (\<exists>n. k = anime_key n) \<longrightarrow> loads ''__NF__'' = Inr e" if "idle c s" for tx k cs s v rs e
    using idle_reads_text [OF that] by auto
qed (auto simp: idle_exec intro: idle_reads dest: idle_no_lists, simp add: on_world_redis_def)

section \<open>What loading gives\<close>

text \<open>An object whose identifier is unset has no cache entry.\<close>

lemma no_repr:
  assumes "d ''id_'' = None" and "(''id_'', t) \<in> set cls"
  shows "result_cache_repr cls d \<noteq> Inr m" and "result_json_repr cls d \<noteq> Inr j"
proof -
  from assms(2) have pf: "(''id_'', t) \<in> set (public_fields cls)" by (simp add: public_fields_def)
  from assms(1) have "repr_field d (''id_'', t) = Inl AttributeError" by (simp add: repr_field_def)
  from traverse_Inl [where f = "repr_field d", OF pf this] show "result_cache_repr cls d \<noteq> Inr m"
    by (auto simp: result_cache_repr_def)
  let ?f = "\<lambda>(n, t). case d n of None \<Rightarrow> Inl AttributeError | Some v \<Rightarrow> Inr (strip_underscores n, v)"
  have "?f (''id_'', t) = Inl AttributeError" using assms(1) by simp
  from traverse_Inl [where f = ?f, OF pf this] show "result_json_repr cls d \<noteq> Inr j" by (auto simp: result_json_repr_def)
qed

lemma orm_id [simp]: "construct_from_orm cls columns ''id_'' = None"
  by (rule unset_field) simp_all

lemma marks_construct: "dom h \<subseteq> {nf} \<Longrightarrow> nf \<notin> fst ` set cls \<Longrightarrow> construct_from_cache cls dec h = Map.empty"
  by (intro ext) (auto simp: construct_from_cache_def dom_def)

lemma result_key_derive [simp]:
  "result_key (derive_cache_key ''forums'' x)" "result_key (derive_cache_key ''posts'' x)"
  "result_key (derive_cache_key ''comments'' x)" "result_key (derive_cache_key ''users'' x)"
  "result_key (derive_cache_key ''animes'' x)"
  by (auto simp: result_key_def)

lemma idle_get_or_load:
  assumes sv: "sv_cache sv = on_world_redis cm" and key: "result_key key"
    and found: "\<And>db d m. f db = Inr (Some d) \<Longrightarrow> repr d \<noteq> Inr m"
    and marks: "\<And>h d. dom h \<subseteq> {''__NF__''} \<Longrightarrow> construct h = Inr d \<Longrightarrow> Q d"
  shows "sure (idle c) (distributed_get_or_load (sv_cache sv) key [] (on_db f) repr construct) (\<lambda>r. \<forall>d. r = Some d \<longrightarrow> Q d)"
  unfolding sv
proof (rule idle_cache.sure_get_or_load)
  show "sure (idle c) (on_db f) (\<lambda>r. \<forall>d. r = Some d \<longrightarrow> (\<forall>m. repr d = Inr m \<longrightarrow> Q d \<and> idle_cmd (R_HSET key m)))"
    using found by (intro sure_on_db) auto
  show "only_marks key h \<Longrightarrow> construct h = Inr d \<Longrightarrow> Q d" for h d
    using marks key by (simp add: only_marks_def)
qed

lemma id_fields [simp]:
  "(''id_'', T_OTHER) \<in> set ForumResult" "(''id_'', T_OTHER) \<in> set PostResult" "(''id_'', T_OTHER) \<in> set CommentResult"
  "(''id_'', T_OTHER) \<in> set UserResult"
  "''__NF__'' \<notin> fst ` set ForumResult" "''__NF__'' \<notin> fst ` set CommentResult" "''__NF__'' \<notin> fst ` set UserResult"
  by (simp_all add: ForumResult_def PostResult_def CommentResult_def UserResult_def)

lemma no_class_repr [simp]:
  "d ''id_'' = None \<Longrightarrow> result_cache_repr ForumResult d \<noteq> Inr m" "d ''id_'' = None \<Longrightarrow> result_cache_repr PostResult d \<noteq> Inr m"
  "d ''id_'' = None \<Longrightarrow> result_cache_repr CommentResult d \<noteq> Inr m" "d ''id_'' = None \<Longrightarrow> result_cache_repr UserResult d \<noteq> Inr m"
  "d ''id_'' = None \<Longrightarrow> result_json_repr ForumResult d \<noteq> Inr j" "d ''id_'' = None \<Longrightarrow> result_json_repr UserResult d \<noteq> Inr j"
  by (auto dest: no_repr [OF _ id_fields(1)] no_repr [OF _ id_fields(2)] no_repr [OF _ id_fields(3)] no_repr [OF _ id_fields(4)])

abbreviation empty_dto :: "dto option \<Rightarrow> bool" where
  "empty_dto r \<equiv> \<forall>d. r = Some d \<longrightarrow> d = Map.empty"

lemma idle_load_forum: "sv_cache sv = on_world_redis cm \<Longrightarrow> sure (idle c) (load_forum sv f) empty_dto"
  unfolding load_forum_def load_def
  by (rule idle_get_or_load) (auto simp: get_forum_def bindE_eq_Inr_iff from_cache_def marks_construct)

lemma idle_load_comment: "sv_cache sv = on_world_redis cm \<Longrightarrow> sure (idle c) (load_comment sv i) empty_dto"
  unfolding load_comment_def load_def
  by (rule idle_get_or_load)
    (auto simp: get_comment_def comment_from_orm_def super_call_def bindE_eq_Inr_iff from_cache_def marks_construct
      split: list.splits if_splits)

lemma idle_load_user: "sv_cache sv = on_world_redis cm \<Longrightarrow> sure (idle c) (load_user sv n) empty_dto"
  unfolding load_user_def load_def
  by (rule idle_get_or_load)
    (auto simp: get_user_by_username_def live_users_def bindE_eq_Inr_iff from_cache_def marks_construct)

lemma idle_load_post: "sv_cache sv = on_world_redis cm \<Longrightarrow> sure (idle c) (load_post sv i) (\<lambda>r. r = None)"
  unfolding load_post_def load_def
  by (rule sure_weaken, rule idle_get_or_load [where Q = "\<lambda>_. False"])
    (auto simp: get_post_def post_from_orm_def super_call_def bindE_eq_Inr_iff post_from_cache_def entry_item_def
      split: list.splits if_splits option.splits)

lemma no_anime_repr: "anime_from_orm sv row gs ls = Inr a \<Longrightarrow> anime_cache_repr a \<noteq> Inr m"
  by (auto simp: anime_from_orm_def super_call_def anime_cache_repr_def anime_json_repr_def split: if_splits)

lemma get_anime_no_repr: "get_anime sv i db = Inr (Some a) \<Longrightarrow> anime_cache_repr a \<noteq> Inr m"
  by (auto simp: get_anime_def bindE_eq_Inr_iff no_anime_repr split: option.splits)

lemma idle_load_parent_anime:
  "sv_cache sv = on_world_redis cm \<Longrightarrow> sure (idle c) (load_parent_anime sv i) (\<lambda>r. r = None)"
  unfolding load_parent_anime_def
  by (rule sure_weaken, rule idle_get_or_load [where Q = "\<lambda>_. False"])
    (auto simp: get_anime_no_repr anime_from_hash_def bindE_eq_Inr_iff entry_item_def split: option.splits if_splits)

lemma idle_load_anime:
  assumes "sv_cache sv = on_world_redis cm" and "sv_loads sv ''__NF__'' = Inl e"
  shows "sure (idle c) (load_anime sv i) (\<lambda>r. r = None)"
  unfolding load_anime_def assms(1)
  by (rule idle_cache.sure_get_or_load_string) (auto simp: get_anime_no_repr assms(2) intro!: sure_on_db)

section \<open>What every request answers\<close>

lemma sure_absent: "sure I m (\<lambda>r. r = None) \<Longrightarrow> sure I (bindM m (\<lambda>r. bindM (require status r) k)) Q"
  by (rule sure_bindM, assumption) (simp add: require_def sure_raise)

lemma sure_blank:
  "sure I m empty_dto \<Longrightarrow> sure I (k Map.empty) Q \<Longrightarrow> sure I (bindM m (\<lambda>r. bindM (require status r) k)) Q"
  by (rule sure_bindM, assumption) (auto simp: require_def intro: sure_raise split: option.split)

lemma sure_unset: "d n = None \<Longrightarrow> sure I (bindM (attr d n) k) Q"
  by (rule sure_bindM [where Q = "\<lambda>_. False"]) (auto simp: attr_def intro: sure_rules)

lemma sure_no_json: "(\<And>j. r \<noteq> Inr j) \<Longrightarrow> sure I (bindM (lift_sum r) k) Q"
  by (rule sure_bindM [where Q = "\<lambda>_. False"]) (auto intro: sure_rules)

lemma sure_stop: "sure I m (\<lambda>_. False) \<Longrightarrow> sure I (thenM m k) Q"
  unfolding thenM_def by (rule sure_bindM, assumption) simp

lemma sure_emit: "rejects_bytes (sv_dumps sv) \<Longrightarrow> sure I (emit sv stream ev) Q"
  using event_cache_repr_Inl [of "sv_dumps sv" ev]
  by (simp add: emit_def emit_user_event_def sure_def bindM_def)

lemmas sure_any = sure_bindM_any sure_thenM [where Q = "\<lambda>_. True"]

text \<open>The parts a request is made of.\<close>

definition documented_server :: "world cache_manager \<Rightarrow> server \<Rightarrow> bool" where
  "documented_server cm sv \<longleftrightarrow>
     sv_cache sv = on_world_redis cm \<and> rejects_bytes (sv_dumps sv) \<and> sv_loads sv ''__NF__'' = Inl JSONDecodeError"

lemma idle_guard:
  "sv_cache sv = on_world_redis cm \<Longrightarrow> (\<And>i. sure (idle c) (body i) (\<lambda>_. False)) \<Longrightarrow>
   sure (idle c) (thenM (guard_action (sv_cache sv) u r name act conflicting body) k) Q"
  by (rule sure_stop) (simp add: idle_cache.sure_guard)

lemma idle_intent: "sv_cache sv = on_world_redis cm \<Longrightarrow> sure (idle c) (set_intent (sv_cache sv) i u r name act flag ttl) (\<lambda>_. True)"
  by (simp add: idle_cache.sure_set_intent)

lemma idle_indicators: "sv_cache sv = on_world_redis cm \<Longrightarrow> sure (idle c) (fetch_indicators (sv_cache sv) u r name act) (\<lambda>_. True)"
  by (simp add: idle_cache.sure_fetch_indicators)

lemma idle_page_key: "sv_cache sv = on_world_redis cm \<Longrightarrow> sure (idle c) (derive_pagination_key (sv_cache sv) name cursor args) (\<lambda>_. True)"
  by (simp add: idle_cache.sure_derive_page_key)

lemma idle_page:
  "sv_cache sv = on_world_redis cm \<Longrightarrow> sure (idle c) (page_response sv name key rows cls cached construct) Q"
  unfolding page_response_def page_def
  by (rule sure_bindM [where Q = "\<lambda>_. False"]) (simp_all add: idle_cache.sure_page_get_or_load)

lemma idle_forum_routes:
  assumes sv: "documented_server cm sv"
  shows "sure (idle c) (get_forum_route sv f) (\<lambda>_. False)"
    and "sure (idle c) (forum_posts_route ordered recent sv f cu so tf) (\<lambda>_. False)"
    and "sure (idle c) (subscribe_forum sv f tok u now) (\<lambda>_. False)"
    and "sure (idle c) (unsubscribe_forum sv f tok u now) (\<lambda>_. False)"
    and "sure (idle c) (create_post sv model tok u now) (\<lambda>_. False)"
    and "sure (idle c) (delete_forum sv f tok now) (\<lambda>_. False)"
    and "sure (idle c) (create_forum sv tok t d a i) (\<lambda>_. False)"
proof -
  from sv have cache: "sv_cache sv = on_world_redis cm" and dumps: "rejects_bytes (sv_dumps sv)"
    by (simp_all add: documented_server_def)
  note blank = sure_blank [OF idle_load_forum [OF cache]]
  show "sure (idle c) (get_forum_route sv f) (\<lambda>_. False)"
    unfolding get_forum_route_def by (intro blank sure_no_json) simp
  show "sure (idle c) (forum_posts_route ordered recent sv f cu so tf) (\<lambda>_. False)"
    unfolding forum_posts_route_def by (intro blank sure_bindM_any idle_page_key [OF cache] idle_page [OF cache])
  show "sure (idle c) (subscribe_forum sv f tok u now) (\<lambda>_. False)"
    unfolding subscribe_forum_def by (intro blank sure_unset) simp
  show "sure (idle c) (unsubscribe_forum sv f tok u now) (\<lambda>_. False)"
    unfolding unsubscribe_forum_def by (intro blank sure_unset) simp
  show "sure (idle c) (create_post sv model tok u now) (\<lambda>_. False)"
    unfolding create_post_def Let_def by (intro blank idle_guard [OF cache] sure_unset) simp
  show "sure (idle c) (delete_forum sv f tok now) (\<lambda>_. False)"
    unfolding delete_forum_def
    by (intro blank sure_bindM_any sure_on_db sure_attr sure_refuse idle_guard [OF cache] sure_emit dumps) simp
  show "sure (idle c) (create_forum sv tok t d a i) (\<lambda>_. False)"
    unfolding create_forum_def by (rule sure_absent [OF idle_load_parent_anime [OF cache]])
qed

lemma idle_post_routes:
  assumes sv: "documented_server cm sv"
  shows "sure (idle c) (get_post_route sv p) (\<lambda>_. False)"
    and "sure (idle c) (edit_post sv p tok m) (\<lambda>_. False)"
    and "sure (idle c) (delete_post sv p tok u) (\<lambda>_. False)"
    and "sure (idle c) (vote_post sv p tok v u) (\<lambda>_. False)"
    and "sure (idle c) (unvote_post sv p tok u) (\<lambda>_. False)"
    and "sure (idle c) (save_post sv p tok u) (\<lambda>_. False)"
    and "sure (idle c) (unsave_post sv p tok u) (\<lambda>_. False)"
    and "sure (idle c) (report_post sv p tok tag d u now) (\<lambda>_. False)"
    and "sure (idle c) (post_comments_route sv p cu) (\<lambda>_. False)"
    and "sure (idle c) (comment_on_post sv p tok b ct u now) (\<lambda>_. False)"
proof -
  from sv have cache: "sv_cache sv = on_world_redis cm" by (simp add: documented_server_def)
  note absent = sure_absent [OF idle_load_post [OF cache]]
  show "sure (idle c) (get_post_route sv p) (\<lambda>_. False)" unfolding get_post_route_def by (rule absent)
  show "sure (idle c) (edit_post sv p tok m) (\<lambda>_. False)" unfolding edit_post_def by (rule absent)
  show "sure (idle c) (delete_post sv p tok u) (\<lambda>_. False)" unfolding delete_post_def by (rule absent)
  show "sure (idle c) (vote_post sv p tok v u) (\<lambda>_. False)" unfolding vote_post_def by (rule absent)
  show "sure (idle c) (unvote_post sv p tok u) (\<lambda>_. False)" unfolding unvote_post_def by (rule absent)
  show "sure (idle c) (save_post sv p tok u) (\<lambda>_. False)" unfolding save_post_def by (rule absent)
  show "sure (idle c) (unsave_post sv p tok u) (\<lambda>_. False)" unfolding unsave_post_def by (rule absent)
  show "sure (idle c) (report_post sv p tok tag d u now) (\<lambda>_. False)" unfolding report_post_def by (rule absent)
  show "sure (idle c) (post_comments_route sv p cu) (\<lambda>_. False)" unfolding post_comments_route_def by (rule absent)
  show "sure (idle c) (comment_on_post sv p tok b ct u now) (\<lambda>_. False)" unfolding comment_on_post_def by (rule absent)
qed

lemma idle_comment_routes:
  assumes sv: "documented_server cm sv"
  shows "sure (idle c) (delete_comment sv p i tok u) (\<lambda>_. False)"
    and "sure (idle c) (vote_comment sv p i tok v u) (\<lambda>_. False)"
    and "sure (idle c) (unvote_comment sv p i tok u) (\<lambda>_. False)"
    and "sure (idle c) (report_comment sv i tok tag d u now) (\<lambda>_. False)"
proof -
  from sv have cache: "sv_cache sv = on_world_redis cm" and dumps: "rejects_bytes (sv_dumps sv)"
    by (simp_all add: documented_server_def)
  note blank = sure_blank [OF idle_load_comment [OF cache]]
  have unset: "sure (idle c) (bindM m (\<lambda>d. bindM (attr Map.empty n) (k d))) (\<lambda>_. False)"
    if "sure (idle c) m (\<lambda>_. True)" for m :: "(world, int) py" and n and k :: "int \<Rightarrow> field_value \<Rightarrow> (world, unit) py"
    using that by (intro sure_bindM_any sure_unset) auto
  show "sure (idle c) (delete_comment sv p i tok u) (\<lambda>_. False)"
    unfolding delete_comment_def by (intro blank sure_unset) simp
  show "sure (idle c) (vote_comment sv p i tok v u) (\<lambda>_. False)"
    unfolding vote_comment_def
    by (intro blank idle_guard [OF cache] unset)
      (auto intro!: sure_rules sure_bindM_any sure_on_db sure_thenM [OF idle_intent [OF cache]])
  show "sure (idle c) (unvote_comment sv p i tok u) (\<lambda>_. False)"
    unfolding unvote_comment_def
    by (intro blank idle_guard [OF cache] unset)
      (auto intro!: sure_rules sure_bindM_any sure_on_db sure_thenM [OF idle_intent [OF cache]])
  show "sure (idle c) (report_comment sv i tok tag d u now) (\<lambda>_. False)"
    unfolding report_comment_def Let_def
    by (intro blank idle_guard [OF cache] sure_thenM [where Q = "\<lambda>_. True", OF _ sure_emit [OF dumps]])
      (auto intro!: sure_rules sure_bindM_any sure_on_db sure_thenM [OF idle_intent [OF cache]])
qed

lemma content_tokens [simp]: "content (db\<lparr>recovery_tokens := ts\<rparr>) = content db"
  by (simp add: content_def)

lemma content_passwords [simp]: "content (db\<lparr>users := update_rows p [(''pw_hash'', v)] (users db)\<rparr>) = content db"
proof -
  have "filter (\<lambda>(c, _). c \<noteq> ''pw_hash'') (set_columns [(''pw_hash'', v)] r) = filter (\<lambda>(c, _). c \<noteq> ''pw_hash'') r" for r
    by (induction r) (auto simp: set_columns_def)
  then show ?thesis by (simp add: content_def update_rows_def)
qed

lemma content_both: "content (db\<lparr>users := us, recovery_tokens := ts\<rparr>) = content (db\<lparr>users := us\<rparr>)"
  by (simp add: content_def)

lemma idle_commit:
  assumes "\<And>db db'. f db = Inr db' \<Longrightarrow> content db' = content db"
  shows "sure (idle c) (commit_db f) (\<lambda>_. True)"
  using assms by (intro sure_commit_db) (auto simp: idle_def)

lemma idle_user_routes:
  assumes sv: "documented_server cm sv"
  shows "sure (idle c) (register_user sv n e p) (\<lambda>_. False)"
    and "sure (idle c) (delete_user sv n p now) (\<lambda>_. False)"
    and "sure (idle c) (recover_password sv sha i u st ex) (\<lambda>_. False)"
    and "sure (idle c) (update_password sv later j url p) (\<lambda>_. False)"
    and "sure (idle c) (get_user_route sv n) (\<lambda>_. False)"
    and "sure (idle c) (user_posts_route ordered sv n cu so) (\<lambda>_. False)"
    and "sure (idle c) (user_forums_route ordered sv n cu so) (\<lambda>_. False)"
    and "sure (idle c) (user_animes_route ordered sv n cu so) (\<lambda>_. False)"
    and "sure (idle c) (user_login sv n p now) (\<lambda>_. False)"
proof -
  from sv have cache: "sv_cache sv = on_world_redis cm" and dumps: "rejects_bytes (sv_dumps sv)"
    by (simp_all add: documented_server_def)
  note blank = sure_blank [OF idle_load_user [OF cache]]
  have found: "sure (idle c) (on_db (live_users q)) (\<lambda>r. \<forall>d. r = Some d \<longrightarrow> d ''id_'' = None)" for q
    by (intro sure_on_db) (auto simp: live_users_def bindE_eq_Inr_iff)
  have add: "sure (idle c) (bindM (add_user n e h) k) (\<lambda>_. False)" for h and k :: "dto \<Rightarrow> (world, response) py"
    unfolding add_user_def bindM_assoc
    by (rule sure_bindM [where Q = "\<lambda>_. False"]) (auto intro!: sure_on_db split: if_splits)
  show "sure (idle c) (register_user sv n e p) (\<lambda>_. False)"
    unfolding register_user_def
    by (rule sure_bindM_any, rule sure_on_db, simp, rule sure_thenM [where Q = "\<lambda>_. True", OF _ add])
      (auto intro!: sure_rules sure_bindM_any sure_attr)
  show "sure (idle c) (delete_user sv n p now) (\<lambda>_. False)"
    unfolding delete_user_def by (intro blank sure_unset) simp
  show "sure (idle c) (recover_password sv sha i u st ex) (\<lambda>_. False)"
    unfolding recover_password_def get_user_by_email_def get_user_by_username_def if_distrib [of on_db, symmetric]
      if_distrib [of live_users, symmetric]
    by (rule sure_bindM [OF found]) (auto simp: require_def intro!: sure_rules sure_bindM_any sure_unset split: option.split)
  show "sure (idle c) (update_password sv later j url p) (\<lambda>_. False)"
    unfolding update_password_def
  proof (rule sure_bindM [where Q = "\<lambda>(r, _). \<forall>d. r = Some d \<longrightarrow> d ''id_'' = None"])
    show "sure (idle c) (on_db (get_user_password_recovery_token j)) (\<lambda>(r, _). \<forall>d. r = Some d \<longrightarrow> d ''id_'' = None)"
      by (intro sure_on_db) (auto simp: get_user_password_recovery_token_def split: list.splits)
    have row: "sure (idle c) (update_password_row j h) (\<lambda>_. True)" for h
      unfolding update_password_row_def by (rule idle_commit) (auto simp: content_both)
    have user: "sure (idle c) (cache_user_json sv key d) (\<lambda>_. False)" if "d ''id_'' = None" for key d
      unfolding cache_user_json_def using that by (intro sure_no_json) simp
    have time: "sure (idle c) (if x = FNone then raise TypeError else refuse_if (later x) 403) (\<lambda>_. True)" for x
      by (auto simp: refuse_if_def intro: sure_rules)
    have found: "sure (idle c) (require 404 r) (\<lambda>d. d ''id_'' = None)" if "\<forall>d. r = Some d \<longrightarrow> d ''id_'' = None" for r :: "dto option"
      using that by (intro sure_require) simp
    show "sure (idle c) (case x of (r, url', expiry) \<Rightarrow> bindM (require 404 r) (\<lambda>user.
         thenM (refuse_if (\<not> truthy url') 404)
         (thenM (refuse_if (url' \<noteq> FStr url) 403)
         (thenM (if expiry = FNone then raise TypeError else refuse_if (later expiry) 403)
         (thenM (update_password_row j (sv_hashpw sv p))
         (thenM (cache_user_json sv (user_key (str_of_int j)) user)
          (JSONResponse [(''message'', JText ''password reset'')] 200))))))) (\<lambda>_. False)"
      if x: "case x of (r, _) \<Rightarrow> \<forall>d. r = Some d \<longrightarrow> d ''id_'' = None" for x
    proof (cases x)
      case (fields r url' expiry)
      show ?thesis
        unfolding fields prod.case
        by (rule sure_bindM [OF found]) (use x fields in \<open>simp, intro sure_refuse sure_thenM [OF time] sure_thenM [OF row] sure_stop [OF user], simp\<close>)
    qed
  qed
  show "sure (idle c) (get_user_route sv n) (\<lambda>_. False)"
    unfolding get_user_route_def by (intro blank sure_no_json) simp
  show "sure (idle c) (user_posts_route ordered sv n cu so) (\<lambda>_. False)"
    unfolding user_posts_route_def by (intro blank sure_bindM_any idle_page_key [OF cache] sure_unset) simp
  show "sure (idle c) (user_forums_route ordered sv n cu so) (\<lambda>_. False)"
    unfolding user_forums_route_def by (intro blank sure_bindM_any idle_page_key [OF cache] sure_unset) simp
  show "sure (idle c) (user_animes_route ordered sv n cu so) (\<lambda>_. False)"
    unfolding user_animes_route_def by (intro blank sure_bindM_any idle_page_key [OF cache] sure_unset) simp
  have user: "sure (idle c) (if email_identity n then on_db (get_user_by_email n) else load_user sv n)
      (\<lambda>r. \<forall>d. r = Some d \<longrightarrow> d ''id_'' = None)"
    using found idle_load_user [OF cache] by (auto simp: get_user_by_email_def intro: sure_weaken)
  show "sure (idle c) (user_login sv n p now) (\<lambda>_. False)"
    unfolding user_login_def
    by (rule sure_bindM [OF user]) (auto simp: require_def intro!: sure_rules sure_unset split: option.split)
qed

lemma idle_anime_routes:
  assumes sv: "documented_server cm sv"
  shows "sure (idle c) (get_anime_route sv i) (\<lambda>_. False)"
    and "sure (idle c) (sub_anime sv i tok u now) (\<lambda>_. False)"
    and "sure (idle c) (unsub_anime sv i tok u now) (\<lambda>_. False)"
    and "sure (idle c) (get_animes_route ilike sv cu gs s) (\<lambda>_. False)"
    and "sure (idle c) (anime_links_route sv i) (\<lambda>_. False)"
    and "sure (idle c) (anime_forums_route ilike sv i cu s) (\<lambda>_. False)"
    and "sure (idle c) (issue_ticket sv e d now) (\<lambda>_. False)"
    and "sure (idle c) anime_genres_route (\<lambda>_. True)"
    and "sure (idle c) (forum_admins_route sv f) (\<lambda>_. False)"
proof -
  from sv have cache: "sv_cache sv = on_world_redis cm" and nf: "sv_loads sv ''__NF__'' = Inl JSONDecodeError"
    by (simp_all add: documented_server_def)
  note absent = sure_absent [OF idle_load_anime [OF cache nf]]
  have genres: "sure (idle c) get_genres (\<lambda>_. True)" by (simp add: sure_def get_genres_def idle_def)
  have asked: "sure (idle c) (anime_genres_preprocessor gs) (\<lambda>_. True)"
    unfolding anime_genres_preprocessor_def Let_def by (auto intro!: sure_rules sure_bindM_any genres)
  show "sure (idle c) (get_anime_route sv i) (\<lambda>_. False)" unfolding get_anime_route_def by (rule absent)
  show "sure (idle c) (sub_anime sv i tok u now) (\<lambda>_. False)" unfolding sub_anime_def by (rule absent)
  show "sure (idle c) (unsub_anime sv i tok u now) (\<lambda>_. False)" unfolding unsub_anime_def by (rule absent)
  show "sure (idle c) (anime_links_route sv i) (\<lambda>_. False)" unfolding anime_links_route_def by (rule absent)
  show "sure (idle c) (anime_forums_route ilike sv i cu s) (\<lambda>_. False)" unfolding anime_forums_route_def by (rule absent)
  have page: "sure (idle c) (bindM (string_page (sv_cache sv) loads key f r k) h) (\<lambda>_. False)"
    for loads key r and h :: "'a option list \<times> string \<Rightarrow> (world, response) py" and f :: "(world, (string \<times> 'a) list) py" and k
    unfolding cache by (rule sure_bindM [OF idle_cache.sure_string_page]) simp
  show "sure (idle c) (get_animes_route ilike sv cu gs s) (\<lambda>_. False)"
    unfolding get_animes_route_def
    by (intro sure_bindM_any asked idle_page_key [OF cache] page) (auto intro: sure_rules split: option.split)
  show "sure (idle c) (forum_admins_route sv f) (\<lambda>_. False)"
    unfolding forum_admins_route_def by (intro sure_bindM_any idle_page_key [OF cache] page)
  show "sure (idle c) (issue_ticket sv e d now) (\<lambda>_. False)"
    unfolding issue_ticket_def by (rule sure_no_json) (simp add: stream_member_def stream_name_of_def all_stream_names_def)
  show "sure (idle c) anime_genres_route (\<lambda>_. True)"
    unfolding anime_genres_route_def by (intro sure_bindM_any genres sure_JSONResponse)
qed

lemma idle_handle:
  assumes "documented_server cm sv" and "rq \<noteq> ListGenres"
  shows "sure (idle c) (handle sv q rq) (\<lambda>_. False)"
  using assms(2)
  by (cases rq)
    (simp_all add: idle_forum_routes [OF assms(1)] idle_post_routes [OF assms(1)] idle_comment_routes [OF assms(1)]
      idle_user_routes [OF assms(1)] idle_anime_routes [OF assms(1)])

lemma idle_serves: "documented_server cm sv \<Longrightarrow> idle c w \<Longrightarrow> serves sv q w w' \<Longrightarrow> idle c w'"
proof -
  assume sv: "documented_server cm sv" and w: "idle c w" and "serves sv q w w'"
  then obtain rq where rq: "w' = snd (handle sv q rq w)" by (auto simp: serves_def)
  have "sure (idle c) (handle sv q rq) (\<lambda>_. True)"
    using idle_handle [OF sv, of rq c q] idle_anime_routes(8) [OF sv] by (cases "rq = ListGenres") (auto intro: sure_weaken)
  with w rq show ?thesis by (auto simp: sure_def split: prod.splits)
qed

interpretation idle_service: invariant_system "idle c" "\<lambda>w w'. documented_server cm sv \<and> serves sv q w w'" "idle c"
  for c cm sv q
  by unfold_locales (auto intro: idle_serves)

lemma genres_once: "w_genres w \<Longrightarrow> anime_genres_route w = (Inl RuntimeError, w)"
  by (simp add: anime_genres_route_def get_genres_def bindM_def)

lemma idle_reach:
  assumes sv: "documented_server cm sv" and st: "idle c w" and reached: "reach (serves sv q) w w'"
  shows "idle c w'"
proof (rule idle_service.reach_inv)
  show "reach (\<lambda>w w'. documented_server cm sv \<and> serves sv q w w') w w'"
    by (rule reach_mono [OF reached]) (simp add: sv)
qed (rule st)

lemma empty_store_idle: "idle_store Map.empty"
  by (simp add: idle_store_def)

lemma demo_server_documented: "documented_server demo_cache demo_server"
  by (simp add: documented_server_def demo_server_def rejects_bytes_def)

text \<open>
  C12.  Whatever the database holds, and whatever requests were made before in whatever order,
  starting with a cache that holds no result: every request of the routes above but the list of
  genres ends in an exception (one of HTTP where the code refuses it, an error of the code
  otherwise), and none of them changes the database, passwords and their recovery tokens apart.
\<close>

theorem no_request_answered:
  assumes "documented_server cm sv" and "idle_store (w_store w)" and "reach (serves sv q) w w'" and "rq \<noteq> ListGenres"
  shows "\<exists>e w''. handle sv q rq w' = (Inl e, w'') \<and> content (w_db w'') = content (w_db w)"
proof -
  have "idle (content (w_db w)) w" using assms(2) by (simp add: idle_def)
  with idle_reach assms have "idle (content (w_db w)) w'" by blast
  from sure_never [OF idle_handle [OF assms(1,4)] this, of q] show ?thesis by (auto simp: idle_def)
qed

definition demo_queries :: queries where
  "demo_queries =
     \<lparr>q_ordered = Inr, q_recent = (\<lambda>_. True), q_ilike = (\<lambda>_ _. True), q_later = (\<lambda>_. True), q_sha256 = Inr\<rparr>"

theorem no_request_answered_witness:
  "\<exists>e w''. handle demo_server demo_queries (CreatePost \<lparr>pm_forum_id = 5, pm_title = ''t'', pm_body = ''b'', pm_client_tag = None\<rparr> \<lparr>sid = 3, sub_claim = ''c''\<rparr> ''u'' ''now'')
       (snd (handle demo_server demo_queries (GetForum 5) (demo_forum\<lparr>w_store := Map.empty\<rparr>))) = (Inl e, w'') \<and>
     content (w_db w'') = content (w_db demo_forum)"
proof -
  have "reach (serves demo_server demo_queries) (demo_forum\<lparr>w_store := Map.empty\<rparr>)
      (snd (handle demo_server demo_queries (GetForum 5) (demo_forum\<lparr>w_store := Map.empty\<rparr>)))"
    by (rule reach_one) (unfold serves_def, rule exI, rule refl)
  from no_request_answered [OF demo_server_documented _ this,
      of "CreatePost \<lparr>pm_forum_id = 5, pm_title = ''t'', pm_body = ''b'', pm_client_tag = None\<rparr> \<lparr>sid = 3, sub_claim = ''c''\<rparr> ''u'' ''now''"]
  show ?thesis using empty_store_idle by simp
qed

end
