(* ===== verification/Tenjin_Schema.thy ===== *)
theory Tenjin_Schema
  imports Tenjin_Server
begin

text \<open>
  Schemas of the databases and what changes them: tables, columns, constraints and indexes, the
  operations of Alembic on PostgreSQL, and which rows a table admits.

  The model follows PostgreSQL: names of constraints that are not given are made of the table
  and the columns, dropping a column drops the constraints and the indexes of its table that
  involve it, a foreign key needs a key to refer to, and a type that is created stays.
\<close>

section \<open>Schemas\<close>

datatype sql_type =
    INTEGER | SMALLINT | BIGINT | BOOLEAN | VARCHAR int | TEXT | BYTEA | TIMESTAMP | NUMERIC int int | JSONB
  | ENUM string "string list"

text \<open>A default is an expression of SQL, a string, or the next number of the column's sequence.\<close>

datatype col_default = No_Default | Serial | Expr_Default string | Text_Default string

datatype db_column = Column (c_name: string) (c_type: sql_type) (c_default: col_default) (c_nullable: bool)

datatype check =
    At_Least string int | At_Most string int | Above string int | Len_At_Least string int | Len_At_Most string int
  | Len_Above string int | Is_Null string | Matches string string | Either check check | Both check check

fun check_columns :: "check \<Rightarrow> string list" where
  "check_columns (At_Least c n) = [c]"
| "check_columns (At_Most c n) = [c]"
| "check_columns (Above c n) = [c]"
| "check_columns (Len_At_Least c n) = [c]"
| "check_columns (Len_At_Most c n) = [c]"
| "check_columns (Len_Above c n) = [c]"
| "check_columns (Is_Null c) = [c]"
| "check_columns (Matches c p) = [c]"
| "check_columns (Either a b) = check_columns a @ check_columns b"
| "check_columns (Both a b) = check_columns a @ check_columns b"

datatype db_constraint =
    Primary_Key "string list" | Unique "string list" | Check check
  | Foreign_Key "string list" string "string list" bool

text \<open>The columns of its own table that a constraint involves.\<close>

fun constrained :: "db_constraint \<Rightarrow> string list" where
  "constrained (Primary_Key cs) = cs"
| "constrained (Unique cs) = cs"
| "constrained (Check e) = check_columns e"
| "constrained (Foreign_Key cs t rs cascade) = cs"

fun default_name :: "string \<Rightarrow> db_constraint \<Rightarrow> string" where
  "default_name t (Primary_Key cs) = t @ ''_pkey''"
| "default_name t (Unique cs) = t @ ''_'' @ join ''_'' cs @ ''_key''"
| "default_name t (Check e) = t @ ''_'' @ hd (check_columns e) @ ''_check''"
| "default_name t (Foreign_Key cs t' rs cascade) = t @ ''_'' @ join ''_'' cs @ ''_fkey''"

record db_table =
  t_name :: string
  t_columns :: "db_column list"
  t_constraints :: "(string \<times> db_constraint) list"
  t_indexes :: "(string \<times> string list) list"

text \<open>
  The types that were created, with their labels, and those the running command of Alembic has
  created itself, which it does not create again.
\<close>

record db_schema =
  s_tables :: "db_table list"
  s_types :: "(string \<times> string list) list"
  s_created :: "string list"

definition empty_schema :: db_schema where
  "empty_schema = \<lparr>s_tables = [], s_types = [], s_created = []\<rparr>"

definition find_table :: "string \<Rightarrow> db_schema \<Rightarrow> db_table option" where
  "find_table t s = find (\<lambda>tb. t_name tb = t) (s_tables s)"

definition column_names :: "db_table \<Rightarrow> string list" where
  "column_names tb = map c_name (t_columns tb)"

definition find_column :: "string \<Rightarrow> db_table \<Rightarrow> db_column option" where
  "find_column c tb = find (\<lambda>x. c_name x = c) (t_columns tb)"

fun is_key_on :: "string list \<Rightarrow> db_constraint \<Rightarrow> bool" where
  "is_key_on cs (Primary_Key ks) \<longleftrightarrow> set ks = set cs"
| "is_key_on cs (Unique ks) \<longleftrightarrow> set ks = set cs"
| "is_key_on cs _ \<longleftrightarrow> False"

text \<open>What a foreign key may refer to, and what \<open>ON CONFLICT\<close> may name.\<close>

definition has_key :: "string list \<Rightarrow> db_table \<Rightarrow> bool" where
  "has_key cs tb \<longleftrightarrow> list_ex (is_key_on cs \<circ> snd) (t_constraints tb)"

fun refers_to :: "string \<Rightarrow> (string list \<Rightarrow> bool) \<Rightarrow> db_constraint \<Rightarrow> bool" where
  "refers_to t p (Foreign_Key cs t' rs cascade) \<longleftrightarrow> t' = t \<and> p rs"
| "refers_to t p _ \<longleftrightarrow> False"

definition referenced :: "string \<Rightarrow> (string list \<Rightarrow> bool) \<Rightarrow> db_table list \<Rightarrow> bool" where
  "referenced t p tbs \<longleftrightarrow> list_ex (\<lambda>tb. list_ex (refers_to t p \<circ> snd) (t_constraints tb)) tbs"

section \<open>Operations\<close>

datatype ddl =
    Create_Table string "db_column list" "(string option \<times> db_constraint) list"
  | Drop_Table string
  | Add_Column string db_column
  | Drop_Column string string
  | Alter_Nullable string string bool
  | Alter_Type string string sql_type
  | Create_Index string string "string list"
  | Drop_Index string string
  | Create_Constraint "string option" string db_constraint
  | Drop_Constraint "string option" string

text \<open>
  What the rows that are there decide: which tables have any, which columns have a \<open>NULL\<close>, and
  which have texts that are too long for a type.
\<close>

record contents =
  populated :: "string \<Rightarrow> bool"
  has_null :: "string \<Rightarrow> string \<Rightarrow> bool"
  overlong :: "string \<Rightarrow> string \<Rightarrow> bool"

definition no_rows :: contents where
  "no_rows = \<lparr>populated = (\<lambda>_. False), has_null = (\<lambda>_ _. False), overlong = (\<lambda>_ _. False)\<rparr>"

fun numbered :: "sql_type \<Rightarrow> bool" where
  "numbered INTEGER = True"
| "numbered SMALLINT = True"
| "numbered BIGINT = True"
| "numbered _ = False"

text \<open>
  A single number that is the primary key and refers to nothing gets a sequence, and the columns
  of a primary key are not null.
\<close>

definition key_columns :: "db_constraint list \<Rightarrow> string list" where
  "key_columns ks = concat (map (\<lambda>k. case k of Primary_Key cs \<Rightarrow> cs | _ \<Rightarrow> []) ks)"

definition linking_columns :: "db_constraint list \<Rightarrow> string list" where
  "linking_columns ks = concat (map (\<lambda>k. case k of Foreign_Key cs _ _ _ \<Rightarrow> cs | _ \<Rightarrow> []) ks)"

definition settle_column :: "db_constraint list \<Rightarrow> db_column \<Rightarrow> db_column" where
  "settle_column ks c =
     Column (c_name c) (c_type c)
       (if key_columns ks = [c_name c] \<and> numbered (c_type c) \<and> c_name c \<notin> set (linking_columns ks) \<and> c_default c = No_Default
        then Serial else c_default c)
       (c_nullable c \<and> c_name c \<notin> set (key_columns ks))"

definition known_type :: "db_schema \<Rightarrow> sql_type \<Rightarrow> bool" where
  "known_type s ty = (case ty of ENUM n ls \<Rightarrow> n \<in> fst ` set (s_types s) | _ \<Rightarrow> True)"

definition create_type :: "db_column \<Rightarrow> db_schema \<Rightarrow> exn + db_schema" where
  "create_type c s =
     (case c_type c of
        ENUM n ls \<Rightarrow>
          if n \<in> set (s_created s) then Inr s
          else if n \<in> fst ` set (s_types s) then Inl SQLAlchemyError
          else Inr (s\<lparr>s_types := s_types s @ [(n, ls)], s_created := n # s_created s\<rparr>)
      | _ \<Rightarrow> Inr s)"

fun create_types :: "db_column list \<Rightarrow> db_schema \<Rightarrow> exn + db_schema" where
  "create_types [] s = Inr s"
| "create_types (c # cs) s = bindE (create_type c s) (create_types cs)"

definition name_constraint :: "string \<Rightarrow> string option \<times> db_constraint \<Rightarrow> string \<times> db_constraint" where
  "name_constraint t k = (case k of (None, c) \<Rightarrow> (default_name t c, c) | (Some n, c) \<Rightarrow> (n, c))"

text \<open>A constraint fits a table: its columns are there, and so is the key it refers to.\<close>

definition constraint_fits :: "db_table list \<Rightarrow> db_table \<Rightarrow> db_constraint \<Rightarrow> bool" where
  "constraint_fits tbs tb k \<longleftrightarrow>
     set (constrained k) \<subseteq> set (column_names tb) \<and>
     (case k of
        Foreign_Key cs t rs cascade \<Rightarrow> list_ex (\<lambda>x. t_name x = t \<and> has_key rs x) (if t_name tb = t then [tb] else tbs)
      | _ \<Rightarrow> True)"

definition update_table :: "string \<Rightarrow> (db_table \<Rightarrow> db_table) \<Rightarrow> db_schema \<Rightarrow> db_schema" where
  "update_table t f s = s\<lparr>s_tables := map (\<lambda>tb. if t_name tb = t then f tb else tb) (s_tables s)\<rparr>"

definition in_table :: "string \<Rightarrow> (db_table \<Rightarrow> bool) \<Rightarrow> db_schema \<Rightarrow> exn + unit" where
  "in_table t p s = (case find_table t s of None \<Rightarrow> Inl SQLAlchemyError | Some tb \<Rightarrow> if p tb then Inr () else Inl SQLAlchemyError)"

definition index_names :: "db_schema \<Rightarrow> string list" where
  "index_names s = concat (map (map fst \<circ> t_indexes) (s_tables s))"

definition new_table :: "string \<Rightarrow> db_column list \<Rightarrow> (string option \<times> db_constraint) list \<Rightarrow> db_table" where
  "new_table t cols ks =
     \<lparr>t_name = t, t_columns = map (settle_column (map snd ks)) cols, t_constraints = map (name_constraint t) ks, t_indexes = []\<rparr>"

text \<open>Any type is assigned to a text by itself; nothing else is converted without being told how.\<close>

fun assignable :: "sql_type \<Rightarrow> sql_type \<Rightarrow> bool" where
  "assignable old (VARCHAR n) = True"
| "assignable old TEXT = True"
| "assignable old new \<longleftrightarrow> old = new"

fun apply_ddl :: "contents \<Rightarrow> ddl \<Rightarrow> db_schema \<Rightarrow> exn + db_schema" where
  "apply_ddl d (Create_Table t cols ks) s =
     (let tb = new_table t cols ks in
      if find_table t s \<noteq> None \<or> \<not> distinct (column_names tb) \<or> \<not> distinct (map fst (t_constraints tb)) \<or>
         \<not> list_all (constraint_fits (s_tables s) tb \<circ> snd) (t_constraints tb)
      then Inl SQLAlchemyError
      else bindE (create_types cols s) (\<lambda>s'. Inr (s'\<lparr>s_tables := s_tables s' @ [tb]\<rparr>)))"
| "apply_ddl d (Drop_Table t) s =
     bindE (in_table t (\<lambda>tb. \<not> referenced t (\<lambda>_. True) (filter (\<lambda>x. t_name x \<noteq> t) (s_tables s))) s) (\<lambda>_.
       Inr (s\<lparr>s_tables := filter (\<lambda>x. t_name x \<noteq> t) (s_tables s)\<rparr>))"
| "apply_ddl d (Add_Column t c) s =
     bindE (in_table t (\<lambda>tb. c_name c \<notin> set (column_names tb) \<and> known_type s (c_type c)) s) (\<lambda>_.
     if populated d t \<and> \<not> c_nullable c \<and> c_default c = No_Default then Inl IntegrityError
     else Inr (update_table t (\<lambda>tb. tb\<lparr>t_columns := t_columns tb @ [c]\<rparr>) s))"
| "apply_ddl d (Drop_Column t c) s =
     bindE (in_table t (\<lambda>tb. c \<in> set (column_names tb) \<and>
         \<not> referenced t (\<lambda>rs. c \<in> set rs) (filter (\<lambda>x. t_name x \<noteq> t) (s_tables s)) \<and>
         \<not> list_ex (\<lambda>(n, k). refers_to t (\<lambda>rs. c \<in> set rs) k \<and> c \<notin> set (constrained k)) (t_constraints tb)) s) (\<lambda>_.
       Inr (update_table t (\<lambda>tb. tb\<lparr>
         t_columns := filter (\<lambda>x. c_name x \<noteq> c) (t_columns tb),
         t_constraints := filter (\<lambda>(n, k). c \<notin> set (constrained k)) (t_constraints tb),
         t_indexes := filter (\<lambda>(n, cs). c \<notin> set cs) (t_indexes tb)\<rparr>) s))"
| "apply_ddl d (Alter_Nullable t c b) s =
     bindE (in_table t (\<lambda>tb. c \<in> set (column_names tb) \<and> (b \<longrightarrow> c \<notin> set (key_columns (map snd (t_constraints tb))))) s) (\<lambda>_.
     if \<not> b \<and> has_null d t c then Inl IntegrityError
     else Inr (update_table t (\<lambda>tb. tb\<lparr>t_columns :=
       map (\<lambda>x. if c_name x = c then Column c (c_type x) (c_default x) b else x) (t_columns tb)\<rparr>) s))"
| "apply_ddl d (Alter_Type t c ty) s =
     bindE (in_table t (\<lambda>tb. case find_column c tb of None \<Rightarrow> False | Some x \<Rightarrow> assignable (c_type x) ty \<and> known_type s ty) s) (\<lambda>_.
     if overlong d t c \<and> ty \<noteq> TEXT then Inl SQLAlchemyError
     else Inr (update_table t (\<lambda>tb. tb\<lparr>t_columns :=
       map (\<lambda>x. if c_name x = c then Column c ty (c_default x) (c_nullable x) else x) (t_columns tb)\<rparr>) s))"
| "apply_ddl d (Create_Index n t cs) s =
     bindE (in_table t (\<lambda>tb. n \<notin> set (index_names s) \<and> set cs \<subseteq> set (column_names tb)) s) (\<lambda>_.
       Inr (update_table t (\<lambda>tb. tb\<lparr>t_indexes := t_indexes tb @ [(n, cs)]\<rparr>) s))"
| "apply_ddl d (Drop_Index n t) s =
     bindE (in_table t (\<lambda>tb. n \<in> fst ` set (t_indexes tb)) s) (\<lambda>_.
       Inr (update_table t (\<lambda>tb. tb\<lparr>t_indexes := filter (\<lambda>(m, cs). m \<noteq> n) (t_indexes tb)\<rparr>) s))"
| "apply_ddl d (Create_Constraint n t k) s =
     (let nk = name_constraint t (n, k) in
      bindE (in_table t (\<lambda>tb. fst nk \<notin> fst ` set (t_constraints tb) \<and> constraint_fits (s_tables s) tb k \<and>
          (key_columns [k] = [])) s) (\<lambda>_.
        Inr (update_table t (\<lambda>tb. tb\<lparr>t_constraints := t_constraints tb @ [nk]\<rparr>) s)))"
| "apply_ddl d (Drop_Constraint None t) s = Inl SQLAlchemyError"
| "apply_ddl d (Drop_Constraint (Some n) t) s =
     bindE (in_table t (\<lambda>tb. n \<in> fst ` set (t_constraints tb) \<and>
         \<not> list_ex (\<lambda>(m, k). m = n \<and> referenced t (\<lambda>rs. is_key_on rs k) (s_tables s)) (t_constraints tb)) s) (\<lambda>_.
       Inr (update_table t (\<lambda>tb. tb\<lparr>t_constraints := filter (\<lambda>(m, k). m \<noteq> n) (t_constraints tb)\<rparr>) s))"

fun apply_all :: "contents \<Rightarrow> ddl list \<Rightarrow> db_schema \<Rightarrow> exn + db_schema" where
  "apply_all d [] s = Inr s"
| "apply_all d (x # xs) s = bindE (apply_ddl d x s) (apply_all d xs)"

section \<open>Well-formed schemas\<close>

definition table_ok :: "db_schema \<Rightarrow> db_table \<Rightarrow> bool" where
  "table_ok s tb \<longleftrightarrow>
     distinct (column_names tb) \<and> distinct (map fst (t_constraints tb)) \<and>
     (\<forall>(n, k) \<in> set (t_constraints tb). constraint_fits (s_tables s) tb k) \<and>
     (\<forall>(n, cs) \<in> set (t_indexes tb). set cs \<subseteq> set (column_names tb)) \<and>
     (\<forall>c \<in> set (t_columns tb). known_type s (c_type c))"

definition schema_ok :: "db_schema \<Rightarrow> bool" where
  "schema_ok s \<longleftrightarrow>
     distinct (map t_name (s_tables s)) \<and> (\<forall>tb \<in> set (s_tables s). table_ok s tb) \<and> set (s_created s) \<subseteq> fst ` set (s_types s)"

lemma find_table_Some: "find_table t s = Some tb \<Longrightarrow> tb \<in> set (s_tables s) \<and> t_name tb = t"
  by (auto simp: find_table_def find_Some_iff)

lemma find_table_None: "find_table t s = None \<longleftrightarrow> t \<notin> t_name ` set (s_tables s)"
  by (auto simp: find_table_def find_None_iff)

lemma in_table_Inr: "in_table t p s = Inr u \<longleftrightarrow> (\<exists>tb. find_table t s = Some tb \<and> p tb)"
  by (auto simp: in_table_def split: option.splits)

lemma only_table: "schema_ok s \<Longrightarrow> find_table t s = Some tb \<Longrightarrow> x \<in> set (s_tables s) \<Longrightarrow> t_name x = t \<Longrightarrow> x = tb"
  using find_table_Some [of t s tb] by (simp add: schema_ok_def distinct_map inj_on_def)

lemma update_table_app [simp]:
  "s_types (update_table t f s) = s_types s" "s_created (update_table t f s) = s_created s"
  "s_tables (update_table t f s) = map (\<lambda>tb. if t_name tb = t then f tb else tb) (s_tables s)"
  by (simp_all add: update_table_def)

lemma known_update [simp]: "known_type (update_table t f s) ty = known_type s ty"
  by (simp add: known_type_def cong: sql_type.case_cong)

definition others_refer :: "string \<Rightarrow> db_schema \<Rightarrow> string list \<Rightarrow> bool" where
  "others_refer t s rs \<longleftrightarrow> (\<exists>x n cs b. x \<in> set (s_tables s) \<and> t_name x \<noteq> t \<and> (n, Foreign_Key cs t rs b) \<in> set (t_constraints x))"

text \<open>
  What an operation on one table has to show: the table is still fine by itself, and the keys
  that other tables refer to are kept.
\<close>

lemma update_table_ok:
  assumes s: "schema_ok s" and tb: "find_table t s = Some tb" and name: "t_name (f tb) = t"
    and columns: "distinct (column_names (f tb))" and names: "distinct (map fst (t_constraints (f tb)))"
    and fits: "\<And>n k. (n, k) \<in> set (t_constraints (f tb)) \<Longrightarrow> constraint_fits (s_tables s) (f tb) k"
    and indexes: "\<And>n cs. (n, cs) \<in> set (t_indexes (f tb)) \<Longrightarrow> set cs \<subseteq> set (column_names (f tb))"
    and types: "\<And>c. c \<in> set (t_columns (f tb)) \<Longrightarrow> known_type s (c_type c)"
    and keys: "\<And>rs. others_refer t s rs \<Longrightarrow> has_key rs tb \<Longrightarrow> has_key rs (f tb)"
  shows "schema_ok (update_table t f s)"
proof -
  let ?g = "\<lambda>x. if t_name x = t then f x else x"
  have ft: "?g x = (if x = tb then f tb else x)" "t_name (?g x) = t_name x" if "x \<in> set (s_tables s)" for x
  proof -
    have "t_name x = t \<longleftrightarrow> x = tb" using only_table [OF s tb that] find_table_Some [OF tb] by blast
    then show "?g x = (if x = tb then f tb else x)" "t_name (?g x) = t_name x"
      using name find_table_Some [OF tb] by simp_all
  qed
  have fits': "constraint_fits (map ?g (s_tables s)) (?g x) k"
    if x: "x \<in> set (s_tables s)" and k: "constraint_fits (s_tables s) (?g x) k"
      and refer: "\<And>cs rs b. k = Foreign_Key cs t rs b \<Longrightarrow> t_name x \<noteq> t \<Longrightarrow> others_refer t s rs" for x k
  proof (cases k)
    case (Foreign_Key cs t' rs b)
    show ?thesis
    proof (cases "t_name x = t'")
      case False
      with k Foreign_Key ft(2) [OF x] obtain y where y: "y \<in> set (s_tables s)" "t_name y = t'" "has_key rs y"
        by (auto simp: constraint_fits_def list_ex_iff)
      have "has_key rs (?g y)"
      proof (cases "t_name y = t")
        case True
        with y False refer [OF _ ] Foreign_Key have "others_refer t s rs" by auto
        with keys y(3) only_table [OF s tb y(1) True] show ?thesis using True by auto
      qed (use y in simp)
      moreover have "?g y \<in> set (map ?g (s_tables s))" "t_name (?g y) = t'" using y ft(2) [OF y(1)] by auto
      ultimately show ?thesis
        using k False Foreign_Key ft(2) [OF x] by (auto simp: constraint_fits_def list_ex_iff simp del: set_map)
    qed (use k Foreign_Key ft(2) [OF x] in \<open>auto simp: constraint_fits_def\<close>)
  qed (use k in \<open>auto simp: constraint_fits_def\<close>)
  have table: "table_ok (update_table t f s) (?g x)" if x: "x \<in> set (s_tables s)" for x
  proof (cases "t_name x = t")
    case True
    with only_table [OF s tb x] have "x = tb" by simp
    with True columns names indexes types fits fits' [OF x] show ?thesis by (auto simp: table_ok_def)
  next
    case False
    with s x have ok: "table_ok s x" by (simp add: schema_ok_def)
    have "constraint_fits (map ?g (s_tables s)) x k" if "(n, k) \<in> set (t_constraints x)" for n k
      using fits' [OF x, of k] ok False that x by (force simp: table_ok_def others_refer_def)
    with ok False show ?thesis by (auto simp: table_ok_def)
  qed
  have "map t_name (map ?g (s_tables s)) = map t_name (s_tables s)" using ft(2) by simp
  moreover have "\<forall>x \<in> set (s_tables (update_table t f s)). table_ok (update_table t f s) x"
    unfolding update_table_app(3) set_map using table by blast
  ultimately show ?thesis using s by (simp only: schema_ok_def update_table_app)
qed

text \<open>The operations that keep every constraint of the table, and its columns with their names.\<close>

lemma keep_table_ok:
  assumes s: "schema_ok s" and tb: "find_table t s = Some tb" and name: "t_name (f tb) = t"
    and columns: "distinct (column_names (f tb))" "set (column_names tb) \<subseteq> set (column_names (f tb))"
    and constraints: "t_constraints (f tb) = t_constraints tb"
    and indexes: "\<And>n cs. (n, cs) \<in> set (t_indexes (f tb)) \<Longrightarrow> set cs \<subseteq> set (column_names (f tb))"
    and types: "\<And>c. c \<in> set (t_columns (f tb)) \<Longrightarrow> known_type s (c_type c)"
  shows "schema_ok (update_table t f s)"
proof (rule update_table_ok [where f = f, OF s tb name columns(1) _ _ indexes types])
  have ok: "table_ok s tb" "t_name tb = t" using s find_table_Some [OF tb] by (simp_all add: schema_ok_def)
  then show "distinct (map fst (t_constraints (f tb)))" by (simp add: table_ok_def constraints)
  show "constraint_fits (s_tables s) (f tb) k" if "(n, k) \<in> set (t_constraints (f tb))" for n k
  proof -
    from ok that have "constraint_fits (s_tables s) tb k" by (auto simp: table_ok_def constraints)
    then show ?thesis
      using columns(2) name ok(2)
      by (auto simp: constraint_fits_def has_key_def constraints split: db_constraint.splits)
  qed
  show "has_key rs tb \<Longrightarrow> has_key rs (f tb)" for rs by (simp add: has_key_def constraints)
qed

lemma create_type_keeps:
  "create_type c s = Inr s' \<Longrightarrow> set (s_created s) \<subseteq> fst ` set (s_types s) \<Longrightarrow>
   s_tables s' = s_tables s \<and> fst ` set (s_types s) \<subseteq> fst ` set (s_types s') \<and> known_type s' (c_type c) \<and>
   set (s_created s') \<subseteq> fst ` set (s_types s')"
  by (auto simp: create_type_def known_type_def split: sql_type.splits if_splits)

lemma known_type_mono: "known_type s ty \<Longrightarrow> fst ` set (s_types s) \<subseteq> fst ` set (s_types s') \<Longrightarrow> known_type s' ty"
  by (auto simp: known_type_def split: sql_type.splits)

lemma create_types_keep:
  "create_types cs s = Inr s' \<Longrightarrow> set (s_created s) \<subseteq> fst ` set (s_types s) \<Longrightarrow>
   s_tables s' = s_tables s \<and> fst ` set (s_types s) \<subseteq> fst ` set (s_types s') \<and>
   (\<forall>c \<in> set cs. known_type s' (c_type c)) \<and> set (s_created s') \<subseteq> fst ` set (s_types s')"
proof (induction cs arbitrary: s)
  case (Cons c cs)
  then obtain s1 where s1: "create_type c s = Inr s1" "create_types cs s1 = Inr s'"
    by (auto simp: bindE_eq_Inr_iff)
  from create_type_keeps [OF s1(1) Cons.prems(2)] Cons.IH [OF s1(2)] show ?case
    by (auto intro: known_type_mono)
qed simp

lemma fits_mono:
  assumes "constraint_fits tbs tb k" and "t_name tb' = t_name tb" and "set (constrained k) \<subseteq> set (column_names tb')"
    and "\<And>cs rs b. k = Foreign_Key cs (t_name tb) rs b \<Longrightarrow> has_key rs tb \<Longrightarrow> has_key rs tb'"
    and "\<And>x. x \<in> set tbs \<Longrightarrow> (\<And>cs rs b. k = Foreign_Key cs (t_name x) rs b \<Longrightarrow> x \<in> set tbs')"
  shows "constraint_fits tbs' tb' k"
  using assms by (cases k) (auto simp: constraint_fits_def list_ex_iff split: if_splits)

lemma table_ok_mono:
  assumes "table_ok s x" and "\<And>k. constraint_fits (s_tables s) x k \<Longrightarrow> constraint_fits (s_tables s') x k"
    and "\<And>ty. known_type s ty \<Longrightarrow> known_type s' ty"
  shows "table_ok s' x"
  using assms by (simp add: table_ok_def) blast

lemma create_table_ok:
  assumes s: "schema_ok s" and run: "apply_ddl d (Create_Table t cols ks) s = Inr s'"
  shows "schema_ok s'"
proof -
  let ?tb = "new_table t cols ks"
  from run obtain s1 where s1: "create_types cols s = Inr s1" and s': "s' = s1\<lparr>s_tables := s_tables s1 @ [?tb]\<rparr>"
    and new: "find_table t s = None" "distinct (column_names ?tb)" "distinct (map fst (t_constraints ?tb))"
    and fits: "\<forall>x \<in> set (t_constraints ?tb). constraint_fits (s_tables s) ?tb (snd x)"
    by (auto simp: Let_def bindE_eq_Inr_iff list_all_iff split: if_splits)
  have created: "set (s_created s) \<subseteq> fst ` set (s_types s)" using s by (simp add: schema_ok_def)
  note kept = create_types_keep [OF s1 created]
  have more: "constraint_fits (s_tables s) x k \<Longrightarrow> constraint_fits (s_tables s') x k" for x k
    by (rule fits_mono) (auto simp: s' kept constraint_fits_def)
  have types: "known_type s' = known_type s1" by (auto simp: known_type_def s' cong: sql_type.case_cong)
  have columns: "c_type c \<in> c_type ` set cols" if "c \<in> set (t_columns ?tb)" for c
    using that by (auto simp: new_table_def settle_column_def)
  then have known: "known_type s1 (c_type c)" if "c \<in> set (t_columns ?tb)" for c
    using kept that by (metis imageE)
  have no_index: "t_indexes ?tb = []" by (simp add: new_table_def)
  have "table_ok s' x" if "x \<in> set (s_tables s)" for x
  proof (rule table_ok_mono)
    show "table_ok s x" using s that by (simp add: schema_ok_def)
    show "known_type s ty \<Longrightarrow> known_type s' ty" for ty using kept by (simp add: types known_type_mono)
  qed (rule more)
  moreover have "table_ok s' ?tb"
    unfolding table_ok_def types no_index
    using new(2,3) more fits known by (auto split: prod.splits)
  ultimately show ?thesis
    using s new(1) kept by (auto simp: schema_ok_def s' find_table_None new_table_def)
qed

lemma drop_table_ok:
  assumes s: "schema_ok s" and run: "apply_ddl d (Drop_Table t) s = Inr s'"
  shows "schema_ok s'"
proof -
  from run have s': "s' = s\<lparr>s_tables := filter (\<lambda>x. t_name x \<noteq> t) (s_tables s)\<rparr>"
    and free: "\<not> referenced t (\<lambda>_. True) (filter (\<lambda>x. t_name x \<noteq> t) (s_tables s))"
    by (auto simp: bindE_eq_Inr_iff in_table_Inr)
  have types: "known_type s' = known_type s" by (auto simp: known_type_def s' cong: sql_type.case_cong)
  have "table_ok s' x" if x: "x \<in> set (s_tables s)" "t_name x \<noteq> t" for x
  proof -
    have "constraint_fits (s_tables s') x k" if k: "(n, k) \<in> set (t_constraints x)" for n k
    proof (rule fits_mono)
      show "constraint_fits (s_tables s) x k" using s x k by (auto simp: schema_ok_def table_ok_def)
      then show "set (constrained k) \<subseteq> set (column_names x)" by (simp add: constraint_fits_def)
      show "y \<in> set (s_tables s')" if "y \<in> set (s_tables s)" "k = Foreign_Key cs (t_name y) rs b" for y cs rs b
        using that free k x by (force simp: s' referenced_def list_ex_iff)
    qed auto
    with s x show ?thesis by (auto simp: schema_ok_def table_ok_def types)
  qed
  with s show ?thesis by (auto simp: schema_ok_def s' distinct_map_filter)
qed

lemma has_key_iff: "has_key rs tb \<longleftrightarrow> (\<exists>n k. (n, k) \<in> set (t_constraints tb) \<and> is_key_on rs k)"
  by (force simp: has_key_def list_ex_iff)

lemma key_constrained: "is_key_on rs k \<Longrightarrow> set (constrained k) = set rs"
  by (cases k) auto

lemma refers_others: "others_refer t s rs \<Longrightarrow> p rs \<Longrightarrow> referenced t p (filter (\<lambda>x. t_name x \<noteq> t) (s_tables s))"
  by (force simp: others_refer_def referenced_def list_ex_iff)

lemma drop_column_ok:
  assumes s: "schema_ok s" and run: "apply_ddl d (Drop_Column t c) s = Inr s'"
  shows "schema_ok s'"
proof -
  let ?f = "\<lambda>tb. tb\<lparr>t_columns := filter (\<lambda>x. c_name x \<noteq> c) (t_columns tb),
    t_constraints := filter (\<lambda>(n, k). c \<notin> set (constrained k)) (t_constraints tb),
    t_indexes := filter (\<lambda>(n, cs). c \<notin> set cs) (t_indexes tb)\<rparr>"
  from run obtain tb where tb: "find_table t s = Some tb" and s': "s' = update_table t ?f s"
    and others: "\<not> referenced t (\<lambda>rs. c \<in> set rs) (filter (\<lambda>x. t_name x \<noteq> t) (s_tables s))"
    and own: "\<not> list_ex (\<lambda>(n, k). refers_to t (\<lambda>rs. c \<in> set rs) k \<and> c \<notin> set (constrained k)) (t_constraints tb)"
    by (auto simp: bindE_eq_Inr_iff in_table_Inr)
  have ok: "table_ok s tb" "t_name tb = t" using s find_table_Some [OF tb] by (simp_all add: schema_ok_def)
  have cols: "column_names (?f tb) = filter (\<lambda>x. x \<noteq> c) (column_names tb)"
    by (simp add: column_names_def filter_map comp_def)
  have keys: "has_key rs (?f tb)" if "has_key rs tb" "c \<notin> set rs" for rs
    using that key_constrained by (fastforce simp: has_key_iff)
  show ?thesis
    unfolding s'
  proof (rule update_table_ok [where f = ?f, OF s tb])
    show "constraint_fits (s_tables s) (?f tb) k" if k: "(n, k) \<in> set (t_constraints (?f tb))" for n k
    proof (rule fits_mono)
      show fits: "constraint_fits (s_tables s) tb k" using ok k by (auto simp: table_ok_def)
      show "set (constrained k) \<subseteq> set (column_names (?f tb))"
        using fits k unfolding cols by (auto simp: constraint_fits_def)
      show "has_key rs (?f tb)" if "k = Foreign_Key cs (t_name tb) rs b" "has_key rs tb" for cs rs b
        using that k own ok(2) by (intro keys) (auto simp: list_ex_iff)
    qed simp_all
    show "has_key rs (?f tb)" if "others_refer t s rs" "has_key rs tb" for rs
    proof (rule keys [OF that(2)])
      show "c \<notin> set rs" using refers_others [OF that(1), of "\<lambda>rs. c \<in> set rs"] others by blast
    qed
  qed (use ok in \<open>auto simp: cols table_ok_def intro: distinct_map_filter\<close>)
qed

lemma drop_constraint_ok:
  assumes s: "schema_ok s" and run: "apply_ddl d (Drop_Constraint (Some m) t) s = Inr s'"
  shows "schema_ok s'"
proof -
  let ?f = "\<lambda>tb. tb\<lparr>t_constraints := filter (\<lambda>(n, k). n \<noteq> m) (t_constraints tb)\<rparr>"
  from run obtain tb where tb: "find_table t s = Some tb" and s': "s' = update_table t ?f s"
    and free: "\<not> list_ex (\<lambda>(n, k). n = m \<and> referenced t (\<lambda>rs. is_key_on rs k) (s_tables s)) (t_constraints tb)"
    by (auto simp: bindE_eq_Inr_iff in_table_Inr)
  have ok: "table_ok s tb" "t_name tb = t" "tb \<in> set (s_tables s)"
    using s find_table_Some [OF tb] by (simp_all add: schema_ok_def)
  have keys: "has_key rs (?f tb)"
    if "has_key rs tb" and x: "x \<in> set (s_tables s)" "(n, Foreign_Key cs t rs b) \<in> set (t_constraints x)" for rs x n cs b
  proof -
    from that(1) obtain l k where l: "(l, k) \<in> set (t_constraints tb)" "is_key_on rs k" by (auto simp: has_key_iff)
    have "referenced t (\<lambda>rs. is_key_on rs k) (s_tables s)" using x l(2) by (force simp: referenced_def list_ex_iff)
    with free l have "l \<noteq> m" by (auto simp: list_ex_iff)
    with l show ?thesis by (auto simp: has_key_iff)
  qed
  show ?thesis
    unfolding s'
  proof (rule update_table_ok [where f = ?f, OF s tb])
    show "constraint_fits (s_tables s) (?f tb) k" if k: "(n, k) \<in> set (t_constraints (?f tb))" for n k
    proof (rule fits_mono)
      show fits: "constraint_fits (s_tables s) tb k" using ok k by (auto simp: table_ok_def)
      then show "set (constrained k) \<subseteq> set (column_names (?f tb))" by (simp add: constraint_fits_def column_names_def)
      show "has_key rs (?f tb)" if "k = Foreign_Key cs (t_name tb) rs b" "has_key rs tb" for cs rs b
        using that k ok(2,3) by (intro keys [of rs tb]) auto
    qed simp_all
    show "has_key rs (?f tb)" if "others_refer t s rs" "has_key rs tb" for rs
      using that by (auto simp: others_refer_def intro: keys)
  qed (use ok in \<open>auto simp: column_names_def table_ok_def intro: distinct_map_filter\<close>)
qed

lemma create_constraint_ok:
  assumes s: "schema_ok s" and run: "apply_ddl d (Create_Constraint m t k) s = Inr s'"
  shows "schema_ok s'"
proof -
  let ?nk = "name_constraint t (m, k)"
  let ?f = "\<lambda>tb. tb\<lparr>t_constraints := t_constraints tb @ [?nk]\<rparr>"
  from run obtain tb where tb: "find_table t s = Some tb" and s': "s' = update_table t ?f s"
    and new: "fst ?nk \<notin> fst ` set (t_constraints tb)" "constraint_fits (s_tables s) tb k"
    by (auto simp: bindE_eq_Inr_iff in_table_Inr Let_def)
  have ok: "table_ok s tb" "t_name tb = t" using s find_table_Some [OF tb] by (simp_all add: schema_ok_def)
  have nk: "snd ?nk = k" by (simp add: name_constraint_def split: option.splits)
  have keys: "has_key rs tb \<Longrightarrow> has_key rs (?f tb)" for rs by (auto simp: has_key_iff)
  show ?thesis
    unfolding s'
  proof (rule update_table_ok [where f = ?f, OF s tb])
    show "constraint_fits (s_tables s) (?f tb) j" if j: "(n, j) \<in> set (t_constraints (?f tb))" for n j
    proof (rule fits_mono)
      show fits: "constraint_fits (s_tables s) tb j"
      proof (cases "(n, j) = ?nk")
        case True
        then show ?thesis using new(2) nk by (metis snd_conv)
      next
        case False
        then show ?thesis using ok(1) j by (auto simp: table_ok_def)
      qed
      then show "set (constrained j) \<subseteq> set (column_names (?f tb))" by (simp add: constraint_fits_def column_names_def)
    qed (simp_all add: keys)
  qed (use ok new in \<open>auto simp: column_names_def table_ok_def keys\<close>)
qed

lemma change_columns_ok:
  assumes s: "schema_ok s" and tb: "find_table t s = Some tb"
    and names: "\<And>x. c_name (g x) = c_name x" and types: "\<And>x. x \<in> set (t_columns tb) \<Longrightarrow> known_type s (c_type (g x))"
  shows "schema_ok (update_table t (\<lambda>tb. tb\<lparr>t_columns := map g (t_columns tb)\<rparr>) s)"
proof -
  have cols: "column_names (x\<lparr>t_columns := map g (t_columns x)\<rparr>) = column_names x" for x
    using names by (simp add: column_names_def comp_def)
  have ok: "table_ok s tb" "t_name tb = t" using s find_table_Some [OF tb] by (simp_all add: schema_ok_def)
  show ?thesis
    by (rule keep_table_ok [OF s tb]) (use ok types in \<open>auto simp: cols table_ok_def\<close>)
qed

lemma add_column_ok:
  assumes s: "schema_ok s" and run: "apply_ddl d (Add_Column t c) s = Inr s'"
  shows "schema_ok s'"
proof -
  from run obtain tb where tb: "find_table t s = Some tb" "c_name c \<notin> set (column_names tb)" "known_type s (c_type c)"
    and s': "s' = update_table t (\<lambda>tb. tb\<lparr>t_columns := t_columns tb @ [c]\<rparr>) s"
    by (auto simp: bindE_eq_Inr_iff in_table_Inr split: if_splits)
  have cols: "column_names (tb\<lparr>t_columns := t_columns tb @ [c]\<rparr>) = column_names tb @ [c_name c]" by (simp add: column_names_def)
  have "table_ok s tb" "t_name tb = t" using s find_table_Some [OF tb(1)] by (simp_all add: schema_ok_def)
  with tb show ?thesis
    unfolding s' by (intro keep_table_ok [OF s tb(1)]) (auto simp: cols table_ok_def)
qed

lemma change_indexes_ok:
  assumes s: "schema_ok s" and tb: "find_table t s = Some tb"
    and new: "\<And>n cs. (n, cs) \<in> set (g (t_indexes tb)) \<Longrightarrow> (n, cs) \<in> set (t_indexes tb) \<or> set cs \<subseteq> set (column_names tb)"
  shows "schema_ok (update_table t (\<lambda>tb. tb\<lparr>t_indexes := g (t_indexes tb)\<rparr>) s)"
proof -
  have ok: "table_ok s tb" "t_name tb = t" using s find_table_Some [OF tb] by (simp_all add: schema_ok_def)
  show ?thesis
  proof (rule keep_table_ok [OF s tb])
    show "set cs \<subseteq> set (column_names (tb\<lparr>t_indexes := g (t_indexes tb)\<rparr>))"
      if "(n, cs) \<in> set (t_indexes (tb\<lparr>t_indexes := g (t_indexes tb)\<rparr>))" for n cs
      using new [of n cs] that ok(1) by (auto simp: column_names_def table_ok_def)
  qed (use ok in \<open>simp_all add: column_names_def table_ok_def\<close>)
qed

lemma alter_ok:
  assumes s: "schema_ok s"
  shows "apply_ddl d (Alter_Nullable t c b) s = Inr s' \<Longrightarrow> schema_ok s'"
    and "apply_ddl d (Alter_Type t c ty) s = Inr s' \<Longrightarrow> schema_ok s'"
    and "apply_ddl d (Create_Index n t cs) s = Inr s' \<Longrightarrow> schema_ok s'"
    and "apply_ddl d (Drop_Index n t) s = Inr s' \<Longrightarrow> schema_ok s'"
proof -
  have known: "known_type s (c_type x)" if "find_table t s = Some tb" "x \<in> set (t_columns tb)" for tb x
  proof -
    have "table_ok s tb" using s find_table_Some [OF that(1)] by (simp add: schema_ok_def)
    with that(2) show ?thesis by (simp add: table_ok_def)
  qed
  show "apply_ddl d (Alter_Nullable t c b) s = Inr s' \<Longrightarrow> schema_ok s'"
    by (auto simp: bindE_eq_Inr_iff in_table_Inr known split: if_splits intro!: change_columns_ok [OF s])
  show "apply_ddl d (Alter_Type t c ty) s = Inr s' \<Longrightarrow> schema_ok s'"
    by (auto simp: bindE_eq_Inr_iff in_table_Inr known split: if_splits option.splits intro!: change_columns_ok [OF s])
  show "apply_ddl d (Create_Index n t cs) s = Inr s' \<Longrightarrow> schema_ok s'"
    by (auto simp: bindE_eq_Inr_iff in_table_Inr intro!: change_indexes_ok [OF s])
  show "apply_ddl d (Drop_Index n t) s = Inr s' \<Longrightarrow> schema_ok s'"
    by (auto simp: bindE_eq_Inr_iff in_table_Inr intro!: change_indexes_ok [OF s])
qed

lemma apply_ddl_ok: "schema_ok s \<Longrightarrow> apply_ddl d x s = Inr s' \<Longrightarrow> schema_ok s'"
proof (cases x)
  case (Drop_Constraint m t)
  assume "schema_ok s" "apply_ddl d x s = Inr s'"
  with Drop_Constraint show ?thesis by (cases m) (simp, metis drop_constraint_ok)
qed (auto simp del: apply_ddl.simps
    intro: create_table_ok drop_table_ok drop_column_ok create_constraint_ok add_column_ok alter_ok)

lemma apply_all_ok: "schema_ok s \<Longrightarrow> apply_all d xs s = Inr s' \<Longrightarrow> schema_ok s'"
  by (induction xs arbitrary: s) (auto simp: bindE_eq_Inr_iff intro: apply_ddl_ok)

lemma empty_schema_ok: "schema_ok empty_schema"
  by (simp add: schema_ok_def empty_schema_def)

section \<open>One table at a time\<close>

text \<open>
  What a run leaves of a table depends on the operations on that table alone, provided that the
  run succeeds.
\<close>

fun on_table :: "ddl \<Rightarrow> string" where
  "on_table (Create_Table t cols ks) = t"
| "on_table (Drop_Table t) = t"
| "on_table (Add_Column t c) = t"
| "on_table (Drop_Column t c) = t"
| "on_table (Alter_Nullable t c b) = t"
| "on_table (Alter_Type t c ty) = t"
| "on_table (Create_Index n t cs) = t"
| "on_table (Drop_Index n t) = t"
| "on_table (Create_Constraint n t k) = t"
| "on_table (Drop_Constraint n t) = t"

fun effect :: "ddl \<Rightarrow> db_table option \<Rightarrow> db_table option" where
  "effect (Create_Table t cols ks) tb = Some (new_table t cols ks)"
| "effect (Drop_Table t) tb = None"
| "effect (Add_Column t c) tb = map_option (\<lambda>tb. tb\<lparr>t_columns := t_columns tb @ [c]\<rparr>) tb"
| "effect (Drop_Column t c) tb = map_option (\<lambda>tb. tb\<lparr>
     t_columns := filter (\<lambda>x. c_name x \<noteq> c) (t_columns tb),
     t_constraints := filter (\<lambda>(n, k). c \<notin> set (constrained k)) (t_constraints tb),
     t_indexes := filter (\<lambda>(n, cs). c \<notin> set cs) (t_indexes tb)\<rparr>) tb"
| "effect (Alter_Nullable t c b) tb = map_option (\<lambda>tb. tb\<lparr>t_columns :=
     map (\<lambda>x. if c_name x = c then Column c (c_type x) (c_default x) b else x) (t_columns tb)\<rparr>) tb"
| "effect (Alter_Type t c ty) tb = map_option (\<lambda>tb. tb\<lparr>t_columns :=
     map (\<lambda>x. if c_name x = c then Column c ty (c_default x) (c_nullable x) else x) (t_columns tb)\<rparr>) tb"
| "effect (Create_Index n t cs) tb = map_option (\<lambda>tb. tb\<lparr>t_indexes := t_indexes tb @ [(n, cs)]\<rparr>) tb"
| "effect (Drop_Index n t) tb = map_option (\<lambda>tb. tb\<lparr>t_indexes := filter (\<lambda>(m, cs). m \<noteq> n) (t_indexes tb)\<rparr>) tb"
| "effect (Create_Constraint n t k) tb = map_option (\<lambda>tb. tb\<lparr>t_constraints := t_constraints tb @ [name_constraint t (n, k)]\<rparr>) tb"
| "effect (Drop_Constraint n t) tb = map_option (\<lambda>tb. tb\<lparr>t_constraints := filter (\<lambda>(m, k). Some m \<noteq> n) (t_constraints tb)\<rparr>) tb"

definition table_after :: "string \<Rightarrow> ddl list \<Rightarrow> db_table option \<Rightarrow> db_table option" where
  "table_after t xs tb = fold effect (filter (\<lambda>x. on_table x = t) xs) tb"

lemma find_update:
  "(\<And>tb. t_name (f tb) = t_name tb) \<Longrightarrow>
   find_table t (update_table t' f s) = (if t = t' then map_option f (find_table t s) else find_table t s)"
proof -
  assume f: "\<And>tb. t_name (f tb) = t_name tb"
  have "find (\<lambda>tb. t_name tb = t) (map (\<lambda>tb. if t_name tb = t' then f tb else tb) tbs) =
      (if t = t' then map_option f (find (\<lambda>tb. t_name tb = t) tbs) else find (\<lambda>tb. t_name tb = t) tbs)" for tbs
    by (induction tbs) (auto simp: f)
  then show ?thesis by (simp add: find_table_def)
qed

lemma find_append: "find p (xs @ [y]) = (case find p xs of None \<Rightarrow> if p y then Some y else None | Some x \<Rightarrow> Some x)"
  by (induction xs) auto

lemma create_types_tables: "create_types cs s = Inr s' \<Longrightarrow> s_tables s' = s_tables s"
proof (induction cs arbitrary: s)
  case (Cons c cs)
  then obtain s1 where s1: "create_type c s = Inr s1" "create_types cs s1 = Inr s'"
    by (auto simp: bindE_eq_Inr_iff)
  then have "s_tables s1 = s_tables s" by (auto simp: create_type_def split: sql_type.splits if_splits)
  with Cons.IH [OF s1(2)] show ?case by simp
qed simp

lemma find_without: "find_table t (s\<lparr>s_tables := filter (\<lambda>x. t_name x \<noteq> t') (s_tables s)\<rparr>) = (if t = t' then None else find_table t s)"
proof -
  have "find (\<lambda>x. t_name x = t) (filter (\<lambda>x. t_name x \<noteq> t') tbs) = (if t = t' then None else find (\<lambda>x. t_name x = t) tbs)" for tbs
    by (induction tbs) auto
  from this [of "s_tables s"] show ?thesis by (simp only: find_table_def) simp
qed

lemma apply_ddl_effect:
  assumes "apply_ddl d x s = Inr s'"
  shows "find_table t s' = (if on_table x = t then effect x (find_table t s) else find_table t s)"
proof (cases x)
  case (Create_Table t' cols ks)
  with assms obtain s1 where none: "find_table t' s = None" and s1: "create_types cols s = Inr s1"
    and s': "s' = s1\<lparr>s_tables := s_tables s1 @ [new_table t' cols ks]\<rparr>"
    by (auto simp: Let_def bindE_eq_Inr_iff split: if_splits)
  have name: "t_name (new_table t' cols ks) = t'" by (simp add: new_table_def)
  have "find_table t s' = (case find_table t s of None \<Rightarrow> if t' = t then Some (new_table t' cols ks) else None | Some tb \<Rightarrow> Some tb)"
    by (simp add: s' find_table_def find_append create_types_tables [OF s1] name)
  with none show ?thesis by (cases "t' = t") (simp_all add: Create_Table split: option.splits)
next
  case (Drop_Constraint n t')
  with assms show ?thesis by (cases n) (auto simp: bindE_eq_Inr_iff find_update)
qed (use assms in \<open>auto simp: bindE_eq_Inr_iff find_update find_without Let_def split: if_splits\<close>)

lemma table_of_run: "apply_all d xs s = Inr s' \<Longrightarrow> find_table t s' = table_after t xs (find_table t s)"
proof (induction xs arbitrary: s)
  case (Cons x xs)
  then obtain s1 where s1: "apply_ddl d x s = Inr s1" "apply_all d xs s1 = Inr s'" by (auto simp: bindE_eq_Inr_iff)
  from Cons.IH [OF s1(2)] apply_ddl_effect [OF s1(1), of t] show ?case by (simp add: table_after_def)
qed (simp add: table_after_def)

text \<open>An operation that always fails makes every run fail that has it.\<close>

lemma doomed: "x \<in> set xs \<Longrightarrow> (\<And>s. \<exists>e. apply_ddl d x s = Inl e) \<Longrightarrow> \<exists>e. apply_all d xs s = Inl e"
proof (induction xs arbitrary: s)
  case (Cons y ys)
  show ?case
  proof (cases "apply_ddl d y s")
    case (Inr s1)
    with Cons.prems have "x \<in> set ys" by (auto split: sum.splits) (metis sum.distinct(1))
    with Cons.IH Cons.prems(2) Inr show ?thesis by (simp add: bindE_def)
  qed (simp add: bindE_def)
qed simp

section \<open>Undoing what was added\<close>

fun undo :: "ddl \<Rightarrow> ddl" where
  "undo (Create_Table t cols ks) = Drop_Table t"
| "undo (Add_Column t c) = Drop_Column t (c_name c)"
| "undo (Create_Index n t cs) = Drop_Index n t"
| "undo x = x"

fun untyped :: "sql_type \<Rightarrow> bool" where
  "untyped (ENUM n ls) = False"
| "untyped _ = True"

text \<open>Additions that leave nothing behind: a type that is created with a table would stay.\<close>

fun adds :: "ddl \<Rightarrow> bool" where
  "adds (Create_Table t cols ks) = list_all (untyped \<circ> c_type) cols"
| "adds (Add_Column t c) = True"
| "adds (Create_Index n t cs) = True"
| "adds x = False"

lemma update_table_id:
  assumes "\<And>tb. tb \<in> set (s_tables s) \<Longrightarrow> t_name tb = t \<Longrightarrow> g (f tb) = tb" and "\<And>tb. t_name (f tb) = t_name tb"
  shows "update_table t g (update_table t f s) = s"
proof -
  have "map (\<lambda>tb. if t_name tb = t then g tb else tb) (map (\<lambda>tb. if t_name tb = t then f tb else tb) (s_tables s)) = s_tables s"
    using assms by (auto simp: map_idI)
  then show ?thesis by (simp add: update_table_def)
qed

lemma fits_columns: "schema_ok s \<Longrightarrow> tb \<in> set (s_tables s) \<Longrightarrow> (n, k) \<in> set (t_constraints tb) \<Longrightarrow> set (constrained k) \<subseteq> set (column_names tb)"
  by (force simp: schema_ok_def table_ok_def constraint_fits_def)

lemma key_columns_there:
  assumes "schema_ok s" and "tb \<in> set (s_tables s)" and "has_key rs tb"
  shows "set rs \<subseteq> set (column_names tb)"
proof -
  from assms(3) obtain n k where "(n, k) \<in> set (t_constraints tb)" "is_key_on rs k" by (auto simp: has_key_iff)
  with fits_columns [OF assms(1,2)] key_constrained show ?thesis by metis
qed

lemma linked_columns_there:
  assumes s: "schema_ok s" and x: "x \<in> set (s_tables s)" "(n, Foreign_Key cs t rs b) \<in> set (t_constraints x)"
  shows "\<exists>tb. find_table t s = Some tb \<and> set rs \<subseteq> set (column_names tb)"
proof -
  from s x have "constraint_fits (s_tables s) x (Foreign_Key cs t rs b)" by (force simp: schema_ok_def table_ok_def)
  with x(1) obtain y where y: "y \<in> set (s_tables s)" "t_name y = t" "has_key rs y"
    by (auto simp: constraint_fits_def list_ex_iff split: if_splits)
  then obtain tb where tb: "find_table t s = Some tb" using find_table_None [of t s] by (cases "find_table t s") auto
  with only_table [OF s tb y(1,2)] key_columns_there [OF s y(1,3)] show ?thesis by auto
qed

lemma undo_create_table:
  assumes s: "schema_ok s" and run: "apply_ddl d (Create_Table t cols ks) s = Inr s'" and plain: "list_all (untyped \<circ> c_type) cols"
  shows "apply_ddl d (Drop_Table t) s' = Inr s"
proof -
  have "create_types cols s = Inr s"
    using plain by (induction cols) (auto simp: create_type_def split: sql_type.splits)
  with run have none: "find_table t s = None" and s': "s' = s\<lparr>s_tables := s_tables s @ [new_table t cols ks]\<rparr>"
    by (auto simp: Let_def split: if_splits)
  have name: "t_name (new_table t cols ks) = t" by (simp add: new_table_def)
  have fresh: "\<forall>x \<in> set (s_tables s). t_name x \<noteq> t" using none by (auto simp: find_table_None)
  then have others: "filter (\<lambda>x. t_name x \<noteq> t) (s_tables s') = s_tables s" by (simp add: s' name filter_id_conv)
  have "\<not> referenced t (\<lambda>_. True) (s_tables s)"
  proof
    assume "referenced t (\<lambda>_. True) (s_tables s)"
    then obtain x n k where x: "x \<in> set (s_tables s)" "(n, k) \<in> set (t_constraints x)" "refers_to t (\<lambda>_. True) k"
      by (auto simp: referenced_def list_ex_iff)
    then obtain cs rs b where "k = Foreign_Key cs t rs b" by (cases k) auto
    with linked_columns_there [OF s x(1)] x(2) none show False by fastforce
  qed
  moreover have "find_table t s' = Some (new_table t cols ks)"
    using none by (simp add: s' find_table_def find_append name)
  ultimately show ?thesis by (simp add: in_table_def others bindE_def) (simp add: s')
qed

lemma undo_add_column:
  assumes s: "schema_ok s" and run: "apply_ddl d (Add_Column t c) s = Inr s'"
  shows "apply_ddl d (Drop_Column t (c_name c)) s' = Inr s"
proof -
  let ?f = "\<lambda>tb. tb\<lparr>t_columns := t_columns tb @ [c]\<rparr>"
  from run obtain tb where tb: "find_table t s = Some tb" and new: "c_name c \<notin> set (column_names tb)"
    and s': "s' = update_table t ?f s"
    by (auto simp: bindE_eq_Inr_iff in_table_Inr split: if_splits)
  have mem: "tb \<in> set (s_tables s)" "t_name tb = t" using find_table_Some [OF tb] by simp_all
  have found: "find_table t s' = Some (?f tb)" unfolding s' by (subst find_update) (simp_all add: tb)
  have unlinked: "\<not> refers_to t (\<lambda>rs. c_name c \<in> set rs) k" if x: "x \<in> set (s_tables s)" "(n, k) \<in> set (t_constraints x)" for x n k
    using linked_columns_there [OF s x(1)] x(2) tb new by (cases k) (auto, metis in_mono option.inject)
  have kept: "t_constraints (if t_name x = t then ?f x else x) = t_constraints x" "t_name (if t_name x = t then ?f x else x) = t_name x" for x
    by simp_all
  have others: "\<not> referenced t (\<lambda>rs. c_name c \<in> set rs) (filter (\<lambda>x. t_name x \<noteq> t) (s_tables s'))"
    using unlinked by (auto simp: s' referenced_def list_ex_iff split: if_splits)
  have own: "\<not> list_ex (\<lambda>(n, k). refers_to t (\<lambda>rs. c_name c \<in> set rs) k \<and> c_name c \<notin> set (constrained k)) (t_constraints (?f tb))"
    using unlinked [OF mem(1)] by (auto simp: list_ex_iff)
  have undone: "update_table t (\<lambda>tb. tb\<lparr>t_columns := filter (\<lambda>x. c_name x \<noteq> c_name c) (t_columns tb),
      t_constraints := filter (\<lambda>(n, k). c_name c \<notin> set (constrained k)) (t_constraints tb),
      t_indexes := filter (\<lambda>(n, cs). c_name c \<notin> set cs) (t_indexes tb)\<rparr>) s' = s"
    unfolding s'
  proof (rule update_table_id)
    fix x assume "x \<in> set (s_tables s)" "t_name x = t"
    then have x: "x = tb" using only_table [OF s tb] by simp
    have "filter (\<lambda>x. c_name x \<noteq> c_name c) (t_columns tb) = t_columns tb"
      using new by (auto simp: filter_id_conv column_names_def) (metis image_eqI)
    moreover have "filter (\<lambda>(n, k). c_name c \<notin> set (constrained k)) (t_constraints tb) = t_constraints tb"
      using fits_columns [OF s mem(1)] new by (force simp: filter_id_conv)
    moreover have "filter (\<lambda>(n, cs). c_name c \<notin> set cs) (t_indexes tb) = t_indexes tb"
      using s mem(1) new by (force simp: filter_id_conv schema_ok_def table_ok_def)
    ultimately show "(?f x)\<lparr>t_columns := filter (\<lambda>x. c_name x \<noteq> c_name c) (t_columns (?f x)),
        t_constraints := filter (\<lambda>(n, k). c_name c \<notin> set (constrained k)) (t_constraints (?f x)),
        t_indexes := filter (\<lambda>(n, cs). c_name c \<notin> set cs) (t_indexes (?f x))\<rparr> = x"
      by (simp add: x)
  qed simp
  show ?thesis using found others own by (simp add: in_table_def column_names_def bindE_def undone)
qed

lemma undo_create_index:
  assumes run: "apply_ddl d (Create_Index n t cs) s = Inr s'"
  shows "apply_ddl d (Drop_Index n t) s' = Inr s"
proof -
  let ?f = "\<lambda>tb. tb\<lparr>t_indexes := t_indexes tb @ [(n, cs)]\<rparr>"
  from run obtain tb where tb: "find_table t s = Some tb" and new: "n \<notin> set (index_names s)" and s': "s' = update_table t ?f s"
    by (auto simp: bindE_eq_Inr_iff in_table_Inr)
  have found: "find_table t s' = Some (?f tb)" unfolding s' by (subst find_update) (simp_all add: tb)
  have "update_table t (\<lambda>tb. tb\<lparr>t_indexes := filter (\<lambda>(m, cs). m \<noteq> n) (t_indexes tb)\<rparr>) s' = s"
    unfolding s'
  proof (rule update_table_id)
    fix x assume x: "x \<in> set (s_tables s)"
    with new have "filter (\<lambda>(m, cs). m \<noteq> n) (t_indexes x) = t_indexes x"
      by (force simp: filter_id_conv index_names_def)
    then show "(?f x)\<lparr>t_indexes := filter (\<lambda>(m, cs). m \<noteq> n) (t_indexes (?f x))\<rparr> = x" by simp
  qed simp
  with found show ?thesis by (simp add: in_table_def bindE_def)
qed

lemma undo_once: "schema_ok s \<Longrightarrow> adds x \<Longrightarrow> apply_ddl d x s = Inr s' \<Longrightarrow> apply_ddl d (undo x) s' = Inr s"
  by (cases x) (auto simp del: apply_ddl.simps intro: undo_create_table undo_add_column undo_create_index)

lemma apply_all_append: "apply_all d (xs @ ys) s = bindE (apply_all d xs s) (apply_all d ys)"
  by (induction xs arbitrary: s) (simp_all add: bindE_def split: sum.split)

lemma undo_all:
  "schema_ok s \<Longrightarrow> list_all adds xs \<Longrightarrow> apply_all d xs s = Inr s' \<Longrightarrow> apply_all d (rev (map undo xs)) s' = Inr s"
proof (induction xs arbitrary: s)
  case (Cons x xs)
  then obtain s1 where s1: "apply_ddl d x s = Inr s1" "apply_all d xs s1 = Inr s'" by (auto simp: bindE_eq_Inr_iff)
  from Cons.IH [OF apply_ddl_ok [OF Cons.prems(1) s1(1)] _ s1(2)] Cons.prems(2)
  have "apply_all d (rev (map undo xs)) s' = Inr s1" by simp
  with undo_once [OF Cons.prems(1) _ s1(1)] Cons.prems(2) show ?case by (simp add: apply_all_append bindE_def)
qed simp

section \<open>Types of schemas\<close>

text \<open>
  Every operation of the model keeps a schema well-formed: the names of its tables, and of the columns and
  the constraints of each table, are unique; constraints and indexes are on columns that are
  there; every foreign key has the key it refers to; every enumeration a column is of was created.
\<close>

theorem ddl_preserves_schema: "schema_ok s \<Longrightarrow> apply_ddl d x s = Inr s' \<Longrightarrow> schema_ok s'"
  by (rule apply_ddl_ok)

theorem ddl_preserves_schema_witness:
  "\<exists>s'. apply_ddl no_rows (Create_Table ''genres'' [Column ''id_'' SMALLINT No_Default False] [(None, Primary_Key [''id_''])]) empty_schema
     = Inr s' \<and> schema_ok s'"
proof -
  let ?x = "Create_Table ''genres'' [Column ''id_'' SMALLINT No_Default False] [(None, Primary_Key [''id_''])]"
  have "case apply_ddl no_rows ?x empty_schema of Inr s' \<Rightarrow> True | Inl e \<Rightarrow> False" by code_simp
  then obtain s' where "apply_ddl no_rows ?x empty_schema = Inr s'" by (auto split: sum.splits)
  with ddl_preserves_schema [OF empty_schema_ok this] show ?thesis by blast
qed

end
