(* ===== verification/Tenjin_Tables.thy ===== *)
theory Tenjin_Tables
  imports Tenjin_Schema
begin

text \<open>
  The mapped classes of the resource server (\<^verbatim>\<open>models/database.py\<close> and the mixins), as the
  statements that make their tables, and the rows a table of a schema admits.
\<close>

abbreviation mandatory :: "string \<Rightarrow> sql_type \<Rightarrow> db_column" where
  "mandatory n t \<equiv> Column n t No_Default False"

abbreviation nullable :: "string \<Rightarrow> sql_type \<Rightarrow> db_column" where
  "nullable n t \<equiv> Column n t No_Default True"

abbreviation defaulted :: "string \<Rightarrow> sql_type \<Rightarrow> string \<Rightarrow> db_column" where
  "defaulted n t e \<equiv> Column n t (Expr_Default e) False"

abbreviation link :: "string \<Rightarrow> string \<Rightarrow> string option \<times> db_constraint" where
  "link c t \<equiv> (None, Foreign_Key [c] t [''id_''] False)"

abbreviation owned :: "string \<Rightarrow> string \<Rightarrow> string option \<times> db_constraint" where
  "owned c t \<equiv> (None, Foreign_Key [c] t [''id_''] True)"

section \<open>Mixins and enumerations\<close>

definition AdminRoles :: "string list" where "AdminRoles = [''ADMIN'', ''SUPER'', ''OWNER'']"
definition ReportTags :: "string list" where "ReportTags = [''SPAM'', ''HARASSMENT'', ''HATE'', ''VIOLENCE'', ''OTHER'']"

definition ADMIN_ROLES :: sql_type where "ADMIN_ROLES = ENUM ''ADMIN_ROLES'' AdminRoles"
definition REPORT_TAGS :: sql_type where "REPORT_TAGS = ENUM ''REPORT_TAGS'' ReportTags"
definition SIDE_EFFECT_TYPES :: sql_type where
  "SIDE_EFFECT_TYPES = ENUM ''SIDE_EFFECTS_TYPES'' [''CACHE_INVALIDATION'', ''INTENT_INVALIDATION'', ''COUNTER_UPDATE'']"

definition EventAssociationMixin :: "db_column list" where "EventAssociationMixin = [mandatory ''last_event_id'' BIGINT]"
definition SaveAssociationMixin :: "db_column list" where
  "SaveAssociationMixin = EventAssociationMixin @ [defaulted ''is_saved'' BOOLEAN ''true'']"
definition VoteAssociationMixin :: "db_column list" where
  "VoteAssociationMixin = EventAssociationMixin @ [mandatory ''vote_type'' BOOLEAN]"
definition SubAssociationMixin :: "db_column list" where
  "SubAssociationMixin = EventAssociationMixin @ [defaulted ''is_subscribed'' BOOLEAN ''true'']"
definition SoftDeletionMixin :: "db_column list" where
  "SoftDeletionMixin = [defaulted ''deleted'' BOOLEAN ''false'', nullable ''deletion_time'' TIMESTAMP]"
definition SoftEventDeletionMixin :: "db_column list" where
  "SoftEventDeletionMixin = SoftDeletionMixin @ [nullable ''deletion_author_event'' BIGINT]"

definition EMAIL_PATTERN :: string where
  "EMAIL_PATTERN = ''^[a-zA-Z0-9._%+'' @ [CHR 0x5C] @ ''-]+@[a-zA-Z0-9.'' @ [CHR 0x5C] @ ''-]+'' @ [CHR 0x5C] @ ''.[a-zA-Z]{2,}$''"

section \<open>Entities\<close>

definition User_table :: "ddl list" where
  "User_table = [Create_Table ''users''
     ([mandatory ''id_'' BIGINT, mandatory ''username'' (VARCHAR 64), mandatory ''email'' (VARCHAR 254),
       mandatory ''pw_hash'' BYTEA, defaulted ''aura'' BIGINT ''0'', defaulted ''total_posts'' INTEGER ''0'',
       defaulted ''total_comments'' INTEGER ''0'', defaulted ''time_joined'' TIMESTAMP ''CURRENT_TIMESTAMP'',
       nullable ''last_login'' TIMESTAMP] @ SoftDeletionMixin)
     [(None, Primary_Key [''id_'']), (None, Unique [''username'']), (None, Unique [''email'']),
      (Some ''ck_users_username_length'', Check (Len_At_Least ''username'' 4)),
      (None, Check (Len_At_Least ''email'' 5)),
      (Some ''check_email_regex'', Check (Matches ''email'' EMAIL_PATTERN))]]"

definition UserTicket_table :: "ddl list" where
  "UserTicket_table = [Create_Table ''user_tickets''
     [mandatory ''id_'' BIGINT, mandatory ''email'' (VARCHAR 254),
      defaulted ''time_raised'' TIMESTAMP ''CURRENT_TIMESTAMP'', mandatory ''description'' (VARCHAR 512)]
     [(None, Primary_Key [''id_'']), (None, Check (Len_At_Least ''description'' 8))]]"

definition PasswordRecoveryToken_table :: "ddl list" where
  "PasswordRecoveryToken_table = [Create_Table ''password_recovery_tokens''
     [mandatory ''user_id'' BIGINT, defaulted ''expiry'' TIMESTAMP ''CURRENT_TIMESTAMP'', mandatory ''url_hash'' (VARCHAR 512)]
     [(None, Primary_Key [''user_id'']), link ''user_id'' ''users'', (None, Unique [''url_hash''])],
   Create_Index ''ix_password_recovery_tokens_expiry'' ''password_recovery_tokens'' [''expiry'']]"

definition Anime_table :: "ddl list" where
  "Anime_table = [Create_Table ''animes''
     [mandatory ''id_'' INTEGER, mandatory ''title'' (VARCHAR 64), defaulted ''members'' BIGINT ''0'', mandatory ''synopsis'' TEXT]
     [(None, Primary_Key [''id_'']), (None, Unique [''title'']), (Some ''check_members_positive'', Check (At_Least ''members'' 0))]]"

definition Genre_table :: "ddl list" where
  "Genre_table = [Create_Table ''genres''
     [mandatory ''id_'' SMALLINT, mandatory ''name_'' (VARCHAR 16)]
     [(None, Primary_Key [''id_'']), (None, Unique [''name_'']), (None, Check (Len_Above ''name_'' 4))]]"

definition Forum_table :: "ddl list" where
  "Forum_table = [Create_Table ''forums''
     ([mandatory ''id_'' INTEGER, mandatory ''name_'' (VARCHAR 64), nullable ''parent_anime'' INTEGER,
       nullable ''description'' (VARCHAR 256), defaulted ''subscribers'' BIGINT ''0'', defaulted ''posts'' BIGINT ''0'',
       mandatory ''created_at'' TIMESTAMP, defaulted ''admin_count'' SMALLINT ''1''] @ SoftEventDeletionMixin)
     [(None, Primary_Key [''id_'']), link ''parent_anime'' ''animes'',
      (Some ''check_posts_value'', Check (At_Least ''posts'' 0)), (Some ''check_subs_values'', Check (At_Least ''subscribers'' 0)),
      (Some ''check_atleast_1_admin'', Check (Above ''admin_count'' 0)),
      (None, Check (Either (Len_Above ''description'' 8) (Is_Null ''description''))),
      (Some ''check_title_length'', Check (Len_At_Least ''name_'' 4)), (Some ''uq_forum_name'', Unique [''name_''])],
   Create_Index ''ix_forums_parent_anime'' ''forums'' [''parent_anime'']]"

definition ForumRules_table :: "ddl list" where
  "ForumRules_table = [Create_Table ''forum_rules''
     [mandatory ''forum_id'' INTEGER, mandatory ''rule_number'' SMALLINT, mandatory ''title'' (VARCHAR 32),
      Column ''body'' (VARCHAR 128) (Text_Default ''No additional description provided for this rule.'') False,
      mandatory ''author'' INTEGER, mandatory ''time_created'' TIMESTAMP]
     [(None, Primary_Key [''forum_id'', ''rule_number'']), owned ''forum_id'' ''forums'', (None, Unique [''rule_number'']),
      link ''author'' ''users'', (Some ''enforce_forum_rules_range'', Check (Both (At_Least ''rule_number'' 1) (At_Most ''rule_number'' 5)))]]"

definition Post_table :: "ddl list" where
  "Post_table = [Create_Table ''posts''
     ([mandatory ''id_'' BIGINT, mandatory ''author_id'' BIGINT, mandatory ''parent_forum'' INTEGER,
       defaulted ''score'' INTEGER ''0'', defaulted ''total_comments'' INTEGER ''0'', mandatory ''title'' (VARCHAR 16),
       nullable ''body_text'' (VARCHAR 32800), nullable ''flair'' (VARCHAR 16), defaulted ''closed'' BOOLEAN ''false'',
       defaulted ''time_posted'' TIMESTAMP ''CURRENT_TIMESTAMP'', defaulted ''saves'' INTEGER ''0'',
       defaulted ''reports'' INTEGER ''0''] @ SoftEventDeletionMixin)
     [(None, Primary_Key [''id_'']), link ''author_id'' ''users'', owned ''parent_forum'' ''forums'',
      (Some ''check_title_min_length'', Check (Len_At_Least ''title'' 4)),
      (Some ''check_body_text'', Check (Either (Len_At_Most ''body_text'' 32800) (Is_Null ''body_text'')))],
   Create_Index ''ix_posts_author_id'' ''posts'' [''author_id''], Create_Index ''ix_posts_flair'' ''posts'' [''flair''],
   Create_Index ''ix_posts_title'' ''posts'' [''title'']]"

definition Comment_table :: "ddl list" where
  "Comment_table = [Create_Table ''comments''
     ([mandatory ''id_'' BIGINT, mandatory ''author_id'' BIGINT, mandatory ''parent_forum'' INTEGER,
       mandatory ''parent_post'' BIGINT, defaulted ''time_created'' TIMESTAMP ''CURRENT_TIMESTAMP'',
       mandatory ''body'' (VARCHAR 8192), defaulted ''score'' BIGINT ''0'', defaulted ''reports'' INTEGER ''0''] @
      SoftEventDeletionMixin)
     [(None, Primary_Key [''id_'']), link ''author_id'' ''users'', owned ''parent_forum'' ''forums'',
      owned ''parent_post'' ''posts'', (Some ''check_reports_value'', Check (Above ''reports'' 0)),
      (Some ''check_comment_length'', Check (Len_At_Least ''body'' 1))],
   Create_Index ''ix_comments_author_id'' ''comments'' [''author_id''],
   Create_Index ''ix_comments_parent_post'' ''comments'' [''parent_post'']]"

section \<open>Associations\<close>

definition ForumSubscription_table :: "ddl list" where
  "ForumSubscription_table = [Create_Table ''forum_subscriptions''
     ([mandatory ''user_id'' BIGINT, mandatory ''forum_id'' INTEGER,
       defaulted ''time_subscribed'' TIMESTAMP ''CURRENT_TIMESTAMP''] @ SubAssociationMixin)
     [(None, Primary_Key [''user_id'', ''forum_id'']), owned ''user_id'' ''users'', owned ''forum_id'' ''forums'']]"

definition AnimeSubscription_table :: "ddl list" where
  "AnimeSubscription_table = [Create_Table ''anime_subscriptions''
     ([mandatory ''user_id'' BIGINT, mandatory ''anime_id'' INTEGER,
       defaulted ''time_subscribed'' TIMESTAMP ''CURRENT_TIMESTAMP''] @ SubAssociationMixin)
     [(None, Primary_Key [''user_id'', ''anime_id'']), owned ''user_id'' ''users'', owned ''anime_id'' ''animes'']]"

definition PostVote_table :: "ddl list" where
  "PostVote_table = [Create_Table ''post_votes''
     ([mandatory ''user_id'' BIGINT, mandatory ''post_id'' BIGINT] @ VoteAssociationMixin)
     [(None, Primary_Key [''user_id'', ''post_id'']), link ''user_id'' ''users'', owned ''post_id'' ''posts'']]"

definition PostSave_table :: "ddl list" where
  "PostSave_table = [Create_Table ''post_saves''
     ([mandatory ''user_id'' BIGINT, mandatory ''post_id'' BIGINT] @ SaveAssociationMixin)
     [(None, Primary_Key [''user_id'', ''post_id'']), owned ''user_id'' ''users'', owned ''post_id'' ''posts'']]"

definition PostReport_table :: "ddl list" where
  "PostReport_table = [Create_Table ''post_reports''
     [mandatory ''user_id'' BIGINT, mandatory ''post_id'' BIGINT, mandatory ''report_tag'' REPORT_TAGS,
      mandatory ''report_time'' TIMESTAMP, mandatory ''report_description'' (VARCHAR 256)]
     [(None, Primary_Key [''user_id'', ''post_id'', ''report_tag'']), owned ''user_id'' ''users'', owned ''post_id'' ''posts'',
      (None, Check (Len_At_Most ''report_description'' 8))]]"

definition CommentReport_table :: "ddl list" where
  "CommentReport_table = [Create_Table ''comment_reports''
     [mandatory ''user_id'' BIGINT, mandatory ''comment_id'' BIGINT, mandatory ''report_tag'' REPORT_TAGS,
      mandatory ''report_time'' TIMESTAMP, mandatory ''report_description'' (VARCHAR 256)]
     [(None, Primary_Key [''user_id'', ''comment_id'', ''report_tag'']), owned ''user_id'' ''users'', owned ''comment_id'' ''comments'']]"

definition CommentVote_table :: "ddl list" where
  "CommentVote_table = [Create_Table ''comment_votes''
     ([mandatory ''user_id'' BIGINT, mandatory ''comment_id'' BIGINT] @ VoteAssociationMixin)
     [(None, Primary_Key [''user_id'', ''comment_id'']), link ''user_id'' ''users'', owned ''comment_id'' ''comments'']]"

definition StreamLink_table :: "ddl list" where
  "StreamLink_table = [Create_Table ''stream_links''
     [mandatory ''anime_id'' INTEGER, mandatory ''url'' (VARCHAR 512), mandatory ''website'' (VARCHAR 512)]
     [(None, Primary_Key [''anime_id'', ''url'']), owned ''anime_id'' ''animes'']]"

definition AnimeGenre_table :: "ddl list" where
  "AnimeGenre_table = [Create_Table ''anime_genres''
     [mandatory ''anime_id'' INTEGER, mandatory ''genre_id'' SMALLINT]
     [(None, Primary_Key [''anime_id'', ''genre_id'']), owned ''anime_id'' ''animes'', owned ''genre_id'' ''genres'']]"

text \<open>The default of a role is the bare word, without quotes.\<close>

definition ForumAdmin_table :: "ddl list" where
  "ForumAdmin_table = [Create_Table ''forum_admins''
     [mandatory ''forum_id'' INTEGER, mandatory ''user_id'' BIGINT, defaulted ''role'' ADMIN_ROLES ''ADMIN'']
     [(None, Primary_Key [''forum_id'', ''user_id'']), owned ''forum_id'' ''forums'', owned ''user_id'' ''users'']]"

section \<open>Events and dead letters\<close>

definition StreamEvent_table :: "ddl list" where
  "StreamEvent_table = [Create_Table ''stream_events''
     [mandatory ''event_id'' TEXT, defaulted ''acknowledgement_time'' TIMESTAMP ''CURRENT_TIMESTAMP'']
     [(None, Primary_Key [''event_id''])],
   Create_Index ''ix_stream_events_acknowledgement_time'' ''stream_events'' [''acknowledgement_time'']]"

definition DeadLetterQueue_table :: "ddl list" where
  "DeadLetterQueue_table = [Create_Table ''dlq_events''
     [mandatory ''event_id'' TEXT, mandatory ''payload'' JSONB, defaulted ''failure_time'' TIMESTAMP ''CURRENT_TIMESTAMP'']
     [(None, Primary_Key [''event_id''])],
   Create_Index ''ix_dlq_events_failure_time'' ''dlq_events'' [''failure_time'']]"

definition CounterDeadLetterQueue_table :: "ddl list" where
  "CounterDeadLetterQueue_table = [Create_Table ''counters_dlq''
     [mandatory ''id_'' BIGINT, mandatory ''affected_table'' (VARCHAR 64), mandatory ''affected_column'' (VARCHAR 64),
      defaulted ''failure_time'' TIMESTAMP ''CURRENT_TIMESTAMP'', mandatory ''payload'' JSONB]
     [(None, Primary_Key [''id_''])],
   Create_Index ''ix_counters_dlq_affected_table'' ''counters_dlq'' [''affected_table''],
   Create_Index ''ix_counters_dlq_affected_column'' ''counters_dlq'' [''affected_column''],
   Create_Index ''ix_counters_dlq_failure_time'' ''counters_dlq'' [''failure_time'']]"

definition FailedSideEffects_table :: "ddl list" where
  "FailedSideEffects_table = [Create_Table ''side_effects_dlq''
     [mandatory ''id_'' BIGINT, mandatory ''event_id'' BIGINT, mandatory ''side_effect_type'' SIDE_EFFECT_TYPES,
      mandatory ''payload'' JSONB]
     [(None, Primary_Key [''id_''])],
   Create_Index ''ix_side_effects_dlq_event_id'' ''side_effects_dlq'' [''event_id''],
   Create_Index ''ix_side_effects_dlq_side_effect_type'' ''side_effects_dlq'' [''side_effect_type'']]"

definition mapped_classes :: "(string \<times> ddl list) list" where
  "mapped_classes =
    [(''animes'', Anime_table), (''genres'', Genre_table), (''users'', User_table),
     (''anime_genres'', AnimeGenre_table), (''anime_subscriptions'', AnimeSubscription_table),
     (''forums'', Forum_table), (''password_recovery_tokens'', PasswordRecoveryToken_table),
     (''stream_links'', StreamLink_table), (''user_tickets'', UserTicket_table),
     (''forum_admins'', ForumAdmin_table), (''forum_rules'', ForumRules_table),
     (''forum_subscriptions'', ForumSubscription_table), (''posts'', Post_table), (''comments'', Comment_table),
     (''post_reports'', PostReport_table), (''post_saves'', PostSave_table), (''post_votes'', PostVote_table),
     (''comment_reports'', CommentReport_table), (''comment_votes'', CommentVote_table),
     (''stream_events'', StreamEvent_table), (''dlq_events'', DeadLetterQueue_table),
     (''counters_dlq'', CounterDeadLetterQueue_table), (''side_effects_dlq'', FailedSideEffects_table)]"

definition mapped :: "string \<Rightarrow> db_table option" where
  "mapped t = (case map_of mapped_classes t of None \<Rightarrow> None | Some xs \<Rightarrow> table_after t xs None)"

section \<open>Rows that are admitted\<close>

text \<open>
  A value that fits a type; the labels of an enumeration are those its type was created with, and
  no text may hold the character NUL.
\<close>

fun fits :: "db_schema \<Rightarrow> sql_type \<Rightarrow> field_value \<Rightarrow> bool" where
  "fits s INTEGER (FInt n) \<longleftrightarrow> - (2 ^ 31) \<le> n \<and> n < 2 ^ 31"
| "fits s SMALLINT (FInt n) \<longleftrightarrow> - (2 ^ 15) \<le> n \<and> n < 2 ^ 15"
| "fits s BIGINT (FInt n) \<longleftrightarrow> - (2 ^ 63) \<le> n \<and> n < 2 ^ 63"
| "fits s (NUMERIC p q) (FInt n) \<longleftrightarrow> \<bar>n\<bar> < 10 ^ nat (p - q)"
| "fits s BOOLEAN (FBool b) \<longleftrightarrow> True"
| "fits s (VARCHAR n) (FStr x) \<longleftrightarrow> CHR 0x00 \<notin> set x \<and> int (length x) \<le> n"
| "fits s TEXT (FStr x) \<longleftrightarrow> CHR 0x00 \<notin> set x"
| "fits s BYTEA (FStr x) \<longleftrightarrow> True"
| "fits s JSONB (FStr x) \<longleftrightarrow> CHR 0x00 \<notin> set x"
| "fits s TIMESTAMP (FTime t) \<longleftrightarrow> True"
| "fits s (ENUM n ls) (FStr x) \<longleftrightarrow> (case map_of (s_types s) n of None \<Rightarrow> False | Some labels \<Rightarrow> x \<in> set labels)"
| "fits s _ _ \<longleftrightarrow> False"

text \<open>The checks in the logic of SQL: \<open>None\<close> is unknown.  \<open>matches\<close> is the matching of patterns.\<close>

fun either3 :: "bool option \<Rightarrow> bool option \<Rightarrow> bool option" where
  "either3 (Some True) b = Some True"
| "either3 a (Some True) = Some True"
| "either3 (Some False) (Some False) = Some False"
| "either3 a b = None"

fun both3 :: "bool option \<Rightarrow> bool option \<Rightarrow> bool option" where
  "both3 (Some False) b = Some False"
| "both3 a (Some False) = Some False"
| "both3 (Some True) (Some True) = Some True"
| "both3 a b = None"

definition on_int :: "(int \<Rightarrow> bool) \<Rightarrow> field_value \<Rightarrow> bool option" where
  "on_int p v = (case v of FInt n \<Rightarrow> Some (p n) | _ \<Rightarrow> None)"

definition on_text :: "(string \<Rightarrow> bool) \<Rightarrow> field_value \<Rightarrow> bool option" where
  "on_text p v = (case v of FStr x \<Rightarrow> Some (p x) | _ \<Rightarrow> None)"

fun eval_check :: "(string \<Rightarrow> string \<Rightarrow> bool) \<Rightarrow> orm_row \<Rightarrow> check \<Rightarrow> bool option" where
  "eval_check m r (At_Least c n) = on_int (\<lambda>x. n \<le> x) (col r c)"
| "eval_check m r (At_Most c n) = on_int (\<lambda>x. x \<le> n) (col r c)"
| "eval_check m r (Above c n) = on_int (\<lambda>x. n < x) (col r c)"
| "eval_check m r (Len_At_Least c n) = on_text (\<lambda>x. n \<le> int (length x)) (col r c)"
| "eval_check m r (Len_At_Most c n) = on_text (\<lambda>x. int (length x) \<le> n) (col r c)"
| "eval_check m r (Len_Above c n) = on_text (\<lambda>x. n < int (length x)) (col r c)"
| "eval_check m r (Is_Null c) = Some (col r c = FNone)"
| "eval_check m r (Matches c p) = on_text (m p) (col r c)"
| "eval_check m r (Either a b) = either3 (eval_check m r a) (eval_check m r b)"
| "eval_check m r (Both a b) = both3 (eval_check m r a) (eval_check m r b)"

text \<open>The value a column gets that a statement leaves out; \<open>now\<close> and \<open>next\<close> are the clock and the sequence.\<close>

definition default_value :: "string \<Rightarrow> int \<Rightarrow> db_column \<Rightarrow> field_value" where
  "default_value now next c =
     (case c_default c of
        No_Default \<Rightarrow> FNone
      | Serial \<Rightarrow> FInt next
      | Text_Default x \<Rightarrow> FStr x
      | Expr_Default e \<Rightarrow>
          if e = ''CURRENT_TIMESTAMP'' then FTime now else if e = ''true'' then FBool True else if e = ''false'' then FBool False
          else (case int_of_str e of Some n \<Rightarrow> FInt n | None \<Rightarrow> FNone))"

definition completed :: "string \<Rightarrow> int \<Rightarrow> db_table \<Rightarrow> orm_row \<Rightarrow> orm_row" where
  "completed now next tb r =
     map (\<lambda>c. (c_name c, case map_of r (c_name c) of Some v \<Rightarrow> v | None \<Rightarrow> default_value now next c)) (t_columns tb)"

definition column_admits :: "db_schema \<Rightarrow> orm_row \<Rightarrow> db_column \<Rightarrow> bool" where
  "column_admits s r c \<longleftrightarrow> (if col r (c_name c) = FNone then c_nullable c else fits s (c_type c) (col r (c_name c)))"

text \<open>
  Whether a statement that gives the values of some columns can insert a row, uniqueness and the
  rows of other tables apart.
\<close>

definition admits ::
  "(string \<Rightarrow> string \<Rightarrow> bool) \<Rightarrow> string \<Rightarrow> int \<Rightarrow> db_schema \<Rightarrow> string \<Rightarrow> orm_row \<Rightarrow> bool" where
  "admits m now next s t r \<longleftrightarrow>
     (case find_table t s of
        None \<Rightarrow> False
      | Some tb \<Rightarrow>
          fst ` set r \<subseteq> set (column_names tb) \<and>
          (let r' = completed now next tb r in
           list_all (column_admits s r') (t_columns tb) \<and>
           list_all (\<lambda>(n, k). case k of Check e \<Rightarrow> eval_check m r' e \<noteq> Some False | _ \<Rightarrow> True) (t_constraints tb)))"

text \<open>Whether PostgreSQL infers a key for \<open>ON CONFLICT\<close>; without one it refuses the statement.\<close>

definition conflict_target :: "db_schema \<Rightarrow> string \<Rightarrow> string list \<Rightarrow> bool" where
  "conflict_target s t cs \<longleftrightarrow> (case find_table t s of None \<Rightarrow> False | Some tb \<Rightarrow> has_key cs tb)"

lemma completed_col:
  assumes "distinct (column_names tb)" and "c \<in> set (t_columns tb)"
  shows "col (completed now next tb r) (c_name c) = (case map_of r (c_name c) of Some v \<Rightarrow> v | None \<Rightarrow> default_value now next c)"
proof -
  let ?f = "\<lambda>c. case map_of r (c_name c) of Some v \<Rightarrow> v | None \<Rightarrow> default_value now next c"
  have "map_of (map (\<lambda>c. (c_name c, ?f c)) (t_columns tb)) (c_name c) = Some (?f c)"
    using assms by (intro map_of_is_SomeI) (auto simp: column_names_def comp_def)
  then show ?thesis by (simp add: completed_def col_def)
qed

lemma column_refused:
  assumes "find_table t s = Some tb" and "c \<in> set (t_columns tb)" and "\<not> column_admits s (completed now next tb r) c"
  shows "\<not> admits m now next s t r"
  using assms by (auto simp: admits_def Let_def list_all_iff)

lemma check_refused:
  assumes "find_table t s = Some tb" and "(n, Check e) \<in> set (t_constraints tb)"
    and "eval_check m (completed now next tb r) e = Some False"
  shows "\<not> admits m now next s t r"
  using assms by (force simp: admits_def Let_def list_all_iff)

end
