(* ===== verification/Tenjin_Alembic.thy ===== *)
theory Tenjin_Alembic
  imports Tenjin_Tables
begin

text \<open>
  Migrations as Alembic runs them: a script with its statements up and down, the way through the
  scripts to the head, a command that runs some of them in one transaction (\<^verbatim>\<open>alembic/env.py\<close>),
  and what a migrated table and a mapped class are compared by.
\<close>

record migration =
  revision :: string
  down_revision :: "string option"
  upgrade :: "ddl list"
  downgrade :: "ddl list"

text \<open>
  The way from a revision to the head: whichever names it as the revision below, as long as
  there is exactly one.
\<close>

fun path :: "nat \<Rightarrow> migration list \<Rightarrow> string option \<Rightarrow> migration list" where
  "path 0 ms r = []"
| "path (Suc n) ms r =
     (case filter (\<lambda>m. down_revision m = r) ms of [m] \<Rightarrow> m # path n ms (Some (revision m)) | _ \<Rightarrow> [])"

text \<open>One command of Alembic, in one transaction.\<close>

definition run_upgrades :: "contents \<Rightarrow> migration list \<Rightarrow> db_schema \<Rightarrow> exn + db_schema" where
  "run_upgrades d ms s = apply_all d (concat (map upgrade ms)) (s\<lparr>s_created := []\<rparr>)"

definition run_downgrade :: "contents \<Rightarrow> migration \<Rightarrow> db_schema \<Rightarrow> exn + db_schema" where
  "run_downgrade d m s = apply_all d (downgrade m) (s\<lparr>s_created := []\<rparr>)"

text \<open>
  What the mapped classes and a migrated table are compared by: the names of the columns, their
  types, with the labels of an enumeration in their order, and whether they take NULL.
\<close>

definition column_shape :: "db_column \<Rightarrow> string \<times> sql_type \<times> bool" where
  "column_shape c = (c_name c, c_type c, c_nullable c)"

definition column_shapes :: "db_table option \<Rightarrow> (string \<times> sql_type \<times> bool) list" where
  "column_shapes x = (case x of None \<Rightarrow> [] | Some tb \<Rightarrow> map column_shape (t_columns tb))"

text \<open>The columns that only the first table has, and those that only the second has.\<close>

definition column_differences ::
  "db_table option \<Rightarrow> db_table option \<Rightarrow> (string \<times> sql_type \<times> bool) list \<times> (string \<times> sql_type \<times> bool) list" where
  "column_differences x y =
     (filter (\<lambda>c. c \<notin> set (column_shapes y)) (column_shapes x), filter (\<lambda>c. c \<notin> set (column_shapes x)) (column_shapes y))"

definition primary_key :: "db_table option \<Rightarrow> string list" where
  "primary_key x = (case x of None \<Rightarrow> [] | Some tb \<Rightarrow> key_columns (map snd (t_constraints tb)))"

section \<open>Commands that only add\<close>

lemma schema_ok_created: "schema_ok s \<Longrightarrow> schema_ok (s\<lparr>s_created := []\<rparr>)"
proof -
  assume s: "schema_ok s"
  have "known_type (s\<lparr>s_created := []\<rparr>) = known_type s" by (auto simp: known_type_def cong: sql_type.case_cong)
  with s show ?thesis by (simp add: schema_ok_def table_ok_def)
qed

lemma adds_created: "adds x \<Longrightarrow> apply_ddl d x s = Inr s' \<Longrightarrow> s_created s' = s_created s"
proof (cases x)
  case (Create_Table t cols ks)
  assume x: "adds x" "apply_ddl d x s = Inr s'"
  have "create_types cols s = Inr s"
    using x(1) unfolding Create_Table by (induction cols) (auto simp: create_type_def split: sql_type.splits)
  with x(2) show ?thesis by (auto simp: Create_Table Let_def split: if_splits)
qed (auto simp: bindE_eq_Inr_iff split: if_splits)

lemma additions_created: "list_all adds xs \<Longrightarrow> apply_all d xs s = Inr s' \<Longrightarrow> s_created s' = s_created s"
  by (induction xs arbitrary: s) (auto simp: bindE_eq_Inr_iff dest: adds_created)

section \<open>Tables against classes\<close>

text \<open>What holds of every table and its class, and of no table and no class, holds under every name.\<close>

lemma tables_match:
  assumes "schema_ok s" and "list_all (\<lambda>tb. P (t_name tb) (Some tb) (m (t_name tb))) (s_tables s)"
    and "\<And>t. t \<notin> fst ` set classes \<Longrightarrow> P t None None"
    and "map t_name (s_tables s) = map fst classes" and "\<And>t. t \<notin> fst ` set classes \<Longrightarrow> m t = None"
  shows "P t (find_table t s) (m t)"
proof (cases "find_table t s")
  case None
  then have "t \<notin> t_name ` set (s_tables s)" by (simp add: find_table_None)
  moreover from assms(4) have "t_name ` set (s_tables s) = fst ` set classes" by (metis image_set)
  ultimately have "t \<notin> fst ` set classes" by simp
  with None assms(3,5) show ?thesis by simp
next
  case (Some tb)
  with find_table_Some [OF Some] assms(2) show ?thesis by (auto simp: list_all_iff)
qed

end
