(* ===== verification/Tenjin_Migrations.thy ===== *)
theory Tenjin_Migrations
  imports Tenjin_Alembic Tenjin_Insertions
begin

text \<open>
  The migrations of the resource server (\<^verbatim>\<open>alembic/versions\<close>) and the schema they lead to,
  against the mapped classes and the statements of the workers.
\<close>

section \<open>The first migration\<close>

text \<open>The pattern of the check is the text Python prints for the compiled one.\<close>

definition compiled_pattern :: string where
  "compiled_pattern = ''re.compile('' @ [CHR 0x27] @ ''^[a-zA-Z0-9._%%+'' @ [CHR 0x5C, CHR 0x5C] @ ''-]+@[a-zA-Z0-9.''
     @ [CHR 0x5C, CHR 0x5C] @ ''-]+'' @ [CHR 0x5C, CHR 0x5C] @ ''.[a-zA-Z]{2,}$'' @ [CHR 0x27] @ '')''"

definition init_animes :: "ddl list" where
  "init_animes = [Create_Table ''animes''
     [mandatory ''id_'' INTEGER, mandatory ''title'' (VARCHAR 64), mandatory ''rating'' (NUMERIC 3 2), nullable ''mal_rating'' INTEGER,
      defaulted ''members'' BIGINT ''0'', mandatory ''synopsis'' (VARCHAR 256)]
     [(Some ''check_ranking_positive'', Check (At_Least ''mal_rating'' 0)), (Some ''check_members_positive'', Check (At_Least ''members'' 0)),
      (Some ''check_rating_upperbound'', Check (At_Most ''rating'' 10)), (Some ''check_rating_positive'', Check (At_Least ''rating'' 0)),
      (None, Primary_Key [''id_'']), (None, Unique [''title''])]]"

definition init_genres :: "ddl list" where
  "init_genres = [Create_Table ''genres''
     [mandatory ''id_'' SMALLINT, mandatory ''name_'' (VARCHAR 16)]
     [(None, Check (Len_Above ''name_'' 4)), (None, Primary_Key [''id_'']), (None, Unique [''name_''])]]"

definition init_users :: "ddl list" where
  "init_users = [Create_Table ''users''
     [mandatory ''id_'' BIGINT, mandatory ''username'' (VARCHAR 64), mandatory ''email'' (VARCHAR 254),
      defaulted ''rtbf'' BOOLEAN ''false'', mandatory ''pw_hash'' BYTEA, defaulted ''aura'' BIGINT ''0'',
      defaulted ''total_posts'' INTEGER ''0'', defaulted ''total_comments'' INTEGER ''0'',
      defaulted ''time_joined'' TIMESTAMP ''CURRENT_TIMESTAMP'', mandatory ''last_login'' TIMESTAMP,
      defaulted ''deleted'' BOOLEAN ''false'', nullable ''time_deleted'' TIMESTAMP]
     [(Some ''check_email_regex'', Check (Matches ''email'' compiled_pattern)), (None, Check (Len_At_Least ''email'' 5)),
      (Some ''ck_users_username_length'', Check (Len_At_Least ''username'' 4)), (None, Primary_Key [''id_'']),
      (None, Unique [''email'']), (None, Unique [''username''])]]"

definition init_anime_links :: "ddl list" where
  "init_anime_links =
    [Create_Table ''anime_genres''
      [mandatory ''anime_id'' INTEGER, mandatory ''genre_id'' SMALLINT]
      [owned ''anime_id'' ''animes'', owned ''genre_id'' ''genres'', (None, Primary_Key [''anime_id'', ''genre_id''])],
     Create_Table ''anime_subscriptions''
      [mandatory ''user_id'' BIGINT, mandatory ''anime_id'' INTEGER, defaulted ''time_subscribed'' TIMESTAMP ''CURRENT_TIMESTAMP'']
      [owned ''anime_id'' ''animes'', owned ''user_id'' ''users'', (None, Primary_Key [''user_id'', ''anime_id''])]]"

definition init_forums :: "ddl list" where
  "init_forums =
    [Create_Table ''forums''
      [mandatory ''id_'' INTEGER, mandatory ''name_'' (VARCHAR 64), nullable ''anime'' INTEGER, nullable ''description'' (VARCHAR 256),
       defaulted ''subscribers'' BIGINT ''0'', defaulted ''posts'' BIGINT ''0'', mandatory ''created_at'' TIMESTAMP,
       defaulted ''admin_count'' SMALLINT ''1'', defaulted ''deleted'' BOOLEAN ''false'', nullable ''time_deleted'' TIMESTAMP,
       mandatory ''rtbf_hidden'' BOOLEAN]
      [(Some ''check_atleast_1_admin'', Check (Above ''admin_count'' 0)),
       (None, Check (Either (Len_Above ''description'' 8) (Is_Null ''description''))),
       (Some ''check_posts_value'', Check (At_Least ''posts'' 0)), (Some ''check_subs_values'', Check (At_Least ''subscribers'' 0)),
       link ''anime'' ''animes'', (None, Primary_Key [''id_'']), (Some ''uq_name_anime'', Unique [''name_'', ''anime''])],
     Create_Index ''ix_forums_anime'' ''forums'' [''anime'']]"

definition init_accounts :: "ddl list" where
  "init_accounts =
    [Create_Table ''password_recovery_tokens''
      [mandatory ''user_id'' BIGINT, defaulted ''expiry'' TIMESTAMP ''CURRENT_TIMESTAMP'', mandatory ''url_hash'' BYTEA]
      [link ''user_id'' ''users'', (None, Primary_Key [''user_id'']), (None, Unique [''url_hash''])],
     Create_Index ''ix_password_recovery_tokens_expiry'' ''password_recovery_tokens'' [''expiry''],
     Create_Table ''stream_links''
      [mandatory ''anime_id'' INTEGER, mandatory ''url'' (VARCHAR 512), mandatory ''website'' (VARCHAR 512)]
      [owned ''anime_id'' ''animes'', (None, Primary_Key [''anime_id'', ''url''])],
     Create_Table ''user_tickets''
      [mandatory ''id'' BIGINT, mandatory ''user_id'' BIGINT, defaulted ''time_raised'' TIMESTAMP ''CURRENT_TIMESTAMP'',
       mandatory ''description'' (VARCHAR 512)]
      [(None, Check (Len_At_Least ''description'' 8)), link ''user_id'' ''users'', (None, Primary_Key [''id''])],
     Create_Index ''ix_user_tickets_user_id'' ''user_tickets'' [''user_id'']]"

definition init_forum_parts :: "ddl list" where
  "init_forum_parts =
    [Create_Table ''forum_admins''
      [mandatory ''forum_id'' INTEGER, mandatory ''user_id'' BIGINT,
       Column ''role'' (ENUM ''ADMIN_ROLES'' [''admin'', ''super'', ''owner'']) (Text_Default ''admin'') False]
      [owned ''forum_id'' ''forums'', owned ''user_id'' ''users'', (None, Primary_Key [''forum_id'', ''user_id''])],
     Create_Table ''forum_rules''
      [mandatory ''forum_id'' INTEGER, mandatory ''rule_number'' SMALLINT, mandatory ''title'' (VARCHAR 32),
       Column ''body'' (VARCHAR 128) (Text_Default ''No additional description provided for this rule.'') False,
       mandatory ''author'' INTEGER, mandatory ''time_created'' TIMESTAMP]
      [(Some ''enforce_forum_rules_range'', Check (Both (At_Least ''rule_number'' 1) (At_Most ''rule_number'' 5))),
       link ''author'' ''users'', owned ''forum_id'' ''forums'', (None, Primary_Key [''forum_id'', ''rule_number'']),
       (None, Unique [''rule_number''])],
     Create_Table ''forum_subscriptions''
      [mandatory ''user_id'' BIGINT, mandatory ''forum_id'' INTEGER, defaulted ''time_subscribed'' TIMESTAMP ''CURRENT_TIMESTAMP'']
      [owned ''forum_id'' ''forums'', owned ''user_id'' ''users'', (None, Primary_Key [''user_id'', ''forum_id''])]]"

definition init_posts :: "ddl list" where
  "init_posts =
    [Create_Table ''posts''
      [mandatory ''id_'' BIGINT, mandatory ''author_id'' BIGINT, mandatory ''forum_id'' INTEGER, defaulted ''score'' INTEGER ''0'',
       defaulted ''total_comments'' INTEGER ''0'', mandatory ''title'' (VARCHAR 16), mandatory ''body_text'' (VARCHAR 32800),
       nullable ''flair'' (VARCHAR 16), defaulted ''closed'' BOOLEAN ''false'', defaulted ''time_posted'' TIMESTAMP ''CURRENT_TIMESTAMP'',
       defaulted ''saves'' INTEGER ''0'', defaulted ''reports'' INTEGER ''0'', defaulted ''deleted'' BOOLEAN ''false'',
       nullable ''time_deleted'' TIMESTAMP, nullable ''rtbf_hidden'' BOOLEAN]
      [(Some ''check_body_text'', Check (Either (Len_At_Most ''body_text'' 32800) (Is_Null ''body_text''))),
       (Some ''check_title_min_length'', Check (Len_At_Least ''title'' 4)),
       link ''author_id'' ''users'', owned ''forum_id'' ''forums'', (None, Primary_Key [''id_''])],
     Create_Index ''ix_posts_author_id'' ''posts'' [''author_id''], Create_Index ''ix_posts_flair'' ''posts'' [''flair''],
     Create_Index ''ix_posts_title'' ''posts'' [''title'']]"

definition init_comments :: "ddl list" where
  "init_comments =
    [Create_Table ''comments''
      [mandatory ''id_'' BIGINT, mandatory ''author_id'' BIGINT, mandatory ''parent_forum'' INTEGER,
       defaulted ''time_created'' TIMESTAMP ''CURRENT_TIMESTAMP'', mandatory ''body'' (VARCHAR 8192), mandatory ''parent_post'' BIGINT,
       defaulted ''score'' BIGINT ''0'', defaulted ''reports'' INTEGER ''0'', defaulted ''deleted'' BOOLEAN ''false'',
       nullable ''time_deleted'' TIMESTAMP, nullable ''rtbf_hidden'' BOOLEAN]
      [(Some ''check_reports_value'', Check (Above ''reports'' 0)), link ''author_id'' ''users'', owned ''parent_forum'' ''forums'',
       owned ''parent_post'' ''posts'', (None, Primary_Key [''id_''])],
     Create_Index ''ix_comments_author_id'' ''comments'' [''author_id''],
     Create_Index ''ix_comments_parent_post'' ''comments'' [''parent_post'']]"

abbreviation report_tags :: sql_type where
  "report_tags \<equiv> ENUM ''REPORT_TAGS'' [''spam'', ''harassment'', ''hate'', ''violence'', ''other'']"

definition init_post_parts :: "ddl list" where
  "init_post_parts =
    [Create_Table ''post_reports''
      [mandatory ''user_id'' BIGINT, mandatory ''post_id'' BIGINT, mandatory ''report_tag'' report_tags, mandatory ''report_time'' TIMESTAMP,
       mandatory ''report_description'' (VARCHAR 256)]
      [(None, Check (Len_At_Most ''report_description'' 8)), owned ''post_id'' ''posts'', owned ''user_id'' ''users'',
       (None, Primary_Key [''user_id'', ''post_id'', ''report_tag''])],
     Create_Table ''post_saves''
      [mandatory ''user_id'' BIGINT, mandatory ''post_id'' BIGINT]
      [owned ''post_id'' ''posts'', owned ''user_id'' ''users'', (None, Primary_Key [''user_id'', ''post_id''])],
     Create_Table ''post_votes''
      [mandatory ''voter_id'' BIGINT, mandatory ''post_id'' BIGINT, mandatory ''vote'' BOOLEAN]
      [owned ''post_id'' ''posts'', link ''voter_id'' ''users'', (None, Primary_Key [''voter_id'', ''post_id''])]]"

definition init_comment_parts :: "ddl list" where
  "init_comment_parts =
    [Create_Table ''comment_reports''
      [mandatory ''user_id'' BIGINT, mandatory ''comment_id'' BIGINT, mandatory ''report_tag'' report_tags, mandatory ''report_time'' TIMESTAMP,
       mandatory ''report_description'' (VARCHAR 256)]
      [owned ''comment_id'' ''comments'', owned ''user_id'' ''users'', (None, Primary_Key [''user_id'', ''comment_id'', ''report_tag''])],
     Create_Table ''comment_votes''
      [mandatory ''voter_id'' BIGINT, mandatory ''comment_id'' BIGINT, mandatory ''vote'' BOOLEAN]
      [owned ''comment_id'' ''comments'', link ''voter_id'' ''users'', (None, Primary_Key [''voter_id'', ''comment_id''])]]"

definition init_downgrade :: "ddl list" where
  "init_downgrade =
    [Drop_Table ''comment_votes'', Drop_Table ''comment_reports'', Drop_Table ''post_votes'', Drop_Table ''post_saves'',
     Drop_Table ''post_reports'', Drop_Index ''ix_comments_parent_post'' ''comments'', Drop_Index ''ix_comments_author_id'' ''comments'',
     Drop_Table ''comments'', Drop_Index ''ix_posts_title'' ''posts'', Drop_Index ''ix_posts_flair'' ''posts'',
     Drop_Index ''ix_posts_author_id'' ''posts'', Drop_Table ''posts'', Drop_Table ''forum_subscriptions'', Drop_Table ''forum_rules'',
     Drop_Table ''forum_admins'', Drop_Index ''ix_user_tickets_user_id'' ''user_tickets'', Drop_Table ''user_tickets'',
     Drop_Table ''stream_links'', Drop_Index ''ix_password_recovery_tokens_expiry'' ''password_recovery_tokens'',
     Drop_Table ''password_recovery_tokens'', Drop_Index ''ix_forums_anime'' ''forums'', Drop_Table ''forums'',
     Drop_Table ''anime_subscriptions'', Drop_Table ''anime_genres'', Drop_Table ''users'', Drop_Table ''genres'', Drop_Table ''animes'']"

definition rev_8f2bdc6314fd :: migration where
  "rev_8f2bdc6314fd =
    \<lparr>revision = ''8f2bdc6314fd'', down_revision = None,
     upgrade = concat [init_animes, init_genres, init_users, init_anime_links, init_forums, init_accounts, init_forum_parts,
       init_posts, init_comments, init_post_parts, init_comment_parts],
     downgrade = init_downgrade\<rparr>"

section \<open>The later migrations\<close>

definition rev_174235ccf672 :: migration where
  "rev_174235ccf672 =
    \<lparr>revision = ''174235ccf672'', down_revision = Some ''8f2bdc6314fd'',
     upgrade =
       [Add_Column ''user_tickets'' (mandatory ''email'' (VARCHAR 254)), Drop_Index ''ix_user_tickets_user_id'' ''user_tickets'',
        Drop_Constraint (Some ''user_tickets_user_id_fkey'') ''user_tickets'', Drop_Column ''user_tickets'' ''user_id''],
     downgrade =
       [Add_Column ''user_tickets'' (mandatory ''user_id'' BIGINT),
        Create_Constraint (Some ''user_tickets_user_id_fkey'') ''user_tickets'' (Foreign_Key [''user_id''] ''users'' [''id_''] False),
        Create_Index ''ix_user_tickets_user_id'' ''user_tickets'' [''user_id''], Drop_Column ''user_tickets'' ''email'']\<rparr>"

definition rev_09306c1baeae :: migration where
  "rev_09306c1baeae =
    \<lparr>revision = ''09306c1baeae'', down_revision = Some ''174235ccf672'',
     upgrade = [Alter_Nullable ''posts'' ''body_text'' True], downgrade = [Alter_Nullable ''posts'' ''body_text'' False]\<rparr>"

definition rev_4bd0490dba29 :: migration where
  "rev_4bd0490dba29 =
    \<lparr>revision = ''4bd0490dba29'', down_revision = Some ''09306c1baeae'',
     upgrade = [Alter_Type ''password_recovery_tokens'' ''url_hash'' (VARCHAR 512)],
     downgrade = [Alter_Type ''password_recovery_tokens'' ''url_hash'' BYTEA]\<rparr>"

definition rev_ed06aa294747 :: migration where
  "rev_ed06aa294747 =
    \<lparr>revision = ''ed06aa294747'', down_revision = Some ''4bd0490dba29'',
     upgrade =
       [Create_Table ''stream_events''
          [mandatory ''event_id'' TEXT, defaulted ''acknowledgement_time'' TIMESTAMP ''CURRENT_TIMESTAMP'']
          [(None, Primary_Key [''event_id''])],
        Create_Index ''ix_stream_events_acknowledgement_time'' ''stream_events'' [''acknowledgement_time'']],
     downgrade = [Drop_Index ''ix_stream_events_acknowledgement_time'' ''stream_events'', Drop_Table ''stream_events'']\<rparr>"

definition rev_33fe0a168e0a :: migration where
  "rev_33fe0a168e0a =
    \<lparr>revision = ''33fe0a168e0a'', down_revision = Some ''ed06aa294747'',
     upgrade =
       [Create_Table ''dlq_events''
          [mandatory ''event_id'' TEXT, defaulted ''acknowledgement_time'' TIMESTAMP ''CURRENT_TIMESTAMP'', mandatory ''payload'' JSONB]
          [(None, Primary_Key [''event_id''])],
        Create_Index ''ix_dlq_events_acknowledgement_time'' ''dlq_events'' [''acknowledgement_time'']],
     downgrade = [Drop_Index ''ix_dlq_events_acknowledgement_time'' ''dlq_events'', Drop_Table ''dlq_events'']\<rparr>"

definition rev_ee3c37f5d96c :: migration where
  "rev_ee3c37f5d96c =
    \<lparr>revision = ''ee3c37f5d96c'', down_revision = Some ''33fe0a168e0a'',
     upgrade = [Drop_Index ''ix_dlq_events_acknowledgement_time'' ''dlq_events'', Drop_Column ''dlq_events'' ''acknowledgement_time''],
     downgrade =
       [Add_Column ''dlq_events'' (defaulted ''acknowledgement_time'' TIMESTAMP ''CURRENT_TIMESTAMP''),
        Create_Index ''ix_dlq_events_acknowledgement_time'' ''dlq_events'' [''acknowledgement_time'']]\<rparr>"

definition rev_ac751c82a6e0 :: migration where
  "rev_ac751c82a6e0 =
    \<lparr>revision = ''ac751c82a6e0'', down_revision = Some ''ee3c37f5d96c'',
     upgrade =
       [Create_Table ''counters_dlq''
          [mandatory ''id_'' BIGINT, mandatory ''affected_table'' (VARCHAR 64), mandatory ''affected_column'' (VARCHAR 64),
           defaulted ''failure_time'' TIMESTAMP ''CURRENT_TIMESTAMP'', mandatory ''payload'' JSONB]
          [(None, Primary_Key [''id_''])],
        Create_Index ''ix_counters_dlq_affected_column'' ''counters_dlq'' [''affected_column''],
        Create_Index ''ix_counters_dlq_affected_table'' ''counters_dlq'' [''affected_table''],
        Create_Index ''ix_counters_dlq_failure_time'' ''counters_dlq'' [''failure_time'']],
     downgrade =
       [Drop_Index ''ix_counters_dlq_failure_time'' ''counters_dlq'', Drop_Index ''ix_counters_dlq_affected_table'' ''counters_dlq'',
        Drop_Index ''ix_counters_dlq_affected_column'' ''counters_dlq'', Drop_Table ''counters_dlq'']\<rparr>"

definition rev_a9cdcdd416de :: migration where
  "rev_a9cdcdd416de =
    \<lparr>revision = ''a9cdcdd416de'', down_revision = Some ''ac751c82a6e0'',
     upgrade =
       [Add_Column ''anime_subscriptions'' (defaulted ''is_subscribed'' BOOLEAN ''true''),
        Add_Column ''anime_subscriptions'' (mandatory ''last_event_id'' BIGINT),
        Add_Column ''comment_votes'' (mandatory ''vote_type'' BOOLEAN), Add_Column ''comment_votes'' (mandatory ''last_event_id'' BIGINT),
        Drop_Column ''comment_votes'' ''vote'',
        Add_Column ''forum_subscriptions'' (defaulted ''is_subscribed'' BOOLEAN ''true''),
        Add_Column ''forum_subscriptions'' (mandatory ''last_event_id'' BIGINT),
        Add_Column ''post_saves'' (defaulted ''is_saved'' BOOLEAN ''true''), Add_Column ''post_saves'' (mandatory ''last_event_id'' BIGINT),
        Add_Column ''post_votes'' (mandatory ''vote_type'' BOOLEAN), Add_Column ''post_votes'' (mandatory ''last_event_id'' BIGINT),
        Drop_Column ''post_votes'' ''vote''],
     downgrade =
       [Add_Column ''post_votes'' (mandatory ''vote'' BOOLEAN), Drop_Column ''post_votes'' ''last_event_id'', Drop_Column ''post_votes'' ''vote_type'',
        Drop_Column ''post_saves'' ''last_event_id'', Drop_Column ''post_saves'' ''is_saved'',
        Drop_Column ''forum_subscriptions'' ''last_event_id'', Drop_Column ''forum_subscriptions'' ''is_subscribed'',
        Add_Column ''comment_votes'' (mandatory ''vote'' BOOLEAN), Drop_Column ''comment_votes'' ''last_event_id'',
        Drop_Column ''comment_votes'' ''vote_type'', Drop_Column ''anime_subscriptions'' ''last_event_id'',
        Drop_Column ''anime_subscriptions'' ''is_subscribed'']\<rparr>"

definition renames_upgrade :: "ddl list" where
  "renames_upgrade =
    [Add_Column ''comment_votes'' (mandatory ''user_id'' BIGINT), Drop_Constraint (Some ''comment_votes_voter_id_fkey'') ''comment_votes'',
     Create_Constraint None ''comment_votes'' (Foreign_Key [''user_id''] ''users'' [''id_''] False), Drop_Column ''comment_votes'' ''voter_id'',
     Add_Column ''comments'' (nullable ''deletion_time'' TIMESTAMP), Drop_Column ''comments'' ''time_deleted'',
     Add_Column ''dlq_events'' (defaulted ''failure_time'' TIMESTAMP ''CURRENT_TIMESTAMP''),
     Create_Index ''ix_dlq_events_failure_time'' ''dlq_events'' [''failure_time''],
     Add_Column ''forums'' (nullable ''parent_anime'' INTEGER), Add_Column ''forums'' (nullable ''deletion_time'' TIMESTAMP),
     Drop_Index ''ix_forums_anime'' ''forums'', Drop_Constraint (Some ''uq_name_anime'') ''forums'',
     Create_Index ''ix_forums_parent_anime'' ''forums'' [''parent_anime''],
     Create_Constraint (Some ''uq_forum_name'') ''forums'' (Unique [''name_'']), Drop_Constraint (Some ''forums_anime_fkey'') ''forums'',
     Create_Constraint None ''forums'' (Foreign_Key [''parent_anime''] ''animes'' [''id_''] False), Drop_Column ''forums'' ''anime'',
     Drop_Column ''forums'' ''time_deleted'',
     Add_Column ''post_votes'' (mandatory ''user_id'' BIGINT), Drop_Constraint (Some ''post_votes_voter_id_fkey'') ''post_votes'',
     Create_Constraint None ''post_votes'' (Foreign_Key [''user_id''] ''users'' [''id_''] False), Drop_Column ''post_votes'' ''voter_id'',
     Add_Column ''posts'' (mandatory ''parent_forum'' INTEGER), Add_Column ''posts'' (nullable ''deletion_time'' TIMESTAMP),
     Drop_Constraint (Some ''posts_forum_id_fkey'') ''posts'',
     Create_Constraint None ''posts'' (Foreign_Key [''parent_forum''] ''forums'' [''id_''] True), Drop_Column ''posts'' ''forum_id'',
     Drop_Column ''posts'' ''time_deleted'', Add_Column ''user_tickets'' (mandatory ''id_'' BIGINT), Drop_Column ''user_tickets'' ''id'',
     Add_Column ''users'' (nullable ''deletion_time'' TIMESTAMP), Drop_Column ''users'' ''time_deleted'']"

definition renames_downgrade :: "ddl list" where
  "renames_downgrade =
    [Add_Column ''users'' (nullable ''time_deleted'' TIMESTAMP), Drop_Column ''users'' ''deletion_time'',
     Add_Column ''user_tickets'' (mandatory ''id'' BIGINT), Drop_Column ''user_tickets'' ''id_'',
     Add_Column ''posts'' (nullable ''time_deleted'' TIMESTAMP), Add_Column ''posts'' (mandatory ''forum_id'' INTEGER),
     Drop_Constraint None ''posts'',
     Create_Constraint (Some ''posts_forum_id_fkey'') ''posts'' (Foreign_Key [''forum_id''] ''forums'' [''id_''] True),
     Drop_Column ''posts'' ''deletion_time'', Drop_Column ''posts'' ''parent_forum'',
     Add_Column ''post_votes'' (mandatory ''voter_id'' BIGINT), Drop_Constraint None ''post_votes'',
     Create_Constraint (Some ''post_votes_voter_id_fkey'') ''post_votes'' (Foreign_Key [''voter_id''] ''users'' [''id_''] False),
     Drop_Column ''post_votes'' ''user_id'',
     Add_Column ''forums'' (nullable ''time_deleted'' TIMESTAMP), Add_Column ''forums'' (nullable ''anime'' INTEGER),
     Drop_Constraint None ''forums'',
     Create_Constraint (Some ''forums_anime_fkey'') ''forums'' (Foreign_Key [''anime''] ''animes'' [''id_''] False),
     Drop_Constraint (Some ''uq_forum_name'') ''forums'', Drop_Index ''ix_forums_parent_anime'' ''forums'',
     Create_Constraint (Some ''uq_name_anime'') ''forums'' (Unique [''name_'', ''anime'']),
     Create_Index ''ix_forums_anime'' ''forums'' [''anime''], Drop_Column ''forums'' ''deletion_time'', Drop_Column ''forums'' ''parent_anime'',
     Drop_Index ''ix_dlq_events_failure_time'' ''dlq_events'', Drop_Column ''dlq_events'' ''failure_time'',
     Add_Column ''comments'' (nullable ''time_deleted'' TIMESTAMP), Drop_Column ''comments'' ''deletion_time'',
     Add_Column ''comment_votes'' (mandatory ''voter_id'' BIGINT), Drop_Constraint None ''comment_votes'',
     Create_Constraint (Some ''comment_votes_voter_id_fkey'') ''comment_votes'' (Foreign_Key [''voter_id''] ''users'' [''id_''] False),
     Drop_Column ''comment_votes'' ''user_id'']"

definition rev_19ed1d233cb9 :: migration where
  "rev_19ed1d233cb9 =
    \<lparr>revision = ''19ed1d233cb9'', down_revision = Some ''a9cdcdd416de'', upgrade = renames_upgrade, downgrade = renames_downgrade\<rparr>"

definition rev_ba411046cc75 :: migration where
  "rev_ba411046cc75 =
    \<lparr>revision = ''ba411046cc75'', down_revision = Some ''19ed1d233cb9'',
     upgrade =
       [Add_Column ''comments'' (nullable ''deletion_author_event'' BIGINT), Add_Column ''forums'' (nullable ''deletion_author_event'' BIGINT),
        Add_Column ''posts'' (nullable ''deletion_author_event'' BIGINT)],
     downgrade =
       [Drop_Column ''posts'' ''deletion_author_event'', Drop_Column ''forums'' ''deletion_author_event'',
        Drop_Column ''comments'' ''deletion_author_event'']\<rparr>"

definition rev_0a1370421a2b :: migration where
  "rev_0a1370421a2b =
    \<lparr>revision = ''0a1370421a2b'', down_revision = Some ''ba411046cc75'',
     upgrade =
       [Drop_Column ''comments'' ''rtbf_hidden'', Drop_Column ''forums'' ''rtbf_hidden'', Drop_Column ''posts'' ''rtbf_hidden'',
        Drop_Column ''users'' ''rtbf''],
     downgrade =
       [Add_Column ''users'' (defaulted ''rtbf'' BOOLEAN ''false''), Add_Column ''posts'' (nullable ''rtbf_hidden'' BOOLEAN),
        Add_Column ''forums'' (mandatory ''rtbf_hidden'' BOOLEAN), Add_Column ''comments'' (nullable ''rtbf_hidden'' BOOLEAN)]\<rparr>"

definition rev_cec56bf97d17 :: migration where
  "rev_cec56bf97d17 =
    \<lparr>revision = ''cec56bf97d17'', down_revision = Some ''0a1370421a2b'',
     upgrade = [Alter_Nullable ''users'' ''last_login'' True], downgrade = [Alter_Nullable ''users'' ''last_login'' False]\<rparr>"

definition rev_a639269cddd3 :: migration where
  "rev_a639269cddd3 =
    \<lparr>revision = ''a639269cddd3'', down_revision = Some ''cec56bf97d17'',
     upgrade = [Drop_Column ''animes'' ''rating'', Drop_Column ''animes'' ''mal_rating''],
     downgrade = [Add_Column ''animes'' (nullable ''mal_rating'' INTEGER), Add_Column ''animes'' (mandatory ''rating'' (NUMERIC 3 2))]\<rparr>"

definition rev_59925fd514af :: migration where
  "rev_59925fd514af =
    \<lparr>revision = ''59925fd514af'', down_revision = Some ''a639269cddd3'',
     upgrade = [Alter_Type ''animes'' ''synopsis'' TEXT], downgrade = [Alter_Type ''animes'' ''synopsis'' (VARCHAR 256)]\<rparr>"

definition rev_76d4417ceeb6 :: migration where
  "rev_76d4417ceeb6 =
    \<lparr>revision = ''76d4417ceeb6'', down_revision = Some ''59925fd514af'',
     upgrade =
       [Create_Table ''side_effects_dlq''
          [mandatory ''id_'' BIGINT, mandatory ''event_id'' BIGINT,
           mandatory ''side_effect_type'' (ENUM ''SIDE_EFFECTS_TYPES'' [''CACHE_INVALIDATION'', ''INTENT_INVALIDATION'', ''COUNTER_UPDATE'']),
           mandatory ''payload'' JSONB]
          [(None, Primary_Key [''id_''])],
        Create_Index ''ix_side_effects_dlq_event_id'' ''side_effects_dlq'' [''event_id''],
        Create_Index ''ix_side_effects_dlq_side_effect_type'' ''side_effects_dlq'' [''side_effect_type'']],
     downgrade =
       [Drop_Index ''ix_side_effects_dlq_side_effect_type'' ''side_effects_dlq'', Drop_Index ''ix_side_effects_dlq_event_id'' ''side_effects_dlq'',
        Drop_Table ''side_effects_dlq'']\<rparr>"

section \<open>Running the migrations\<close>

text \<open>The files of the directory, in the order of their names.\<close>

definition scripts :: "migration list" where
  "scripts =
    [rev_09306c1baeae, rev_0a1370421a2b, rev_174235ccf672, rev_19ed1d233cb9, rev_33fe0a168e0a, rev_4bd0490dba29, rev_59925fd514af,
     rev_76d4417ceeb6, rev_8f2bdc6314fd, rev_a639269cddd3, rev_a9cdcdd416de, rev_ac751c82a6e0, rev_ba411046cc75, rev_cec56bf97d17,
     rev_ed06aa294747, rev_ee3c37f5d96c]"

definition history :: "migration list" where
  "history = path (length scripts) scripts None"

definition head_schema :: "exn + db_schema" where
  "head_schema = run_upgrades no_rows history empty_schema"

definition head :: db_schema where
  "head = (case head_schema of Inr s \<Rightarrow> s | Inl e \<Rightarrow> empty_schema)"

section \<open>The run\<close>

lemmas rev_defs =
  rev_8f2bdc6314fd_def rev_174235ccf672_def rev_09306c1baeae_def rev_4bd0490dba29_def rev_ed06aa294747_def rev_33fe0a168e0a_def
  rev_ee3c37f5d96c_def rev_ac751c82a6e0_def rev_a9cdcdd416de_def rev_19ed1d233cb9_def rev_ba411046cc75_def rev_0a1370421a2b_def
  rev_cec56bf97d17_def rev_a639269cddd3_def rev_59925fd514af_def rev_76d4417ceeb6_def

lemma revisions:
  "map (\<lambda>m. (revision m, down_revision m)) scripts =
    [(''09306c1baeae'', Some ''174235ccf672''), (''0a1370421a2b'', Some ''ba411046cc75''), (''174235ccf672'', Some ''8f2bdc6314fd''),
     (''19ed1d233cb9'', Some ''a9cdcdd416de''), (''33fe0a168e0a'', Some ''ed06aa294747''), (''4bd0490dba29'', Some ''09306c1baeae''),
     (''59925fd514af'', Some ''a639269cddd3''), (''76d4417ceeb6'', Some ''59925fd514af''), (''8f2bdc6314fd'', None),
     (''a639269cddd3'', Some ''cec56bf97d17''), (''a9cdcdd416de'', Some ''ac751c82a6e0''), (''ac751c82a6e0'', Some ''ee3c37f5d96c''),
     (''ba411046cc75'', Some ''19ed1d233cb9''), (''cec56bf97d17'', Some ''0a1370421a2b''), (''ed06aa294747'', Some ''4bd0490dba29''),
     (''ee3c37f5d96c'', Some ''33fe0a168e0a'')]"
  by (simp add: scripts_def rev_defs)

lemmas revision_of = revisions [unfolded scripts_def list.map list.inject prod.inject]

lemma history_list:
  "history =
    [rev_8f2bdc6314fd, rev_174235ccf672, rev_09306c1baeae, rev_4bd0490dba29, rev_ed06aa294747, rev_33fe0a168e0a, rev_ee3c37f5d96c,
     rev_ac751c82a6e0, rev_a9cdcdd416de, rev_19ed1d233cb9, rev_ba411046cc75, rev_0a1370421a2b, rev_cec56bf97d17, rev_a639269cddd3,
     rev_59925fd514af, rev_76d4417ceeb6]"
proof -
  have "length scripts = 16" by (simp add: scripts_def)
  then show ?thesis by (simp add: history_def scripts_def revision_of eval_nat_numeral)
qed

definition operations :: "ddl list" where
  "operations = concat (map upgrade [rev_8f2bdc6314fd, rev_174235ccf672, rev_09306c1baeae, rev_4bd0490dba29, rev_ed06aa294747,
     rev_33fe0a168e0a, rev_ee3c37f5d96c, rev_ac751c82a6e0, rev_a9cdcdd416de, rev_19ed1d233cb9, rev_ba411046cc75, rev_0a1370421a2b,
     rev_cec56bf97d17, rev_a639269cddd3, rev_59925fd514af, rev_76d4417ceeb6])"

lemma head_schema_run: "head_schema = apply_all no_rows operations empty_schema"
  by (simp add: head_schema_def run_upgrades_def history_list operations_def empty_schema_def)

text \<open>
  One evaluation of the whole run: it succeeds, and what it leaves.
\<close>

definition different_keys :: "db_schema \<Rightarrow> string list" where
  "different_keys s =
     map t_name (filter (\<lambda>tb. set (primary_key (Some tb)) \<noteq> set (primary_key (mapped (t_name tb)))) (s_tables s))"

text \<open>The columns whose enumeration has other labels in the migrated tables than in the classes.\<close>

definition label_differences ::
  "string \<Rightarrow> (string \<times> sql_type \<times> bool) list \<times> (string \<times> sql_type \<times> bool) list" where
  "label_differences t =
     (if t = ''forum_admins''
      then ([(''role'', ENUM ''ADMIN_ROLES'' [''admin'', ''super'', ''owner''], False)],
            [(''role'', ENUM ''ADMIN_ROLES'' [''ADMIN'', ''SUPER'', ''OWNER''], False)])
      else if t \<in> {''post_reports'', ''comment_reports''}
      then ([(''report_tag'', ENUM ''REPORT_TAGS'' [''spam'', ''harassment'', ''hate'', ''violence'', ''other''], False)],
            [(''report_tag'', ENUM ''REPORT_TAGS'' [''SPAM'', ''HARASSMENT'', ''HATE'', ''VIOLENCE'', ''OTHER''], False)])
      else ([], []))"

lemma migrations_succeed:
  "case apply_all no_rows operations empty_schema of
     Inr s \<Rightarrow>
       s_types s = [(''ADMIN_ROLES'', [''admin'', ''super'', ''owner'']),
         (''REPORT_TAGS'', [''spam'', ''harassment'', ''hate'', ''violence'', ''other'']),
         (''SIDE_EFFECTS_TYPES'', [''CACHE_INVALIDATION'', ''INTENT_INVALIDATION'', ''COUNTER_UPDATE''])] \<and>
       map t_name (s_tables s) = map fst mapped_classes \<and>
       list_all (\<lambda>tb. mapped (t_name tb) \<noteq> None \<and>
         column_differences (Some tb) (mapped (t_name tb)) = label_differences (t_name tb)) (s_tables s) \<and>
       different_keys s = [''user_tickets'', ''post_votes'', ''comment_votes'']
   | Inl e \<Rightarrow> False"
  by code_simp

lemma head_run: "apply_all no_rows operations empty_schema = Inr head"
  using migrations_succeed by (auto simp: head_def head_schema_run split: sum.splits)

lemmas head_checked = migrations_succeed [unfolded head_run sum.case]

lemma head_types:
  "s_types head = [(''ADMIN_ROLES'', [''admin'', ''super'', ''owner'']),
     (''REPORT_TAGS'', [''spam'', ''harassment'', ''hate'', ''violence'', ''other'']),
     (''SIDE_EFFECTS_TYPES'', [''CACHE_INVALIDATION'', ''INTENT_INVALIDATION'', ''COUNTER_UPDATE''])]"
  using head_checked by (rule conjunct1)

lemma head_ok: "schema_ok head"
  by (rule apply_all_ok [OF empty_schema_ok head_run])

lemma head_table: "find_table t head = table_after t operations None"
  using table_of_run [OF head_run, of t] by (simp add: empty_schema_def find_table_def)

section \<open>Columns and keys\<close>

lemma head_names: "t_name ` set (s_tables head) = fst ` set mapped_classes"
  using head_checked by (metis image_set)

lemma head_columns:
  "tb \<in> set (s_tables head) \<Longrightarrow> mapped (t_name tb) \<noteq> None \<and>
     column_differences (Some tb) (mapped (t_name tb)) = label_differences (t_name tb)"
  using head_checked by (simp add: list_all_iff)

lemma head_keys: "different_keys head = [''user_tickets'', ''post_votes'', ''comment_votes'']"
  using head_checked by blast

lemma named_table: "tb \<in> set (s_tables head) \<Longrightarrow> find_table (t_name tb) head = Some tb"
proof -
  assume tb: "tb \<in> set (s_tables head)"
  then obtain x where x: "find_table (t_name tb) head = Some x" using find_table_None by (cases "find_table (t_name tb) head") auto
  with only_table [OF head_ok x tb] show ?thesis by simp
qed

lemma unmapped: "t \<notin> fst ` set mapped_classes \<Longrightarrow> find_table t head = None \<and> mapped t = None"
  using find_table_None [of t head] by (simp add: head_names mapped_def map_of_eq_None_iff [symmetric])

lemma unlabelled: "t \<notin> fst ` set mapped_classes \<Longrightarrow> label_differences t = ([], [])"
proof -
  assume "t \<notin> fst ` set mapped_classes"
  moreover have "{''forum_admins'', ''post_reports'', ''comment_reports''} \<subseteq> fst ` set mapped_classes"
    by (simp add: mapped_classes_def)
  ultimately show ?thesis by (auto simp: label_differences_def)
qed

text \<open>
  C13.  The migrations lead from the empty database to the tables of the mapped classes: a table
  has a class exactly if it is there, and it has the columns of its class, of the same types, the
  same of them nullable, except for three columns whose enumeration has other labels: those of
  the roles of forum admins and of the tags of reports on posts and on comments are in lower case
  in the database and in upper case in the classes.  The primary keys are those of the classes, except that the tickets, the votes on
  posts and the votes on comments have lost theirs: it went with the column that was renamed.
\<close>

theorem migrations_match_models:
  "head_schema = Inr head \<and> (\<forall>t. (find_table t head = None \<longleftrightarrow> mapped t = None) \<and>
        column_differences (find_table t head) (mapped t) = label_differences t) \<and>
   {t. set (primary_key (find_table t head)) \<noteq> set (primary_key (mapped t))} = {''user_tickets'', ''post_votes'', ''comment_votes''}"
proof (intro conjI allI)
  show "head_schema = Inr head" by (simp add: head_schema_run head_run)
  have names: "map t_name (s_tables head) = map fst mapped_classes"
    using head_checked [THEN conjunct2, THEN conjunct1] .
  have all: "list_all (\<lambda>tb. (Some tb = None \<longleftrightarrow> mapped (t_name tb) = None) \<and>
      column_differences (Some tb) (mapped (t_name tb)) = label_differences (t_name tb)) (s_tables head)"
    using head_columns by (simp add: list_all_iff)
  have none: "(None = None \<longleftrightarrow> None = None) \<and> column_differences None None = label_differences t"
    if "t \<notin> fst ` set mapped_classes" for t
    using that unlabelled by (simp add: column_differences_def column_shapes_def)
  note match = tables_match [where P = "\<lambda>t x y. (x = None \<longleftrightarrow> y = None) \<and> column_differences x y = label_differences t",
      OF head_ok all none names, OF _ unmapped [THEN conjunct2]]
  show "find_table t head = None \<longleftrightarrow> mapped t = None" for t using match [of t] by simp
  show "column_differences (find_table t head) (mapped t) = label_differences t" for t using match [of t] by simp
  have "{t. set (primary_key (find_table t head)) \<noteq> set (primary_key (mapped t))} =
      t_name ` {tb \<in> set (s_tables head). set (primary_key (Some tb)) \<noteq> set (primary_key (mapped (t_name tb)))}" (is "?L = ?R")
  proof (intro equalityI subsetI)
    fix t assume t: "t \<in> ?L"
    show "t \<in> ?R"
    proof (cases "find_table t head")
      case None
      then have "t \<notin> fst ` set mapped_classes" using find_table_None [of t head] by (simp add: head_names)
      with unmapped [of t] t show ?thesis by simp
    next
      case (Some tb)
      with t find_table_Some [OF Some] show ?thesis by (intro image_eqI [of _ _ tb]) auto
    qed
  next
    fix t assume "t \<in> ?R"
    then obtain tb where tb: "tb \<in> set (s_tables head)" "set (primary_key (Some tb)) \<noteq> set (primary_key (mapped (t_name tb)))"
      and t: "t = t_name tb" by blast
    from tb(2) show "t \<in> ?L" by (simp only: t named_table [OF tb(1)] mem_Collect_eq not_False_eq_True)
  qed
  also have "\<dots> = set (different_keys head)" by (simp add: different_keys_def)
  finally show "?L = {''user_tickets'', ''post_votes'', ''comment_votes''}" by (simp add: head_keys)
qed

section \<open>What the workers and the routes write\<close>

text \<open>The four tables below, as the operations on them leave them.\<close>

lemma head_votes:
  "map_option t_constraints (table_after ''post_votes'' operations None) =
     Some [(''post_votes_post_id_fkey'', Foreign_Key [''post_id''] ''posts'' [''id_''] True),
           (''post_votes_user_id_fkey'', Foreign_Key [''user_id''] ''users'' [''id_''] False)]"
  "map_option t_constraints (table_after ''comment_votes'' operations None) =
     Some [(''comment_votes_comment_id_fkey'', Foreign_Key [''comment_id''] ''comments'' [''id_''] True),
           (''comment_votes_user_id_fkey'', Foreign_Key [''user_id''] ''users'' [''id_''] False)]"
  by code_simp+

lemma head_targets:
  "map_option (has_key [''user_id'', ''post_id'']) (table_after ''post_saves'' operations None) = Some True"
  "map_option (has_key [''user_id'', ''anime_id'']) (table_after ''anime_subscriptions'' operations None) = Some True"
  "map_option (has_key [''user_id'', ''comment_id'']) (table_after ''forum_subscriptions'' operations None) = Some False"
  "map_option (has_key [''user_id'', ''post_id'']) (table_after ''post_reports'' operations None) = Some False"
  "table_after ''comment_reportss'' operations None = None"
  by code_simp+

lemma conflict_target_head:
  "conflict_target head t cs \<longleftrightarrow> map_option (has_key cs) (table_after t operations None) = Some True"
  by (simp add: conflict_target_def head_table split: option.split)

lemma keyless: "map_option t_constraints x = Some ks \<Longrightarrow> map_option (has_key cs) x = Some (list_ex (is_key_on cs \<circ> snd) ks)"
  by (auto simp: has_key_def)

lemma head_some_targets:
  "conflict_target head ''post_saves'' user_post_pk" "conflict_target head ''anime_subscriptions'' user_anime_pk"
  "\<not> conflict_target head ''forum_subscriptions'' user_comment_pk" "\<not> conflict_target head ''post_reports'' user_post_pk"
  "\<not> conflict_target head ''comment_reportss'' user_comment_pk"
  "\<not> conflict_target head ''post_votes'' user_post_pk" "\<not> conflict_target head ''comment_votes'' user_comment_pk"
  by (simp_all add: conflict_target_head head_targets keyless [OF head_votes(1)] keyless [OF head_votes(2)] user_post_pk_def
      user_comment_pk_def user_anime_pk_def)

text \<open>
  The columns an event of an association would name as those a conflict is on, if its statement
  were ever composed (it never is, see \<open>weak_insertion_KeyError\<close>): on the migrated schema there
  is a key on them for the events that save a post and those that subscribe to an anime, and for
  no others.
\<close>

theorem conflict_targets:
  "(\<exists>t pk. ASSOCIATION_DB_METADATA ev = Some (t, pk) \<and> conflict_target head t pk) \<longleftrightarrow>
   ev \<in> {POST_SAVE, POST_UNSAVE, ANIME_SUB, ANIME_UNSUB}"
  by (cases ev) (simp_all add: head_some_targets)

lemma head_rows:
  "case table_after ''comments'' operations None of None \<Rightarrow> False
   | Some tb \<Rightarrow> defaulted ''reports'' INTEGER ''0'' \<in> set (t_columns tb) \<and>
       (''check_reports_value'', Check (Above ''reports'' 0)) \<in> set (t_constraints tb)"
  "case table_after ''forum_admins'' operations None of None \<Rightarrow> False
   | Some tb \<Rightarrow> Column ''role'' (ENUM ''ADMIN_ROLES'' [''admin'', ''super'', ''owner'']) (Text_Default ''admin'') False \<in> set (t_columns tb)"
  "case table_after ''user_tickets'' operations None of None \<Rightarrow> False | Some tb \<Rightarrow> mandatory ''id_'' BIGINT \<in> set (t_columns tb)"
  "case table_after ''post_reports'' operations None of None \<Rightarrow> False
   | Some tb \<Rightarrow> mandatory ''report_description'' (VARCHAR 256) \<in> set (t_columns tb) \<and>
       (''post_reports_report_description_check'', Check (Len_At_Most ''report_description'' 8)) \<in> set (t_constraints tb)"
  "case table_after ''password_recovery_tokens'' operations None of None \<Rightarrow> False
   | Some tb \<Rightarrow> find_column ''url_hash'' tb = Some (mandatory ''url_hash'' (VARCHAR 512))"
  by code_simp+

lemma head_distinct: "find_table t head = Some tb \<Longrightarrow> distinct (column_names tb)"
  using head_ok find_table_Some [of t head tb] by (auto simp: schema_ok_def table_ok_def)

lemma no_comment_row:
  assumes "''reports'' \<notin> fst ` set r"
  shows "\<not> admits m now next head ''comments'' r"
proof -
  from head_rows(1) obtain tb where tb: "find_table ''comments'' head = Some tb"
    and c: "defaulted ''reports'' INTEGER ''0'' \<in> set (t_columns tb)"
    and k: "(''check_reports_value'', Check (Above ''reports'' 0)) \<in> set (t_constraints tb)"
    by (auto simp: head_table split: option.splits)
  from assms have "map_of r ''reports'' = None" by (simp add: map_of_eq_None_iff)
  moreover have "int_of_str ''0'' = Some 0" by code_simp
  ultimately have "col (completed now next tb r) ''reports'' = FInt 0"
    using completed_col [OF head_distinct [OF tb] c, of now "next" r] by (simp add: default_value_def)
  then show ?thesis by (intro check_refused [OF tb k]) (simp add: on_int_def)
qed

lemma no_role_row:
  assumes "map_of r ''role'' = Some (FStr x)" and "x \<in> set AdminRoles"
  shows "\<not> admits m now next head ''forum_admins'' r"
proof -
  from head_rows(2) obtain tb where tb: "find_table ''forum_admins'' head = Some tb"
    and c: "Column ''role'' (ENUM ''ADMIN_ROLES'' [''admin'', ''super'', ''owner'']) (Text_Default ''admin'') False \<in> set (t_columns tb)"
    by (auto simp: head_table split: option.splits)
  from completed_col [OF head_distinct [OF tb] c, of now "next" r] assms(1)
  have v: "col (completed now next tb r) ''role'' = FStr x" by simp
  have "x \<notin> {''admin'', ''super'', ''owner''}" using assms(2) by (auto simp: AdminRoles_def)
  then show ?thesis by (intro column_refused [OF tb c]) (simp add: column_admits_def v head_types)
qed

lemma no_ticket_row:
  assumes "''id_'' \<notin> fst ` set r"
  shows "\<not> admits m now next head ''user_tickets'' r"
proof -
  from head_rows(3) obtain tb where tb: "find_table ''user_tickets'' head = Some tb" and c: "mandatory ''id_'' BIGINT \<in> set (t_columns tb)"
    by (auto simp: head_table split: option.splits)
  from assms have "map_of r ''id_'' = None" by (simp add: map_of_eq_None_iff)
  with completed_col [OF head_distinct [OF tb] c, of now "next" r]
  have "col (completed now next tb r) ''id_'' = FNone" by (simp add: default_value_def)
  then show ?thesis by (intro column_refused [OF tb c]) (simp add: column_admits_def)
qed

lemma no_report_row:
  assumes "map_of r ''report_description'' = Some (FStr x)" and "8 < length x"
  shows "\<not> admits m now next head ''post_reports'' r"
proof -
  from head_rows(4) obtain tb where tb: "find_table ''post_reports'' head = Some tb"
    and c: "mandatory ''report_description'' (VARCHAR 256) \<in> set (t_columns tb)"
    and k: "(''post_reports_report_description_check'', Check (Len_At_Most ''report_description'' 8)) \<in> set (t_constraints tb)"
    by (auto simp: head_table split: option.splits)
  from completed_col [OF head_distinct [OF tb] c, of now "next" r] assms(1)
  have "col (completed now next tb r) ''report_description'' = FStr x" by simp
  with assms(2) show ?thesis by (intro check_refused [OF tb k]) (simp add: on_text_def)
qed

text \<open>
  Rows the migrated tables never admit: a comment whose reports are left to their default, for
  the check wants more than none; an admin of a forum with a role of the code, for the labels of the type
  are in lower case; a ticket without an identifier, for its column has no sequence; and a report of
  a post with more than eight characters, for the bound of the check is upside down.
\<close>

theorem rows_refused:
  "(''reports'' \<notin> fst ` set r \<longrightarrow> \<not> admits m now next head ''comments'' r) \<and>
   (map_of r ''role'' = Some (FStr x) \<longrightarrow> x \<in> set AdminRoles \<longrightarrow> \<not> admits m now next head ''forum_admins'' r) \<and>
   (''id_'' \<notin> fst ` set r \<longrightarrow> \<not> admits m now next head ''user_tickets'' r) \<and>
   (map_of r ''report_description'' = Some (FStr x) \<longrightarrow> 8 < length x \<longrightarrow> \<not> admits m now next head ''post_reports'' r)"
  using no_comment_row no_role_row no_ticket_row no_report_row by blast

theorem rows_refused_witness:
  "\<not> admits (\<lambda>_ _. True) ''now'' 1 head ''comments'' [(''author_id'', FInt 3), (''parent_forum'', FInt 5), (''parent_post'', FInt 7), (''body'', FStr ''hi'')] \<and>
   \<not> admits (\<lambda>_ _. True) ''now'' 1 head ''forum_admins'' [(''forum_id'', FInt 5), (''user_id'', FInt 3), (''role'', FStr ''OWNER'')] \<and>
   \<not> admits (\<lambda>_ _. True) ''now'' 1 head ''user_tickets'' [(''email'', FStr ''a@b.cd''), (''description'', FStr ''does not work'')] \<and>
   \<not> admits (\<lambda>_ _. True) ''now'' 1 head ''post_reports''
       [(''user_id'', FInt 3), (''post_id'', FInt 7), (''report_tag'', FStr ''spam''), (''report_time'', FTime ''now''),
        (''report_description'', FStr ''advertising'')]"
  using rows_refused [of "[(''author_id'', FInt 3), (''parent_forum'', FInt 5), (''parent_post'', FInt 7), (''body'', FStr ''hi'')]" "\<lambda>_ _. True" "''now''" 1 "[]"]
    rows_refused [of "[(''forum_id'', FInt 5), (''user_id'', FInt 3), (''role'', FStr ''OWNER'')]" "\<lambda>_ _. True" "''now''" 1 "''OWNER''"]
    rows_refused [of "[(''email'', FStr ''a@b.cd''), (''description'', FStr ''does not work'')]" "\<lambda>_ _. True" "''now''" 1 "[]"]
    rows_refused [of "[(''user_id'', FInt 3), (''post_id'', FInt 7), (''report_tag'', FStr ''spam''), (''report_time'', FTime ''now''),
        (''report_description'', FStr ''advertising'')]" "\<lambda>_ _. True" "''now''" 1 "''advertising''"]
  by (simp add: AdminRoles_def)

section \<open>Up and down\<close>

definition additive_revisions :: "migration list" where
  "additive_revisions = [rev_ed06aa294747, rev_33fe0a168e0a, rev_ac751c82a6e0, rev_ba411046cc75]"

lemma additive_undone:
  "m \<in> set additive_revisions \<Longrightarrow> list_all adds (upgrade m) \<and> downgrade m = rev (map undo (upgrade m))"
  by (auto simp: additive_revisions_def rev_defs)

text \<open>
  C16.  Round trips of the migrations that only add.  From any well-formed schema, and whatever rows there
  are, if the upgrade to one of the four revisions succeeds, then its downgrade succeeds and gives
  back the very schema.
\<close>

theorem additive_migrations_undone:
  assumes "m \<in> set additive_revisions" and "schema_ok s" and "run_upgrades d [m] s = Inr s'"
  shows "run_downgrade d m s' = Inr (s\<lparr>s_created := []\<rparr>)"
proof -
  from assms(3) have run: "apply_all d (upgrade m) (s\<lparr>s_created := []\<rparr>) = Inr s'" by (simp add: run_upgrades_def)
  note m = additive_undone [OF assms(1)]
  have "s'\<lparr>s_created := []\<rparr> = s'" using additions_created [OF _ run] m by simp
  with undo_all [OF schema_ok_created [OF assms(2)] _ run] m show ?thesis by (simp add: run_downgrade_def)
qed

theorem additive_migrations_undone_witness:
  "\<exists>s'. run_upgrades no_rows [rev_ed06aa294747] empty_schema = Inr s' \<and> run_downgrade no_rows rev_ed06aa294747 s' = Inr empty_schema"
proof -
  have "case run_upgrades no_rows [rev_ed06aa294747] empty_schema of Inr s' \<Rightarrow> True | Inl e \<Rightarrow> False" by code_simp
  then obtain s' where s': "run_upgrades no_rows [rev_ed06aa294747] empty_schema = Inr s'" by (auto split: sum.splits)
  have "rev_ed06aa294747 \<in> set additive_revisions" by (simp add: additive_revisions_def)
  from additive_migrations_undone [OF this empty_schema_ok s'] s' show ?thesis by (simp add: empty_schema_def)
qed

text \<open>
  Downgrades that cannot be.  The renames drop constraints without naming them, which Alembic
  refuses, whatever the schema and the rows; the downgrade of the hashes of the recovery tokens
  asks for a conversion of texts into bytes, which PostgreSQL does not make by itself, even
  without a row.
\<close>

theorem irreversible_migrations:
  assumes "find_table ''password_recovery_tokens'' s = Some tb" and "find_column ''url_hash'' tb = Some c" and "c_type c \<noteq> BYTEA"
  shows "(\<exists>e. run_downgrade d rev_19ed1d233cb9 s' = Inl e) \<and> run_downgrade d rev_4bd0490dba29 s = Inl SQLAlchemyError"
proof
  have "Drop_Constraint None ''posts'' \<in> set renames_downgrade" by (simp add: renames_downgrade_def)
  from doomed [OF this, of d "s'\<lparr>s_created := []\<rparr>"] show "\<exists>e. run_downgrade d rev_19ed1d233cb9 s' = Inl e"
    by (simp add: run_downgrade_def rev_19ed1d233cb9_def)
  have "find_table t (s\<lparr>s_created := []\<rparr>) = find_table t s" for t by (simp add: find_table_def)
  then show "run_downgrade d rev_4bd0490dba29 s = Inl SQLAlchemyError"
    using assms by (simp add: run_downgrade_def rev_4bd0490dba29_def in_table_def bindE_def)
qed

theorem irreversible_migrations_witness:
  "(\<exists>e. run_downgrade no_rows rev_19ed1d233cb9 head = Inl e) \<and> run_downgrade no_rows rev_4bd0490dba29 head = Inl SQLAlchemyError"
proof -
  from head_rows(5) obtain tb where tb: "find_table ''password_recovery_tokens'' head = Some tb"
    "find_column ''url_hash'' tb = Some (mandatory ''url_hash'' (VARCHAR 512))"
    by (auto simp: head_table split: option.splits)
  from irreversible_migrations [OF this, of no_rows head] show ?thesis by simp
qed

definition event_tables :: "string list" where
  "event_tables = [''anime_subscriptions'', ''forum_subscriptions'', ''post_saves'', ''post_votes'', ''comment_votes'']"

definition renamed_tables :: "string list" where
  "renamed_tables = [''posts'', ''post_votes'', ''comment_votes'', ''user_tickets'']"

fun needs_empty :: "string \<Rightarrow> ddl \<Rightarrow> bool" where
  "needs_empty t (Add_Column u c) \<longleftrightarrow> u = t \<and> c_default c = No_Default \<and> \<not> c_nullable c"
| "needs_empty t x \<longleftrightarrow> False"

lemma needs_empty_refused: "needs_empty t x \<Longrightarrow> populated d t \<Longrightarrow> \<exists>e. apply_ddl d x s = Inl e"
  by (cases x) (auto simp: bindE_def split: sum.split)

lemma needs_empty_run:
  assumes "list_ex (needs_empty t) (upgrade m)" and "populated d t"
  shows "\<exists>e. run_upgrades d [m] s = Inl e"
proof -
  from assms(1) obtain x where x: "x \<in> set (upgrade m)" "needs_empty t x" by (auto simp: list_ex_iff)
  from doomed [OF x(1) needs_empty_refused [where d = d, OF x(2) assms(2)]] show ?thesis by (simp add: run_upgrades_def)
qed

lemma mandatory_additions:
  "list_all (\<lambda>t. list_ex (needs_empty t) (upgrade rev_a9cdcdd416de)) event_tables"
  "list_all (\<lambda>t. list_ex (needs_empty t) (upgrade rev_19ed1d233cb9)) renamed_tables"
  by code_simp+

text \<open>
  Upgrades of a database in use.  The revision that adds the columns of the events adds some
  that are not null and have no default: it fails if there is a subscription, a saved post or a
  vote.  So does the revision of the renames, if there is a post, a vote or a ticket.
\<close>

theorem upgrades_need_empty_tables:
  assumes "t \<in> set event_tables" and "populated d t" and "u \<in> set renamed_tables" and "populated d u"
  shows "(\<exists>e. run_upgrades d [rev_a9cdcdd416de] s = Inl e) \<and> (\<exists>e. run_upgrades d [rev_19ed1d233cb9] s = Inl e)"
  using assms mandatory_additions by (auto simp: list_all_iff intro!: needs_empty_run)

theorem upgrades_need_empty_tables_witness:
  "(\<exists>e. run_upgrades (no_rows\<lparr>populated := (\<lambda>t. t = ''post_votes'')\<rparr>) [rev_a9cdcdd416de] head = Inl e) \<and>
   (\<exists>e. run_upgrades (no_rows\<lparr>populated := (\<lambda>t. t = ''post_votes'')\<rparr>) [rev_19ed1d233cb9] head = Inl e)"
  using upgrades_need_empty_tables [of "''post_votes''" "no_rows\<lparr>populated := (\<lambda>t. t = ''post_votes'')\<rparr>" "''post_votes''"]
  by (simp add: event_tables_def renamed_tables_def)

end
