(* ===== verification/Tenjin_Email.thy ===== *)
theory Tenjin_Email
  imports Tenjin_Consumers
begin

text \<open>
  The email worker (\<^verbatim>\<open>src/email_worker\<close>): its queues and inputs, the cleaning of payloads and
  the threshold of errors (\<^verbatim>\<open>utilities/qos.py\<close>), the sending of a batch (\<^verbatim>\<open>outgoing.py\<close>), and
  one turn of the dispatcher (\<^verbatim>\<open>tasks.py\<close>).  The client of the mail server is a parameter.
\<close>

section \<open>Queues and inputs\<close>

datatype email_queue = GENERAL_QUEUE | PASSWORD_RECOVERY_QUEUE

fun email_queue_mapping :: "event_name \<Rightarrow> email_queue option" where
  "email_queue_mapping USER_DELETION_EMAIL = Some GENERAL_QUEUE"
| "email_queue_mapping USER_REGISTRATION_EMAIL = Some GENERAL_QUEUE"
| "email_queue_mapping USER_PASSWORD_RECOVERY_EMAIL = Some PASSWORD_RECOVERY_QUEUE"
| "email_queue_mapping _ = None"

fun EMAIL_STREAM_MAPPING :: "event_name \<Rightarrow> stream_name option" where
  "EMAIL_STREAM_MAPPING USER_DELETION_EMAIL = Some USER_EMAILS"
| "EMAIL_STREAM_MAPPING USER_REGISTRATION_EMAIL = Some USER_EMAILS"
| "EMAIL_STREAM_MAPPING USER_PASSWORD_RECOVERY_EMAIL = Some USER_EMAILS"
| "EMAIL_STREAM_MAPPING _ = None"

record general_email_input =
  gi_queue :: email_queue
  gi_stream :: stream_name
  gi_dlq_stream :: stream_name

definition derive_worker_args :: "event_name \<Rightarrow> exn + general_email_input" where
  "derive_worker_args ev =
     bindE (py_lookup email_queue_mapping ev) (\<lambda>q.
     bindE (py_lookup EMAIL_STREAM_MAPPING ev) (\<lambda>stream.
       Inr \<lparr>gi_queue = q, gi_stream = stream, gi_dlq_stream = USER_EMAILS\<rparr>))"

section \<open>Payloads\<close>

definition parse_user_email_payload :: "streamed_event \<Rightarrow> exn + pyval \<times> pyval \<times> pyval" where
  "parse_user_email_payload ev =
     bindE (py_lookup (dict_get (payload ev)) ''recipient'') (\<lambda>r.
     bindE (py_lookup (dict_get (payload ev)) ''sender'') (\<lambda>s.
     bindE (py_lookup (dict_get (payload ev)) ''body_kwargs'') (\<lambda>b. Inr (r, s, b))))"

text \<open>The loop over a copy; what is popped is whatever stands at the index of the copy by then.\<close>

fun clean_loop ::
  "nat \<Rightarrow> streamed_event list \<Rightarrow> streamed_event list \<times> streamed_event list \<Rightarrow>
   exn + streamed_event list \<times> streamed_event list" where
  "clean_loop i [] st = Inr st"
| "clean_loop i (ev # copy) (events, buffer) =
     (case parse_user_email_payload ev of
        Inr _ \<Rightarrow> clean_loop (Suc i) copy (events, buffer)
      | Inl _ \<Rightarrow>
          bindE (py_nth events i) (\<lambda>popped.
            clean_loop (Suc i) copy (take i events @ drop (Suc i) events, buffer @ [popped])))"

definition clean_user_email_payloads ::
  "streamed_event list \<Rightarrow> streamed_event list \<Rightarrow> exn + streamed_event list \<times> streamed_event list" where
  "clean_user_email_payloads events buffer = clean_loop 0 events (events, buffer)"

section \<open>Errors of the mail server\<close>

definition UNSAFE_SMTP_NETWORK_ERRORS :: "exn list" where
  "UNSAFE_SMTP_NETWORK_ERRORS = [SMTPReadTimeoutError, SMTPServerDisconnected]"

text \<open>The subclasses of \<open>SMTPTimeoutError\<close> and of \<open>SMTPException\<close>.\<close>

definition smtp_timeout :: "exn \<Rightarrow> bool" where
  "smtp_timeout e \<longleftrightarrow> e \<in> {SMTPTimeoutError, SMTPReadTimeoutError}"

definition smtp_exception :: "exn \<Rightarrow> bool" where
  "smtp_exception e \<longleftrightarrow> e \<in> {SMTPTimeoutError, SMTPReadTimeoutError, SMTPServerDisconnected, SMTPOtherError}"

text \<open>\<open>range(start, stop, step)\<close> from 0, with a positive step.\<close>

definition range_step :: "nat \<Rightarrow> nat \<Rightarrow> nat list" where
  "range_step stop step = map (\<lambda>j. j * step) [0 ..< (stop + step - 1) div step]"

fun threshold_loop :: "(exn \<times> int) list \<Rightarrow> int \<Rightarrow> nat \<Rightarrow> nat list \<Rightarrow> exn + bool" where
  "threshold_loop errors timeframe_size threshold [] = Inr False"
| "threshold_loop errors timeframe_size threshold (k # ks) =
     bindE (py_nth errors k) (\<lambda>start. bindE (py_nth errors (k + threshold)) (\<lambda>end.
       if snd end - snd start \<le> timeframe_size then Inr True
       else threshold_loop errors timeframe_size threshold ks))"

definition determine_smtp_error_threshold_reached :: "(exn \<times> int) list \<Rightarrow> int \<Rightarrow> nat \<Rightarrow> exn + bool" where
  "determine_smtp_error_threshold_reached errors timeframe_size threshold =
     (if length errors < threshold then Inr False
      else bindE (py_nth errors 0) (\<lambda>_. bindE (py_nth errors threshold) (\<lambda>_.
        if threshold = 0 then Inl ValueError
        else threshold_loop errors timeframe_size threshold (range_step (length errors) threshold))))"

section \<open>Sending\<close>

text \<open>
  \<open>em_send\<close> sends a message on the present connection, \<open>em_connect\<close> makes a fresh one,
  \<open>em_commit\<close> commits the connection to the database.
\<close>

record 's email_env =
  em_worker :: "'s worker_env"
  em_send :: "string option \<Rightarrow> ('s, unit) py"
  em_connect :: "('s, unit) py"
  em_clock :: "('s, int) py"
  em_commit :: "('s, unit) py"
  SMTP_NETWORK_ERROR_WINDOW :: int
  MAXIMUM_SMTP_REFRESHES :: nat

text \<open>The body of the function is an ellipsis: every message is \<open>None\<close>.\<close>

definition construct_email_message :: "streamed_event \<Rightarrow> string option" where
  "construct_email_message ev = None"

fun send_attempts :: "'s email_env \<Rightarrow> string option \<Rightarrow> int \<Rightarrow> nat list \<Rightarrow> ('s, exn option) py" where
  "send_attempts env msg attempts [] s = (Inr None, s)"
| "send_attempts env msg attempts (i # is) s =
     (case em_send env msg s of
        (Inr _, s1) \<Rightarrow> (Inr None, s1)
      | (Inl e, s1) \<Rightarrow>
          if smtp_timeout e then
            (if int i = attempts \<or> e \<in> set UNSAFE_SMTP_NETWORK_ERRORS then (Inr (Some e), s1)
             else thenM (backoff (wk_sleep (em_worker env)) (wk_policy (em_worker env)) i) (send_attempts env msg attempts is) s1)
          else if smtp_exception e then (Inr (Some e), s1)
          else (Inl e, s1))"

definition send_email :: "'s email_env \<Rightarrow> string option \<Rightarrow> int \<Rightarrow> ('s, exn option) py" where
  "send_email env msg attempts = send_attempts env msg attempts (attempt_range attempts)"

text \<open>
  One turn of the loop over the index, the events taken for sent, and the errors: the index moves
  before the event is taken; an error leaves it where it is.
\<close>

definition send_step ::
  "'s email_env \<Rightarrow> streamed_event list \<Rightarrow> int \<Rightarrow> nat \<times> streamed_event list \<times> (exn \<times> int) list \<Rightarrow>
   ('s, nat \<times> streamed_event list \<times> (exn \<times> int) list) py" where
  "send_step env events attempts st =
     (case st of (i, sent, errors) \<Rightarrow>
        bindM (lift_sum (py_nth events i)) (\<lambda>ev.
        bindM (send_email env (construct_email_message ev) attempts) (\<lambda>e. case e of
          None \<Rightarrow> bindM (lift_sum (py_nth events (Suc i))) (\<lambda>next. pure (Suc i, sent @ [next], errors))
        | Some err \<Rightarrow>
            thenM (if err = SMTPServerDisconnected then em_connect env else pure ())
            (bindM (em_clock env) (\<lambda>t.
             bindM (lift_sum (determine_smtp_error_threshold_reached (errors @ [(err, t)])
                                (SMTP_NETWORK_ERROR_WINDOW env) (MAXIMUM_SMTP_REFRESHES env))) (\<lambda>_.
               pure (i, sent, errors @ [(err, t)])))))))"

text \<open>\<open>None\<close>: the loop does not end.\<close>

partial_function (option) send_loop ::
  "'s email_env \<Rightarrow> streamed_event list \<Rightarrow> int \<Rightarrow> nat \<times> streamed_event list \<times> (exn \<times> int) list \<Rightarrow> 's \<Rightarrow>
   ((exn + streamed_event list \<times> (exn \<times> int) list) \<times> 's) option" where
  "send_loop env events attempts st s =
     (if fst st < length events
      then (case send_step env events attempts st s of
              (Inl e, s') \<Rightarrow> Some (Inl e, s')
            | (Inr st', s') \<Rightarrow> send_loop env events attempts st' s')
      else Some (Inr (snd st), s))"

definition batch_send_emails ::
  "'s email_env \<Rightarrow> streamed_event list \<Rightarrow> int \<Rightarrow> (exn \<times> int) list \<Rightarrow> 's \<Rightarrow>
   ((exn + streamed_event list \<times> (exn \<times> int) list) \<times> 's) option" where
  "batch_send_emails env events attempts errors = send_loop env events attempts (0, [], errors)"

section \<open>A turn of the dispatcher\<close>

definition gather_emails :: "'s email_env \<Rightarrow> stream_name \<Rightarrow> string \<Rightarrow> streamed_event list \<Rightarrow> ('s, streamed_event list) py" where
  "gather_emails env stream grp batch =
     bindM (wk_dedup (em_worker env) batch) (\<lambda>fresh.
       trim_duplicate_events (wk_redis (em_worker env)) batch fresh stream grp)"

text \<open>Leaving the block of the connection: an exception rolls back, otherwise the work is committed.\<close>

definition leave_connection :: "'s email_env \<Rightarrow> (exn + 'a) \<times> 's \<Rightarrow> (exn + 'a) \<times> 's" where
  "leave_connection env r =
     (case r of
        (Inl e, s) \<Rightarrow> thenM (rollback (wk_db (em_worker env))) (raise e) s
      | (Inr x, s) \<Rightarrow> thenM (em_commit env) (pure x) s)"

text \<open>
  What is declared dead is the batch that is left after the cleaning, not the events it took
  out; the batch is sent all the same.  The value is the list of errors, which outlives the turn.
\<close>

definition email_turn ::
  "'s email_env \<Rightarrow> stream_name \<Rightarrow> string \<Rightarrow> stream_name \<Rightarrow> streamed_event list \<Rightarrow> (exn \<times> int) list \<Rightarrow> 's \<Rightarrow>
   ((exn + (exn \<times> int) list) \<times> 's) option" where
  "email_turn env stream grp dlq batch errors s =
     (case gather_emails env stream grp batch s of
        (Inl e, s1) \<Rightarrow> Some (leave_connection env (Inl e, s1))
      | (Inr [], s1) \<Rightarrow> Some (leave_connection env (Inr errors, s1))
      | (Inr fresh, s1) \<Rightarrow>
          (case clean_user_email_payloads fresh [] of
             Inl e \<Rightarrow> Some (leave_connection env (Inl e, s1))
           | Inr (kept, improper) \<Rightarrow>
               (case thenM (wk_declare_dead (em_worker env) kept stream grp dlq) (em_connect env) s1 of
                  (Inl e, s2) \<Rightarrow> Some (leave_connection env (Inl e, s2))
                | (Inr _, s2) \<Rightarrow>
                    (case batch_send_emails env kept (MAX_RETRIES (wk_policy (em_worker env))) errors s2 of
                       None \<Rightarrow> None
                     | Some (Inl e, s3) \<Rightarrow> Some (leave_connection env (Inl e, s3))
                     | Some (Inr (sent, errors'), s3) \<Rightarrow>
                         Some (bindM (\<lambda>s. leave_connection env (thenM (em_commit env) (pure errors') s)) (\<lambda>errs.
                           thenM (wk_commit (em_worker env) kept grp stream dlq) (pure errs)) s3)))))"

section \<open>Properties\<close>

lemma range_step_last:
  assumes "0 < step" and "0 < stop"
  shows "\<exists>k \<in> set (range_step stop step). stop \<le> k + step"
proof -
  let ?n = "(stop + step - 1) div step"
  have "0 < ?n" using assms by (simp add: div_greater_zero_iff)
  then have "(?n - 1) * step \<in> set (range_step stop step)" by (auto simp: range_step_def)
  moreover have "stop \<le> (?n - 1) * step + step"
  proof -
    have "stop + step - 1 < ?n * step + step" 
      using mod_less_divisor [OF assms(1), of "stop + step - 1"] div_mult_mod_eq [of "stop + step - 1" step] by linarith
    moreover have "(?n - 1) * step + step = ?n * step" using \<open>0 < ?n\<close> by (cases ?n) auto
    ultimately show ?thesis using assms by linarith
  qed
  ultimately show ?thesis by blast
qed

lemma threshold_loop_never_False:
  assumes "\<exists>k \<in> set ks. length errors \<le> k + threshold"
  shows "threshold_loop errors timeframe_size threshold ks \<in> {Inr True, Inl IndexError}"
  using assms
proof (induction ks)
  case (Cons k ks)
  then show ?case
    by (cases "length errors \<le> k + threshold") (auto simp: py_nth_def)
qed simp

text \<open>
  The test for too many errors never says no once it has counted that many.  Below the
  threshold it is false; at the threshold it reads one past the end; above, it is true or
  reads past the end, for the last window is never complete.  A threshold of 0, which the
  configuration allows, is refused as a step of a range.
\<close>

theorem threshold_outcomes:
  "(length errors < threshold \<longrightarrow> determine_smtp_error_threshold_reached errors w threshold = Inr False) \<and>
   (0 < threshold \<longrightarrow> length errors = threshold \<longrightarrow> determine_smtp_error_threshold_reached errors w threshold = Inl IndexError) \<and>
   (0 < threshold \<longrightarrow> threshold \<le> length errors \<longrightarrow>
      determine_smtp_error_threshold_reached errors w threshold \<in> {Inr True, Inl IndexError}) \<and>
   (errors \<noteq> [] \<longrightarrow> determine_smtp_error_threshold_reached errors w 0 = Inl ValueError)"
proof (intro conjI impI)
  assume t: "0 < threshold" "threshold \<le> length errors"
  then have "0 < length errors" by linarith
  from threshold_loop_never_False [OF range_step_last [OF t(1) this]]
  have "threshold_loop errors w threshold (range_step (length errors) threshold) \<in> {Inr True, Inl IndexError}" .
  with t show "determine_smtp_error_threshold_reached errors w threshold \<in> {Inr True, Inl IndexError}"
    by (auto simp: determine_smtp_error_threshold_reached_def py_nth_def)
qed (auto simp: determine_smtp_error_threshold_reached_def py_nth_def)

theorem threshold_outcomes_witness:
  "determine_smtp_error_threshold_reached [(SMTPOtherError, 3)] 5 2 = Inr False \<and>
   determine_smtp_error_threshold_reached [(SMTPOtherError, 3), (SMTPOtherError, 4)] 5 2 = Inl IndexError \<and>
   determine_smtp_error_threshold_reached [(SMTPOtherError, 3)] 5 0 = Inl ValueError"
  using threshold_outcomes [of "[(SMTPOtherError, 3)]" 2 5] threshold_outcomes [of "[(SMTPOtherError, 3), (SMTPOtherError, 4)]" 2 5]
  by simp

section \<open>Cleaning a batch\<close>

definition proper :: "streamed_event \<Rightarrow> bool" where
  "proper ev \<longleftrightarrow> (\<forall>k \<in> {''recipient'', ''sender'', ''body_kwargs''}. dict_get (payload ev) k \<noteq> None)"

lemma parse_proper: "(\<exists>x. parse_user_email_payload ev = Inr x) \<longleftrightarrow> proper ev"
  by (auto simp: parse_user_email_payload_def proper_def py_lookup_def bindE_def split: option.splits)

lemma clean_step [simp]:
  "proper ev \<Longrightarrow> clean_loop i (ev # copy) (events, buffer) = clean_loop (Suc i) copy (events, buffer)"
  "\<not> proper ev \<Longrightarrow> clean_loop i (ev # copy) (events, buffer) =
     bindE (py_nth events i) (\<lambda>popped. clean_loop (Suc i) copy (take i events @ drop (Suc i) events, buffer @ [popped]))"
  using parse_proper [of ev] by (auto split: sum.splits)

declare clean_loop.simps(2) [simp del]

lemma clean_proper: "list_all proper xs \<Longrightarrow> clean_loop i (xs @ copy) st = clean_loop (i + length xs) copy st"
  by (induction xs arbitrary: i; cases st) auto

text \<open>
  C20.  The cleaning of a batch takes out an improper event as long as it is the only one.  With a
  second one, the index is one too far: the event after it is taken out, though it is proper,
  and the improper one stays; if there is none after it, the cleaning fails.
\<close>

theorem cleaning_outcomes:
  assumes "list_all proper xs" and "list_all proper ys" and "list_all proper zs"
    and "\<not> proper bad1" and "\<not> proper bad2" and "proper good"
  shows "clean_user_email_payloads xs buffer = Inr (xs, buffer) \<and>
    clean_user_email_payloads (xs @ bad1 # ys) buffer = Inr (xs @ ys, buffer @ [bad1]) \<and>
    clean_user_email_payloads (xs @ bad1 # ys @ bad2 # good # zs) buffer = Inr (xs @ ys @ bad2 # zs, buffer @ [bad1, good]) \<and>
    clean_user_email_payloads (xs @ bad1 # ys @ [bad2]) buffer = Inl IndexError"
proof -
  have all: "clean_loop i ws st = Inr st" if "list_all proper ws" for i ws st
    using clean_proper [OF that, of i "[]" st] by simp
  have first: "clean_user_email_payloads (xs @ bad1 # rest) buffer = clean_loop (Suc (length xs)) rest (xs @ rest, buffer @ [bad1])" for rest
    using assms(1,4) by (simp add: clean_user_email_payloads_def clean_proper py_nth_def)
  have later: "clean_loop (Suc (length xs)) (ys @ rest) st = clean_loop (Suc (length xs + length ys)) rest st" for rest st
    using clean_proper [OF assms(2)] by simp
  have nth: "(xs @ ys @ bad2 # good # zs) ! Suc (length xs + length ys) = good"
    by (metis add_Suc_right append.assoc length_append nth_append_length nth_append_length_plus append_Cons append_Nil nth_Cons_Suc nth_Cons_0 add.commute plus_1_eq_Suc)
  show ?thesis
  proof (intro conjI)
    show "clean_user_email_payloads (xs @ bad1 # ys @ bad2 # good # zs) buffer = Inr (xs @ ys @ bad2 # zs, buffer @ [bad1, good])"
      using assms nth all [OF assms(3)] by (simp add: first later py_nth_def)
    show "clean_user_email_payloads xs buffer = Inr (xs, buffer)"
      using all [OF assms(1)] by (simp add: clean_user_email_payloads_def)
  qed (use assms all in \<open>simp_all add: first later py_nth_def\<close>)
qed

definition demo_email :: "string list \<Rightarrow> streamed_event" where
  "demo_email ks =
     \<lparr>event_name = USER_REGISTRATION_EMAIL, payload = map (\<lambda>k. (k, PStr [])) ks, side_effects = no_side_effects, event_id = 7\<rparr>"

theorem cleaning_outcomes_witness:
  "clean_user_email_payloads [demo_email [], demo_email [''sender''], demo_email [''recipient'', ''sender'', ''body_kwargs'']] [] =
     Inr ([demo_email [''sender'']], [demo_email [], demo_email [''recipient'', ''sender'', ''body_kwargs'']])"
proof -
  have "\<not> proper (demo_email [])" "\<not> proper (demo_email [''sender''])" "proper (demo_email [''recipient'', ''sender'', ''body_kwargs''])"
    by (auto simp: proper_def demo_email_def dict_get_def)
  from cleaning_outcomes [of "[]" "[]" "[]", OF _ _ _ this, of "[]"] show ?thesis by simp
qed

section \<open>Sending never completes\<close>

lemma send_step_cases:
  assumes "i < length events" and "length errors < max 1 (MAXIMUM_SMTP_REFRESHES env)"
  shows "(\<exists>e s'. send_step env events attempts (i, sent, errors) s = (Inl e, s')) \<or>
    (\<exists>sent' errors' s'. (send_step env events attempts (i, sent, errors) s = (Inr (Suc i, sent', errors), s') \<and> Suc i < length events) \<or>
      (send_step env events attempts (i, sent, errors) s = (Inr (i, sent, errors'), s') \<and>
         length errors' = Suc (length errors) \<and> length errors' < max 1 (MAXIMUM_SMTP_REFRESHES env)))"
proof (cases "send_email env (construct_email_message (events ! i)) attempts s")
  case (Pair r s1)
  show ?thesis
  proof (cases r)
    case (Inl e)
    with Pair assms show ?thesis by (simp add: send_step_def py_nth_def)
  next
    case (Inr x)
    show ?thesis
    proof (cases x)
      case None
      with Inr Pair assms show ?thesis
        by (cases "Suc i < length events") (auto simp: send_step_def py_nth_def)
    next
      case (Some err)
      let ?n = "MAXIMUM_SMTP_REFRESHES env"
      have "determine_smtp_error_threshold_reached (errors @ [(err, t)]) (SMTP_NETWORK_ERROR_WINDOW env) ?n =
          (if Suc (length errors) < ?n then Inr False else if ?n = 0 then Inl ValueError else Inl IndexError)" for t
        using assms(2) by (auto simp: determine_smtp_error_threshold_reached_def py_nth_def)
      with Inr Some Pair assms show ?thesis
        by (auto simp: send_step_def py_nth_def thenM_def bindM_def split: prod.splits sum.splits)
    qed
  qed
qed

text \<open>
  C19.  Sending a batch always ends, and always with an exception, whatever the mail server does,
  unless the batch is empty: an error either goes into the count, which ends at the threshold, or
  escapes, and the last mail that goes through makes the loop read past the end of the batch.
\<close>

theorem sending_never_completes:
  assumes "events \<noteq> []" and "length errors < max 1 (MAXIMUM_SMTP_REFRESHES env)"
  shows "\<exists>e s'. batch_send_emails env events attempts errors s = Some (Inl e, s')"
proof -
  have "\<exists>e s'. send_loop env events attempts (i, sent, errs) s = Some (Inl e, s')"
    if "i < length events" "length errs < max 1 (MAXIMUM_SMTP_REFRESHES env)" for i sent errs s
    using that
  proof (induction "(length events - i) + (max 1 (MAXIMUM_SMTP_REFRESHES env) - length errs)" arbitrary: i sent errs s rule: less_induct)
    case less
    from send_step_cases [OF less.prems, of attempts sent s] less.prems less.hyps
    show ?case by (subst send_loop.simps) (auto; fastforce)
  qed
  with assms show ?thesis by (simp add: batch_send_emails_def)
qed

text \<open>A mail server that takes every message, counting them.\<close>

definition eager_env :: "nat \<Rightarrow> nat email_env" where
  "eager_env n =
     \<lparr>em_worker = \<lparr>wk_redis = (\<lambda>_ _. pure []), wk_dumps = demo_dumps, wk_sleep = (\<lambda>_. pure ()), wk_policy = sample_policy,
        wk_format = format_template,
        wk_db = \<lparr>execute = (\<lambda>_. pure []), copy_in = (\<lambda>_ _. pure ()), executemany = (\<lambda>_ _. pure ()), begin_transaction = pure (),
          commit_transaction = pure (), abort_transaction = pure (), rollback = pure ()\<rparr>,
        wk_now = ''now'', wk_uuid = ''ab'', wk_fromiso = Inr\<rparr>,
      em_send = (\<lambda>_ s. (Inr (), Suc s)), em_connect = pure (), em_clock = pure 0, em_commit = pure (),
      SMTP_NETWORK_ERROR_WINDOW = 60, MAXIMUM_SMTP_REFRESHES = n\<rparr>"

theorem sending_never_completes_witness:
  "\<exists>e s'. batch_send_emails (eager_env 3) [demo_email [], demo_email []] 2 [(SMTPOtherError, 1)] 0 = Some (Inl e, s')"
  using sending_never_completes [of "[demo_email [], demo_email []]" "[(SMTPOtherError, 1)]" "eager_env 3" 2 0]
  by (simp add: eager_env_def)

lemma send_email_ok: "0 < attempts \<Longrightarrow> em_send env None s = (Inr (), s') \<Longrightarrow> send_email env (construct_email_message ev) attempts s = (Inr None, s')"
proof -
  assume a: "0 < attempts" "em_send env None s = (Inr (), s')"
  then have "attempt_range attempts = 1 # [2 ..< Suc (nat attempts)]"
    unfolding attempt_range_def by (subst upt_conv_Cons) (simp_all add: numeral_2_eq_2)
  with a show ?thesis by (simp add: send_email_def construct_email_message_def)
qed

text \<open>
  A mail server that takes every message gets one for every event of the batch, and then
  the sending fails with an \<open>IndexError\<close>: the mails are out while the batch counts as failed.
\<close>

theorem all_sent_then_failed:
  assumes "0 < attempts" and "events \<noteq> []" and "\<And>s. em_send env None s = (Inr (), sent_one s)"
  shows "batch_send_emails env events attempts errors s = Some (Inl IndexError, (sent_one ^^ length events) s)"
proof -
  have "send_loop env events attempts (i, sent, errors) s = Some (Inl IndexError, (sent_one ^^ n) s)"
    if "i < length events" "n = length events - i" for i sent s n
    using that
  proof (induction n arbitrary: i sent s)
    case (Suc n)
    note ok = send_email_ok [OF assms(1), of env s "sent_one s", OF assms(3)]
    show ?case
    proof (cases "Suc i < length events")
      case True
      from Suc.prems(2) have "n = length events - Suc i" by simp
      from Suc.IH [OF True this, of "sent @ [events ! Suc i]" "sent_one s"] Suc.prems(1) True ok show ?thesis
        by (subst send_loop.simps) (simp add: send_step_def py_nth_def funpow_swap1)
    next
      case False
      with Suc.prems have "n = 0" by simp
      with False Suc.prems(1) ok show ?thesis
        by (subst send_loop.simps) (simp add: send_step_def py_nth_def)
    qed
  qed simp
  with assms(2) show ?thesis by (simp add: batch_send_emails_def)
qed

theorem all_sent_then_failed_witness:
  "batch_send_emails (eager_env 3) [demo_email [], demo_email [], demo_email []] 2 [] 10 = Some (Inl IndexError, 13)"
  using all_sent_then_failed [of 2 "[demo_email [], demo_email [], demo_email []]" "eager_env 3" Suc "[]" 10]
  by (simp add: eager_env_def)

text \<open>
  A turn of the dispatcher always ends.  It ends without an exception only if no event of the
  batch is fresh, or none of the fresh ones has a proper payload; it leaves the errors as they
  were.  So no batch with a mail to send is ever acknowledged.
\<close>

theorem email_turn_fails:
  assumes "length errors < max 1 (MAXIMUM_SMTP_REFRESHES env)"
  shows "\<exists>r s'. email_turn env stream grp dlq batch errors s = Some (r, s') \<and>
    (\<forall>errors'. r = Inr errors' \<longrightarrow> errors' = errors \<and>
       (\<exists>fresh improper s1. gather_emails env stream grp batch s = (Inr fresh, s1) \<and>
          clean_user_email_payloads fresh [] = Inr ([], improper)))"
proof -
  have failed: "\<exists>e' s'. leave_connection env (Inl e, s1) = (Inl e', s') " for e :: exn and s1
    by (auto simp: leave_connection_def thenM_def bindM_def split: prod.split sum.split)
  have kept: "r = Inr x \<Longrightarrow> x = y" if "leave_connection env (Inr y, s1) = (r, s2)" for x y :: "(exn \<times> int) list" and r s1 s2
    using that by (auto simp: leave_connection_def thenM_def bindM_def split: prod.splits sum.splits)
  show ?thesis
  proof (cases "gather_emails env stream grp batch s")
    case (Pair r s1)
    show ?thesis
    proof (cases r)
      case (Inl e)
      with Pair failed [of e s1] show ?thesis by (auto simp: email_turn_def)
    next
      case (Inr fresh)
      show ?thesis
      proof (cases fresh)
        case Nil
        with Inr Pair kept [of errors s1] show ?thesis
          by (cases "leave_connection env (Inr errors, s1)") (auto simp: email_turn_def clean_user_email_payloads_def)
      next
        case (Cons a as)
        show ?thesis
        proof (cases "clean_user_email_payloads fresh []")
          case (Inl e)
          with Cons \<open>r = Inr fresh\<close> Pair failed [of e s1] show ?thesis by (auto simp: email_turn_def)
        next
          case cleaned: (Inr p)
          obtain k improper where p: "p = (k, improper)" by (cases p)
          show ?thesis
          proof (cases "thenM (wk_declare_dead (em_worker env) k stream grp dlq) (em_connect env) s1")
            case dead: (Pair r2 s2)
            show ?thesis
            proof (cases r2)
              case (Inl e)
              with dead Cons \<open>r = Inr fresh\<close> Pair cleaned p failed [of e s2] show ?thesis by (auto simp: email_turn_def)
            next
              case connected: (Inr u)
              show ?thesis
              proof (cases "k = []")
                case True
                then have "batch_send_emails env k attempts errors s2 = Some (Inr ([], errors), s2)" for attempts
                  by (simp add: batch_send_emails_def send_loop.simps)
                with dead connected Cons \<open>r = Inr fresh\<close> Pair cleaned p True show ?thesis
                  by (auto simp: email_turn_def leave_connection_def thenM_def bindM_def split: prod.splits sum.splits)
              next
                case False
                with sending_never_completes [OF False assms] obtain e s3 where
                  "batch_send_emails env k (MAX_RETRIES (wk_policy (em_worker env))) errors s2 = Some (Inl e, s3)" by blast
                with dead connected Cons \<open>r = Inr fresh\<close> Pair cleaned p failed [of e s3] show ?thesis
                  by (auto simp: email_turn_def)
              qed
            qed
          qed
        qed
      qed
    qed
  qed
qed

theorem email_turn_fails_witness:
  "\<exists>r s'. email_turn (eager_env 3) USER_EMAILS ''workers'' USER_EMAILS [demo_email []] [] 0 = Some (r, s')"
  using email_turn_fails [of "[]" "eager_env 3" USER_EMAILS "''workers''" USER_EMAILS "[demo_email []]" 0]
  by (auto simp: eager_env_def)

text \<open>
  The stream of the dead letters of every email worker is the stream it reads: what is declared
  dead comes back to it.
\<close>

theorem dead_emails_return:
  "derive_worker_args ev = Inr input \<Longrightarrow> gi_dlq_stream input = gi_stream input"
  by (cases ev) (auto simp: derive_worker_args_def py_lookup_def)

end
