(* ===== verification/Tenjin_Config.thy ===== *)
theory Tenjin_Config
  imports Tenjin_Cache
begin

text \<open>
  The configuration of the servers: what the settings of the cache, the keys and the tokens must
  satisfy (\<^verbatim>\<open>config/sub_config.py\<close> of both servers), the addresses of the databases and the sizes
  of their pools (\<^verbatim>\<open>auxillary/mixins\<close>), and the directories of the keys.  It ends with what an
  accepted configuration of the cache means for the requests that wait for a leader.
\<close>

section \<open>Numbers of a configuration\<close>

text \<open>A value of a TOML file; \<open>TFloat m d\<close> is the number \<open>m / 10 ^ d\<close>.\<close>

datatype toml = TInt int | TFloat int nat | TStr string | TTable "(string \<times> toml) list"

type_synonym toml_table = "(string \<times> toml) list"

text \<open>What a field of type \<open>int\<close> takes: a float only if it is whole, a string only if it reads as a number.\<close>

fun int_value :: "toml \<Rightarrow> exn + int" where
  "int_value (TInt n) = Inr n"
| "int_value (TFloat m d) = (if m mod 10 ^ d = 0 then Inr (m div 10 ^ d) else Inl ValidationError)"
| "int_value (TStr s) = (case py_int s of Inr n \<Rightarrow> Inr n | Inl _ \<Rightarrow> Inl ValidationError)"
| "int_value (TTable t) = Inl ValidationError"

fun str_value :: "toml \<Rightarrow> exn + string" where
  "str_value (TStr s) = Inr s"
| "str_value _ = Inl ValidationError"

fun table_value :: "toml \<Rightarrow> exn + toml_table" where
  "table_value (TTable t) = Inr t"
| "table_value _ = Inl ValidationError"

definition required :: "toml_table \<Rightarrow> string \<Rightarrow> exn + toml" where
  "required t name = (case map_of t name of None \<Rightarrow> Inl ValidationError | Some v \<Rightarrow> Inr v)"

text \<open>\<open>Annotated[int, Field(ge=lo)]\<close>.\<close>

definition int_field :: "int \<Rightarrow> toml_table \<Rightarrow> string \<Rightarrow> exn + int" where
  "int_field lo t name =
     bindE (required t name) (\<lambda>v. bindE (int_value v) (\<lambda>n. if lo \<le> n then Inr n else Inl ValidationError))"

definition port_field :: "toml_table \<Rightarrow> string \<Rightarrow> exn + int" where
  "port_field t name = bindE (int_field 1024 t name) (\<lambda>n. if n \<le> 65535 then Inr n else Inl ValidationError)"

definition str_field :: "toml_table \<Rightarrow> string \<Rightarrow> exn + string" where
  "str_field t name = bindE (required t name) str_value"

lemma int_field_Inr:
  "int_field lo t name = Inr n \<longleftrightarrow> (\<exists>v. map_of t name = Some v \<and> int_value v = Inr n \<and> lo \<le> n)"
  by (auto simp: int_field_def required_def bindE_eq_Inr_iff split: option.splits)

lemma fraction_refused: "m mod 10 ^ d \<noteq> 0 \<Longrightarrow> map_of t name = Some (TFloat m d) \<Longrightarrow> int_field lo t name = Inl ValidationError"
  by (simp add: int_field_def required_def bindE_def)

section \<open>The cache\<close>

record cache_config =
  CC_TTL_CAP :: int
  CC_TTL_PROMOTION :: int
  CC_TTL_STRONGEST :: int
  CC_TTL_STRONG :: int
  CC_TTL_WEAK :: int
  CC_TTL_EPHEMERAL :: int
  CC_TTL_OPERATIONAL_LOCK :: int
  CC_TTL_FETCH_LOCK :: int
  CC_FETCH_WAITING_INITIAL_INTERVAL :: int
  CC_FETCH_WAITING_JITTER :: int
  CC_FETCH_WAITING_EXPONENT :: int
  CC_FETCH_WAITING_MAX_INTERVALS :: int
  CC_FETCH_MAX_RETRIES :: int
  CC_NF_SENTINEL_KEY :: string
  CC_NF_SENTINEL_VALUE :: string

definition validate_ttl_times :: "cache_config \<Rightarrow> exn + cache_config" where
  "validate_ttl_times c =
     (let ts = [CC_TTL_CAP c, CC_TTL_STRONGEST c, CC_TTL_STRONG c, CC_TTL_WEAK c, CC_TTL_EPHEMERAL c, CC_TTL_PROMOTION c] in
      if rev (sort ts) \<noteq> ts then Inl ValueError else Inr c)"

text \<open>The seconds of one wait, for the number drawn between 1 and the jitter.\<close>

definition fetch_waiting_time :: "cache_config \<Rightarrow> int \<Rightarrow> int" where
  "fetch_waiting_time c r = CC_FETCH_WAITING_INITIAL_INTERVAL c * r ^ nat (CC_FETCH_WAITING_EXPONENT c)"

definition validate_fetch_lock_times :: "cache_config \<Rightarrow> exn + cache_config" where
  "validate_fetch_lock_times c =
     (let max_waiting_time =
        sum_list (map (\<lambda>_. fetch_waiting_time c (CC_FETCH_WAITING_JITTER c)) [0 ..< nat (CC_FETCH_WAITING_MAX_INTERVALS c)]) in
      if CC_FETCH_WAITING_INITIAL_INTERVAL c < CC_FETCH_WAITING_JITTER c then Inl ValueError
      else if CC_TTL_FETCH_LOCK c < max_waiting_time then Inl ValueError
      else Inr c)"

definition cache_fields :: "toml_table \<Rightarrow> exn + cache_config" where
  "cache_fields t =
     bindE (int_field 0 t ''TTL_CAP'') (\<lambda>cap.
     bindE (int_field 0 t ''TTL_PROMOTION'') (\<lambda>promotion.
     bindE (int_field 0 t ''TTL_STRONGEST'') (\<lambda>strongest.
     bindE (int_field 0 t ''TTL_STRONG'') (\<lambda>strong.
     bindE (int_field 0 t ''TTL_WEAK'') (\<lambda>weak.
     bindE (int_field 0 t ''TTL_EPHEMERAL'') (\<lambda>ephemeral.
     bindE (int_field 0 t ''TTL_OPERATIONAL_LOCK'') (\<lambda>operational.
     bindE (int_field 0 t ''TTL_FETCH_LOCK'') (\<lambda>lock.
     bindE (int_field 1 t ''FETCH_WAITING_INITIAL_INTERVAL'') (\<lambda>initial.
     bindE (int_field 1 t ''FETCH_WAITING_JITTER'') (\<lambda>jitter.
     bindE (int_field 2 t ''FETCH_WAITING_EXPONENT'') (\<lambda>exponent.
     bindE (int_field 1 t ''FETCH_WAITING_MAX_INTERVALS'') (\<lambda>intervals.
     bindE (int_field 0 t ''FETCH_MAX_RETRIES'') (\<lambda>retries.
     bindE (str_field t ''NF_SENTINEL_KEY'') (\<lambda>nf_key.
     bindE (str_field t ''NF_SENTINEL_VALUE'') (\<lambda>nf_value.
       Inr \<lparr>CC_TTL_CAP = cap, CC_TTL_PROMOTION = promotion, CC_TTL_STRONGEST = strongest, CC_TTL_STRONG = strong,
         CC_TTL_WEAK = weak, CC_TTL_EPHEMERAL = ephemeral, CC_TTL_OPERATIONAL_LOCK = operational, CC_TTL_FETCH_LOCK = lock,
         CC_FETCH_WAITING_INITIAL_INTERVAL = initial, CC_FETCH_WAITING_JITTER = jitter, CC_FETCH_WAITING_EXPONENT = exponent,
         CC_FETCH_WAITING_MAX_INTERVALS = intervals, CC_FETCH_MAX_RETRIES = retries,
         CC_NF_SENTINEL_KEY = nf_key, CC_NF_SENTINEL_VALUE = nf_value\<rparr>)))))))))))))))"

definition CacheConfig :: "toml_table \<Rightarrow> exn + cache_config" where
  "CacheConfig t = bindE (cache_fields t) (\<lambda>c. bindE (validate_ttl_times c) validate_fetch_lock_times)"

text \<open>
  The manager made of a configuration: \<open>sleep\<close> takes seconds, \<open>draw i\<close> is the number drawn for
  the wait with \<open>i\<close> waits left.
\<close>

definition CacheManager ::
  "'s redis \<Rightarrow> bool \<Rightarrow> (int \<Rightarrow> ('s, unit) py) \<Rightarrow> (nat \<Rightarrow> int) \<Rightarrow> string \<Rightarrow> cache_config \<Rightarrow> 's cache_manager" where
  "CacheManager redis decode sleep draw now c =
     \<lparr>cm_redis = redis, cm_decode = decode, cm_sleep = (\<lambda>i. sleep (fetch_waiting_time c (draw i))), cm_now = now,
      TTL_CAP = CC_TTL_CAP c, TTL_PROMOTION = CC_TTL_PROMOTION c, TTL_STRONGEST = CC_TTL_STRONGEST c,
      TTL_STRONG = CC_TTL_STRONG c, TTL_WEAK = CC_TTL_WEAK c, TTL_EPHEMERAL = CC_TTL_EPHEMERAL c,
      TTL_FETCH_LOCK = CC_TTL_FETCH_LOCK c, FETCH_WAITING_MAX_INTERVALS = nat (CC_FETCH_WAITING_MAX_INTERVALS c),
      FETCH_MAX_RETRIES = nat (CC_FETCH_MAX_RETRIES c), NF_SENTINEL_KEY = CC_NF_SENTINEL_KEY c,
      NF_SENTINEL_VALUE = CC_NF_SENTINEL_VALUE c\<rparr>"

section \<open>Keys, business rules and tokens\<close>

definition verify_b64_compatible :: "int \<Rightarrow> exn + int" where
  "verify_b64_compatible arg = (if arg mod 4 \<noteq> 0 then Inl ValueError else Inr arg)"

text \<open>The three spans are kept in seconds.\<close>

record business_config =
  ACCOUNT_RECOVERY_PERIOD :: int
  PASSWORD_TOKEN_MAX_AGE :: int
  ACCOUNT_AUDIT_THRESHOLD :: int
  PAGINATION_SIZE :: int
  PAGINATION_CURSOR_LENGTH :: int

definition any_int :: "toml_table \<Rightarrow> string \<Rightarrow> exn + int" where
  "any_int t name = bindE (required t name) int_value"

definition BusinessConfig :: "toml_table \<Rightarrow> exn + business_config" where
  "BusinessConfig t =
     bindE (any_int t ''ACCOUNT_RECOVERY_PERIOD'') (\<lambda>recovery.
     bindE (any_int t ''PASSWORD_TOKEN_MAX_AGE'') (\<lambda>age.
     bindE (any_int t ''ACCOUNT_AUDIT_THRESHOLD'') (\<lambda>audit.
     bindE (int_field 1 t ''PAGINATION_SIZE'') (\<lambda>size.
     bindE (bindE (int_field 4 t ''PAGINATION_CURSOR_LENGTH'') verify_b64_compatible) (\<lambda>len.
       Inr \<lparr>ACCOUNT_RECOVERY_PERIOD = 86400 * recovery, PASSWORD_TOKEN_MAX_AGE = 60 * age,
            ACCOUNT_AUDIT_THRESHOLD = 86400 * audit, PAGINATION_SIZE = size, PAGINATION_CURSOR_LENGTH = len\<rparr>)))))"

text \<open>\<open>supported\<close> are the algorithms the package \<open>jwt\<close> offers; the names are in upper case already.\<close>

definition validate_algorithms :: "string list \<Rightarrow> string list \<Rightarrow> exn + string list" where
  "validate_algorithms supported allowed = (if set allowed \<subseteq> set supported then Inr allowed else Inl ValueError)"

record token_config =
  REFRESH_LIFETIME :: int
  ACCESS_LIFETIME :: int
  LEEWAY :: int
  ANNOUNCEMENT_DURATION :: int
  ALG :: string
  MAX_TOKENS_PER_FAMILY :: int

definition verify_time_values :: "token_config \<Rightarrow> exn + token_config" where
  "verify_time_values c =
     (if REFRESH_LIFETIME c < ACCESS_LIFETIME c then Inl ValueError
      else if ACCESS_LIFETIME c < LEEWAY c then Inl ValueError
      else Inr c)"

definition TokenManagerConfigModel :: "toml_table \<Rightarrow> exn + token_config" where
  "TokenManagerConfigModel t =
     bindE (int_field 1 t ''REFRESH_LIFETIME'') (\<lambda>refresh.
     bindE (int_field 1 t ''ACCESS_LIFETIME'') (\<lambda>access.
     bindE (int_field 0 t ''LEEWAY'') (\<lambda>leeway.
     bindE (int_field 1 t ''ANNOUNCEMENT_DURATION'') (\<lambda>announcement.
     bindE (if map_of t ''ALG'' = None then Inr ''ES256'' else str_field t ''ALG'') (\<lambda>alg.
     bindE (int_field 1 t ''MAX_TOKENS_PER_FAMILY'') (\<lambda>tokens.
       verify_time_values
         \<lparr>REFRESH_LIFETIME = refresh, ACCESS_LIFETIME = access, LEEWAY = leeway, ANNOUNCEMENT_DURATION = announcement,
          ALG = alg, MAX_TOKENS_PER_FAMILY = tokens\<rparr>))))))"

definition token_constructor_kwargs :: "token_config \<Rightarrow> (string \<times> toml) list" where
  "token_constructor_kwargs c =
     [(''refresh_lifetime'', TInt (REFRESH_LIFETIME c)), (''access_lifetime'', TInt (ACCESS_LIFETIME c)),
      (''alg'', TStr (ALG c)), (''typ'', TStr ''jwt''), (''leeway'', TInt (LEEWAY c)),
      (''max_tokens_per_fid'', TInt (MAX_TOKENS_PER_FAMILY c)), (''announcement_duration'', TInt (ANNOUNCEMENT_DURATION c))]"

record key_config =
  MAX_VALID_KEYS :: int
  KEY_ROTATION_COOLDOWN :: int

definition KeyConfigModel :: "toml_table \<Rightarrow> exn + key_config" where
  "KeyConfigModel t =
     bindE (int_field 1 t ''MAX_VALID_KEYS'') (\<lambda>valid.
     bindE (int_field 0 t ''KEY_ROTATION_COOLDOWN'') (\<lambda>cooldown.
       Inr \<lparr>MAX_VALID_KEYS = valid, KEY_ROTATION_COOLDOWN = cooldown\<rparr>))"

section \<open>Paths\<close>

record py_path =
  path_absolute :: bool
  path_parts :: "string list"

text \<open>\<open>root / p\<close>: an absolute path on the right replaces the one on the left.\<close>

definition path_join :: "py_path \<Rightarrow> py_path \<Rightarrow> py_path" where
  "path_join root p =
     (if path_absolute p then p
      else \<lparr>path_absolute = path_absolute root, path_parts = path_parts root @ path_parts p\<rparr>)"

definition instance_path :: "py_path \<Rightarrow> py_path" where
  "instance_path wd = path_join wd \<lparr>path_absolute = False, path_parts = [''instance'']\<rparr>"

definition static_path :: "py_path \<Rightarrow> py_path" where
  "static_path wd = path_join wd \<lparr>path_absolute = False, path_parts = [''static'']\<rparr>"

text \<open>\<open>^.+\.json$\<close>: the dot does not match a newline, the dollar also matches before a final one.\<close>

definition jwks_name_ok :: "string \<Rightarrow> bool" where
  "jwks_name_ok s =
     (let body = if s \<noteq> [] \<and> last s = CHR 0x0A then butlast s else s; stem = take (length body - 5) body in
      5 < length body \<and> drop (length body - 5) body = ''.json'' \<and> CHR 0x0A \<notin> set stem)"

definition parse_jwks_path :: "string \<Rightarrow> exn + py_path" where
  "parse_jwks_path s =
     (if \<not> jwks_name_ok s then Inl ValueError
      else Inr \<lparr>path_absolute = hd s = CHR ''/'', path_parts = filter (\<lambda>p. p \<noteq> []) (split_on (CHR ''/'') s)\<rparr>)"

text \<open>The directories and the files there are, by the parts of their absolute paths.\<close>

record file_tree =
  tree_dirs :: "string list list"
  tree_files :: "string list list"

definition prefixes_of :: "string list \<Rightarrow> string list list" where
  "prefixes_of ps = map (\<lambda>n. take n ps) [1 ..< Suc (length ps)]"

definition mkdir_parents :: "string list \<Rightarrow> (file_tree, unit) py" where
  "mkdir_parents ps ft =
     (if list_ex (\<lambda>p. p \<in> set (tree_files ft)) (prefixes_of ps) then (Inl OSError, ft)
      else (Inr (), ft\<lparr>tree_dirs := tree_dirs ft @ filter (\<lambda>p. p \<notin> set (tree_dirs ft)) (prefixes_of ps)\<rparr>))"

definition touch :: "string list \<Rightarrow> (file_tree, unit) py" where
  "touch ps ft =
     (if ps \<in> set (tree_dirs ft) \<or> ps \<in> set (tree_files ft) then (Inr (), ft)
      else (Inr (), ft\<lparr>tree_files := tree_files ft @ [ps]\<rparr>))"

text \<open>The value is what the attribute is set to.\<close>

definition resolve_path_attr :: "py_path \<Rightarrow> py_path \<Rightarrow> bool \<Rightarrow> (file_tree, py_path) py" where
  "resolve_path_attr attr rootpath is_file =
     (let p = path_join rootpath attr in
      if \<not> path_absolute p then raise ValueError
      else thenM (if \<not> is_file then mkdir_parents (path_parts p)
                  else thenM (mkdir_parents (butlast (path_parts p))) (touch (path_parts p)))
             (pure p))"

section \<open>Databases and Redis\<close>

record postgres_config =
  POSTGRES_HOST :: string
  POSTGRES_PORT :: int
  POSTGRES_DATABASE :: string

definition PostgresConfig :: "toml_table \<Rightarrow> exn + postgres_config" where
  "PostgresConfig t =
     bindE (str_field t ''POSTGRES_HOST'') (\<lambda>h. bindE (port_field t ''POSTGRES_PORT'') (\<lambda>p.
     bindE (str_field t ''POSTGRES_DATABASE'') (\<lambda>d. Inr \<lparr>POSTGRES_HOST = h, POSTGRES_PORT = p, POSTGRES_DATABASE = d\<rparr>)))"

definition construct_database_uri :: "string \<Rightarrow> string \<Rightarrow> string \<Rightarrow> int \<Rightarrow> string \<Rightarrow> string" where
  "construct_database_uri username password host port database =
     ''postgresql+psycopg2://'' @ username @ '':'' @ password @ ''@'' @ host @ '':'' @ str_of_int port @ ''/'' @ database"

definition construct_sqlalchemy_uri :: "string \<Rightarrow> string \<Rightarrow> string \<Rightarrow> int \<Rightarrow> string \<Rightarrow> string" where
  "construct_sqlalchemy_uri username password host port database =
     ''postgresql+psycopg://'' @ username @ '':'' @ password @ ''@'' @ host @ '':'' @ str_of_int port @ ''/'' @ database"

definition derive_sqlalchemy_uri :: "postgres_config \<Rightarrow> string \<Rightarrow> string \<Rightarrow> string" where
  "derive_sqlalchemy_uri c username password =
     construct_database_uri username password (POSTGRES_HOST c) (POSTGRES_PORT c) (POSTGRES_DATABASE c)"

record pool_config =
  CONNECTION_POOL_MIN_SIZE :: int
  CONNECTION_POOL_MAX_SIZE :: int
  CONNECTION_TIMEOUT :: int
  CONNECTION_MAX_LIFETIME :: int
  CONNECTION_MAX_IDLE :: int
  RECONNECT_TIMEOUT :: int
  NUM_WORKERS :: int

definition default_field :: "toml_table \<Rightarrow> string \<Rightarrow> int \<Rightarrow> exn + int" where
  "default_field t name dflt = (if map_of t name = None then Inr dflt else int_field 1 t name)"

definition check_connection_pool_sizing :: "pool_config \<Rightarrow> exn + pool_config" where
  "check_connection_pool_sizing c =
     (if CONNECTION_POOL_MAX_SIZE c < CONNECTION_POOL_MIN_SIZE c then Inl ValueError else Inr c)"

definition ConnectionPoolConfig :: "int \<Rightarrow> toml_table \<Rightarrow> exn + pool_config" where
  "ConnectionPoolConfig cpus t =
     bindE (default_field t ''CONNECTION_POOL_MIN_SIZE'' cpus) (\<lambda>mn.
     bindE (default_field t ''CONNECTION_POOL_MAX_SIZE'' (cpus * 2)) (\<lambda>mx.
     bindE (default_field t ''CONNECTION_TIMEOUT'' 30) (\<lambda>timeout.
     bindE (default_field t ''CONNECTION_MAX_LIFETIME'' (60 * 60)) (\<lambda>lifetime.
     bindE (default_field t ''CONNECTION_MAX_IDLE'' (60 * 10)) (\<lambda>idle.
     bindE (default_field t ''RECONNECT_TIMEOUT'' (60 * 5)) (\<lambda>reconnect.
     bindE (default_field t ''NUM_WORKERS'' 3) (\<lambda>workers.
       check_connection_pool_sizing
         \<lparr>CONNECTION_POOL_MIN_SIZE = mn, CONNECTION_POOL_MAX_SIZE = mx, CONNECTION_TIMEOUT = timeout,
          CONNECTION_MAX_LIFETIME = lifetime, CONNECTION_MAX_IDLE = idle, RECONNECT_TIMEOUT = reconnect,
          NUM_WORKERS = workers\<rparr>)))))))"

definition emit_connection_pool_constructor_kwargs :: "pool_config \<Rightarrow> (string \<times> int) list" where
  "emit_connection_pool_constructor_kwargs c =
     [(''min_size'', CONNECTION_POOL_MIN_SIZE c), (''max_size'', CONNECTION_POOL_MAX_SIZE c),
      (''timeout'', CONNECTION_TIMEOUT c), (''max_lifetime'', CONNECTION_MAX_LIFETIME c),
      (''reconnect_timeout'', RECONNECT_TIMEOUT c), (''max_idle'', CONNECTION_MAX_IDLE c), (''num_workers'', NUM_WORKERS c)]"

section \<open>Waiting longer than the lock lives\<close>

text \<open>
  Time passes for the lock: its expiry is in milliseconds (\<open>px\<close>), a wait is in seconds.
\<close>

definition lock_ages :: "string \<Rightarrow> int \<Rightarrow> (rstore, unit) py" where
  "lock_ages lock seconds st =
     (Inr (), case st lock of
        Some (v, Some ms) \<Rightarrow> if ms \<le> 1000 * seconds then st(lock := None) else st(lock \<mapsto> (v, Some (ms - 1000 * seconds)))
      | _ \<Rightarrow> st)"

lemma validated_fields:
  assumes "CacheConfig t = Inr c"
  shows "1 \<le> CC_FETCH_WAITING_INITIAL_INTERVAL c" and "1 \<le> CC_FETCH_WAITING_JITTER c"
    and "2 \<le> CC_FETCH_WAITING_EXPONENT c" and "1 \<le> CC_FETCH_WAITING_MAX_INTERVALS c"
    and "CC_FETCH_WAITING_MAX_INTERVALS c * fetch_waiting_time c (CC_FETCH_WAITING_JITTER c) \<le> CC_TTL_FETCH_LOCK c"
proof -
  from assms obtain c1 where c1: "cache_fields t = Inr c1" "validate_ttl_times c1 = Inr c1" "validate_fetch_lock_times c1 = Inr c"
    by (auto simp: CacheConfig_def bindE_eq_Inr_iff validate_ttl_times_def Let_def split: if_splits)
  from c1(3) have [simp]: "c1 = c"
    and lock: "int (nat (CC_FETCH_WAITING_MAX_INTERVALS c)) * fetch_waiting_time c (CC_FETCH_WAITING_JITTER c) \<le> CC_TTL_FETCH_LOCK c"
    by (auto simp: validate_fetch_lock_times_def Let_def sum_list_triv map_replicate_const sum_list_replicate split: if_splits)
  from c1(1) show *: "1 \<le> CC_FETCH_WAITING_INITIAL_INTERVAL c" "1 \<le> CC_FETCH_WAITING_JITTER c"
      "2 \<le> CC_FETCH_WAITING_EXPONENT c" "1 \<le> CC_FETCH_WAITING_MAX_INTERVALS c"
    by (auto simp: cache_fields_def bindE_eq_Inr_iff int_field_Inr)
  with lock show "CC_FETCH_WAITING_MAX_INTERVALS c * fetch_waiting_time c (CC_FETCH_WAITING_JITTER c) \<le> CC_TTL_FETCH_LOCK c"
    by simp
qed

lemma waiting_bounds:
  assumes "CacheConfig t = Inr c" and "1 \<le> r" and "r \<le> CC_FETCH_WAITING_JITTER c"
  shows "CC_FETCH_WAITING_INITIAL_INTERVAL c \<le> fetch_waiting_time c r"
    and "fetch_waiting_time c r \<le> fetch_waiting_time c (CC_FETCH_WAITING_JITTER c)"
proof -
  note f = validated_fields [OF assms(1)]
  from assms(2) have "1 \<le> r ^ n" for n by simp
  with f(1) show "CC_FETCH_WAITING_INITIAL_INTERVAL c \<le> fetch_waiting_time c r"
    unfolding fetch_waiting_time_def by (smt (verit) mult_le_cancel_left1)
  show "fetch_waiting_time c r \<le> fetch_waiting_time c (CC_FETCH_WAITING_JITTER c)"
    unfolding fetch_waiting_time_def using assms f(1) by (intro mult_left_mono power_mono) auto
qed

text \<open>
  The check of the configuration bounds the waits of a follower, as numbers, by the lifetime
  of the lock: whatever is drawn, all waits together are at most the number that is given to the
  lock as its lifetime, and every one is at least the initial interval.
\<close>

theorem accepted_waits:
  assumes "CacheConfig t = Inr c" and "list_all (\<lambda>r. 1 \<le> r \<and> r \<le> CC_FETCH_WAITING_JITTER c) draws"
    and "length draws \<le> nat (CC_FETCH_WAITING_MAX_INTERVALS c)"
  shows "sum_list (map (fetch_waiting_time c) draws) \<le> CC_TTL_FETCH_LOCK c \<and>
    int (length draws) * CC_FETCH_WAITING_INITIAL_INTERVAL c \<le> sum_list (map (fetch_waiting_time c) draws)"
proof -
  let ?w = "fetch_waiting_time c (CC_FETCH_WAITING_JITTER c)"
  note f = validated_fields [OF assms(1)]
  have bounds: "sum_list (map (fetch_waiting_time c) draws) \<le> int (length draws) * ?w \<and>
      int (length draws) * CC_FETCH_WAITING_INITIAL_INTERVAL c \<le> sum_list (map (fetch_waiting_time c) draws)"
    using assms(2)
  proof (induction draws)
    case (Cons r draws)
    with waiting_bounds [OF assms(1), of r] show ?case by (auto simp: algebra_simps)
  qed simp
  have "0 \<le> ?w" using waiting_bounds [OF assms(1), of "CC_FETCH_WAITING_JITTER c"] f by auto
  then have "int (length draws) * ?w \<le> CC_FETCH_WAITING_MAX_INTERVALS c * ?w"
    using assms(3) f(4) by (intro mult_right_mono) auto
  with bounds f(5) show ?thesis by linarith
qed

text \<open>The \<open>[cache]\<close> table of the file that comes with the resource server.\<close>

definition shipped_cache :: toml_table where
  "shipped_cache =
     [(''TTL_CAP'', TInt 86400), (''TTL_PROMOTION'', TInt 15), (''TTL_STRONGEST'', TInt 1200), (''TTL_STRONG'', TInt 600),
      (''TTL_WEAK'', TInt 300), (''TTL_EPHEMERAL'', TInt 60), (''TTL_OPERATIONAL_LOCK'', TInt 5), (''TTL_FETCH_LOCK'', TInt 1000),
      (''FETCH_WAITING_INITIAL_INTERVAL'', TInt 5), (''FETCH_WAITING_JITTER'', TInt 1), (''FETCH_WAITING_EXPONENT'', TInt 2),
      (''FETCH_WAITING_MAX_INTERVALS'', TInt 5), (''FETCH_MAX_RETRIES'', TInt 2),
      (''NF_SENTINEL_KEY'', TStr ''__NF__''), (''NF_SENTINEL_VALUE'', TStr ''1'')]"

definition shipped_cache_config :: cache_config where
  "shipped_cache_config =
     \<lparr>CC_TTL_CAP = 86400, CC_TTL_PROMOTION = 15, CC_TTL_STRONGEST = 1200, CC_TTL_STRONG = 600, CC_TTL_WEAK = 300,
      CC_TTL_EPHEMERAL = 60, CC_TTL_OPERATIONAL_LOCK = 5, CC_TTL_FETCH_LOCK = 1000,
      CC_FETCH_WAITING_INITIAL_INTERVAL = 5, CC_FETCH_WAITING_JITTER = 1, CC_FETCH_WAITING_EXPONENT = 2,
      CC_FETCH_WAITING_MAX_INTERVALS = 5, CC_FETCH_MAX_RETRIES = 2, CC_NF_SENTINEL_KEY = ''__NF__'', CC_NF_SENTINEL_VALUE = ''1''\<rparr>"

lemma shipped_cache_accepted: "CacheConfig shipped_cache = Inr shipped_cache_config"
  by (simp add: CacheConfig_def cache_fields_def shipped_cache_def shipped_cache_config_def int_field_def str_field_def
      required_def bindE_def validate_ttl_times_def validate_fetch_lock_times_def fetch_waiting_time_def Let_def upt_rec
      numeral_2_eq_2)

theorem accepted_waits_witness:
  "sum_list (map (fetch_waiting_time shipped_cache_config) [1, 1]) \<le> 1000"
  using accepted_waits [OF shipped_cache_accepted, of "[1, 1]"] by (simp add: shipped_cache_config_def)

text \<open>
  C21.  The units do not agree: the lock lives for milliseconds, a wait takes seconds.  If an
  accepted configuration has the lifetime of the lock at most a thousand times the initial
  interval, then for a follower that finds the entry missing and the lock held the lock is gone
  after its first wait, whatever is drawn, although the holder is still at work.  With at least
  two attempts (\<open>FETCH_MAX_RETRIES\<close>) it becomes a leader beside it and loads from the database
  too; with one it gives up with the exception for a cache that is not coherent, and so it does
  at once with none.
\<close>

theorem follower_outlives_lock:
  assumes "CacheConfig t = Inr c" and "CC_TTL_FETCH_LOCK c \<le> 1000 * CC_FETCH_WAITING_INITIAL_INTERVAL c"
    and "\<And>i. 1 \<le> draw i \<and> draw i \<le> CC_FETCH_WAITING_JITTER c"
    and "cm = CacheManager store_redis decode (lock_ages (derive_lock_key [key])) draw now c"
    and "st key = None" and "st (derive_lock_key [key]) = Some (VStr v, Some ms)" and "ms \<le> CC_TTL_FETCH_LOCK c"
  shows "distributed_get_or_load cm key [] fallback repr construct st =
    (if 2 \<le> CC_FETCH_MAX_RETRIES c
     then lead cm key fallback repr (st(derive_lock_key [key] \<mapsto> (VStr now, Some (CC_TTL_FETCH_LOCK c))))
     else (Inl CacheCoherenceException, if CC_FETCH_MAX_RETRIES c = 1 then st(derive_lock_key [key] := None) else st))"
proof -
  let ?lock = "derive_lock_key [key]"
  note f = validated_fields [OF assms(1)]
  have "1 \<le> nat (CC_FETCH_WAITING_MAX_INTERVALS c)" using f(4) by simp
  then obtain k where k: "FETCH_WAITING_MAX_INTERVALS cm = Suc k"
    using assms(4) by (cases "FETCH_WAITING_MAX_INTERVALS cm") (auto simp: CacheManager_def)
  have retries: "FETCH_MAX_RETRIES cm = nat (CC_FETCH_MAX_RETRIES c)" by (simp add: assms(4) CacheManager_def)
  have parts: "cm_redis cm = store_redis" "cm_now cm = now" "TTL_FETCH_LOCK cm = CC_TTL_FETCH_LOCK c"
      "cm_sleep cm i = lock_ages ?lock (fetch_waiting_time c (draw i))" for i
    by (simp_all add: assms(4) CacheManager_def)
  have "1000 * CC_FETCH_WAITING_INITIAL_INTERVAL c \<le> 1000 * fetch_waiting_time c (draw k)"
    using waiting_bounds(1) [OF assms(1), of "draw k"] assms(3) by simp
  with assms(2,6,7) have gone: "cm_sleep cm k st = (Inr (), st(?lock := None))"
    by (simp add: parts lock_ages_def)
  have free: "(st(?lock := None)) key = None" using assms(5,6) by auto
  have waited: "wait_for_leader (FETCH_WAITING_MAX_INTERVALS cm) cm key [] construct st = (Inr None, st(?lock := None))"
    using assms(6) free gone
    by (cases k) (simp_all add: k parts(1) bindM_def thenM_def store_redis_def primitive_get_from_cache_def hash_at_def)
  have lived: "0 < CC_TTL_FETCH_LOCK c"
  proof -
    have "1 \<le> fetch_waiting_time c (CC_FETCH_WAITING_JITTER c)"
      using waiting_bounds(1) [OF assms(1), of "CC_FETCH_WAITING_JITTER c"] f(1,2) by simp
    then have "0 < CC_FETCH_WAITING_MAX_INTERVALS c * fetch_waiting_time c (CC_FETCH_WAITING_JITTER c)"
      using f(4) by simp
    with f(5) show ?thesis by linarith
  qed
  have get: "distributed_get_or_load cm key [] fallback repr construct st =
      elect_leader (FETCH_MAX_RETRIES cm) cm key [] fallback repr construct st"
    using assms(5)
    by (simp add: distributed_get_or_load_def fetch_from_cache_def primitive_get_from_cache_def bindM_def parts(1)
        store_redis_def hash_at_def)
  have turn: "elect_leader (Suc n) cm key [] fallback repr construct st =
      elect_leader n cm key [] fallback repr construct (st(?lock := None))" for n
    using assms(6) waited by (simp add: parts(1-3) bindM_def store_redis_def)
  have led: "elect_leader (Suc n) cm key [] fallback repr construct (st(?lock := None)) =
      lead cm key fallback repr (st(?lock \<mapsto> (VStr now, Some (CC_TTL_FETCH_LOCK c))))" for n
    using lived by (simp add: parts(1-3) bindM_def store_redis_def)
  consider "CC_FETCH_MAX_RETRIES c \<le> 0" | "CC_FETCH_MAX_RETRIES c = 1" | "2 \<le> CC_FETCH_MAX_RETRIES c" by linarith
  then show ?thesis
  proof cases
    case 3
    then have "nat (CC_FETCH_MAX_RETRIES c) = Suc (Suc (nat (CC_FETCH_MAX_RETRIES c - 2)))" by simp
    with 3 show ?thesis by (simp only: get retries turn led if_True)
  next
    case 2
    then have "nat (CC_FETCH_MAX_RETRIES c) = Suc 0" by simp
    with 2 show ?thesis by (simp only: get retries turn) simp
  qed (simp add: get retries)
qed

text \<open>The configuration that comes with the server is of this kind, for any key and any lock.\<close>

theorem follower_outlives_lock_witness:
  "let cm = CacheManager store_redis True (lock_ages ''lock:forums:1'') (\<lambda>_. 1) ''2'' shipped_cache_config in
   fst (distributed_get_or_load cm ''forums:1'' [] (pure (Some ''loaded twice'')) (\<lambda>d. Inr [(''name'', d)])
     (\<lambda>h. Inr (the (h ''name''))) [''lock:forums:1'' \<mapsto> (VStr ''1'', Some 1000)]) = Inr (Some ''loaded twice'')"
proof -
  have key: "derive_lock_key [''forums:1''] = ''lock:forums:1''" by (simp add: derive_lock_key_def NAME_SEPERATOR_def)
  let ?cm = "CacheManager store_redis True (lock_ages ''lock:forums:1'') (\<lambda>_. 1) ''2'' shipped_cache_config"
  have shipped: "CC_TTL_FETCH_LOCK shipped_cache_config = 1000" "2 \<le> CC_FETCH_MAX_RETRIES shipped_cache_config"
      "CC_FETCH_WAITING_INITIAL_INTERVAL shipped_cache_config = 5" "1 \<le> CC_FETCH_WAITING_JITTER shipped_cache_config"
    by (simp_all add: shipped_cache_config_def)
  have "distributed_get_or_load ?cm ''forums:1'' [] (pure (Some ''loaded twice'')) (\<lambda>d. Inr [(''name'', d)])
      (\<lambda>h. Inr (the (h ''name''))) [''lock:forums:1'' \<mapsto> (VStr ''1'', Some 1000)] =
    lead ?cm ''forums:1'' (pure (Some ''loaded twice'')) (\<lambda>d. Inr [(''name'', d)]) [''lock:forums:1'' \<mapsto> (VStr ''2'', Some 1000)]"
    using follower_outlives_lock [OF shipped_cache_accepted, where draw = "\<lambda>_. 1" and cm = ?cm and key = "''forums:1''"
        and decode = True and now = "''2''" and st = "[''lock:forums:1'' \<mapsto> (VStr ''1'', Some 1000)]" and v = "''1''" and ms = 1000
        and fallback = "pure (Some ''loaded twice'')" and repr = "\<lambda>d. Inr [(''name'', d)]"]
    by (simp add: key shipped)
  then show ?thesis
    by (simp add: lead_def finallyM_def hset_with_ttl_def cm_exec_def thenM_def bindM_def CacheManager_def store_redis_def
        shipped_cache_config_def hash_at_def ttl_at_def)
qed

section \<open>Sizes and addresses\<close>

text \<open>
  An accepted pool never has fewer connections than it keeps open, and its least size is at
  least one; without sizes in the file it follows the number of processors.
\<close>

lemma default_field_Inr: "default_field t name dflt = Inr v \<Longrightarrow> 1 \<le> dflt \<Longrightarrow> 1 \<le> v"
  by (auto simp: default_field_def int_field_Inr split: if_splits)

theorem pool_sizes:
  assumes "0 < cpus"
  shows "(ConnectionPoolConfig cpus t = Inr c \<longrightarrow>
      1 \<le> CONNECTION_POOL_MIN_SIZE c \<and> CONNECTION_POOL_MIN_SIZE c \<le> CONNECTION_POOL_MAX_SIZE c) \<and>
    (\<exists>c. ConnectionPoolConfig cpus [] = Inr c \<and> CONNECTION_POOL_MAX_SIZE c = 2 * CONNECTION_POOL_MIN_SIZE c)"
proof (intro conjI impI)
  assume "ConnectionPoolConfig cpus t = Inr c"
  then obtain mn where mn: "default_field t ''CONNECTION_POOL_MIN_SIZE'' cpus = Inr mn" "CONNECTION_POOL_MIN_SIZE c = mn"
      "mn \<le> CONNECTION_POOL_MAX_SIZE c"
    by (auto simp: ConnectionPoolConfig_def bindE_eq_Inr_iff check_connection_pool_sizing_def split: if_splits)
  with default_field_Inr [OF mn(1)] assms show "1 \<le> CONNECTION_POOL_MIN_SIZE c" by simp
  from mn show "CONNECTION_POOL_MIN_SIZE c \<le> CONNECTION_POOL_MAX_SIZE c" by simp
next
  show "\<exists>c. ConnectionPoolConfig cpus [] = Inr c \<and> CONNECTION_POOL_MAX_SIZE c = 2 * CONNECTION_POOL_MIN_SIZE c"
    using assms by (simp add: ConnectionPoolConfig_def default_field_def bindE_def check_connection_pool_sizing_def)
qed

text \<open>
  The address of a database determines the credentials it was made of as long as the user
  name has no colon, whatever the password holds, though nothing is escaped.  With a colon it does
  not: two different pairs have the same address.
\<close>

theorem uri_determines_credentials:
  assumes "CHR '':'' \<notin> set u1" and "CHR '':'' \<notin> set u2"
  shows "(derive_sqlalchemy_uri c u1 p1 = derive_sqlalchemy_uri c u2 p2 \<longleftrightarrow> u1 = u2 \<and> p1 = p2) \<and>
    derive_sqlalchemy_uri c (u1 @ '':'' @ p1) p2 = derive_sqlalchemy_uri c u1 (p1 @ '':'' @ p2)"
proof -
  have "u1 = u2 \<and> p1 = p2" if "u1 @ CHR '':'' # p1 = u2 @ CHR '':'' # p2"
    using that assms
  proof (induction u1 arbitrary: u2)
    case Nil
    then show ?case by (cases u2) auto
  next
    case (Cons x xs)
    then show ?case by (cases u2) auto
  qed
  then show ?thesis by (auto simp: derive_sqlalchemy_uri_def construct_database_uri_def)
qed

theorem uri_determines_credentials_witness:
  "derive_sqlalchemy_uri \<lparr>POSTGRES_HOST = ''db'', POSTGRES_PORT = 5432, POSTGRES_DATABASE = ''d''\<rparr> ''a:b'' ''c'' =
   derive_sqlalchemy_uri \<lparr>POSTGRES_HOST = ''db'', POSTGRES_PORT = 5432, POSTGRES_DATABASE = ''d''\<rparr> ''a'' ''b:c''"
  using uri_determines_credentials [of "''a''" "''a''" _ "''b''" "''c''"] by simp

text \<open>
  Every address starts with the name of the driver \<open>psycopg2\<close>, while the servers hand it to
  \<open>create_async_engine\<close>, which only takes asynchronous drivers, and the workers to \<open>psycopg\<close>.
\<close>

lemma uri_driver: "take 22 (derive_sqlalchemy_uri c u p) = ''postgresql+psycopg2://''"
  by (simp add: derive_sqlalchemy_uri_def construct_database_uri_def)

section \<open>Directories\<close>

lemma prefixes_all: "ps \<noteq> [] \<Longrightarrow> ps \<in> set (prefixes_of ps)"
  by (auto simp: prefixes_of_def image_iff intro!: bexI [of _ "length ps"]) (cases ps; simp)

lemma prefixes_shorter: "q \<in> set (prefixes_of ps) \<Longrightarrow> length q \<le> length ps"
  by (auto simp: prefixes_of_def)

text \<open>
  What a path is resolved to is absolute; the directory it names, or the one its file is in,
  is there afterwards; and resolving it again, against any directory, gives the same path and
  changes nothing.
\<close>

theorem resolved_path_stays:
  assumes "resolve_path_attr attr root is_file ft = (Inr p, ft')"
    and "path_parts p \<noteq> []" and "is_file \<longrightarrow> butlast (path_parts p) \<noteq> []"
  shows "path_absolute p \<and> p = path_join root attr \<and>
    (if is_file then butlast (path_parts p) else path_parts p) \<in> set (tree_dirs ft') \<and>
    resolve_path_attr p other is_file ft' = (Inr p, ft')"
proof -
  have joined: "path_absolute q \<Longrightarrow> path_join other q = q" for q by (simp add: path_join_def)
  have made: "set (prefixes_of ps) \<subseteq> set (tree_dirs ft2) \<and> mkdir_parents ps ft2 = (Inr (), ft2)"
    if "mkdir_parents ps ft1 = (Inr (), ft2)" for ps ft1 ft2
    using that by (auto simp: mkdir_parents_def list_ex_iff split: if_splits)
  show ?thesis
  proof (cases is_file)
    case False
    with assms(1) have "path_absolute p" "p = path_join root attr" "mkdir_parents (path_parts p) ft = (Inr (), ft')"
      by (auto simp: resolve_path_attr_def Let_def thenM_def bindM_def split: if_splits prod.splits sum.splits)
    with False made [of "path_parts p" ft ft'] prefixes_all [OF assms(2)] joined [of p] show ?thesis
      by (auto simp: resolve_path_attr_def Let_def thenM_def bindM_def)
  next
    case True
    with assms(1) obtain ft1 where p: "path_absolute p" "p = path_join root attr"
        and run: "mkdir_parents (butlast (path_parts p)) ft = (Inr (), ft1)" "touch (path_parts p) ft1 = (Inr (), ft')"
      by (auto simp: resolve_path_attr_def Let_def thenM_def bindM_def split: if_splits prod.splits sum.splits)
    have "path_parts p \<notin> set (prefixes_of (butlast (path_parts p)))"
      using prefixes_shorter [of "path_parts p" "butlast (path_parts p)"] assms(2) by (cases "path_parts p") auto
    moreover have "filter (\<lambda>q. q \<notin> set (tree_dirs ft1)) (prefixes_of (butlast (path_parts p))) = []"
      using made [OF run(1)] by (auto simp: filter_empty_conv)
    ultimately have again: "mkdir_parents (butlast (path_parts p)) ft' = (Inr (), ft')" "touch (path_parts p) ft' = (Inr (), ft')"
        and kept: "set (tree_dirs ft1) \<subseteq> set (tree_dirs ft')"
      using made [OF run(1), THEN conjunct2] run(2) by (auto simp: mkdir_parents_def touch_def list_ex_iff split: if_splits)
    have "butlast (path_parts p) \<in> set (tree_dirs ft')"
      using made [OF run(1)] prefixes_all [of "butlast (path_parts p)"] assms(3) True kept by auto
    moreover have "resolve_path_attr p other is_file ft' = (Inr p, ft')"
      unfolding resolve_path_attr_def joined [OF p(1)] Let_def using True p(1) again by (simp add: thenM_def bindM_def)
    ultimately show ?thesis using True p(1) by (simp only: if_True conj_assoc) (use p(2) in blast)
  qed
qed

theorem resolved_path_stays_witness:
  "snd (resolve_path_attr \<lparr>path_absolute = True, path_parts = [''app'', ''instance'', ''jwks.json'']\<rparr>
      \<lparr>path_absolute = True, path_parts = [''tmp'']\<rparr> True
      \<lparr>tree_dirs = [[''app''], [''app'', ''instance'']], tree_files = [[''app'', ''instance'', ''jwks.json'']]\<rparr>) =
    \<lparr>tree_dirs = [[''app''], [''app'', ''instance'']], tree_files = [[''app'', ''instance'', ''jwks.json'']]\<rparr>"
proof -
  have "resolve_path_attr \<lparr>path_absolute = False, path_parts = [''jwks.json'']\<rparr>
      (instance_path \<lparr>path_absolute = True, path_parts = [''app'']\<rparr>) True \<lparr>tree_dirs = [], tree_files = []\<rparr> =
    (Inr \<lparr>path_absolute = True, path_parts = [''app'', ''instance'', ''jwks.json'']\<rparr>,
     \<lparr>tree_dirs = [[''app''], [''app'', ''instance'']], tree_files = [[''app'', ''instance'', ''jwks.json'']]\<rparr>)"
    by (simp add: resolve_path_attr_def instance_path_def path_join_def thenM_def bindM_def mkdir_parents_def prefixes_of_def
        touch_def upt_rec numeral_2_eq_2 numeral_3_eq_3)
  have "resolve_path_attr \<lparr>path_absolute = True, path_parts = [''app'', ''instance'', ''jwks.json'']\<rparr>
      \<lparr>path_absolute = True, path_parts = [''tmp'']\<rparr> True
      \<lparr>tree_dirs = [[''app''], [''app'', ''instance'']], tree_files = [[''app'', ''instance'', ''jwks.json'']]\<rparr> =
    (Inr \<lparr>path_absolute = True, path_parts = [''app'', ''instance'', ''jwks.json'']\<rparr>,
     \<lparr>tree_dirs = [[''app''], [''app'', ''instance'']], tree_files = [[''app'', ''instance'', ''jwks.json'']]\<rparr>)"
    by (rule resolved_path_stays [OF \<open>_ = (Inr _, _)\<close>, THEN conjunct2, THEN conjunct2, THEN conjunct2]) simp_all
  then show ?thesis by simp
qed

end
