(* ===== verification/Tenjin_Workers.thy ===== *)
theory Tenjin_Workers
  imports Tenjin_Config Tenjin_Dispatch
begin

text \<open>
  From the command line to running workers (\<^verbatim>\<open>src/resource_database_workers\<close>): the arguments
  (\<^verbatim>\<open>cli.py\<close>, \<^verbatim>\<open>__main__.py\<close>), the configuration of the workers and how many of each there are
  (\<^verbatim>\<open>config\<close>), the supervision of their tasks (\<^verbatim>\<open>bootup.py\<close>), and the consumer groups and dead
  entries of their streams (\<^verbatim>\<open>utils/coordination.py\<close>).
\<close>

section \<open>The configuration of the workers\<close>

record worker_settings =
  ws_policy :: retry_policy
  CONSUMER_READ_INTERVAL :: int
  CONSUMER_READ_SIZE :: int
  CONSUMER_BLOCK_TIME :: int
  CONSUMER_GROUP_NAME :: string
  IQ_CONSUMER_BASE_WAITING_TIME :: int
  IQ_CONSUMER_GET_TIMEOUT :: int
  IQ_CONSUMER_BATCH_SIZE_QUOTA :: int
  IQ_CONSUMER_SLEEP_INTERVAL :: int
  RECLAIM_THRESHOLD :: int
  RECLAIMATION_CHECK_INTERVAL :: int
  MAX_DELIVERIES :: int
  DLQ_NAME :: stream_name

text \<open>\<open>WorkerStreamReaderMixin\<close>, \<open>WorkerInternalQueueMixin\<close>, \<open>WorkerRetryMixin\<close>, \<open>WorkerReclaimMixin\<close> and \<open>WorkerDLQMixin\<close>.\<close>

definition validate_backoff_values :: "worker_settings \<Rightarrow> exn + worker_settings" where
  "validate_backoff_values w =
     (if MAXIMUM_BACKOFF_INTERVAL (ws_policy w) < BASE_BACKOFF_INTERVAL (ws_policy w) then Inl ValueError else Inr w)"

definition validate_reclamation_interval :: "worker_settings \<Rightarrow> exn + worker_settings" where
  "validate_reclamation_interval w =
     (if RECLAIM_THRESHOLD w < RECLAIMATION_CHECK_INTERVAL w then Inl ValueError else Inr w)"

definition retry_fields :: "toml_table \<Rightarrow> exn + retry_policy" where
  "retry_fields t =
     bindE (int_field 0 t ''MAXIMUM_BACKOFF_INTERVAL'') (\<lambda>cap.
     bindE (int_field 0 t ''BASE_BACKOFF_INTERVAL'') (\<lambda>base.
     bindE (int_field 1 t ''BACKOFF_EXPONENTIAL'') (\<lambda>exponential.
     bindE (int_field 0 t ''MAX_RETRIES'') (\<lambda>retries.
       Inr \<lparr>MAX_RETRIES = retries, MAXIMUM_BACKOFF_INTERVAL = cap, BASE_BACKOFF_INTERVAL = base,
            BACKOFF_EXPONENTIAL = exponential\<rparr>))))"

definition dlq_field :: "toml_table \<Rightarrow> exn + stream_name" where
  "dlq_field t =
     bindE (str_field t ''DLQ_NAME'') (\<lambda>s.
       case stream_name_of (strip s) of None \<Rightarrow> Inl ValidationError | Some n \<Rightarrow> Inr n)"

text \<open>\<open>Annotated[float, Field(ge=0)]\<close>; of strings only whole numbers are read.\<close>

definition float_field :: "toml_table \<Rightarrow> string \<Rightarrow> exn + unit" where
  "float_field t name =
     bindE (required t name) (\<lambda>v.
       case v of
         TFloat m d \<Rightarrow> if 0 \<le> m then Inr () else Inl ValidationError
       | _ \<Rightarrow> bindE (int_field 0 t name) (\<lambda>_. Inr ()))"

definition WorkerConfig :: "toml_table \<Rightarrow> exn + worker_settings" where
  "WorkerConfig t =
     bindE (int_field 0 t ''CONSUMER_READ_INTERVAL'') (\<lambda>read_interval.
     bindE (int_field 1 t ''CONSUMER_READ_SIZE'') (\<lambda>read_size.
     bindE (int_field 0 t ''CONSUMER_BLOCK_TIME'') (\<lambda>block.
     bindE (str_field t ''CONSUMER_GROUP_NAME'') (\<lambda>grp.
     bindE (int_field 0 t ''IQ_CONSUMER_BASE_WAITING_TIME'') (\<lambda>waiting.
     bindE (int_field 0 t ''IQ_CONSUMER_GET_TIMEOUT'') (\<lambda>timeout.
     bindE (int_field 1 t ''IQ_CONSUMER_BATCH_SIZE_QUOTA'') (\<lambda>quota.
     bindE (int_field 0 t ''IQ_CONSUMER_SLEEP_INTERVAL'') (\<lambda>sleep.
     bindE (retry_fields t) (\<lambda>policy.
     bindE (int_field 1 t ''RECLAIM_THRESHOLD'') (\<lambda>threshold.
     bindE (int_field 1 t ''RECLAIMATION_CHECK_INTERVAL'') (\<lambda>check.
     bindE (int_field 1 t ''MAX_DELIVERIES'') (\<lambda>deliveries.
     bindE (dlq_field t) (\<lambda>dlq.
     bindE (str_field t ''COUNTER_REGISTRY_NAME'') (\<lambda>_.
     bindE (str_field t ''COUNTER_RETRY_REGISTRY_NAME'') (\<lambda>_.
     bindE (int_field 0 t ''COUNTER_REGISTRY_REFRESH_INTERVAL'') (\<lambda>_.
     bindE (int_field 0 t ''COUNTER_FLUSH_LOCK_TTL'') (\<lambda>_.
     bindE (int_field 0 t ''COUNTER_FLUSH_INTERVAL'') (\<lambda>_.
     bindE (int_field 1 t ''DOWNSTREAM_COUNTER_BATCH_SIZE'') (\<lambda>_.
     bindE (float_field t ''GRACEFUL_SHUTDOWN_PERIOD'') (\<lambda>_.
     bindE (validate_backoff_values
       \<lparr>ws_policy = policy, CONSUMER_READ_INTERVAL = read_interval, CONSUMER_READ_SIZE = read_size,
        CONSUMER_BLOCK_TIME = block, CONSUMER_GROUP_NAME = grp, IQ_CONSUMER_BASE_WAITING_TIME = waiting,
        IQ_CONSUMER_GET_TIMEOUT = timeout, IQ_CONSUMER_BATCH_SIZE_QUOTA = quota, IQ_CONSUMER_SLEEP_INTERVAL = sleep,
        RECLAIM_THRESHOLD = threshold, RECLAIMATION_CHECK_INTERVAL = check, MAX_DELIVERIES = deliveries, DLQ_NAME = dlq\<rparr>)
       validate_reclamation_interval))))))))))))))))))))"

text \<open>
  What a field of type \<open>bool\<close> takes; a boolean of TOML counts as the number it is equal to.
\<close>

definition ascii_lower :: "string \<Rightarrow> string" where
  "ascii_lower = map (\<lambda>c. if 65 \<le> (of_char c :: nat) \<and> (of_char c :: nat) \<le> 90 then char_of ((of_char c :: nat) + 32) else c)"

fun bool_value :: "toml \<Rightarrow> exn + bool" where
  "bool_value (TStr s) =
     (if ascii_lower s \<in> {''1'', ''on'', ''t'', ''true'', ''y'', ''yes''} then Inr True
      else if ascii_lower s \<in> {''0'', ''off'', ''f'', ''false'', ''n'', ''no''} then Inr False else Inl ValidationError)"
| "bool_value v = bindE (int_value v) (\<lambda>n. if n = 1 then Inr True else if n = 0 then Inr False else Inl ValidationError)"

record redis_config =
  HOST :: string
  PORT :: int
  DB :: int
  DECODE_RESPONSES :: bool

definition RedisConfig :: "toml_table \<Rightarrow> exn + redis_config" where
  "RedisConfig t =
     bindE (str_field t ''HOST'') (\<lambda>host. if host = [] then Inl ValidationError else
     bindE (port_field t ''PORT'') (\<lambda>port.
     bindE (if map_of t ''DB'' = None then Inr 0 else int_field 0 t ''DB'') (\<lambda>db.
     bindE (case map_of t ''DECODE_RESPONSES'' of None \<Rightarrow> Inr False | Some v \<Rightarrow> bool_value v) (\<lambda>decode.
       Inr \<lparr>HOST = host, PORT = port, DB = db, DECODE_RESPONSES = decode\<rparr>))))"

definition RedisContainer :: "toml_table \<Rightarrow> exn + redis_config \<times> redis_config" where
  "RedisContainer t =
     bindE (bindE (bindE (required t ''app'') table_value) RedisConfig) (\<lambda>app.
     bindE (bindE (bindE (required t ''internal'') table_value) RedisConfig) (\<lambda>internal. Inr (app, internal)))"

definition DatabaseConfig :: "int \<Rightarrow> toml_table \<Rightarrow> exn + postgres_config \<times> pool_config" where
  "DatabaseConfig cpus t =
     bindE (PostgresConfig t) (\<lambda>c. bindE (ConnectionPoolConfig cpus t) (\<lambda>pool. Inr (c, pool)))"

text \<open>
  The three sections are looked up under the aliases of their fields, and no other is allowed;
  the value here is that of the workers.
\<close>

definition AppConfig :: "int \<Rightarrow> toml_table \<Rightarrow> exn + worker_settings" where
  "AppConfig cpus t =
     bindE (bindE (bindE (required t ''business'') table_value) WorkerConfig) (\<lambda>worker.
     bindE (bindE (bindE (required t ''redis'') table_value) RedisContainer) (\<lambda>_.
     bindE (bindE (bindE (required t ''database'') table_value) (DatabaseConfig cpus)) (\<lambda>_.
       if fst ` set t \<subseteq> {''business'', ''redis'', ''database''} then Inr worker else Inl ValidationError)))"

section \<open>How many workers\<close>

record counter_workers_config =
  WORKER_COUNT :: int
  RETRY_WORKER_COUNT :: int

text \<open>\<open>t[name]\<close> for a table, and \<open>t[name]\<close> where the value must be a table again.\<close>

definition item :: "toml_table \<Rightarrow> string \<Rightarrow> exn + toml" where
  "item t name = (case map_of t name of None \<Rightarrow> Inl KeyError | Some v \<Rightarrow> Inr v)"

definition subtable :: "toml_table \<Rightarrow> string \<Rightarrow> exn + toml_table" where
  "subtable t name = bindE (item t name) (\<lambda>v. case v of TTable u \<Rightarrow> Inr u | _ \<Rightarrow> Inl TypeError)"

definition count_value :: "toml \<Rightarrow> exn + int" where
  "count_value v = bindE (int_value v) (\<lambda>n. if 1 \<le> n then Inr n else Inl ValidationError)"

definition counters_from_toml :: "toml_table \<Rightarrow> exn + counter_workers_config" where
  "counters_from_toml t =
     bindE (bindE (subtable t ''WORKERS'') (\<lambda>ws. subtable ws ''COUNTERS'')) (\<lambda>m.
     bindE (item m ''WORKERS'') (\<lambda>w. bindE (item m ''RETRY_WORKERS'') (\<lambda>r.
     bindE (count_value w) (\<lambda>w. bindE (count_value r) (\<lambda>r.
       Inr \<lparr>WORKER_COUNT = w, RETRY_WORKER_COUNT = r\<rparr>)))))"

fun falsy :: "toml \<Rightarrow> bool" where
  "falsy (TInt n) \<longleftrightarrow> n = 0"
| "falsy (TFloat m d) \<longleftrightarrow> m = 0"
| "falsy (TStr s) \<longleftrightarrow> s = []"
| "falsy (TTable t) \<longleftrightarrow> t = []"

text \<open>The table of the workers is looked for at the top of the file.\<close>

definition streams_from_toml :: "toml_table \<Rightarrow> stream_name \<Rightarrow> exn + stream_workers_config" where
  "streams_from_toml t stream =
     bindE (bindE (subtable t ''READERS'') (\<lambda>rs. subtable rs ''STREAMS'')) (\<lambda>readers.
       case map_of readers (stream_name_value stream) of
         None \<Rightarrow> Inl KeyError
       | Some count \<Rightarrow>
           if falsy count then Inl KeyError
           else case map_of t (stream_name_value stream) of
                  None \<Rightarrow> Inl KeyError
                | Some m \<Rightarrow>
                    if falsy m then Inl KeyError
                    else case m of
                      TTable counts \<Rightarrow>
                        bindE (normalize_config_mapping counts) (\<lambda>events.
                        bindE (count_value count) (\<lambda>n.
                        bindE (traverse (\<lambda>(e, v). bindE (count_value v) (\<lambda>k. Inr (e, nat k))) events) (\<lambda>mapping.
                          validate_event_mapping
                            \<lparr>CONFIG_STREAM = stream, READER_COUNT = nat n, EVENT_WORKER_COUNT_MAPPING = mapping\<rparr>)))
                    | _ \<Rightarrow> Inl AttributeError)"

section \<open>The command line\<close>






section \<open>Tasks\<close>

definition counter_worker_wrapper :: "counter_workers_config \<Rightarrow> (string \<times> bool) list" where
  "counter_worker_wrapper c =
     map (\<lambda>i. (generate_worker_name ''counter'' (int i) None, False)) [1 ..< Suc (nat (WORKER_COUNT c))] @
     map (\<lambda>i. (generate_worker_name ''retry_counter'' (int i) None, True)) [1 ..< Suc (nat (RETRY_WORKER_COUNT c))]"

text \<open>What the workers see of the supervisor, and the tasks it cancelled.\<close>

record supervisor =
  status_ok :: bool
  cancelled :: "string list"

text \<open>
  \<open>done_first\<close>: the tasks that are done when the first one raises (or when all are), with their
  exceptions; \<open>pending\<close>: the others; \<open>done_later\<close>: those of them done in the time that is left
  to them.  To wait for no task at all is a \<open>ValueError\<close>.
\<close>

definition tasks_wrapper ::
  "(string \<times> exn option) list \<Rightarrow> string list \<Rightarrow> string list \<Rightarrow> (supervisor, unit) py" where
  "tasks_wrapper done_first pending done_later st =
     (if done_first = [] \<and> pending = [] then (Inl ValueError, st)
      else if length done_first \<noteq> 1 then (Inl OtherException, st)
      else let st1 = st\<lparr>status_ok := False\<rparr> in
           if pending = [] then (Inl ValueError, st1)
           else let st2 = st1\<lparr>cancelled := cancelled st1 @ filter (\<lambda>p. p \<notin> set done_later) pending\<rparr> in
                case snd (hd done_first) of
                  None \<Rightarrow> (Inl AttributeError, st2)
                | Some e \<Rightarrow> (Inl e, st2))"

text \<open>
  The supervisor of the email worker reads a name that is defined nowhere; its count of tasks is
  checked on the command line.
\<close>

definition email_tasks_wrapper :: "int \<Rightarrow> (supervisor, unit) py" where
  "email_tasks_wrapper worker_count = raise NameError"

definition validate_positive_task_count :: "string \<Rightarrow> exn + int" where
  "validate_positive_task_count arg = bindE (py_int arg) (\<lambda>count. if count \<le> 0 then Inl ValueError else Inr count)"

section \<open>Consumer groups\<close>

text \<open>
  The groups of a stream with their consumers; a stream that is not there has no entry.  The
  commands as Redis documents them: information on a missing stream and a consumer for a missing
  group are errors, so is a group that is there already.
\<close>

type_synonym group_store = "string \<rightharpoonup> (string \<times> string list) list"

datatype gcmd = XINFO_GROUPS string | XGROUP_CREATE string string bool | XGROUP_CREATECONSUMER string string string

datatype greply = GNames "string list" | GOk | GError

fun run_gcmd :: "gcmd \<Rightarrow> group_store \<Rightarrow> greply \<times> group_store" where
  "run_gcmd (XINFO_GROUPS s) st = (case st s of None \<Rightarrow> (GError, st) | Some gs \<Rightarrow> (GNames (map fst gs), st))"
| "run_gcmd (XGROUP_CREATE s g mkstream) st =
     (case st s of
        None \<Rightarrow> if mkstream then (GOk, st(s \<mapsto> [(g, [])])) else (GError, st)
      | Some gs \<Rightarrow> if g \<in> fst ` set gs then (GError, st) else (GOk, st(s \<mapsto> gs @ [(g, [])])))"
| "run_gcmd (XGROUP_CREATECONSUMER s g c) st =
     (case st s of
        None \<Rightarrow> (GError, st)
      | Some gs \<Rightarrow>
          if g \<in> fst ` set gs
          then (GOk, st(s \<mapsto> map (\<lambda>(g', cs). (g', if g' = g \<and> c \<notin> set cs then cs @ [c] else cs)) gs))
          else (GError, st))"

fun run_gcmds :: "gcmd list \<Rightarrow> group_store \<Rightarrow> greply list \<times> group_store" where
  "run_gcmds [] st = ([], st)"
| "run_gcmds (c # cs) st =
     (case run_gcmd c st of (r, st1) \<Rightarrow> case run_gcmds cs st1 of (rs, st2) \<Rightarrow> (r # rs, st2))"

text \<open>
  A transaction executes every command, also after one that fails, and raises in the end if one
  did.  A client may fail for other reasons, then nothing is said.
\<close>

definition documented_groups :: "(gcmd list \<Rightarrow> ('s, greply list) py) \<Rightarrow> ('s \<Rightarrow> group_store) \<Rightarrow> bool" where
  "documented_groups exec view \<longleftrightarrow>
     (\<forall>cs s rs s'. exec cs s = (Inr rs, s') \<longrightarrow> run_gcmds cs (view s) = (rs, view s') \<and> GError \<notin> set rs)"

definition group_transaction :: "gcmd list \<Rightarrow> (group_store, greply list) py" where
  "group_transaction cs st =
     (case run_gcmds cs st of (rs, st') \<Rightarrow> (if GError \<in> set rs then Inl (RedisError False) else Inr rs, st'))"

definition get_existing_worker_groups ::
  "(gcmd list \<Rightarrow> ('s, greply list) py) \<Rightarrow> stream_name list \<Rightarrow> string \<Rightarrow> ('s, stream_name set) py" where
  "get_existing_worker_groups exec streams grp =
     bindM (exec (map (XINFO_GROUPS \<circ> stream_name_value) streams)) (\<lambda>results.
       pure (set (map fst (filter (\<lambda>(s, r). case r of GNames names \<Rightarrow> grp \<in> set names | _ \<Rightarrow> False) (zip streams results)))))"

text \<open>As written, the consumer stands where the group should and the group where the consumer should.\<close>

definition establish_consumer_groups ::
  "(gcmd list \<Rightarrow> ('s, greply list) py) \<Rightarrow> (stream_name \<times> string list) list \<Rightarrow> string \<Rightarrow> ('s, unit) py" where
  "establish_consumer_groups exec mapping grp =
     bindM (get_existing_worker_groups exec (map fst mapping) grp) (\<lambda>existing.
     thenM (exec (concat (map (\<lambda>(s, names).
                    (if s \<notin> existing then [XGROUP_CREATE (stream_name_value s) grp True] else []) @
                    map (\<lambda>n. XGROUP_CREATECONSUMER (stream_name_value s) n grp) names) mapping)))
       (pure ()))"

section \<open>Dead entries\<close>

text \<open>
  \<open>xrange\<close> answers the entries between two ids, an id with its fields.  \<open>xackdel\<close> acknowledges and
  deletes the ids, whether their entries were found or not.
\<close>

record 's dead_env =
  de_xpending :: "('s, pending_entry list) py"
  de_xrange :: "string \<Rightarrow> string \<Rightarrow> ('s, (string \<times> (string \<times> string) list) list) py"
  de_transfer :: "string \<Rightarrow> (string \<times> string) list list \<Rightarrow> string list \<Rightarrow> ('s, unit) py"

text \<open>\<open>tuple(map(int, s.split(''-'')))\<close>, for the two parts of an id of Redis.\<close>

definition read_stream_id :: "string \<Rightarrow> exn + stream_id" where
  "read_stream_id s =
     bindE (traverse py_int (split_on (CHR ''-'') s)) (\<lambda>ns. case ns of
       [ms, sq] \<Rightarrow> Inr (Stream_id (nat ms) (nat sq))
     | _ \<Rightarrow> Inl IndexError)"

definition reclaim_dead_events :: "'s dead_env \<Rightarrow> string \<Rightarrow> stream_name \<Rightarrow> int \<Rightarrow> ('s, unit) py" where
  "reclaim_dead_events env genexpr dlq max_deliveries =
     bindM (de_xpending env) (\<lambda>pending.
       let ids = remdups (map message_id (filter (\<lambda>p. max_deliveries \<le> times_delivered p) pending)) in
       if ids = [] then pure ()
       else bindM (lift_sum (bindE (traverse read_stream_id ids) (get_min_max_from_xread genexpr))) (\<lambda>(mn, mx).
            bindM (de_xrange env mn mx) (\<lambda>entries.
              de_transfer env (stream_name_value dlq) (map snd (filter (\<lambda>e. fst e \<in> set ids) entries)) ids)))"

section \<open>Which workers start\<close>



definition shipped_counts :: toml_table where
  "shipped_counts =
     [(''READERS'', TTable [(''STREAMS'', TTable (map (\<lambda>s. (s, TInt 1))
         [''POSTS'', ''COMMENTS'', ''FORUMS'', ''ANIMES'', ''USERS'', ''DOWNSTREAM_DELETIONS'', ''DOWNSTREAM_COUNTER_DECREMENTS'', ''DLQ'']))]),
      (''WORKERS'', TTable
        [(''STREAMS'', TTable
           [(''POSTS'', TTable (map (\<lambda>e. (e, TInt 1)) [''POST_CREATE'', ''POST_DELETE'', ''POST_VOTE'', ''POST_SAVE'', ''POST_REPORT''])),
            (''COMMENTS'', TTable (map (\<lambda>e. (e, TInt 1)) [''COMMENT_CREATE'', ''COMMENT_DELETE'', ''COMMENT_VOTE'', ''COMMENT_REPORT''])),
            (''FORUMS'', TTable (map (\<lambda>e. (e, TInt 1)) [''FORUM_DELETE'', ''FORUM_SUBSCRIBE''])),
            (''ANIMES'', TTable [(''ANIME_SUBSCRIBE'', TInt 1)]),
            (''DOWNSTREAM_DELETION'', TTable (map (\<lambda>e. (e, TInt 1)) [''USER_CLEANUP'', ''ORPHANED_POST_DELETE'', ''ORPHANED_COMMENT_DELETE''])),
            (''DOWNSTREAM_DECREMENT'', TTable (map (\<lambda>e. (e, TInt 1))
               [''DOWNSTREAM_USER_POST_DECREMENT'', ''DOWNSTREAM_USER_COMMENT_DECREMENT'', ''DOWNSTREAM_FORUM_POST_DECREMENT'',
                ''DOWNSTREAM_POST_COMMENT_DECREMENT''])),
            (''DLQ'', TTable [(''DLQ'', TInt 1)])]),
         (''COUNTERS'', TTable [(''WORKERS'', TInt 1), (''RETRY_WORKERS'', TInt 1)])])]"



text \<open>
  The counts the workers come with are under another table than the one that is read: for no
  stream are there workers, while those of the counters are found.
\<close>

theorem shipped_counts_start_nothing:
  "streams_from_toml shipped_counts stream = Inl KeyError \<and>
   counters_from_toml shipped_counts = Inr \<lparr>WORKER_COUNT = 1, RETRY_WORKER_COUNT = 1\<rparr>"
  by (cases stream)
    (simp_all add: streams_from_toml_def counters_from_toml_def shipped_counts_def subtable_def item_def bindE_def count_value_def)

text \<open>The file that is read: the counts of the readers under their tables, those of the events at the top.\<close>

definition toml_of :: "stream_workers_config \<Rightarrow> toml_table" where
  "toml_of cfg =
     [(''READERS'', TTable [(''STREAMS'', TTable [(stream_name_value (CONFIG_STREAM cfg), TInt (int (READER_COUNT cfg)))])]),
      (stream_name_value (CONFIG_STREAM cfg),
       TTable (map (\<lambda>(e, n). (event_name_value e, TInt (int n))) (EVENT_WORKER_COUNT_MAPPING cfg)))]"

text \<open>
  A configuration that passes the check of its events, with at least one reader and one worker
  for each, is read back from the file written for it.
\<close>

theorem counts_roundtrip:
  assumes "validate_event_mapping cfg = Inr cfg" and "0 < READER_COUNT cfg" and "EVENT_WORKER_COUNT_MAPPING cfg \<noteq> []"
    and "list_all (\<lambda>(e, n). 0 < n) (EVENT_WORKER_COUNT_MAPPING cfg)"
  shows "streams_from_toml (toml_of cfg) (CONFIG_STREAM cfg) = Inr cfg"
proof -
  let ?m = "EVENT_WORKER_COUNT_MAPPING cfg"
  have other: "stream_name_value (CONFIG_STREAM cfg) \<noteq> ''READERS''" by (cases "CONFIG_STREAM cfg") simp_all
  have names: "normalize_config_mapping (map (\<lambda>(e, n). (event_name_value e, TInt (int n))) ?m) =
      Inr (map (\<lambda>(e, n). (e, TInt (int n))) ?m)"
    unfolding normalize_config_mapping_def by (rule traverse_map_Inr) (auto simp: bindE_def)
  have counts: "traverse (\<lambda>(e, v). bindE (count_value v) (\<lambda>k. Inr (e, nat k))) (map (\<lambda>(e, n). (e, TInt (int n))) ?m) = Inr (map id ?m)"
    using assms(4) by (intro traverse_map_Inr) (auto simp: bindE_def count_value_def list_all_iff)
  have "streams_from_toml (toml_of cfg) (CONFIG_STREAM cfg) =
      validate_event_mapping \<lparr>CONFIG_STREAM = CONFIG_STREAM cfg, READER_COUNT = READER_COUNT cfg, EVENT_WORKER_COUNT_MAPPING = ?m\<rparr>"
    using assms(2,3) other names counts
    by (simp add: streams_from_toml_def toml_of_def subtable_def item_def bindE_def count_value_def)
  also have "\<lparr>CONFIG_STREAM = CONFIG_STREAM cfg, READER_COUNT = READER_COUNT cfg, EVENT_WORKER_COUNT_MAPPING = ?m\<rparr> = cfg"
    by (cases cfg) simp
  finally show ?thesis using assms(1) by simp
qed

theorem counts_roundtrip_witness:
  "streams_from_toml
     [(''READERS'', TTable [(''STREAMS'', TTable [(''ANIMES'', TInt 1)])]),
      (''ANIMES'', TTable [(''ANIME_SUB'', TInt 1), (''ANIME_UNSUB'', TInt 2)])] ANIMES =
   Inr \<lparr>CONFIG_STREAM = ANIMES, READER_COUNT = 1, EVENT_WORKER_COUNT_MAPPING = [(ANIME_SUB, 1), (ANIME_UNSUB, 2)]\<rparr>"
  using counts_roundtrip [of "\<lparr>CONFIG_STREAM = ANIMES, READER_COUNT = 1, EVENT_WORKER_COUNT_MAPPING = [(ANIME_SUB, 1), (ANIME_UNSUB, 2)]\<rparr>"]
  by (simp add: validate_event_mapping_def py_lookup_def Let_def bindE_def toml_of_def)

text \<open>
  C37.  In every accepted configuration the backoff time stays between the base and the maximum
  from the first attempt on, and never decreases from one attempt to the next.
\<close>

theorem accepted_backoff:
  assumes "AppConfig cpus t = Inr w" and "m \<le> n"
  shows "BASE_BACKOFF_INTERVAL (ws_policy w)
      \<le> calculate_exponential_backoff_time (MAXIMUM_BACKOFF_INTERVAL (ws_policy w)) (BASE_BACKOFF_INTERVAL (ws_policy w)) m
          (BACKOFF_EXPONENTIAL (ws_policy w)) \<and>
    calculate_exponential_backoff_time (MAXIMUM_BACKOFF_INTERVAL (ws_policy w)) (BASE_BACKOFF_INTERVAL (ws_policy w)) m
          (BACKOFF_EXPONENTIAL (ws_policy w))
      \<le> calculate_exponential_backoff_time (MAXIMUM_BACKOFF_INTERVAL (ws_policy w)) (BASE_BACKOFF_INTERVAL (ws_policy w)) n
          (BACKOFF_EXPONENTIAL (ws_policy w)) \<and>
    calculate_exponential_backoff_time (MAXIMUM_BACKOFF_INTERVAL (ws_policy w)) (BASE_BACKOFF_INTERVAL (ws_policy w)) n
          (BACKOFF_EXPONENTIAL (ws_policy w))
      \<le> MAXIMUM_BACKOFF_INTERVAL (ws_policy w)"
proof -
  let ?p = "ws_policy w"
  have p: "BASE_BACKOFF_INTERVAL ?p \<le> MAXIMUM_BACKOFF_INTERVAL ?p" "0 \<le> BASE_BACKOFF_INTERVAL ?p" "1 \<le> BACKOFF_EXPONENTIAL ?p"
    using assms(1)
    by (auto simp: AppConfig_def WorkerConfig_def bindE_eq_Inr_iff validate_backoff_values_def validate_reclamation_interval_def
        retry_fields_def int_field_Inr split: if_splits)
  have grows: "BACKOFF_EXPONENTIAL ?p ^ m \<le> BACKOFF_EXPONENTIAL ?p ^ n" using p(3) assms(2) by (rule power_increasing [rotated])
  have "1 \<le> BACKOFF_EXPONENTIAL ?p ^ m" using p(3) by simp
  then have "BASE_BACKOFF_INTERVAL ?p * 1 \<le> BASE_BACKOFF_INTERVAL ?p * BACKOFF_EXPONENTIAL ?p ^ m"
    using p(2) by (rule mult_left_mono)
  moreover have "BASE_BACKOFF_INTERVAL ?p * BACKOFF_EXPONENTIAL ?p ^ m \<le> BASE_BACKOFF_INTERVAL ?p * BACKOFF_EXPONENTIAL ?p ^ n"
    using grows p(2) by (rule mult_left_mono)
  ultimately show ?thesis using p(1) by (auto simp: calculate_exponential_backoff_time_def)
qed

text \<open>Settings that are accepted: whole numbers, under the name that is looked up.\<close>

definition demo_worker :: toml_table where
  "demo_worker =
     [(''CONSUMER_READ_INTERVAL'', TInt 500), (''CONSUMER_READ_SIZE'', TInt 1000), (''CONSUMER_BLOCK_TIME'', TInt 500),
      (''CONSUMER_GROUP_NAME'', TStr ''consumers''), (''IQ_CONSUMER_BASE_WAITING_TIME'', TInt 2),
      (''IQ_CONSUMER_GET_TIMEOUT'', TInt 1), (''IQ_CONSUMER_BATCH_SIZE_QUOTA'', TInt 10), (''IQ_CONSUMER_SLEEP_INTERVAL'', TInt 1),
      (''MAXIMUM_BACKOFF_INTERVAL'', TInt 10), (''BASE_BACKOFF_INTERVAL'', TInt 1), (''BACKOFF_EXPONENTIAL'', TInt 2),
      (''MAX_RETRIES'', TInt 2), (''RECLAIM_THRESHOLD'', TInt 120000), (''RECLAIMATION_CHECK_INTERVAL'', TInt 30000),
      (''MAX_DELIVERIES'', TInt 3), (''DLQ_NAME'', TStr '' DEAD_LETTER_QUEUE''), (''COUNTER_REGISTRY_NAME'', TStr ''counters''),
      (''COUNTER_RETRY_REGISTRY_NAME'', TStr ''counters:retries''), (''COUNTER_REGISTRY_REFRESH_INTERVAL'', TInt 1800),
      (''COUNTER_FLUSH_LOCK_TTL'', TInt 120), (''COUNTER_FLUSH_INTERVAL'', TInt 10),
      (''DOWNSTREAM_COUNTER_BATCH_SIZE'', TInt 10000), (''GRACEFUL_SHUTDOWN_PERIOD'', TInt 10)]"

definition demo_app :: toml_table where
  "demo_app =
     [(''business'', TTable demo_worker),
      (''redis'', TTable
         [(''app'', TTable [(''HOST'', TStr ''redis''), (''PORT'', TInt 6379)]),
          (''internal'', TTable [(''HOST'', TStr ''redis''), (''PORT'', TInt 6379), (''DB'', TInt 1), (''DECODE_RESPONSES'', TStr ''True'')])]),
      (''database'', TTable
         [(''POSTGRES_HOST'', TStr ''database''), (''POSTGRES_PORT'', TInt 5432), (''POSTGRES_DATABASE'', TStr ''resource_db'')])]"

lemma demo_app_accepted:
  "AppConfig 4 demo_app = Inr
     \<lparr>ws_policy = \<lparr>MAX_RETRIES = 2, MAXIMUM_BACKOFF_INTERVAL = 10, BASE_BACKOFF_INTERVAL = 1, BACKOFF_EXPONENTIAL = 2\<rparr>,
      CONSUMER_READ_INTERVAL = 500, CONSUMER_READ_SIZE = 1000, CONSUMER_BLOCK_TIME = 500, CONSUMER_GROUP_NAME = ''consumers'',
      IQ_CONSUMER_BASE_WAITING_TIME = 2, IQ_CONSUMER_GET_TIMEOUT = 1, IQ_CONSUMER_BATCH_SIZE_QUOTA = 10,
      IQ_CONSUMER_SLEEP_INTERVAL = 1, RECLAIM_THRESHOLD = 120000, RECLAIMATION_CHECK_INTERVAL = 30000, MAX_DELIVERIES = 3,
      DLQ_NAME = DEAD_LETTER_QUEUE\<rparr>"
  by code_simp

theorem accepted_backoff_witness:
  "\<exists>w. AppConfig 4 demo_app = Inr w \<and>
     calculate_exponential_backoff_time (MAXIMUM_BACKOFF_INTERVAL (ws_policy w)) (BASE_BACKOFF_INTERVAL (ws_policy w)) 7
       (BACKOFF_EXPONENTIAL (ws_policy w)) \<le> 10"
proof -
  obtain w where w: "AppConfig 4 demo_app = Inr w" "MAXIMUM_BACKOFF_INTERVAL (ws_policy w) = 10"
    using demo_app_accepted by auto
  from accepted_backoff [OF w(1), of 2 7] w show ?thesis by auto
qed


section \<open>Supervision\<close>

text \<open>
  The supervisor never returns.  It raises the exception of a worker exactly if that worker is
  the only one done and another is still running; then the others are told to stop and the ones
  that do not are cancelled.  If two workers are done at once, nobody is told.
\<close>

theorem supervisor_outcomes:
  "(\<exists>e st'. tasks_wrapper done_first pending later st = (Inl e, st')) \<and>
   (\<forall>name e. done_first = [(name, Some e)] \<and> pending \<noteq> [] \<longrightarrow>
      tasks_wrapper done_first pending later st =
        (Inl e, \<lparr>status_ok = False, cancelled = cancelled st @ filter (\<lambda>p. p \<notin> set later) pending\<rparr>)) \<and>
   (1 < length done_first \<longrightarrow> tasks_wrapper done_first pending later st = (Inl OtherException, st))"
  by (cases st) (auto simp: tasks_wrapper_def Let_def split: option.split)

theorem supervisor_outcomes_witness:
  "tasks_wrapper [(''counter-1'', Some KeyError)] [''counter-2'', ''counter-3''] [''counter-3''] \<lparr>status_ok = True, cancelled = []\<rparr> =
     (Inl KeyError, \<lparr>status_ok = False, cancelled = [''counter-2'']\<rparr>)"
  using supervisor_outcomes [of "[(''counter-1'', Some KeyError)]" "[''counter-2'', ''counter-3'']" "[''counter-3'']"
      "\<lparr>status_ok = True, cancelled = []\<rparr>"] by simp

section \<open>Groups are never established\<close>

lemma run_gcmd_groups:
  "run_gcmd c st = (r, st') \<Longrightarrow> \<forall>s gs. st s = Some gs \<longrightarrow> n \<notin> fst ` set gs \<Longrightarrow> (\<forall>s mk. c \<noteq> XGROUP_CREATE s n mk) \<Longrightarrow>
   st' s = Some gs \<Longrightarrow> n \<notin> fst ` set gs"
  by (cases c) (auto simp: image_iff split: option.splits if_splits; fastforce)+

lemma run_gcmds_parts [simp]:
  "fst (run_gcmds (c # cs) st) = fst (run_gcmd c st) # fst (run_gcmds cs (snd (run_gcmd c st)))"
  "snd (run_gcmds (c # cs) st) = snd (run_gcmds cs (snd (run_gcmd c st)))"
  by (simp_all add: case_prod_beta)

declare run_gcmds.simps(2) [simp del]

lemma missing_group_error:
  assumes "\<forall>s gs. st s = Some gs \<longrightarrow> n \<notin> fst ` set gs" and "\<forall>s mk. XGROUP_CREATE s n mk \<notin> set cs"
    and "XGROUP_CREATECONSUMER s n c \<in> set cs"
  shows "GError \<in> set (fst (run_gcmds cs st))"
  using assms
proof (induction cs arbitrary: st)
  case (Cons a cs)
  obtain r st1 where a: "run_gcmd a st = (r, st1)" by (cases "run_gcmd a st")
  show ?case
  proof (cases "a = XGROUP_CREATECONSUMER s n c")
    case True
    with a Cons.prems(1) have "r = GError" by (auto split: option.splits if_splits)
    with a show ?thesis by simp
  next
    case False
    with Cons.prems(3) have "XGROUP_CREATECONSUMER s n c \<in> set cs" by simp
    moreover have "\<forall>s gs. st1 s = Some gs \<longrightarrow> n \<notin> fst ` set gs"
      using run_gcmd_groups [OF a Cons.prems(1)] Cons.prems(2) by auto
    ultimately have "GError \<in> set (fst (run_gcmds cs st1))" using Cons.IH Cons.prems(2) by simp
    with a show ?thesis by simp
  qed
qed simp

text \<open>
  Setting up the groups never succeeds: if a consumer is not named like its group or one that
  exists, the call that should make it names it as the group, which is refused.
\<close>

theorem groups_never_established:
  assumes "documented_groups exec view" and "(stream, names) \<in> set mapping" and "n \<in> set names" and "n \<noteq> grp"
    and "\<forall>s gs. view st s = Some gs \<longrightarrow> n \<notin> fst ` set gs"
  shows "\<exists>e st'. establish_consumer_groups exec mapping grp st = (Inl e, st')"
proof -
  have info: "snd (run_gcmds (map (XINFO_GROUPS \<circ> f) xs) s) = s" for f and xs :: "stream_name list" and s
    by (induction xs) (auto split: option.split)
  let ?create = "\<lambda>existing (s, ns). (if s \<notin> existing then [XGROUP_CREATE (stream_name_value s) grp True] else []) @
      map (\<lambda>n. XGROUP_CREATECONSUMER (stream_name_value s) n grp) ns"
  show ?thesis
  proof (cases "get_existing_worker_groups exec (map fst mapping) grp st")
    case (Pair r st1)
    show ?thesis
    proof (cases r)
      case (Inl e)
      with Pair show ?thesis by (simp add: establish_consumer_groups_def)
    next
      case (Inr existing)
      with Pair obtain rs where "exec (map (XINFO_GROUPS \<circ> stream_name_value) (map fst mapping)) st = (Inr rs, st1)"
        by (auto simp: get_existing_worker_groups_def bindM_eq_Inr_iff)
      with assms(1) info [of stream_name_value "map fst mapping" "view st"] have same: "view st1 = view st"
        by (auto simp: documented_groups_def)
      let ?cs = "concat (map (?create existing) mapping)"
      have "XGROUP_CREATECONSUMER (stream_name_value stream) n grp \<in> set ?cs" using assms(2,3) by (force simp: image_iff)
      moreover have "\<forall>s mk. XGROUP_CREATE s n mk \<notin> set ?cs" using assms(4) by (auto split: if_splits)
      ultimately have "GError \<in> set (fst (run_gcmds ?cs (view st1)))"
        using missing_group_error [of "view st1" n ?cs] assms(5) same by simp
      with assms(1) have "exec ?cs st1 \<noteq> (Inr rs, st2)" for rs st2 by (auto simp: documented_groups_def)
      then obtain e st2 where "exec ?cs st1 = (Inl e, st2)" by (cases "exec ?cs st1"; cases "fst (exec ?cs st1)") auto
      with Pair Inr show ?thesis by (simp add: establish_consumer_groups_def thenM_def bindM_def)
    qed
  qed
qed

lemma group_transaction_documented: "documented_groups group_transaction id"
  by (auto simp: documented_groups_def group_transaction_def split: prod.splits if_splits)

theorem groups_never_established_witness:
  "\<exists>e st'. establish_consumer_groups group_transaction [(POSTS, [''consumer-1''])] ''consumers'' [''POSTS'' \<mapsto> []] = (Inl e, st')"
  by (rule groups_never_established [OF group_transaction_documented, where n = "''consumer-1''"]) auto

section \<open>Dead entries stay\<close>

text \<open>
  The bounds the dead entries are read between are no ids, whatever the ids are: as Redis refuses
  such bounds, no dead entry ever leaves its stream.
\<close>

theorem dead_entries_stay:
  assumes "de_xpending env st = (Inr pending, st1)" and "\<exists>p \<in> set pending. max_deliveries \<le> times_delivered p"
    and "\<And>s. \<exists>e s'. de_xrange env (join ''-'' (map (\<lambda>c. [c]) genexpr)) (join ''-'' (map (\<lambda>c. [c]) genexpr)) s = (Inl e, s')"
  shows "\<exists>e st'. reclaim_dead_events env genexpr dlq max_deliveries st = (Inl e, st')"
proof -
  let ?g = "join ''-'' (map (\<lambda>c. [c]) genexpr)"
  let ?ids = "remdups (map message_id (filter (\<lambda>p. max_deliveries \<le> times_delivered p) pending))"
  from assms(3) obtain e s' where refused: "de_xrange env ?g ?g st1 = (Inl e, s')" by blast
  from assms(2) have "?ids \<noteq> []" by (auto simp: filter_empty_conv)
  moreover have "bindE (traverse read_stream_id ?ids) (get_min_max_from_xread genexpr) = Inr (?g, ?g) \<or>
      (\<exists>e. bindE (traverse read_stream_id ?ids) (get_min_max_from_xread genexpr) = Inl e)"
    by (auto simp: bindE_def get_min_max_from_xread_def split: sum.split list.split)
  ultimately show ?thesis
    using assms(1) refused by (auto simp: reclaim_dead_events_def Let_def)
qed

end

