(* ===== verification/Tenjin_Auth_Schema.thy ===== *)
theory Tenjin_Auth_Schema
  imports Tenjin_Alembic Tenjin_Keystore
begin

text \<open>
  The database of the auth server: its mapped classes (\<^verbatim>\<open>auth_server/models/database.py\<close>), its
  migrations (\<^verbatim>\<open>auth_server/alembic/versions\<close>), and what both mean for the rows its key store and
  its staff accounts insert.
\<close>

section \<open>The mapped classes\<close>

definition auth_ADMIN_ROLES :: sql_type where
  "auth_ADMIN_ROLES = ENUM ''admin_roles'' (map admin_role_value [SUPER, STAFF])"

definition Admin_table :: "ddl list" where
  "Admin_table = [Create_Table ''admins''
     [mandatory ''id_'' INTEGER, mandatory ''username'' (VARCHAR 64), mandatory ''role'' auth_ADMIN_ROLES,
      mandatory ''password_hash'' BYTEA, Column ''time_deleted'' TIMESTAMP (Expr_Default ''null'') True,
      defaulted ''last_login'' TIMESTAMP ''CURRENT_TIMESTAMP'', defaulted ''locked'' BOOLEAN ''false'',
      mandatory ''created_by'' INTEGER, mandatory ''signing_key'' BYTEA, mandatory ''verification_key'' BYTEA]
     [(None, Primary_Key [''id_'']), (None, Unique [''username'']), link ''created_by'' ''admins'']]"

definition SuspiciousActivity_table :: "ddl list" where
  "SuspiciousActivity_table = [Create_Table ''suspicious_activities''
     [mandatory ''id_'' INTEGER, mandatory ''suspect'' INTEGER, defaulted ''time_logged'' TIMESTAMP ''CURRENT_TIMESTAMP'',
      mandatory ''description'' (VARCHAR 64)]
     [(None, Primary_Key [''id_'']), link ''suspect'' ''admins'']]"

definition KeyData_table :: "ddl list" where
  "KeyData_table = [Create_Table ''keydata''
     [mandatory ''kid'' (VARCHAR 16), Column ''alg'' (VARCHAR 8) (Text_Default ''ES256'') False, mandatory ''curve'' (VARCHAR 16),
      defaulted ''epoch'' TIMESTAMP ''CURRENT_TIMESTAMP'', Column ''rotated_out_at'' TIMESTAMP (Expr_Default ''null'') True,
      Column ''expired_at'' TIMESTAMP (Expr_Default ''null'') True, mandatory ''private_pem'' BYTEA, mandatory ''public_pem'' BYTEA,
      Column ''manual_rotation'' BOOLEAN (Expr_Default ''null'') True, nullable ''rotated_by'' INTEGER]
     [(None, Primary_Key [''kid'']), (None, Unique [''epoch'']), (None, Unique [''private_pem'']), (None, Unique [''public_pem'']),
      link ''rotated_by'' ''admins''],
   Create_Index ''ix_keydata_rotated_by'' ''keydata'' [''rotated_by'']]"

definition auth_classes :: "(string \<times> ddl list) list" where
  "auth_classes = [(''admins'', Admin_table), (''keydata'', KeyData_table), (''suspicious_activities'', SuspiciousActivity_table)]"

definition auth_mapped :: "string \<Rightarrow> db_table option" where
  "auth_mapped t = (case map_of auth_classes t of None \<Rightarrow> None | Some xs \<Rightarrow> table_after t xs None)"

section \<open>The migrations\<close>

definition rev_649f4acaf78c :: migration where
  "rev_649f4acaf78c =
     \<lparr>revision = ''649f4acaf78c'', down_revision = None,
      upgrade =
       [Create_Table ''admins''
         [mandatory ''id_'' INTEGER, mandatory ''username'' (VARCHAR 64), mandatory ''role'' (ENUM ''admin_roles'' [''staff'', ''super'']),
          mandatory ''password_hash'' BYTEA, mandatory ''password_salt'' BYTEA,
          Column ''time_deleted'' TIMESTAMP (Expr_Default ''null'') True, defaulted ''last_login'' TIMESTAMP ''CURRENT_TIMESTAMP'',
          defaulted ''locked'' BOOLEAN ''false'', mandatory ''created_by'' INTEGER]
         [link ''created_by'' ''admins'', (None, Primary_Key [''id_'']), (None, Unique [''username''])],
        Create_Table ''keydata''
         [mandatory ''kid'' (VARCHAR 16), Column ''alg'' (VARCHAR 8) (Text_Default ''ES256'') False, mandatory ''curve'' (VARCHAR 16),
          defaulted ''epoch'' TIMESTAMP ''CURRENT_TIMESTAMP'', defaulted ''rotated_out_at'' TIMESTAMP ''null'',
          defaulted ''expired_at'' TIMESTAMP ''null'', mandatory ''private_pem'' BYTEA, mandatory ''public_pem'' BYTEA,
          defaulted ''manual_rotation'' BOOLEAN ''false'', mandatory ''rotated_by'' INTEGER]
         [link ''rotated_by'' ''admins'', (None, Primary_Key [''kid'']), (None, Unique [''epoch'']), (None, Unique [''private_pem'']),
          (None, Unique [''public_pem''])],
        Create_Index ''ix_keydata_rotated_by'' ''keydata'' [''rotated_by''],
        Create_Table ''suspicious_activities''
         [mandatory ''id_'' INTEGER, mandatory ''suspect'' INTEGER, defaulted ''time_logged'' TIMESTAMP ''CURRENT_TIMESTAMP'',
          mandatory ''description'' (VARCHAR 64)]
         [link ''suspect'' ''admins'', (None, Primary_Key [''id_''])]],
      downgrade =
       [Drop_Table ''suspicious_activities'', Drop_Index ''ix_keydata_rotated_by'' ''keydata'', Drop_Table ''keydata'',
        Drop_Table ''admins'']\<rparr>"

text \<open>The revision that is named after an enumeration of permissions does nothing.\<close>

definition rev_8ede8d8bdb6a :: migration where
  "rev_8ede8d8bdb6a = \<lparr>revision = ''8ede8d8bdb6a'', down_revision = Some ''649f4acaf78c'', upgrade = [], downgrade = []\<rparr>"

definition rev_c3f9b8d5e5f5 :: migration where
  "rev_c3f9b8d5e5f5 =
     \<lparr>revision = ''c3f9b8d5e5f5'', down_revision = Some ''8ede8d8bdb6a'',
      upgrade = [Add_Column ''admins'' (mandatory ''signing_key'' BYTEA), Add_Column ''admins'' (mandatory ''verification_key'' BYTEA)],
      downgrade = [Drop_Column ''admins'' ''verification_key'', Drop_Column ''admins'' ''signing_key'']\<rparr>"

definition rev_792513ee857c :: migration where
  "rev_792513ee857c =
     \<lparr>revision = ''792513ee857c'', down_revision = Some ''c3f9b8d5e5f5'',
      upgrade = [Drop_Column ''admins'' ''password_salt''],
      downgrade = [Add_Column ''admins'' (mandatory ''password_salt'' BYTEA)]\<rparr>"

definition rev_936866dd9020 :: migration where
  "rev_936866dd9020 =
     \<lparr>revision = ''936866dd9020'', down_revision = Some ''792513ee857c'',
      upgrade = [Alter_Nullable ''keydata'' ''rotated_out_at'' True, Alter_Nullable ''keydata'' ''expired_at'' True,
        Alter_Nullable ''keydata'' ''manual_rotation'' True, Alter_Nullable ''keydata'' ''rotated_by'' True],
      downgrade = [Alter_Nullable ''keydata'' ''rotated_by'' False, Alter_Nullable ''keydata'' ''manual_rotation'' False,
        Alter_Nullable ''keydata'' ''expired_at'' False, Alter_Nullable ''keydata'' ''rotated_out_at'' False]\<rparr>"

definition auth_scripts :: "migration list" where
  "auth_scripts = [rev_649f4acaf78c, rev_792513ee857c, rev_8ede8d8bdb6a, rev_936866dd9020, rev_c3f9b8d5e5f5]"

definition auth_history :: "migration list" where
  "auth_history = path (length auth_scripts) auth_scripts None"

definition schema_after :: "migration list \<Rightarrow> db_schema" where
  "schema_after ms = (case run_upgrades no_rows ms empty_schema of Inr s \<Rightarrow> s | Inl e \<Rightarrow> empty_schema)"

section \<open>Rows\<close>

text \<open>The values \<open>insert_keydata\<close>, a rotation and \<open>create_admin\<close> insert; the other columns are left to their defaults.\<close>

definition keydata_values :: "string \<Rightarrow> ecdsa_pair \<Rightarrow> string \<Rightarrow> string \<Rightarrow> orm_row" where
  "keydata_values key_id pair algorithm now =
     [(''kid'', FStr key_id), (''alg'', FStr algorithm), (''curve'', FStr SECP256k1), (''epoch'', FTime now),
      (''private_pem'', FStr (signing_pem pair)), (''public_pem'', FStr (verifying_pem pair))]"

definition rotation_values :: "ecdsa_pair \<Rightarrow> orm_row" where
  "rotation_values pair =
     [(''kid'', FStr (pair_kid pair)), (''curve'', FStr SECP256k1), (''private_pem'', FStr (signing_pem pair)),
      (''public_pem'', FStr (verifying_pem pair))]"

definition admin_values :: "string \<Rightarrow> string \<Rightarrow> int \<Rightarrow> string \<Rightarrow> string \<Rightarrow> orm_row" where
  "admin_values identity pw_hash creator signing verifying =
     [(''username'', FStr identity), (''password_hash'', FStr pw_hash), (''role'', FStr (admin_role_value STAFF)),
      (''created_by'', FInt creator), (''signing_key'', FStr signing), (''verification_key'', FStr verifying)]"

text \<open>What the rows of the key store decide about a migration of its table.\<close>

definition keydata_contents :: "key_row list \<Rightarrow> contents" where
  "keydata_contents rows =
     \<lparr>populated = (\<lambda>t. t = ''keydata'' \<and> rows \<noteq> []),
      has_null = (\<lambda>t c. t = ''keydata'' \<and>
        list_ex (\<lambda>r. c = ''rotated_out_at'' \<and> rotated_out_at r = None \<or> c = ''expired_at'' \<and> expired_at r = None \<or>
                    c = ''manual_rotation'' \<and> manual_rotation r = None \<or> c = ''rotated_by'' \<and> rotated_by r = None) rows),
      overlong = (\<lambda>_ _. False)\<rparr>"

section \<open>The run\<close>

lemmas auth_rev_defs =
  rev_649f4acaf78c_def rev_8ede8d8bdb6a_def rev_c3f9b8d5e5f5_def rev_792513ee857c_def rev_936866dd9020_def

lemma auth_history_list:
  "auth_history = [rev_649f4acaf78c, rev_8ede8d8bdb6a, rev_c3f9b8d5e5f5, rev_792513ee857c, rev_936866dd9020]"
proof -
  have "length auth_scripts = 5" by (simp add: auth_scripts_def)
  then show ?thesis by (simp add: auth_history_def auth_scripts_def auth_rev_defs eval_nat_numeral)
qed

definition auth_head :: db_schema where
  "auth_head = schema_after [rev_649f4acaf78c, rev_8ede8d8bdb6a, rev_c3f9b8d5e5f5, rev_792513ee857c, rev_936866dd9020]"

definition role_differences ::
  "string \<Rightarrow> (string \<times> sql_type \<times> bool) list \<times> (string \<times> sql_type \<times> bool) list" where
  "role_differences t =
     (if t = ''admins''
      then ([(''role'', ENUM ''admin_roles'' [''staff'', ''super''], False)], [(''role'', ENUM ''admin_roles'' [''super'', ''staff''], False)])
      else ([], []))"

lemma auth_run:
  "case run_upgrades no_rows [rev_649f4acaf78c, rev_8ede8d8bdb6a, rev_c3f9b8d5e5f5, rev_792513ee857c, rev_936866dd9020] empty_schema of
     Inr s \<Rightarrow>
       s_types s = [(''admin_roles'', [''staff'', ''super''])] \<and>
       map t_name (s_tables s) = map fst auth_classes \<and>
       list_all (\<lambda>tb. auth_mapped (t_name tb) \<noteq> None \<and>
          column_differences (Some tb) (auth_mapped (t_name tb)) = role_differences (t_name tb) \<and>
          primary_key (Some tb) = primary_key (auth_mapped (t_name tb)) \<and>
          set (map snd (t_constraints tb)) = set (map snd (t_constraints (the (auth_mapped (t_name tb))))) \<and>
          t_indexes tb = t_indexes (the (auth_mapped (t_name tb))) \<and>
          filter (\<lambda>c. c \<notin> set (t_columns (the (auth_mapped (t_name tb)))) \<and> (case c_type c of ENUM _ _ \<Rightarrow> False | _ \<Rightarrow> True)) (t_columns tb) =
            (if t_name tb = ''keydata'' then [Column ''manual_rotation'' BOOLEAN (Expr_Default ''false'') True] else [])) (s_tables s)
   | Inl e \<Rightarrow> False"
  by code_simp

lemma auth_head_run: "run_upgrades no_rows auth_history empty_schema = Inr auth_head"
  using auth_run by (auto simp: auth_history_list auth_head_def schema_after_def split: sum.splits)

lemmas auth_checked = auth_run [folded auth_history_list, unfolded auth_head_run sum.case]

lemma auth_head_ok: "schema_ok auth_head"
  using auth_head_run apply_all_ok [OF schema_ok_created [OF empty_schema_ok]] by (auto simp: run_upgrades_def)

lemma auth_unmapped: "t \<notin> fst ` set auth_classes \<Longrightarrow> auth_mapped t = None"
  by (simp add: auth_mapped_def map_of_eq_None_iff [symmetric])

lemma auth_head_keydata:
  "case find_table ''keydata'' auth_head of
     None \<Rightarrow> False
   | Some tb \<Rightarrow>
       t_columns tb =
         [mandatory ''kid'' (VARCHAR 16), Column ''alg'' (VARCHAR 8) (Text_Default ''ES256'') False, mandatory ''curve'' (VARCHAR 16),
          defaulted ''epoch'' TIMESTAMP ''CURRENT_TIMESTAMP'', Column ''rotated_out_at'' TIMESTAMP (Expr_Default ''null'') True,
          Column ''expired_at'' TIMESTAMP (Expr_Default ''null'') True, mandatory ''private_pem'' BYTEA, mandatory ''public_pem'' BYTEA,
          Column ''manual_rotation'' BOOLEAN (Expr_Default ''false'') True, nullable ''rotated_by'' INTEGER] \<and>
       list_all (\<lambda>(n, k). case k of Check e \<Rightarrow> False | _ \<Rightarrow> True) (t_constraints tb)"
  by code_simp

text \<open>
  C14.  The migrations of the auth server lead from the empty database to the tables of its classes:
  the same tables, the same columns with the same types, the same of them nullable, and the same
  primary keys, except that the enumeration of the roles has its two labels the other way round.
  They do not agree in every default: whether a rotation was manual is false where the class has it
  unknown.
\<close>

theorem auth_migrations_match_models:
  "run_upgrades no_rows auth_history empty_schema = Inr auth_head \<and>
   (find_table t auth_head = None \<longleftrightarrow> auth_mapped t = None) \<and>
   column_differences (find_table t auth_head) (auth_mapped t) =
     (if t = ''admins''
      then ([(''role'', ENUM ''admin_roles'' [''staff'', ''super''], False)], [(''role'', ENUM ''admin_roles'' [''super'', ''staff''], False)])
      else ([], [])) \<and>
   primary_key (find_table t auth_head) = primary_key (auth_mapped t) \<and>
   map_option (\<lambda>tb. map c_default (filter (\<lambda>c. c_name c = ''manual_rotation'') (t_columns tb))) (find_table ''keydata'' auth_head) =
     Some [Expr_Default ''false''] \<and>
   map_option (\<lambda>tb. map c_default (filter (\<lambda>c. c_name c = ''manual_rotation'') (t_columns tb))) (auth_mapped ''keydata'') =
     Some [Expr_Default ''null'']"
proof (intro conjI)
  have names: "map t_name (s_tables auth_head) = map fst auth_classes" using auth_checked by (elim conjE)
  let ?P = "\<lambda>t x y. (x = None \<longleftrightarrow> y = None) \<and> column_differences x y = role_differences t \<and> primary_key x = primary_key y"
  have all: "list_all (\<lambda>tb. ?P (t_name tb) (Some tb) (auth_mapped (t_name tb))) (s_tables auth_head)"
    using auth_checked by (simp add: list_all_iff)
  have none: "?P t None None" if "t \<notin> fst ` set auth_classes" for t
    using that by (auto simp: role_differences_def auth_classes_def column_differences_def column_shapes_def)
  have match: "?P t (find_table t auth_head) (auth_mapped t)"
    by (rule tables_match [where P = ?P, OF auth_head_ok all none names auth_unmapped])
  show "find_table t auth_head = None \<longleftrightarrow> auth_mapped t = None" using match by (elim conjE)
  show "column_differences (find_table t auth_head) (auth_mapped t) =
      (if t = ''admins''
       then ([(''role'', ENUM ''admin_roles'' [''staff'', ''super''], False)], [(''role'', ENUM ''admin_roles'' [''super'', ''staff''], False)])
       else ([], []))"
    using match unfolding role_differences_def by (elim conjE)
  show "primary_key (find_table t auth_head) = primary_key (auth_mapped t)" using match by (elim conjE)
  show "map_option (\<lambda>tb. map c_default (filter (\<lambda>c. c_name c = ''manual_rotation'') (t_columns tb))) (find_table ''keydata'' auth_head) =
      Some [Expr_Default ''false'']"
    using auth_head_keydata by (auto split: option.splits)
  show "map_option (\<lambda>tb. map c_default (filter (\<lambda>c. c_name c = ''manual_rotation'') (t_columns tb))) (auth_mapped ''keydata'') =
      Some [Expr_Default ''null'']"
    by code_simp
qed (rule auth_head_run)

section \<open>Keys need the last revision\<close>

lemma before_last:
  "list_all (\<lambda>ms. case find_table ''keydata'' (schema_after ms) of
       None \<Rightarrow> ms = []
     | Some tb \<Rightarrow> mandatory ''rotated_by'' INTEGER \<in> set (t_columns tb) \<and> distinct (column_names tb))
     [[], [rev_649f4acaf78c], [rev_649f4acaf78c, rev_8ede8d8bdb6a], [rev_649f4acaf78c, rev_8ede8d8bdb6a, rev_c3f9b8d5e5f5],
      [rev_649f4acaf78c, rev_8ede8d8bdb6a, rev_c3f9b8d5e5f5, rev_792513ee857c]]"
  by code_simp

text \<open>
  C15.  At the head the database takes the rows of the key store, both those made at a start and
  those made by a rotation, as long as the id and the algorithm fit their columns, in length and
  without the character NUL (an id is the decimal form of a number below ten million).  Keys that
  must be unique and references to other rows are not looked at.  At no earlier
  revision does it take any: the column for the admin that rotated a key out has no value yet.
\<close>

theorem keys_need_last_revision:
  assumes "length key_id \<le> 16" and "length algorithm \<le> 8" and "length (pair_kid pair) \<le> 16"
    and "CHR 0x00 \<notin> set key_id" and "CHR 0x00 \<notin> set algorithm" and "CHR 0x00 \<notin> set (pair_kid pair)"
  shows "admits m now nxt auth_head ''keydata'' (keydata_values key_id pair algorithm now') \<and>
    admits m now nxt auth_head ''keydata'' (rotation_values pair) \<and>
    (\<forall>n < 5. \<not> admits m now nxt (schema_after (take n auth_history)) ''keydata'' (keydata_values key_id pair algorithm now') \<and>
             \<not> admits m now nxt (schema_after (take n auth_history)) ''keydata'' (rotation_values pair))"
proof (intro conjI allI impI)
  from auth_head_keydata obtain tb where tb: "find_table ''keydata'' auth_head = Some tb"
    and cols: "t_columns tb =
         [mandatory ''kid'' (VARCHAR 16), Column ''alg'' (VARCHAR 8) (Text_Default ''ES256'') False, mandatory ''curve'' (VARCHAR 16),
          defaulted ''epoch'' TIMESTAMP ''CURRENT_TIMESTAMP'', Column ''rotated_out_at'' TIMESTAMP (Expr_Default ''null'') True,
          Column ''expired_at'' TIMESTAMP (Expr_Default ''null'') True, mandatory ''private_pem'' BYTEA, mandatory ''public_pem'' BYTEA,
          Column ''manual_rotation'' BOOLEAN (Expr_Default ''false'') True, nullable ''rotated_by'' INTEGER]"
    and ks: "list_all (\<lambda>(n, k). case k of Check e \<Rightarrow> False | _ \<Rightarrow> True) (t_constraints tb)"
    by (auto split: option.splits)
  from ks have checks: "list_all (\<lambda>(n, k). case k of Check e \<Rightarrow> eval_check m r e \<noteq> Some False | _ \<Rightarrow> True) (t_constraints tb)" for r
    by (auto simp: list_all_iff split: db_constraint.splits)
  have null: "int_of_str ''null'' = None" by code_simp
  show "admits m now nxt auth_head ''keydata'' (keydata_values key_id pair algorithm now')"
    using assms checks
    by (simp add: admits_def tb column_names_def cols keydata_values_def completed_def default_value_def null column_admits_def col_def
        SECP256k1_def)
  show "admits m now nxt auth_head ''keydata'' (rotation_values pair)"
    using assms checks
    by (simp add: admits_def tb column_names_def cols rotation_values_def completed_def default_value_def null column_admits_def col_def
        SECP256k1_def)
next
  fix n :: nat assume n: "n < 5"
  have "take n auth_history \<in> set [[], [rev_649f4acaf78c], [rev_649f4acaf78c, rev_8ede8d8bdb6a],
      [rev_649f4acaf78c, rev_8ede8d8bdb6a, rev_c3f9b8d5e5f5], [rev_649f4acaf78c, rev_8ede8d8bdb6a, rev_c3f9b8d5e5f5, rev_792513ee857c]]"
    using n unfolding auth_history_list by (auto simp: less_Suc_eq eval_nat_numeral)
  with before_last have before: "case find_table ''keydata'' (schema_after (take n auth_history)) of
       None \<Rightarrow> True
     | Some tb \<Rightarrow> mandatory ''rotated_by'' INTEGER \<in> set (t_columns tb) \<and> distinct (column_names tb)"
    by (auto simp: list_all_iff split: option.splits)
  have refused: "\<not> admits m now nxt (schema_after (take n auth_history)) ''keydata'' r" if "map_of r ''rotated_by'' = None" for r
  proof (cases "find_table ''keydata'' (schema_after (take n auth_history))")
    case None
    then show ?thesis by (simp add: admits_def)
  next
    case (Some tb)
    with before have c: "mandatory ''rotated_by'' INTEGER \<in> set (t_columns tb)" "distinct (column_names tb)" by simp_all
    from completed_col [OF c(2,1), of now nxt r] that show ?thesis
      by (intro column_refused [OF Some c(1)]) (simp add: column_admits_def default_value_def)
  qed
  show "\<not> admits m now nxt (schema_after (take n auth_history)) ''keydata'' (keydata_values key_id pair algorithm now')"
    by (rule refused) (simp add: keydata_values_def)
  show "\<not> admits m now nxt (schema_after (take n auth_history)) ''keydata'' (rotation_values pair)"
    by (rule refused) (simp add: rotation_values_def)
qed

theorem keys_need_last_revision_witness:
  "admits (\<lambda>_ _. True) ''now'' 1 auth_head ''keydata''
     (keydata_values ''1234567'' \<lparr>pair_kid = ''1234567'', signing_pem = ''private'', verifying_pem = ''public''\<rparr> ''ES256'' ''then'') \<and>
   \<not> admits (\<lambda>_ _. True) ''now'' 1 (schema_after (take 4 auth_history)) ''keydata''
     (rotation_values \<lparr>pair_kid = ''1234567'', signing_pem = ''private'', verifying_pem = ''public''\<rparr>)"
  using keys_need_last_revision [of "''1234567''" "''ES256''" "\<lparr>pair_kid = ''1234567'', signing_pem = ''private'', verifying_pem = ''public''\<rparr>"
      "\<lambda>_ _. True" "''now''" 1 "''then''"] by simp

section \<open>Where rows stand in the way\<close>

text \<open>
  An admin of the staff is in the way of two migrations: a column for its key is added with no
  value for it, and the way back does the same with the salt.
\<close>

theorem staff_block_migrations:
  assumes "populated d ''admins''"
  shows "(\<exists>e. run_upgrades d [rev_c3f9b8d5e5f5] s = Inl e) \<and> (\<exists>e. run_downgrade d rev_792513ee857c s = Inl e)"
proof -
  have blocked: "\<exists>e. apply_ddl d (Add_Column ''admins'' (mandatory c BYTEA)) s = Inl e" for c s
    using assms by (cases "find_table ''admins'' s") (auto simp: in_table_def bindE_def split: if_splits)
  show ?thesis
    using doomed [OF _ blocked [of "''signing_key''"], of "upgrade rev_c3f9b8d5e5f5" "s\<lparr>s_created := []\<rparr>"]
      doomed [OF _ blocked [of "''password_salt''"], of "downgrade rev_792513ee857c" "s\<lparr>s_created := []\<rparr>"]
    by (simp add: run_upgrades_def run_downgrade_def rev_c3f9b8d5e5f5_def rev_792513ee857c_def)
qed

lemma null_stops:
  assumes "find_table t s = Some tb" and "set cs \<subseteq> set (column_names tb)" and "list_ex (has_null d t) cs"
  shows "apply_all d (map (\<lambda>c. Alter_Nullable t c False) cs) s = Inl IntegrityError"
  using assms
proof (induction cs arbitrary: s tb)
  case (Cons c cs)
  show ?case
  proof (cases "has_null d t c")
    case True
    with Cons.prems show ?thesis by (simp add: in_table_def bindE_def)
  next
    case False
    let ?f = "\<lambda>tb. tb\<lparr>t_columns := map (\<lambda>x. if c_name x = c then Column c (c_type x) (c_default x) False else x) (t_columns tb)\<rparr>"
    have "find_table t (update_table t ?f s) = Some (?f tb)" using Cons.prems(1) by (simp add: find_update)
    moreover have "column_names (?f tb) = column_names tb" by (auto simp: column_names_def comp_def)
    ultimately have "apply_all d (map (\<lambda>c. Alter_Nullable t c False) cs) (update_table t ?f s) = Inl IntegrityError"
      using Cons.IH [of "update_table t ?f s" "?f tb"] Cons.prems(2,3) False by simp
    with Cons.prems False show ?thesis by (simp add: in_table_def bindE_def)
  qed
qed simp

text \<open>
  The last migration cannot be taken back while the key store works: in every state its
  operations keep to, whichever of the files are written, there is a key that is neither rotated out nor expired, and the way down
  forbids just these.
\<close>

theorem working_keystore_blocks_downgrade:
  assumes "store_inv written max_valid w"
  shows "run_downgrade (keydata_contents (keydata w)) rev_936866dd9020 auth_head = Inl IntegrityError"
proof -
  from assms have "table_inv max_valid (clock w) (keydata w)" by (simp add: store_inv_def)
  then obtain old a where a: "keydata w = old @ [a]" "active_row a" by (rule table_invE)
  from auth_head_keydata obtain tb where tb: "find_table ''keydata'' auth_head = Some tb"
    and cols: "{''rotated_by'', ''manual_rotation'', ''expired_at'', ''rotated_out_at''} \<subseteq> set (column_names tb)"
    by (auto simp: column_names_def split: option.splits)
  have there: "find_table ''keydata'' (auth_head\<lparr>s_created := []\<rparr>) = Some tb" using tb by (simp add: find_table_def)
  have "list_ex (has_null (keydata_contents (keydata w)) ''keydata'')
      [''rotated_by'', ''manual_rotation'', ''expired_at'', ''rotated_out_at'']"
    using a by (simp add: keydata_contents_def list_ex_iff)
  from null_stops [OF there _ this] cols show ?thesis by (simp add: run_downgrade_def rev_936866dd9020_def)
qed

theorem working_keystore_blocks_downgrade_witness:
  "run_downgrade (keydata_contents (keydata demo_keystore)) rev_936866dd9020 auth_head = Inl IntegrityError"
  by (rule working_keystore_blocks_downgrade [OF demo_keystore_inv [of 1 True]]) simp

text \<open>
  The first migration cannot be made a second time after it was taken back: the type of the
  roles stays behind.
\<close>

theorem init_not_repeatable:
  "bindE (run_upgrades no_rows [rev_649f4acaf78c] empty_schema) (\<lambda>s1. bindE (run_downgrade no_rows rev_649f4acaf78c s1) (\<lambda>s2.
     run_upgrades no_rows [rev_649f4acaf78c] s2)) = Inl SQLAlchemyError"
  by code_simp

end
