(* ===== verification/Tenjin_Genesis.thy ===== *)
theory Tenjin_Genesis
  imports Py_Text
begin

text \<open>
  The script that fills the database (\<^verbatim>\<open>resource_server/scripts/genesis.py\<close>): it fetches animes one by
  one and inserts each with its links, its genres and a forum, in a transaction with a savepoint
  after every anime.  The database and the service it fetches from are parameters; of the
  database there is how a transaction behaves.  What goes to the log is left out.
\<close>

section \<open>A connection\<close>

text \<open>
  \<open>pg_current\<close> is the database as the transaction sees it, \<open>pg_saves\<close> its savepoints with what
  it was like at each, the latest first.  After an error nothing but going back is possible.
\<close>

record 'd pg =
  pg_committed :: 'd
  pg_current :: 'd
  pg_failed :: bool
  pg_saves :: "(nat \<times> 'd) list"

datatype g_stmt =
    Select_Tenjin | Insert_Tenjin string | Select_Genres | Insert_Genre string | Select_Anime nat
  | Insert_Anime nat string "string option" | Insert_Links "(nat \<times> string \<times> string) list" | Insert_Anime_Genres "(nat \<times> int) list"
  | Insert_Forum string nat string | Insert_Forum_Admins "(int \<times> int \<times> string) list"

datatype g_reply = G_Done | G_Found bool | G_Id int | G_Genres "(string \<times> int) list"

record anime_data =
  ad_title :: string
  ad_synopsis :: "string option"
  ad_streaming :: "(string \<times> string) list"
  ad_genres :: "string list"

text \<open>
  \<open>ge_fetch\<close> is \<open>None\<close> for a response that is an error, and raises for one that is not of the
  expected shape; \<open>ge_lost\<close> are the exceptions of a lost connection.
\<close>

record 'd genesis_env =
  ge_apply :: "g_stmt \<Rightarrow> 'd \<Rightarrow> exn + g_reply \<times> 'd"
  ge_fetch :: "nat \<Rightarrow> (exn + anime_data) option"
  ge_lost :: "exn \<Rightarrow> bool"
  ge_lower :: "string \<Rightarrow> string"
  exclude_genres :: "string list"
  anime_count :: int

record 'd genesis =
  gs_pg :: "'d pg"
  existing_genres :: "(string \<times> int) list"
  genres_to_add :: "int list"
  latest_valid_checkpoint :: nat
  forums_created :: "int list"
  animes_inserted :: nat

definition g_exec :: "'d genesis_env \<Rightarrow> g_stmt \<Rightarrow> ('d genesis, g_reply) py" where
  "g_exec env st s =
     (if pg_failed (gs_pg s) then (Inl InternalError, s)
      else case ge_apply env st (pg_current (gs_pg s)) of
             Inl e \<Rightarrow> (Inl e, s\<lparr>gs_pg := (gs_pg s)\<lparr>pg_failed := True\<rparr>\<rparr>)
           | Inr (r, d) \<Rightarrow> (Inr r, s\<lparr>gs_pg := (gs_pg s)\<lparr>pg_current := d\<rparr>\<rparr>))"

definition g_savepoint :: "('d genesis, unit) py" where
  "g_savepoint s =
     (let p = gs_pg s in
      if pg_failed p then (Inl InternalError, s)
      else (Inr (), s\<lparr>gs_pg := p\<lparr>pg_saves := (latest_valid_checkpoint s, pg_current p) # pg_saves p\<rparr>\<rparr>))"

definition g_rollback_to :: "('d genesis, unit) py" where
  "g_rollback_to s =
     (let p = gs_pg s; n = latest_valid_checkpoint s in
      case map_of (pg_saves p) n of
        None \<Rightarrow> (Inl InternalError, s\<lparr>gs_pg := p\<lparr>pg_failed := True\<rparr>\<rparr>)
      | Some d \<Rightarrow>
          (Inr (), s\<lparr>gs_pg := p\<lparr>pg_current := d, pg_failed := False, pg_saves := dropWhile (\<lambda>x. fst x \<noteq> n) (pg_saves p)\<rparr>\<rparr>))"

text \<open>A failed transaction is rolled back by its commit.\<close>

definition g_commit :: "('d genesis, unit) py" where
  "g_commit s =
     (let p = gs_pg s; d = if pg_failed p then pg_committed p else pg_current p in
      (Inr (), s\<lparr>gs_pg := \<lparr>pg_committed = d, pg_current = d, pg_failed = False, pg_saves = []\<rparr>\<rparr>))"

section \<open>One anime\<close>

text \<open>A dictionary of pairs: the place of the first, the value of the last.\<close>

fun dict_put :: "string \<Rightarrow> 'v \<Rightarrow> (string \<times> 'v) list \<Rightarrow> (string \<times> 'v) list" where
  "dict_put k v [] = [(k, v)]"
| "dict_put k v ((k', v') # d) = (if k = k' then (k, v) # d else (k', v') # dict_put k v d)"

definition dict_of :: "(string \<times> 'v) list \<Rightarrow> (string \<times> 'v) list" where
  "dict_of ps = fold (\<lambda>(k, v). dict_put k v) ps []"

definition known_genre :: "(string \<times> int) list \<Rightarrow> string \<Rightarrow> bool" where
  "known_genre gs g \<longleftrightarrow> (case map_of gs g of None \<Rightarrow> False | Some i \<Rightarrow> i \<noteq> 0)"

text \<open>A genre that is new is inserted and committed at once, which ends the transaction.\<close>

definition genre_id :: "'d genesis_env \<Rightarrow> string \<Rightarrow> ('d genesis, int) py" where
  "genre_id env g s =
     (if known_genre (existing_genres s) g then (Inr (the (map_of (existing_genres s) g)), s)
      else bindM (g_exec env (Insert_Genre g)) (\<lambda>r. case r of
             G_Id i \<Rightarrow> (\<lambda>s. thenM g_commit (pure i) (s\<lparr>existing_genres := dict_put g i (existing_genres s)\<rparr>))
           | _ \<Rightarrow> raise TypeError) s)"

text \<open>The value is whether a genre is to be left out; those before it are gathered all the same.\<close>

fun add_genres :: "'d genesis_env \<Rightarrow> string list \<Rightarrow> ('d genesis, bool) py" where
  "add_genres env [] = pure False"
| "add_genres env (g # gs) =
     (if g \<in> set (exclude_genres env) then pure True
      else bindM (genre_id env g) (\<lambda>i s. add_genres env gs (s\<lparr>genres_to_add := List.insert i (genres_to_add s)\<rparr>)))"

definition capitalize :: "'d genesis_env \<Rightarrow> string \<Rightarrow> string" where
  "capitalize env title = ''Auto-generated forum by tenjin for '' @ ge_lower env title"

definition insert_anime :: "'d genesis_env \<Rightarrow> nat \<Rightarrow> anime_data \<Rightarrow> ('d genesis, bool) py" where
  "insert_anime env i a =
     thenM (g_exec env (Insert_Anime i (ad_title a) (ad_synopsis a)))
     (thenM (g_exec env (Insert_Links (map (\<lambda>(website, url). (i, url, website)) (dict_of (ad_streaming a)))))
     (thenM (\<lambda>s. g_exec env (Insert_Anime_Genres (map (\<lambda>g. (i, g)) (genres_to_add s))) s)
     (bindM (g_exec env (Insert_Forum (ad_title a) i (capitalize env (ad_title a)))) (\<lambda>r. case r of
        G_Id f \<Rightarrow>
          (\<lambda>s. thenM g_savepoint
                 (\<lambda>s. (Inr (int (Suc (animes_inserted s)) = anime_count env),
                       s\<lparr>genres_to_add := [], animes_inserted := Suc (animes_inserted s)\<rparr>))
                 (s\<lparr>forums_created := List.insert f (forums_created s),
                    latest_valid_checkpoint := Suc (latest_valid_checkpoint s)\<rparr>))
      | _ \<Rightarrow> raise TypeError))))"

text \<open>The value is whether the loop is left.\<close>

definition process_anime :: "'d genesis_env \<Rightarrow> nat \<Rightarrow> ('d genesis, bool) py" where
  "process_anime env i =
     bindM (g_exec env (Select_Anime i)) (\<lambda>r.
       if r = G_Found True then pure False
       else case ge_fetch env i of
              None \<Rightarrow> pure False
            | Some (Inl e) \<Rightarrow> raise e
            | Some (Inr a) \<Rightarrow>
                bindM (add_genres env (ad_genres a)) (\<lambda>exclusion.
                  if exclusion then pure False
                  else tryM (insert_anime env i a)
                         (\<lambda>e. if ge_lost env e then raise OtherException else thenM g_rollback_to (pure False))))"

section \<open>The script\<close>

fun genesis_loop :: "'d genesis_env \<Rightarrow> nat list \<Rightarrow> ('d genesis, unit) py" where
  "genesis_loop env [] = pure ()"
| "genesis_loop env (i # ids) = bindM (process_anime env i) (\<lambda>leave. if leave then pure () else genesis_loop env ids)"

definition iterations :: "int \<Rightarrow> int option \<Rightarrow> int" where
  "iterations count max_iterations =
     (case max_iterations of
        None \<Rightarrow> count
      | Some m \<Rightarrow> if m = 0 then count else if m < count then count else m)"

definition ensure_superuser :: "'d genesis_env \<Rightarrow> string \<Rightarrow> ('d genesis, unit) py" where
  "ensure_superuser env pw_hash =
     bindM (g_exec env Select_Tenjin) (\<lambda>r.
       if r = G_Found True then pure () else thenM (g_exec env (Insert_Tenjin pw_hash)) g_commit)"

definition genesis_main :: "'d genesis_env \<Rightarrow> string \<Rightarrow> int option \<Rightarrow> ('d genesis, nat) py" where
  "genesis_main env pw_hash max_iterations =
     thenM (ensure_superuser env pw_hash)
     (bindM (g_exec env Select_Genres) (\<lambda>r s.
        thenM g_savepoint
        (thenM (genesis_loop env [1 ..< Suc (nat (iterations (anime_count env) max_iterations))])
        (thenM g_commit
        (thenM (\<lambda>s. g_exec env (Insert_Forum_Admins (map (\<lambda>f. (f, 1, ''owner'')) (forums_created s))) s)
        (thenM g_commit
           (\<lambda>s. (Inr (animes_inserted s), s))))))
        (s\<lparr>existing_genres := (case r of G_Genres gs \<Rightarrow> dict_of gs | _ \<Rightarrow> [])\<rparr>)))"

definition genesis_start :: "'d \<Rightarrow> 'd genesis" where
  "genesis_start d =
     \<lparr>gs_pg = \<lparr>pg_committed = d, pg_current = d, pg_failed = False, pg_saves = []\<rparr>, existing_genres = [], genres_to_add = [],
      latest_valid_checkpoint = 1, forums_created = [], animes_inserted = 0\<rparr>"

section \<open>What a step leaves as it was\<close>

lemma g_exec_frame:
  "g_exec env st s = (r, s') \<Longrightarrow>
     animes_inserted s' = animes_inserted s \<and> latest_valid_checkpoint s' = latest_valid_checkpoint s \<and>
     pg_committed (gs_pg s') = pg_committed (gs_pg s) \<and> pg_saves (gs_pg s') = pg_saves (gs_pg s) \<and>
     existing_genres s' = existing_genres s \<and> genres_to_add s' = genres_to_add s \<and>
     (\<forall>x. r = Inr x \<longrightarrow> \<not> pg_failed (gs_pg s) \<and> \<not> pg_failed (gs_pg s'))"
  by (auto simp: g_exec_def split: if_splits sum.splits prod.splits)

lemma g_exec_ok:
  "\<not> pg_failed (gs_pg s) \<Longrightarrow> ge_apply env st (pg_current (gs_pg s)) = Inr (r, d) \<Longrightarrow>
     g_exec env st s = (Inr r, s\<lparr>gs_pg := (gs_pg s)\<lparr>pg_current := d\<rparr>\<rparr>)"
  by (simp add: g_exec_def)

lemma genre_id_known: "known_genre (existing_genres s) g \<Longrightarrow> genre_id env g s = (Inr (the (map_of (existing_genres s) g)), s)"
  by (simp add: genre_id_def)

definition just_committed :: "'d genesis \<Rightarrow> bool" where
  "just_committed s \<longleftrightarrow> pg_saves (gs_pg s) = [] \<and> pg_committed (gs_pg s) = pg_current (gs_pg s) \<and> \<not> pg_failed (gs_pg s)"

lemma genre_id_new:
  assumes "\<not> known_genre (existing_genres s) g" and "genre_id env g s = (Inr i, s')"
  shows "just_committed s' \<and> animes_inserted s' = animes_inserted s \<and> latest_valid_checkpoint s' = latest_valid_checkpoint s"
proof (cases "g_exec env (Insert_Genre g) s")
  case (Pair r s1)
  with assms obtain j where r: "r = Inr (G_Id j)"
    and s': "s' = snd (g_commit (s1\<lparr>existing_genres := dict_put g j (existing_genres s1)\<rparr>))"
    by (auto simp: genre_id_def bindM_def thenM_def g_commit_def Let_def split: sum.splits g_reply.splits)
  show ?thesis
    unfolding s' using g_exec_frame [OF Pair] r by (simp add: g_commit_def just_committed_def Let_def)
qed

lemma genre_id_frame:
  "genre_id env g s = (r, s') \<Longrightarrow> animes_inserted s' = animes_inserted s \<and> latest_valid_checkpoint s' = latest_valid_checkpoint s"
proof (cases "known_genre (existing_genres s) g")
  case False
  assume "genre_id env g s = (r, s')"
  with False show ?thesis
    by (cases "g_exec env (Insert_Genre g) s")
      (auto simp: genre_id_def bindM_def thenM_def g_commit_def Let_def dest: g_exec_frame split: sum.splits g_reply.splits)
qed (auto simp: genre_id_known)

lemma add_genres_frame:
  "add_genres env gs s = (r, s') \<Longrightarrow> animes_inserted s' = animes_inserted s \<and> latest_valid_checkpoint s' = latest_valid_checkpoint s"
proof (induction gs arbitrary: s)
  case (Cons g gs)
  show ?case
  proof (cases "g \<in> set (exclude_genres env)")
    case False
    obtain q s1 where q: "genre_id env g s = (q, s1)" by (cases "genre_id env g s")
    with Cons.prems False Cons.IH genre_id_frame [OF q] show ?thesis
      by (cases q) (auto simp: bindM_def)
  qed (use Cons.prems in auto)
qed auto

lemma add_genres_committed:
  "add_genres env gs s = (Inr b, s') \<Longrightarrow> just_committed s \<Longrightarrow> just_committed s'"
proof (induction gs arbitrary: s)
  case (Cons g gs)
  show ?case
  proof (cases "g \<in> set (exclude_genres env)")
    case False
    with Cons.prems obtain i s1 where 1: "genre_id env g s = (Inr i, s1)"
        "add_genres env gs (s1\<lparr>genres_to_add := List.insert i (genres_to_add s1)\<rparr>) = (Inr b, s')"
      by (auto simp: bindM_eq_Inr_iff)
    have "just_committed s1"
      using genre_id_new [OF _ 1(1)] 1(1) Cons.prems(2) genre_id_known [of s g env] by (cases "known_genre (existing_genres s) g") auto
    then show ?thesis using Cons.IH [OF 1(2)] by (simp add: just_committed_def)
  qed (use Cons.prems in auto)
qed auto

definition gathered :: "'d genesis \<Rightarrow> string list \<Rightarrow> int list" where
  "gathered s gs = fold List.insert (map (\<lambda>g. the (map_of (existing_genres s) g)) gs) (genres_to_add s)"

lemma set_gathered: "set (gathered s gs) = (\<lambda>g. the (map_of (existing_genres s) g)) ` set gs \<union> set (genres_to_add s)"
  unfolding gathered_def by (induction gs arbitrary: s rule: rev_induct) auto

text \<open>With known genres nothing happens to the database, and a genre to leave out stops the gathering.\<close>

lemma add_genres_known:
  "\<forall>g \<in> set gs. known_genre (existing_genres s) g \<and> g \<notin> set (exclude_genres env) \<Longrightarrow>
     add_genres env (gs @ rest) s = add_genres env rest (s\<lparr>genres_to_add := gathered s gs\<rparr>)"
proof (induction gs arbitrary: s)
  case (Cons g gs)
  let ?s = "s\<lparr>genres_to_add := List.insert (the (map_of (existing_genres s) g)) (genres_to_add s)\<rparr>"
  have "gathered ?s gs = gathered s (g # gs)" by (simp add: gathered_def)
  with Cons.IH [of ?s] Cons.prems show ?case by (simp add: genre_id_known bindM_def)
qed (simp add: gathered_def)

lemma add_genres_new:
  assumes "add_genres env gs s = (Inr False, s')" and "\<exists>g \<in> set gs. \<not> known_genre (existing_genres s) g"
  shows "just_committed s'"
  using assms
proof (induction gs arbitrary: s)
  case (Cons g gs)
  from Cons.prems(1) obtain i s1 where 1: "genre_id env g s = (Inr i, s1)"
      "add_genres env gs (s1\<lparr>genres_to_add := List.insert i (genres_to_add s1)\<rparr>) = (Inr False, s')"
    by (auto simp: bindM_eq_Inr_iff split: if_splits)
  show ?case
  proof (cases "known_genre (existing_genres s) g")
    case True
    with genre_id_known [OF True, of env] 1 Cons.prems(2) Cons.IH [OF 1(2)] show ?thesis by auto
  next
    case False
    with genre_id_new [OF False 1(1)] add_genres_committed [OF 1(2)] show ?thesis by (simp add: just_committed_def)
  qed
qed simp

lemma insert_anime_error:
  assumes "insert_anime env i a s = (Inl e, s')"
  shows "pg_saves (gs_pg s') = pg_saves (gs_pg s) \<and> latest_valid_checkpoint s' = latest_valid_checkpoint s \<and>
    animes_inserted s' = animes_inserted s"
  using assms
  by (auto simp: insert_anime_def thenM_def bindM_def g_savepoint_def Let_def dest!: g_exec_frame
      split: prod.splits sum.splits g_reply.splits if_splits)

lemma insert_anime_done:
  assumes "insert_anime env i a s = (Inr b, s')"
  shows "animes_inserted s' = Suc (animes_inserted s) \<and> b = (int (animes_inserted s') = anime_count env)"
  using assms
  by (auto simp: insert_anime_def thenM_def bindM_def g_savepoint_def Let_def dest!: g_exec_frame
      split: prod.splits sum.splits g_reply.splits if_splits)

section \<open>Failures\<close>

text \<open>
  C18.  An anime that the script begins to insert and that the database refuses, other than by
  losing the connection, is passed over, and the database is as at the last savepoint, exactly if all
  its genres are known and that savepoint was still there when its turn came.  If one of its
  genres is new, the commit of the genre has ended the transaction and its savepoints with it; and
  they may be gone before, by the genres of animes that were left out.  Then going back fails
  with an exception, which ends the script, and the transaction stays failed.
\<close>

theorem failed_anime_outcomes:
  assumes "\<not> pg_failed (gs_pg s)" and "ge_apply env (Select_Anime i) (pg_current (gs_pg s)) = Inr (r, d)" and "r \<noteq> G_Found True"
    and "ge_fetch env i = Some (Inr a)"
    and "add_genres env (ad_genres a) (s\<lparr>gs_pg := (gs_pg s)\<lparr>pg_current := d\<rparr>\<rparr>) = (Inr False, s1)"
    and "insert_anime env i a s1 = (Inl e, s2)" and "\<not> ge_lost env e"
  shows "case (if \<forall>g \<in> set (ad_genres a). known_genre (existing_genres s) g
               then map_of (pg_saves (gs_pg s)) (latest_valid_checkpoint s) else None) of
           Some d0 \<Rightarrow> \<exists>s3. process_anime env i s = (Inr False, s3) \<and> pg_current (gs_pg s3) = d0 \<and> \<not> pg_failed (gs_pg s3)
         | None \<Rightarrow> \<exists>s3. process_anime env i s = (Inl InternalError, s3) \<and> pg_failed (gs_pg s3)"
proof -
  let ?s = "s\<lparr>gs_pg := (gs_pg s)\<lparr>pg_current := d\<rparr>\<rparr>"
  have run: "process_anime env i s = thenM g_rollback_to (pure False) s2"
    using assms(3-7) by (simp add: process_anime_def bindM_def g_exec_ok [OF assms(1,2)] tryM_def)
  note kept = insert_anime_error [OF assms(6)] add_genres_frame [OF assms(5)]
  show ?thesis
  proof (cases "\<forall>g \<in> set (ad_genres a). known_genre (existing_genres s) g")
    case True
    have "g \<notin> set (exclude_genres env)" if "g \<in> set (ad_genres a)" for g
    proof
      assume "g \<in> set (exclude_genres env)"
      with that obtain xs x ys where split: "ad_genres a = xs @ x # ys" "x \<in> set (exclude_genres env)" "\<forall>y \<in> set xs. y \<notin> set (exclude_genres env)"
        using split_list_first_prop [of "ad_genres a" "\<lambda>x. x \<in> set (exclude_genres env)"] by blast
      with add_genres_known [of xs ?s env "x # ys"] True assms(5) show False by simp
    qed
    with add_genres_known [of "ad_genres a" ?s env "[]"] True assms(5)
    have "pg_saves (gs_pg s1) = pg_saves (gs_pg s)" by auto
    with kept have "g_rollback_to s2 = (case map_of (pg_saves (gs_pg s)) (latest_valid_checkpoint s) of
        None \<Rightarrow> (Inl InternalError, s2\<lparr>gs_pg := (gs_pg s2)\<lparr>pg_failed := True\<rparr>\<rparr>)
      | Some d0 \<Rightarrow> (Inr (), s2\<lparr>gs_pg := (gs_pg s2)\<lparr>pg_current := d0, pg_failed := False,
          pg_saves := dropWhile (\<lambda>x. fst x \<noteq> latest_valid_checkpoint s) (pg_saves (gs_pg s2))\<rparr>\<rparr>))"
      by (simp add: g_rollback_to_def Let_def)
    with True run show ?thesis by (simp add: thenM_def bindM_def split: option.split)
  next
    case False
    with add_genres_new [OF assms(5)] have "pg_saves (gs_pg s1) = []" by (simp add: just_committed_def)
    with kept have "g_rollback_to s2 = (Inl InternalError, s2\<lparr>gs_pg := (gs_pg s2)\<lparr>pg_failed := True\<rparr>\<rparr>)"
      by (simp add: g_rollback_to_def Let_def)
    with False run show ?thesis by (simp add: thenM_def bindM_def if_not_P del: ball_simps)
  qed
qed

text \<open>A database that keeps the statements it is given, and refuses animes without a synopsis.\<close>

definition log_env :: "(nat \<Rightarrow> (exn + anime_data) option) \<Rightarrow> string list \<Rightarrow> int \<Rightarrow> g_stmt list genesis_env" where
  "log_env fetch exclude n =
     \<lparr>ge_apply = (\<lambda>st d. case st of
          Insert_Anime i title synopsis \<Rightarrow> if synopsis = None then Inl IntegrityError else Inr (G_Done, d @ [st])
        | Insert_Genre g \<Rightarrow> Inr (G_Id (int (length d) + 100), d @ [st])
        | Insert_Forum title i descr \<Rightarrow> Inr (G_Id (int i), d @ [st])
        | Select_Anime i \<Rightarrow> Inr (G_Found False, d)
        | _ \<Rightarrow> Inr (G_Done, d @ [st])),
      ge_fetch = fetch, ge_lost = (\<lambda>e. e = OperationalError), ge_lower = id, exclude_genres = exclude, anime_count = n\<rparr>"

definition demo_genesis :: "g_stmt list genesis" where
  "demo_genesis =
     \<lparr>gs_pg = \<lparr>pg_committed = [], pg_current = [Select_Genres], pg_failed = False, pg_saves = [(1, [])]\<rparr>,
      existing_genres = [(''Drama'', 3)], genres_to_add = [], latest_valid_checkpoint = 1, forums_created = [], animes_inserted = 0\<rparr>"

theorem failed_anime_outcomes_witness:
  "(\<exists>s3. process_anime (log_env (\<lambda>_. Some (Inr \<lparr>ad_title = ''T'', ad_synopsis = None, ad_streaming = [], ad_genres = [''Drama'']\<rparr>)) [] 5) 1
      demo_genesis = (Inr False, s3) \<and> pg_current (gs_pg s3) = []) \<and>
   (\<exists>s3. process_anime (log_env (\<lambda>_. Some (Inr \<lparr>ad_title = ''T'', ad_synopsis = None, ad_streaming = [], ad_genres = [''Mecha'']\<rparr>)) [] 5) 1
      demo_genesis = (Inl InternalError, s3))"
proof
  let ?a = "\<lparr>ad_title = ''T'', ad_synopsis = None, ad_streaming = [], ad_genres = [''Drama'']\<rparr>"
  let ?env = "log_env (\<lambda>_. Some (Inr ?a)) [] 5"
  let ?s = "demo_genesis\<lparr>gs_pg := (gs_pg demo_genesis)\<lparr>pg_current := [Select_Genres]\<rparr>\<rparr>"
  have "\<exists>s1. add_genres ?env (ad_genres ?a) ?s = (Inr False, s1) \<and> (\<exists>s2. insert_anime ?env 1 ?a s1 = (Inl IntegrityError, s2))"
    by (simp add: log_env_def demo_genesis_def genre_id_def known_genre_def bindM_def insert_anime_def thenM_def g_exec_def)
  then obtain s1 s2 where "add_genres ?env (ad_genres ?a) ?s = (Inr False, s1)" "insert_anime ?env 1 ?a s1 = (Inl IntegrityError, s2)"
    by blast
  from failed_anime_outcomes [of demo_genesis ?env 1 "G_Found False" "[Select_Genres]", OF _ _ _ _ this]
  show "\<exists>s3. process_anime ?env 1 demo_genesis = (Inr False, s3) \<and> pg_current (gs_pg s3) = []"
    by (auto simp: log_env_def demo_genesis_def known_genre_def)
next
  let ?a = "\<lparr>ad_title = ''T'', ad_synopsis = None, ad_streaming = [], ad_genres = [''Mecha'']\<rparr>"
  let ?env = "log_env (\<lambda>_. Some (Inr ?a)) [] 5"
  let ?s = "demo_genesis\<lparr>gs_pg := (gs_pg demo_genesis)\<lparr>pg_current := [Select_Genres]\<rparr>\<rparr>"
  have "\<exists>s1. add_genres ?env (ad_genres ?a) ?s = (Inr False, s1) \<and> (\<exists>s2. insert_anime ?env 1 ?a s1 = (Inl IntegrityError, s2))"
    by (simp add: log_env_def demo_genesis_def genre_id_def known_genre_def bindM_def insert_anime_def thenM_def g_exec_def g_commit_def
        Let_def)
  then obtain s1 s2 where "add_genres ?env (ad_genres ?a) ?s = (Inr False, s1)" "insert_anime ?env 1 ?a s1 = (Inl IntegrityError, s2)"
    by blast
  from failed_anime_outcomes [of demo_genesis ?env 1 "G_Found False" "[Select_Genres]", OF _ _ _ _ this]
  show "\<exists>s3. process_anime ?env 1 demo_genesis = (Inl InternalError, s3)"
    by (auto simp: log_env_def demo_genesis_def known_genre_def)
qed

section \<open>Genres of others\<close>

text \<open>
  An anime that is left out for a genre keeps the genres before it gathered, without anything else
  having happened; the next one to be inserted is given them.
\<close>

theorem excluded_genres_stick:
  assumes "\<not> pg_failed (gs_pg s)" and "ge_apply env (Select_Anime i) (pg_current (gs_pg s)) = Inr (r, d)" and "r \<noteq> G_Found True"
    and "ge_fetch env i = Some (Inr a)" and "ad_genres a = xs @ x # ys" and "x \<in> set (exclude_genres env)"
    and "\<forall>g \<in> set xs. known_genre (existing_genres s) g \<and> g \<notin> set (exclude_genres env)"
  shows "\<exists>s'. process_anime env i s = (Inr False, s') \<and> pg_current (gs_pg s') = d \<and>
    set (genres_to_add s') = (\<lambda>g. the (map_of (existing_genres s) g)) ` set xs \<union> set (genres_to_add s)"
proof -
  let ?s = "s\<lparr>gs_pg := (gs_pg s)\<lparr>pg_current := d\<rparr>\<rparr>"
  have "add_genres env (ad_genres a) ?s = (Inr True, ?s\<lparr>genres_to_add := gathered ?s xs\<rparr>)"
    using add_genres_known [of xs ?s env "x # ys"] assms(5-7) by simp
  then have "process_anime env i s = (Inr False, ?s\<lparr>genres_to_add := gathered ?s xs\<rparr>)"
    using assms(3,4) by (simp add: process_anime_def bindM_def g_exec_ok [OF assms(1,2)])
  then show ?thesis using set_gathered [of ?s xs] by simp
qed

section \<open>How many\<close>

lemma process_anime_count:
  assumes "process_anime env i s = (r, s')" and "int (animes_inserted s) < anime_count env"
  shows "int (animes_inserted s') \<le> anime_count env \<and> (r = Inr False \<longrightarrow> int (animes_inserted s') < anime_count env)"
proof -
  have "animes_inserted s' = animes_inserted s \<or>
      (animes_inserted s' = Suc (animes_inserted s) \<and> r = Inr (int (animes_inserted s') = anime_count env))"
  proof (cases "g_exec env (Select_Anime i) s")
    case (Pair q s0)
    note 0 = g_exec_frame [OF Pair]
    show ?thesis
    proof (cases "\<exists>x a. q = Inr x \<and> x \<noteq> G_Found True \<and> ge_fetch env i = Some (Inr a)")
      case False
      with assms(1) Pair 0 show ?thesis
        by (auto simp: process_anime_def bindM_def split: sum.splits if_splits option.splits)
    next
      case True
      then obtain x a where x: "q = Inr x" "x \<noteq> G_Found True" "ge_fetch env i = Some (Inr a)" by blast
      obtain b s1 where 1: "add_genres env (ad_genres a) s0 = (b, s1)" by (cases "add_genres env (ad_genres a) s0")
      obtain c s2 where 2: "insert_anime env i a s1 = (c, s2)" by (cases "insert_anime env i a s1")
      have undo: "animes_inserted (snd (g_rollback_to s2)) = animes_inserted s2"
        by (simp add: g_rollback_to_def Let_def split: option.split)
      have no: "fst (thenM g_rollback_to (pure False) s2) \<noteq> Inr True"
        by (auto simp: thenM_def bindM_def split: prod.split sum.split)
      from assms(1) Pair x 1 2 have run: "(r, s') = (case b of Inl e \<Rightarrow> (Inl e, s1) | Inr exclusion \<Rightarrow>
          if exclusion then (Inr False, s1)
          else (case c of Inr stop \<Rightarrow> (Inr stop, s2)
                | Inl e \<Rightarrow> if ge_lost env e then (Inl OtherException, s2) else thenM g_rollback_to (pure False) s2))"
        by (auto simp: process_anime_def bindM_def tryM_def split: sum.splits if_splits)
      show ?thesis
      proof (cases "b = Inr False")
        case False
        with run add_genres_frame [OF 1] 0 show ?thesis by (auto split: sum.splits if_splits)
      next
        case b: True
        show ?thesis
        proof (cases c)
          case (Inr stop)
          with run b insert_anime_done [OF 2 [unfolded Inr]] add_genres_frame [OF 1] 0 show ?thesis by simp
        next
          case (Inl e)
          with run b undo insert_anime_error [OF 2 [unfolded Inl]] add_genres_frame [OF 1] 0 show ?thesis
            by (auto simp: thenM_def bindM_def split: if_splits prod.splits sum.splits)
        qed
      qed
    qed
  qed
  with assms(2) show ?thesis by auto
qed

lemma genesis_loop_count:
  "genesis_loop env ids s = (r, s') \<Longrightarrow> int (animes_inserted s) < anime_count env \<Longrightarrow> int (animes_inserted s') \<le> anime_count env"
proof (induction ids arbitrary: s)
  case (Cons i ids)
  obtain q s1 where 1: "process_anime env i s = (q, s1)" by (cases "process_anime env i s")
  with Cons.prems(1) process_anime_count [OF 1 Cons.prems(2)] Cons.IH [of s1] show ?case
    by (cases q) (auto simp: bindM_def split: if_splits)
qed auto

text \<open>
  The script never inserts more animes than it is asked for, if it is asked for at least one,
  whatever the database answers and whatever is fetched.
\<close>

theorem genesis_count_bounded:
  assumes "0 < anime_count env" and "genesis_main env pw_hash max_iterations (genesis_start d) = (Inr n, s')"
  shows "int n \<le> anime_count env"
proof -
  have frames: "g_commit s = (r, s') \<Longrightarrow> animes_inserted s' = animes_inserted s"
    "g_savepoint s = (r, s') \<Longrightarrow> animes_inserted s' = animes_inserted s" for s s' :: "'a genesis" and r
    by (auto simp: g_commit_def g_savepoint_def Let_def split: if_splits)
  from assms(2) obtain s1 s2 rs s3 s4 s5 s6 s7 u where
      1: "ensure_superuser env pw_hash (genesis_start d) = (Inr u, s1)"
      and 2: "g_exec env Select_Genres s1 = (Inr rs, s2)"
      and 3: "g_savepoint (s2\<lparr>existing_genres := (case rs of G_Genres gs \<Rightarrow> dict_of gs | _ \<Rightarrow> [])\<rparr>) = (Inr (), s3)"
      and 4: "genesis_loop env [1 ..< Suc (nat (iterations (anime_count env) max_iterations))] s3 = (Inr (), s4)"
      and 5: "g_commit s4 = (Inr (), s5)"
      and 6: "\<exists>q. g_exec env (Insert_Forum_Admins (map (\<lambda>f. (f, 1, ''owner'')) (forums_created s5))) s5 = (Inr q, s6)"
      and 7: "g_commit s6 = (Inr (), s7)" and n: "n = animes_inserted s7"
    by (auto simp: genesis_main_def thenM_eq_Inr_iff bindM_eq_Inr_iff)
  have "animes_inserted s1 = 0"
    using 1 by (auto simp: ensure_superuser_def thenM_def bindM_def genesis_start_def dest!: g_exec_frame frames
        split: prod.splits sum.splits if_splits)
  with g_exec_frame [OF 2] frames(2) [OF 3] have "animes_inserted s3 = 0" by simp
  with genesis_loop_count [OF 4] assms(1) have "int (animes_inserted s4) \<le> anime_count env" by simp
  moreover from 6 obtain q where "g_exec env (Insert_Forum_Admins (map (\<lambda>f. (f, 1, ''owner'')) (forums_created s5))) s5 = (Inr q, s6)" ..
  ultimately show ?thesis using frames(1) [OF 5] frames(1) [OF 7] g_exec_frame n by metis
qed

theorem genesis_count_bounded_witness:
  "\<exists>n s'. genesis_main (log_env (\<lambda>i. Some (Inr \<lparr>ad_title = ''T'', ad_synopsis = Some ''S'', ad_streaming = [], ad_genres = [''Drama'']\<rparr>)) [] 1)
     ''hash'' (Some 3) (genesis_start []) = (Inr n, s') \<and> int n \<le> 1"
proof -
  let ?env = "log_env (\<lambda>i. Some (Inr \<lparr>ad_title = ''T'', ad_synopsis = Some ''S'', ad_streaming = [], ad_genres = [''Drama'']\<rparr>)) [] 1"
  have "\<exists>n s'. genesis_main ?env ''hash'' (Some 3) (genesis_start []) = (Inr n, s')"
    by (simp add: genesis_main_def ensure_superuser_def log_env_def genesis_start_def thenM_def bindM_def g_exec_def g_commit_def
        g_savepoint_def Let_def iterations_def upt_rec process_anime_def genre_id_def known_genre_def insert_anime_def dict_of_def
        tryM_def capitalize_def)
  then obtain n s' where run: "genesis_main ?env ''hash'' (Some 3) (genesis_start []) = (Inr n, s')" by blast
  from genesis_count_bounded [OF _ run] have "int n \<le> 1" by (simp add: log_env_def)
  with run show ?thesis by blast
qed

text \<open>Asked for none, with a number of iterations that is given, it inserts as many as there are iterations.\<close>

theorem genesis_unbounded:
  "\<exists>s'. genesis_main (log_env (\<lambda>i. Some (Inr \<lparr>ad_title = ''T'', ad_synopsis = Some ''S'', ad_streaming = [], ad_genres = []\<rparr>)) [] 0)
     ''hash'' (Some 2) (genesis_start []) = (Inr 2, s')"
  by (simp add: genesis_main_def ensure_superuser_def log_env_def genesis_start_def thenM_def bindM_def g_exec_def g_commit_def
        g_savepoint_def Let_def iterations_def upt_rec process_anime_def genre_id_def known_genre_def insert_anime_def dict_of_def
        tryM_def capitalize_def numeral_2_eq_2)

end
