(* ===== verification/Tenjin_Requests.thy ===== *)
theory Tenjin_Requests
  imports Tenjin_Migrations Tenjin_Posts
begin

text \<open>
  The models of requests of the resource server (\<^verbatim>\<open>models/requests.py\<close>, \<^verbatim>\<open>models/annotations.py\<close>,
  \<^verbatim>\<open>config/database_constants.py\<close>): what becomes of the body of a request before a route sees it,
  and which of the texts that pass are taken by the tables the migrations lead to.
\<close>

section \<open>Constants\<close>

definition USERNAME_MAX_LENGTH :: nat where "USERNAME_MAX_LENGTH = 64"
definition USERNAME_MIN_LENGTH :: nat where "USERNAME_MIN_LENGTH = 4"
definition EMAIL_MAX_LENGTH :: nat where "EMAIL_MAX_LENGTH = 254"
definition EMAIL_MIN_LENGTH :: nat where "EMAIL_MIN_LENGTH = 5"
definition PASSWORD_MIN_LENGTH :: nat where "PASSWORD_MIN_LENGTH = 8"
definition PASSWORD_MAX_LENGTH :: nat where "PASSWORD_MAX_LENGTH = 128"
definition POST_TITLE_MIN_LENGTH :: nat where "POST_TITLE_MIN_LENGTH = 4"
definition POST_TITLE_MAX_LENGTH :: nat where "POST_TITLE_MAX_LENGTH = 16"
definition BODY_MAX_LENGTH :: nat where "BODY_MAX_LENGTH = 32800"
definition REPORT_DESCRIPTION_MAX_LENGTH :: nat where "REPORT_DESCRIPTION_MAX_LENGTH = 256"
definition REPORT_DESCRIPTION_MIN_LENGTH :: nat where "REPORT_DESCRIPTION_MIN_LENGTH = 8"
definition COMMENT_MAX_LENGTH :: nat where "COMMENT_MAX_LENGTH = 8192"
definition COMMENT_MIN_LENGTH :: nat where "COMMENT_MIN_LENGTH = 1"
definition FORUM_TITLE_MIN_LENGTH :: nat where "FORUM_TITLE_MIN_LENGTH = 4"
definition FORUM_TITLE_MAX_LENGTH :: nat where "FORUM_TITLE_MAX_LENGTH = 64"
definition FORUM_DESCRIPTION_MAX_LENGTH :: nat where "FORUM_DESCRIPTION_MAX_LENGTH = 256"
definition FORUM_DESCRIPTION_MIN_LENGTH :: nat where "FORUM_DESCRIPTION_MIN_LENGTH = 8"
definition TICKET_DESCRIPTION_MAX_LENGTH :: nat where "TICKET_DESCRIPTION_MAX_LENGTH = 512"
definition TICKET_DESCRIPTION_MIN_LENGTH :: nat where "TICKET_DESCRIPTION_MIN_LENGTH = 8"


section \<open>Annotations\<close>

text \<open>
  A value of a body; \<open>JOther\<close> is a number with a fraction, a list or an object.  What Pydantic makes of
  a value for an integer or a boolean is a parameter, and so is the matching of a pattern.
\<close>

datatype json = JNull | JBool bool | JInt int | JStr string | JOther string

record pydantic =
  pd_int :: "json \<Rightarrow> int option"
  pd_bool :: "json \<Rightarrow> bool option"
  pd_match :: "string \<Rightarrow> string \<Rightarrow> bool"

text \<open>The annotations of texts; the last three are written in the models that have them.\<close>

datatype text_annotation =
    email_annotation | username_annotation | forum_name_annotation | forum_description_annotation
  | post_body_annotation | post_title_annotation | post_report_tag_annotation | post_report_description_annotation
  | user_password_annotation | ticket_description | comment_body | admin_role

abbreviation within :: "nat \<Rightarrow> nat \<Rightarrow> string \<Rightarrow> bool" where
  "within lo hi x \<equiv> lo \<le> length x \<and> length x \<le> hi"

fun passes :: "pydantic \<Rightarrow> text_annotation \<Rightarrow> string \<Rightarrow> bool" where
  "passes p email_annotation x \<longleftrightarrow> within EMAIL_MIN_LENGTH EMAIL_MAX_LENGTH x \<and> pd_match p EMAIL_PATTERN x"
| "passes p username_annotation x \<longleftrightarrow> within USERNAME_MIN_LENGTH USERNAME_MAX_LENGTH x"
| "passes p forum_name_annotation x \<longleftrightarrow> within FORUM_TITLE_MIN_LENGTH FORUM_TITLE_MAX_LENGTH x"
| "passes p forum_description_annotation x \<longleftrightarrow> within FORUM_DESCRIPTION_MIN_LENGTH FORUM_DESCRIPTION_MAX_LENGTH x"
| "passes p post_body_annotation x \<longleftrightarrow> length x \<le> BODY_MAX_LENGTH"
| "passes p post_title_annotation x \<longleftrightarrow> within POST_TITLE_MIN_LENGTH POST_TITLE_MAX_LENGTH x"
| "passes p post_report_tag_annotation x \<longleftrightarrow> x \<in> set ReportTags"
| "passes p post_report_description_annotation x \<longleftrightarrow> within REPORT_DESCRIPTION_MIN_LENGTH REPORT_DESCRIPTION_MAX_LENGTH x"
| "passes p user_password_annotation x \<longleftrightarrow> within PASSWORD_MIN_LENGTH PASSWORD_MAX_LENGTH x"
| "passes p ticket_description x \<longleftrightarrow> within TICKET_DESCRIPTION_MIN_LENGTH TICKET_DESCRIPTION_MAX_LENGTH x"
| "passes p comment_body x \<longleftrightarrow> within COMMENT_MIN_LENGTH COMMENT_MAX_LENGTH x"
| "passes p admin_role x \<longleftrightarrow> x \<in> {''SUPER'', ''ADMIN''}"

text \<open>Texts are stripped; a role is put in capitals besides.\<close>

fun prepare :: "text_annotation \<Rightarrow> string \<Rightarrow> string" where
  "prepare admin_role x = map upper_char (strip x)"
| "prepare _ x = strip x"

text \<open>
  A value that has no \<open>strip\<close> raises inside the validator, which Pydantic lets pass; \<open>Inr None\<close>
  is a value that is refused.
\<close>

definition read_text :: "pydantic \<Rightarrow> text_annotation \<Rightarrow> json \<Rightarrow> exn + string option" where
  "read_text p a j =
     (case j of
        JStr x \<Rightarrow> Inr (if passes p a (prepare a x) then Some (prepare a x) else None)
      | _ \<Rightarrow> Inl AttributeError)"

definition strong_entity_pk_annotation :: "pydantic \<Rightarrow> json \<Rightarrow> exn + int option" where
  "strong_entity_pk_annotation p j =
     Inr (case pd_int p j of Some n \<Rightarrow> if 1 \<le> n then Some n else None | None \<Rightarrow> None)"

definition read_bool :: "pydantic \<Rightarrow> json \<Rightarrow> exn + bool option" where
  "read_bool p j = Inr (pd_bool p j)"

definition plain_text :: "json \<Rightarrow> exn + string option" where
  "plain_text j = Inr (case j of JStr x \<Rightarrow> Some x | _ \<Rightarrow> None)"

definition read_vote :: "json \<Rightarrow> exn + int option" where
  "read_vote j = Inr (case j of JInt n \<Rightarrow> if n = 1 \<or> n = -1 then Some n else None | _ \<Rightarrow> None)"

text \<open>A union of two annotations takes what one of them takes, and raises if the first one asked raises.\<close>

definition generic_identity_annotation :: "pydantic \<Rightarrow> json \<Rightarrow> exn + string option" where
  "generic_identity_annotation p j =
     bindE (read_text p username_annotation j) (\<lambda>u.
     bindE (read_text p email_annotation j) (\<lambda>e. Inr (case u of Some x \<Rightarrow> Some x | None \<Rightarrow> e)))"

section \<open>Fields\<close>

type_synonym body = "(string \<times> json) list"

definition field :: "body \<Rightarrow> string \<Rightarrow> (json \<Rightarrow> exn + 'a option) \<Rightarrow> exn + 'a option" where
  "field b n f = (case map_of b n of None \<Rightarrow> Inr None | Some j \<Rightarrow> f j)"

definition or_null :: "(json \<Rightarrow> exn + 'a option) \<Rightarrow> json \<Rightarrow> exn + 'a option option" where
  "or_null f j = (if j = JNull then Inr (Some None) else bindE (f j) (\<lambda>r. Inr (map_option Some r)))"

definition optional_field :: "body \<Rightarrow> string \<Rightarrow> (json \<Rightarrow> exn + 'a option) \<Rightarrow> exn + 'a option option" where
  "optional_field b n f = (case map_of b n of None \<Rightarrow> Inr (Some None) | Some j \<Rightarrow> or_null f j)"

text \<open>All fields are read, whether or not one before them was refused; an exception ends the reading.\<close>

definition and_field :: "exn + 'a option \<Rightarrow> exn + 'b option \<Rightarrow> exn + ('a \<times> 'b) option" where
  "and_field a b =
     bindE a (\<lambda>x. bindE b (\<lambda>y. Inr (case x of None \<Rightarrow> None | Some u \<Rightarrow> (case y of None \<Rightarrow> None | Some v \<Rightarrow> Some (u, v)))))"

definition model :: "exn + 'a option \<Rightarrow> ('a \<Rightarrow> exn + 'm) \<Rightarrow> exn + 'm" where
  "model r build = bindE r (\<lambda>v. case v of None \<Rightarrow> Inl ValidationError | Some x \<Rightarrow> build x)"

section \<open>Models\<close>

record user_ticket_model =
  ut_email :: string
  ut_description :: string

record forum_creation_model =
  fc_title :: string
  fc_description :: string
  fc_parent_anime_id :: int

record forum_updation_model =
  fu_title :: "string option"
  fu_description :: "string option"

record admin_add_model =
  aa_user_id :: int
  aa_role :: string

record report_model =
  rm_tag :: string
  rm_description :: string

record comment_model =
  cm_body :: string
  cm_client_tag :: "string option"

record user_creation_model =
  uc_username :: string
  uc_email :: string
  uc_password :: string

record user_login_model =
  ul_identity :: string
  ul_password :: string

definition UserTicketModel :: "pydantic \<Rightarrow> body \<Rightarrow> exn + user_ticket_model" where
  "UserTicketModel p b =
     model (and_field (field b ''email'' (read_text p email_annotation)) (field b ''description'' (read_text p ticket_description)))
       (\<lambda>(e, d). Inr \<lparr>ut_email = e, ut_description = d\<rparr>)"

definition ForumCreationModel :: "pydantic \<Rightarrow> body \<Rightarrow> exn + forum_creation_model" where
  "ForumCreationModel p b =
     model (and_field (field b ''title'' (read_text p forum_name_annotation))
           (and_field (field b ''description'' (read_text p forum_description_annotation))
                      (field b ''parent_anime_id'' (strong_entity_pk_annotation p))))
       (\<lambda>(t, d, i). Inr \<lparr>fc_title = t, fc_description = d, fc_parent_anime_id = i\<rparr>)"

definition ForumUpdationModel :: "pydantic \<Rightarrow> body \<Rightarrow> exn + forum_updation_model" where
  "ForumUpdationModel p b =
     model (and_field (field b ''title'' (or_null (read_text p forum_name_annotation)))
                      (field b ''description'' (or_null (read_text p forum_description_annotation))))
       (\<lambda>(t, d). if \<not> given t \<and> \<not> given d then Inl ValidationError else Inr \<lparr>fu_title = t, fu_description = d\<rparr>)"

definition GenericAdminModel :: "pydantic \<Rightarrow> body \<Rightarrow> exn + int" where
  "GenericAdminModel p b = model (field b ''user_id'' (strong_entity_pk_annotation p)) Inr"

definition AdminAddModel :: "pydantic \<Rightarrow> body \<Rightarrow> exn + admin_add_model" where
  "AdminAddModel p b =
     model (and_field (field b ''user_id'' (strong_entity_pk_annotation p)) (field b ''role'' (read_text p admin_role)))
       (\<lambda>(i, r). Inr \<lparr>aa_user_id = i, aa_role = r\<rparr>)"

definition PostCreationModel :: "pydantic \<Rightarrow> body \<Rightarrow> exn + post_model" where
  "PostCreationModel p b =
     model (and_field (field b ''forum_id'' (strong_entity_pk_annotation p))
           (and_field (field b ''title'' (read_text p post_title_annotation))
           (and_field (field b ''body'' (read_text p post_body_annotation))
                      (optional_field b ''client_tag'' plain_text))))
       (\<lambda>(i, t, x, tag). Inr \<lparr>pm_forum_id = i, pm_title = t, pm_body = x, pm_client_tag = tag\<rparr>)"

definition PostAmendmentModel :: "pydantic \<Rightarrow> body \<Rightarrow> exn + post_amendment" where
  "PostAmendmentModel p b =
     model (and_field (optional_field b ''closed'' (read_bool p))
           (and_field (optional_field b ''title'' (read_text p post_title_annotation))
                      (optional_field b ''body'' (read_text p post_body_annotation))))
       (\<lambda>(c, t, x). if c \<noteq> Some True \<and> \<not> given t \<and> \<not> given x then Inl ValidationError
                    else Inr \<lparr>pa_closed = c, pa_title = t, pa_body = x\<rparr>)"

definition ReportModel :: "pydantic \<Rightarrow> body \<Rightarrow> exn + report_model" where
  "ReportModel p b =
     model (and_field (field b ''tag'' (read_text p post_report_tag_annotation))
                      (field b ''description'' (read_text p post_report_description_annotation)))
       (\<lambda>(t, d). Inr \<lparr>rm_tag = t, rm_description = d\<rparr>)"

definition VoteModel :: "body \<Rightarrow> exn + int" where
  "VoteModel b = model (field b ''vote'' read_vote) Inr"

definition CommentModel :: "pydantic \<Rightarrow> body \<Rightarrow> exn + comment_model" where
  "CommentModel p b =
     model (and_field (field b ''body'' (read_text p comment_body)) (optional_field b ''client_tag'' plain_text))
       (\<lambda>(x, tag). Inr \<lparr>cm_body = x, cm_client_tag = tag\<rparr>)"

definition UserCreationModel :: "pydantic \<Rightarrow> body \<Rightarrow> exn + user_creation_model" where
  "UserCreationModel p b =
     model (and_field (field b ''username'' (read_text p username_annotation))
           (and_field (field b ''email'' (read_text p email_annotation)) (field b ''password'' (read_text p user_password_annotation))))
       (\<lambda>(u, e, pw). Inr \<lparr>uc_username = u, uc_email = e, uc_password = pw\<rparr>)"

definition GenericUserIdentificationModel :: "pydantic \<Rightarrow> body \<Rightarrow> exn + string" where
  "GenericUserIdentificationModel p b = model (field b ''identity'' (generic_identity_annotation p)) Inr"

definition UserLoginModel :: "pydantic \<Rightarrow> body \<Rightarrow> exn + user_login_model" where
  "UserLoginModel p b =
     model (and_field (field b ''identity'' (generic_identity_annotation p)) (field b ''password'' (read_text p user_password_annotation)))
       (\<lambda>(i, pw). Inr \<lparr>ul_identity = i, ul_password = pw\<rparr>)"

definition UserPasswordModel :: "pydantic \<Rightarrow> body \<Rightarrow> exn + string" where
  "UserPasswordModel p b = model (field b ''password'' (read_text p user_password_annotation)) Inr"

section \<open>Reading\<close>

lemma strip_twice: "strip (strip x) = strip x"
proof -
  have *: "lstrip (lstrip y) = lstrip y" for y by (simp add: lstrip_def dropWhile_idem)
  have "lstrip (strip x) = strip x"
  proof (cases "strip x")
    case (Cons c cs)
    have "last (lstrip (rev (lstrip x))) = last (rev (lstrip x))" if "lstrip (rev (lstrip x)) \<noteq> []"
      using that unfolding lstrip_def by (metis dropWhile_eq_Cons_conv last_appendR list.exhaust takeWhile_dropWhile_id)
    moreover from Cons have ne: "lstrip (rev (lstrip x)) \<noteq> []" by (auto simp: strip_def)
    moreover have "lstrip [] = []" by (simp add: lstrip_def)
    with ne have some: "lstrip x \<noteq> []" by (metis rev.simps(1))
    moreover have "hd (strip x) = last (lstrip (rev (lstrip x)))" by (simp add: strip_def hd_rev)
    ultimately have "c = hd (lstrip x)" using Cons by (simp add: last_rev)
    with some have "\<not> is_space c" unfolding lstrip_def using hd_dropWhile by blast
    with Cons show ?thesis by (simp add: lstrip_def)
  qed (simp add: lstrip_def)
  then show ?thesis using * by (simp add: strip_def)
qed

lemma prepare_again: "passes p a (prepare a x) \<Longrightarrow> prepare a (prepare a x) = prepare a x"
proof (cases "a = admin_role")
  case True
  assume "passes p a (prepare a x)"
  with True obtain y where "prepare a x = y" and y: "y = ''SUPER'' \<or> y = ''ADMIN''" by auto
  moreover from y have "prepare admin_role y = y" by (auto simp: strip_def lstrip_def is_space_def upper_char_def)
  ultimately show ?thesis using True by simp
qed (cases a; simp add: strip_twice)

lemma read_text_again: "read_text p a j = Inr (Some x) \<Longrightarrow> read_text p a (JStr x) = Inr (Some x)"
  by (auto simp: read_text_def prepare_again split: json.splits if_splits)

lemma read_text_passes: "read_text p a j = Inr (Some x) \<Longrightarrow> passes p a x"
  by (auto simp: read_text_def split: json.splits if_splits)

lemma read_text_other: "\<forall>x. j \<noteq> JStr x \<Longrightarrow> read_text p a j = Inl AttributeError"
  by (cases j) (auto simp: read_text_def)

lemma field_Inr_Some: "field b n f = Inr (Some x) \<longleftrightarrow> (\<exists>j. map_of b n = Some j \<and> f j = Inr (Some x))"
  by (auto simp: field_def split: option.splits)

lemma and_field_Inr_Some: "and_field a b = Inr (Some (x, y)) \<longleftrightarrow> a = Inr (Some x) \<and> b = Inr (Some y)"
  by (auto simp: and_field_def bindE_eq_Inr_iff split: option.splits)

lemma model_Inr: "model r build = Inr m \<longleftrightarrow> (\<exists>x. r = Inr (Some x) \<and> build x = Inr m)"
  by (auto simp: model_def bindE_eq_Inr_iff split: option.splits)

lemmas model_simps = model_Inr and_field_Inr_Some field_Inr_Some

section \<open>Texts and columns\<close>


text \<open>Whether a column takes a text: it fits the type, and no check that reads only this column is violated.\<close>

definition checks_of :: "db_table \<Rightarrow> check list" where
  "checks_of tb = concat (map (\<lambda>(n, k). case k of Check e \<Rightarrow> [e] | _ \<Rightarrow> []) (t_constraints tb))"

definition text_rule :: "db_table option \<Rightarrow> string \<Rightarrow> (sql_type \<times> check list) option" where
  "text_rule tb c =
     (case tb of None \<Rightarrow> None
      | Some t \<Rightarrow> (case find_column c t of None \<Rightarrow> None | Some x \<Rightarrow> Some (c_type x, checks_of t)))"



definition user_checks :: "check list" where
  "user_checks = [Matches ''email'' compiled_pattern, Len_At_Least ''email'' 5, Len_At_Least ''username'' 4]"

definition forum_checks :: "check list" where
  "forum_checks = [Above ''admin_count'' 0, Either (Len_Above ''description'' 8) (Is_Null ''description''), At_Least ''posts'' 0,
     At_Least ''subscribers'' 0]"

definition post_checks :: "check list" where
  "post_checks = [Either (Len_At_Most ''body_text'' 32800) (Is_Null ''body_text''), Len_At_Least ''title'' 4]"

lemma head_rules:
  "map (text_rule (table_after ''users'' operations None)) [''email'', ''username'']
     = [Some (VARCHAR 254, user_checks), Some (VARCHAR 64, user_checks)]"
  "map (text_rule (table_after ''user_tickets'' operations None)) [''email'', ''description'']
     = [Some (VARCHAR 254, [Len_At_Least ''description'' 8]), Some (VARCHAR 512, [Len_At_Least ''description'' 8])]"
  "map (text_rule (table_after ''forums'' operations None)) [''name_'', ''description'']
     = [Some (VARCHAR 64, forum_checks), Some (VARCHAR 256, forum_checks)]"
  "map (text_rule (table_after ''posts'' operations None)) [''body_text'', ''title'']
     = [Some (VARCHAR 32800, post_checks), Some (VARCHAR 16, post_checks)]"
  "map (text_rule (table_after ''post_reports'' operations None)) [''report_tag'', ''report_description'']
     = [Some (report_tags, [Len_At_Most ''report_description'' 8]), Some (VARCHAR 256, [Len_At_Most ''report_description'' 8])]"
  "map (text_rule (table_after ''comment_reports'' operations None)) [''report_tag'', ''report_description'']
     = [Some (report_tags, []), Some (VARCHAR 256, [])]"
  "map (text_rule (table_after ''comments'' operations None)) [''body''] = [Some (VARCHAR 8192, [Above ''reports'' 0])]"
  "map (text_rule (table_after ''forum_admins'' operations None)) [''role'']
     = [Some (ENUM ''ADMIN_ROLES'' [''admin'', ''super'', ''owner''], [])]"
  by code_simp+

lemmas head_rules_split = head_rules [unfolded list.map list.inject]

lemma not_lower: "x \<in> set ReportTags \<Longrightarrow> x \<notin> {''spam'', ''harassment'', ''hate'', ''violence'', ''other''}"
  "x \<in> {''SUPER'', ''ADMIN''} \<Longrightarrow> x \<notin> {''admin'', ''super'', ''owner''}"
  by (auto simp: ReportTags_def)





section \<open>Whole bodies\<close>

text \<open>No report that passes is taken, whatever else its row holds: neither of the tables knows its tag.\<close>

theorem accepted_reports_never_stored:
  assumes "ReportModel p b = Inr r" and "map_of row ''report_tag'' = Some (FStr (rm_tag r))" and "t \<in> {''post_reports'', ''comment_reports''}"
  shows "\<not> admits m now next head t row"
proof -
  from assms(1) obtain j where "read_text p post_report_tag_annotation j = Inr (Some (rm_tag r))"
    by (auto simp: ReportModel_def model_simps)
  then have tag: "rm_tag r \<notin> {''spam'', ''harassment'', ''hate'', ''violence'', ''other''}"
    using read_text_passes not_lower(1) by fastforce
  obtain tb where tb: "find_table t head = Some tb" and c: "find_column ''report_tag'' tb \<noteq> None"
    and ty: "c_type (the (find_column ''report_tag'' tb)) = report_tags"
    using assms(3) head_rules_split by (auto simp: head_table text_rule_def split: option.splits)
  then obtain y where y: "find_column ''report_tag'' tb = Some y" "c_type y = report_tags" by auto
  then have x: "y \<in> set (t_columns tb)" "c_name y = ''report_tag''" "c_type y = report_tags"
    by (auto simp: find_column_def find_Some_iff)
  from completed_col [OF head_distinct [OF tb] x(1), of now "next" row] assms(2) x(2)
  have "col (completed now next tb row) ''report_tag'' = FStr (rm_tag r)" by simp
  with tag x show ?thesis by (intro column_refused [OF tb x(1)]) (simp add: column_admits_def head_types)
qed

text \<open>Whoever is registered passes the model of the login with the name, the address and the password of the registration.\<close>

theorem registered_can_log_in:
  assumes "UserCreationModel p b = Inr u" and "i \<in> {uc_username u, uc_email u}"
  shows "UserLoginModel p [(''identity'', JStr i), (''password'', JStr (uc_password u))] = Inr \<lparr>ul_identity = i, ul_password = uc_password u\<rparr>"
proof -
  from assms(1) obtain j k l where read: "read_text p username_annotation j = Inr (Some (uc_username u))"
    "read_text p email_annotation k = Inr (Some (uc_email u))" "read_text p user_password_annotation l = Inr (Some (uc_password u))"
    by (auto simp: UserCreationModel_def model_simps)
  have "prepare username_annotation i = i \<and> prepare email_annotation i = i"
    using read(1,2) [THEN read_text_again] assms(2) by (auto simp: read_text_def split: if_splits)
  with read(1,2) [THEN read_text_passes] assms(2)
  have "generic_identity_annotation p (JStr i) = Inr (Some i)"
    by (auto simp: generic_identity_annotation_def read_text_def)
  with read_text_again [OF read(3)] show ?thesis by (simp add: UserLoginModel_def model_simps)
qed

text \<open>
  A value of another kind in the place of a text is not refused, it raises; and a post cannot be opened
  again without changing its title or body besides.
\<close>

theorem other_values_raise:
  assumes "map_of b n = Some j" and "\<forall>x. j \<noteq> JStr x"
  shows "n = ''email'' \<Longrightarrow> UserTicketModel p b = Inl AttributeError"
    and "n = ''username'' \<Longrightarrow> UserCreationModel p b = Inl AttributeError"
    and "n = ''identity'' \<Longrightarrow> UserLoginModel p b = Inl AttributeError"
    and "n = ''tag'' \<Longrightarrow> ReportModel p b = Inl AttributeError"
    and "n = ''body'' \<Longrightarrow> CommentModel p b = Inl AttributeError"
  using assms
  by (auto simp: UserTicketModel_def UserCreationModel_def UserLoginModel_def ReportModel_def CommentModel_def model_def and_field_def
      field_def read_text_other generic_identity_annotation_def)

theorem reopening_refused:
  assumes "pd_bool p (JBool False) = Some False" and "map_of b ''closed'' = Some (JBool False)"
    and "map_of b ''title'' = None" and "map_of b ''body'' = None"
  shows "PostAmendmentModel p b = Inl ValidationError"
  using assms by (simp add: PostAmendmentModel_def model_def and_field_def optional_field_def or_null_def read_bool_def given_def)

end
