(* ===== verification/Tenjin_Serialize.thy ===== *)
theory Tenjin_Serialize
  imports Tenjin_Events
begin

text \<open>
  The helpers of \<^verbatim>\<open>auxillary/utils.py\<close> that turn a dictionary into a hash of Redis and back, with the casts
  kept beside the mapped classes (\<^verbatim>\<open>models/database.py\<close>), and the handler of errors of both servers.
\<close>

section \<open>To a hash and back\<close>

text \<open>The cast of a value by its type; a list is joined, which wants texts.\<close>

fun redis_cast :: "pyval \<Rightarrow> exn + pyval" where
  "redis_cast PNone = Inr (PStr [])"
| "redis_cast (PBool b) = Inr (PInt (if b then 1 else 0))"
| "redis_cast (PDatetime t) = Inr (PStr t)"
| "redis_cast (PList xs) =
     bindE (traverse (\<lambda>x. case x of PStr s \<Rightarrow> Inr s | _ \<Rightarrow> Inl TypeError) xs) (\<lambda>ss. Inr (PStr (join '':'' ss)))"
| "redis_cast v = Inr v"

definition rediserialize :: "(string \<times> pyval) list \<Rightarrow> exn + (string \<times> pyval) list" where
  "rediserialize mapping = traverse (\<lambda>(k, v). bindE (redis_cast v) (\<lambda>x. Inr (k, x))) mapping"

definition pyserialize ::
  "(string \<times> string) list \<Rightarrow> (string \<rightharpoonup> (string \<Rightarrow> exn + pyval)) \<Rightarrow> bool \<Rightarrow> exn + (string \<times> pyval) list" where
  "pyserialize mapping casts strict =
     (if strict \<and> fst ` set mapping \<noteq> dom casts then Inl ValueError
      else traverse (\<lambda>(k, v). case casts k of
             None \<Rightarrow> Inr (k, PStr v)
           | Some f \<Rightarrow> bindE (f v) (\<lambda>x. Inr (k, x))) mapping)"

definition deserialize_bool :: "string \<Rightarrow> exn + pyval" where
  "deserialize_bool serial = bindE (py_int serial) (\<lambda>n. Inr (PBool (n \<noteq> 0)))"

definition deserialize_optional :: "string \<Rightarrow> exn + pyval" where
  "deserialize_optional serial = Inr (if serial = [] then PNone else PStr serial)"

definition deserialize_int :: "string \<Rightarrow> exn + pyval" where
  "deserialize_int serial = bindE (py_int serial) (\<lambda>n. Inr (PInt n))"

text \<open>What a client gets back of a hash that was written: the text of each value; the others are refused.\<close>

fun stored_text :: "pyval \<Rightarrow> exn + string" where
  "stored_text (PStr s) = Inr s"
| "stored_text (PBytes s) = Inr s"
| "stored_text (PInt n) = Inr (str_of_int n)"
| "stored_text _ = Inl TypeError"

definition through_redis :: "(string \<times> pyval) list \<Rightarrow> exn + (string \<times> string) list" where
  "through_redis mapping = bindE (rediserialize mapping) (traverse (\<lambda>(k, v). bindE (stored_text v) (\<lambda>s. Inr (k, s))))"

text \<open>A cast that gives back the value it was made for.\<close>

inductive casts_back :: "(string \<Rightarrow> exn + pyval) option \<Rightarrow> pyval \<Rightarrow> bool" where
  plain: "casts_back None (PStr s)"
| flag: "casts_back (Some deserialize_bool) (PBool b)"
| number: "casts_back (Some deserialize_int) (PInt n)"
| absent: "casts_back (Some deserialize_optional) PNone"
| present: "s \<noteq> [] \<Longrightarrow> casts_back (Some deserialize_optional) (PStr s)"

lemma casts_back_value:
  assumes "casts_back f v"
  shows "\<exists>x s. redis_cast v = Inr x \<and> stored_text x = Inr s \<and>
    (case f of None \<Rightarrow> v = PStr s | Some g \<Rightarrow> g s = Inr v)"
  using assms
proof cases
  case (flag b)
  then show ?thesis by (cases b) (auto simp: deserialize_bool_def text_simps)
qed (auto simp: deserialize_int_def deserialize_optional_def text_simps)

theorem hash_round_trip:
  assumes "\<forall>(k, v) \<in> set m. casts_back (casts k) v"
  shows "\<exists>h. through_redis m = Inr h \<and> map fst h = map fst m \<and> pyserialize h casts False = Inr m"
  using assms
proof (induction m)
  case (Cons p m)
  obtain k v where p: "p = (k, v)" by (cases p)
  from Cons obtain h where h: "through_redis m = Inr h" "map fst h = map fst m" "pyserialize h casts False = Inr m" by auto
  from Cons.prems p casts_back_value [of "casts k" v] obtain x s where
    x: "redis_cast v = Inr x" "stored_text x = Inr s" "case casts k of None \<Rightarrow> v = PStr s | Some g \<Rightarrow> g s = Inr v"
    by auto
  from x(1,2) h(1) have "through_redis (p # m) = Inr ((k, s) # h)"
    by (auto simp: p through_redis_def rediserialize_def bindE_eq_Inr_iff)
  with h x(3) show ?case
    by (auto simp: p pyserialize_def split: option.splits)
qed (simp add: through_redis_def rediserialize_def pyserialize_def)

text \<open>An empty text that may be left out comes back as nothing.\<close>

theorem empty_text_lost:
  "\<exists>h. through_redis [(''flair'', PStr [])] = Inr h \<and> pyserialize h [''flair'' \<mapsto> deserialize_optional] True = Inr [(''flair'', PNone)]"
  by (simp add: through_redis_def rediserialize_def pyserialize_def deserialize_optional_def)

section \<open>Errors\<close>

text \<open>What is not an error of HTTP is answered as one.\<close>

definition generic_error_handler :: "(exn \<Rightarrow> string) \<Rightarrow> exn \<Rightarrow> int \<times> string" where
  "generic_error_handler detail e =
     (case e of HTTPException status \<Rightarrow> (status, detail e) | _ \<Rightarrow> (500, ''An error occured''))"

end
