(* ===== verification/Spec2Isabelle.thy ===== *)
theory Spec2Isabelle
  imports Tenjin_Counters Tenjin_Dispatch Tenjin_Keystore Tenjin_Tokens Tenjin_Service Tenjin_Migrations Tenjin_Email Tenjin_Workers Tenjin_Auth_Schema Tenjin_Genesis Tenjin_Requests Tenjin_Serialize
begin

text \<open>
  A verification library for Tenjin, a forum for anime made of two web servers, a fleet of
  background workers and the libraries they share, all in Python over PostgreSQL and Redis.

  \<^bold>\<open>The program.\<close>  The auth server (\<^verbatim>\<open>src/auth_server\<close>) keeps the signing keys and the staff that rotates
  them, publishes the key set and issues the tokens.  The resource server (\<^verbatim>\<open>src/resource_server\<close>)
  serves users, forums, posts, comments and animes: a route checks the token with the keys it
  follows, reads through the cache, and turns every change into an event on a Redis stream
  instead of writing it to the database.  The workers (\<^verbatim>\<open>src/resource_database_workers\<close>,
  \<^verbatim>\<open>src/email_worker\<close>) read the streams, hand the events to queues, gather batches, drop what was seen
  before, write the batch to the database, acknowledge it together with its side effects on
  counters and caches, and pass on what a deletion leaves behind as events of its own; what cannot
  be written goes to a dead-letter stream.  \<^verbatim>\<open>src/resource_auxillary\<close> and \<^verbatim>\<open>src/auxillary\<close> hold what servers
  and workers share.

  \<^bold>\<open>How the code is translated.\<close>  A routine with effects is a function from a state to a result and a
  state, the result being an exception or a value (\<^verbatim>\<open>('s, 'a) py\<close> of \<^verbatim>\<open>Tenjin_Prelude\<close>); a pure routine
  that may raise gives an exception or a value.  \<open>bindM\<close>, \<open>tryM\<close> and \<open>finallyM\<close> are the sequence, the
  \<open>except\<close> and the \<open>finally\<close> of Python, so that a state changed before a raise stays changed.  Integers
  are unbounded, as in Python; the ranges of the types of PostgreSQL are part of the rows a table
  admits.  Moments are integers or texts, waiting is an action that is given.  Everything the
  model is not told how to do is a parameter: the connections to the database and to Redis, \<open>orjson\<close>,
  \<open>jwt\<close>, the hashes, the curves, the mail client, the clock, the random numbers, the order of sets and of
  unordered rows.  Of Redis there is in addition the documented meaning of the commands the code
  sends (\<open>run_cmd\<close>); the properties about it assume no more of the client than that a successful call
  did what the commands say (\<open>documented_redis\<close>), and the store itself is the instance that shows it
  can be.  Claims that the code gets a name, an argument or a unit wrong hold for that meaning.

  \<^bold>\<open>The theories\<close>, in the order they build on one another.
  \<^item> \<^verbatim>\<open>Tenjin_Prelude\<close>, \<^verbatim>\<open>Py_Text\<close>: exceptions, computations and their laws, invariants of computations
    (\<open>sure\<close>), the interfaces of codecs (\<^verbatim>\<open>codec\<close>) and of systems with an invariant (\<^verbatim>\<open>invariant_system\<close>);
    the parts of \<open>str\<close> and \<open>int\<close> the code uses.
  \<^item> \<^verbatim>\<open>Tenjin_Names\<close>, \<^verbatim>\<open>Tenjin_Redis\<close>, \<^verbatim>\<open>Tenjin_Retry\<close>, \<^verbatim>\<open>Tenjin_Base64\<close>: the enumerations and the keys of the cache
    (\<^verbatim>\<open>strings.py\<close>, \<^verbatim>\<open>cache.py\<close>), the commands of Redis, the retry loops with the contract both meet
    (\<^verbatim>\<open>retry_routine\<close>), and the numbers of a published key.
  \<^item> \<^verbatim>\<open>Tenjin_Events\<close>, \<^verbatim>\<open>Tenjin_Processing\<close>, \<^verbatim>\<open>Tenjin_Sql\<close>, \<^verbatim>\<open>Tenjin_Batch\<close>, \<^verbatim>\<open>Tenjin_Insertions\<close>, \<^verbatim>\<open>Tenjin_Downstream\<close>,
    \<^verbatim>\<open>Tenjin_Consumers\<close>, \<^verbatim>\<open>Tenjin_Counters\<close>, \<^verbatim>\<open>Tenjin_Dispatch\<close>, \<^verbatim>\<open>Tenjin_Workers\<close>, \<^verbatim>\<open>Tenjin_Email\<close>: an event from the
    stream to the database, file by file (\<^verbatim>\<open>events.py\<close>, \<^verbatim>\<open>event_processing\<close>, \<^verbatim>\<open>templates\<close>, \<^verbatim>\<open>tasks\<close>,
    \<^verbatim>\<open>datastructures\<close>, \<^verbatim>\<open>workers\<close>, \<^verbatim>\<open>utils\<close>), the start and the supervision of workers, and the email worker.
  \<^item> \<^verbatim>\<open>Tenjin_Cache\<close>, \<^verbatim>\<open>Tenjin_Server\<close>, \<^verbatim>\<open>Tenjin_Access\<close>, \<^verbatim>\<open>Tenjin_Anime\<close>, \<^verbatim>\<open>Tenjin_Forum\<close>, \<^verbatim>\<open>Tenjin_Posts\<close>, \<^verbatim>\<open>Tenjin_Comments\<close>,
    \<^verbatim>\<open>Tenjin_Users\<close>, \<^verbatim>\<open>Tenjin_Service\<close>: the cache manager and its result objects, the world a route runs in
    (tables as lists of rows, a Redis, the parameters), the keys and tokens the server accepts,
    the repositories and all routes, and last the server as a whole: its requests, and the worlds
    that a sequence of them can reach.  \<^verbatim>\<open>Tenjin_Config\<close>: what settings are accepted, and what they mean
    for the cache.
  \<^item> \<^verbatim>\<open>Tenjin_Admin\<close>, \<^verbatim>\<open>Tenjin_Keys\<close>, \<^verbatim>\<open>Tenjin_Keystore\<close>, \<^verbatim>\<open>Tenjin_Tokens\<close>: staff accounts and sessions, the table of keys
    and the keys a process holds, rotation, invalidation, cleaning and start of the key store with
    every place where they can fail, and the tokens.
  \<^item> \<^verbatim>\<open>Tenjin_Schema\<close>, \<^verbatim>\<open>Tenjin_Tables\<close>, \<^verbatim>\<open>Tenjin_Alembic\<close>, \<^verbatim>\<open>Tenjin_Migrations\<close>, \<^verbatim>\<open>Tenjin_Auth_Schema\<close>: the statements that change a
    schema, the mapped classes, and all migrations of both servers.  The routes are modelled over
    the tables of the mapped classes; the migrations lead to tables that differ in keys, labels and
    defaults, which is what the properties about them say.  \<^verbatim>\<open>Tenjin_Genesis\<close>: the script that fills the
    tables of the resource server, over transactions with savepoints.  \<^verbatim>\<open>Tenjin_Requests\<close>: the models of
    requests, and which of the texts that pass the migrated tables take.  \<^verbatim>\<open>Tenjin_Serialize\<close>: the helpers for
    hashes of Redis (\<^verbatim>\<open>auxillary/utils.py\<close>).

  \<^bold>\<open>The locales.\<close>  \<^verbatim>\<open>codec\<close> is interpreted by every enumeration, by the numbers and by the keys of the
  cache; \<^verbatim>\<open>retry_routine\<close> by the two retry loops; \<^verbatim>\<open>invariant_system\<close> by the key store, by the keys of a process
  and by the whole resource server; \<^verbatim>\<open>trusted_cache\<close>, a cache whose entries satisfy a predicate
  whoever writes them, by the cache of forum admins, and its extensions \<^verbatim>\<open>pageless_cache\<close> and
  \<^verbatim>\<open>trusted_strings\<close> by the cache of the idle server.

  \<^bold>\<open>What is shown.\<close>  The texts before the properties C1 to C40 say it one by one.  In groups:
  \<^item> \<^emph>\<open>Auth server.\<close>  The key store always has one active key, and publishes it last as long as the key set file
    can be written, in every world its operations can reach; a failed invalidation that is answered as such is
    undone; a slave starts with the keys of its master; a process always holds an active key and its
    poller converges.  Against what is meant: a rotation leaves the process signing with the old key, and its
    key unpublished if the key set cannot be written after the commit; an invalidation that fails once it has removed the public
    file does not restore it; a restart reverses the order of the key
    set so that the next rotation unpublishes a valid key, no refresh token is ever issued, and the
    report of one account locks all.
  \<^item> \<^emph>\<open>Resource server.\<close>  A read through the cache refines a read of the database and keeps the cache sound;
    the guard of actions has exactly the listed outcomes; owners of forums stay owners; an update of the
    keys leaves those of the key set.
    Against what is meant: a follower outlives the lock of its leader, the
    reset of passwords has its test inverted, and, as a property of the composition of cache,
    result objects, repositories and routes, no request of the modelled service (its type \<open>request\<close>, which
    leaves out the routes that change the admins of a forum and the editing of a forum) is ever answered with content, the list of genres
    excepted.
  \<^item> \<^emph>\<open>Workers.\<close>  The turns of the dispatchers give each queue its events, deduplication keeps each fresh event once,
    a group of counters is processed under its lock, committing a batch adds up its counters, the retries give
    the first success, and the backoff is bounded in every accepted configuration.  Against what is meant: no worker starts,
    as a statement made on import cannot be composed; a turn of a consumer never completes, no event is reported
    as inserted, a group of counters is lost, and a batch of mails never ends without an exception.
  \<^item> \<^emph>\<open>Databases.\<close>  Additive migrations are undone exactly; the migrations of both servers lead to the columns of their
    classes, except for the labels of enumerations that are listed; which accepted texts the
    migrated tables take or refuse; and what becomes of an anime the filling script cannot insert.

  \<^bold>\<open>Bounds and fuel.\<close>  \<open>page_loop\<close> is given more steps than there are rows, and a lemma about it says that the
  loop then ends, over a selection that can be made; the recursion of \<open>elect_leader\<close> is on the configured number of retries, that of \<open>wait_for_leader\<close> on the
  number of waits; \<open>path\<close> has a step for every script.  Loops that need not end
  (\<open>populate\<close>, \<open>send_loop\<close>) are partial functions into options: for the first it is shown that it does not end, for
  the second that it always does.  The endless loop over the groups of counters is
  modelled for a number of turns, the other endless loops of the workers and pollers by their turn.

  \<^bold>\<open>Not modelled.\<close>  The scheduling of \<open>asyncio\<close>: a task runs from await to await, and interleavings are modelled where
  a lock is about them (the leaders of the cache).  Start-up, dependency wiring and the sources of
  settings (\<^verbatim>\<open>main.py\<close>, \<^verbatim>\<open>dependencies.py\<close>, \<^verbatim>\<open>env.py\<close> but for its transaction): they call the modelled parts and
  libraries.  The conversions of Pydantic: the models of requests are modelled, with parameters for them, but a
  route is modelled for any values, which is more than passes them.  Protocols and type variables (\<^verbatim>\<open>typing_utils.py\<close>, \<^verbatim>\<open>typing.py\<close>): they have no behaviour.  Middleware of
  cookies and headers, tests and tooling under \<^verbatim>\<open>.pre-commit\<close>.
\<close>

end
